(* ===== verification/Prelude.thy ===== *)
theory Prelude
  imports Main "HOL-Library.Word"
begin

text \<open>
  Shared vocabulary of the development: the machine integers of the plugin, the outcome type of
  the PFCP decoders, the read and write macros of \<^verbatim>\<open>src/upf/pfcp.c\<close> and the laws that connect
  them, and the interface (a locale) that every information element codec implements.

  A C pointer into a received buffer is modelled by the list of bytes from that pointer to the
  end of the buffer, so that advancing the pointer is \<^const>\<open>drop\<close> and reading past the end of the
  buffer is visible: it is the outcome \<open>Fault\<close>.
\<close>

unbundle bit_operations_syntax

type_synonym u8 = "8 word"
type_synonym u16 = "16 word"
type_synonym u32 = "32 word"
type_synonym u64 = "64 word"
type_synonym ip4_address = "32 word"
type_synonym ip6_address = "128 word"
type_synonym ip46_address = "128 word"
type_synonym bytes = "u8 list"

named_theorems codec_defs \<open>definitions of the information element codecs\<close>
named_theorems codec_ok \<open>well-formedness predicates of the values the codecs carry\<close>

section \<open>Bit masks\<close>

text \<open>\<^verbatim>\<open>BIT\<close>, \<^verbatim>\<open>SET_BIT\<close> and \<^verbatim>\<open>ISSET_BIT\<close> of \<^verbatim>\<open>pfcp.h\<close>.\<close>

definition BIT :: "nat \<Rightarrow> 'a::len word" where
  "BIT n = push_bit n 1"

definition SET_BIT :: "'a::len word \<Rightarrow> nat \<Rightarrow> 'a word" where
  "SET_BIT w n = w OR BIT n"

definition ISSET_BIT :: "'a::len word \<Rightarrow> nat \<Rightarrow> bool" where
  "ISSET_BIT w n \<longleftrightarrow> w AND BIT n \<noteq> 0"

lemma ISSET_BIT_bit [simp]: "ISSET_BIT w n \<longleftrightarrow> bit w n"
  by (simp add: ISSET_BIT_def BIT_def push_bit_of_1 and_exp_eq_0_iff_not_bit)

lemma and_BIT_eq_0 [simp]: "w AND BIT n = 0 \<longleftrightarrow> \<not> bit w n"
  by (simp add: BIT_def push_bit_of_1 and_exp_eq_0_iff_not_bit)

lemma and_or_eq_0 [simp]:
  "(w :: 'a::len word) AND (a OR b) = 0 \<longleftrightarrow> w AND a = 0 \<and> w AND b = 0"
  by (simp add: bit.conj_disj_distrib or_eq_0_iff)

lemma bit_BIT [simp]: "bit (BIT n :: 'a::len word) m \<longleftrightarrow> m = n \<and> n < LENGTH('a)"
  by (auto simp: BIT_def bit_simps)

lemma bit_if_BIT [simp]:
  "bit (if c then BIT n else (0 :: 'a::len word)) m \<longleftrightarrow> c \<and> m = n \<and> n < LENGTH('a)"
  by simp

lemma bit_SET_BIT: "bit (SET_BIT (w :: 'a::len word) n) m \<longleftrightarrow> bit w m \<or> (m = n \<and> n < LENGTH('a))"
  by (auto simp: SET_BIT_def BIT_def bit_simps)

text \<open>\<^verbatim>\<open>__builtin_popcount\<close> on the flag octets.\<close>

definition popcount :: "'a::len word \<Rightarrow> nat" where
  "popcount w = length (filter (bit w) [0..<LENGTH('a)])"

section \<open>Causes and decoder outcomes\<close>

abbreviation PFCP_CAUSE_REQUEST_ACCEPTED :: int where "PFCP_CAUSE_REQUEST_ACCEPTED \<equiv> 1"
abbreviation PFCP_CAUSE_REQUEST_REJECTED :: int where "PFCP_CAUSE_REQUEST_REJECTED \<equiv> 64"
abbreviation PFCP_CAUSE_MANDATORY_IE_MISSING :: int where "PFCP_CAUSE_MANDATORY_IE_MISSING \<equiv> 66"
abbreviation PFCP_CAUSE_INVALID_LENGTH :: int where "PFCP_CAUSE_INVALID_LENGTH \<equiv> 68"

text \<open>
  What a decoder does with its input: it returns 0 and leaves a value in \<^verbatim>\<open>*p\<close> (\<open>Done\<close>), it
  returns a non-zero code (\<open>Reject\<close>, a PFCP cause or \<open>-1\<close>), or it reads a byte that is not part of
  the buffer (\<open>Fault\<close>).
\<close>

datatype 'a dec = Done 'a | Reject int | Fault

section \<open>Big-endian words\<close>

definition word_of_be :: "bytes \<Rightarrow> 'a::len word" where
  "word_of_be bs = foldl (\<lambda>w b. push_bit 8 w OR ucast b) 0 bs"

primrec bytes_be :: "nat \<Rightarrow> 'a::len word \<Rightarrow> bytes" where
  "bytes_be 0 w = []"
| "bytes_be (Suc n) w = ucast (drop_bit (8 * n) w) # bytes_be n w"

lemma take_bit_full [simp]: "LENGTH('a) \<le> n \<Longrightarrow> take_bit n (w :: 'a::len word) = w"
  by (rule bit_word_eqI) (auto simp: bit_simps)

lemma take_bit_small: "unat (w :: 'a::len word) < 2 ^ n \<Longrightarrow> take_bit n w = w"
  by (simp add: word_unat_eq_iff unsigned_take_bit_eq take_bit_nat_eq_self)

lemma length_bytes_be [simp]: "length (bytes_be n w) = n"
  by (induction n) auto

lemma foldl_bytes_be:
  fixes acc w :: "'a::len word"
  shows "foldl (\<lambda>w b. push_bit 8 w OR ucast b) acc (bytes_be n w) =
    push_bit (8 * n) acc OR take_bit (8 * n) w"
proof (induction n arbitrary: acc)
  case 0
  then show ?case by simp
next
  case (Suc n)
  have "push_bit (8 * n) (push_bit 8 acc OR ucast (ucast (drop_bit (8 * n) w) :: u8))
      OR take_bit (8 * n) w = push_bit (8 * Suc n) acc OR take_bit (8 * Suc n) w"
    by (rule bit_word_eqI) (auto simp: bit_simps not_less less_diff_conv2 add.commute intro: bit_imp_le_length)
  with Suc.IH show ?case by simp
qed

lemma word_of_be_bytes_be [simp]:
  "word_of_be (bytes_be n (w :: 'a::len word)) = take_bit (8 * n) w"
  by (simp add: word_of_be_def foldl_bytes_be)

section \<open>The read and write macros\<close>

text \<open>
  Functions of VPP that the codecs call and that are not part of this repository: parsing and
  printing an address, the test whether an \<^verbatim>\<open>ip46_address_t\<close> holds an IPv4 address, and storing one in
  it. \<open>vec_slack n\<close> says whether the allocator of the vectors left \<open>n\<close> octets behind the last one of a
  vector that may be accessed; only one encoder does so. They are parameters of the model, collected
  in a record.
\<close>

datatype ip46_type = IP46_TYPE_ANY | IP46_TYPE_IP4 | IP46_TYPE_IP6

record vlib =
  unformat_ip46_address :: "ip46_type \<Rightarrow> bytes \<Rightarrow> ip46_address option"
  format_ip46_address :: "ip46_address \<Rightarrow> bytes"
  ip46_address_is_ip4 :: "ip46_address \<Rightarrow> bool"
  ip46_address_set_ip4 :: "ip4_address \<Rightarrow> ip46_address"
  vec_slack :: "nat \<Rightarrow> bool"

text \<open>
  A read macro \<^verbatim>\<open>get_X (data)\<close> yields the value and advances \<^verbatim>\<open>data\<close>; here it passes both to
  its continuation. A write macro \<^verbatim>\<open>put_X (vec, v)\<close> appends the octets it is modelled by. Addresses
  are copied as they are in memory, that is in network order; they are modelled by their value in
  that order, and an \<^verbatim>\<open>ip46_address_t\<close> by the 16 octets of the union, whose \<^verbatim>\<open>ip4\<close> member is
  the last four.
\<close>

definition get_be :: "nat \<Rightarrow> bytes \<Rightarrow> ('a::len word \<Rightarrow> bytes \<Rightarrow> 'b dec) \<Rightarrow> 'b dec" where
  "get_be n data k = (if length data < n then Fault else k (word_of_be (take n data)) (drop n data))"

definition get_u8 :: "bytes \<Rightarrow> (u8 \<Rightarrow> bytes \<Rightarrow> 'b dec) \<Rightarrow> 'b dec" where
  "get_u8 data k = (case data of [] \<Rightarrow> Fault | b # data' \<Rightarrow> k b data')"

definition get_u16 :: "bytes \<Rightarrow> (u16 \<Rightarrow> bytes \<Rightarrow> 'b dec) \<Rightarrow> 'b dec" where
  "get_u16 = get_be 2"

definition get_u16_little :: "bytes \<Rightarrow> (u16 \<Rightarrow> bytes \<Rightarrow> 'b dec) \<Rightarrow> 'b dec" where
  "get_u16_little data k =
     (if length data < 2 then Fault else k (word_of_be (rev (take 2 data))) (drop 2 data))"

definition get_u24 :: "bytes \<Rightarrow> (u32 \<Rightarrow> bytes \<Rightarrow> 'b dec) \<Rightarrow> 'b dec" where
  "get_u24 = get_be 3"

definition get_u32 :: "bytes \<Rightarrow> (u32 \<Rightarrow> bytes \<Rightarrow> 'b dec) \<Rightarrow> 'b dec" where
  "get_u32 = get_be 4"

definition get_u40 :: "bytes \<Rightarrow> (u64 \<Rightarrow> bytes \<Rightarrow> 'b dec) \<Rightarrow> 'b dec" where
  "get_u40 = get_be 5"

definition get_u64 :: "bytes \<Rightarrow> (u64 \<Rightarrow> bytes \<Rightarrow> 'b dec) \<Rightarrow> 'b dec" where
  "get_u64 = get_be 8"

definition get_ip4 :: "bytes \<Rightarrow> (ip4_address \<Rightarrow> bytes \<Rightarrow> 'b dec) \<Rightarrow> 'b dec" where
  "get_ip4 = get_be 4"

definition get_ip6 :: "bytes \<Rightarrow> (ip6_address \<Rightarrow> bytes \<Rightarrow> 'b dec) \<Rightarrow> 'b dec" where
  "get_ip6 = get_be 16"

definition get_ip46_ip4 :: "vlib \<Rightarrow> bytes \<Rightarrow> (ip46_address \<Rightarrow> bytes \<Rightarrow> 'b dec) \<Rightarrow> 'b dec" where
  "get_ip46_ip4 lib data k = get_ip4 data (\<lambda>ip. k (ip46_address_set_ip4 lib ip))"

definition get_ip46_ip6 :: "bytes \<Rightarrow> (ip46_address \<Rightarrow> bytes \<Rightarrow> 'b dec) \<Rightarrow> 'b dec" where
  "get_ip46_ip6 = get_ip6"

definition get_mac :: "bytes \<Rightarrow> (48 word \<Rightarrow> bytes \<Rightarrow> 'b dec) \<Rightarrow> 'b dec" where
  "get_mac = get_be 6"

definition get_vec :: "nat \<Rightarrow> bytes \<Rightarrow> (bytes \<Rightarrow> bytes \<Rightarrow> 'b dec) \<Rightarrow> 'b dec" where
  "get_vec l data k = (if length data < l then Fault else k (take l data) (drop l data))"

definition put_u8 :: "u8 \<Rightarrow> bytes" where
  "put_u8 w = [w]"

definition put_u16 :: "u16 \<Rightarrow> bytes" where
  "put_u16 w = bytes_be 2 w"

definition put_u16_little :: "u16 \<Rightarrow> bytes" where
  "put_u16_little w = rev (bytes_be 2 w)"

definition put_u24 :: "u32 \<Rightarrow> bytes" where
  "put_u24 w = bytes_be 3 w"

definition put_u32 :: "u32 \<Rightarrow> bytes" where
  "put_u32 w = bytes_be 4 w"

definition put_u40 :: "u64 \<Rightarrow> bytes" where
  "put_u40 w = bytes_be 5 w"

definition put_u64 :: "u64 \<Rightarrow> bytes" where
  "put_u64 w = bytes_be 8 w"

definition put_ip4 :: "ip4_address \<Rightarrow> bytes" where
  "put_ip4 ip = bytes_be 4 ip"

definition put_ip6 :: "ip6_address \<Rightarrow> bytes" where
  "put_ip6 ip = bytes_be 16 ip"

definition put_mac :: "48 word \<Rightarrow> bytes" where
  "put_mac m = bytes_be 6 m"

definition put_ip46_ip4 :: "ip46_address \<Rightarrow> bytes" where
  "put_ip46_ip4 ip = put_ip4 (ucast ip)"

definition put_ip46_ip6 :: "ip46_address \<Rightarrow> bytes" where
  "put_ip46_ip6 ip = put_ip6 ip"

text \<open>\<^verbatim>\<open>length -= n\<close> on a \<^verbatim>\<open>u16\<close>: lengths are natural numbers below \<open>2 ^ 16\<close>, and the subtraction
  wraps around.\<close>

definition sub16 :: "nat \<Rightarrow> nat \<Rightarrow> nat" where
  "sub16 a b = (if b \<le> a then a - b else a + 2 ^ 16 - b)"

lemma sub16_le [simp]: "b \<le> a \<Longrightarrow> sub16 a b = a - b"
  by (simp add: sub16_def)

subsection \<open>Reading back what was written\<close>

lemma get_be_bytes_be [simp]:
  "8 * n = LENGTH('a) \<Longrightarrow> get_be n (bytes_be n (w :: 'a::len word) @ data) k = k w data"
  by (simp add: get_be_def)

lemma get_u8_Cons [simp]: "get_u8 (b # data) k = k b data"
  by (simp add: get_u8_def)

lemma get_u8_put [simp]: "get_u8 (put_u8 w @ data) k = k w data"
  by (simp add: put_u8_def)

lemma get_u16_put [simp]: "get_u16 (put_u16 w @ data) k = k w data"
  by (simp add: get_u16_def put_u16_def)

lemma get_u16_little_put [simp]: "get_u16_little (put_u16_little w @ data) k = k w data"
  by (simp add: get_u16_little_def put_u16_little_def)

lemma get_u24_put [simp]: "get_u24 (put_u24 w @ data) k = k (take_bit 24 w) data"
  by (simp add: get_u24_def put_u24_def get_be_def)

lemma get_u32_put [simp]: "get_u32 (put_u32 w @ data) k = k w data"
  by (simp add: get_u32_def put_u32_def)

lemma get_u40_put [simp]: "get_u40 (put_u40 w @ data) k = k (take_bit 40 w) data"
  by (simp add: get_u40_def put_u40_def get_be_def)

lemma get_u64_put [simp]: "get_u64 (put_u64 w @ data) k = k w data"
  by (simp add: get_u64_def put_u64_def)

lemma get_ip4_put [simp]: "get_ip4 (put_ip4 w @ data) k = k w data"
  by (simp add: get_ip4_def put_ip4_def)

lemma get_ip6_put [simp]: "get_ip6 (put_ip6 w @ data) k = k w data"
  by (simp add: get_ip6_def put_ip6_def)

lemma get_mac_put [simp]: "get_mac (put_mac w @ data) k = k w data"
  by (simp add: get_mac_def put_mac_def)

lemma get_ip46_ip4_put [simp]:
  "get_ip46_ip4 lib (put_ip46_ip4 w @ data) k = k (ip46_address_set_ip4 lib (ucast w)) data"
  by (simp add: get_ip46_ip4_def put_ip46_ip4_def)

lemma get_ip46_ip6_put [simp]: "get_ip46_ip6 (put_ip46_ip6 w @ data) k = k w data"
  by (simp add: get_ip46_ip6_def put_ip46_ip6_def)

lemma get_vec_append [simp]: "l = length v \<Longrightarrow> get_vec l (v @ data) k = k v data"
  by (simp add: get_vec_def)

lemma length_puts [simp]:
  "length (put_u8 a) = 1" "length (put_u16 b) = 2" "length (put_u16_little b) = 2"
  "length (put_u24 c) = 3" "length (put_u32 c) = 4" "length (put_u40 d) = 5"
  "length (put_u64 d) = 8" "length (put_ip4 e) = 4" "length (put_ip6 f) = 16"
  "length (put_ip46_ip4 f) = 4" "length (put_ip46_ip6 f) = 16" "length (put_mac g) = 6"
  by (simp_all add: put_u8_def put_u16_def put_u16_little_def put_u24_def put_u32_def put_u40_def
      put_u64_def put_ip4_def put_ip6_def put_ip46_ip4_def put_ip46_ip6_def put_mac_def)

lemma bit_and_eq: "w AND m = (w :: 'a::len word) \<Longrightarrow> bit w i \<Longrightarrow> bit m i"
  by (metis bit_and_iff)

lemma less_8: "bitno < (8 :: nat) \<longleftrightarrow> bitno = 7 \<or> bitno = 6 \<or> bitno = 5 \<or> bitno = 4
    \<or> bitno = 3 \<or> bitno = 2 \<or> bitno = 1 \<or> bitno = 0"
  by linarith

lemma less_16: "bitno < (16 :: nat) \<longleftrightarrow> bitno = 15 \<or> bitno = 14 \<or> bitno = 13 \<or> bitno = 12
    \<or> bitno = 11 \<or> bitno = 10 \<or> bitno = 9 \<or> bitno = 8 \<or> bitno < 8"
  by linarith

lemma u8_eqI: "(\<And>n. n < 8 \<Longrightarrow> bit a n = bit b n) \<Longrightarrow> a = (b :: u8)"
  by (rule bit_word_eqI) simp

lemma u16_eqI: "(\<And>n. n < 16 \<Longrightarrow> bit a n = bit b n) \<Longrightarrow> a = (b :: u16)"
  by (rule bit_word_eqI) simp

lemma put_u16_octets: "put_u16 w = [ucast (drop_bit 8 w), ucast w]"
  by (simp add: put_u16_def eval_nat_numeral)

lemma nibble_and: "(w :: u8) AND 15 = take_bit 4 w"
  by (simp add: take_bit_eq_mask mask_eq_exp_minus_1)

lemma nibble_drop_push: "take_bit 4 u = (u :: u8) \<Longrightarrow> drop_bit 4 (push_bit 4 u) = u"
proof (rule bit_word_eqI)
  fix i assume "take_bit 4 u = u"
  then have "bit u i \<Longrightarrow> i < 4" by (metis bit_take_bit_iff)
  then show "bit (drop_bit 4 (push_bit 4 u)) i = bit u i" by (auto simp: bit_simps)
qed

lemma nibble_drop: "take_bit 4 w = (w :: u8) \<Longrightarrow> drop_bit 4 w = 0"
  by (metis drop_bit_take_bit take_bit_0 diff_self_eq_0)

lemma nibble_take_push: "take_bit 4 (push_bit 4 w :: u8) = 0"
  by (simp add: take_bit_push_bit)

lemmas nibble_simps = nibble_and nibble_drop_push nibble_drop nibble_take_push

lemma word_less_2: "(v :: u8) < 2 \<Longrightarrow> v = 0 \<or> v = 1"
  by unat_arith

lemma word_less_4: "(v :: u8) < 4 \<Longrightarrow> v = 0 \<or> v = 1 \<or> v = 2 \<or> v = 3"
  by unat_arith

lemma word_less_6: "(v :: u8) < 6 \<Longrightarrow> v = 0 \<or> v = 1 \<or> v = 2 \<or> v = 3 \<or> v = 4 \<or> v = 5"
  by unat_arith

lemmas get_defs = get_be_def get_u8_def get_u16_def get_u16_little_def get_u24_def get_u32_def
  get_u40_def get_u64_def get_ip4_def get_ip6_def get_ip46_ip4_def get_ip46_ip6_def get_mac_def get_vec_def

lemmas put_defs = put_u8_def put_u16_def put_u16_little_def put_u24_def put_u32_def put_u40_def
  put_u64_def put_ip4_def put_ip6_def put_ip46_ip4_def put_ip46_ip6_def put_mac_def

subsection \<open>Optional fields\<close>

text \<open>
  The recurring shape of an optional field: if its flag is set, check the remaining length, read the
  field and reduce the length; otherwise the field keeps the zero the structure was cleared to.
  \<open>opt_vec\<close> is the same for a vector behind a two-octet length, \<open>sel_field\<close> for a field whose length
  was checked before.
\<close>

definition opt_field ::
    "bool \<Rightarrow> nat \<Rightarrow> (bytes \<Rightarrow> ('w \<Rightarrow> bytes \<Rightarrow> 'b dec) \<Rightarrow> 'b dec) \<Rightarrow> 'w \<Rightarrow> bytes \<Rightarrow> nat
      \<Rightarrow> ('w \<Rightarrow> bytes \<Rightarrow> nat \<Rightarrow> 'b dec) \<Rightarrow> 'b dec" where
  "opt_field c n get z data len k =
     (if c then (if len < n then Reject PFCP_CAUSE_INVALID_LENGTH
                 else get data (\<lambda>w data'. k w data' (len - n)))
      else k z data len)"

definition opt_vec :: "bool \<Rightarrow> bytes \<Rightarrow> nat \<Rightarrow> (bytes \<Rightarrow> bytes \<Rightarrow> nat \<Rightarrow> 'b dec) \<Rightarrow> 'b dec" where
  "opt_vec c data len k =
     (if c then (if len < 2 then Reject PFCP_CAUSE_INVALID_LENGTH
        else get_u16 data (\<lambda>l data'.
          if len - 2 < unat l then Reject PFCP_CAUSE_INVALID_LENGTH
          else get_vec (unat l) data' (\<lambda>v data''. k v data'' (len - 2 - unat l))))
      else k [] data len)"

definition sel_field ::
    "bool \<Rightarrow> (bytes \<Rightarrow> ('w \<Rightarrow> bytes \<Rightarrow> 'b dec) \<Rightarrow> 'b dec) \<Rightarrow> 'w \<Rightarrow> bytes
      \<Rightarrow> ('w \<Rightarrow> bytes \<Rightarrow> 'b dec) \<Rightarrow> 'b dec" where
  "sel_field c get z data k = (if c then get data k else k z data)"

definition opt_put :: "bool \<Rightarrow> bytes \<Rightarrow> bytes" where
  "opt_put c bs = (if c then bs else [])"

definition put_vec16 :: "bytes \<Rightarrow> bytes" where
  "put_vec16 v = put_u16 (of_nat (length v)) @ v"

lemma length_opt_put [simp]: "length (opt_put c bs) = of_bool c * length bs"
  by (simp add: opt_put_def)

lemma length_put_vec16 [simp]: "length (put_vec16 v) = 2 + length v"
  by (simp add: put_vec16_def)

lemma opt_field_put:
  assumes "c \<Longrightarrow> n \<le> len" "\<not> c \<Longrightarrow> w = z"
    "\<And>k. get (bs @ rest) k = (k w rest :: 'b dec)"
  shows "opt_field c n get z (opt_put c bs @ rest) len k = (k w rest (len - of_bool c * n) :: 'b dec)"
  using assms by (auto simp: opt_field_def opt_put_def)

lemma sel_field_put_u64 [simp]:
  "(\<not> c \<Longrightarrow> w = z) \<Longrightarrow> sel_field c get_u64 z (opt_put c (put_u64 w) @ rest) k = k w rest"
  by (auto simp: sel_field_def opt_put_def)

lemma opt_vec_put:
  assumes "c \<Longrightarrow> 2 + length v \<le> len" "\<not> c \<Longrightarrow> v = []" "length v < 2 ^ 16"
  shows "opt_vec c (opt_put c (put_vec16 v) @ rest) len k =
    k v rest (len - of_bool c * (2 + length v))"
  using assms by (auto simp: opt_vec_def opt_put_def put_vec16_def unat_of_nat)

lemmas opt_field_puts [simp] =
  opt_field_put [of _ _ _ _ _ get_u8 "put_u8 w" for w, OF _ _ get_u8_put]
  opt_field_put [of _ _ _ _ _ get_u16 "put_u16 w" for w, OF _ _ get_u16_put]
  opt_field_put [of _ _ _ _ _ get_u24 "put_u24 w" for w, OF _ _ get_u24_put]
  opt_field_put [of _ _ _ _ _ get_u32 "put_u32 w" for w, OF _ _ get_u32_put]
  opt_field_put [of _ _ _ _ _ get_u64 "put_u64 w" for w, OF _ _ get_u64_put]
  opt_field_put [of _ _ _ _ _ get_ip4 "put_ip4 w" for w, OF _ _ get_ip4_put]
  opt_field_put [of _ _ _ _ _ get_ip6 "put_ip6 w" for w, OF _ _ get_ip6_put]
  opt_field_put [of _ _ _ _ _ "get_ip46_ip4 lib" "put_ip46_ip4 w" for lib w, OF _ _ get_ip46_ip4_put]
  opt_field_put [of _ _ _ _ _ get_ip46_ip6 "put_ip46_ip6 w" for w, OF _ _ get_ip46_ip6_put]
  opt_field_put [of _ _ _ _ _ get_mac "put_mac w" for w, OF _ _ get_mac_put]
  opt_vec_put

text \<open>The same where the flag is known.\<close>

lemma opt_put_simps [simp]: "opt_put True bs = bs" "opt_put False bs = []"
  by (simp_all add: opt_put_def)

lemma opt_known [simp]:
  "n \<le> len \<Longrightarrow> opt_field True n get z data len k = get data (\<lambda>w data'. k w data' (len - n))"
  "opt_field False n get z data len k = k z data len"
  "sel_field True get z data k2 = get data k2"
  "sel_field False get z data k2 = k2 z data"
  "opt_vec False data len k3 = k3 [] data len"
  by (simp_all add: opt_field_def sel_field_def opt_vec_def)

lemma opt_vec_True [simp]: "length v < 2 ^ 16 \<Longrightarrow> 2 + length v \<le> len \<Longrightarrow>
    opt_vec True (put_vec16 v @ rest) len k = k v rest (len - (2 + length v))"
  using opt_vec_put [of True v len rest k] by simp

subsection \<open>Staying inside the buffer\<close>

lemma get_be_Fault: "get_be n data k = Fault \<longleftrightarrow>
    length data < n \<or> k (word_of_be (take n data)) (drop n data) = Fault"
  by (simp add: get_be_def)

lemma get_u8_Fault: "get_u8 data k = Fault \<longleftrightarrow> length data < 1 \<or> k (hd data) (drop 1 data) = Fault"
  by (cases data) (auto simp: get_u8_def)

lemma get_u16_little_Fault: "get_u16_little data k = Fault \<longleftrightarrow>
    length data < 2 \<or> k (word_of_be (rev (take 2 data))) (drop 2 data) = Fault"
  by (simp add: get_u16_little_def)

lemma get_vec_Fault: "get_vec l data k = Fault \<longleftrightarrow> length data < l \<or> k (take l data) (drop l data) = Fault"
  by (simp add: get_vec_def)

lemma opt_field_Fault: "opt_field c n get z data len k = Fault \<longleftrightarrow>
    (if c then n \<le> len \<and> get data (\<lambda>w data'. k w data' (len - n)) = Fault
     else k z data len = Fault)"
  by (auto simp: opt_field_def)

lemma sel_field_Fault: "sel_field c get z data k = Fault \<longleftrightarrow>
    (if c then get data k = Fault else k z data = Fault)"
  by (simp add: sel_field_def)

lemma opt_vec_Fault: "opt_vec c data len k = Fault \<longleftrightarrow>
    (if c then 2 \<le> len \<and> (length data < 2 \<or>
       (let l = unat (word_of_be (take 2 data) :: u16) in
        l \<le> len - 2 \<and> (length data - 2 < l \<or>
          k (take l (drop 2 data)) (drop l (drop 2 data)) (len - 2 - l) = Fault)))
     else k [] data len = Fault)"
  by (auto simp: opt_vec_def get_u16_def get_be_def get_vec_def Let_def)

lemma get_word_Fault:
  "get_u16 data k1 = Fault \<longleftrightarrow> length data < 2 \<or> k1 (word_of_be (take 2 data)) (drop 2 data) = Fault"
  "get_u24 data k2 = Fault \<longleftrightarrow> length data < 3 \<or> k2 (word_of_be (take 3 data)) (drop 3 data) = Fault"
  "get_u32 data k3 = Fault \<longleftrightarrow> length data < 4 \<or> k3 (word_of_be (take 4 data)) (drop 4 data) = Fault"
  "get_u40 data k4 = Fault \<longleftrightarrow> length data < 5 \<or> k4 (word_of_be (take 5 data)) (drop 5 data) = Fault"
  "get_u64 data k5 = Fault \<longleftrightarrow> length data < 8 \<or> k5 (word_of_be (take 8 data)) (drop 8 data) = Fault"
  "get_ip4 data k6 = Fault \<longleftrightarrow> length data < 4 \<or> k6 (word_of_be (take 4 data)) (drop 4 data) = Fault"
  "get_ip6 data k7 = Fault \<longleftrightarrow> length data < 16 \<or> k7 (word_of_be (take 16 data)) (drop 16 data) = Fault"
  "get_ip46_ip4 lib data k8 = Fault \<longleftrightarrow>
     length data < 4 \<or> k8 (ip46_address_set_ip4 lib (word_of_be (take 4 data))) (drop 4 data) = Fault"
  "get_mac data k9 = Fault \<longleftrightarrow> length data < 6 \<or> k9 (word_of_be (take 6 data)) (drop 6 data) = Fault"
  "get_ip46_ip6 data k7 = Fault \<longleftrightarrow>
     length data < 16 \<or> k7 (word_of_be (take 16 data)) (drop 16 data) = Fault"
  by (simp_all only: get_u16_def get_u24_def get_u32_def get_u40_def get_u64_def get_ip4_def
      get_ip6_def get_ip46_ip4_def get_ip46_ip6_def get_mac_def get_be_Fault)

lemmas Fault_simps = get_u8_Fault get_u16_little_Fault get_vec_Fault opt_field_Fault sel_field_Fault
  opt_vec_Fault get_word_Fault

section \<open>The codec interface\<close>

text \<open>
  What the group engine relies on: a value the codec accepts is recovered from its encoding,
  whatever follows it in the buffer (\<open>rt\<close>), and an encoding of at least the stated length never
  makes the decoder read past the buffer (\<open>safe\<close>, where the code keeps that promise).
\<close>

locale ie_codec =
  fixes de :: "bytes \<Rightarrow> nat \<Rightarrow> 'v dec"
    and en :: "'v \<Rightarrow> bytes"
    and ok :: "'v \<Rightarrow> bool"
  assumes rt: "ok v \<Longrightarrow> length (en v) < 2 ^ 16 \<Longrightarrow> de (en v @ rest) (length (en v)) = Done v"
begin

lemma rt_exact: "ok v \<Longrightarrow> length (en v) < 2 ^ 16 \<Longrightarrow> de (en v) (length (en v)) = Done v"
  using rt [of v "[]"] by simp

lemma encode_inj:
  assumes "ok v" "ok w" "length (en v) < 2 ^ 16" "en v = en w"
  shows "v = w"
  using rt_exact [OF assms(1,3)] rt_exact [of w] assms by simp

end

locale safe_codec = ie_codec +
  assumes safe: "de data n = Fault \<Longrightarrow> length data < n"
begin

lemma no_overread: "n \<le> length data \<Longrightarrow> de data n \<noteq> Fault"
  using safe [of data n] by auto

end

end
