(* ===== verification/Flow_Table.thy ===== *)
theory Flow_Table
  imports Prelude
begin

text \<open>
  The flow table of \<^verbatim>\<open>src/upf/flowtable.c\<close>, \<^verbatim>\<open>flowtable.h\<close>, \<^verbatim>\<open>flowtable_tcp.h\<close> and
  \<^verbatim>\<open>flowtable_init.c\<close>: the key of a packet, the TCP state machine that chooses the lifetime of a
  flow, the pool of entries with a cache per thread, the hash table, and the timer wheel.

  The containers of VPP are modelled by what they hold: a hash table is a map, a pool a map from
  indices to elements, a vector a list, and the timer wheel, an array of doubly linked lists threaded
  through a pool, is the list of pool indices behind each head (\<open>slots\<close>) together with the values of
  the pool elements (\<open>timer_value\<close>). Which free index a pool hands out, what a fresh element
  contains and how VPP compares addresses is not part of the plugin: these are the fields of
  \<open>flow_lib\<close>. Times are seconds in 32-bit unsigned integers, as natural numbers with \<open>add32\<close> for the
  addition that wraps around.
\<close>

section \<open>Flow keys\<close>

abbreviation (input) "IP_PROTOCOL_ICMP \<equiv> 1 :: u8"
abbreviation (input) "IP_PROTOCOL_TCP \<equiv> 6 :: u8"
abbreviation (input) "IP_PROTOCOL_UDP \<equiv> 17 :: u8"

text \<open>A direction is an index 0 or 1: \<open>False\<close> is \<^verbatim>\<open>FT_ORIGIN\<close>, \<open>True\<close> is \<^verbatim>\<open>FT_REVERSE\<close>, and
  the exclusive or of two directions is \<open>\<noteq>\<close>. An array with an element per direction is a pair.\<close>

abbreviation (input) "FT_ORIGIN \<equiv> False"
abbreviation (input) "FT_REVERSE \<equiv> True"

type_synonym 'a per_direction = "'a \<times> 'a"

fun dir_get :: "'a per_direction \<Rightarrow> bool \<Rightarrow> 'a" where
  "dir_get (a, b) d = (if d then b else a)"

fun dir_put :: "bool \<Rightarrow> 'a \<Rightarrow> 'a per_direction \<Rightarrow> 'a per_direction" where
  "dir_put d v (a, b) = (if d then (a, v) else (v, b))"

lemma dir_get_put [simp]: "dir_get (dir_put d v p) d' = (if d = d' then v else dir_get p d')"
  by (cases p) auto

lemma per_direction_eqI: "(\<And>d. dir_get p d = dir_get q d) \<Longrightarrow> p = q"
  by (metis (full_types) dir_get.simps surj_pair)

record flow_key =
  fk_seid :: u64
  fk_ip :: "ip46_address per_direction"
  fk_port :: "u16 per_direction"
  fk_proto :: u8

text \<open>The headers of VPP, by the fields the plugin reads: protocol and addresses of the IP header, and
  what follows it, ports and flags.\<close>

record 'ip ip_header =
  protocol :: u8
  src_address :: 'ip
  dst_address :: 'ip
  src_port :: u16
  dst_port :: u16
  tcp_flags :: u8

datatype packet_header = IP4 "ip4_address ip_header" | IP6 "ip6_address ip_header"

record flow_lib = vlib +
  ip4_address_compare :: "ip4_address \<Rightarrow> ip4_address \<Rightarrow> int"
  ip6_address_compare :: "ip6_address \<Rightarrow> ip6_address \<Rightarrow> int"

definition parse_packet_protocol :: "'ip ip_header \<Rightarrow> bool \<Rightarrow> flow_key \<Rightarrow> flow_key" where
  "parse_packet_protocol udp is_reverse key =
     (if fk_proto key = IP_PROTOCOL_UDP \<or> fk_proto key = IP_PROTOCOL_TCP
      then key\<lparr>fk_port := dir_put (FT_REVERSE \<noteq> is_reverse) (dst_port udp)
                 (dir_put (FT_ORIGIN \<noteq> is_reverse) (src_port udp) (fk_port key))\<rparr>
      else key\<lparr>fk_port := (0, 0)\<rparr>)"

definition parse_ip4_packet :: "'v flow_lib_scheme \<Rightarrow> ip4_address ip_header \<Rightarrow> flow_key \<Rightarrow> bool \<times> flow_key" where
  "parse_ip4_packet lib ip4 key =
     (let is_reverse = (ip4_address_compare lib (src_address ip4) (dst_address ip4) < 0);
          key = key\<lparr>fk_proto := protocol ip4,
            fk_ip := dir_put (FT_REVERSE \<noteq> is_reverse) (ip46_address_set_ip4 lib (dst_address ip4))
              (dir_put (FT_ORIGIN \<noteq> is_reverse) (ip46_address_set_ip4 lib (src_address ip4)) (fk_ip key))\<rparr>
      in (is_reverse, parse_packet_protocol ip4 is_reverse key))"

definition parse_ip6_packet :: "'v flow_lib_scheme \<Rightarrow> ip6_address ip_header \<Rightarrow> flow_key \<Rightarrow> bool \<times> flow_key" where
  "parse_ip6_packet lib ip6 key =
     (let is_reverse = (ip6_address_compare lib (src_address ip6) (dst_address ip6) < 0);
          key = key\<lparr>fk_proto := protocol ip6,
            fk_ip := dir_put (FT_REVERSE \<noteq> is_reverse) (dst_address ip6)
              (dir_put (FT_ORIGIN \<noteq> is_reverse) (src_address ip6) (fk_ip key))\<rparr>
      in (is_reverse, parse_packet_protocol ip6 is_reverse key))"

definition flow_mk_key :: "'v flow_lib_scheme \<Rightarrow> u64 \<Rightarrow> packet_header \<Rightarrow> bool \<times> flow_key" where
  "flow_mk_key lib seid header =
     (let key = \<lparr>fk_seid = seid, fk_ip = (0, 0), fk_port = (0, 0), fk_proto = 0\<rparr> in
      case header of IP4 ip4 \<Rightarrow> parse_ip4_packet lib ip4 key | IP6 ip6 \<Rightarrow> parse_ip6_packet lib ip6 key)"

section \<open>TCP states\<close>

datatype tcp_f_state = TCP_F_STATE_START | TCP_F_STATE_SYN | TCP_F_STATE_SYNACK
  | TCP_F_STATE_ESTABLISHED | TCP_F_STATE_FIN | TCP_F_STATE_FINACK | TCP_F_STATE_RST

datatype tcp_event = TCP_EV_NONE | TCP_EV_SYN | TCP_EV_SYNACK | TCP_EV_FIN | TCP_EV_FINACK
  | TCP_EV_RST | TCP_EV_PSHACK

fun tcp_lifetime :: "tcp_f_state \<Rightarrow> nat" where
  "tcp_lifetime TCP_F_STATE_START = 0"
| "tcp_lifetime TCP_F_STATE_SYN = 15"
| "tcp_lifetime TCP_F_STATE_SYNACK = 60"
| "tcp_lifetime TCP_F_STATE_ESTABLISHED = 299"
| "tcp_lifetime TCP_F_STATE_FIN = 15"
| "tcp_lifetime TCP_F_STATE_FINACK = 3"
| "tcp_lifetime TCP_F_STATE_RST = 6"

text \<open>The entries the table leaves out are zero, which is \<^verbatim>\<open>TCP_F_STATE_START\<close>.\<close>

fun tcp_trans :: "tcp_f_state \<Rightarrow> tcp_event \<Rightarrow> tcp_f_state" where
  "tcp_trans TCP_F_STATE_START TCP_EV_SYN = TCP_F_STATE_SYN"
| "tcp_trans TCP_F_STATE_START TCP_EV_SYNACK = TCP_F_STATE_SYNACK"
| "tcp_trans TCP_F_STATE_START TCP_EV_FIN = TCP_F_STATE_FIN"
| "tcp_trans TCP_F_STATE_START TCP_EV_FINACK = TCP_F_STATE_FINACK"
| "tcp_trans TCP_F_STATE_START TCP_EV_RST = TCP_F_STATE_RST"
| "tcp_trans TCP_F_STATE_START TCP_EV_NONE = TCP_F_STATE_ESTABLISHED"
| "tcp_trans TCP_F_STATE_SYN TCP_EV_SYNACK = TCP_F_STATE_SYNACK"
| "tcp_trans TCP_F_STATE_SYN TCP_EV_PSHACK = TCP_F_STATE_ESTABLISHED"
| "tcp_trans TCP_F_STATE_SYN TCP_EV_FIN = TCP_F_STATE_FIN"
| "tcp_trans TCP_F_STATE_SYN TCP_EV_FINACK = TCP_F_STATE_FINACK"
| "tcp_trans TCP_F_STATE_SYN TCP_EV_RST = TCP_F_STATE_RST"
| "tcp_trans TCP_F_STATE_SYNACK TCP_EV_PSHACK = TCP_F_STATE_ESTABLISHED"
| "tcp_trans TCP_F_STATE_SYNACK TCP_EV_FIN = TCP_F_STATE_FIN"
| "tcp_trans TCP_F_STATE_SYNACK TCP_EV_FINACK = TCP_F_STATE_FINACK"
| "tcp_trans TCP_F_STATE_SYNACK TCP_EV_RST = TCP_F_STATE_RST"
| "tcp_trans TCP_F_STATE_ESTABLISHED TCP_EV_FIN = TCP_F_STATE_FIN"
| "tcp_trans TCP_F_STATE_ESTABLISHED TCP_EV_FINACK = TCP_F_STATE_FINACK"
| "tcp_trans TCP_F_STATE_ESTABLISHED TCP_EV_RST = TCP_F_STATE_RST"
| "tcp_trans TCP_F_STATE_FIN TCP_EV_FINACK = TCP_F_STATE_FINACK"
| "tcp_trans TCP_F_STATE_FIN TCP_EV_RST = TCP_F_STATE_RST"
| "tcp_trans TCP_F_STATE_FINACK TCP_EV_RST = TCP_F_STATE_RST"
| "tcp_trans _ _ = TCP_F_STATE_START"

abbreviation (input) "TCP_FLAG_FIN \<equiv> BIT 0 :: u8"
abbreviation (input) "TCP_FLAG_SYN \<equiv> BIT 1 :: u8"
abbreviation (input) "TCP_FLAG_RST \<equiv> BIT 2 :: u8"
abbreviation (input) "TCP_FLAG_ACK \<equiv> BIT 4 :: u8"

definition tcp_event :: "u8 \<Rightarrow> tcp_event" where
  "tcp_event flags =
     (if flags AND TCP_FLAG_SYN \<noteq> 0 \<and> flags AND TCP_FLAG_ACK \<noteq> 0 then TCP_EV_SYNACK
      else if flags AND TCP_FLAG_SYN \<noteq> 0 then TCP_EV_SYN
      else if flags AND TCP_FLAG_FIN \<noteq> 0 \<and> flags AND TCP_FLAG_ACK \<noteq> 0 then TCP_EV_FINACK
      else if flags AND TCP_FLAG_FIN \<noteq> 0 then TCP_EV_FIN
      else if flags AND TCP_FLAG_RST \<noteq> 0 then TCP_EV_RST
      else TCP_EV_PSHACK)"

section \<open>Entries, pools and timers\<close>

datatype flowtable_next = FT_NEXT_DROP | FT_NEXT_CLASSIFY | FT_NEXT_PROCESS | FT_NEXT_PROXY

datatype flowtable_timeout_type = FT_TIMEOUT_TYPE_UNKNOWN | FT_TIMEOUT_TYPE_IPV4
  | FT_TIMEOUT_TYPE_IPV6 | FT_TIMEOUT_TYPE_ICMP | FT_TIMEOUT_TYPE_UDP | FT_TIMEOUT_TYPE_TCP

record flow_stats =
  pkts :: u32
  octets :: u64

record flow_tc =
  conn_index :: u32
  thread_index :: u32

record flow_entry =
  fe_key :: flow_key
  fe_session_index :: nat
  fe_is_reverse :: bool
  fe_is_redirect :: bool
  fe_is_l3_proxy :: bool
  fe_is_spliced :: bool
  fe_spliced_dirty :: bool
  fe_dont_splice :: bool
  fe_app_detection_done :: bool
  fe_tcp_state :: tcp_f_state
  fe_ps_index :: u32
  fe_stats :: "flow_stats per_direction"
  fe_active :: nat
  fe_lifetime :: nat
  fe_timer_index :: nat
  fe_application_id :: u32
  fe_pdr_id :: "u32 per_direction"
  fe_teid :: "u32 per_direction"
  fe_next :: "flowtable_next per_direction"
  fe_tc :: "flow_tc per_direction"
  fe_seq_offs :: "u32 per_direction"
  fe_tsval_offs :: "u32 per_direction"
  fe_app_uri :: bytes
  fe_generation :: u16

abbreviation (input) "TIMER_DEFAULT_LIFETIME \<equiv> 60 :: nat"
abbreviation (input) "TIMER_MAX_LIFETIME \<equiv> 600 :: nat"
abbreviation (input) "TIMER_MAX_EXPIRE \<equiv> 256 :: nat"
abbreviation (input) "FLOW_CACHE_SZ \<equiv> 256 :: nat"
abbreviation (input) "FM_POOL_COUNT \<equiv> 4194304 :: nat"
abbreviation (input) "NO_INDEX \<equiv> 0xffffffff :: nat"

record flowtable_main_per_cpu =
  flows_ht :: "flow_key \<rightharpoonup> nat"
  slots :: "nat \<Rightarrow> nat list"
  timer_value :: "nat \<rightharpoonup> nat"
  time_index :: nat
  next_check :: nat
  flow_cache :: "nat list"
  flow_counter :: int
  stitched_counter :: int
  dirty_counter :: int

record flowtable_main =
  flows :: "nat \<rightharpoonup> flow_entry"
  flows_max :: nat
  flows_cpt :: nat
  timer_lifetime :: "flowtable_timeout_type \<Rightarrow> nat"
  timer_max_lifetime :: nat

text \<open>What VPP decides: the index of a new pool element, given the indices in use, and what a new
  element of the pool of flows contains.\<close>

record pool_lib = flow_lib +
  pool_index :: "nat set \<Rightarrow> nat"
  stale_flow :: flow_entry

definition add32 :: "nat \<Rightarrow> nat \<Rightarrow> nat" where
  "add32 a b = (a + b) mod 2 ^ 32"

text \<open>\<^verbatim>\<open>flow_member (F, M, D)\<close>: the arrays of an entry are indexed relative to its first packet.\<close>

definition flow_dir :: "flow_entry \<Rightarrow> bool \<Rightarrow> bool" where
  "flow_dir f d \<longleftrightarrow> d \<noteq> fe_is_reverse f"

definition flow_next :: "flow_entry \<Rightarrow> bool \<Rightarrow> flowtable_next" where
  "flow_next f d = dir_get (fe_next f) (flow_dir f d)"

definition flow_pdr_id :: "flow_entry \<Rightarrow> bool \<Rightarrow> u32" where
  "flow_pdr_id f d = dir_get (fe_pdr_id f) (flow_dir f d)"

section \<open>The cache of free entries\<close>

text \<open>\<^verbatim>\<open>flow_entry_cache_fill\<close>: the lock is held for the whole operation.\<close>

fun cache_fill_loop :: "'v pool_lib_scheme \<Rightarrow> nat \<Rightarrow> (nat \<rightharpoonup> flow_entry) \<Rightarrow> nat list \<Rightarrow> (nat \<rightharpoonup> flow_entry) \<times> nat list" where
  "cache_fill_loop lib 0 fl cache = (fl, cache)"
| "cache_fill_loop lib (Suc n) fl cache =
     (let i = pool_index lib (dom fl) in
      cache_fill_loop lib n (fl(i \<mapsto> stale_flow lib)) (cache @ [i]))"

definition flow_entry_cache_fill ::
    "'v pool_lib_scheme \<Rightarrow> flowtable_main \<times> flowtable_main_per_cpu \<Rightarrow> flowtable_main \<times> flowtable_main_per_cpu" where
  "flow_entry_cache_fill lib = (\<lambda>(fm, fmt).
     if flows_cpt fm > flows_max fm then (fm, fmt)
     else (case cache_fill_loop lib FLOW_CACHE_SZ (flows fm) (flow_cache fmt) of
             (fl, cache) \<Rightarrow> (fm\<lparr>flows := fl, flows_cpt := flows_cpt fm + FLOW_CACHE_SZ\<rparr>,
                             fmt\<lparr>flow_cache := cache\<rparr>)))"

text \<open>\<^verbatim>\<open>flow_entry_cache_empty\<close>: the loop counts from the length minus one down to the size of the
  cache and releases the last element of the vector in each turn.\<close>

fun cache_empty_loop :: "nat \<Rightarrow> (nat \<rightharpoonup> flow_entry) \<Rightarrow> nat list \<Rightarrow> (nat \<rightharpoonup> flow_entry) \<times> nat list" where
  "cache_empty_loop i fl cache =
     (if i > FLOW_CACHE_SZ then cache_empty_loop (i - 1) (fl(last cache := None)) (butlast cache)
      else (fl, cache))"

declare cache_empty_loop.simps [simp del]

definition flow_entry_cache_empty ::
    "flowtable_main \<times> flowtable_main_per_cpu \<Rightarrow> flowtable_main \<times> flowtable_main_per_cpu" where
  "flow_entry_cache_empty = (\<lambda>(fm, fmt).
     case cache_empty_loop (length (flow_cache fmt) - 1) (flows fm) (flow_cache fmt) of
       (fl, cache) \<Rightarrow>
         (fm\<lparr>flows := fl, flows_cpt := (flows_cpt fm + 2 ^ 64 - FLOW_CACHE_SZ) mod 2 ^ 64\<rparr>,
          fmt\<lparr>flow_cache := cache\<rparr>))"

definition flow_entry_alloc ::
    "'v pool_lib_scheme \<Rightarrow> flowtable_main \<times> flowtable_main_per_cpu
       \<Rightarrow> nat option \<times> flowtable_main \<times> flowtable_main_per_cpu" where
  "flow_entry_alloc lib st =
     (case (if flow_cache (snd st) = [] then flow_entry_cache_fill lib st else st) of (fm, fmt) \<Rightarrow>
        if flow_cache fmt = [] then (None, fm, fmt)
        else (Some (last (flow_cache fmt)), fm, fmt\<lparr>flow_cache := butlast (flow_cache fmt)\<rparr>))"

definition flow_entry_free ::
    "nat \<Rightarrow> flowtable_main \<times> flowtable_main_per_cpu \<Rightarrow> flowtable_main \<times> flowtable_main_per_cpu" where
  "flow_entry_free i = (\<lambda>(fm, fmt).
     let fm = fm\<lparr>flows := (flows fm)(i := map_option (\<lambda>f. f\<lparr>fe_app_uri := []\<rparr>) (flows fm i))\<rparr>;
         fmt = fmt\<lparr>flow_cache := flow_cache fmt @ [i]\<rparr> in
     if length (flow_cache fmt) > 2 * FLOW_CACHE_SZ then flow_entry_cache_empty (fm, fmt) else (fm, fmt))"

section \<open>Timers\<close>

text \<open>The operations of the doubly linked lists.\<close>

definition dlist_addtail :: "nat \<Rightarrow> nat \<Rightarrow> (nat \<Rightarrow> nat list) \<Rightarrow> nat \<Rightarrow> nat list" where
  "dlist_addtail head e w = w(head := w head @ [e])"

definition dlist_remove :: "nat \<Rightarrow> (nat \<Rightarrow> nat list) \<Rightarrow> nat \<Rightarrow> nat list" where
  "dlist_remove e w = (\<lambda>head. removeAll e (w head))"

text \<open>The element behind \<open>e\<close>; \<open>None\<close> is the head of the list.\<close>

fun dlist_next :: "nat \<Rightarrow> nat list \<Rightarrow> nat option" where
  "dlist_next e [] = None"
| "dlist_next e [x] = None"
| "dlist_next e (x # y # xs) = (if e = x then Some y else dlist_next e (y # xs))"

definition timer_wheel_index_update :: "flowtable_main \<Rightarrow> nat \<Rightarrow> flowtable_main_per_cpu \<Rightarrow> flowtable_main_per_cpu" where
  "timer_wheel_index_update fm now fmt = fmt\<lparr>time_index := now mod timer_max_lifetime fm\<rparr>"

definition timer_wheel_insert_flow :: "flowtable_main \<Rightarrow> flow_entry \<Rightarrow> flowtable_main_per_cpu \<Rightarrow> flowtable_main_per_cpu" where
  "timer_wheel_insert_flow fm f fmt =
     fmt\<lparr>slots := dlist_addtail (add32 (time_index fmt) (fe_lifetime f) mod timer_max_lifetime fm)
                   (fe_timer_index f) (slots fmt)\<rparr>"

definition flow_update_active :: "nat \<Rightarrow> flow_entry \<Rightarrow> flow_entry" where
  "flow_update_active now f = f\<lparr>fe_active := now\<rparr>"

definition flow_tcp_update_lifetime ::
    "nat \<Rightarrow> u8 \<Rightarrow> flowtable_main \<times> flowtable_main_per_cpu \<Rightarrow> flowtable_main \<times> flowtable_main_per_cpu" where
  "flow_tcp_update_lifetime i flags = (\<lambda>(fm, fmt).
     let f = the (flows fm i); old_state = fe_tcp_state f;
         new_state = tcp_trans old_state (tcp_event flags) in
     if new_state \<noteq> TCP_F_STATE_START \<and> old_state \<noteq> new_state then
       let f = f\<lparr>fe_tcp_state := new_state, fe_lifetime := tcp_lifetime new_state\<rparr> in
       (fm\<lparr>flows := (flows fm)(i \<mapsto> f)\<rparr>,
        fmt\<lparr>slots := dlist_addtail (add32 (fe_active f) (fe_lifetime f) mod timer_max_lifetime fm)
                      (fe_timer_index f) (dlist_remove (fe_timer_index f) (slots fmt))\<rparr>)
     else (fm, fmt))"

fun packet_tcp_flags :: "packet_header \<Rightarrow> u8" where
  "packet_tcp_flags (IP4 h) = tcp_flags h"
| "packet_tcp_flags (IP6 h) = tcp_flags h"

definition flow_update_lifetime ::
    "nat \<Rightarrow> packet_header \<Rightarrow> flowtable_main \<times> flowtable_main_per_cpu \<Rightarrow> flowtable_main \<times> flowtable_main_per_cpu" where
  "flow_update_lifetime i header st =
     (if fk_proto (fe_key (the (flows (fst st) i))) = IP_PROTOCOL_TCP
      then flow_tcp_update_lifetime i (packet_tcp_flags header) st else st)"

definition flowtable_lifetime_calculate :: "'v vlib_scheme \<Rightarrow> flowtable_main \<Rightarrow> flow_key \<Rightarrow> nat" where
  "flowtable_lifetime_calculate lib fm key =
     timer_lifetime fm
      (if fk_proto key = IP_PROTOCOL_ICMP then FT_TIMEOUT_TYPE_ICMP
       else if fk_proto key = IP_PROTOCOL_UDP then FT_TIMEOUT_TYPE_UDP
       else if fk_proto key = IP_PROTOCOL_TCP then FT_TIMEOUT_TYPE_TCP
       else if ip46_address_is_ip4 lib (dir_get (fk_ip key) FT_ORIGIN) then FT_TIMEOUT_TYPE_IPV4
       else FT_TIMEOUT_TYPE_IPV6)"

section \<open>Expiration\<close>

text \<open>The hook of \<^verbatim>\<open>src/upf/upf_proxy.c\<close> keeps a flow as long as the proxy has a session for it. It also asks
  the proxy to close that session; of the state modelled here this changes nothing before the proxy has closed both
  connections and takes back its index, which is a step of its own in \<open>Flow_System\<close>.\<close>

definition upf_proxy_flow_expiration_hook :: "flow_entry \<Rightarrow> int" where
  "upf_proxy_flow_expiration_hook f = (if fe_ps_index f = 0xffffffff then 0 else -1)"

definition flowtable_entry_remove :: "flow_entry \<Rightarrow> flowtable_main_per_cpu \<Rightarrow> flowtable_main_per_cpu" where
  "flowtable_entry_remove f fmt = fmt\<lparr>flows_ht := (flows_ht fmt)(fe_key f := None)\<rparr>"

text \<open>\<^verbatim>\<open>expire_single_flow\<close> on the flow \<open>i\<close> with the timer \<open>e\<close>; \<open>hook\<close> is the function pointer.\<close>

definition expire_single_flow ::
    "(flow_entry \<Rightarrow> int) option \<Rightarrow> nat \<Rightarrow> nat \<Rightarrow> nat \<Rightarrow> flowtable_main \<times> flowtable_main_per_cpu
       \<Rightarrow> bool \<times> flowtable_main \<times> flowtable_main_per_cpu" where
  "expire_single_flow hook i e now = (\<lambda>(fm, fmt).
     let f = the (flows fm i);
         keep = (add32 (fe_active f) (fe_lifetime f) > now);
         blocked = (\<not> keep \<and> (case hook of None \<Rightarrow> False | Some h \<Rightarrow> h f \<noteq> 0));
         f = (if blocked then f\<lparr>fe_active := add32 (fe_active f) (fe_lifetime f)\<rparr> else f);
         fm = fm\<lparr>flows := (flows fm)(i \<mapsto> f)\<rparr> in
     if keep \<or> blocked then
       let head = add32 (fe_active f) (fe_lifetime f) mod timer_max_lifetime fm in
       if head \<noteq> fe_timer_index f then
         (True, fm, fmt\<lparr>slots := dlist_addtail head (fe_timer_index f)
                                  (dlist_remove (fe_timer_index f) (slots fmt))\<rparr>)
       else (False, fm, fmt)
     else
       let fmt = fmt\<lparr>slots := dlist_remove e (slots fmt), timer_value := (timer_value fmt)(e := None)\<rparr>;
           fmt = flowtable_entry_remove f fmt;
           fmt = fmt\<lparr>flow_counter := flow_counter fmt - 1,
             stitched_counter := stitched_counter fmt - (if fe_is_spliced f then 1 else 0),
             dirty_counter := dirty_counter fmt - (if fe_spliced_dirty f then 1 else 0)\<rparr> in
       (True, flow_entry_free i (fm, fmt)))"

text \<open>
  The loop over one slot. \<open>idx\<close> is the list element the loop looks at, \<open>None\<close> when it has come round
  to the head; the successor of an element is read before the element is unlinked.
\<close>

partial_function (option) expire_slot ::
    "(flow_entry \<Rightarrow> int) option \<Rightarrow> nat \<Rightarrow> nat \<Rightarrow> nat option \<Rightarrow> nat \<Rightarrow> flowtable_main \<times> flowtable_main_per_cpu
       \<Rightarrow> (nat \<times> flowtable_main \<times> flowtable_main_per_cpu) option" where
  "expire_slot hook slot now idx cpt st =
     (case idx of
        None \<Rightarrow> Some (cpt, st)
      | Some e \<Rightarrow>
          if cpt < TIMER_MAX_EXPIRE then
            let i = the (timer_value (snd st) e);
                idx = dlist_next e (slots (snd st) slot);
                res = expire_single_flow hook i e now st in
            expire_slot hook slot now idx (if fst res then cpt + 1 else cpt) (snd res)
          else Some (cpt, st))"

definition dlist_first :: "nat list \<Rightarrow> nat option" where
  "dlist_first xs = (case xs of [] \<Rightarrow> None | x # _ \<Rightarrow> Some x)"

text \<open>The loop over the slots from \<open>t\<close> to \<open>now\<close>; \<open>t\<close> is a 32-bit counter. The result is the value of
  \<open>t\<close> when the loop ends.\<close>

partial_function (option) expire_loop ::
    "(flow_entry \<Rightarrow> int) option \<Rightarrow> nat \<Rightarrow> nat \<Rightarrow> nat \<Rightarrow> flowtable_main \<times> flowtable_main_per_cpu
       \<Rightarrow> (nat \<times> nat \<times> flowtable_main \<times> flowtable_main_per_cpu) option" where
  "expire_loop hook now t cpt st =
     (if t \<le> now then
        (let slot = t mod timer_max_lifetime (fst st) in
         Option.bind (expire_slot hook slot now (dlist_first (slots (snd st) slot)) cpt st)
           (\<lambda>res. if fst res = TIMER_MAX_EXPIRE then Some (t, res)
                  else expire_loop hook now (add32 t 1) (fst res) (snd res)))
      else Some (t, cpt, st))"

definition flowtable_timer_expire ::
    "(flow_entry \<Rightarrow> int) option \<Rightarrow> nat \<Rightarrow> flowtable_main \<times> flowtable_main_per_cpu
       \<Rightarrow> (nat \<times> flowtable_main \<times> flowtable_main_per_cpu) option" where
  "flowtable_timer_expire hook now st =
     (let start = (if next_check (snd st) \<noteq> NO_INDEX then next_check (snd st) else now) in
      if next_check (snd st) \<noteq> NO_INDEX \<and> now < next_check (snd st) then Some (0, st)
      else map_option (\<lambda>(t, cpt, fm, fmt). (cpt, fm, fmt\<lparr>next_check := t\<rparr>))
             (expire_loop hook now start 0 st))"

text \<open>\<^verbatim>\<open>recycle_flow\<close> compares the slot number \<open>next\<close> with the time \<open>now\<close>.\<close>

partial_function (option) recycle_loop ::
    "(flow_entry \<Rightarrow> int) option \<Rightarrow> nat \<Rightarrow> nat \<Rightarrow> flowtable_main \<times> flowtable_main_per_cpu
       \<Rightarrow> (flowtable_main \<times> flowtable_main_per_cpu) option" where
  "recycle_loop hook now nxt st =
     (if nxt \<noteq> now then
        (case slots (snd st) nxt of
           [] \<Rightarrow> recycle_loop hook now (add32 nxt 1 mod timer_max_lifetime (fst st)) st
         | e # _ \<Rightarrow>
             recycle_loop hook now nxt
               (snd (expire_single_flow hook (the (timer_value (snd st) e)) e now st)))
      else Some st)"

definition recycle_flow ::
    "(flow_entry \<Rightarrow> int) option \<Rightarrow> nat \<Rightarrow> flowtable_main \<times> flowtable_main_per_cpu
       \<Rightarrow> (flowtable_main \<times> flowtable_main_per_cpu) option" where
  "recycle_flow hook now st = recycle_loop hook now (add32 now 1 mod timer_max_lifetime (fst st)) st"

section \<open>Lookup and creation\<close>

definition zero_stats :: flow_stats where "zero_stats = \<lparr>pkts = 0, octets = 0\<rparr>"
definition no_tc :: flow_tc where "no_tc = \<lparr>conn_index = 0xffffffff, thread_index = 0xffffffff\<rparr>"

text \<open>The entry after \<^verbatim>\<open>memset\<close> and the assignments of \<^verbatim>\<open>flowtable_entry_lookup_create\<close>.\<close>

definition new_flow :: "flow_key \<Rightarrow> nat \<Rightarrow> nat \<Rightarrow> bool \<Rightarrow> u16 \<Rightarrow> nat \<Rightarrow> flow_entry" where
  "new_flow key lifetime now is_reverse generation timer =
     \<lparr>fe_key = key, fe_session_index = 0, fe_is_reverse = is_reverse, fe_is_redirect = False,
      fe_is_l3_proxy = False, fe_is_spliced = False, fe_spliced_dirty = False,
      fe_dont_splice = False, fe_app_detection_done = False, fe_tcp_state = TCP_F_STATE_START,
      fe_ps_index = 0xffffffff, fe_stats = (zero_stats, zero_stats), fe_active = now,
      fe_lifetime = lifetime, fe_timer_index = timer, fe_application_id = 0xffffffff,
      fe_pdr_id = (0xffffffff, 0xffffffff), fe_teid = (0xffffffff, 0xffffffff),
      fe_next = (FT_NEXT_CLASSIFY, FT_NEXT_CLASSIFY), fe_tc = (no_tc, no_tc),
      fe_seq_offs = (0, 0), fe_tsval_offs = (0, 0), fe_app_uri = [], fe_generation = generation\<rparr>"

text \<open>The elements of the timer pool in use: the heads of the wheel and the timers of the flows.\<close>

definition timer_pool :: "flowtable_main_per_cpu \<Rightarrow> nat set" where
  "timer_pool fmt = {..<TIMER_MAX_LIFETIME} \<union> dom (timer_value fmt)"

definition create_flow ::
    "'v pool_lib_scheme \<Rightarrow> flow_key \<Rightarrow> nat \<Rightarrow> bool \<Rightarrow> u16 \<Rightarrow> nat \<Rightarrow> flowtable_main \<times> flowtable_main_per_cpu
       \<Rightarrow> flowtable_main \<times> flowtable_main_per_cpu" where
  "create_flow lib key now is_reverse generation i = (\<lambda>(fm, fmt).
     let timer = pool_index lib (timer_pool fmt);
         f = new_flow key (flowtable_lifetime_calculate lib fm key) now is_reverse generation timer;
         fm = fm\<lparr>flows := (flows fm)(i \<mapsto> f)\<rparr>;
         fmt = fmt\<lparr>timer_value := (timer_value fmt)(timer \<mapsto> i)\<rparr>;
         fmt = timer_wheel_insert_flow fm f fmt in
     (fm, fmt\<lparr>flow_counter := flow_counter fmt + 1, flows_ht := (flows_ht fmt)(key \<mapsto> i)\<rparr>))"

text \<open>The result is the index (\<open>None\<close> is \<^verbatim>\<open>~0\<close>) and whether the flow was created.\<close>

definition flowtable_entry_lookup_create ::
    "'v pool_lib_scheme \<Rightarrow> (flow_entry \<Rightarrow> int) option \<Rightarrow> flow_key \<Rightarrow> nat \<Rightarrow> bool \<Rightarrow> u16
       \<Rightarrow> flowtable_main \<times> flowtable_main_per_cpu
       \<Rightarrow> (nat option \<times> bool \<times> flowtable_main \<times> flowtable_main_per_cpu) option" where
  "flowtable_entry_lookup_create lib hook key now is_reverse generation st =
     (case flows_ht (snd st) key of
        Some i \<Rightarrow> Some (Some i, False, st)
      | None \<Rightarrow>
          Option.bind
            (case flow_entry_alloc lib st of
               (Some i, st) \<Rightarrow> Some (Some i, st)
             | (None, st) \<Rightarrow> map_option (flow_entry_alloc lib) (recycle_flow hook now st))
            (\<lambda>(i, st). case i of
               None \<Rightarrow> Some (None, False, st)
             | Some i \<Rightarrow> Some (Some i, True, create_flow lib key now is_reverse generation i st)))"

section \<open>Packets\<close>

text \<open>
  What \<^verbatim>\<open>upf_flow_process\<close> of \<^verbatim>\<open>src/upf/upf_flow_node.c\<close> does with one packet of a known session
  (the single loop), and with a whole frame, after which expired flows are removed. \<open>pk_pdr_idx\<close> stands
  for the lookup of a rule of the session by its identifier. A packet is dropped (\<open>None\<close>) if no entry
  can be had for it or its session is gone; otherwise the result is the flow, whether it is new, the
  next node and the position of the rule. Tracing and the reports of the event exposure interface, which
  get a copy of the table, are left out.
\<close>

definition load_gtpu_flow_info :: "(u32 \<Rightarrow> u32) \<Rightarrow> bool \<Rightarrow> u16 \<Rightarrow> flow_entry \<Rightarrow> flowtable_next \<times> u32 \<times> flow_entry" where
  "load_gtpu_flow_info pdr_idx is_reverse generation f =
     (let direction = (if fe_is_reverse f = is_reverse then FT_ORIGIN else FT_REVERSE) in
      if fe_generation f \<noteq> generation then
        let f = f\<lparr>fe_application_id := 0xffffffff, fe_generation := generation,
                  fe_pdr_id := (0xffffffff, 0xffffffff), fe_next := (FT_NEXT_CLASSIFY, FT_NEXT_CLASSIFY)\<rparr>
        in (flow_next f direction, 0xffffffff, f)
      else (flow_next f direction,
            (let id = flow_pdr_id f direction in if id = 0xffffffff then 0xffffffff else pdr_idx id), f))"

definition flow_count :: "bool \<Rightarrow> nat \<Rightarrow> flow_entry \<Rightarrow> flow_entry" where
  "flow_count is_reverse len f =
     (let s = dir_get (fe_stats f) is_reverse in
      f\<lparr>fe_stats := dir_put is_reverse \<lparr>pkts = pkts s + 1, octets = octets s + of_nat len\<rparr> (fe_stats f)\<rparr>)"

abbreviation (input) upd_flow :: "nat \<Rightarrow> (flow_entry \<Rightarrow> flow_entry) \<Rightarrow> flowtable_main \<times> flowtable_main_per_cpu \<Rightarrow> flowtable_main \<times> flowtable_main_per_cpu" where
  "upd_flow i g st \<equiv> ((fst st)\<lparr>flows := (flows (fst st))(i \<mapsto> g (the (flows (fst st) i)))\<rparr>, snd st)"

record flow_packet =
  pk_session_index :: nat
  pk_session_free :: bool
  pk_seid :: u64
  pk_generation :: u16
  pk_pdr_idx :: "u32 \<Rightarrow> u32"
  pk_header :: packet_header
  pk_length :: nat

definition flow_process_packet ::
    "'v pool_lib_scheme \<Rightarrow> (flow_entry \<Rightarrow> int) option \<Rightarrow> nat \<Rightarrow> flow_packet \<Rightarrow> flowtable_main \<times> flowtable_main_per_cpu
       \<Rightarrow> ((nat \<times> bool \<times> flowtable_next \<times> u32) option \<times> flowtable_main \<times> flowtable_main_per_cpu) option" where
  "flow_process_packet lib hook now p st =
     (if pk_session_free p then Some (None, st)
      else case flow_mk_key lib (pk_seid p) (pk_header p) of (is_reverse, key) \<Rightarrow>
        Option.bind (flowtable_entry_lookup_create lib hook key now is_reverse (pk_generation p) st)
          (\<lambda>(i, created, st). case i of
             None \<Rightarrow> Some (None, st)
           | Some i \<Rightarrow>
               let st = upd_flow i (\<lambda>f. flow_update_active now (f\<lparr>fe_session_index := pk_session_index p\<rparr>)) st;
                   st = flow_update_lifetime i (pk_header p) st;
                   st = upd_flow i (flow_count is_reverse (pk_length p)) st;
                   info = load_gtpu_flow_info (pk_pdr_idx p) is_reverse (pk_generation p) (the (flows (fst st) i)) in
               Some (Some (i, created, fst info, fst (snd info)), upd_flow i (\<lambda>_. snd (snd info)) st)))"

fun flow_process_packets ::
    "'v pool_lib_scheme \<Rightarrow> (flow_entry \<Rightarrow> int) option \<Rightarrow> nat \<Rightarrow> flow_packet list \<Rightarrow> flowtable_main \<times> flowtable_main_per_cpu
       \<Rightarrow> ((nat \<times> bool \<times> flowtable_next \<times> u32) option list \<times> flowtable_main \<times> flowtable_main_per_cpu) option" where
  "flow_process_packets lib hook now [] st = Some ([], st)"
| "flow_process_packets lib hook now (p # ps) st =
     Option.bind (flow_process_packet lib hook now p st) (\<lambda>(r, st).
       map_option (\<lambda>(rs, st). (r # rs, st)) (flow_process_packets lib hook now ps st))"

definition upf_flow_process ::
    "'v pool_lib_scheme \<Rightarrow> (flow_entry \<Rightarrow> int) option \<Rightarrow> nat \<Rightarrow> flow_packet list \<Rightarrow> flowtable_main \<times> flowtable_main_per_cpu
       \<Rightarrow> ((nat \<times> bool \<times> flowtable_next \<times> u32) option list \<times> nat \<times> flowtable_main \<times> flowtable_main_per_cpu) option" where
  "upf_flow_process lib hook now ps st =
     Option.bind (flow_process_packets lib hook now ps (fst st, timer_wheel_index_update (fst st) now (snd st)))
       (\<lambda>(rs, st). map_option (\<lambda>(cpt, st). (rs, cpt, st)) (flowtable_timer_expire hook now st))"

section \<open>Configuration\<close>

definition flowtable_lifetime_update :: "flowtable_timeout_type \<Rightarrow> nat \<Rightarrow> flowtable_main \<Rightarrow> flowtable_main option" where
  "flowtable_lifetime_update type value fm =
     (if value > timer_max_lifetime fm then None
      else Some (fm\<lparr>timer_lifetime := (timer_lifetime fm)(type := value)\<rparr>))"

definition flowtable_init :: flowtable_main where
  "flowtable_init = \<lparr>flows = Map.empty, flows_max = FM_POOL_COUNT, flows_cpt = 0,
     timer_lifetime = (\<lambda>_. TIMER_DEFAULT_LIFETIME), timer_max_lifetime = TIMER_MAX_LIFETIME\<rparr>"

definition flowtable_init_cpu :: "'v pool_lib_scheme \<Rightarrow> flowtable_main \<Rightarrow> flowtable_main \<times> flowtable_main_per_cpu" where
  "flowtable_init_cpu lib fm =
     (case cache_fill_loop lib FLOW_CACHE_SZ (flows fm) [] of
        (fl, cache) \<Rightarrow>
          (fm\<lparr>flows := fl, flows_cpt := flows_cpt fm + FLOW_CACHE_SZ\<rparr>,
           \<lparr>flows_ht = Map.empty, slots = (\<lambda>_. []), timer_value = Map.empty, time_index = NO_INDEX,
            next_check = NO_INDEX, flow_cache = cache, flow_counter = 0, stitched_counter = 0,
            dirty_counter = 0\<rparr>))"

end
