(* ===== verification/Pfcp_IE_Basic.thy ===== *)
theory Pfcp_IE_Basic
  imports Prelude
begin

text \<open>
  Information element codecs of \<^verbatim>\<open>src/upf/pfcp.c\<close>, first part: the generic elements, then the
  elements from Source Interface to PFD Contents, in the order of the source. Each
  \<^verbatim>\<open>decode_X (data, length, p)\<close> is a function of the bytes at \<^verbatim>\<open>data\<close> and of \<^verbatim>\<open>length\<close> that
  returns the structure it leaves in \<^verbatim>\<open>*p\<close> (which the caller has cleared); each
  \<^verbatim>\<open>encode_X (p, vec)\<close> returns the octets it appends. \<open>ok_X\<close> states which structures survive a round
  trip.
\<close>

section \<open>Generic elements\<close>

definition decode_u8_ie :: "bytes \<Rightarrow> nat \<Rightarrow> u8 dec" where [codec_defs]:
  "decode_u8_ie data len = (if len < 1 then Reject PFCP_CAUSE_INVALID_LENGTH
     else get_u8 data (\<lambda>v _. Done v))"

definition encode_u8_ie :: "u8 \<Rightarrow> bytes" where [codec_defs]:
  "encode_u8_ie v = put_u8 v"

definition decode_u16_ie :: "bytes \<Rightarrow> nat \<Rightarrow> u16 dec" where [codec_defs]:
  "decode_u16_ie data len = (if len < 2 then Reject PFCP_CAUSE_INVALID_LENGTH
     else get_u16 data (\<lambda>v _. Done v))"

definition encode_u16_ie :: "u16 \<Rightarrow> bytes" where [codec_defs]:
  "encode_u16_ie v = put_u16 v"

definition decode_u16_little_ie :: "bytes \<Rightarrow> nat \<Rightarrow> u16 dec" where [codec_defs]:
  "decode_u16_little_ie data len = (if len < 2 then Reject PFCP_CAUSE_INVALID_LENGTH
     else get_u16_little data (\<lambda>v _. Done v))"

definition encode_u16_little_ie :: "u16 \<Rightarrow> bytes" where [codec_defs]:
  "encode_u16_little_ie v = put_u16_little v"

definition decode_u32_ie :: "bytes \<Rightarrow> nat \<Rightarrow> u32 dec" where [codec_defs]:
  "decode_u32_ie data len = (if len < 4 then Reject PFCP_CAUSE_INVALID_LENGTH
     else get_u32 data (\<lambda>v _. Done v))"

definition encode_u32_ie :: "u32 \<Rightarrow> bytes" where [codec_defs]:
  "encode_u32_ie v = put_u32 v"

definition decode_simple_vec_ie :: "bytes \<Rightarrow> nat \<Rightarrow> bytes dec" where [codec_defs]:
  "decode_simple_vec_ie data len = get_vec len data (\<lambda>v _. Done v)"

definition encode_simple_vec_ie :: "bytes \<Rightarrow> bytes" where [codec_defs]:
  "encode_simple_vec_ie v = v"

record pfcp_volume_ie =
  vol_fields :: u8
  vol_total :: u64
  vol_ul :: u64
  vol_dl :: u64

definition decode_volume_ie :: "bytes \<Rightarrow> nat \<Rightarrow> pfcp_volume_ie dec" where [codec_defs]:
  "decode_volume_ie data len =
     (if len < 1 then Reject PFCP_CAUSE_INVALID_LENGTH
      else get_u8 data (\<lambda>b data.
        let fields = b AND 7 in
        if len < 1 + popcount fields * 8 then Reject PFCP_CAUSE_INVALID_LENGTH
        else sel_field (ISSET_BIT fields 0) get_u64 0 data (\<lambda>total data.
             sel_field (ISSET_BIT fields 1) get_u64 0 data (\<lambda>ul data.
             sel_field (ISSET_BIT fields 2) get_u64 0 data (\<lambda>dl data.
               Done \<lparr>vol_fields = fields, vol_total = total, vol_ul = ul, vol_dl = dl\<rparr>)))))"

definition encode_volume_ie :: "pfcp_volume_ie \<Rightarrow> bytes" where [codec_defs]:
  "encode_volume_ie v =
     put_u8 (vol_fields v)
     @ opt_put (ISSET_BIT (vol_fields v) 0) (put_u64 (vol_total v))
     @ opt_put (ISSET_BIT (vol_fields v) 1) (put_u64 (vol_ul v))
     @ opt_put (ISSET_BIT (vol_fields v) 2) (put_u64 (vol_dl v))"

definition ok_volume_ie :: "pfcp_volume_ie \<Rightarrow> bool" where [codec_ok]:
  "ok_volume_ie v \<longleftrightarrow> vol_fields v AND 7 = vol_fields v
     \<and> (\<not> bit (vol_fields v) 0 \<longrightarrow> vol_total v = 0)
     \<and> (\<not> bit (vol_fields v) 1 \<longrightarrow> vol_ul v = 0)
     \<and> (\<not> bit (vol_fields v) 2 \<longrightarrow> vol_dl v = 0)"

text \<open>Seconds since 1900 on the wire, since 1970 in memory; all arithmetic on 32 bits.\<close>

definition decode_time_stamp_ie :: "bytes \<Rightarrow> nat \<Rightarrow> u32 dec" where [codec_defs]:
  "decode_time_stamp_ie data len =
     (if len \<noteq> 4 then Reject PFCP_CAUSE_INVALID_LENGTH
      else get_u32 data (\<lambda>v _.
        if v AND 0x80000000 \<noteq> 0 then Done (v - 2208988800) else Done (v + 2085978496)))"

definition encode_time_stamp_ie :: "u32 \<Rightarrow> bytes" where [codec_defs]:
  "encode_time_stamp_ie v =
     (if v \<ge> 2085978496 then put_u32 (v - 2085978496) else put_u32 (v + 2208988800))"

record pfcp_timer_ie =
  timer_unit :: u8
  timer_value :: u8

definition decode_timer_ie :: "bytes \<Rightarrow> nat \<Rightarrow> pfcp_timer_ie dec" where [codec_defs]:
  "decode_timer_ie data len = (if len < 1 then Reject PFCP_CAUSE_INVALID_LENGTH
     else get_u8 data (\<lambda>t _. Done \<lparr>timer_unit = drop_bit 4 t, timer_value = t AND 0x0f\<rparr>))"

definition encode_timer_ie :: "pfcp_timer_ie \<Rightarrow> bytes" where [codec_defs]:
  "encode_timer_ie v =
     put_u8 (push_bit 4 (timer_unit v AND 0x0f) OR (timer_value v AND 0x0f))"

definition ok_timer_ie :: "pfcp_timer_ie \<Rightarrow> bool" where [codec_ok]:
  "ok_timer_ie v \<longleftrightarrow> timer_unit v AND 0x0f = timer_unit v \<and> timer_value v AND 0x0f = timer_value v"

section \<open>Source interface, F-TEID, SDF filter, gate status, bit rates\<close>

definition decode_source_interface :: "bytes \<Rightarrow> nat \<Rightarrow> u8 dec" where [codec_defs]:
  "decode_source_interface data len = (if len < 1 then Reject PFCP_CAUSE_INVALID_LENGTH
     else get_u8 data (\<lambda>b _. let v = b AND 0x0f in
       if v \<ge> 4 then Reject PFCP_CAUSE_REQUEST_REJECTED else Done v))"

definition encode_source_interface :: "u8 \<Rightarrow> bytes" where [codec_defs]:
  "encode_source_interface v = put_u8 (v AND 0x0f)"

definition ok_source_interface :: "u8 \<Rightarrow> bool" where [codec_ok]:
  "ok_source_interface v \<longleftrightarrow> v < 4"

record pfcp_f_teid =
  ft_flags :: u8
  ft_teid :: u32
  ft_ip4 :: ip4_address
  ft_ip6 :: ip6_address
  ft_choose_id :: u8

text \<open>\<^verbatim>\<open>length\<close> is not reduced by the flags octet that was read.\<close>

definition decode_f_teid :: "bytes \<Rightarrow> nat \<Rightarrow> pfcp_f_teid dec" where [codec_defs]:
  "decode_f_teid data len =
     (if len < 1 then Reject PFCP_CAUSE_INVALID_LENGTH
      else get_u8 data (\<lambda>b data.
        let flags = b AND 0x0f in
        if \<not> ISSET_BIT flags 2 then
          if len < 4 then Reject PFCP_CAUSE_INVALID_LENGTH
          else get_u32 data (\<lambda>teid data.
            let len = len - 4 in
            if ISSET_BIT flags 3 then Reject (-1)
            else if flags AND (BIT 0 OR BIT 1) = 0 then Reject (-1)
            else opt_field (ISSET_BIT flags 0) 4 get_ip4 0 data len (\<lambda>ip4 data len.
                 opt_field (ISSET_BIT flags 1) 16 get_ip6 0 data len (\<lambda>ip6 data len.
                   Done \<lparr>ft_flags = flags, ft_teid = teid, ft_ip4 = ip4, ft_ip6 = ip6,
                         ft_choose_id = 0\<rparr>)))
        else
          if len < 1 then Reject PFCP_CAUSE_INVALID_LENGTH
          else if \<not> ISSET_BIT flags 1 \<and> \<not> ISSET_BIT flags 0 then Reject (-1)
          else get_u8 data (\<lambda>cid data.
            Done \<lparr>ft_flags = flags, ft_teid = 0, ft_ip4 = 0, ft_ip6 = 0, ft_choose_id = cid\<rparr>)))"

definition encode_f_teid :: "pfcp_f_teid \<Rightarrow> bytes" where [codec_defs]:
  "encode_f_teid v =
     put_u8 (ft_flags v) @ put_u32 (ft_teid v)
     @ opt_put (ISSET_BIT (ft_flags v) 0) (put_ip4 (ft_ip4 v))
     @ opt_put (ISSET_BIT (ft_flags v) 1) (put_ip6 (ft_ip6 v))
     @ opt_put (ISSET_BIT (ft_flags v) 3) (put_u8 (ft_choose_id v))"

definition ok_f_teid :: "pfcp_f_teid \<Rightarrow> bool" where [codec_ok]:
  "ok_f_teid v \<longleftrightarrow> ft_flags v AND 0x0f = ft_flags v
     \<and> \<not> bit (ft_flags v) 2 \<and> \<not> bit (ft_flags v) 3
     \<and> (bit (ft_flags v) 0 \<or> bit (ft_flags v) 1)
     \<and> (\<not> bit (ft_flags v) 0 \<longrightarrow> ft_ip4 v = 0)
     \<and> (\<not> bit (ft_flags v) 1 \<longrightarrow> ft_ip6 v = 0) \<and> ft_choose_id v = 0"

record pfcp_sdf_filter =
  sdf_flags :: u8
  sdf_flow :: bytes
  sdf_tos_traffic_class :: u16
  sdf_spi :: u32
  sdf_flow_label :: u32
  sdf_filter_id :: u32

definition decode_sdf_filter :: "bytes \<Rightarrow> nat \<Rightarrow> pfcp_sdf_filter dec" where [codec_defs]:
  "decode_sdf_filter data len =
     (if len < 2 then Reject PFCP_CAUSE_INVALID_LENGTH
      else get_u8 data (\<lambda>b data.
        let flags = b AND 0x0f; data = drop 1 data; len = len - 2 in
        opt_vec (ISSET_BIT flags 0) data len (\<lambda>flow data len.
        opt_field (ISSET_BIT flags 1) 2 get_u16 0 data len (\<lambda>ttc data len.
        opt_field (ISSET_BIT flags 2) 4 get_u32 0 data len (\<lambda>spi data len.
        opt_field (ISSET_BIT flags 3) 3 get_u24 0 data len (\<lambda>fl data len.
        opt_field (ISSET_BIT flags 4) 4 get_u32 0 data len (\<lambda>bid data len.
          Done \<lparr>sdf_flags = flags, sdf_flow = flow, sdf_tos_traffic_class = ttc, sdf_spi = spi,
                sdf_flow_label = fl, sdf_filter_id = bid\<rparr>)))))))"

definition encode_sdf_filter :: "pfcp_sdf_filter \<Rightarrow> bytes" where [codec_defs]:
  "encode_sdf_filter v =
     put_u8 (sdf_flags v AND 0x0f) @ put_u8 0
     @ opt_put (ISSET_BIT (sdf_flags v) 0) (put_vec16 (sdf_flow v))
     @ opt_put (ISSET_BIT (sdf_flags v) 1) (put_u16 (sdf_tos_traffic_class v))
     @ opt_put (ISSET_BIT (sdf_flags v) 2) (put_u32 (sdf_spi v))
     @ opt_put (ISSET_BIT (sdf_flags v) 3) (put_u24 (sdf_flow_label v))
     @ opt_put (ISSET_BIT (sdf_flags v) 4) (put_u32 (sdf_filter_id v))"

definition ok_sdf_filter :: "pfcp_sdf_filter \<Rightarrow> bool" where [codec_ok]:
  "ok_sdf_filter v \<longleftrightarrow> sdf_flags v AND 0x0f = sdf_flags v
     \<and> (\<not> bit (sdf_flags v) 0 \<longrightarrow> sdf_flow v = []) \<and> length (sdf_flow v) < 2 ^ 16
     \<and> (\<not> bit (sdf_flags v) 1 \<longrightarrow> sdf_tos_traffic_class v = 0)
     \<and> (\<not> bit (sdf_flags v) 2 \<longrightarrow> sdf_spi v = 0)
     \<and> (\<not> bit (sdf_flags v) 3 \<longrightarrow> sdf_flow_label v = 0)
     \<and> take_bit 24 (sdf_flow_label v) = sdf_flow_label v
     \<and> sdf_filter_id v = 0"

record pfcp_gate_status =
  gate_ul :: u8
  gate_dl :: u8

definition decode_gate_status :: "bytes \<Rightarrow> nat \<Rightarrow> pfcp_gate_status dec" where [codec_defs]:
  "decode_gate_status data len = (if len < 1 then Reject PFCP_CAUSE_INVALID_LENGTH
     else get_u8 data (\<lambda>status _.
       Done \<lparr>gate_ul = of_bool (drop_bit 2 status AND 0x03 \<noteq> 0),
             gate_dl = of_bool (status AND 0x03 \<noteq> 0)\<rparr>))"

definition encode_gate_status :: "pfcp_gate_status \<Rightarrow> bytes" where [codec_defs]:
  "encode_gate_status v =
     put_u8 ((gate_dl v AND 0x03) OR push_bit 2 (gate_ul v AND 0x03))"

definition ok_gate_status :: "pfcp_gate_status \<Rightarrow> bool" where [codec_ok]:
  "ok_gate_status v \<longleftrightarrow> gate_ul v < 2 \<and> gate_dl v < 2"

record pfcp_bit_rate =
  rate_ul :: u64
  rate_dl :: u64

definition decode_bit_rate :: "bytes \<Rightarrow> nat \<Rightarrow> pfcp_bit_rate dec" where [codec_defs]:
  "decode_bit_rate data len = (if len < 10 then Reject PFCP_CAUSE_INVALID_LENGTH
     else get_u40 data (\<lambda>ul data. get_u40 data (\<lambda>dl data.
       Done \<lparr>rate_ul = ul, rate_dl = dl\<rparr>)))"

definition encode_bit_rate :: "pfcp_bit_rate \<Rightarrow> bytes" where [codec_defs]:
  "encode_bit_rate v = put_u40 (rate_ul v) @ put_u40 (rate_dl v)"

definition ok_bit_rate :: "pfcp_bit_rate \<Rightarrow> bool" where [codec_ok]:
  "ok_bit_rate v \<longleftrightarrow> take_bit 40 (rate_ul v) = rate_ul v \<and> take_bit 40 (rate_dl v) = rate_dl v"

section \<open>Redirect information, forwarding policy, destination interface\<close>

record pfcp_redirect_information =
  redir_type :: u8
  redir_ip :: ip46_address
  redir_other_ip :: ip46_address
  redir_uri :: bytes

definition decode_redirect_information ::
    "vlib \<Rightarrow> bytes \<Rightarrow> nat \<Rightarrow> pfcp_redirect_information dec" where [codec_defs]:
  "decode_redirect_information lib data len =
     (if len < 3 then Reject PFCP_CAUSE_INVALID_LENGTH
      else get_u8 data (\<lambda>type data. get_u16 data (\<lambda>addr_len data.
        let len = len - 3 in
        if unat addr_len > len then Reject PFCP_CAUSE_INVALID_LENGTH
        else if type = 0 \<or> type = 1 then
          get_vec (unat addr_len) data (\<lambda>s _.
            case unformat_ip46_address lib (if type = 0 then IP46_TYPE_IP4 else IP46_TYPE_IP6) s of
              None \<Rightarrow> Reject PFCP_CAUSE_REQUEST_REJECTED
            | Some ip \<Rightarrow> Done \<lparr>redir_type = type, redir_ip = ip, redir_other_ip = 0, redir_uri = []\<rparr>)
        else if type = 4 then
          get_vec (unat addr_len) data (\<lambda>s data.
            case unformat_ip46_address lib IP46_TYPE_ANY s of
              None \<Rightarrow> Reject PFCP_CAUSE_REQUEST_REJECTED
            | Some ip \<Rightarrow>
                if len < 2 then Reject PFCP_CAUSE_INVALID_LENGTH
                else get_u16 data (\<lambda>addr_len data.
                  let len = len - 2 in
                  if unat addr_len > len then Reject PFCP_CAUSE_INVALID_LENGTH
                  else get_vec (unat addr_len) data (\<lambda>s _.
                    case unformat_ip46_address lib IP46_TYPE_ANY s of
                      None \<Rightarrow> Reject PFCP_CAUSE_REQUEST_REJECTED
                    | Some ip' \<Rightarrow> Done \<lparr>redir_type = type, redir_ip = ip, redir_other_ip = ip',
                                        redir_uri = []\<rparr>)))
        else if type = 2 \<or> type = 3 then
          get_vec (unat addr_len) data (\<lambda>uri _.
            Done \<lparr>redir_type = type, redir_ip = 0, redir_other_ip = 0, redir_uri = uri\<rparr>)
        else Reject PFCP_CAUSE_REQUEST_REJECTED)))"

definition encode_redirect_information :: "vlib \<Rightarrow> pfcp_redirect_information \<Rightarrow> bytes" where [codec_defs]:
  "encode_redirect_information lib v =
     put_u8 (redir_type v) @
     (if redir_type v = 0 \<or> redir_type v = 1 then
        let s = format_ip46_address lib (redir_ip v) in put_u16 (of_nat (length s)) @ s
      else if redir_type v = 2 \<or> redir_type v = 3 then put_vec16 (redir_uri v)
      else [])"

definition ok_redirect_information :: "vlib \<Rightarrow> pfcp_redirect_information \<Rightarrow> bool" where [codec_ok]:
  "ok_redirect_information lib v \<longleftrightarrow> redir_other_ip v = 0 \<and>
     (if redir_type v = 0 \<or> redir_type v = 1 then
        redir_uri v = [] \<and> length (format_ip46_address lib (redir_ip v)) < 2 ^ 16
        \<and> unformat_ip46_address lib (if redir_type v = 0 then IP46_TYPE_IP4 else IP46_TYPE_IP6)
            (format_ip46_address lib (redir_ip v)) = Some (redir_ip v)
      else (redir_type v = 2 \<or> redir_type v = 3) \<and> redir_ip v = 0 \<and> length (redir_uri v) < 2 ^ 16)"

text \<open>The vector is given the whole rest of the element, not the stated \<^verbatim>\<open>fpi_len\<close> octets.\<close>

definition decode_forwarding_policy :: "bytes \<Rightarrow> nat \<Rightarrow> bytes dec" where [codec_defs]:
  "decode_forwarding_policy data len = (if len < 1 then Reject PFCP_CAUSE_INVALID_LENGTH
     else get_u8 data (\<lambda>fpi_len data.
       let len = len - 1 in
       if unat fpi_len > len then Reject PFCP_CAUSE_INVALID_LENGTH
       else get_vec len data (\<lambda>v _. Done v)))"

definition encode_forwarding_policy :: "bytes \<Rightarrow> bytes" where [codec_defs]:
  "encode_forwarding_policy v = put_u8 (of_nat (length v)) @ v"

definition ok_forwarding_policy :: "bytes \<Rightarrow> bool" where [codec_ok]:
  "ok_forwarding_policy v \<longleftrightarrow> length v < 256"

definition decode_destination_interface :: "bytes \<Rightarrow> nat \<Rightarrow> u8 dec" where [codec_defs]:
  "decode_destination_interface data len = (if len < 1 then Reject PFCP_CAUSE_INVALID_LENGTH
     else get_u8 data (\<lambda>b _. let v = b AND 0x0f in
       if v \<ge> 6 then Reject PFCP_CAUSE_REQUEST_REJECTED else Done v))"

definition encode_destination_interface :: "u8 \<Rightarrow> bytes" where [codec_defs]:
  "encode_destination_interface v = put_u8 v"

definition ok_destination_interface :: "u8 \<Rightarrow> bool" where [codec_ok]:
  "ok_destination_interface v \<longleftrightarrow> v < 6"

section \<open>Function features, downlink data service, buffering\<close>

definition decode_up_function_features :: "bytes \<Rightarrow> nat \<Rightarrow> u64 dec" where [codec_defs]:
  "decode_up_function_features data len =
     (if len mod 2 \<noteq> 0 \<or> len < 2 then Reject PFCP_CAUSE_INVALID_LENGTH
      else get_u16_little data (\<lambda>a data.
        let v = ucast a :: u64; len = len - 2 in
        if len = 0 then Done v
        else get_u16_little data (\<lambda>b data.
          let v = v OR push_bit 16 (ucast b); len = len - 2 in
          if len = 0 then Done v
          else get_u16_little data (\<lambda>c data.
            let v = v OR push_bit 32 (ucast c); len = len - 2 in
            if len = 0 then Done v
            else get_u16_little data (\<lambda>d data. Done (v OR push_bit 48 (ucast d)))))))"

definition encode_up_function_features :: "u64 \<Rightarrow> bytes" where [codec_defs]:
  "encode_up_function_features v =
     put_u16_little (ucast v) @ put_u16_little (ucast (drop_bit 16 v))
     @ put_u16_little (ucast (drop_bit 32 v))"

definition ok_up_function_features :: "u64 \<Rightarrow> bool" where [codec_ok]:
  "ok_up_function_features v \<longleftrightarrow> take_bit 48 v = v"

record pfcp_downlink_data_service_information =
  ddsi_flags :: u8
  ddsi_paging_policy_indication :: u8
  ddsi_qfi :: u8

definition decode_downlink_data_service_information ::
    "bytes \<Rightarrow> nat \<Rightarrow> pfcp_downlink_data_service_information dec" where [codec_defs]:
  "decode_downlink_data_service_information data len =
     (if len < 1 then Reject PFCP_CAUSE_INVALID_LENGTH
      else get_u8 data (\<lambda>b data.
        let flags = b AND 0x03; len = len - 1 in
        opt_field (ISSET_BIT flags 0) 1 get_u8 0 data len (\<lambda>ppi data len.
        opt_field (ISSET_BIT flags 1) 1 get_u8 0 data len (\<lambda>qfi data len.
          Done \<lparr>ddsi_flags = flags, ddsi_paging_policy_indication = ppi, ddsi_qfi = qfi\<rparr>))))"

definition encode_downlink_data_service_information ::
    "pfcp_downlink_data_service_information \<Rightarrow> bytes" where [codec_defs]:
  "encode_downlink_data_service_information v =
     put_u8 (ddsi_flags v)
     @ opt_put (ISSET_BIT (ddsi_flags v) 0) (put_u8 (ddsi_paging_policy_indication v))
     @ opt_put (ISSET_BIT (ddsi_flags v) 1) (put_u8 (ddsi_qfi v))"

definition ok_downlink_data_service_information ::
    "pfcp_downlink_data_service_information \<Rightarrow> bool" where [codec_ok]:
  "ok_downlink_data_service_information v \<longleftrightarrow> ddsi_flags v AND 0x03 = ddsi_flags v
     \<and> (\<not> bit (ddsi_flags v) 0 \<longrightarrow> ddsi_paging_policy_indication v = 0)
     \<and> (\<not> bit (ddsi_flags v) 1 \<longrightarrow> ddsi_qfi v = 0)"

definition decode_dl_buffering_suggested_packet_count :: "bytes \<Rightarrow> nat \<Rightarrow> u16 dec" where [codec_defs]:
  "decode_dl_buffering_suggested_packet_count data len =
     (if len = 1 then get_u8 data (\<lambda>v _. Done (ucast v))
      else if len = 2 then get_u16 data (\<lambda>v _. Done v)
      else Reject PFCP_CAUSE_INVALID_LENGTH)"

definition encode_dl_buffering_suggested_packet_count :: "u16 \<Rightarrow> bytes" where [codec_defs]:
  "encode_dl_buffering_suggested_packet_count v =
     (if v < 256 then put_u8 (ucast v) else put_u16 v)"

section \<open>F-SEID, node id, PFD contents\<close>

record pfcp_f_seid =
  fs_flags :: u8
  fs_seid :: u64
  fs_ip4 :: ip4_address
  fs_ip6 :: ip6_address

text \<open>\<^verbatim>\<open>length\<close> is not reduced by the nine octets of flags and SEID. The IPv4 flag is bit 1, the
  IPv6 flag bit 0.\<close>

definition decode_f_seid :: "bytes \<Rightarrow> nat \<Rightarrow> pfcp_f_seid dec" where [codec_defs]:
  "decode_f_seid data len =
     (if len < 9 then Reject PFCP_CAUSE_INVALID_LENGTH
      else get_u8 data (\<lambda>b data.
        let flags = b AND 0x03 in
        if flags = 0 then Reject (-1)
        else get_u64 data (\<lambda>seid data.
          opt_field (ISSET_BIT flags 1) 4 get_ip4 0 data len (\<lambda>ip4 data len.
          opt_field (ISSET_BIT flags 0) 16 get_ip6 0 data len (\<lambda>ip6 data len.
            Done \<lparr>fs_flags = flags, fs_seid = seid, fs_ip4 = ip4, fs_ip6 = ip6\<rparr>)))))"

definition encode_f_seid :: "pfcp_f_seid \<Rightarrow> bytes" where [codec_defs]:
  "encode_f_seid v =
     put_u8 (fs_flags v) @ put_u64 (fs_seid v)
     @ opt_put (ISSET_BIT (fs_flags v) 1) (put_ip4 (fs_ip4 v))
     @ opt_put (ISSET_BIT (fs_flags v) 0) (put_ip6 (fs_ip6 v))"

definition ok_f_seid :: "pfcp_f_seid \<Rightarrow> bool" where [codec_ok]:
  "ok_f_seid v \<longleftrightarrow> fs_flags v AND 0x03 = fs_flags v \<and> fs_flags v \<noteq> 0
     \<and> (\<not> bit (fs_flags v) 1 \<longrightarrow> fs_ip4 v = 0) \<and> (\<not> bit (fs_flags v) 0 \<longrightarrow> fs_ip6 v = 0)"

record pfcp_node_id =
  nid_type :: u8
  nid_ip :: ip46_address
  nid_fqdn :: bytes

definition decode_node_id :: "vlib \<Rightarrow> bytes \<Rightarrow> nat \<Rightarrow> pfcp_node_id dec" where [codec_defs]:
  "decode_node_id lib data len =
     (if len < 1 then Reject PFCP_CAUSE_INVALID_LENGTH
      else get_u8 data (\<lambda>b data.
        let type = b AND 0x0f; len = len - 1 in
        if type = 0 then
          (if len < 4 then Reject PFCP_CAUSE_INVALID_LENGTH
           else get_ip46_ip4 lib data (\<lambda>ip _. Done \<lparr>nid_type = type, nid_ip = ip, nid_fqdn = []\<rparr>))
        else if type = 1 then
          (if len < 16 then Reject PFCP_CAUSE_INVALID_LENGTH
           else get_ip46_ip6 data (\<lambda>ip _. Done \<lparr>nid_type = type, nid_ip = ip, nid_fqdn = []\<rparr>))
        else if type = 2 then
          get_vec len data (\<lambda>fqdn _. Done \<lparr>nid_type = type, nid_ip = 0, nid_fqdn = fqdn\<rparr>)
        else Reject PFCP_CAUSE_REQUEST_REJECTED))"

definition encode_node_id :: "pfcp_node_id \<Rightarrow> bytes" where [codec_defs]:
  "encode_node_id v =
     put_u8 (nid_type v) @
     (if nid_type v = 0 then put_ip46_ip4 (nid_ip v)
      else if nid_type v = 1 then put_ip46_ip6 (nid_ip v)
      else if nid_type v = 2 then nid_fqdn v
      else [])"

definition ok_node_id :: "vlib \<Rightarrow> pfcp_node_id \<Rightarrow> bool" where [codec_ok]:
  "ok_node_id lib v \<longleftrightarrow>
     (nid_type v = 0 \<and> ip46_address_set_ip4 lib (ucast (nid_ip v)) = nid_ip v \<and> nid_fqdn v = [])
     \<or> (nid_type v = 1 \<and> nid_fqdn v = []) \<or> (nid_type v = 2 \<and> nid_ip v = 0)"

record pfcp_pfd_contents =
  pfd_flow_description :: bytes
  pfd_url :: bytes
  pfd_domain :: bytes
  pfd_custom :: bytes
  pfd_dnp :: bytes

definition decode_pfd_contents :: "bytes \<Rightarrow> nat \<Rightarrow> pfcp_pfd_contents dec" where [codec_defs]:
  "decode_pfd_contents data len =
     (if len < 2 then Reject PFCP_CAUSE_INVALID_LENGTH
      else get_u8 data (\<lambda>b data.
        let flags = b AND 0x1f; data = drop 1 data; len = len - 2 in
        opt_vec (ISSET_BIT flags 0) data len (\<lambda>fd data len.
        opt_vec (ISSET_BIT flags 1) data len (\<lambda>url data len.
        opt_vec (ISSET_BIT flags 2) data len (\<lambda>dn data len.
        opt_vec (ISSET_BIT flags 3) data len (\<lambda>cp data len.
        opt_vec (ISSET_BIT flags 4) data len (\<lambda>dnp data len.
          Done \<lparr>pfd_flow_description = fd, pfd_url = url, pfd_domain = dn, pfd_custom = cp,
                pfd_dnp = dnp\<rparr>)))))))"

text \<open>There is no spare octet after the flags, although the decoder skips one.\<close>

definition encode_pfd_contents :: "pfcp_pfd_contents \<Rightarrow> bytes" where [codec_defs]:
  "encode_pfd_contents v =
     put_u8 ((if pfd_flow_description v \<noteq> [] then BIT 0 else 0)
       OR (if pfd_url v \<noteq> [] then BIT 1 else 0)
       OR (if pfd_domain v \<noteq> [] then BIT 2 else 0)
       OR (if pfd_custom v \<noteq> [] then BIT 3 else 0)
       OR (if pfd_dnp v \<noteq> [] then BIT 4 else 0))
     @ opt_put (pfd_flow_description v \<noteq> []) (put_vec16 (pfd_flow_description v))
     @ opt_put (pfd_url v \<noteq> []) (put_vec16 (pfd_url v))
     @ opt_put (pfd_domain v \<noteq> []) (put_vec16 (pfd_domain v))
     @ opt_put (pfd_custom v \<noteq> []) (put_vec16 (pfd_custom v))
     @ opt_put (pfd_dnp v \<noteq> []) (put_vec16 (pfd_dnp v))"

section \<open>Laws\<close>

lemma time_base:
  "(v :: u32) - 2208988800 = v + 2085978496" "(v :: u32) + 2208988800 = v - 2085978496"
proof -
  have e: "(2085978496 :: u32) = - 2208988800" by simp
  show "(v :: u32) - 2208988800 = v + 2085978496" unfolding e by simp
  show "(v :: u32) + 2208988800 = v - 2085978496" unfolding e by simp
qed

lemma popcount_u8: "popcount (w :: u8) = of_bool (bit w 0) + of_bool (bit w 1) + of_bool (bit w 2)
    + of_bool (bit w 3) + of_bool (bit w 4) + of_bool (bit w 5) + of_bool (bit w 6) + of_bool (bit w 7)"
  by (simp add: popcount_def upt_rec numeral_eq_Suc)

lemma popcount_and_7:
  "popcount ((w :: u8) AND 7) = of_bool (bit w 0) + of_bool (bit w 1) + of_bool (bit w 2)"
  by (simp add: popcount_u8 bit_and_iff)

lemma popcount_mask_7:
  "(w :: u8) AND 7 = w \<Longrightarrow> popcount w = of_bool (bit w 0) + of_bool (bit w 1) + of_bool (bit w 2)"
  using popcount_and_7 [of w] by simp

lemma and_15_bit4: "(w :: u8) AND 15 = w \<Longrightarrow> \<not> bit w 4"
  by (auto dest: bit_and_eq)

lemma ucast_u8_u16: "(v :: u16) < 256 \<Longrightarrow> ucast (ucast v :: u8) = v"
  using less_mask_eq [of v 8] by (simp add: unsigned_ucast_eq flip: take_bit_eq_mask)

lemma join_u16s:
  "take_bit 48 (v :: u64) = v \<Longrightarrow>
   (ucast (ucast v :: u16) OR push_bit 16 (ucast (ucast (drop_bit 16 v) :: u16)))
     OR push_bit 32 (ucast (ucast (drop_bit 32 v) :: u16)) = v"
proof (rule bit_word_eqI)
  fix i assume "take_bit 48 v = v" and "i < LENGTH(64)"
  then have "bit v i \<Longrightarrow> i < 48" by (metis bit_take_bit_iff)
  then show "bit ((ucast (ucast v :: u16) OR push_bit 16 (ucast (ucast (drop_bit 16 v) :: u16)))
      OR push_bit 32 (ucast (ucast (drop_bit 32 v) :: u16)) :: u64) i = bit v i"
    by (cases "i < 32") (auto simp: bit_simps)
qed

lemmas codec_simps = codec_defs codec_ok Let_def

interpretation u8_ie: safe_codec decode_u8_ie encode_u8_ie "\<lambda>_. True"
  by unfold_locales (auto simp: codec_simps Fault_simps split: if_splits)

interpretation u16_ie: safe_codec decode_u16_ie encode_u16_ie "\<lambda>_. True"
  by unfold_locales (auto simp: codec_simps Fault_simps split: if_splits)

interpretation u16_little_ie: safe_codec decode_u16_little_ie encode_u16_little_ie "\<lambda>_. True"
  by unfold_locales (auto simp: codec_simps Fault_simps split: if_splits)

interpretation u32_ie: safe_codec decode_u32_ie encode_u32_ie "\<lambda>_. True"
  by unfold_locales (auto simp: codec_simps Fault_simps split: if_splits)

interpretation simple_vec_ie: safe_codec decode_simple_vec_ie encode_simple_vec_ie "\<lambda>_. True"
  by unfold_locales (auto simp: codec_simps Fault_simps split: if_splits)

interpretation volume_ie: safe_codec decode_volume_ie encode_volume_ie ok_volume_ie
  by (unfold_locales, simp add: codec_simps popcount_mask_7)
     (auto simp: decode_volume_ie_def Let_def popcount_and_7 bit_and_iff Fault_simps split: if_splits)

interpretation time_stamp_ie: safe_codec decode_time_stamp_ie encode_time_stamp_ie "\<lambda>_. True"
  by unfold_locales (auto simp: codec_defs time_base Fault_simps split: if_splits)

interpretation timer_ie: safe_codec decode_timer_ie encode_timer_ie ok_timer_ie
  by unfold_locales (auto simp: codec_simps nibble_simps Fault_simps split: if_splits)

interpretation source_interface:
  safe_codec decode_source_interface encode_source_interface ok_source_interface
  by unfold_locales (auto simp: codec_simps Fault_simps word_le_nat_alt split: if_splits dest!: word_less_4)

interpretation f_teid: ie_codec decode_f_teid encode_f_teid ok_f_teid
  by unfold_locales (simp add: codec_simps)

interpretation sdf_filter: safe_codec decode_sdf_filter encode_sdf_filter ok_sdf_filter
  by (unfold_locales, simp add: codec_simps and_15_bit4)
     (auto simp: decode_sdf_filter_def Let_def Fault_simps split: if_splits)

interpretation gate_status: safe_codec decode_gate_status encode_gate_status ok_gate_status
  by unfold_locales (auto simp: codec_simps Fault_simps split: if_splits dest!: word_less_2)

interpretation bit_rate: safe_codec decode_bit_rate encode_bit_rate ok_bit_rate
  by unfold_locales (auto simp: codec_simps Fault_simps split: if_splits)

interpretation redirect_information: ie_codec "decode_redirect_information lib"
  "encode_redirect_information lib" "ok_redirect_information lib" for lib
  by unfold_locales (auto simp: codec_simps put_vec16_def unat_of_nat split: if_splits)

interpretation forwarding_policy:
  safe_codec decode_forwarding_policy encode_forwarding_policy ok_forwarding_policy
  by unfold_locales (auto simp: codec_simps Fault_simps unat_of_nat split: if_splits)

interpretation destination_interface:
  safe_codec decode_destination_interface encode_destination_interface ok_destination_interface
  by unfold_locales (auto simp: codec_simps Fault_simps word_le_nat_alt split: if_splits dest!: word_less_6)

interpretation up_function_features:
  safe_codec decode_up_function_features encode_up_function_features ok_up_function_features
  by (unfold_locales, simp add: codec_simps join_u16s)
     (auto simp: decode_up_function_features_def Let_def Fault_simps split: if_splits)

interpretation ddsi: safe_codec decode_downlink_data_service_information
  encode_downlink_data_service_information ok_downlink_data_service_information
  by (unfold_locales, simp add: codec_simps)
    (auto simp: decode_downlink_data_service_information_def Let_def Fault_simps split: if_splits)

interpretation dlbspc: safe_codec decode_dl_buffering_suggested_packet_count
  encode_dl_buffering_suggested_packet_count "\<lambda>_. True"
  by unfold_locales (auto simp: codec_simps Fault_simps ucast_u8_u16 split: if_splits)

interpretation f_seid: ie_codec decode_f_seid encode_f_seid ok_f_seid
  by unfold_locales (simp add: codec_simps)

interpretation node_id: safe_codec "decode_node_id lib" encode_node_id "ok_node_id lib" for lib
  by unfold_locales (auto simp: codec_simps Fault_simps split: if_splits)

subsection \<open>PFD contents cannot be read back\<close>

definition vec16_size :: "bytes \<Rightarrow> nat" where
  "vec16_size w = of_bool (w \<noteq> []) * (2 + length w)"

lemma opt_vec_Done:
  assumes "opt_vec c data len k = Done x"
  obtains v data' len' where "k v data' len' = Done x" "len' + vec16_size v \<le> len"
  using assms by (auto simp: opt_vec_def vec16_size_def get_u16_def get_be_def get_vec_def
      split: if_splits)

lemma decode_pfd_contents_consumes:
  assumes "decode_pfd_contents data len = Done v"
  shows "2 + (\<Sum>w \<leftarrow> [pfd_flow_description v, pfd_url v, pfd_domain v, pfd_custom v, pfd_dnp v].
           vec16_size w) \<le> len"
  using assms unfolding decode_pfd_contents_def get_u8_def Let_def
  by (clarsimp split: if_splits list.splits) (elim opt_vec_Done, auto)

lemma pfd_contents_lost:
  "decode_pfd_contents (encode_pfd_contents v @ rest) (length (encode_pfd_contents v)) \<noteq> Done v"
proof
  assume "decode_pfd_contents (encode_pfd_contents v @ rest) (length (encode_pfd_contents v)) = Done v"
  from decode_pfd_contents_consumes [OF this] show False
    by (simp add: encode_pfd_contents_def vec16_size_def)
qed
end
