(* ===== verification/Pfcp_IE_More.thy ===== *)
theory Pfcp_IE_More
  imports Pfcp_IE_Basic
begin

text \<open>
  Information element codecs of \<^verbatim>\<open>src/upf/pfcp.c\<close>, second part: from Usage Report Trigger to the
  vendor elements, in the order of the source, with the same conventions as the first part.
\<close>

section \<open>Usage report trigger, FQ-CSID, volume measurement, thresholds\<close>

definition decode_usage_report_trigger :: "bytes \<Rightarrow> nat \<Rightarrow> u32 dec" where [codec_defs]:
  "decode_usage_report_trigger data len =
     (if len < 2 then Reject PFCP_CAUSE_INVALID_LENGTH
      else get_u16_little data (\<lambda>a data.
        let v = ucast a :: u32; len = len - 2 in
        if len = 0 then Done v
        else get_u8 data (\<lambda>b data. Done (v OR push_bit 16 (ucast b)))))"

definition encode_usage_report_trigger :: "u32 \<Rightarrow> bytes" where [codec_defs]:
  "encode_usage_report_trigger v = put_u16_little (ucast v) @ put_u8 (ucast (drop_bit 16 v))"

definition ok_usage_report_trigger :: "u32 \<Rightarrow> bool" where [codec_ok]:
  "ok_usage_report_trigger v \<longleftrightarrow> take_bit 24 v = v"

record pfcp_fq_csid =
  csid_node_id_type :: u8
  csid_ip :: ip46_address
  csid_mcc :: u16
  csid_mnc :: u16
  csid_nid :: u16
  csid_csid :: "u16 list"

text \<open>The loop \<^verbatim>\<open>for (; n > 0; n--) vec_add1 (v->csid, get_u16 (data))\<close>.\<close>

fun get_u16s :: "nat \<Rightarrow> bytes \<Rightarrow> (u16 list \<Rightarrow> bytes \<Rightarrow> 'b dec) \<Rightarrow> 'b dec" where
  "get_u16s 0 data k = k [] data"
| "get_u16s (Suc n) data k = get_u16 data (\<lambda>w data. get_u16s n data (\<lambda>ws. k (w # ws)))"

text \<open>The node identifier of type 2: the decimal digits of MCC and MNC and a 12-bit number.\<close>

definition fq_csid_nid_pack :: "u16 \<Rightarrow> u16 \<Rightarrow> u16 \<Rightarrow> u32" where
  "fq_csid_nid_pack mcc mnc nid =
     push_bit 12 (ucast mcc * 1000 + ucast mnc) OR (ucast nid AND 0x0fff)"

definition fq_csid_nid_mcc :: "u32 \<Rightarrow> u16" where
  "fq_csid_nid_mcc w = of_nat (unat (drop_bit 12 w) div 1000)"

definition fq_csid_nid_mnc :: "u32 \<Rightarrow> u16" where
  "fq_csid_nid_mnc w = of_nat (unat (drop_bit 12 w) mod 1000)"

definition fq_csid_nid_nid :: "u32 \<Rightarrow> u16" where
  "fq_csid_nid_nid w = ucast (w AND 0x0fff)"

definition decode_fq_csid :: "vlib \<Rightarrow> bytes \<Rightarrow> nat \<Rightarrow> pfcp_fq_csid dec" where [codec_defs]:
  "decode_fq_csid lib data len =
     (if len < 1 then Reject PFCP_CAUSE_INVALID_LENGTH
      else get_u8 data (\<lambda>b data.
        let len = len - 1; type = drop_bit 4 b; n = unat (b AND 0x0f);
            csids = (\<lambda>ip mcc mnc nid data len.
              if len < n * 2 then Reject PFCP_CAUSE_INVALID_LENGTH
              else get_u16s n data (\<lambda>cs _.
                Done \<lparr>csid_node_id_type = type, csid_ip = ip, csid_mcc = mcc, csid_mnc = mnc,
                      csid_nid = nid, csid_csid = cs\<rparr>)) in
        if type = 0 then
          (if len < 4 then Reject PFCP_CAUSE_INVALID_LENGTH
           else get_ip46_ip4 lib data (\<lambda>ip data. csids ip 0 0 0 data (len - 4)))
        else if type = 1 then
          (if len < 16 then Reject PFCP_CAUSE_INVALID_LENGTH
           else get_ip46_ip6 data (\<lambda>ip data. csids ip 0 0 0 data (len - 16)))
        else if type = 2 then
          (if len < 4 then Reject PFCP_CAUSE_INVALID_LENGTH
           else get_u32 data (\<lambda>id data.
             csids 0 (fq_csid_nid_mcc id) (fq_csid_nid_mnc id) (fq_csid_nid_nid id) data (len - 4)))
        else csids 0 0 0 0 data len))"

definition encode_fq_csid :: "pfcp_fq_csid \<Rightarrow> bytes" where [codec_defs]:
  "encode_fq_csid v =
     put_u8 (push_bit 4 (csid_node_id_type v) OR (of_nat (length (csid_csid v)) AND 0x0f))
     @ (if csid_node_id_type v = 0 then put_ip46_ip4 (csid_ip v)
        else if csid_node_id_type v = 1 then put_ip46_ip6 (csid_ip v)
        else if csid_node_id_type v = 2 then
          put_u32 (fq_csid_nid_pack (csid_mcc v) (csid_mnc v) (csid_nid v))
        else [])
     @ concat (map put_u16 (csid_csid v))"

definition ok_fq_csid :: "vlib \<Rightarrow> pfcp_fq_csid \<Rightarrow> bool" where [codec_ok]:
  "ok_fq_csid lib v \<longleftrightarrow> take_bit 4 (csid_node_id_type v) = csid_node_id_type v
     \<and> length (csid_csid v) < 16
     \<and> (if csid_node_id_type v = 0 then ip46_address_set_ip4 lib (ucast (csid_ip v)) = csid_ip v
        else csid_node_id_type v = 1 \<or> csid_ip v = 0)
     \<and> (if csid_node_id_type v = 2
        then unat (csid_mcc v) * 1000 + unat (csid_mnc v) < 2 ^ 20 \<and> unat (csid_mnc v) < 1000
          \<and> unat (csid_nid v) < 2 ^ 12
        else csid_mcc v = 0 \<and> csid_mnc v = 0 \<and> csid_nid v = 0)"

record pfcp_volume_measurement =
  vm_fields :: u8
  vm_volume_total :: u64
  vm_volume_ul :: u64
  vm_volume_dl :: u64
  vm_packets_total :: u64
  vm_packets_ul :: u64
  vm_packets_dl :: u64

definition decode_volume_measurement :: "bytes \<Rightarrow> nat \<Rightarrow> pfcp_volume_measurement dec" where [codec_defs]:
  "decode_volume_measurement data len =
     (if len < 1 then Reject PFCP_CAUSE_INVALID_LENGTH
      else get_u8 data (\<lambda>b data.
        let fields = b AND 0x07 in
        if len < 1 + popcount fields * 8 then Reject PFCP_CAUSE_INVALID_LENGTH
        else sel_field (ISSET_BIT fields 0) get_u64 0 data (\<lambda>vt data.
             sel_field (ISSET_BIT fields 1) get_u64 0 data (\<lambda>vu data.
             sel_field (ISSET_BIT fields 2) get_u64 0 data (\<lambda>vd data.
             sel_field (ISSET_BIT fields 3) get_u64 0 data (\<lambda>pt data.
             sel_field (ISSET_BIT fields 4) get_u64 0 data (\<lambda>pu data.
             sel_field (ISSET_BIT fields 5) get_u64 0 data (\<lambda>pd data.
               Done \<lparr>vm_fields = fields, vm_volume_total = vt, vm_volume_ul = vu, vm_volume_dl = vd,
                     vm_packets_total = pt, vm_packets_ul = pu, vm_packets_dl = pd\<rparr>))))))))"

definition encode_volume_measurement :: "pfcp_volume_measurement \<Rightarrow> bytes" where [codec_defs]:
  "encode_volume_measurement v =
     put_u8 (vm_fields v)
     @ opt_put (ISSET_BIT (vm_fields v) 0) (put_u64 (vm_volume_total v))
     @ opt_put (ISSET_BIT (vm_fields v) 1) (put_u64 (vm_volume_ul v))
     @ opt_put (ISSET_BIT (vm_fields v) 2) (put_u64 (vm_volume_dl v))
     @ opt_put (ISSET_BIT (vm_fields v) 3) (put_u64 (vm_packets_total v))
     @ opt_put (ISSET_BIT (vm_fields v) 4) (put_u64 (vm_packets_ul v))
     @ opt_put (ISSET_BIT (vm_fields v) 5) (put_u64 (vm_packets_dl v))"

definition ok_volume_measurement :: "pfcp_volume_measurement \<Rightarrow> bool" where [codec_ok]:
  "ok_volume_measurement v \<longleftrightarrow> vm_fields v AND 7 = vm_fields v
     \<and> (\<not> bit (vm_fields v) 0 \<longrightarrow> vm_volume_total v = 0)
     \<and> (\<not> bit (vm_fields v) 1 \<longrightarrow> vm_volume_ul v = 0)
     \<and> (\<not> bit (vm_fields v) 2 \<longrightarrow> vm_volume_dl v = 0)
     \<and> vm_packets_total v = 0 \<and> vm_packets_ul v = 0 \<and> vm_packets_dl v = 0"

record pfcp_dropped_dl_traffic_threshold =
  ddtt_flags :: u8
  ddtt_downlink_packets :: u64
  ddtt_downlink_volume :: u64

definition decode_dropped_dl_traffic_threshold ::
    "bytes \<Rightarrow> nat \<Rightarrow> pfcp_dropped_dl_traffic_threshold dec" where [codec_defs]:
  "decode_dropped_dl_traffic_threshold data len =
     (if len < 2 then Reject PFCP_CAUSE_INVALID_LENGTH
      else get_u8 data (\<lambda>flags data.
        let len = len - 1 in
        opt_field (ISSET_BIT flags 0) 8 get_u64 0 data len (\<lambda>pkts data len.
        opt_field (ISSET_BIT flags 1) 8 get_u64 0 data len (\<lambda>vol data len.
          Done \<lparr>ddtt_flags = flags, ddtt_downlink_packets = pkts, ddtt_downlink_volume = vol\<rparr>))))"

text \<open>Both fields are written from \<^verbatim>\<open>downlink_packets\<close>, the volume first.\<close>

definition encode_dropped_dl_traffic_threshold ::
    "pfcp_dropped_dl_traffic_threshold \<Rightarrow> bytes" where [codec_defs]:
  "encode_dropped_dl_traffic_threshold v =
     put_u8 (ddtt_flags v)
     @ opt_put (ISSET_BIT (ddtt_flags v) 1) (put_u64 (ddtt_downlink_packets v))
     @ opt_put (ISSET_BIT (ddtt_flags v) 0) (put_u64 (ddtt_downlink_packets v))"

definition ok_dropped_dl_traffic_threshold :: "pfcp_dropped_dl_traffic_threshold \<Rightarrow> bool" where [codec_ok]:
  "ok_dropped_dl_traffic_threshold v \<longleftrightarrow>
     (bit (ddtt_flags v) 0 \<or> bit (ddtt_flags v) 1)
     \<and> (\<not> bit (ddtt_flags v) 0 \<longrightarrow> ddtt_downlink_packets v = 0)
     \<and> ddtt_downlink_volume v = (if bit (ddtt_flags v) 1 then ddtt_downlink_packets v else 0)"

section \<open>Outer header creation, flow information, UE address, packet rate\<close>

record pfcp_outer_header_creation =
  ohc_description :: u16
  ohc_teid :: u32
  ohc_ip :: ip46_address
  ohc_port :: u16
  ohc_c_tag :: u32
  ohc_s_tag :: u32

definition OUTER_HEADER_CREATION_GTP_ANY :: u16 where
  "OUTER_HEADER_CREATION_GTP_ANY = BIT 0 OR BIT 1"

definition OUTER_HEADER_CREATION_UDP_ANY :: u16 where
  "OUTER_HEADER_CREATION_UDP_ANY = BIT 2 OR BIT 3"

definition OUTER_HEADER_CREATION_ANY_IP4 :: u16 where
  "OUTER_HEADER_CREATION_ANY_IP4 = BIT 0 OR BIT 2 OR BIT 4"

text \<open>The last bit is the IPv4 one (bit 4) in the source too.\<close>

definition OUTER_HEADER_CREATION_ANY_IP6 :: u16 where
  "OUTER_HEADER_CREATION_ANY_IP6 = BIT 1 OR BIT 3 OR BIT 4"

lemmas outer_header_creation_masks = OUTER_HEADER_CREATION_GTP_ANY_def
  OUTER_HEADER_CREATION_UDP_ANY_def OUTER_HEADER_CREATION_ANY_IP4_def
  OUTER_HEADER_CREATION_ANY_IP6_def

text \<open>\<^verbatim>\<open>length\<close> is not reduced by the port and the C-TAG.\<close>

definition decode_outer_header_creation ::
    "vlib \<Rightarrow> bytes \<Rightarrow> nat \<Rightarrow> pfcp_outer_header_creation dec" where [codec_defs]:
  "decode_outer_header_creation lib data len =
     (if len < 2 then Reject PFCP_CAUSE_INVALID_LENGTH
      else get_u16_little data (\<lambda>d data.
        let len = len - 2 in
        if d = 0
           \<or> (d AND OUTER_HEADER_CREATION_GTP_ANY \<noteq> 0) = (d AND OUTER_HEADER_CREATION_UDP_ANY \<noteq> 0)
           \<or> d AND OUTER_HEADER_CREATION_UDP_ANY = OUTER_HEADER_CREATION_UDP_ANY
        then Reject PFCP_CAUSE_REQUEST_REJECTED
        else
          opt_field (d AND OUTER_HEADER_CREATION_GTP_ANY \<noteq> 0) 4 get_u32 0 data len (\<lambda>teid data len.
          opt_field (d AND OUTER_HEADER_CREATION_ANY_IP4 \<noteq> 0) 4 (get_ip46_ip4 lib) 0 data len
            (\<lambda>ip data len.
          opt_field (d AND OUTER_HEADER_CREATION_ANY_IP6 \<noteq> 0) 16 get_ip46_ip6 ip data len
            (\<lambda>ip data len.
          opt_field (d AND OUTER_HEADER_CREATION_UDP_ANY \<noteq> 0) 2 get_u16 0 data len (\<lambda>port data _.
          opt_field (ISSET_BIT d 6) 3 get_u24 0 data len (\<lambda>c_tag data _.
          opt_field (ISSET_BIT d 7) 3 get_u24 0 data len (\<lambda>s_tag data _.
            Done \<lparr>ohc_description = d, ohc_teid = teid, ohc_ip = ip, ohc_port = port,
                  ohc_c_tag = c_tag, ohc_s_tag = s_tag\<rparr>))))))))"

definition encode_outer_header_creation :: "pfcp_outer_header_creation \<Rightarrow> bytes" where [codec_defs]:
  "encode_outer_header_creation v =
     (let d = ohc_description v in
      put_u16_little d
      @ opt_put (d AND OUTER_HEADER_CREATION_GTP_ANY \<noteq> 0) (put_u32 (ohc_teid v))
      @ opt_put (d AND OUTER_HEADER_CREATION_ANY_IP4 \<noteq> 0) (put_ip46_ip4 (ohc_ip v))
      @ opt_put (d AND OUTER_HEADER_CREATION_ANY_IP6 \<noteq> 0) (put_ip46_ip6 (ohc_ip v))
      @ opt_put (d AND OUTER_HEADER_CREATION_UDP_ANY \<noteq> 0) (put_u16 (ohc_port v))
      @ opt_put (ISSET_BIT d 6) (put_u24 (ohc_c_tag v))
      @ opt_put (ISSET_BIT d 7) (put_u24 (ohc_s_tag v)))"

definition ok_outer_header_creation :: "vlib \<Rightarrow> pfcp_outer_header_creation \<Rightarrow> bool" where [codec_ok]:
  "ok_outer_header_creation lib v \<longleftrightarrow>
     (let d = ohc_description v in
      d \<noteq> 0
      \<and> (d AND OUTER_HEADER_CREATION_GTP_ANY \<noteq> 0) \<noteq> (d AND OUTER_HEADER_CREATION_UDP_ANY \<noteq> 0)
      \<and> d AND OUTER_HEADER_CREATION_UDP_ANY \<noteq> OUTER_HEADER_CREATION_UDP_ANY
      \<and> (d AND OUTER_HEADER_CREATION_GTP_ANY = 0 \<longrightarrow> ohc_teid v = 0)
      \<and> (d AND OUTER_HEADER_CREATION_ANY_IP6 = 0 \<longrightarrow>
           (if d AND OUTER_HEADER_CREATION_ANY_IP4 = 0 then ohc_ip v = 0
            else ip46_address_set_ip4 lib (ucast (ohc_ip v)) = ohc_ip v))
      \<and> (d AND OUTER_HEADER_CREATION_UDP_ANY = 0 \<longrightarrow> ohc_port v = 0)
      \<and> (\<not> bit d 6 \<longrightarrow> ohc_c_tag v = 0) \<and> take_bit 24 (ohc_c_tag v) = ohc_c_tag v
      \<and> (\<not> bit d 7 \<longrightarrow> ohc_s_tag v = 0) \<and> take_bit 24 (ohc_s_tag v) = ohc_s_tag v)"

record pfcp_flow_information =
  fi_direction :: u8
  fi_flow_description :: bytes

definition decode_flow_information :: "bytes \<Rightarrow> nat \<Rightarrow> pfcp_flow_information dec" where [codec_defs]:
  "decode_flow_information data len =
     (if len < 3 then Reject PFCP_CAUSE_INVALID_LENGTH
      else get_u8 data (\<lambda>b data. get_u16 data (\<lambda>l data.
        let len = len - 3 in
        if len < unat l then Reject PFCP_CAUSE_INVALID_LENGTH
        else get_vec (unat l) data (\<lambda>fd _.
          Done \<lparr>fi_direction = b AND 0x0f, fi_flow_description = fd\<rparr>))))"

definition encode_flow_information :: "pfcp_flow_information \<Rightarrow> bytes" where [codec_defs]:
  "encode_flow_information v =
     put_u8 (fi_direction v) @ put_u16 (of_nat (length (fi_flow_description v)))
     @ fi_flow_description v"

definition ok_flow_information :: "pfcp_flow_information \<Rightarrow> bool" where [codec_ok]:
  "ok_flow_information v \<longleftrightarrow> fi_direction v AND 0x0f = fi_direction v
     \<and> length (fi_flow_description v) < 2 ^ 16"

record pfcp_ue_ip_address =
  ue_flags :: u8
  ue_ip4 :: ip4_address
  ue_ip6 :: ip6_address
  ue_prefix_delegation_length :: u8
  ue_prefix_length :: u8

definition decode_ue_ip_address :: "bytes \<Rightarrow> nat \<Rightarrow> pfcp_ue_ip_address dec" where [codec_defs]:
  "decode_ue_ip_address data len =
     (if len < 1 then Reject PFCP_CAUSE_INVALID_LENGTH
      else get_u8 data (\<lambda>flags data.
        let len = len - 1 in
        opt_field (ISSET_BIT flags 1) 4 get_ip4 0 data len (\<lambda>ip4 data len.
        opt_field (ISSET_BIT flags 0) 16 get_ip6 0 data len (\<lambda>ip6 data len.
        opt_field (ISSET_BIT flags 3) 1 get_u8 0 data len (\<lambda>pd data len.
        opt_field (ISSET_BIT flags 6) 1 get_u8 0 data len (\<lambda>pl data len.
          Done \<lparr>ue_flags = flags, ue_ip4 = ip4, ue_ip6 = ip6, ue_prefix_delegation_length = pd,
                ue_prefix_length = pl\<rparr>))))))"

definition encode_ue_ip_address :: "pfcp_ue_ip_address \<Rightarrow> bytes" where [codec_defs]:
  "encode_ue_ip_address v =
     put_u8 (ue_flags v)
     @ opt_put (ISSET_BIT (ue_flags v) 1) (put_ip4 (ue_ip4 v))
     @ opt_put (ISSET_BIT (ue_flags v) 0) (put_ip6 (ue_ip6 v))
     @ opt_put (ISSET_BIT (ue_flags v) 3) (put_u8 (ue_prefix_delegation_length v))
     @ opt_put (ISSET_BIT (ue_flags v) 6) (put_u8 (ue_prefix_length v))"

definition ok_ue_ip_address :: "pfcp_ue_ip_address \<Rightarrow> bool" where [codec_ok]:
  "ok_ue_ip_address v \<longleftrightarrow>
     (\<not> bit (ue_flags v) 1 \<longrightarrow> ue_ip4 v = 0) \<and> (\<not> bit (ue_flags v) 0 \<longrightarrow> ue_ip6 v = 0)
     \<and> (\<not> bit (ue_flags v) 3 \<longrightarrow> ue_prefix_delegation_length v = 0)
     \<and> (\<not> bit (ue_flags v) 6 \<longrightarrow> ue_prefix_length v = 0)"

record packet_rate =
  pr_unit :: u8
  pr_max :: u16

record pfcp_packet_rate =
  rate_flags :: u8
  rate_ul_limit :: packet_rate
  rate_dl_limit :: packet_rate
  rate_a_ul_limit :: packet_rate
  rate_a_dl_limit :: packet_rate

definition no_rate :: packet_rate where
  "no_rate = \<lparr>pr_unit = 0, pr_max = 0\<rparr>"

definition get_rate :: "bytes \<Rightarrow> (packet_rate \<Rightarrow> bytes \<Rightarrow> 'b dec) \<Rightarrow> 'b dec" where
  "get_rate data k = get_u8 data (\<lambda>u data. get_u16 data (\<lambda>m.
     k \<lparr>pr_unit = u AND 0x0f, pr_max = m\<rparr>))"

definition put_rate :: "packet_rate \<Rightarrow> bytes" where
  "put_rate r = put_u8 (pr_unit r) @ put_u16 (pr_max r)"

text \<open>The flags are masked with 3 before bit 3 (APRC) is tested.\<close>

definition decode_packet_rate :: "bytes \<Rightarrow> nat \<Rightarrow> pfcp_packet_rate dec" where [codec_defs]:
  "decode_packet_rate data len =
     (if len < 1 then Reject PFCP_CAUSE_INVALID_LENGTH
      else get_u8 data (\<lambda>b data.
        let flags = b AND 0x03; len = len - 1 in
        opt_field (ISSET_BIT flags 0) 3 get_rate no_rate data len (\<lambda>ul data len.
        opt_field (ISSET_BIT flags 1) 3 get_rate no_rate data len (\<lambda>dl data len.
        opt_field (ISSET_BIT flags 3 \<and> ISSET_BIT flags 0) 3 get_rate no_rate data len (\<lambda>a_ul data len.
        opt_field (ISSET_BIT flags 3 \<and> ISSET_BIT flags 1) 3 get_rate no_rate data len (\<lambda>a_dl data len.
          Done \<lparr>rate_flags = flags, rate_ul_limit = ul, rate_dl_limit = dl, rate_a_ul_limit = a_ul,
                rate_a_dl_limit = a_dl\<rparr>))))))"

definition encode_packet_rate :: "pfcp_packet_rate \<Rightarrow> bytes" where [codec_defs]:
  "encode_packet_rate v =
     put_u8 (rate_flags v)
     @ opt_put (ISSET_BIT (rate_flags v) 0) (put_rate (rate_ul_limit v))
     @ opt_put (ISSET_BIT (rate_flags v) 1) (put_rate (rate_dl_limit v))
     @ opt_put (ISSET_BIT (rate_flags v) 3 \<and> ISSET_BIT (rate_flags v) 0) (put_rate (rate_a_ul_limit v))
     @ opt_put (ISSET_BIT (rate_flags v) 3 \<and> ISSET_BIT (rate_flags v) 1) (put_rate (rate_a_dl_limit v))"

definition ok_packet_rate :: "pfcp_packet_rate \<Rightarrow> bool" where [codec_ok]:
  "ok_packet_rate v \<longleftrightarrow> rate_flags v AND 3 = rate_flags v
     \<and> pr_unit (rate_ul_limit v) AND 0x0f = pr_unit (rate_ul_limit v)
     \<and> pr_unit (rate_dl_limit v) AND 0x0f = pr_unit (rate_dl_limit v)
     \<and> (\<not> bit (rate_flags v) 0 \<longrightarrow> rate_ul_limit v = no_rate)
     \<and> (\<not> bit (rate_flags v) 1 \<longrightarrow> rate_dl_limit v = no_rate)
     \<and> rate_a_ul_limit v = no_rate \<and> rate_a_dl_limit v = no_rate"

section \<open>Laws\<close>

lemma join_u16_u8: "take_bit 24 (v :: u32) = v \<Longrightarrow>
    ucast (ucast v :: u16) OR push_bit 16 (ucast (ucast (drop_bit 16 v) :: u8)) = v"
proof (rule bit_word_eqI)
  fix i assume "take_bit 24 v = v" and "i < LENGTH(32)"
  then have "bit v i \<Longrightarrow> i < 24" by (metis bit_take_bit_iff)
  then show "bit (ucast (ucast v :: u16) OR push_bit 16 (ucast (ucast (drop_bit 16 v) :: u8)) :: u32) i
      = bit v i"
    by (auto simp: bit_simps)
qed

interpretation usage_report_trigger:
  safe_codec decode_usage_report_trigger encode_usage_report_trigger ok_usage_report_trigger
  by (unfold_locales, simp add: codec_defs codec_ok Let_def join_u16_u8)
     (auto simp: decode_usage_report_trigger_def Let_def Fault_simps split: if_splits)

lemma get_u16s_put [simp]:
  "n = length ws \<Longrightarrow> get_u16s n (concat (map put_u16 ws) @ data) k = k ws data"
  by (induction ws arbitrary: n k) auto

lemma get_u16s_Fault: "get_u16s n data k = Fault \<Longrightarrow>
    length data < 2 * n \<or> (\<exists>ws. k ws (drop (2 * n) data) = Fault)"
proof (induction n arbitrary: data k)
  case (Suc n)
  then show ?case
    by (auto simp: get_word_Fault dest!: Suc.IH) 
qed auto

lemma unat_low_nibble: "unat ((b :: u8) AND 15) < 16"
  using word_and_le1 [of b 15] by (simp add: word_le_nat_alt)

lemma length_concat_u16 [simp]: "length (concat (map put_u16 ws)) = 2 * length ws"
  by (induction ws) auto

lemma pack12:
  assumes "take_bit 20 x = (x :: u32)" "take_bit 12 n = n"
  shows "drop_bit 12 (push_bit 12 x OR n) = x" "take_bit 12 (push_bit 12 x OR n) = n"
proof -
  have b: "bit x i \<Longrightarrow> i < 20" "bit n i \<Longrightarrow> i < 12" for i
    using assms by (metis bit_take_bit_iff)+
  show "drop_bit 12 (push_bit 12 x OR n) = x"
    by (rule bit_word_eqI) (auto simp: bit_simps dest: b)
  show "take_bit 12 (push_bit 12 x OR n) = n"
    by (rule bit_word_eqI) (auto simp: bit_simps dest: b)
qed

lemma unat_ucast_u16_u32 [simp]: "unat (ucast (v :: u16) :: u32) = unat v"
  by transfer simp

lemma fq_csid_nid_unpack:
  assumes "unat mcc * 1000 + unat mnc < 2 ^ 20" "unat mnc < 1000" "unat nid < 2 ^ 12"
  shows "fq_csid_nid_mcc (fq_csid_nid_pack mcc mnc nid) = mcc"
    "fq_csid_nid_mnc (fq_csid_nid_pack mcc mnc nid) = mnc"
    "fq_csid_nid_nid (fq_csid_nid_pack mcc mnc nid) = nid"
proof -
  let ?x = "ucast mcc * 1000 + ucast mnc :: u32"
  have m: "v AND 0xfff = take_bit 12 v" for v :: u32
    by (simp add: take_bit_eq_mask mask_eq_exp_minus_1)
  have x: "unat ?x = unat mcc * 1000 + unat mnc"
    using assms(1) by (simp add: unat_word_ariths)
  have n: "take_bit 12 (ucast nid) = (ucast nid :: u32)"
    using assms(3) by (intro take_bit_small) simp
  have x': "take_bit 20 ?x = ?x"
    using assms(1) by (intro take_bit_small) (simp only: x)
  have w: "fq_csid_nid_pack mcc mnc nid = push_bit 12 ?x OR ucast nid"
    by (simp add: fq_csid_nid_pack_def m n)
  show "fq_csid_nid_mcc (fq_csid_nid_pack mcc mnc nid) = mcc"
    "fq_csid_nid_mnc (fq_csid_nid_pack mcc mnc nid) = mnc"
    unfolding fq_csid_nid_mcc_def fq_csid_nid_mnc_def w pack12(1) [OF x' n] x
    using assms(2) by simp_all
  show "fq_csid_nid_nid (fq_csid_nid_pack mcc mnc nid) = nid"
    unfolding fq_csid_nid_nid_def w m pack12(2) [OF x' n] by transfer simp
qed

lemma fq_csid_head:
  "take_bit 4 t = (t :: u8) \<Longrightarrow> n < 16 \<Longrightarrow> drop_bit 4 (push_bit 4 t OR (of_nat n AND 0x0f)) = t"
  "take_bit 4 t = (t :: u8) \<Longrightarrow> n < 16 \<Longrightarrow> unat ((push_bit 4 t OR (of_nat n AND 0x0f)) AND 0x0f) = n"
proof -
  assume t: "take_bit 4 t = t" and n: "n < 16"
  then have "take_bit 4 (of_nat n) = (of_nat n :: u8)"
    by (intro take_bit_small) (simp add: unat_of_nat)
  with t n show "drop_bit 4 (push_bit 4 t OR (of_nat n AND 0x0f)) = t"
    "unat ((push_bit 4 t OR (of_nat n AND 0x0f)) AND 0x0f) = n"
    by (simp_all add: nibble_simps unat_of_nat)
qed

interpretation fq_csid: safe_codec "decode_fq_csid lib" encode_fq_csid "ok_fq_csid lib" for lib
proof unfold_locales
  fix v rest assume ok: "ok_fq_csid lib v"
  then show "decode_fq_csid lib (encode_fq_csid v @ rest) (length (encode_fq_csid v)) = Done v"
    unfolding decode_fq_csid_def encode_fq_csid_def ok_fq_csid_def
    by (simp only: get_u8_put append_assoc fq_csid_head Let_def)
       (auto simp: fq_csid_nid_unpack split: if_splits)
next
  fix data n assume "decode_fq_csid lib data n = Fault"
  then show "length data < n"
    unfolding decode_fq_csid_def Let_def
    by (auto simp: Fault_simps split: if_splits dest!: get_u16s_Fault)
qed

interpretation volume_measurement:
  safe_codec decode_volume_measurement encode_volume_measurement ok_volume_measurement
  by (unfold_locales, simp add: codec_defs codec_ok Let_def popcount_mask_7)
     (auto simp: decode_volume_measurement_def Let_def popcount_and_7 bit_and_iff Fault_simps
      split: if_splits)

lemma put_u64_nonempty: "put_u64 w \<noteq> []"
  by (metis length_puts(7) list.size(3) zero_neq_numeral)

interpretation dropped_dl_traffic_threshold: safe_codec decode_dropped_dl_traffic_threshold
  encode_dropped_dl_traffic_threshold ok_dropped_dl_traffic_threshold
  by (unfold_locales, auto simp: codec_defs codec_ok Let_def opt_field_def opt_put_def put_u64_nonempty split: if_splits)
     (auto simp: decode_dropped_dl_traffic_threshold_def Let_def Fault_simps split: if_splits)

interpretation outer_header_creation: ie_codec "decode_outer_header_creation lib"
  encode_outer_header_creation "ok_outer_header_creation lib" for lib
  by unfold_locales (auto simp: codec_defs codec_ok Let_def opt_field_def opt_put_def split: if_splits)

interpretation flow_information:
  safe_codec decode_flow_information encode_flow_information ok_flow_information
  by unfold_locales (auto simp: codec_defs codec_ok Let_def Fault_simps unat_of_nat split: if_splits)

interpretation ue_ip_address: safe_codec decode_ue_ip_address encode_ue_ip_address ok_ue_ip_address
  by (unfold_locales, simp add: codec_defs codec_ok Let_def)
     (auto simp: decode_ue_ip_address_def Let_def Fault_simps split: if_splits)

lemma get_rate_put: "pr_unit r AND 15 = pr_unit r \<Longrightarrow> get_rate (put_rate r @ data) k = k r data"
  by (cases r) (simp add: get_rate_def put_rate_def)

lemma length_put_rate [simp]: "length (put_rate r) = 3"
  by (simp add: put_rate_def)

lemma get_rate_Fault: "get_rate data k = Fault \<longleftrightarrow>
    length data < 3 \<or> k \<lparr>pr_unit = hd data AND 15, pr_max = word_of_be (take 2 (drop 1 data))\<rparr>
      (drop 3 data) = Fault"
  by (auto simp: get_rate_def Fault_simps)

lemma pr_unit_no_rate [simp]: "pr_unit no_rate = 0"
  by (simp add: no_rate_def)

lemma and_3_bit3: "(w :: u8) AND 3 = w \<Longrightarrow> \<not> bit w 3"
  by (auto dest: bit_and_eq)

lemma opt_field_put_rate [simp]:
  assumes "c \<Longrightarrow> 3 \<le> len" "\<not> c \<Longrightarrow> r = no_rate" "pr_unit r AND 15 = pr_unit r"
  shows "opt_field c 3 get_rate no_rate (opt_put c (put_rate r) @ rest) len k =
    k r rest (len - of_bool c * 3)"
  using opt_field_put [of c 3 len r no_rate get_rate "put_rate r" rest k] assms
  by (simp add: get_rate_put)

interpretation packet_rate: safe_codec decode_packet_rate encode_packet_rate ok_packet_rate
  by (unfold_locales, simp add: codec_defs codec_ok Let_def and_3_bit3)
    (auto simp: decode_packet_rate_def Let_def Fault_simps get_rate_Fault bit_and_iff split: if_splits)

end
