(* ===== verification/Upf_Rules.thy ===== *)
theory Upf_Rules
  imports Flow_Table Pfcp_IE_More "HOL-Library.Monad_Syntax" "HOL-Library.Multiset"
begin

text \<open>
  The rules of a session, from \<^verbatim>\<open>src/upf/upf.h\<close> and \<^verbatim>\<open>src/upf/upf_pfcp.c\<close>: IP filters, packet
  detection, forwarding, usage reporting and QoS rules, and the compilation of detection rules into the
  vectors that the data path matches packets against (\<^verbatim>\<open>compile_pdi\<close>, \<^verbatim>\<open>build_pfcp_rules\<close>).

  Addresses are modelled by their value in network order. A vector is a list; for the four vectors of
  rules of a set, for which \<^verbatim>\<open>NULL\<close> is told apart from a vector of length zero, it is a list option.
  \<open>None\<close> as the result of an operation stands for an access outside of a vector, a pool or an object.
  The address functions of VPP are fields of \<open>rules_lib\<close>. Times are counted in ticks of 10 ms.
\<close>

section \<open>IP filters\<close>

record ipfilter_address_t =
  ipf_address :: ip46_address
  ipf_mask :: u8

record ipfilter_port_t =
  port_min :: u16
  port_max :: u16

datatype ipfilter_type = IPFILTER_WILDCARD | IPFILTER_IPV4 | IPFILTER_IPV6
datatype acl_action = ACL_PERMIT | ACL_DENY
datatype acl_direction = ACL_IN | ACL_OUT

text \<open>The arrays with an element for the source (\<open>False\<close>) and one for the destination (\<open>True\<close>).\<close>

abbreviation (input) "IPFILTER_RULE_FIELD_SRC \<equiv> False"
abbreviation (input) "IPFILTER_RULE_FIELD_DST \<equiv> True"
abbreviation (input) "UPF_ACL_FIELD_SRC \<equiv> False"
abbreviation (input) "UPF_ACL_FIELD_DST \<equiv> True"

record acl_rule_t =
  rule_type :: ipfilter_type
  rule_action :: acl_action
  rule_direction :: acl_direction
  rule_proto :: u8
  rule_address :: "ipfilter_address_t per_direction"
  rule_port :: "ipfilter_port_t per_direction"

definition ACL_ADDR_ANY :: ipfilter_address_t where
  "ACL_ADDR_ANY = \<lparr>ipf_address = -1, ipf_mask = 0\<rparr>"

definition acl_addr_is_any :: "ipfilter_address_t \<Rightarrow> bool" where
  "acl_addr_is_any ip \<longleftrightarrow> ipf_address ip = -1 \<and> ipf_mask ip = 0"

definition ACL_ADDR_ASSIGNED :: ipfilter_address_t where
  "ACL_ADDR_ASSIGNED = \<lparr>ipf_address = -1, ipf_mask = -1\<rparr>"

definition acl_addr_is_assigned :: "ipfilter_address_t \<Rightarrow> bool" where
  "acl_addr_is_assigned ip \<longleftrightarrow> ipf_address ip = -1 \<and> ipf_mask ip = -1"

section \<open>Rules\<close>

record adr_rule_t =
  adr_application_id :: u32
  adr_db_id :: u32
  adr_flags :: u32

abbreviation (input) "UPF_ADR_PROXY \<equiv> BIT 0 :: u32"
abbreviation (input) "UPF_ADR_IP_RULES \<equiv> BIT 1 :: u32"

record upf_pdi_t =
  pdi_src_intf :: u8
  pdi_nwi_index :: nat
  pdi_fields :: u32
  pdi_teid :: pfcp_f_teid
  pdi_ue_addr :: pfcp_ue_ip_address
  pdi_acl :: "acl_rule_t list"
  pdi_adr :: adr_rule_t

abbreviation (input) "F_PDI_LOCAL_F_TEID \<equiv> BIT 0 :: u32"
abbreviation (input) "F_PDI_UE_IP_ADDR \<equiv> BIT 2 :: u32"
abbreviation (input) "F_PDI_SDF_FILTER \<equiv> BIT 3 :: u32"
abbreviation (input) "F_PDI_APPLICATION_ID \<equiv> BIT 4 :: u32"

abbreviation (input) "SRC_INTF_ACCESS \<equiv> 0 :: u8"

abbreviation (input) "F_TEID_V4 \<equiv> BIT 0 :: u8"
abbreviation (input) "F_TEID_V6 \<equiv> BIT 1 :: u8"
abbreviation (input) "IE_UE_IP_ADDRESS_V6 \<equiv> BIT 0 :: u8"
abbreviation (input) "IE_UE_IP_ADDRESS_V4 \<equiv> BIT 1 :: u8"
abbreviation (input) "IE_UE_IP_ADDRESS_SD \<equiv> BIT 2 :: u8"

record upf_pdr_t =
  pdr_id :: u32
  pdr_precedence :: u16
  pdr_pdi :: upf_pdi_t
  pdr_outer_header_removal :: u8
  pdr_far_id :: u16
  pdr_urr_ids :: "u16 list"
  pdr_qer_ids :: "u32 list"

text \<open>The union of a forwarding rule with \<^verbatim>\<open>bar_id\<close> is modelled by its member \<^verbatim>\<open>forward\<close>: nothing
  reads or writes the other one.\<close>

record upf_far_forward_t =
  fwd_flags :: u16
  fwd_dst_intf :: u8
  fwd_dst_sw_if_index :: nat
  fwd_nwi_index :: nat
  fwd_redirect_information :: "pfcp_redirect_information option"
  fwd_outer_header_creation :: pfcp_outer_header_creation
  fwd_peer_idx :: nat
  fwd_rewrite :: bytes

abbreviation (input) "FAR_F_REDIRECT_INFORMATION \<equiv> BIT 0 :: u16"
abbreviation (input) "FAR_F_OUTER_HEADER_CREATION \<equiv> BIT 1 :: u16"
abbreviation (input) "FAR_FORWARD \<equiv> BIT 1 :: u16"

record upf_far_t =
  far_id :: u16
  far_apply_action :: u16
  far_forward :: upf_far_forward_t

record send_end_marker_t =
  em_far_id :: u16
  em_fib_index :: u32
  em_dpoi_index :: u32

record urr_counter_t =
  c_ul :: u64
  c_dl :: u64
  c_total :: u64

record urr_measure_t =
  m_packets :: urr_counter_t
  m_bytes :: urr_counter_t
  m_consumed :: urr_counter_t

record urr_volume_t =
  v_measure :: urr_measure_t
  v_threshold :: urr_counter_t
  v_quota :: urr_counter_t

text \<open>A point in time that may be \<^verbatim>\<open>INFINITY\<close>.\<close>

datatype f64_time = At int | INFINITY

fun before :: "f64_time \<Rightarrow> int \<Rightarrow> bool" where
  "before (At t) now \<longleftrightarrow> t < now"
| "before INFINITY now \<longleftrightarrow> False"

record urr_time_t =
  t_base :: int
  t_period :: nat
  t_expected :: int
  t_handle :: nat

record urr_abs_time_t =
  abs_unix_time :: f64_time
  abs_vlib_time :: f64_time

record usage_before_t =
  ub_start_time :: f64_time
  ub_time_of_first_packet :: f64_time
  ub_time_of_last_packet :: f64_time
  ub_volume :: urr_measure_t

record upf_urr_t =
  urr_id :: u16
  urr_methods :: u16
  urr_triggers :: u16
  urr_status :: u8
  urr_update_flags :: u8
  urr_seq_no :: u32
  urr_start_time :: f64_time
  urr_time_of_first_packet :: f64_time
  urr_time_of_last_packet :: f64_time
  urr_volume :: urr_volume_t
  urr_measurement_period :: urr_time_t
  urr_time_threshold :: urr_time_t
  urr_time_quota :: urr_time_t
  urr_quota_holding_time :: urr_time_t
  urr_quota_validity_time :: urr_time_t
  urr_monitoring_time :: urr_abs_time_t
  urr_usage_before_monitoring_time :: usage_before_t
  urr_traffic :: "ip46_address \<rightharpoonup> int"
  urr_traffic_timer :: urr_time_t
  urr_linked_urr_ids :: "u32 list"
  urr_liusa_bitmap :: "nat list"

abbreviation (input) "PFCP_URR_TIME \<equiv> BIT 0 :: u16"
abbreviation (input) "PFCP_URR_VOLUME \<equiv> BIT 1 :: u16"
abbreviation (input) "PFCP_URR_EVENT \<equiv> BIT 2 :: u16"

abbreviation (input) "URR_OVER_QUOTA \<equiv> BIT 0 :: u8"
abbreviation (input) "URR_AFTER_MONITORING_TIME \<equiv> BIT 1 :: u8"
abbreviation (input) "URR_REPORTED \<equiv> BIT 2 :: u8"

record upf_qer_t =
  qer_id :: u32
  qer_flags :: u8
  qer_gate_status :: "u8 per_direction"
  qer_mbr :: pfcp_bit_rate
  qer_policer_key :: u64
  qer_policer_value :: u64

abbreviation (input) "PFCP_QER_MBR \<equiv> BIT 0 :: u8"

section \<open>What detection rules are compiled to\<close>

record upf_acl_5tuple_t =
  t5_protocol :: u8
  t5_address :: "ip46_address per_direction"
  t5_port :: "u16 per_direction"

datatype match_ue_ip = UPF_ACL_NO_UE | UPF_ACL_UL | UPF_ACL_DL

record upf_acl_t =
  acl_precedence :: u32
  acl_is_ip4 :: bool
  acl_match_teid :: bool
  acl_match_ue_ip :: match_ue_ip
  acl_match_sdf :: bool
  acl_match_ip_app :: bool
  acl_fib_index :: u32
  acl_teid :: u32
  acl_ue_ip :: ip46_address
  acl_mask :: upf_acl_5tuple_t
  acl_match :: upf_acl_5tuple_t
  acl_pdr_idx :: nat

record ue_ip_t =
  uip_addr :: ip46_address
  uip_fib_index :: u32
  uip_sw_if_index :: nat

text \<open>The key of a tunnel: destination address and TEID.\<close>

record gtpu4_endp_rule_t =
  v4_key :: "ip4_address \<times> u32"
  v4_rule_index :: nat

record gtpu6_endp_rule_t =
  v6_key :: "ip6_address \<times> u32"
  v6_rule_index :: nat

record rules_t =
  r_pdr :: "upf_pdr_t list option"
  r_far :: "upf_far_t list option"
  r_urr :: "upf_urr_t list option"
  r_qer :: "upf_qer_t list option"
  r_flags :: u32
  r_proxy_precedence :: u16
  r_proxy_pdr_idx :: nat
  r_v4_acls :: "upf_acl_t list"
  r_v6_acls :: "upf_acl_t list"
  r_ue_src_ip :: "ue_ip_t list"
  r_ue_dst_ip :: "ue_ip_t list"
  r_v4_teid :: "gtpu4_endp_rule_t list"
  r_v6_teid :: "gtpu6_endp_rule_t list"
  r_send_end_marker :: "send_end_marker_t list"
  r_inactivity_timer :: urr_time_t

abbreviation (input) "PFCP_ADR \<equiv> BIT 2 :: u32"
abbreviation (input) "PFCP_CLASSIFY \<equiv> BIT 3 :: u32"

text \<open>The elements of a vector that may be \<^verbatim>\<open>NULL\<close>.\<close>

fun elts :: "'a list option \<Rightarrow> 'a list" where
  "elts None = []"
| "elts (Some xs) = xs"

section \<open>Library functions\<close>

text \<open>
  What VPP provides: address functions and masks, the table of FIB indices of its interfaces, and the
  sorting of a vector with a comparison; and the match of a flow against the FIB of the IP rules of an
  application (\<^verbatim>\<open>upf_app_ip_rule_match\<close>).
\<close>

record rules_lib = flow_lib +
  ip46_address_mask_ip4 :: "ip46_address \<Rightarrow> ip46_address"
  ip6_address_mask_from_width :: "nat \<Rightarrow> ip6_address"
  fib_masks :: "nat \<Rightarrow> ip6_address"
  fib_index_by_sw_if_index :: "bool \<Rightarrow> u32 list"
  upf_app_ip_rule_match :: "u32 \<Rightarrow> flow_entry \<Rightarrow> ip46_address \<Rightarrow> bool"

text \<open>Writing the member \<^verbatim>\<open>ip4\<close> of the union, its last four octets.\<close>

definition put_ip4_member :: "ip4_address \<Rightarrow> ip46_address \<Rightarrow> ip46_address" where
  "put_ip4_member a m = (m AND NOT (mask 32)) OR ucast a"

text \<open>\<^verbatim>\<open>vec_elt\<close> of an index outside of the vector is a bad access.\<close>

definition vec_elt :: "'a list \<Rightarrow> nat \<Rightarrow> 'a option" where
  "vec_elt v i = (if i < length v then Some (v ! i) else None)"

definition upf_fib_index_by_sw_if_index :: "'v rules_lib_scheme \<Rightarrow> nat \<Rightarrow> bool \<Rightarrow> u32 option" where
  "upf_fib_index_by_sw_if_index lib sw_if_index is_ip4 =
     vec_elt (fib_index_by_sw_if_index lib is_ip4) sw_if_index"

section \<open>Compiling a detection rule\<close>

text \<open>\<^verbatim>\<open>ip4_address_mask_from_width\<close>: turn \<open>i\<close> of the loop sets bit \<open>7 - i mod 8\<close> of octet \<open>i div 8\<close> of
  the four octets of the address; the width is checked by an assertion only.\<close>

primrec ip4_mask_loop :: "nat \<Rightarrow> ip4_address option" where
  "ip4_mask_loop 0 = Some 0"
| "ip4_mask_loop (Suc i) = do {
     a \<leftarrow> ip4_mask_loop i;
     if i div 8 < 4 then Some (a OR push_bit (8 * (3 - i div 8) + (7 - i mod 8)) 1) else None
   }"

definition ip4_address_mask_from_width :: "nat \<Rightarrow> ip4_address option" where
  "ip4_address_mask_from_width width = ip4_mask_loop width"

definition compile_teid :: "upf_pdr_t \<Rightarrow> upf_acl_t \<Rightarrow> upf_acl_t" where
  "compile_teid pdr acl =
     (if pdi_fields (pdr_pdi pdr) AND F_PDI_LOCAL_F_TEID = 0 then acl
      else acl\<lparr>acl_match_teid := True, acl_teid := ft_teid (pdi_teid (pdr_pdi pdr))\<rparr>)"

definition compile_ue_ip :: "'v rules_lib_scheme \<Rightarrow> bool \<Rightarrow> upf_pdr_t \<Rightarrow> upf_acl_t \<Rightarrow> upf_acl_t" where
  "compile_ue_ip lib is_ip4 pdr acl =
     (let pdi = pdr_pdi pdr; ue = pdi_ue_addr pdi;
          dir = (if pdi_src_intf pdi = SRC_INTF_ACCESS then UPF_ACL_UL else UPF_ACL_DL) in
      if pdi_fields pdi AND F_PDI_UE_IP_ADDR = 0 then acl
      else if is_ip4 \<and> ue_flags ue AND IE_UE_IP_ADDRESS_V4 \<noteq> 0 then
        acl\<lparr>acl_match_ue_ip := dir, acl_ue_ip := ip46_address_set_ip4 lib (ue_ip4 ue)\<rparr>
      else if \<not> is_ip4 \<and> ue_flags ue AND IE_UE_IP_ADDRESS_V6 \<noteq> 0 then
        acl\<lparr>acl_match_ue_ip := dir, acl_ue_ip := ue_ip6 ue\<rparr>
      else acl)"

text \<open>The functions with pointers to an address and a mask return the pair of both.\<close>

definition acl_set_ue_ip ::
    "'v rules_lib_scheme \<Rightarrow> ip46_address \<times> ip46_address \<Rightarrow> bool \<Rightarrow> upf_pdr_t \<Rightarrow> (ip46_address \<times> ip46_address) option" where
  "acl_set_ue_ip lib ip_mask is_ip4 pdr =
     (let pdi = pdr_pdi pdr; ue = pdi_ue_addr pdi in
      if pdi_fields pdi AND F_PDI_UE_IP_ADDR = 0 then Some ip_mask
      else if is_ip4 \<and> ue_flags ue AND IE_UE_IP_ADDRESS_V4 \<noteq> 0 then do {
        m \<leftarrow> ip4_address_mask_from_width 32;
        Some (ip46_address_set_ip4 lib (ue_ip4 ue),
              put_ip4_member m (ip46_address_mask_ip4 lib (snd ip_mask)))
      }
      else if \<not> is_ip4 \<and> ue_flags ue AND IE_UE_IP_ADDRESS_V6 \<noteq> 0 then
        Some (ue_ip6 ue, ip6_address_mask_from_width lib 64)
      else Some ip_mask)"

definition assigned_address ::
    "'v rules_lib_scheme \<Rightarrow> bool \<Rightarrow> upf_pdr_t \<Rightarrow> ipfilter_address_t \<Rightarrow> ip46_address \<times> ip46_address
       \<Rightarrow> (ip46_address \<times> ip46_address) option" where
  "assigned_address lib is_ip4 pdr addr ip_mask =
     (if acl_addr_is_any addr then Some ip_mask
      else if acl_addr_is_assigned addr then acl_set_ue_ip lib ip_mask is_ip4 pdr
      else if is_ip4 then do {
        m \<leftarrow> ip4_address_mask_from_width (unat (ipf_mask addr));
        Some (ipf_address addr, put_ip4_member m (ip46_address_mask_ip4 lib (snd ip_mask)))
      }
      else Some (ipf_address addr, ip6_address_mask_from_width lib (unat (ipf_mask addr))))"

definition ip_assign_address ::
    "'v rules_lib_scheme \<Rightarrow> bool \<Rightarrow> bool \<Rightarrow> bool \<Rightarrow> upf_pdr_t \<Rightarrow> acl_rule_t \<Rightarrow> upf_acl_t \<Rightarrow> upf_acl_t option" where
  "ip_assign_address lib dst src is_ip4 pdr rule acl = do {
     (ip, m) \<leftarrow> assigned_address lib is_ip4 pdr (dir_get (rule_address rule) src)
                (dir_get (t5_address (acl_match acl)) dst, dir_get (t5_address (acl_mask acl)) dst);
     Some (acl\<lparr>acl_match := (acl_match acl)\<lparr>t5_address := dir_put dst ip (t5_address (acl_match acl))\<rparr>,
               acl_mask := (acl_mask acl)\<lparr>t5_address := dir_put dst m (t5_address (acl_mask acl))\<rparr>\<rparr>)
   }"

text \<open>The lower end of the range is kept in \<^verbatim>\<open>mask\<close>, the upper end in \<^verbatim>\<open>match\<close>.\<close>

definition ip_assign_port :: "bool \<Rightarrow> bool \<Rightarrow> acl_rule_t \<Rightarrow> upf_acl_t \<Rightarrow> upf_acl_t" where
  "ip_assign_port dst src rule acl =
     (let port = dir_get (rule_port rule) src in
      acl\<lparr>acl_mask := (acl_mask acl)\<lparr>t5_port := dir_put dst (port_min port) (t5_port (acl_mask acl))\<rparr>,
          acl_match := (acl_match acl)\<lparr>t5_port := dir_put dst (port_max port) (t5_port (acl_match acl))\<rparr>\<rparr>)"

definition compile_sdf ::
    "'v rules_lib_scheme \<Rightarrow> bool \<Rightarrow> upf_pdr_t \<Rightarrow> acl_rule_t \<Rightarrow> upf_acl_t \<Rightarrow> upf_acl_t option" where
  "compile_sdf lib is_ip4 pdr rule acl =
     (let acl = acl\<lparr>acl_match_sdf := True\<rparr>;
          acl = (if rule_proto rule \<noteq> -1
                 then acl\<lparr>acl_mask := (acl_mask acl)\<lparr>t5_protocol := -1\<rparr>,
                          acl_match := (acl_match acl)\<lparr>t5_protocol := rule_proto rule\<rparr>\<rparr>
                 else acl) in
      if pdi_src_intf (pdr_pdi pdr) = SRC_INTF_ACCESS then do {
        acl \<leftarrow> ip_assign_address lib UPF_ACL_FIELD_DST IPFILTER_RULE_FIELD_SRC is_ip4 pdr rule acl;
        acl \<leftarrow> ip_assign_address lib UPF_ACL_FIELD_SRC IPFILTER_RULE_FIELD_DST is_ip4 pdr rule acl;
        Some (ip_assign_port UPF_ACL_FIELD_SRC IPFILTER_RULE_FIELD_DST rule
               (ip_assign_port UPF_ACL_FIELD_DST IPFILTER_RULE_FIELD_SRC rule acl))
      }
      else do {
        acl \<leftarrow> ip_assign_address lib UPF_ACL_FIELD_SRC IPFILTER_RULE_FIELD_SRC is_ip4 pdr rule acl;
        acl \<leftarrow> ip_assign_address lib UPF_ACL_FIELD_DST IPFILTER_RULE_FIELD_DST is_ip4 pdr rule acl;
        Some (ip_assign_port UPF_ACL_FIELD_DST IPFILTER_RULE_FIELD_DST rule
               (ip_assign_port UPF_ACL_FIELD_SRC IPFILTER_RULE_FIELD_SRC rule acl))
      })"

definition zero_5tuple :: upf_acl_5tuple_t where
  "zero_5tuple = \<lparr>t5_protocol = 0, t5_address = (0, 0), t5_port = (0, 0)\<rparr>"

definition zero_acl :: upf_acl_t where
  "zero_acl = \<lparr>acl_precedence = 0, acl_is_ip4 = False, acl_match_teid = False,
     acl_match_ue_ip = UPF_ACL_NO_UE, acl_match_sdf = False, acl_match_ip_app = False,
     acl_fib_index = 0, acl_teid = 0, acl_ue_ip = 0, acl_mask = zero_5tuple, acl_match = zero_5tuple,
     acl_pdr_idx = 0\<rparr>"

definition has_ip_rules :: "upf_pdr_t \<Rightarrow> bool" where
  "has_ip_rules pdr \<longleftrightarrow> pdi_fields (pdr_pdi pdr) AND F_PDI_APPLICATION_ID \<noteq> 0
     \<and> adr_flags (pdi_adr (pdr_pdi pdr)) AND UPF_ADR_IP_RULES \<noteq> 0"

definition compile_pdi ::
    "'v rules_lib_scheme \<Rightarrow> bool \<Rightarrow> upf_pdr_t \<Rightarrow> acl_rule_t \<Rightarrow> nat \<Rightarrow> nat \<Rightarrow> upf_acl_t option" where
  "compile_pdi lib is_ip4 pdr rule pdr_idx sw_if_index = do {
     fib_index \<leftarrow> upf_fib_index_by_sw_if_index lib sw_if_index is_ip4;
     acl \<leftarrow> compile_sdf lib is_ip4 pdr rule
       (compile_teid pdr
         (zero_acl\<lparr>acl_is_ip4 := is_ip4, acl_precedence := ucast (pdr_precedence pdr),
                   acl_fib_index := fib_index, acl_pdr_idx := pdr_idx\<rparr>));
     let acl = compile_ue_ip lib is_ip4 pdr acl;
     Some (if has_ip_rules pdr then acl\<lparr>acl_match_ip_app := True\<rparr> else acl)
   }"

section \<open>Compiling the rules of a session\<close>

text \<open>The first entry with the key is looked for; if there is one, it is marked as a duplicate.\<close>

fun rules_add_v4_teid :: "ip4_address \<Rightarrow> u32 \<Rightarrow> nat \<Rightarrow> gtpu4_endp_rule_t list \<Rightarrow> gtpu4_endp_rule_t list" where
  "rules_add_v4_teid addr teid rule_index [] = [\<lparr>v4_key = (addr, teid), v4_rule_index = rule_index\<rparr>]"
| "rules_add_v4_teid addr teid rule_index (e # es) =
     (if v4_key e = (addr, teid) then e\<lparr>v4_rule_index := NO_INDEX\<rparr> # es
      else e # rules_add_v4_teid addr teid rule_index es)"

fun rules_add_v6_teid :: "ip6_address \<Rightarrow> u32 \<Rightarrow> nat \<Rightarrow> gtpu6_endp_rule_t list \<Rightarrow> gtpu6_endp_rule_t list" where
  "rules_add_v6_teid addr teid rule_index [] = [\<lparr>v6_key = (addr, teid), v6_rule_index = rule_index\<rparr>]"
| "rules_add_v6_teid addr teid rule_index (e # es) =
     (if v6_key e = (addr, teid) then e\<lparr>v6_rule_index := NO_INDEX\<rparr> # es
      else e # rules_add_v6_teid addr teid rule_index es)"

text \<open>\<open>tdf\<close> is the vector \<^verbatim>\<open>gtm->tdf_ul_table\<close> of the protocol.\<close>

definition rules_add_ue_ip :: "u32 list \<Rightarrow> ue_ip_t \<Rightarrow> bool \<Rightarrow> rules_t \<Rightarrow> rules_t" where
  "rules_add_ue_ip tdf ue_ip is_dst r =
     (if is_dst then r\<lparr>r_ue_dst_ip := r_ue_dst_ip r @ [ue_ip]\<rparr>
      else let fib_index = (if unat (uip_fib_index ue_ip) < length tdf
                            then tdf ! unat (uip_fib_index ue_ip) else -1) in
        if fib_index \<noteq> -1 then r\<lparr>r_ue_src_ip := r_ue_src_ip r @ [ue_ip\<lparr>uip_fib_index := fib_index\<rparr>]\<rparr>
        else r)"

text \<open>What the compilation reads of \<^verbatim>\<open>upf_main\<close>: the interfaces of the network instances and
  the tables of ingress VRFs, for IPv4 (\<open>True\<close>) and IPv6.\<close>

record rules_env =
  env_nwi_sw_if_index :: "nat \<rightharpoonup> nat"
  env_tdf_ul_table :: "bool \<Rightarrow> u32 list"

definition pdr_sw_if_index :: "rules_env \<Rightarrow> upf_pdr_t \<Rightarrow> nat option" where
  "pdr_sw_if_index env pdr =
     (if pdi_nwi_index (pdr_pdi pdr) \<noteq> NO_INDEX then env_nwi_sw_if_index env (pdi_nwi_index (pdr_pdi pdr))
      else Some NO_INDEX)"

definition build_ue_ips ::
    "'v rules_lib_scheme \<Rightarrow> rules_env \<Rightarrow> upf_pdr_t \<Rightarrow> nat \<Rightarrow> rules_t \<Rightarrow> rules_t option" where
  "build_ue_ips lib env pdr sw_if_index r =
     (let ue = pdi_ue_addr (pdr_pdi pdr); is_dst = (ue_flags ue AND IE_UE_IP_ADDRESS_SD \<noteq> 0) in do {
      r \<leftarrow> (if ue_flags ue AND IE_UE_IP_ADDRESS_V4 \<noteq> 0 then do {
              fib_index \<leftarrow> upf_fib_index_by_sw_if_index lib sw_if_index True;
              Some (rules_add_ue_ip (env_tdf_ul_table env True)
                \<lparr>uip_addr = ip46_address_set_ip4 lib (ue_ip4 ue), uip_fib_index = fib_index,
                 uip_sw_if_index = sw_if_index\<rparr> is_dst r)
            } else Some r);
      if ue_flags ue AND IE_UE_IP_ADDRESS_V6 \<noteq> 0 then do {
        fib_index \<leftarrow> upf_fib_index_by_sw_if_index lib sw_if_index False;
        Some (rules_add_ue_ip (env_tdf_ul_table env False)
          \<lparr>uip_addr = ue_ip6 ue, uip_fib_index = fib_index, uip_sw_if_index = sw_if_index\<rparr> is_dst r)
      } else Some r
   })"

definition build_teids :: "upf_pdr_t \<Rightarrow> nat \<Rightarrow> rules_t \<Rightarrow> rules_t" where
  "build_teids pdr idx r =
     (let t = pdi_teid (pdr_pdi pdr);
          r = (if ft_flags t AND F_TEID_V4 \<noteq> 0
               then r\<lparr>r_v4_teid := rules_add_v4_teid (ft_ip4 t) (ft_teid t) idx (r_v4_teid r)\<rparr> else r) in
      if ft_flags t AND F_TEID_V6 \<noteq> 0
      then r\<lparr>r_v6_teid := rules_add_v6_teid (ft_ip6 t) (ft_teid t) idx (r_v6_teid r)\<rparr> else r)"

text \<open>One IP filter of a rule; the application flag that is set again after the call for IPv4 is the one
  \<^verbatim>\<open>compile_pdi\<close> has set.\<close>

definition build_acl ::
    "'v rules_lib_scheme \<Rightarrow> upf_pdr_t \<Rightarrow> nat \<Rightarrow> nat \<Rightarrow> acl_rule_t \<Rightarrow> rules_t \<Rightarrow> rules_t option" where
  "build_acl lib pdr idx sw_if_index rule r = do {
     r \<leftarrow> (if rule_type rule = IPFILTER_IPV4 \<or> rule_type rule = IPFILTER_WILDCARD then do {
             acl \<leftarrow> compile_pdi lib True pdr rule idx sw_if_index;
             Some (r\<lparr>r_v4_acls := r_v4_acls r @ [if has_ip_rules pdr then acl\<lparr>acl_match_ip_app := True\<rparr> else acl]\<rparr>)
           } else Some r);
     if rule_type rule = IPFILTER_IPV6 \<or> rule_type rule = IPFILTER_WILDCARD then do {
       acl \<leftarrow> compile_pdi lib False pdr rule idx sw_if_index;
       Some (r\<lparr>r_v6_acls := r_v6_acls r @ [acl]\<rparr>)
     } else Some r
   }"

fun build_acls ::
    "'v rules_lib_scheme \<Rightarrow> upf_pdr_t \<Rightarrow> nat \<Rightarrow> nat \<Rightarrow> acl_rule_t list \<Rightarrow> rules_t \<Rightarrow> rules_t option" where
  "build_acls lib pdr idx sw_if_index [] r = Some r"
| "build_acls lib pdr idx sw_if_index (rule # rs) r = do {
     r \<leftarrow> build_acl lib pdr idx sw_if_index rule r;
     build_acls lib pdr idx sw_if_index rs r
   }"

definition build_proxy :: "upf_pdr_t \<Rightarrow> nat \<Rightarrow> rules_t \<Rightarrow> rules_t" where
  "build_proxy pdr idx r =
     (if pdi_fields (pdr_pdi pdr) AND F_PDI_APPLICATION_ID \<noteq> 0
         \<and> adr_flags (pdi_adr (pdr_pdi pdr)) AND UPF_ADR_PROXY \<noteq> 0
         \<and> pdr_precedence pdr < r_proxy_precedence r
      then r\<lparr>r_proxy_precedence := pdr_precedence pdr, r_proxy_pdr_idx := idx,
             r_flags := r_flags r OR PFCP_ADR\<rparr>
      else r)"

definition build_pdr ::
    "'v rules_lib_scheme \<Rightarrow> rules_env \<Rightarrow> nat \<Rightarrow> upf_pdr_t \<Rightarrow> rules_t \<Rightarrow> rules_t option" where
  "build_pdr lib env idx pdr r =
     (let fields = pdi_fields (pdr_pdi pdr) in do {
      sw_if_index \<leftarrow> pdr_sw_if_index env pdr;
      r \<leftarrow> (if fields AND F_PDI_LOCAL_F_TEID = 0 \<and> fields AND F_PDI_UE_IP_ADDR \<noteq> 0
            then build_ue_ips lib env pdr sw_if_index r else Some r);
      let r = (if fields AND F_PDI_LOCAL_F_TEID \<noteq> 0 then build_teids pdr idx r else r);
      r \<leftarrow> build_acls lib pdr idx sw_if_index (pdi_acl (pdr_pdi pdr)) r;
      Some (build_proxy pdr idx r)
   })"

fun build_pdrs ::
    "'v rules_lib_scheme \<Rightarrow> rules_env \<Rightarrow> nat \<Rightarrow> upf_pdr_t list \<Rightarrow> rules_t \<Rightarrow> rules_t option" where
  "build_pdrs lib env idx [] r = Some r"
| "build_pdrs lib env idx (pdr # pdrs) r = do {
     r \<leftarrow> build_pdr lib env idx pdr r;
     build_pdrs lib env (Suc idx) pdrs r
   }"

definition build_pfcp_rules :: "'v rules_lib_scheme \<Rightarrow> rules_env \<Rightarrow> rules_t \<Rightarrow> rules_t option" where
  "build_pfcp_rules lib env pending = do {
     r \<leftarrow> build_pdrs lib env 0 (elts (r_pdr pending))
           (pending\<lparr>r_proxy_precedence := -1, r_proxy_pdr_idx := NO_INDEX\<rparr>);
     Some (if r_ue_src_ip r \<noteq> [] \<or> r_ue_dst_ip r \<noteq> [] \<or> r_v4_acls r \<noteq> [] \<or> r_v6_acls r \<noteq> []
           then r\<lparr>r_flags := r_flags r OR PFCP_CLASSIFY\<rparr> else r)
   }"

end
