(* ===== verification/Upf_Classify.thy ===== *)
theory Upf_Classify
  imports Upf_Rules
begin

text \<open>
  The classification of packets: \<^verbatim>\<open>src/upf/upf_classify.c\<close> and the lookup of rules by their id
  (\<^verbatim>\<open>pfcp_rule_vector_fns\<close> of \<^verbatim>\<open>upf_pfcp.c\<close>, \<^verbatim>\<open>flow_pdr_idx\<close> of \<^verbatim>\<open>upf_pfcp.h\<close>).

  The ports of a flow key are modelled by their value in network order, so that
  \<^verbatim>\<open>clib_net_to_host_u16\<close> leaves them as they are.
\<close>

section \<open>Rules by id\<close>

text \<open>\<^verbatim>\<open>intcmp\<close> and the binary search of the C library, with the comparison of the wanted element with
  the one at an index.\<close>

definition intcmp :: "'a::linorder \<Rightarrow> 'a \<Rightarrow> int" where
  "intcmp a b = (if a < b then -1 else if a > b then 1 else 0)"

function bsearch_loop :: "('a \<Rightarrow> int) \<Rightarrow> 'a list \<Rightarrow> nat \<Rightarrow> nat \<Rightarrow> nat option" where
  "bsearch_loop compar v l u =
     (if l < u then
        let idx = (l + u) div 2; comparison = compar (v ! idx) in
        if comparison < 0 then bsearch_loop compar v l idx
        else if comparison > 0 then bsearch_loop compar v (Suc idx) u
        else Some idx
      else None)"
  by pat_completeness auto
termination
  by (relation "measure (\<lambda>(_, _, l, u). u - l)") auto

declare bsearch_loop.simps [simp del]

definition vec_bsearch :: "('a \<Rightarrow> int) \<Rightarrow> 'a list \<Rightarrow> nat option" where
  "vec_bsearch compar v = bsearch_loop compar v 0 (length v)"

text \<open>The functions return a pointer to the element, of which the index in the vector is kept.\<close>

definition pfcp_get_pdr_by_id :: "rules_t \<Rightarrow> u32 \<Rightarrow> nat option" where
  "pfcp_get_pdr_by_id r i = vec_bsearch (\<lambda>p. intcmp i (pdr_id p)) (elts (r_pdr r))"

definition pfcp_get_far_by_id :: "rules_t \<Rightarrow> u16 \<Rightarrow> nat option" where
  "pfcp_get_far_by_id r i = vec_bsearch (\<lambda>p. intcmp i (far_id p)) (elts (r_far r))"

definition pfcp_get_urr_by_id :: "rules_t \<Rightarrow> u16 \<Rightarrow> nat option" where
  "pfcp_get_urr_by_id r i = vec_bsearch (\<lambda>p. intcmp i (urr_id p)) (elts (r_urr r))"

definition pfcp_get_qer_by_id :: "rules_t \<Rightarrow> u32 \<Rightarrow> nat option" where
  "pfcp_get_qer_by_id r i = vec_bsearch (\<lambda>p. intcmp i (qer_id p)) (elts (r_qer r))"

definition flow_pdr_idx :: "flow_entry \<Rightarrow> bool \<Rightarrow> rules_t \<Rightarrow> nat" where
  "flow_pdr_idx flow direction r =
     (if flow_pdr_id flow direction = -1 then NO_INDEX
      else case pfcp_get_pdr_by_id r (flow_pdr_id flow direction) of Some i \<Rightarrow> i | None \<Rightarrow> NO_INDEX)"

section \<open>Matching one rule\<close>

text \<open>The loop over the two halves of the addresses compares all of their bits under the mask.\<close>

definition ip46_address_is_equal_masked :: "ip46_address \<Rightarrow> ip46_address \<Rightarrow> ip46_address \<Rightarrow> bool" where
  "ip46_address_is_equal_masked a b m \<longleftrightarrow> a AND m = b AND m"

definition acl_ip46_is_equal_masked :: "ip46_address \<Rightarrow> upf_acl_t \<Rightarrow> bool \<Rightarrow> bool" where
  "acl_ip46_is_equal_masked ip acl field \<longleftrightarrow>
     ip46_address_is_equal_masked ip (dir_get (t5_address (acl_match acl)) field)
       (dir_get (t5_address (acl_mask acl)) field)"

definition acl_port_in_range :: "u16 \<Rightarrow> upf_acl_t \<Rightarrow> bool \<Rightarrow> bool" where
  "acl_port_in_range port acl field \<longleftrightarrow>
     dir_get (t5_port (acl_mask acl)) field \<le> port \<and> port \<le> dir_get (t5_port (acl_match acl)) field"

definition upf_acl_classify_one ::
    "'v rules_lib_scheme \<Rightarrow> u32 \<Rightarrow> flow_entry \<Rightarrow> bool \<Rightarrow> bool \<Rightarrow> upf_acl_t \<Rightarrow> rules_t \<Rightarrow> bool option" where
  "upf_acl_classify_one lib teid flow is_reverse is_ip4 acl active =
     (let pf_len = (if is_ip4 then 32 else 64);
          ip = (\<lambda>d. dir_get (fk_ip (fe_key flow)) (d \<noteq> is_reverse));
          port = (\<lambda>d. dir_get (fk_port (fe_key flow)) (d \<noteq> is_reverse));
          proto = fk_proto (fe_key flow) in
      if is_ip4 \<noteq> acl_is_ip4 acl then Some False
      else if acl_match_teid acl \<and> teid \<noteq> acl_teid acl then Some False
      else if acl_match_ue_ip acl = UPF_ACL_UL
           \<and> \<not> ip46_address_is_equal_masked (acl_ue_ip acl) (ip FT_ORIGIN) (fib_masks lib pf_len) then Some False
      else if acl_match_ue_ip acl = UPF_ACL_DL
           \<and> \<not> ip46_address_is_equal_masked (acl_ue_ip acl) (ip FT_REVERSE) (fib_masks lib pf_len) then Some False
      else do {
        app \<leftarrow> (if \<not> acl_match_ip_app acl then Some True
                else if acl_match_ue_ip acl = UPF_ACL_NO_UE then Some False
                else do {
                  pdr \<leftarrow> vec_elt (elts (r_pdr active)) (acl_pdr_idx acl);
                  Some (upf_app_ip_rule_match lib (adr_db_id (pdi_adr (pdr_pdi pdr))) flow (acl_ue_ip acl))
                });
        Some (app
          \<and> proto AND t5_protocol (acl_mask acl) = t5_protocol (acl_match acl) AND t5_protocol (acl_mask acl)
          \<and> acl_ip46_is_equal_masked (ip FT_ORIGIN) acl UPF_ACL_FIELD_SRC
          \<and> acl_ip46_is_equal_masked (ip FT_REVERSE) acl UPF_ACL_FIELD_DST
          \<and> acl_port_in_range (port FT_ORIGIN) acl UPF_ACL_FIELD_SRC
          \<and> acl_port_in_range (port FT_REVERSE) acl UPF_ACL_FIELD_DST)
      })"

text \<open>The loop over a vector stops at the first element that matches.\<close>

fun first_match :: "(upf_acl_t \<Rightarrow> bool option) \<Rightarrow> upf_acl_t list \<Rightarrow> upf_acl_t option option" where
  "first_match P [] = Some None"
| "first_match P (acl # acls) = do {
     m \<leftarrow> P acl;
     if m then Some (Some acl) else first_match P acls
   }"

section \<open>Classifying a flow\<close>

datatype upf_classify_next = UPF_CLASSIFY_NEXT_DROP | UPF_CLASSIFY_NEXT_PROCESS
  | UPF_CLASSIFY_NEXT_FORWARD | UPF_CLASSIFY_NEXT_PROXY

fun upf_classify_flow_next :: "flowtable_next \<Rightarrow> upf_classify_next" where
  "upf_classify_flow_next FT_NEXT_DROP = UPF_CLASSIFY_NEXT_DROP"
| "upf_classify_flow_next FT_NEXT_CLASSIFY = UPF_CLASSIFY_NEXT_DROP"
| "upf_classify_flow_next FT_NEXT_PROCESS = UPF_CLASSIFY_NEXT_PROCESS"
| "upf_classify_flow_next FT_NEXT_PROXY = UPF_CLASSIFY_NEXT_PROXY"

definition flow_teid :: "flow_entry \<Rightarrow> bool \<Rightarrow> u32" where
  "flow_teid f d = dir_get (fe_teid f) (flow_dir f d)"

definition set_flow_teid :: "bool \<Rightarrow> u32 \<Rightarrow> flow_entry \<Rightarrow> flow_entry" where
  "set_flow_teid d v f = f\<lparr>fe_teid := dir_put (flow_dir f d) v (fe_teid f)\<rparr>"

definition set_flow_next :: "bool \<Rightarrow> flowtable_next \<Rightarrow> flow_entry \<Rightarrow> flow_entry" where
  "set_flow_next d v f = f\<lparr>fe_next := dir_put (flow_dir f d) v (fe_next f)\<rparr>"

definition set_flow_pdr_id :: "bool \<Rightarrow> u32 \<Rightarrow> flow_entry \<Rightarrow> flow_entry" where
  "set_flow_pdr_id d v f = f\<lparr>fe_pdr_id := dir_put (flow_dir f d) v (fe_pdr_id f)\<rparr>"

definition acl_vec :: "rules_t \<Rightarrow> bool \<Rightarrow> upf_acl_t list" where
  "acl_vec active is_ip4 = (if is_ip4 then r_v4_acls active else r_v6_acls active)"

text \<open>The first match of a flow in a direction.\<close>

definition match_flow ::
    "'v rules_lib_scheme \<Rightarrow> u32 \<Rightarrow> flow_entry \<Rightarrow> bool \<Rightarrow> rules_t \<Rightarrow> bool \<Rightarrow> upf_acl_t option option" where
  "match_flow lib teid flow direction active is_ip4 =
     first_match (\<lambda>acl. upf_acl_classify_one lib teid flow (direction \<noteq> fe_is_reverse flow) is_ip4 acl active)
       (acl_vec active is_ip4)"

definition note_application :: "upf_pdr_t \<Rightarrow> flow_entry \<Rightarrow> flow_entry" where
  "note_application pdr flow =
     (if pdi_fields (pdr_pdi pdr) AND F_PDI_APPLICATION_ID \<noteq> 0
      then flow\<lparr>fe_application_id := adr_application_id (pdi_adr (pdr_pdi pdr))\<rparr> else flow)"

definition redirected :: "rules_t \<Rightarrow> upf_pdr_t \<Rightarrow> bool" where
  "redirected active pdr \<longleftrightarrow>
     (case pfcp_get_far_by_id active (pdr_far_id pdr) of
        Some i \<Rightarrow> fwd_flags (far_forward (elts (r_far active) ! i)) AND FAR_F_REDIRECT_INFORMATION \<noteq> 0
      | None \<Rightarrow> False)"

text \<open>The results are the next node, the index of the rule (of which the caller may not want to know) and
  the flow.\<close>

definition upf_acl_classify_forward ::
    "'v rules_lib_scheme \<Rightarrow> u32 \<Rightarrow> flow_entry \<Rightarrow> rules_t \<Rightarrow> bool \<Rightarrow> (upf_classify_next \<times> nat \<times> flow_entry) option" where
  "upf_acl_classify_forward lib teid flow active is_ip4 =
     (let reclassifying_proxy_flow = fe_is_l3_proxy flow;
          (teid, flow) = (if teid \<noteq> 0 then (teid, set_flow_teid FT_ORIGIN teid flow)
                          else (flow_teid flow FT_ORIGIN, flow));
          (next, flow) =
            (if fk_proto (fe_key flow) = IP_PROTOCOL_TCP \<and> r_proxy_pdr_idx active \<noteq> NO_INDEX
             then (UPF_CLASSIFY_NEXT_PROXY,
                   set_flow_next FT_REVERSE FT_NEXT_CLASSIFY
                     (set_flow_next FT_ORIGIN FT_NEXT_PROXY (flow\<lparr>fe_is_l3_proxy := True\<rparr>)))
             else (UPF_CLASSIFY_NEXT_DROP,
                   set_flow_next FT_ORIGIN FT_NEXT_DROP
                     (set_flow_next FT_REVERSE FT_NEXT_DROP (flow\<lparr>fe_is_l3_proxy := False\<rparr>)))) in do {
      found \<leftarrow> match_flow lib teid flow FT_ORIGIN active is_ip4;
      case found of
        None \<Rightarrow> Some (next, NO_INDEX, flow)
      | Some acl \<Rightarrow> do {
          pdr \<leftarrow> vec_elt (elts (r_pdr active)) (acl_pdr_idx acl);
          let flow = set_flow_pdr_id FT_ORIGIN (pdr_id pdr) flow;
          if \<not> fe_is_l3_proxy flow \<or> acl_precedence acl \<le> ucast (r_proxy_precedence active) then
            let (next, flow) =
              (if fk_proto (fe_key flow) = IP_PROTOCOL_TCP \<and> redirected active pdr
               then (UPF_CLASSIFY_NEXT_PROXY,
                     set_flow_pdr_id FT_REVERSE (pdr_id pdr)
                       (set_flow_next FT_REVERSE FT_NEXT_CLASSIFY (set_flow_next FT_ORIGIN FT_NEXT_PROXY
                         (flow\<lparr>fe_is_l3_proxy := True, fe_is_redirect := True\<rparr>))))
               else if reclassifying_proxy_flow
               then (UPF_CLASSIFY_NEXT_PROXY,
                     set_flow_next FT_REVERSE FT_NEXT_CLASSIFY (set_flow_next FT_ORIGIN FT_NEXT_PROXY
                       (flow\<lparr>fe_is_l3_proxy := True\<rparr>)))
               else (UPF_CLASSIFY_NEXT_PROCESS,
                     set_flow_next FT_REVERSE FT_NEXT_CLASSIFY (set_flow_next FT_ORIGIN FT_NEXT_PROCESS
                       (flow\<lparr>fe_is_l3_proxy := False\<rparr>)))) in
            Some (next, acl_pdr_idx acl, note_application pdr flow)
          else Some (next, NO_INDEX, flow)
        }
   })"

text \<open>The two functions for the other direction leave the index \<open>pdr_idx\<close> alone if nothing matches.\<close>

definition reverse_teid :: "u32 \<Rightarrow> flow_entry \<Rightarrow> u32 \<times> flow_entry" where
  "reverse_teid teid flow =
     (if teid \<noteq> 0 then (teid, set_flow_teid FT_REVERSE teid flow) else (flow_teid flow FT_REVERSE, flow))"

definition upf_acl_classify_proxied ::
    "'v rules_lib_scheme \<Rightarrow> u32 \<Rightarrow> flow_entry \<Rightarrow> rules_t \<Rightarrow> bool \<Rightarrow> nat \<Rightarrow> (upf_classify_next \<times> nat \<times> flow_entry) option" where
  "upf_acl_classify_proxied lib teid flow active is_ip4 pdr_idx =
     (let (teid, flow) = reverse_teid teid flow in do {
      found \<leftarrow> match_flow lib teid flow FT_REVERSE active is_ip4;
      case found of
        None \<Rightarrow> Some (UPF_CLASSIFY_NEXT_DROP, pdr_idx, flow)
      | Some acl \<Rightarrow> do {
          pdr \<leftarrow> vec_elt (elts (r_pdr active)) (acl_pdr_idx acl);
          Some (UPF_CLASSIFY_NEXT_FORWARD, acl_pdr_idx acl,
            note_application pdr
              (if flow_pdr_id flow FT_REVERSE = -1 then set_flow_pdr_id FT_REVERSE (pdr_id pdr) flow else flow))
        }
   })"

definition upf_acl_classify_return ::
    "'v rules_lib_scheme \<Rightarrow> u32 \<Rightarrow> flow_entry \<Rightarrow> rules_t \<Rightarrow> bool \<Rightarrow> nat \<Rightarrow> (upf_classify_next \<times> nat \<times> flow_entry) option" where
  "upf_acl_classify_return lib teid flow active is_ip4 pdr_idx =
     (let (teid, flow) = reverse_teid teid flow in do {
      found \<leftarrow> match_flow lib teid flow FT_REVERSE active is_ip4;
      case found of
        None \<Rightarrow> Some (UPF_CLASSIFY_NEXT_DROP, pdr_idx, flow)
      | Some acl \<Rightarrow> do {
          pdr \<leftarrow> vec_elt (elts (r_pdr active)) (acl_pdr_idx acl);
          let flow = set_flow_pdr_id FT_REVERSE (pdr_id pdr) flow;
          let (next, flow) =
            (if fe_is_l3_proxy flow
             then (UPF_CLASSIFY_NEXT_PROXY, set_flow_next FT_REVERSE FT_NEXT_PROXY flow)
             else (UPF_CLASSIFY_NEXT_PROCESS, set_flow_next FT_REVERSE FT_NEXT_PROCESS flow));
          Some (next, acl_pdr_idx acl, note_application pdr flow)
        }
   })"

text \<open>What the node reads and writes of a buffer.\<close>

record gtpu_buffer =
  b_teid :: u32
  b_is_reverse :: bool
  b_is_proxied :: bool
  b_pdr_idx :: nat

text \<open>One packet of \<^verbatim>\<open>upf_classify_fn\<close>; \<open>detect\<close> is \<^verbatim>\<open>upf_application_detection\<close> of a flow with its saved
  URI.\<close>

definition upf_classify_packet ::
    "'v rules_lib_scheme \<Rightarrow> (flow_entry \<Rightarrow> rules_t \<Rightarrow> flow_entry) \<Rightarrow> rules_t \<Rightarrow> bool \<Rightarrow> gtpu_buffer \<Rightarrow> flow_entry
       \<Rightarrow> (upf_classify_next \<times> gtpu_buffer \<times> flow_entry) option" where
  "upf_classify_packet lib detect active is_ip4 b flow =
     (let direction = (if b_is_reverse b = fe_is_reverse flow then FT_ORIGIN else FT_REVERSE);
          reclassify_proxy_flow = fe_is_l3_proxy flow;
          backward = (if b_is_proxied b then upf_acl_classify_proxied else upf_acl_classify_return) in do {
      (next, pdr_idx, flow) \<leftarrow>
        (if flow_next flow direction \<noteq> FT_NEXT_CLASSIFY then
           Some (upf_classify_flow_next (flow_next flow direction), flow_pdr_idx flow direction active, flow)
         else if direction = FT_ORIGIN then do {
           (next, pdr_idx, flow) \<leftarrow> upf_acl_classify_forward lib (b_teid b) flow active is_ip4;
           (_, _, flow) \<leftarrow> (if reclassify_proxy_flow then backward lib 0 flow active is_ip4 0
                            else Some (next, 0, flow));
           Some (next, pdr_idx, flow)
         }
         else do {
           (_, _, flow) \<leftarrow> (if reclassify_proxy_flow then upf_acl_classify_forward lib 0 flow active is_ip4
                            else Some (UPF_CLASSIFY_NEXT_DROP, 0, flow));
           backward lib (b_teid b) flow active is_ip4 (b_pdr_idx b)
         });
      Some (if fe_app_detection_done flow
            then let flow = detect flow active in
                 (next, b\<lparr>b_pdr_idx := flow_pdr_idx flow direction active\<rparr>, flow)
            else (next, b\<lparr>b_pdr_idx := pdr_idx\<rparr>, flow))
   })"

end
