(* ===== verification/Upf_Session.thy ===== *)
theory Upf_Session
  imports Upf_Classify
begin

text \<open>
  Sessions, from \<^verbatim>\<open>src/upf/upf_pfcp.c\<close>: their creation and release, the doubly linked list of the sessions
  of an association, the two sets of rules of a session, and the update that replaces the active set and
  adjusts the tables of tunnels, the routes, the peers, the policers and the timers.

  The state \<open>upf_main_t\<close> holds the members of \<^verbatim>\<open>upf_main\<close> and \<^verbatim>\<open>pfcp_server_main\<close> that these functions
  use: pools and hash tables are maps, an index that may be \<^verbatim>\<open>~0\<close> is a natural number with \<open>NO_INDEX\<close> for
  that value. Changes of the FIB and packets that are sent are recorded in the order of the calls. An
  operation on a session gets its index. Locks and barriers keep the data path out and are left out, and
  so are the locks of the data path objects of VPP.
\<close>

section \<open>The state\<close>

record upf_session_t =
  s_last_ul_traffic :: int
  s_up_address :: ip46_address
  s_cp_seid :: u64
  s_cp_address :: ip46_address
  s_assoc_node :: nat
  s_assoc_next :: nat
  s_assoc_prev :: nat
  s_flags :: u32
  s_active :: bool
  s_rules :: "rules_t per_direction"
  s_teid_by_chid :: "u8 \<rightharpoonup> u32"
  s_user_addr :: ip4_address
  s_nat_addr :: "nat option"
  s_unix_time_start :: int
  s_generation :: u16

record upf_qer_policer_t =
  pol_mbr :: pfcp_bit_rate
  pol_ref_cnt :: u64

record upf_peer_t =
  p_ref_cnt :: nat
  p_is_ip4 :: bool
  p_encap_fib_index :: u32

text \<open>Calls of the FIB: a route of a prefix (family, address and length) in a table to a session.\<close>

datatype fib_call =
  Route_add u32 bool ip46_address nat nat
| Route_remove u32 bool ip46_address nat
| Track u32 ip46_address nat
| Untrack nat

record upf_main_t =
  g_sessions :: "nat \<rightharpoonup> upf_session_t"
  g_session_by_id :: "u64 \<rightharpoonup> nat"
  g_node_sessions :: "nat \<rightharpoonup> nat"
  g_v4_tunnel_by_key :: "ip4_address \<times> u32 \<rightharpoonup> nat \<times> nat"
  g_v6_tunnel_by_key :: "ip6_address \<times> u32 \<rightharpoonup> nat \<times> nat"
  g_tdf_ul_table :: "bool \<Rightarrow> u32 list"
  g_nwi_sw_if_index :: "nat \<rightharpoonup> nat"
  g_peers :: "nat \<rightharpoonup> upf_peer_t"
  g_peer_index_by_ip :: "ip46_address \<times> u32 \<rightharpoonup> nat"
  g_qer_policers :: "nat \<rightharpoonup> upf_qer_policer_t"
  g_qer_by_id :: "u64 \<rightharpoonup> nat"
  g_adf_ref_cnt :: "u32 \<rightharpoonup> u32"
  g_nat_used_blocks :: "nat \<rightharpoonup> u32"
  g_sessions_counter :: int
  g_timers :: "(nat \<times> nat \<times> int) list"
  g_fib :: "fib_call list"
  g_end_markers :: "(u32 \<times> u32 \<times> bytes \<times> bool) list"
  g_nat_bindings_deleted :: "ip4_address list"
  g_now :: int
  g_vlib_now :: int
  g_timer_last_run :: int

text \<open>What VPP decides: the indices of new elements of pools and timers, the FIB table of an interface, the
  data path object of a peer, and the result of sorting a vector with a comparison.\<close>

record session_lib = rules_lib +
  ses_pool_index :: "nat set \<Rightarrow> nat"
  fib_table_get_index_for_sw_if_index :: "bool \<Rightarrow> nat \<Rightarrow> u32"
  peer_dpoi_index :: "nat \<Rightarrow> u32"
  mask_to_preflen :: "bool \<Rightarrow> ip46_address \<Rightarrow> nat"
  sort_ue_ip :: "(ue_ip_t \<Rightarrow> ue_ip_t \<Rightarrow> int) \<Rightarrow> ue_ip_t list \<Rightarrow> ue_ip_t list"
  sort_v4_teid :: "(gtpu4_endp_rule_t \<Rightarrow> gtpu4_endp_rule_t \<Rightarrow> int) \<Rightarrow> gtpu4_endp_rule_t list \<Rightarrow> gtpu4_endp_rule_t list"
  sort_v6_teid :: "(gtpu6_endp_rule_t \<Rightarrow> gtpu6_endp_rule_t \<Rightarrow> int) \<Rightarrow> gtpu6_endp_rule_t list \<Rightarrow> gtpu6_endp_rule_t list"
  sort_acl :: "(upf_acl_t \<Rightarrow> upf_acl_t \<Rightarrow> int) \<Rightarrow> upf_acl_t list \<Rightarrow> upf_acl_t list"
  sort_pdr :: "(upf_pdr_t \<Rightarrow> upf_pdr_t \<Rightarrow> int) \<Rightarrow> upf_pdr_t list \<Rightarrow> upf_pdr_t list"
  sort_far :: "(upf_far_t \<Rightarrow> upf_far_t \<Rightarrow> int) \<Rightarrow> upf_far_t list \<Rightarrow> upf_far_t list"
  sort_urr :: "(upf_urr_t \<Rightarrow> upf_urr_t \<Rightarrow> int) \<Rightarrow> upf_urr_t list \<Rightarrow> upf_urr_t list"
  sort_qer :: "(upf_qer_t \<Rightarrow> upf_qer_t \<Rightarrow> int) \<Rightarrow> upf_qer_t list \<Rightarrow> upf_qer_t list"

abbreviation (input) "PFCP_ACTIVE \<equiv> False"
abbreviation (input) "PFCP_PENDING \<equiv> True"
abbreviation (input) "PFCP_UPDATING \<equiv> BIT 15 :: u32"

definition pfcp_get_rules :: "upf_session_t \<Rightarrow> bool \<Rightarrow> rules_t" where
  "pfcp_get_rules sx rules = dir_get (s_rules sx) (s_active sx \<noteq> rules)"

definition put_rules :: "bool \<Rightarrow> rules_t \<Rightarrow> upf_session_t \<Rightarrow> upf_session_t" where
  "put_rules rules r sx = sx\<lparr>s_rules := dir_put (s_active sx \<noteq> rules) r (s_rules sx)\<rparr>"

definition put_session :: "nat \<Rightarrow> upf_session_t \<Rightarrow> upf_main_t \<Rightarrow> upf_main_t" where
  "put_session i sx g = g\<lparr>g_sessions := (g_sessions g)(i \<mapsto> sx)\<rparr>"

definition update_session :: "nat \<Rightarrow> (upf_session_t \<Rightarrow> upf_session_t) \<Rightarrow> upf_main_t \<Rightarrow> upf_main_t option" where
  "update_session i f g = do { sx \<leftarrow> g_sessions g i; Some (put_session i (f sx) g) }"

text \<open>A loop over a vector whose body may fail.\<close>

fun foreach :: "('a \<Rightarrow> 's \<Rightarrow> 's option) \<Rightarrow> 'a list \<Rightarrow> 's \<Rightarrow> 's option" where
  "foreach f [] s = Some s"
| "foreach f (x # xs) s = do { s \<leftarrow> f x s; foreach f xs s }"

text \<open>A loop that also changes the elements of the vector.\<close>

fun foreach_upd :: "('a \<Rightarrow> 's \<Rightarrow> ('a \<times> 's) option) \<Rightarrow> 'a list \<Rightarrow> 's \<Rightarrow> ('a list \<times> 's) option" where
  "foreach_upd f [] s = Some ([], s)"
| "foreach_upd f (x # xs) s = do { (x, s) \<leftarrow> f x s; (xs, s) \<leftarrow> foreach_upd f xs s; Some (x # xs, s) }"

section \<open>The list of the sessions of an association\<close>

definition node_assoc_attach_session :: "nat \<Rightarrow> nat \<Rightarrow> upf_main_t \<Rightarrow> upf_main_t option" where
  "node_assoc_attach_session n pfcp_idx g = do {
     g \<leftarrow> update_session pfcp_idx (\<lambda>sx. sx\<lparr>s_assoc_node := n, s_assoc_prev := NO_INDEX\<rparr>) g;
     sessions \<leftarrow> g_node_sessions g n;
     g \<leftarrow> (if sessions \<noteq> NO_INDEX then update_session sessions (\<lambda>prev. prev\<lparr>s_assoc_prev := pfcp_idx\<rparr>) g
           else Some g);
     g \<leftarrow> update_session pfcp_idx (\<lambda>sx. sx\<lparr>s_assoc_next := sessions\<rparr>) g;
     Some (g\<lparr>g_node_sessions := (g_node_sessions g)(n \<mapsto> pfcp_idx)\<rparr>)
   }"

definition node_assoc_detach_session :: "nat \<Rightarrow> upf_main_t \<Rightarrow> upf_main_t option" where
  "node_assoc_detach_session i g = do {
     sx \<leftarrow> g_sessions g i;
     g \<leftarrow> (if s_assoc_prev sx \<noteq> NO_INDEX
           then update_session (s_assoc_prev sx) (\<lambda>prev. prev\<lparr>s_assoc_next := s_assoc_next sx\<rparr>) g
           else do {
             _ \<leftarrow> g_node_sessions g (s_assoc_node sx);
             Some (g\<lparr>g_node_sessions := (g_node_sessions g)(s_assoc_node sx \<mapsto> s_assoc_next sx)\<rparr>)
           });
     g \<leftarrow> (if s_assoc_next sx \<noteq> NO_INDEX
           then update_session (s_assoc_next sx) (\<lambda>next. next\<lparr>s_assoc_prev := s_assoc_prev sx\<rparr>) g
           else Some g);
     update_session i (\<lambda>sx. sx\<lparr>s_assoc_node := NO_INDEX, s_assoc_prev := NO_INDEX, s_assoc_next := NO_INDEX\<rparr>) g
   }"

section \<open>Timers\<close>

text \<open>A period is given in seconds; \<^verbatim>\<open>trunc\<close> drops the fraction of a second.\<close>

definition stop_timer :: "nat \<Rightarrow> upf_main_t \<Rightarrow> upf_main_t" where
  "stop_timer h g = g\<lparr>g_timers := filter (\<lambda>(h', _). h' \<noteq> h) (g_timers g)\<rparr>"

definition start_timer :: "'v session_lib_scheme \<Rightarrow> nat \<Rightarrow> int \<Rightarrow> upf_main_t \<Rightarrow> nat \<times> upf_main_t" where
  "start_timer lib si interval g =
     (let h = ses_pool_index lib (fst ` set (g_timers g)) in
      (h, g\<lparr>g_timers := g_timers g @ [(h, si, interval)]\<rparr>))"

definition upf_pfcp_session_stop_up_inactivity_timer :: "urr_time_t \<Rightarrow> upf_main_t \<Rightarrow> urr_time_t \<times> upf_main_t" where
  "upf_pfcp_session_stop_up_inactivity_timer t g =
     (t\<lparr>t_handle := NO_INDEX, t_expected := 0\<rparr>,
      if t_handle t \<noteq> NO_INDEX \<and> t_expected t > g_vlib_now g then stop_timer (t_handle t) g else g)"

definition upf_pfcp_session_start_up_inactivity_timer ::
    "'v session_lib_scheme \<Rightarrow> nat \<Rightarrow> int \<Rightarrow> urr_time_t \<Rightarrow> upf_main_t \<Rightarrow> urr_time_t \<times> upf_main_t" where
  "upf_pfcp_session_start_up_inactivity_timer lib si last_ul t g =
     (if t_handle t \<noteq> NO_INDEX \<or> t_period t = 0 then (t, g)
      else
        let elapsed = g_vlib_now g - last_ul;
            trunc = (if elapsed \<ge> 0 then elapsed div 100 else - ((- elapsed) div 100));
            period = 100 * (int (t_period t) - trunc);
            (h, g') = start_timer lib si (max period 1) g in
        (t\<lparr>t_expected := g_vlib_now g + period, t_handle := h\<rparr>, g'))"

definition upf_pfcp_session_stop_urr_time :: "int \<Rightarrow> urr_time_t \<Rightarrow> upf_main_t \<Rightarrow> urr_time_t \<times> upf_main_t" where
  "upf_pfcp_session_stop_urr_time now t g =
     (t\<lparr>t_handle := NO_INDEX, t_expected := 0\<rparr>,
      if t_handle t \<noteq> NO_INDEX \<and> t_expected t > now then stop_timer (t_handle t) g else g)"

definition upf_pfcp_session_start_stop_urr_time ::
    "'v session_lib_scheme \<Rightarrow> nat \<Rightarrow> bool \<Rightarrow> urr_time_t \<Rightarrow> upf_main_t \<Rightarrow> urr_time_t \<times> upf_main_t" where
  "upf_pfcp_session_start_stop_urr_time lib si start_it t g =
     (let now = g_timer_last_run g;
          (t, g) = (if t_handle t \<noteq> NO_INDEX then upf_pfcp_session_stop_urr_time now t g else (t, g)) in
      if t_period t \<noteq> 0 \<and> start_it then
        let expected = t_base t + 100 * int (t_period t);
            (h, g) = start_timer lib si (max (expected - now + 1) 1) g in
        (t\<lparr>t_expected := expected, t_handle := h\<rparr>, g)
      else (t, g))"

section \<open>Tunnels and routes\<close>

text \<open>The value of a tunnel is the index of a rule and that of the session.\<close>

definition pfcp_add_del_v4_teid :: "nat \<Rightarrow> gtpu4_endp_rule_t \<Rightarrow> bool \<Rightarrow> upf_main_t \<Rightarrow> upf_main_t" where
  "pfcp_add_del_v4_teid si e is_add g =
     g\<lparr>g_v4_tunnel_by_key := (g_v4_tunnel_by_key g)
         (v4_key e := if is_add then Some (v4_rule_index e, si) else None)\<rparr>"

definition pfcp_add_del_v6_teid :: "nat \<Rightarrow> gtpu6_endp_rule_t \<Rightarrow> bool \<Rightarrow> upf_main_t \<Rightarrow> upf_main_t" where
  "pfcp_add_del_v6_teid si e is_add g =
     g\<lparr>g_v6_tunnel_by_key := (g_v6_tunnel_by_key g)
         (v6_key e := if is_add then Some (v6_rule_index e, si) else None)\<rparr>"

definition pfcp_add_del_ue_ip :: "'v session_lib_scheme \<Rightarrow> nat \<Rightarrow> ue_ip_t \<Rightarrow> bool \<Rightarrow> upf_main_t \<Rightarrow> upf_main_t" where
  "pfcp_add_del_ue_ip lib si ue_ip is_add g =
     (let is_ip4 = ip46_address_is_ip4 lib (uip_addr ue_ip); len = (if is_ip4 then 32 else 64) in
      g\<lparr>g_fib := g_fib g @
         [if is_add then Route_add (uip_fib_index ue_ip) is_ip4 (uip_addr ue_ip) len si
          else Route_remove (uip_fib_index ue_ip) is_ip4 (uip_addr ue_ip) len]\<rparr>)"

definition pfcp_add_del_tdf ::
    "'v session_lib_scheme \<Rightarrow> bool \<Rightarrow> nat \<Rightarrow> upf_acl_t \<Rightarrow> bool \<Rightarrow> upf_main_t \<Rightarrow> upf_main_t" where
  "pfcp_add_del_tdf lib is_ip4 si acl is_add g =
     (let tdf = g_tdf_ul_table g is_ip4; i = unat (acl_fib_index acl);
          addr = dir_get (t5_address (acl_match acl)) UPF_ACL_FIELD_SRC;
          len = mask_to_preflen lib is_ip4 (dir_get (t5_address (acl_mask acl)) UPF_ACL_FIELD_SRC) in
      if acl_match_ip_app acl \<or> i \<ge> length tdf \<or> tdf ! i = -1 then g
      else g\<lparr>g_fib := g_fib g @ [if is_add then Route_add (tdf ! i) is_ip4 addr len si
                                 else Route_remove (tdf ! i) is_ip4 addr len]\<rparr>)"

definition pfcp_add_del_v4_tdf :: "'v session_lib_scheme \<Rightarrow> nat \<Rightarrow> upf_acl_t \<Rightarrow> bool \<Rightarrow> upf_main_t \<Rightarrow> upf_main_t" where
  "pfcp_add_del_v4_tdf lib = pfcp_add_del_tdf lib True"

definition pfcp_add_del_v6_tdf :: "'v session_lib_scheme \<Rightarrow> nat \<Rightarrow> upf_acl_t \<Rightarrow> bool \<Rightarrow> upf_main_t \<Rightarrow> upf_main_t" where
  "pfcp_add_del_v6_tdf lib = pfcp_add_del_tdf lib False"

section \<open>Comparisons\<close>

text \<open>\<^verbatim>\<open>memcmp\<close>, of which only the sign is defined. Integers are kept in the order of a little-endian
  machine, addresses in network order.\<close>

fun memcmp :: "bytes \<Rightarrow> bytes \<Rightarrow> int" where
  "memcmp (x # xs) (y # ys) = (if x = y then memcmp xs ys else if x < y then -1 else 1)"
| "memcmp _ _ = 0"

definition mem_le :: "nat \<Rightarrow> 'a::len word \<Rightarrow> bytes" where
  "mem_le n w = rev (bytes_be n w)"

definition v4_teid_cmp :: "gtpu4_endp_rule_t \<Rightarrow> gtpu4_endp_rule_t \<Rightarrow> int" where
  "v4_teid_cmp a b = memcmp (bytes_be 4 (fst (v4_key a)) @ mem_le 4 (snd (v4_key a)))
                            (bytes_be 4 (fst (v4_key b)) @ mem_le 4 (snd (v4_key b)))"

definition v6_teid_cmp :: "gtpu6_endp_rule_t \<Rightarrow> gtpu6_endp_rule_t \<Rightarrow> int" where
  "v6_teid_cmp a b = memcmp (bytes_be 16 (fst (v6_key a)) @ mem_le 4 (snd (v6_key a)))
                            (bytes_be 16 (fst (v6_key b)) @ mem_le 4 (snd (v6_key b)))"

definition ip46_address_fib_cmp :: "ue_ip_t \<Rightarrow> ue_ip_t \<Rightarrow> int" where
  "ip46_address_fib_cmp a b =
     (let r = intcmp (uip_fib_index a) (uip_fib_index b) in
      if r \<noteq> 0 then r else memcmp (bytes_be 16 (uip_addr a)) (bytes_be 16 (uip_addr b)))"

text \<open>The octets of an \<^verbatim>\<open>upf_acl_t\<close> before \<^verbatim>\<open>pdr_idx\<close>: the bit fields share one octet, and the padding
  of the structure is zero in all elements. How much padding there is depends on the alignment VPP gives to
  \<^verbatim>\<open>ip46_address_t\<close>; octets that are always equal do not change what \<^verbatim>\<open>memcmp\<close> returns.\<close>

definition of_match_ue_ip :: "match_ue_ip \<Rightarrow> u8" where
  "of_match_ue_ip m = (case m of UPF_ACL_NO_UE \<Rightarrow> 0 | UPF_ACL_UL \<Rightarrow> 1 | UPF_ACL_DL \<Rightarrow> 2)"

definition acl_bit_fields :: "upf_acl_t \<Rightarrow> u8" where
  "acl_bit_fields a = of_bool (acl_is_ip4 a) OR push_bit 1 (of_bool (acl_match_teid a))
     OR push_bit 2 (of_match_ue_ip (acl_match_ue_ip a)) OR push_bit 5 (of_bool (acl_match_sdf a))
     OR push_bit 6 (of_bool (acl_match_ip_app a))"

definition mem_5tuple :: "upf_acl_5tuple_t \<Rightarrow> bytes" where
  "mem_5tuple t = t5_protocol t # replicate 7 0
     @ bytes_be 16 (dir_get (t5_address t) False) @ bytes_be 16 (dir_get (t5_address t) True)
     @ mem_le 2 (dir_get (t5_port t) False) @ mem_le 2 (dir_get (t5_port t) True) @ replicate 4 0"

definition mem_acl :: "upf_acl_t \<Rightarrow> bytes" where
  "mem_acl a = mem_le 4 (acl_precedence a) @ acl_bit_fields a # replicate 3 0
     @ mem_le 4 (acl_fib_index a) @ mem_le 4 (acl_teid a) @ bytes_be 16 (acl_ue_ip a)
     @ mem_5tuple (acl_mask a) @ mem_5tuple (acl_match a)"

definition upf_acl_cmp :: "upf_acl_t \<Rightarrow> upf_acl_t \<Rightarrow> int" where
  "upf_acl_cmp a b = memcmp (mem_acl a) (mem_acl b)"

text \<open>\<^verbatim>\<open>vec_diff\<close> sorts both vectors and walks through them; \<open>add_del\<close> is called for the elements that are
  only in one of them. The result is the sorted vectors and the state.\<close>

fun diff_walk :: "('a \<Rightarrow> 'a \<Rightarrow> int) \<Rightarrow> 'a list \<Rightarrow> 'a list \<Rightarrow> ('a \<times> bool) list" where
  "diff_walk compar (x # new) (y # old) =
     (let r = compar x y in
      if r = 0 then diff_walk compar new old
      else if r < 0 then (x, True) # diff_walk compar new (y # old)
      else (y, False) # diff_walk compar (x # new) old)"
| "diff_walk compar new old = map (\<lambda>x. (x, True)) new @ map (\<lambda>y. (y, False)) old"

definition vec_diff ::
    "(('a \<Rightarrow> 'a \<Rightarrow> int) \<Rightarrow> 'a list \<Rightarrow> 'a list) \<Rightarrow> ('a \<Rightarrow> 'a \<Rightarrow> int) \<Rightarrow> ('a \<Rightarrow> bool \<Rightarrow> 's \<Rightarrow> 's)
       \<Rightarrow> 'a list \<Rightarrow> 'a list \<Rightarrow> 's \<Rightarrow> 'a list \<times> 'a list \<times> 's" where
  "vec_diff srt compar add_del new old s =
     (let new = srt compar new; old = srt compar old in
      (new, old, fold (\<lambda>(x, is_add). add_del x is_add) (diff_walk compar new old) s))"

section \<open>Peers\<close>

text \<open>The key of a peer is its address and the FIB table of the interface.\<close>

definition peer_key :: "'v session_lib_scheme \<Rightarrow> upf_far_forward_t \<Rightarrow> ip46_address \<times> u32" where
  "peer_key lib fwd =
     (ohc_ip (fwd_outer_header_creation fwd),
      fib_table_get_index_for_sw_if_index lib
        (ohc_description (fwd_outer_header_creation fwd) AND OUTER_HEADER_CREATION_ANY_IP4 \<noteq> 0)
        (fwd_dst_sw_if_index fwd))"

definition peer_addr_ref :: "'v session_lib_scheme \<Rightarrow> upf_far_forward_t \<Rightarrow> upf_main_t \<Rightarrow> (nat \<times> upf_main_t) option" where
  "peer_addr_ref lib fwd g =
     (let key = peer_key lib fwd in
      case g_peer_index_by_ip g key of
        Some i \<Rightarrow> do {
          p \<leftarrow> g_peers g i;
          Some (i, g\<lparr>g_peers := (g_peers g)(i \<mapsto> p\<lparr>p_ref_cnt := p_ref_cnt p + 1\<rparr>)\<rparr>)
        }
      | None \<Rightarrow>
          let i = ses_pool_index lib (dom (g_peers g)) in
          Some (i, g\<lparr>g_peers := (g_peers g)(i \<mapsto> \<lparr>p_ref_cnt = 1,
                       p_is_ip4 = (ohc_description (fwd_outer_header_creation fwd) AND OUTER_HEADER_CREATION_ANY_IP4 \<noteq> 0),
                       p_encap_fib_index = snd key\<rparr>),
                     g_peer_index_by_ip := (g_peer_index_by_ip g)(key \<mapsto> i),
                     g_fib := g_fib g @ [Track (snd key) (fst key) i]\<rparr>))"

definition peer_addr_unref :: "'v session_lib_scheme \<Rightarrow> upf_far_forward_t \<Rightarrow> upf_main_t \<Rightarrow> upf_main_t option" where
  "peer_addr_unref lib fwd g =
     (let key = peer_key lib fwd in do {
      i \<leftarrow> g_peer_index_by_ip g key;
      p \<leftarrow> g_peers g i;
      if p_ref_cnt p - 1 \<noteq> 0 then Some (g\<lparr>g_peers := (g_peers g)(i \<mapsto> p\<lparr>p_ref_cnt := p_ref_cnt p - 1\<rparr>)\<rparr>)
      else Some (g\<lparr>g_peer_index_by_ip := (g_peer_index_by_ip g)(key := None),
                   g_peers := (g_peers g)(i := None),
                   g_fib := g_fib g @ [Untrack i]\<rparr>)
   })"

section \<open>Policers\<close>

definition init_qer_policer :: "'v session_lib_scheme \<Rightarrow> upf_qer_t \<Rightarrow> upf_main_t \<Rightarrow> upf_qer_t \<times> upf_main_t" where
  "init_qer_policer lib qer g =
     (let i = ses_pool_index lib (dom (g_qer_policers g)) in
      (qer\<lparr>qer_policer_value := of_nat i\<rparr>,
       g\<lparr>g_qer_policers := (g_qer_policers g)(i \<mapsto> \<lparr>pol_mbr = qer_mbr qer, pol_ref_cnt = 0\<rparr>),
         g_qer_by_id := (g_qer_by_id g)(qer_policer_key qer \<mapsto> i)\<rparr>))"

definition attach_qer_policer ::
    "'v session_lib_scheme \<Rightarrow> upf_qer_t \<Rightarrow> upf_main_t \<Rightarrow> (upf_qer_t \<times> upf_main_t) option" where
  "attach_qer_policer lib qer g =
     (if qer_policer_key qer = -1 \<or> qer_flags qer AND PFCP_QER_MBR = 0 then Some (qer, g)
      else
        let (qer, g) = (case g_qer_by_id g (qer_policer_key qer) of
                          None \<Rightarrow> init_qer_policer lib qer g
                        | Some i \<Rightarrow> (qer\<lparr>qer_policer_value := of_nat i\<rparr>, g));
            i = unat (qer_policer_value qer) in do {
        pol \<leftarrow> g_qer_policers g i;
        Some (qer, g\<lparr>g_qer_policers := (g_qer_policers g)(i \<mapsto> pol\<lparr>pol_ref_cnt := pol_ref_cnt pol + 1\<rparr>)\<rparr>)
      })"

definition detach_qer_policer :: "upf_qer_t \<Rightarrow> upf_main_t \<Rightarrow> upf_main_t option" where
  "detach_qer_policer qer g =
     (let i = unat (qer_policer_value qer) in
      if qer_policer_value qer = -1 then Some g
      else do {
        pol \<leftarrow> g_qer_policers g i;
        if pol_ref_cnt pol - 1 \<noteq> 0
        then Some (g\<lparr>g_qer_policers := (g_qer_policers g)(i \<mapsto> pol\<lparr>pol_ref_cnt := pol_ref_cnt pol - 1\<rparr>)\<rparr>)
        else Some (g\<lparr>g_qer_by_id := (g_qer_by_id g)(qer_policer_key qer := None),
                     g_qer_policers := (g_qer_policers g)(i := None)\<rparr>)
      })"

section \<open>The pending set of rules\<close>

text \<open>\<^verbatim>\<open>vec_dup\<close> of an empty vector is \<^verbatim>\<open>NULL\<close>. Copying the vectors inside of the elements makes the copy
  independent of the original, which it is here from the start.\<close>

definition vec_dup :: "'a list \<Rightarrow> 'a list option" where
  "vec_dup v = (if v = [] then None else Some v)"

definition pfcp_make_pending_pdr :: "upf_session_t \<Rightarrow> upf_session_t" where
  "pfcp_make_pending_pdr sx =
     (let pending = pfcp_get_rules sx PFCP_PENDING; active = pfcp_get_rules sx PFCP_ACTIVE in
      case (r_pdr pending, r_pdr active) of
        (None, Some v) \<Rightarrow> put_rules PFCP_PENDING (pending\<lparr>r_pdr := vec_dup v\<rparr>) sx
      | _ \<Rightarrow> sx)"

definition copy_far :: "upf_far_t \<Rightarrow> upf_far_t" where
  "copy_far old =
     (let fwd = far_forward old in
      old\<lparr>far_forward := fwd\<lparr>
        fwd_rewrite := (if far_apply_action old AND FAR_FORWARD \<noteq> 0 then fwd_rewrite fwd else []),
        fwd_redirect_information :=
          (if far_apply_action old AND FAR_FORWARD \<noteq> 0 \<and> fwd_flags fwd AND FAR_F_REDIRECT_INFORMATION \<noteq> 0
           then fwd_redirect_information fwd else None)\<rparr>\<rparr>)"

definition pfcp_make_pending_far :: "upf_session_t \<Rightarrow> upf_session_t" where
  "pfcp_make_pending_far sx =
     (let pending = pfcp_get_rules sx PFCP_PENDING; active = pfcp_get_rules sx PFCP_ACTIVE in
      case (r_far pending, r_far active) of
        (None, Some v) \<Rightarrow> put_rules PFCP_PENDING (pending\<lparr>r_far := vec_dup (map copy_far v)\<rparr>) sx
      | _ \<Rightarrow> sx)"

definition zero_counter :: urr_counter_t where
  "zero_counter = \<lparr>c_ul = 0, c_dl = 0, c_total = 0\<rparr>"

definition zero_measure :: urr_measure_t where
  "zero_measure = \<lparr>m_packets = zero_counter, m_bytes = zero_counter, m_consumed = zero_counter\<rparr>"

definition copy_urr :: "upf_urr_t \<Rightarrow> upf_urr_t" where
  "copy_urr urr = urr\<lparr>urr_update_flags := 0, urr_traffic := Map.empty, urr_liusa_bitmap := [],
     urr_volume := (urr_volume urr)\<lparr>v_measure := zero_measure\<rparr>\<rparr>"

definition pfcp_make_pending_urr :: "upf_session_t \<Rightarrow> upf_session_t" where
  "pfcp_make_pending_urr sx =
     (let pending = pfcp_get_rules sx PFCP_PENDING; active = pfcp_get_rules sx PFCP_ACTIVE in
      case (r_urr pending, r_urr active) of
        (None, Some v) \<Rightarrow> put_rules PFCP_PENDING (pending\<lparr>r_urr := vec_dup (map copy_urr v)\<rparr>) sx
      | _ \<Rightarrow> sx)"

definition pfcp_make_pending_qer :: "upf_session_t \<Rightarrow> upf_session_t" where
  "pfcp_make_pending_qer sx =
     (let pending = pfcp_get_rules sx PFCP_PENDING; active = pfcp_get_rules sx PFCP_ACTIVE in
      case (r_qer pending, r_qer active) of
        (None, Some v) \<Rightarrow> put_rules PFCP_PENDING
          (pending\<lparr>r_qer := vec_dup (map (\<lambda>qer. qer\<lparr>qer_policer_value := -1\<rparr>) v)\<rparr>) sx
      | _ \<Rightarrow> sx)"

section \<open>Freeing rules\<close>

definition upf_adf_put_adr_db :: "u32 \<Rightarrow> upf_main_t \<Rightarrow> upf_main_t option" where
  "upf_adf_put_adr_db db_index g =
     (if db_index = -1 then Some g
      else do {
        n \<leftarrow> g_adf_ref_cnt g db_index;
        Some (g\<lparr>g_adf_ref_cnt := (g_adf_ref_cnt g)(db_index \<mapsto> n - 1)\<rparr>)
      })"

text \<open>Freeing the memory of a rule has no effect on the state, apart from two counters of references.\<close>

definition pfcp_free_pdr :: "upf_pdr_t \<Rightarrow> upf_main_t \<Rightarrow> upf_main_t option" where
  "pfcp_free_pdr pdr = upf_adf_put_adr_db (adr_db_id (pdi_adr (pdr_pdi pdr)))"

definition pfcp_free_qer :: "upf_qer_t \<Rightarrow> upf_main_t \<Rightarrow> upf_main_t option" where
  "pfcp_free_qer qer = detach_qer_policer qer"

definition zero_urr_time :: urr_time_t where
  "zero_urr_time = \<lparr>t_base = 0, t_period = 0, t_expected = 0, t_handle = 0\<rparr>"

definition zero_rules :: rules_t where
  "zero_rules = \<lparr>r_pdr = None, r_far = None, r_urr = None, r_qer = None, r_flags = 0,
     r_proxy_precedence = 0, r_proxy_pdr_idx = 0, r_v4_acls = [], r_v6_acls = [], r_ue_src_ip = [],
     r_ue_dst_ip = [], r_v4_teid = [], r_v6_teid = [], r_send_end_marker = [],
     r_inactivity_timer = zero_urr_time\<rparr>"

definition pfcp_free_rules :: "nat \<Rightarrow> bool \<Rightarrow> upf_main_t \<Rightarrow> upf_main_t option" where
  "pfcp_free_rules i rule g = do {
     sx \<leftarrow> g_sessions g i;
     let rules = pfcp_get_rules sx rule;
     g \<leftarrow> foreach pfcp_free_pdr (elts (r_pdr rules)) g;
     g \<leftarrow> foreach pfcp_free_qer (elts (r_qer rules)) g;
     update_session i (put_rules rule zero_rules) g
   }"

section \<open>Sessions\<close>

definition new_session :: upf_session_t where
  "new_session =
     (let r = zero_rules\<lparr>r_inactivity_timer := zero_urr_time\<lparr>t_handle := NO_INDEX\<rparr>\<rparr> in
      \<lparr>s_last_ul_traffic = 0, s_up_address = 0, s_cp_seid = 0, s_cp_address = 0, s_assoc_node = 0,
       s_assoc_next = 0, s_assoc_prev = 0, s_flags = 0, s_active = False, s_rules = (r, r),
       s_teid_by_chid = Map.empty, s_user_addr = 0, s_nat_addr = None, s_unix_time_start = 0,
       s_generation = 0\<rparr>)"

definition pfcp_create_session ::
    "'v session_lib_scheme \<Rightarrow> nat \<Rightarrow> ip46_address \<Rightarrow> u64 \<Rightarrow> ip46_address \<Rightarrow> upf_main_t \<Rightarrow> (nat \<times> upf_main_t) option" where
  "pfcp_create_session lib assoc up_address cp_seid cp_address g =
     (let i = ses_pool_index lib (dom (g_sessions g));
          sx = new_session\<lparr>s_up_address := up_address, s_cp_seid := cp_seid, s_cp_address := cp_address,
                           s_last_ul_traffic := g_vlib_now g, s_unix_time_start := g_now g\<rparr> in do {
      g \<leftarrow> node_assoc_attach_session assoc i (put_session i sx g);
      Some (i, g\<lparr>g_session_by_id := (g_session_by_id g)(cp_seid \<mapsto> i),
                 g_sessions_counter := g_sessions_counter g + 1\<rparr>)
   })"

definition pfcp_update_session :: "upf_session_t \<Rightarrow> upf_session_t" where
  "pfcp_update_session sx =
     (let active = pfcp_get_rules sx PFCP_ACTIVE; pending = pfcp_get_rules sx PFCP_PENDING in
      if t_period (r_inactivity_timer active) \<noteq> 0
      then put_rules PFCP_PENDING (pending\<lparr>r_inactivity_timer := r_inactivity_timer active\<rparr>) sx else sx)"

text \<open>The timers of a usage reporting rule.\<close>

definition stop_urr_timers :: "int \<Rightarrow> upf_urr_t \<Rightarrow> upf_main_t \<Rightarrow> upf_urr_t \<times> upf_main_t" where
  "stop_urr_timers now urr g =
     (let (t1, g) = upf_pfcp_session_stop_urr_time now (urr_measurement_period urr) g;
          (t2, g) = upf_pfcp_session_stop_urr_time now (urr_time_threshold urr) g;
          (t3, g) = upf_pfcp_session_stop_urr_time now (urr_time_quota urr) g;
          (t4, g) = upf_pfcp_session_stop_urr_time now (urr_quota_validity_time urr) g;
          (t5, g) = upf_pfcp_session_stop_urr_time now (urr_traffic_timer urr) g in
      (urr\<lparr>urr_measurement_period := t1, urr_time_threshold := t2, urr_time_quota := t3,
           urr_quota_validity_time := t4, urr_traffic_timer := t5\<rparr>, g))"

definition pfcp_disable_session :: "'v session_lib_scheme \<Rightarrow> nat \<Rightarrow> upf_main_t \<Rightarrow> upf_main_t option" where
  "pfcp_disable_session lib i g = do {
     sx \<leftarrow> g_sessions g i;
     let active = pfcp_get_rules sx PFCP_ACTIVE;
     let g = g\<lparr>g_session_by_id := (g_session_by_id g)(s_cp_seid sx := None)\<rparr>;
     let g = fold (\<lambda>e. pfcp_add_del_v4_teid i e False) (r_v4_teid active) g;
     let g = fold (\<lambda>e. pfcp_add_del_v6_teid i e False) (r_v6_teid active) g;
     let g = fold (\<lambda>ue_ip. pfcp_add_del_ue_ip lib i ue_ip False) (r_ue_dst_ip active) g;
     let g = fold (\<lambda>ue_ip. pfcp_add_del_ue_ip lib i ue_ip False) (r_ue_src_ip active) g;
     let g = fold (\<lambda>acl. pfcp_add_del_v4_tdf lib i acl False) (r_v4_acls active) g;
     let g = fold (\<lambda>acl. pfcp_add_del_v6_tdf lib i acl False) (r_v6_acls active) g;
     g \<leftarrow> node_assoc_detach_session i g;
     (urrs, g) \<leftarrow> foreach_upd (\<lambda>urr g. Some (stop_urr_timers (g_timer_last_run g) urr g)) (elts (r_urr active)) g;
     let (t, g) = upf_pfcp_session_stop_up_inactivity_timer (r_inactivity_timer active) g;
     g \<leftarrow> update_session i (put_rules PFCP_ACTIVE
            (active\<lparr>r_urr := map_option (\<lambda>_. urrs) (r_urr active), r_inactivity_timer := t\<rparr>)) g;
     Some (g\<lparr>g_sessions_counter := g_sessions_counter g - 1\<rparr>)
   }"

text \<open>The pointer to the address of a NAT pool is the index of its counter.\<close>

definition upf_delete_nat_binding :: "upf_session_t \<Rightarrow> nat \<Rightarrow> upf_main_t \<Rightarrow> upf_main_t option" where
  "upf_delete_nat_binding sx ap g = do {
     n \<leftarrow> g_nat_used_blocks g ap;
     Some (g\<lparr>g_nat_used_blocks := (g_nat_used_blocks g)(ap \<mapsto> n - 1),
             g_nat_bindings_deleted := g_nat_bindings_deleted g @ [s_user_addr sx]\<rparr>)
   }"

definition pfcp_free_session :: "nat \<Rightarrow> upf_main_t \<Rightarrow> upf_main_t option" where
  "pfcp_free_session i g = do {
     g \<leftarrow> pfcp_free_rules i PFCP_ACTIVE g;
     g \<leftarrow> pfcp_free_rules i PFCP_PENDING g;
     sx \<leftarrow> g_sessions g i;
     g \<leftarrow> (case s_nat_addr sx of None \<Rightarrow> Some g | Some ap \<Rightarrow> upf_delete_nat_binding sx ap g);
     Some (g\<lparr>g_sessions := (g_sessions g)(i := None)\<rparr>)
   }"

text \<open>The loop of \<^verbatim>\<open>pfcp_release_association\<close> over the sessions of the association.\<close>

partial_function (option) release_sessions_loop ::
    "'v session_lib_scheme \<Rightarrow> nat \<Rightarrow> upf_main_t \<Rightarrow> upf_main_t option" where
  "release_sessions_loop lib idx g =
     (if idx = NO_INDEX then Some g
      else do {
        sx \<leftarrow> g_sessions g idx;
        g \<leftarrow> pfcp_disable_session lib idx g;
        g \<leftarrow> pfcp_free_session idx g;
        release_sessions_loop lib (s_assoc_next sx) g
      })"

definition release_sessions :: "'v session_lib_scheme \<Rightarrow> nat \<Rightarrow> upf_main_t \<Rightarrow> upf_main_t option" where
  "release_sessions lib n g = do { idx \<leftarrow> g_node_sessions g n; release_sessions_loop lib idx g }"

definition pfcp_lookup :: "u64 \<Rightarrow> upf_main_t \<Rightarrow> nat option" where
  "pfcp_lookup sess_id g = g_session_by_id g sess_id"

end
