(* ===== verification/Upf_Update.thy ===== *)
theory Upf_Update
  imports Upf_Session
begin

text \<open>
  Changing the rules of a session: the functions of \<^verbatim>\<open>pfcp_rule_vector_fns\<close>, the map of linked usage
  reporting rules, end markers, and \<^verbatim>\<open>pfcp_update_apply\<close> and \<^verbatim>\<open>pfcp_update_finish\<close>, which replace the
  active set of rules by the pending one.
\<close>

section \<open>Rules of a session by id\<close>

definition pfcp_get_pdr :: "bool \<Rightarrow> u32 \<Rightarrow> upf_session_t \<Rightarrow> nat option \<times> upf_session_t" where
  "pfcp_get_pdr rule i sx =
     (let sx = (if rule = PFCP_PENDING then pfcp_make_pending_pdr sx else sx) in
      (pfcp_get_pdr_by_id (pfcp_get_rules sx rule) i, sx))"

definition pfcp_get_far :: "bool \<Rightarrow> u16 \<Rightarrow> upf_session_t \<Rightarrow> nat option \<times> upf_session_t" where
  "pfcp_get_far rule i sx =
     (let sx = (if rule = PFCP_PENDING then pfcp_make_pending_far sx else sx) in
      (pfcp_get_far_by_id (pfcp_get_rules sx rule) i, sx))"

definition pfcp_get_urr :: "bool \<Rightarrow> u16 \<Rightarrow> upf_session_t \<Rightarrow> nat option \<times> upf_session_t" where
  "pfcp_get_urr rule i sx =
     (let sx = (if rule = PFCP_PENDING then pfcp_make_pending_urr sx else sx) in
      (pfcp_get_urr_by_id (pfcp_get_rules sx rule) i, sx))"

definition pfcp_get_qer :: "bool \<Rightarrow> u32 \<Rightarrow> upf_session_t \<Rightarrow> nat option \<times> upf_session_t" where
  "pfcp_get_qer rule i sx =
     (let sx = (if rule = PFCP_PENDING then pfcp_make_pending_qer sx else sx) in
      (pfcp_get_qer_by_id (pfcp_get_rules sx rule) i, sx))"

definition pfcp_sort_pdrs :: "'v session_lib_scheme \<Rightarrow> rules_t \<Rightarrow> rules_t" where
  "pfcp_sort_pdrs lib r = r\<lparr>r_pdr := map_option (sort_pdr lib (\<lambda>a b. intcmp (pdr_id a) (pdr_id b))) (r_pdr r)\<rparr>"

definition pfcp_sort_fars :: "'v session_lib_scheme \<Rightarrow> rules_t \<Rightarrow> rules_t" where
  "pfcp_sort_fars lib r = r\<lparr>r_far := map_option (sort_far lib (\<lambda>a b. intcmp (far_id a) (far_id b))) (r_far r)\<rparr>"

definition pfcp_sort_urrs :: "'v session_lib_scheme \<Rightarrow> rules_t \<Rightarrow> rules_t" where
  "pfcp_sort_urrs lib r = r\<lparr>r_urr := map_option (sort_urr lib (\<lambda>a b. intcmp (urr_id a) (urr_id b))) (r_urr r)\<rparr>"

definition pfcp_sort_qers :: "'v session_lib_scheme \<Rightarrow> rules_t \<Rightarrow> rules_t" where
  "pfcp_sort_qers lib r = r\<lparr>r_qer := map_option (sort_qer lib (\<lambda>a b. intcmp (qer_id a) (qer_id b))) (r_qer r)\<rparr>"

text \<open>\<^verbatim>\<open>vec_delete\<close> of one element moves the elements behind it to the front.\<close>

definition vec_delete :: "nat \<Rightarrow> 'a list option \<Rightarrow> 'a list option" where
  "vec_delete i v = map_option (\<lambda>xs. take i xs @ drop (Suc i) xs) v"

text \<open>The functions that delete a rule return 0, or -1 if there is none with the id. The id is compared
  after it was stored in a member of its type.\<close>

definition pfcp_delete_pdr :: "nat \<Rightarrow> u32 \<Rightarrow> upf_main_t \<Rightarrow> (int \<times> upf_main_t) option" where
  "pfcp_delete_pdr si i g = do {
     sx \<leftarrow> g_sessions g si;
     let (found, sx) = pfcp_get_pdr PFCP_PENDING i sx;
     let rules = pfcp_get_rules sx PFCP_PENDING;
     let g = put_session si sx g;
     case found of
       None \<Rightarrow> Some (-1, g)
     | Some p \<Rightarrow> do {
         g \<leftarrow> pfcp_free_pdr (elts (r_pdr rules) ! p) g;
         Some (0, put_session si (put_rules PFCP_PENDING (rules\<lparr>r_pdr := vec_delete p (r_pdr rules)\<rparr>) sx) g)
       }
   }"

definition pfcp_delete_far :: "nat \<Rightarrow> u32 \<Rightarrow> upf_main_t \<Rightarrow> (int \<times> upf_main_t) option" where
  "pfcp_delete_far si i g = do {
     sx \<leftarrow> g_sessions g si;
     let (found, sx) = pfcp_get_far PFCP_PENDING (ucast i) sx;
     let rules = pfcp_get_rules sx PFCP_PENDING;
     case found of
       None \<Rightarrow> Some (-1, put_session si sx g)
     | Some p \<Rightarrow> Some (0, put_session si (put_rules PFCP_PENDING (rules\<lparr>r_far := vec_delete p (r_far rules)\<rparr>) sx) g)
   }"

definition pfcp_delete_urr :: "nat \<Rightarrow> u32 \<Rightarrow> upf_main_t \<Rightarrow> (int \<times> upf_main_t) option" where
  "pfcp_delete_urr si i g = do {
     sx \<leftarrow> g_sessions g si;
     let (found, sx) = pfcp_get_urr PFCP_PENDING (ucast i) sx;
     let rules = pfcp_get_rules sx PFCP_PENDING;
     case found of
       None \<Rightarrow> Some (-1, put_session si sx g)
     | Some p \<Rightarrow> Some (0, put_session si (put_rules PFCP_PENDING (rules\<lparr>r_urr := vec_delete p (r_urr rules)\<rparr>) sx) g)
   }"

definition pfcp_delete_qer :: "nat \<Rightarrow> u32 \<Rightarrow> upf_main_t \<Rightarrow> (int \<times> upf_main_t) option" where
  "pfcp_delete_qer si i g = do {
     sx \<leftarrow> g_sessions g si;
     let (found, sx) = pfcp_get_qer PFCP_PENDING i sx;
     let rules = pfcp_get_rules sx PFCP_PENDING;
     let g = put_session si sx g;
     case found of
       None \<Rightarrow> Some (-1, g)
     | Some p \<Rightarrow> do {
         g \<leftarrow> pfcp_free_qer (elts (r_qer rules) ! p) g;
         Some (0, put_session si (put_rules PFCP_PENDING (rules\<lparr>r_qer := vec_delete p (r_qer rules)\<rparr>) sx) g)
       }
   }"

definition pfcp_send_end_marker ::
    "'v session_lib_scheme \<Rightarrow> nat \<Rightarrow> u16 \<Rightarrow> upf_main_t \<Rightarrow> upf_main_t option" where
  "pfcp_send_end_marker lib si i g = do {
     sx \<leftarrow> g_sessions g si;
     let active = pfcp_get_rules sx PFCP_ACTIVE;
     let pending = pfcp_get_rules sx PFCP_PENDING;
     case pfcp_get_far_by_id active i of
       None \<Rightarrow> Some g
     | Some p \<Rightarrow> do {
         let peer_idx = fwd_peer_idx (far_forward (elts (r_far active) ! p));
         peer \<leftarrow> g_peers g peer_idx;
         let em = \<lparr>em_far_id = i, em_fib_index = p_encap_fib_index peer, em_dpoi_index = peer_dpoi_index lib peer_idx\<rparr>;
         Some (put_session si (put_rules PFCP_PENDING
           (pending\<lparr>r_send_end_marker := r_send_end_marker pending @ [em]\<rparr>) sx) g)
       }
   }"

section \<open>Linked usage reporting rules\<close>

text \<open>Rule number \<open>idx\<close> marks itself in the rules it is linked to, which are found by the lower half of
  the id.\<close>

definition link_urr :: "nat \<Rightarrow> u32 \<Rightarrow> rules_t \<Rightarrow> rules_t" where
  "link_urr idx i r =
     (case pfcp_get_urr_by_id r (ucast i) of
        None \<Rightarrow> r
      | Some l \<Rightarrow> r\<lparr>r_urr := map_option (\<lambda>v. v[l := (v ! l)\<lparr>urr_liusa_bitmap := List.insert idx (urr_liusa_bitmap (v ! l))\<rparr>]) (r_urr r)\<rparr>)"

definition build_urr_link_map :: "rules_t \<Rightarrow> rules_t" where
  "build_urr_link_map pending =
     fold (\<lambda>idx r. fold (link_urr idx) (urr_linked_urr_ids (elts (r_urr r) ! idx)) r)
       [0..<length (elts (r_urr pending))] pending"

section \<open>Applying the pending rules\<close>

text \<open>The detection rules: they are compiled, or all that was compiled before is taken over.\<close>

definition apply_pdrs ::
    "'v session_lib_scheme \<Rightarrow> upf_main_t \<Rightarrow> rules_t \<times> rules_t \<Rightarrow> (rules_t \<times> rules_t) option" where
  "apply_pdrs lib g = (\<lambda>(pending, active).
     if r_pdr pending \<noteq> None then do {
       pending \<leftarrow> build_pfcp_rules lib
         \<lparr>env_nwi_sw_if_index = g_nwi_sw_if_index g, env_tdf_ul_table = g_tdf_ul_table g\<rparr> pending;
       Some (pending, active)
     }
     else Some
       (pending\<lparr>r_pdr := r_pdr active, r_proxy_precedence := r_proxy_precedence active,
          r_proxy_pdr_idx := r_proxy_pdr_idx active, r_ue_src_ip := r_ue_src_ip active,
          r_ue_dst_ip := r_ue_dst_ip active, r_v4_teid := r_v4_teid active,
          r_v6_teid := r_v6_teid active, r_v4_acls := r_v4_acls active, r_v6_acls := r_v6_acls active,
          r_flags := r_flags active\<rparr>,
        active\<lparr>r_ue_src_ip := [], r_ue_dst_ip := [], r_v4_teid := [], r_v6_teid := [],
          r_v4_acls := [], r_v6_acls := []\<rparr>))"

text \<open>A forwarding rule that creates a header refers to a peer and adds its TEID to the tunnels.\<close>

definition apply_far ::
    "'v session_lib_scheme \<Rightarrow> upf_far_t \<Rightarrow> rules_t \<times> upf_main_t \<Rightarrow> (upf_far_t \<times> rules_t \<times> upf_main_t) option" where
  "apply_far lib far = (\<lambda>(pending, g).
     let fwd = far_forward far; ohc = fwd_outer_header_creation fwd in
     if ohc_description ohc = 0 then Some (far, pending, g)
     else do {
       (peer_idx, g) \<leftarrow> peer_addr_ref lib fwd g;
       let pending =
         (if ohc_description ohc AND BIT 0 \<noteq> 0
          then pending\<lparr>r_v4_teid := rules_add_v4_teid (ucast (ohc_ip ohc)) (ohc_teid ohc) (unat (far_id far)) (r_v4_teid pending)\<rparr>
          else if ohc_description ohc AND BIT 1 \<noteq> 0
          then pending\<lparr>r_v6_teid := rules_add_v6_teid (ohc_ip ohc) (ohc_teid ohc) (unat (far_id far)) (r_v6_teid pending)\<rparr>
          else pending);
       Some (far\<lparr>far_forward := fwd\<lparr>fwd_peer_idx := peer_idx\<rparr>\<rparr>, pending, g)
     })"

definition apply_fars ::
    "'v session_lib_scheme \<Rightarrow> rules_t \<Rightarrow> rules_t \<Rightarrow> upf_main_t \<Rightarrow> (rules_t \<times> upf_main_t) option" where
  "apply_fars lib active pending g =
     (case r_far pending of
        None \<Rightarrow> Some (pending\<lparr>r_far := r_far active\<rparr>, g)
      | Some fars \<Rightarrow> do {
          (fars, pending, g) \<leftarrow> foreach_upd (apply_far lib) fars (pending, g);
          Some (pending\<lparr>r_far := Some fars\<rparr>, g)
        })"

definition apply_qers ::
    "'v session_lib_scheme \<Rightarrow> rules_t \<Rightarrow> rules_t \<Rightarrow> upf_main_t \<Rightarrow> (rules_t \<times> upf_main_t) option" where
  "apply_qers lib active pending g =
     (case r_qer pending of
        None \<Rightarrow> Some (pending\<lparr>r_qer := r_qer active\<rparr>, g)
      | Some qers \<Rightarrow> do {
          (qers, g) \<leftarrow> foreach_upd (attach_qer_policer lib) qers g;
          Some (pending\<lparr>r_qer := Some qers\<rparr>, g)
        })"

text \<open>The tunnels and routes that changed, if the detection rules did.\<close>

definition apply_diffs ::
    "'v session_lib_scheme \<Rightarrow> nat \<Rightarrow> rules_t \<times> rules_t \<Rightarrow> upf_main_t \<Rightarrow> (rules_t \<times> rules_t) \<times> upf_main_t" where
  "apply_diffs lib si = (\<lambda>(pending, active) g.
     let (n1, o1, g) = vec_diff (sort_ue_ip lib) ip46_address_fib_cmp (pfcp_add_del_ue_ip lib si)
                         (r_ue_dst_ip pending) (r_ue_dst_ip active) g;
         (n2, o2, g) = vec_diff (sort_v4_teid lib) v4_teid_cmp (pfcp_add_del_v4_teid si)
                         (r_v4_teid pending) (r_v4_teid active) g;
         (n3, o3, g) = vec_diff (sort_v6_teid lib) v6_teid_cmp (pfcp_add_del_v6_teid si)
                         (r_v6_teid pending) (r_v6_teid active) g;
         (n4, o4, g) = vec_diff (sort_ue_ip lib) ip46_address_fib_cmp (pfcp_add_del_ue_ip lib si)
                         (r_ue_src_ip pending) (r_ue_src_ip active) g;
         (n5, o5, g) = vec_diff (sort_acl lib) upf_acl_cmp (pfcp_add_del_v4_tdf lib si)
                         (r_v4_acls pending) (r_v4_acls active) g;
         (n6, o6, g) = vec_diff (sort_acl lib) upf_acl_cmp (pfcp_add_del_v6_tdf lib si)
                         (r_v6_acls pending) (r_v6_acls active) g in
     ((pending\<lparr>r_ue_dst_ip := n1, r_v4_teid := n2, r_v6_teid := n3, r_ue_src_ip := n4, r_v4_acls := n5,
               r_v6_acls := n6\<rparr>,
       active\<lparr>r_ue_dst_ip := o1, r_v4_teid := o2, r_v6_teid := o3, r_ue_src_ip := o4, r_v4_acls := o5,
              r_v6_acls := o6\<rparr>), g))"

text \<open>From here on the sets have changed their roles: \<open>old\<close> is the former active set.\<close>

definition apply_inactivity ::
    "'v session_lib_scheme \<Rightarrow> nat \<Rightarrow> int \<Rightarrow> rules_t \<times> rules_t \<Rightarrow> upf_main_t \<Rightarrow> (rules_t \<times> rules_t) \<times> upf_main_t" where
  "apply_inactivity lib si last_ul = (\<lambda>(active, old) g.
     let (t_old, g) = (if t_handle (r_inactivity_timer active) \<noteq> t_handle (r_inactivity_timer old)
                       then upf_pfcp_session_stop_up_inactivity_timer (r_inactivity_timer old) g
                       else (r_inactivity_timer old, g));
         (t_new, g) = upf_pfcp_session_start_up_inactivity_timer lib si last_ul (r_inactivity_timer active) g in
     ((active\<lparr>r_inactivity_timer := t_new\<rparr>, old\<lparr>r_inactivity_timer := t_old\<rparr>), g))"

definition unref_far :: "'v session_lib_scheme \<Rightarrow> upf_far_t \<Rightarrow> upf_main_t \<Rightarrow> upf_main_t option" where
  "unref_far lib far g =
     (if ohc_description (fwd_outer_header_creation (far_forward far)) \<noteq> 0
      then peer_addr_unref lib (far_forward far) g else Some g)"

definition send_em :: "rules_t \<Rightarrow> send_end_marker_t \<Rightarrow> upf_main_t \<Rightarrow> upf_main_t" where
  "send_em old em g =
     (case pfcp_get_far_by_id old (em_far_id em) of
        None \<Rightarrow> g
      | Some i \<Rightarrow>
          let fwd = far_forward (elts (r_far old) ! i);
              is_ip4 = (ohc_description (fwd_outer_header_creation fwd) AND OUTER_HEADER_CREATION_ANY_IP4 \<noteq> 0) in
          g\<lparr>g_end_markers := g_end_markers g @ [(em_fib_index em, em_dpoi_index em, fwd_rewrite fwd, is_ip4)]\<rparr>)"

abbreviation (input) "PFCP_URR_UPDATE_VOLUME_QUOTA \<equiv> BIT 0 :: u8"
abbreviation (input) "PFCP_URR_UPDATE_TIME_QUOTA \<equiv> BIT 1 :: u8"
abbreviation (input) "PFCP_URR_UPDATE_TIME_THRESHOLD \<equiv> BIT 2 :: u8"
abbreviation (input) "PFCP_URR_UPDATE_MEASUREMENT_PERIOD \<equiv> BIT 4 :: u8"
abbreviation (input) "PFCP_URR_UPDATE_QUOTA_VALIDITY_TIME \<equiv> BIT 5 :: u8"
abbreviation (input) "REPORTING_TRIGGER_PERIODIC_REPORTING \<equiv> BIT 0 :: u16"
abbreviation (input) "REPORTING_TRIGGER_TIME_THRESHOLD \<equiv> BIT 2 :: u16"
abbreviation (input) "REPORTING_TRIGGER_START_OF_TRAFFIC \<equiv> BIT 4 :: u16"
abbreviation (input) "REPORTING_TRIGGER_TIME_QUOTA \<equiv> BIT 9 :: u16"
abbreviation (input) "REPORTING_TRIGGER_QUOTA_VALIDITY_TIME \<equiv> BIT 15 :: u16"

definition start_urr_timers :: "'v session_lib_scheme \<Rightarrow> nat \<Rightarrow> upf_urr_t \<Rightarrow> upf_main_t \<Rightarrow> upf_urr_t \<times> upf_main_t" where
  "start_urr_timers lib si urr g =
     (let flags = urr_update_flags urr; triggers = urr_triggers urr;
          (urr, g) =
            (if flags AND PFCP_URR_UPDATE_MEASUREMENT_PERIOD \<noteq> 0 then
               let (t, g) = upf_pfcp_session_start_stop_urr_time lib si
                              (triggers AND REPORTING_TRIGGER_PERIODIC_REPORTING \<noteq> 0) (urr_measurement_period urr) g in
               (urr\<lparr>urr_measurement_period := t\<rparr>, g)
             else (urr, g));
          (urr, g) =
            (if urr_methods urr AND PFCP_URR_TIME \<noteq> 0 \<and> flags AND PFCP_URR_UPDATE_TIME_THRESHOLD \<noteq> 0 then
               let (t, g) = upf_pfcp_session_start_stop_urr_time lib si
                              (triggers AND REPORTING_TRIGGER_TIME_THRESHOLD \<noteq> 0) (urr_time_threshold urr) g in
               (urr\<lparr>urr_time_threshold := t\<rparr>, g)
             else (urr, g));
          (urr, g) =
            (if urr_methods urr AND PFCP_URR_TIME \<noteq> 0 \<and> flags AND PFCP_URR_UPDATE_TIME_QUOTA \<noteq> 0 then
               let base = (if t_base (urr_time_threshold urr) \<noteq> 0 then t_base (urr_time_threshold urr) else g_now g);
                   (t, g) = upf_pfcp_session_start_stop_urr_time lib si
                              (triggers AND REPORTING_TRIGGER_TIME_QUOTA \<noteq> 0) ((urr_time_quota urr)\<lparr>t_base := base\<rparr>) g in
               (urr\<lparr>urr_time_quota := t\<rparr>, g)
             else (urr, g)) in
      if flags AND PFCP_URR_UPDATE_QUOTA_VALIDITY_TIME \<noteq> 0 then
        let (t, g) = upf_pfcp_session_start_stop_urr_time lib si
                       (triggers AND REPORTING_TRIGGER_QUOTA_VALIDITY_TIME \<noteq> 0)
                       ((urr_quota_validity_time urr)\<lparr>t_base := g_now g\<rparr>) g in
        (urr\<lparr>urr_quota_validity_time := t\<rparr>, g)
      else (urr, g))"

definition combine_volume :: "urr_counter_t \<Rightarrow> urr_counter_t \<Rightarrow> urr_counter_t" where
  "combine_volume dst src = \<lparr>c_ul = c_ul dst + c_ul src, c_dl = c_dl dst + c_dl src, c_total = c_total dst + c_total src\<rparr>"

text \<open>What a rule of the old set has measured is added to the rule that replaces it.\<close>

definition combine_urr :: "upf_urr_t \<Rightarrow> upf_urr_t \<Rightarrow> upf_urr_t" where
  "combine_urr urr new_urr =
     (let m_old = v_measure (urr_volume urr); m_new = v_measure (urr_volume new_urr);
          bytes = combine_volume (m_bytes m_new) (m_bytes m_old);
          m = \<lparr>m_packets = combine_volume (m_packets m_new) (m_packets m_old), m_bytes = bytes,
               m_consumed = (if urr_update_flags new_urr AND PFCP_URR_UPDATE_VOLUME_QUOTA \<noteq> 0 then bytes
                             else combine_volume (m_consumed m_new) (m_consumed m_old))\<rparr>;
          new_urr = new_urr\<lparr>urr_traffic := urr_traffic urr\<rparr> in
      if urr_methods new_urr AND PFCP_URR_VOLUME \<noteq> 0
      then new_urr\<lparr>urr_volume := (urr_volume new_urr)\<lparr>v_measure := m\<rparr>\<rparr> else new_urr)"

definition carry_urr :: "upf_urr_t \<Rightarrow> rules_t \<times> upf_main_t \<Rightarrow> (upf_urr_t \<times> rules_t \<times> upf_main_t) option" where
  "carry_urr urr = (\<lambda>(active, g).
     case pfcp_get_urr_by_id active (urr_id urr) of
       None \<Rightarrow> let (urr, g) = stop_urr_timers (g_now g) urr g in Some (urr, active, g)
     | Some i \<Rightarrow> Some (urr\<lparr>urr_traffic := Map.empty\<rparr>,
                       active\<lparr>r_urr := map_option (\<lambda>v. v[i := combine_urr urr (v ! i)]) (r_urr active)\<rparr>, g))"

text \<open>
  What follows once the sets have changed their roles; the arguments after the session say which kinds of
  rules were pending. The result is the active and the old set.
\<close>

definition after_switch ::
    "'v session_lib_scheme \<Rightarrow> nat \<Rightarrow> bool \<Rightarrow> bool \<Rightarrow> bool \<Rightarrow> bool \<Rightarrow> int \<Rightarrow> rules_t \<times> rules_t \<Rightarrow> upf_main_t
       \<Rightarrow> (rules_t \<times> rules_t \<times> upf_main_t) option" where
  "after_switch lib si pending_pdr pending_far pending_urr pending_qer last_ul sets g = do {
     let ((active, old), g) = apply_inactivity lib si last_ul sets g;
     g \<leftarrow> (if pending_far then foreach (unref_far lib) (elts (r_far old)) g else Some g);
     let g = fold (send_em old) (r_send_end_marker active) g;
     (urrs, g) \<leftarrow> foreach_upd (\<lambda>urr g. Some (start_urr_timers lib si urr g)) (elts (r_urr active)) g;
     let active = active\<lparr>r_send_end_marker := [], r_urr := map_option (\<lambda>_. urrs) (r_urr active)\<rparr>;
     let old = old\<lparr>r_pdr := (if pending_pdr then r_pdr old else None),
                   r_far := (if pending_far then r_far old else None),
                   r_qer := (if pending_qer then r_qer old else None)\<rparr>;
     if pending_urr then do {
       (urrs, active, g) \<leftarrow> foreach_upd carry_urr (elts (r_urr old)) (active, g);
       Some (active, old\<lparr>r_urr := map_option (\<lambda>_. urrs) (r_urr old)\<rparr>, g)
     }
     else Some (active, old\<lparr>r_urr := None\<rparr>, g)
   }"

text \<open>The function returns 0; the result is the state with the session updated.\<close>

definition pfcp_update_apply :: "'v session_lib_scheme \<Rightarrow> nat \<Rightarrow> upf_main_t \<Rightarrow> upf_main_t option" where
  "pfcp_update_apply lib si g = do {
     sx \<leftarrow> g_sessions g si;
     let pending = pfcp_get_rules sx PFCP_PENDING;
     let active = pfcp_get_rules sx PFCP_ACTIVE;
     let pending_pdr = (r_pdr pending \<noteq> None);
     let pending_far = (r_far pending \<noteq> None);
     let pending_urr = (r_urr pending \<noteq> None);
     let pending_qer = (r_qer pending \<noteq> None);
     if \<not> pending_pdr \<and> \<not> pending_far \<and> \<not> pending_urr \<and> \<not> pending_qer then Some g
     else do {
       (pending, active) \<leftarrow> apply_pdrs lib g (pending, active);
       (pending, g) \<leftarrow> apply_fars lib active pending g;
       let pending = (if pending_urr then build_urr_link_map pending else pending\<lparr>r_urr := r_urr active\<rparr>);
       (pending, g) \<leftarrow> apply_qers lib active pending g;
       let (sets, g) = (if pending_pdr then apply_diffs lib si (pending, active) g else ((pending, active), g));
       (active, old, g) \<leftarrow> after_switch lib si pending_pdr pending_far pending_urr pending_qer
                             (s_last_ul_traffic sx) sets g;
       let sx = sx\<lparr>s_active := \<not> s_active sx, s_flags := s_flags sx AND NOT PFCP_UPDATING\<rparr>;
       Some (put_session si (put_rules PFCP_ACTIVE active (put_rules PFCP_PENDING old sx)) g)
     }
   }"

definition pfcp_update_finish :: "nat \<Rightarrow> upf_main_t \<Rightarrow> upf_main_t option" where
  "pfcp_update_finish si g = pfcp_free_rules si PFCP_PENDING g"

end
