(* ===== verification/Upf_Usage.thy ===== *)
theory Upf_Usage
  imports Upf_Update
begin

text \<open>
  Usage reporting and QoS enforcement of the data path: \<^verbatim>\<open>process_urrs\<close> and \<^verbatim>\<open>process_qers\<close> of
  \<^verbatim>\<open>src/upf/upf_pfcp.c\<close>. Counters are 64-bit words that wrap around.
\<close>

section \<open>Definitions\<close>

datatype upf_forward_next = UPF_FORWARD_NEXT_DROP | UPF_FORWARD_NEXT_GTP_IP4_ENCAP
  | UPF_FORWARD_NEXT_GTP_IP6_ENCAP | UPF_FORWARD_NEXT_IP_INPUT

abbreviation (input) "URR_OK \<equiv> 0 :: u8"
abbreviation (input) "URR_QUOTA_EXHAUSTED \<equiv> BIT 0 :: u8"
abbreviation (input) "URR_THRESHOLD_REACHED \<equiv> BIT 1 :: u8"
abbreviation (input) "URR_START_OF_TRAFFIC \<equiv> BIT 2 :: u8"
abbreviation (input) "URR_DROP_SESSION \<equiv> BIT 3 :: u8"

text \<open>The result and the new values of packets, bytes and consumed bytes.\<close>

definition urr_increment_and_check_counter ::
    "u64 \<Rightarrow> u64 \<Rightarrow> u64 \<Rightarrow> u64 \<Rightarrow> u64 \<Rightarrow> u64 \<Rightarrow> u8 \<times> u64 \<times> u64 \<times> u64" where
  "urr_increment_and_check_counter packets bytes consumed threshold quota n_bytes =
     (let r = (if quota \<noteq> 0 \<and> consumed < quota \<and> consumed + n_bytes \<ge> quota
               then URR_OK OR URR_QUOTA_EXHAUSTED else URR_OK);
          r = (if threshold \<noteq> 0 \<and> bytes < threshold \<and> bytes + n_bytes \<ge> threshold
               then r OR URR_THRESHOLD_REACHED else r) in
      (r, packets + 1, bytes + n_bytes, consumed + n_bytes))"

text \<open>The member \<^verbatim>\<open>ul\<close>, \<^verbatim>\<open>dl\<close> or \<^verbatim>\<open>total\<close> of the counters.\<close>

datatype counter_member = UL | DL | TOTAL

fun c_get :: "counter_member \<Rightarrow> urr_counter_t \<Rightarrow> u64" where
  "c_get UL c = c_ul c"
| "c_get DL c = c_dl c"
| "c_get TOTAL c = c_total c"

fun c_put :: "counter_member \<Rightarrow> u64 \<Rightarrow> urr_counter_t \<Rightarrow> urr_counter_t" where
  "c_put UL v c = c\<lparr>c_ul := v\<rparr>"
| "c_put DL v c = c\<lparr>c_dl := v\<rparr>"
| "c_put TOTAL v c = c\<lparr>c_total := v\<rparr>"

definition urr_incr_and_check :: "counter_member \<Rightarrow> u64 \<Rightarrow> urr_volume_t \<Rightarrow> u8 \<times> urr_volume_t" where
  "urr_incr_and_check d len v =
     (let m = v_measure v;
          (r, p, b, c) = urr_increment_and_check_counter (c_get d (m_packets m)) (c_get d (m_bytes m))
             (c_get d (m_consumed m)) (c_get d (v_threshold v)) (c_get d (v_quota v)) len in
      (r, v\<lparr>v_measure := m\<lparr>m_packets := c_put d p (m_packets m), m_bytes := c_put d b (m_bytes m),
                           m_consumed := c_put d c (m_consumed m)\<rparr>\<rparr>))"

text \<open>A packet: its length and the addresses of its IP header.\<close>

record urr_packet =
  pk_len :: u64
  pk_src :: ip46_address
  pk_dst :: ip46_address

definition split_at_monitoring_time :: "int \<Rightarrow> upf_urr_t \<Rightarrow> upf_urr_t" where
  "split_at_monitoring_time now urr =
     (let v = urr_volume urr; m = v_measure v in
      urr\<lparr>urr_usage_before_monitoring_time :=
            \<lparr>ub_start_time = urr_start_time urr, ub_time_of_first_packet = urr_time_of_first_packet urr,
             ub_time_of_last_packet = urr_time_of_last_packet urr, ub_volume = m\<rparr>,
          urr_volume := v\<lparr>v_measure := m\<lparr>m_packets := zero_counter, m_bytes := zero_counter\<rparr>\<rparr>,
          urr_start_time := abs_unix_time (urr_monitoring_time urr),
          urr_time_of_first_packet := At now,
          urr_monitoring_time := (urr_monitoring_time urr)\<lparr>abs_vlib_time := INFINITY\<rparr>,
          urr_status := urr_status urr OR URR_AFTER_MONITORING_TIME\<rparr>)"

definition measure_volume :: "bool \<Rightarrow> bool \<Rightarrow> u64 \<Rightarrow> upf_urr_t \<Rightarrow> u8 \<times> upf_urr_t" where
  "measure_volume is_ul is_dl len urr =
     (if urr_methods urr AND PFCP_URR_VOLUME = 0 then (URR_OK, urr)
      else
        let (r1, v) = (if is_ul then urr_incr_and_check UL len (urr_volume urr) else (URR_OK, urr_volume urr));
            (r2, v) = (if is_dl then urr_incr_and_check DL len v else (URR_OK, v));
            (r3, v) = urr_incr_and_check TOTAL len v;
            r = r1 OR r2 OR r3 in
        (r, urr\<lparr>urr_volume := v,
                urr_status := (if r AND URR_QUOTA_EXHAUSTED \<noteq> 0 then urr_status urr OR URR_OVER_QUOTA
                               else urr_status urr)\<rparr>))"

text \<open>The address of the user equipment is taken from the packet for the first rule that needs it; the
  events are pairs of the id of the rule and the trigger.\<close>

definition ue_address :: "bool \<Rightarrow> bool \<Rightarrow> urr_packet \<Rightarrow> ip46_address \<Rightarrow> ip46_address" where
  "ue_address is_ul is_dl pk ip =
     (if ip \<noteq> 0 then ip else if is_ul then pk_src pk else if is_dl then pk_dst pk else ip)"

definition detect_start_of_traffic ::
    "bool \<Rightarrow> bool \<Rightarrow> int \<Rightarrow> urr_packet \<Rightarrow> ip46_address \<Rightarrow> upf_urr_t \<Rightarrow> u8 \<times> ip46_address \<times> (u32 \<times> u8) list \<times> upf_urr_t" where
  "detect_start_of_traffic is_ul is_dl now pk ip urr =
     (if urr_methods urr AND PFCP_URR_EVENT = 0 \<or> urr_triggers urr AND REPORTING_TRIGGER_START_OF_TRAFFIC = 0
      then (URR_OK, ip, [], urr)
      else
        let ip = ue_address is_ul is_dl pk ip;
            seen = (URR_START_OF_TRAFFIC, ip, [(ucast (urr_id urr), URR_START_OF_TRAFFIC)],
                    urr\<lparr>urr_traffic := (urr_traffic urr)(ip \<mapsto> now)\<rparr>) in
        case urr_traffic urr ip of
          None \<Rightarrow> seen
        | Some first_seen \<Rightarrow> if first_seen + 1000 < now then seen else (URR_OK, ip, [], urr))"

text \<open>The state of the loop over the rules: the active rules, the status, the address, the events, and the
  next node.\<close>

record urr_loop =
  ul_active :: rules_t
  ul_status :: u8
  ul_ip :: ip46_address
  ul_events :: "(u32 \<times> u8) list"
  ul_next :: upf_forward_next

definition process_urr :: "bool \<Rightarrow> bool \<Rightarrow> int \<Rightarrow> urr_packet \<Rightarrow> upf_urr_t \<Rightarrow> urr_loop \<Rightarrow> upf_urr_t \<times> urr_loop" where
  "process_urr is_ul is_dl now pk urr st =
     (let urr = urr\<lparr>urr_time_of_first_packet :=
                  (if urr_time_of_first_packet urr = INFINITY then At now else urr_time_of_first_packet urr),
                urr_time_of_last_packet := At now\<rparr>;
          (r, urr) = measure_volume is_ul is_dl (pk_len pk) urr;
          (s, ip, evs, urr) = detect_start_of_traffic is_ul is_dl now pk (ul_ip st) urr in
      (urr, st\<lparr>ul_status := ul_status st OR s OR r, ul_ip := ip, ul_events := ul_events st @ evs,
               ul_next := (if urr_status urr AND URR_OVER_QUOTA \<noteq> 0 then UPF_FORWARD_NEXT_DROP else ul_next st)\<rparr>))"

fun process_urrs_loop :: "bool \<Rightarrow> bool \<Rightarrow> int \<Rightarrow> urr_packet \<Rightarrow> u16 list \<Rightarrow> urr_loop \<Rightarrow> urr_loop" where
  "process_urrs_loop is_ul is_dl now pk [] st = st"
| "process_urrs_loop is_ul is_dl now pk (i # ids) st =
     (case pfcp_get_urr_by_id (ul_active st) i of
        None \<Rightarrow> process_urrs_loop is_ul is_dl now pk ids st
      | Some k \<Rightarrow>
          let urr = elts (r_urr (ul_active st)) ! k in
          if before (abs_vlib_time (urr_monitoring_time urr)) now
             \<and> urr_status urr AND URR_AFTER_MONITORING_TIME \<noteq> 0
          then st\<lparr>ul_status := ul_status st OR URR_DROP_SESSION\<rparr>
          else
            let urr = (if before (abs_vlib_time (urr_monitoring_time urr)) now
                       then split_at_monitoring_time now urr else urr);
                (urr, st) = process_urr is_ul is_dl now pk urr st in
            process_urrs_loop is_ul is_dl now pk ids
              (st\<lparr>ul_active := (ul_active st)\<lparr>r_urr := map_option (\<lambda>v. v[k := urr]) (r_urr (ul_active st))\<rparr>\<rparr>))"

text \<open>The report to the control plane: if there are no events, the vector is made to have one element,
  which is zero.\<close>

record urr_report =
  rep_ue :: ip46_address
  rep_status :: u8
  rep_events :: "(u32 \<times> u8) list"

text \<open>The results are the next node, the active rules, the time of the last uplink packet and the report.\<close>

definition process_urrs ::
    "int \<Rightarrow> rules_t \<Rightarrow> upf_pdr_t \<Rightarrow> urr_packet \<Rightarrow> bool \<Rightarrow> bool \<Rightarrow> upf_forward_next \<Rightarrow> int
       \<Rightarrow> upf_forward_next \<times> rules_t \<times> int \<times> urr_report option" where
  "process_urrs now active pdr pk is_dl is_ul next last_ul_traffic =
     (let st = process_urrs_loop is_ul is_dl now pk (pdr_urr_ids pdr)
                 \<lparr>ul_active = active, ul_status = URR_OK, ul_ip = 0, ul_events = [], ul_next = next\<rparr> in
      (ul_next st, ul_active st, if is_ul then now else last_ul_traffic,
       if ul_status st = URR_OK then None
       else Some \<lparr>rep_ue = ul_ip st, rep_status = ul_status st,
                  rep_events = (if ul_events st = [] then [(0, 0)] else ul_events st)\<rparr>))"

text \<open>The policers of VPP are called with the length of the packet; what they answer is not used. A call is
  recorded as the index of the policer and whether it is the one for downlink.\<close>

fun process_qers_loop ::
    "bool \<Rightarrow> rules_t \<Rightarrow> u32 list \<Rightarrow> upf_forward_next \<Rightarrow> upf_forward_next \<times> (nat \<times> bool) list" where
  "process_qers_loop is_dl r [] next = (next, [])"
| "process_qers_loop is_dl r (i # ids) next =
     (case pfcp_get_qer_by_id r i of
        None \<Rightarrow> process_qers_loop is_dl r ids next
      | Some k \<Rightarrow>
          let qer = elts (r_qer r) ! k in
          if qer_flags qer AND PFCP_QER_MBR = 0 then process_qers_loop is_dl r ids next
          else if dir_get (qer_gate_status qer) is_dl \<noteq> 0 then (UPF_FORWARD_NEXT_DROP, [])
          else let (next, calls) = process_qers_loop is_dl r ids next in
               (next, (unat (qer_policer_value qer), is_dl) # calls))"

definition process_qers ::
    "rules_t \<Rightarrow> upf_pdr_t \<Rightarrow> bool \<Rightarrow> bool \<Rightarrow> upf_forward_next \<Rightarrow> upf_forward_next \<times> (nat \<times> bool) list" where
  "process_qers r pdr is_dl is_ul next =
     (if is_ul = is_dl then (next, [])
      else process_qers_loop is_dl r (pdr_qer_ids pdr) next)"

end
