(* ===== verification/Upf_Report.thy ===== *)
theory Upf_Report
  imports Upf_Update Upf_Usage
begin

text \<open>
  Usage reports: the functions of \<^verbatim>\<open>src/upf/upf_pfcp_api.c\<close> and \<^verbatim>\<open>upf_pfcp_api.h\<close> that build them, and those of
  \<^verbatim>\<open>src/upf/upf_pfcp_server.c\<close> that send them after an event of the data path, when a timer expires and when the
  session is deleted by this side.

  Times are counted in ticks of 10 ms. The conversion of a time to a number of seconds is undefined in C for
  an infinite or negative time, and its result is \<open>None\<close> here. A bitmap is the list of the numbers in it. A request to the
  control plane is the result of the function that sends it.
\<close>

section \<open>What is to be reported\<close>

record upf_usage_report_ev_t =
  ev_triggers :: u32
  ev_now :: int

record upf_usage_report_t =
  rp_events :: "upf_usage_report_ev_t list"
  rp_liusa_bitmap :: "nat list"

definition upf_usage_report_init :: "nat \<Rightarrow> upf_usage_report_t" where
  "upf_usage_report_init n_urrs =
     \<lparr>rp_events = replicate n_urrs \<lparr>ev_triggers = 0, ev_now = 0\<rparr>, rp_liusa_bitmap = []\<rparr>"

definition upf_usage_report_set :: "u32 \<Rightarrow> int \<Rightarrow> upf_usage_report_t \<Rightarrow> upf_usage_report_t" where
  "upf_usage_report_set triggers now report =
     report\<lparr>rp_events := map (\<lambda>_. \<lparr>ev_triggers = triggers, ev_now = now\<rparr>) (rp_events report)\<rparr>"

text \<open>The index is that of a rule, of which there are as many as events.\<close>

definition upf_usage_report_trigger ::
    "nat \<Rightarrow> u32 \<Rightarrow> nat list \<Rightarrow> int \<Rightarrow> upf_usage_report_t \<Rightarrow> upf_usage_report_t" where
  "upf_usage_report_trigger idx triggers liusa_bitmap now report =
     report\<lparr>rp_events := (rp_events report)[idx := \<lparr>ev_triggers = triggers, ev_now = now\<rparr>],
            rp_liusa_bitmap := List.union liusa_bitmap (rp_liusa_bitmap report)\<rparr>"

section \<open>Reports\<close>

record pfcp_usage_report_t =
  ur_fields :: u32
  ur_urr_id :: u32
  ur_ur_seqn :: u32
  ur_usage_report_trigger :: u32
  ur_start_time :: u32
  ur_end_time :: u32
  ur_volume_measurement :: pfcp_volume_measurement
  ur_duration_measurement :: u32
  ur_ue_ip_address :: pfcp_ue_ip_address
  ur_time_of_first_packet :: u32
  ur_time_of_last_packet :: u32
  ur_usage_information :: u8
  ur_tp_now :: int
  ur_tp_start_time :: f64_time
  ur_tp_end_time :: f64_time

abbreviation (input) "USAGE_REPORT_URR_ID \<equiv> 0 :: nat"
abbreviation (input) "USAGE_REPORT_UR_SEQN \<equiv> 1 :: nat"
abbreviation (input) "USAGE_REPORT_USAGE_REPORT_TRIGGER \<equiv> 2 :: nat"
abbreviation (input) "USAGE_REPORT_START_TIME \<equiv> 3 :: nat"
abbreviation (input) "USAGE_REPORT_END_TIME \<equiv> 4 :: nat"
abbreviation (input) "USAGE_REPORT_VOLUME_MEASUREMENT \<equiv> 5 :: nat"
abbreviation (input) "USAGE_REPORT_DURATION_MEASUREMENT \<equiv> 6 :: nat"
abbreviation (input) "USAGE_REPORT_UE_IP_ADDRESS \<equiv> 8 :: nat"
abbreviation (input) "USAGE_REPORT_TIME_OF_FIRST_PACKET \<equiv> 10 :: nat"
abbreviation (input) "USAGE_REPORT_TIME_OF_LAST_PACKET \<equiv> 11 :: nat"
abbreviation (input) "USAGE_REPORT_USAGE_INFORMATION \<equiv> 12 :: nat"
abbreviation (input) "USAGE_REPORT_TP_NOW \<equiv> 16 :: nat"
abbreviation (input) "USAGE_REPORT_TP_START_TIME \<equiv> 17 :: nat"
abbreviation (input) "USAGE_REPORT_TP_END_TIME \<equiv> 18 :: nat"

abbreviation (input) "USAGE_REPORT_TRIGGER_PERIODIC_REPORTING \<equiv> BIT 0 :: u32"
abbreviation (input) "USAGE_REPORT_TRIGGER_VOLUME_THRESHOLD \<equiv> BIT 1 :: u32"
abbreviation (input) "USAGE_REPORT_TRIGGER_TIME_THRESHOLD \<equiv> BIT 2 :: u32"
abbreviation (input) "USAGE_REPORT_TRIGGER_START_OF_TRAFFIC \<equiv> BIT 4 :: u32"
abbreviation (input) "USAGE_REPORT_TRIGGER_STOP_OF_TRAFFIC \<equiv> BIT 5 :: u32"
abbreviation (input) "USAGE_REPORT_TRIGGER_IMMEDIATE_REPORT \<equiv> BIT 7 :: u32"
abbreviation (input) "USAGE_REPORT_TRIGGER_VOLUME_QUOTA \<equiv> BIT 8 :: u32"
abbreviation (input) "USAGE_REPORT_TRIGGER_TIME_QUOTA \<equiv> BIT 9 :: u32"
abbreviation (input) "USAGE_REPORT_TRIGGER_LINKED_USAGE_REPORTING \<equiv> BIT 10 :: u32"
abbreviation (input) "USAGE_REPORT_TRIGGER_TERMINATION_REPORT \<equiv> BIT 11 :: u32"
abbreviation (input) "USAGE_REPORT_TRIGGER_MONITORING_TIME \<equiv> BIT 12 :: u32"
abbreviation (input) "USAGE_REPORT_TRIGGER_TERMINATION_BY_UP_FUNCTION_REPORT \<equiv> BIT 17 :: u32"
abbreviation (input) "USAGE_REPORT_TRIGGER_QUOTA_VALIDITY_TIME \<equiv> BIT 19 :: u32"

abbreviation (input) "USAGE_INFORMATION_BEFORE \<equiv> BIT 0 :: u8"
abbreviation (input) "USAGE_INFORMATION_AFTER \<equiv> BIT 1 :: u8"
abbreviation (input) "PFCP_VOLUME_ALL \<equiv> 63 :: u8"

definition zero_report :: pfcp_usage_report_t where
  "zero_report = \<lparr>ur_fields = 0, ur_urr_id = 0, ur_ur_seqn = 0, ur_usage_report_trigger = 0, ur_start_time = 0,
     ur_end_time = 0, ur_volume_measurement = \<lparr>vm_fields = 0, vm_volume_total = 0, vm_volume_ul = 0, vm_volume_dl = 0,
       vm_packets_total = 0, vm_packets_ul = 0, vm_packets_dl = 0\<rparr>,
     ur_duration_measurement = 0, ur_ue_ip_address = \<lparr>ue_flags = 0, ue_ip4 = 0, ue_ip6 = 0,
       ue_prefix_delegation_length = 0, ue_prefix_length = 0\<rparr>,
     ur_time_of_first_packet = 0, ur_time_of_last_packet = 0, ur_usage_information = 0, ur_tp_now = 0,
     ur_tp_start_time = At 0, ur_tp_end_time = At 0\<rparr>"

definition init_usage_report :: "upf_urr_t \<Rightarrow> u32 \<Rightarrow> pfcp_usage_report_t \<times> upf_urr_t" where
  "init_usage_report urr trigger =
     (zero_report\<lparr>ur_fields := SET_BIT (SET_BIT (SET_BIT 0 USAGE_REPORT_URR_ID) USAGE_REPORT_UR_SEQN)
                                USAGE_REPORT_USAGE_REPORT_TRIGGER,
        ur_urr_id := ucast (urr_id urr), ur_ur_seqn := urr_seq_no urr, ur_usage_report_trigger := trigger\<rparr>,
      urr\<lparr>urr_seq_no := urr_seq_no urr + 1\<rparr>)"

text \<open>\<^verbatim>\<open>trunc\<close> of a time, converted to an integer.\<close>

fun seconds :: "f64_time \<Rightarrow> nat option" where
  "seconds (At t) = (if t \<ge> 0 then Some (nat (t div 100)) else None)"
| "seconds INFINITY = None"

definition duration_between :: "nat \<Rightarrow> nat \<Rightarrow> nat option" where
  "duration_between start until = (if start \<le> until then Some (until - start) else None)"

text \<open>The time of a packet, which is kept as a time of the clock of VPP, if there was one.\<close>

fun packet_time :: "int \<Rightarrow> int \<Rightarrow> f64_time \<Rightarrow> nat option" where
  "packet_time now vnow (At t) = seconds (At (now - (vnow - t)))"
| "packet_time now vnow INFINITY = None"

definition report_times ::
    "int \<Rightarrow> int \<Rightarrow> nat \<Rightarrow> nat \<Rightarrow> f64_time \<Rightarrow> f64_time \<Rightarrow> f64_time \<Rightarrow> f64_time \<Rightarrow> pfcp_usage_report_t \<Rightarrow> pfcp_usage_report_t option" where
  "report_times now vnow start duration first latest tp_start tp_end r = do {
     let r = r\<lparr>ur_fields := SET_BIT (SET_BIT (ur_fields r) USAGE_REPORT_START_TIME) USAGE_REPORT_END_TIME,
               ur_start_time := of_nat start, ur_end_time := of_nat start + of_nat duration\<rparr>;
     r \<leftarrow> (if first = INFINITY then Some r
           else do {
             t \<leftarrow> packet_time now vnow first;
             let r = r\<lparr>ur_fields := SET_BIT (ur_fields r) USAGE_REPORT_TIME_OF_FIRST_PACKET,
                       ur_time_of_first_packet := of_nat t\<rparr>;
             if latest = INFINITY then Some r
             else do {
               t \<leftarrow> packet_time now vnow latest;
               Some (r\<lparr>ur_fields := SET_BIT (ur_fields r) USAGE_REPORT_TIME_OF_LAST_PACKET,
                       ur_time_of_last_packet := of_nat t\<rparr>)
             }
           });
     Some (r\<lparr>ur_fields := SET_BIT (SET_BIT (SET_BIT (ur_fields r) USAGE_REPORT_TP_NOW) USAGE_REPORT_TP_START_TIME)
                            USAGE_REPORT_TP_END_TIME,
             ur_tp_now := now, ur_tp_start_time := tp_start, ur_tp_end_time := tp_end\<rparr>)
   }"

definition report_volume :: "urr_measure_t \<Rightarrow> nat \<Rightarrow> pfcp_usage_report_t \<Rightarrow> pfcp_usage_report_t" where
  "report_volume m duration r =
     r\<lparr>ur_fields := SET_BIT (SET_BIT (ur_fields r) USAGE_REPORT_VOLUME_MEASUREMENT) USAGE_REPORT_DURATION_MEASUREMENT,
       ur_volume_measurement := \<lparr>vm_fields = PFCP_VOLUME_ALL, vm_volume_total = c_total (m_bytes m),
         vm_volume_ul = c_ul (m_bytes m), vm_volume_dl = c_dl (m_bytes m), vm_packets_total = c_total (m_packets m),
         vm_packets_ul = c_ul (m_packets m), vm_packets_dl = c_dl (m_packets m)\<rparr>,
       ur_duration_measurement := of_nat duration\<rparr>"

definition traffic_trigger :: "u32 \<Rightarrow> bool" where
  "traffic_trigger trigger \<longleftrightarrow>
     trigger AND (USAGE_REPORT_TRIGGER_START_OF_TRAFFIC OR USAGE_REPORT_TRIGGER_STOP_OF_TRAFFIC) \<noteq> 0"

text \<open>The measured volume is taken out of the rule; if the monitoring time has passed since, what was measured
  becomes the usage before it. The result is the rule and what was measured after the monitoring time.\<close>

definition take_volume :: "int \<Rightarrow> upf_urr_t \<Rightarrow> upf_urr_t \<times> urr_measure_t" where
  "take_volume now urr =
     (let m = v_measure (urr_volume urr);
          zero = m\<lparr>m_packets := zero_counter, m_bytes := zero_counter\<rparr>;
          urr = urr\<lparr>urr_volume := (urr_volume urr)\<lparr>v_measure := zero\<rparr>\<rparr> in
      if urr_status urr AND URR_AFTER_MONITORING_TIME = 0
         \<and> abs_vlib_time (urr_monitoring_time urr) \<noteq> INFINITY
         \<and> before (abs_unix_time (urr_monitoring_time urr)) now
      then (urr\<lparr>urr_usage_before_monitoring_time :=
                  \<lparr>ub_start_time = urr_start_time urr, ub_time_of_first_packet = urr_time_of_first_packet urr,
                   ub_time_of_last_packet = urr_time_of_last_packet urr, ub_volume = m\<rparr>,
                urr_start_time := abs_unix_time (urr_monitoring_time urr),
                urr_time_of_first_packet := INFINITY, urr_time_of_last_packet := INFINITY,
                urr_monitoring_time := (urr_monitoring_time urr)\<lparr>abs_vlib_time := INFINITY\<rparr>,
                urr_status := urr_status urr OR URR_AFTER_MONITORING_TIME\<rparr>, zero)
      else (urr, m))"

definition report_before ::
    "int \<Rightarrow> int \<Rightarrow> u32 \<Rightarrow> upf_urr_t \<Rightarrow> (pfcp_usage_report_t \<times> upf_urr_t) option" where
  "report_before vnow now trigger urr = do {
     let (r, urr) = init_usage_report urr USAGE_REPORT_TRIGGER_MONITORING_TIME;
     let ub = urr_usage_before_monitoring_time urr;
     let r = r\<lparr>ur_fields := SET_BIT (ur_fields r) USAGE_REPORT_USAGE_INFORMATION,
               ur_usage_information := USAGE_INFORMATION_BEFORE\<rparr>;
     start \<leftarrow> seconds (ub_start_time ub);
     until \<leftarrow> seconds (urr_start_time urr);
     duration \<leftarrow> duration_between start until;
     r \<leftarrow> (if traffic_trigger trigger then Some r
           else report_times now vnow start duration (ub_time_of_first_packet ub) (ub_time_of_last_packet ub)
                  (ub_start_time ub) (urr_start_time urr) r);
     Some (report_volume (ub_volume ub) duration r, urr)
   }"

fun add_seconds :: "f64_time \<Rightarrow> nat \<Rightarrow> f64_time" where
  "add_seconds (At t) n = At (t + 100 * int n)"
| "add_seconds INFINITY n = INFINITY"

definition report_ue :: "'v session_lib_scheme \<Rightarrow> ip46_address option \<Rightarrow> u32 \<Rightarrow> pfcp_usage_report_t \<Rightarrow> pfcp_usage_report_t" where
  "report_ue lib ue trigger r =
     (case ue of
        None \<Rightarrow> r
      | Some a \<Rightarrow>
          if \<not> traffic_trigger trigger then r
          else
            let addr = ur_ue_ip_address r in
            r\<lparr>ur_fields := SET_BIT (ur_fields r) USAGE_REPORT_UE_IP_ADDRESS,
              ur_ue_ip_address := (if ip46_address_is_ip4 lib a then addr\<lparr>ue_flags := IE_UE_IP_ADDRESS_V4, ue_ip4 := ucast a\<rparr>
                                   else addr\<lparr>ue_flags := IE_UE_IP_ADDRESS_V6, ue_ip6 := a\<rparr>)\<rparr>)"

text \<open>The rule after its report.\<close>

definition restart_urr :: "nat \<Rightarrow> upf_urr_t \<Rightarrow> upf_urr_t" where
  "restart_urr duration urr =
     (let start = add_seconds (urr_start_time urr) duration; t = urr_time_threshold urr in
      urr\<lparr>urr_status := urr_status urr AND NOT URR_AFTER_MONITORING_TIME,
          urr_start_time := start,
          urr_time_threshold := (if t_base t \<noteq> 0 then (case start of At b \<Rightarrow> t\<lparr>t_base := b\<rparr> | INFINITY \<Rightarrow> t) else t),
          urr_time_of_first_packet := INFINITY, urr_time_of_last_packet := INFINITY\<rparr>)"

definition report_usage_ev ::
    "'v session_lib_scheme \<Rightarrow> int \<Rightarrow> ip46_address option \<Rightarrow> u32 \<Rightarrow> int \<Rightarrow> upf_urr_t
       \<Rightarrow> (upf_urr_t \<times> pfcp_usage_report_t list) option" where
  "report_usage_ev lib vnow ue trigger now urr = do {
     let (urr, m) = take_volume now urr;
     (before, urr) \<leftarrow> (if urr_status urr AND URR_AFTER_MONITORING_TIME \<noteq> 0
                       then do { (r, urr) \<leftarrow> report_before vnow now trigger urr; Some ([r], urr) }
                       else Some ([], urr));
     let (r, urr) = init_usage_report urr trigger;
     let r = (if urr_status urr AND URR_AFTER_MONITORING_TIME \<noteq> 0
              then r\<lparr>ur_fields := SET_BIT (ur_fields r) USAGE_REPORT_USAGE_INFORMATION,
                     ur_usage_information := USAGE_INFORMATION_AFTER\<rparr> else r);
     start \<leftarrow> seconds (urr_start_time urr);
     until \<leftarrow> seconds (At now);
     duration \<leftarrow> duration_between start until;
     r \<leftarrow> (if traffic_trigger trigger then Some r
           else report_times now vnow start duration (urr_time_of_first_packet urr) (urr_time_of_last_packet urr)
                  (urr_start_time urr) (add_seconds (urr_start_time urr) duration) r);
     let r = report_ue lib ue trigger r;
     let r = (if trigger AND USAGE_REPORT_TRIGGER_START_OF_TRAFFIC = 0 then report_volume m duration r else r);
     Some (restart_urr duration urr, before @ [r])
   }"

text \<open>The loop of \<^verbatim>\<open>upf_usage_report_build\<close> over the events, which are as many as rules.\<close>

fun build_reports ::
    "'v session_lib_scheme \<Rightarrow> int \<Rightarrow> ip46_address option \<Rightarrow> int \<Rightarrow> nat list \<Rightarrow> nat \<Rightarrow> upf_usage_report_ev_t list
       \<Rightarrow> upf_urr_t list \<Rightarrow> (upf_urr_t list \<times> pfcp_usage_report_t list) option" where
  "build_reports lib vnow ue now liusa idx (ev # evs) (urr # urrs) = do {
     (urr, rs) \<leftarrow> (if ev_triggers ev \<noteq> 0 then report_usage_ev lib vnow ue (ev_triggers ev) (ev_now ev) urr
                   else if idx \<in> set liusa
                   then report_usage_ev lib vnow ue USAGE_REPORT_TRIGGER_LINKED_USAGE_REPORTING now urr
                   else Some (urr, []));
     (urrs, rs') \<leftarrow> build_reports lib vnow ue now liusa (Suc idx) evs urrs;
     Some (urr # urrs, rs @ rs')
   }"
| "build_reports lib vnow ue now liusa idx [] urrs = Some (urrs, [])"
| "build_reports lib vnow ue now liusa idx (ev # evs) [] = None"

definition upf_usage_report_build ::
    "'v session_lib_scheme \<Rightarrow> int \<Rightarrow> ip46_address option \<Rightarrow> int \<Rightarrow> upf_usage_report_t \<Rightarrow> upf_urr_t list
       \<Rightarrow> (upf_urr_t list \<times> pfcp_usage_report_t list) option" where
  "upf_usage_report_build lib vnow ue now report urrs =
     build_reports lib vnow ue now (rp_liusa_bitmap report) 0 (rp_events report) urrs"

section \<open>Requests of the session layer\<close>

record pfcp_session_report_request_t =
  rr_fields :: u32
  rr_report_type :: u8
  rr_usage_report :: "pfcp_usage_report_t list"
  rr_error_indication_f_teid :: "pfcp_f_teid list"
  rr_pfcpsrreq_flags :: u8

abbreviation (input) "SESSION_REPORT_REQUEST_REPORT_TYPE \<equiv> 0 :: nat"
abbreviation (input) "SESSION_REPORT_REQUEST_USAGE_REPORT \<equiv> 2 :: nat"
abbreviation (input) "SESSION_REPORT_REQUEST_ERROR_INDICATION_REPORT \<equiv> 3 :: nat"
abbreviation (input) "SESSION_REPORT_REQUEST_PFCPSRREQ_FLAGS \<equiv> 8 :: nat"
abbreviation (input) "REPORT_TYPE_USAR \<equiv> BIT 1 :: u8"
abbreviation (input) "REPORT_TYPE_ERIR \<equiv> BIT 2 :: u8"
abbreviation (input) "REPORT_TYPE_UPIR \<equiv> BIT 3 :: u8"
abbreviation (input) "REPORT_TYPE_UISR \<equiv> BIT 6 :: u8"
abbreviation (input) "PFCPSRREQ_PSDBU \<equiv> BIT 0 :: u8"

definition zero_report_request :: pfcp_session_report_request_t where
  "zero_report_request = \<lparr>rr_fields = 0, rr_report_type = 0, rr_usage_report = [], rr_error_indication_f_teid = [],
     rr_pfcpsrreq_flags = 0\<rparr>"

text \<open>The rules of the active set are replaced.\<close>

definition put_urrs :: "nat \<Rightarrow> upf_urr_t list \<Rightarrow> upf_main_t \<Rightarrow> upf_main_t option" where
  "put_urrs si urrs = update_session si (\<lambda>sx.
     let active = pfcp_get_rules sx PFCP_ACTIVE in
     put_rules PFCP_ACTIVE (active\<lparr>r_urr := map_option (\<lambda>_. urrs) (r_urr active)\<rparr>) sx)"

definition active_urrs :: "nat \<Rightarrow> upf_main_t \<Rightarrow> upf_urr_t list option" where
  "active_urrs si g = do { sx \<leftarrow> g_sessions g si; Some (elts (r_urr (pfcp_get_rules sx PFCP_ACTIVE))) }"

definition report_all ::
    "'v session_lib_scheme \<Rightarrow> u32 \<Rightarrow> nat \<Rightarrow> upf_main_t \<Rightarrow> (pfcp_usage_report_t list \<times> upf_main_t) option" where
  "report_all lib trigger si g = do {
     urrs \<leftarrow> active_urrs si g;
     let report = upf_usage_report_set trigger (g_now g) (upf_usage_report_init (length urrs));
     (urrs, rs) \<leftarrow> upf_usage_report_build lib (g_vlib_now g) None (g_now g) report urrs;
     g \<leftarrow> put_urrs si urrs g;
     Some (rs, g)
   }"

definition upf_pfcp_session_up_deletion_report ::
    "'v session_lib_scheme \<Rightarrow> nat \<Rightarrow> upf_main_t \<Rightarrow> (pfcp_session_report_request_t \<times> upf_main_t) option" where
  "upf_pfcp_session_up_deletion_report lib si g = do {
     urrs \<leftarrow> active_urrs si g;
     let req = zero_report_request\<lparr>rr_fields := SET_BIT 0 SESSION_REPORT_REQUEST_REPORT_TYPE\<rparr>;
     (req, g) \<leftarrow> (if urrs \<noteq> [] then do {
         (rs, g) \<leftarrow> report_all lib USAGE_REPORT_TRIGGER_TERMINATION_BY_UP_FUNCTION_REPORT si g;
         Some (req\<lparr>rr_report_type := REPORT_TYPE_USAR, rr_usage_report := rs,
                   rr_fields := SET_BIT (rr_fields req) SESSION_REPORT_REQUEST_USAGE_REPORT\<rparr>, g)
       }
       else Some (req\<lparr>rr_report_type := REPORT_TYPE_UISR\<rparr>, g));
     Some (req\<lparr>rr_fields := SET_BIT (rr_fields req) SESSION_REPORT_REQUEST_PFCPSRREQ_FLAGS,
               rr_pfcpsrreq_flags := PFCPSRREQ_PSDBU\<rparr>, g)
   }"

definition urr_check_counter :: "u64 \<Rightarrow> u64 \<Rightarrow> u64 \<Rightarrow> u64 \<Rightarrow> u32" where
  "urr_check_counter bytes consumed threshold quota =
     (let r = (if quota \<noteq> 0 \<and> consumed \<ge> quota then USAGE_REPORT_TRIGGER_VOLUME_QUOTA else 0) in
      if threshold \<noteq> 0 \<and> bytes > threshold then r OR USAGE_REPORT_TRIGGER_VOLUME_THRESHOLD else r)"

definition urr_check_volume :: "counter_member \<Rightarrow> urr_volume_t \<Rightarrow> u32" where
  "urr_check_volume d v =
     urr_check_counter (c_get d (m_bytes (v_measure v))) (c_get d (m_consumed (v_measure v)))
       (c_get d (v_threshold v)) (c_get d (v_quota v))"

text \<open>The events of the data path: the first loop starts the timer of the traffic and triggers a report for the
  start of traffic.\<close>

definition traffic_event ::
    "'v session_lib_scheme \<Rightarrow> nat \<Rightarrow> int \<Rightarrow> u32 \<times> u8 \<Rightarrow> (rules_t \<times> bool \<times> upf_usage_report_t) \<times> upf_main_t
       \<Rightarrow> (rules_t \<times> bool \<times> upf_usage_report_t) \<times> upf_main_t" where
  "traffic_event lib si now ev = (\<lambda>((active, send, report), g).
     case pfcp_get_urr_by_id active (ucast (fst ev)) of
       None \<Rightarrow> ((active, send, report), g)
     | Some i \<Rightarrow>
         if snd ev AND URR_START_OF_TRAFFIC = 0 then ((active, send, report), g)
         else
           let urr = elts (r_urr active) ! i;
               report = upf_usage_report_trigger i USAGE_REPORT_TRIGGER_START_OF_TRAFFIC (urr_liusa_bitmap urr) now report;
               (t, g) = (if t_handle (urr_traffic_timer urr) = NO_INDEX
                         then upf_pfcp_session_start_stop_urr_time lib si True (urr_traffic_timer urr) g
                         else (urr_traffic_timer urr, g)) in
           ((active\<lparr>r_urr := map_option (\<lambda>v. v[i := urr\<lparr>urr_traffic_timer := t\<rparr>]) (r_urr active)\<rparr>, True, report), g))"

text \<open>The second loop checks the counters of every rule.\<close>

definition volume_event ::
    "int \<Rightarrow> nat \<Rightarrow> upf_urr_t list \<times> bool \<times> upf_usage_report_t \<Rightarrow> upf_urr_t list \<times> bool \<times> upf_usage_report_t" where
  "volume_event now i = (\<lambda>(urrs, send, report).
     let urr = urrs ! i; v = urr_volume urr;
         trigger = urr_check_volume UL v OR urr_check_volume DL v OR urr_check_volume TOTAL v in
     if urr_status urr AND URR_REPORTED \<noteq> 0 \<or> trigger = 0 then (urrs, send, report)
     else (urrs[i := urr\<lparr>urr_status := urr_status urr OR URR_REPORTED\<rparr>], True,
           upf_usage_report_trigger i trigger (urr_liusa_bitmap urr) now report))"

definition upf_pfcp_session_usage_report ::
    "'v session_lib_scheme \<Rightarrow> nat \<Rightarrow> ip46_address \<Rightarrow> (u32 \<times> u8) list \<Rightarrow> int \<Rightarrow> upf_main_t
       \<Rightarrow> (pfcp_session_report_request_t option \<times> upf_main_t) option" where
  "upf_pfcp_session_usage_report lib si ue uev now g = do {
     sx \<leftarrow> g_sessions g si;
     let active = pfcp_get_rules sx PFCP_ACTIVE;
     let n = length (elts (r_urr active));
     if n = 0 then Some (None, g)
     else do {
       let ((active, send, report), g) = fold (traffic_event lib si now) uev ((active, False, upf_usage_report_init n), g);
       let (urrs, send, report) = fold (volume_event now) [0..<n] (elts (r_urr active), send, report);
       if send then do {
         (urrs, rs) \<leftarrow> upf_usage_report_build lib (g_vlib_now g) (Some ue) now report urrs;
         g \<leftarrow> put_urrs si urrs g;
         Some (Some (zero_report_request\<lparr>rr_fields := SET_BIT (SET_BIT 0 SESSION_REPORT_REQUEST_REPORT_TYPE)
                                                      SESSION_REPORT_REQUEST_USAGE_REPORT,
                       rr_report_type := REPORT_TYPE_USAR, rr_usage_report := rs\<rparr>), g)
       }
       else do { g \<leftarrow> put_urrs si urrs g; Some (None, g) }
     }
   }"

section \<open>Timers\<close>

definition urr_check_time :: "urr_time_t \<Rightarrow> int \<Rightarrow> bool" where
  "urr_check_time t now \<longleftrightarrow> t_base t \<noteq> 0 \<and> t_period t \<noteq> 0 \<and> t_expected t \<noteq> 0 \<and> t_expected t < now"

text \<open>The start of the measurement period moves by one period, and on while the next period is over as well.
  The period is not zero.\<close>

function catch_up :: "int \<Rightarrow> nat \<Rightarrow> int \<Rightarrow> int" where
  "catch_up base period now =
     (if period \<noteq> 0 \<and> base + 100 * int period < now then catch_up (base + 100 * int period) period now else base)"
  by auto
termination by (relation "measure (\<lambda>(base, period, now). nat (now - base))") auto

text \<open>One timer of a rule has expired: the report is for the time it expired.\<close>

record urr_timer_state =
  ut_trigger :: u32
  ut_trigger_now :: int

definition timer_trigger :: "u16 \<Rightarrow> u16 \<Rightarrow> u32 \<Rightarrow> urr_time_t \<Rightarrow> urr_timer_state \<Rightarrow> urr_timer_state" where
  "timer_trigger triggers wanted trigger t st =
     (if triggers AND wanted \<noteq> 0
      then \<lparr>ut_trigger = ut_trigger st OR trigger, ut_trigger_now = min (ut_trigger_now st) (t_expected t)\<rparr> else st)"

definition period_timer ::
    "'v session_lib_scheme \<Rightarrow> nat \<Rightarrow> int \<Rightarrow> upf_urr_t \<times> urr_timer_state \<times> upf_main_t \<Rightarrow> upf_urr_t \<times> urr_timer_state \<times> upf_main_t" where
  "period_timer lib si now = (\<lambda>(urr, st, g).
     let t = urr_measurement_period urr in
     if \<not> urr_check_time t now then (urr, st, g)
     else
       let st = timer_trigger (urr_triggers urr) REPORTING_TRIGGER_PERIODIC_REPORTING USAGE_REPORT_TRIGGER_PERIODIC_REPORTING t st;
           (t, g) = upf_pfcp_session_start_stop_urr_time lib si True
                      (t\<lparr>t_base := catch_up (t_base t + 100 * int (t_period t)) (t_period t) now\<rparr>) g in
       (urr\<lparr>urr_measurement_period := t\<rparr>, st, g))"

definition threshold_timer ::
    "int \<Rightarrow> upf_urr_t \<times> urr_timer_state \<times> upf_main_t \<Rightarrow> upf_urr_t \<times> urr_timer_state \<times> upf_main_t" where
  "threshold_timer now = (\<lambda>(urr, st, g).
     let t = urr_time_threshold urr in
     if \<not> urr_check_time t now then (urr, st, g)
     else
       let st = timer_trigger (urr_triggers urr) REPORTING_TRIGGER_TIME_THRESHOLD USAGE_REPORT_TRIGGER_TIME_THRESHOLD t st;
           (t, g) = upf_pfcp_session_stop_urr_time now t g in
       (urr\<lparr>urr_time_threshold := t\<rparr>, st, g))"

definition quota_timer ::
    "int \<Rightarrow> upf_urr_t \<times> urr_timer_state \<times> upf_main_t \<Rightarrow> upf_urr_t \<times> urr_timer_state \<times> upf_main_t" where
  "quota_timer now = (\<lambda>(urr, st, g).
     let t = urr_time_quota urr in
     if \<not> urr_check_time t now then (urr, st, g)
     else
       let st = timer_trigger (urr_triggers urr) REPORTING_TRIGGER_TIME_QUOTA USAGE_REPORT_TRIGGER_TIME_QUOTA t st;
           (t, g) = upf_pfcp_session_stop_urr_time now t g in
       (urr\<lparr>urr_time_quota := t\<lparr>t_period := 0\<rparr>, urr_status := urr_status urr OR URR_OVER_QUOTA\<rparr>, st, g))"

definition validity_timer ::
    "int \<Rightarrow> upf_urr_t \<times> urr_timer_state \<times> upf_main_t \<Rightarrow> upf_urr_t \<times> urr_timer_state \<times> upf_main_t" where
  "validity_timer now = (\<lambda>(urr, st, g).
     let t = urr_quota_validity_time urr in
     if \<not> urr_check_time t now then (urr, st, g)
     else
       let st = timer_trigger (urr_triggers urr) REPORTING_TRIGGER_QUOTA_VALIDITY_TIME USAGE_REPORT_TRIGGER_QUOTA_VALIDITY_TIME t st;
           (t, g) = upf_pfcp_session_stop_urr_time now t g in
       (urr\<lparr>urr_quota_validity_time := t\<lparr>t_period := 0\<rparr>, urr_status := urr_status urr OR URR_OVER_QUOTA\<rparr>, st, g))"

definition traffic_timer ::
    "'v session_lib_scheme \<Rightarrow> nat \<Rightarrow> int \<Rightarrow> upf_urr_t \<times> urr_timer_state \<times> upf_main_t \<Rightarrow> upf_urr_t \<times> urr_timer_state \<times> upf_main_t" where
  "traffic_timer lib si now = (\<lambda>(urr, st, g).
     let t = urr_traffic_timer urr in
     if \<not> urr_check_time t now then (urr, st, g)
     else
       let tr = (\<lambda>ip. case urr_traffic urr ip of
                   None \<Rightarrow> None
                 | Some first_seen \<Rightarrow> if first_seen + 100 * 60 < now then None else Some first_seen);
           (t, g) = (if tr \<noteq> Map.empty then upf_pfcp_session_start_stop_urr_time lib si True t g else (t, g)) in
       (urr\<lparr>urr_traffic := tr, urr_traffic_timer := t\<rparr>, st, g))"

text \<open>The turn of the loop for one rule; the triggers that depend on the time stay off until the rule is updated.\<close>

definition urr_timer ::
    "'v session_lib_scheme \<Rightarrow> nat \<Rightarrow> int \<Rightarrow> nat \<Rightarrow> upf_urr_t list \<times> upf_usage_report_t \<times> bool \<times> upf_main_t
       \<Rightarrow> upf_urr_t list \<times> upf_usage_report_t \<times> bool \<times> upf_main_t" where
  "urr_timer lib si now idx = (\<lambda>(urrs, report, usar, g).
     let (urr, st, g) = traffic_timer lib si now (validity_timer now (quota_timer now (threshold_timer now
           (period_timer lib si now (urrs ! idx, \<lparr>ut_trigger = 0, ut_trigger_now = now\<rparr>, g))))) in
     if ut_trigger st = 0 then (urrs[idx := urr], report, usar, g)
     else (urrs[idx := urr\<lparr>urr_triggers := urr_triggers urr AND NOT (REPORTING_TRIGGER_TIME_THRESHOLD
               OR REPORTING_TRIGGER_TIME_QUOTA OR REPORTING_TRIGGER_QUOTA_VALIDITY_TIME)\<rparr>],
           upf_usage_report_trigger idx (ut_trigger st) (urr_liusa_bitmap urr) (ut_trigger_now st) report, True, g))"

text \<open>The timer of inactivity: it is reported if there was no uplink traffic for its period, and set again otherwise.\<close>

definition inactivity_expired ::
    "'v session_lib_scheme \<Rightarrow> nat \<Rightarrow> int \<Rightarrow> urr_time_t \<Rightarrow> upf_main_t \<Rightarrow> bool \<times> urr_time_t \<times> upf_main_t" where
  "inactivity_expired lib si last_ul t g =
     (if t_handle t = NO_INDEX \<or> t_period t = 0 then (False, t, g)
      else if - ((- (g_vlib_now g - last_ul)) div 100) \<ge> int (t_period t) then (True, t\<lparr>t_handle := NO_INDEX\<rparr>, g)
      else
        let (t, g) = upf_pfcp_session_stop_up_inactivity_timer t g;
            (t, g) = upf_pfcp_session_start_up_inactivity_timer lib si last_ul t g in
        (False, t, g))"

definition upf_pfcp_session_urr_timer ::
    "'v session_lib_scheme \<Rightarrow> nat \<Rightarrow> int \<Rightarrow> upf_main_t \<Rightarrow> (pfcp_session_report_request_t option \<times> upf_main_t) option" where
  "upf_pfcp_session_urr_timer lib si now g = do {
     sx \<leftarrow> g_sessions g si;
     let active = pfcp_get_rules sx PFCP_ACTIVE;
     let (inactive, t, g) = inactivity_expired lib si (s_last_ul_traffic sx) (r_inactivity_timer active) g;
     let n = length (elts (r_urr active));
     let (urrs, report, usar, g) = fold (urr_timer lib si now) [0..<n] (elts (r_urr active), upf_usage_report_init n, False, g);
     g \<leftarrow> update_session si (put_rules PFCP_ACTIVE (active\<lparr>r_inactivity_timer := t\<rparr>)) g;
     if inactive \<or> usar then do {
       (urrs, rs) \<leftarrow> upf_usage_report_build lib (g_vlib_now g) None now report urrs;
       g \<leftarrow> put_urrs si urrs g;
       Some (Some (zero_report_request\<lparr>
           rr_fields := (if usar then SET_BIT (SET_BIT 0 SESSION_REPORT_REQUEST_REPORT_TYPE) SESSION_REPORT_REQUEST_USAGE_REPORT
                         else SET_BIT 0 SESSION_REPORT_REQUEST_REPORT_TYPE),
           rr_report_type := (if inactive then REPORT_TYPE_UPIR else 0) OR (if usar then REPORT_TYPE_USAR else 0),
           rr_usage_report := rs\<rparr>), g)
     }
     else do { g \<leftarrow> put_urrs si urrs g; Some (None, g) }
   }"

text \<open>The report of an error indication from the peer of a tunnel.\<close>

definition upf_pfcp_error_report :: "'v session_lib_scheme \<Rightarrow> u32 \<Rightarrow> ip46_address \<Rightarrow> pfcp_session_report_request_t" where
  "upf_pfcp_error_report lib teid addr =
     zero_report_request\<lparr>
       rr_fields := SET_BIT (SET_BIT 0 SESSION_REPORT_REQUEST_REPORT_TYPE) SESSION_REPORT_REQUEST_ERROR_INDICATION_REPORT,
       rr_report_type := REPORT_TYPE_ERIR,
       rr_error_indication_f_teid :=
         [if ip46_address_is_ip4 lib addr
          then \<lparr>ft_flags = F_TEID_V4, ft_teid = teid, ft_ip4 = ucast addr, ft_ip6 = 0, ft_choose_id = 0\<rparr>
          else \<lparr>ft_flags = F_TEID_V6, ft_teid = teid, ft_ip4 = 0, ft_ip6 = addr, ft_choose_id = 0\<rparr>]\<rparr>"

end
