(* ===== verification/Upf_Quota.thy ===== *)
theory Upf_Quota
  imports Upf_Usage
begin

text \<open>
  Lemmas on the lookup of rules by id and on the measurement of usage: the binary search finds exactly the rules
  of a sorted vector, and the volume quotas of the rules let through what they should.
\<close>

section \<open>Rules by id\<close>

lemma bsearch_loop_spec:
  fixes key :: "'a \<Rightarrow> 'b::linorder"
  assumes sorted: "sorted_wrt (<) (map key v)"
  shows "u \<le> length v \<Longrightarrow> (\<And>j. j < l \<Longrightarrow> j < length v \<Longrightarrow> key (v ! j) < i)
    \<Longrightarrow> (\<And>j. u \<le> j \<Longrightarrow> j < length v \<Longrightarrow> i < key (v ! j))
    \<Longrightarrow> case bsearch_loop (\<lambda>x. intcmp i (key x)) v l u of
           None \<Rightarrow> \<forall>x \<in> set v. key x \<noteq> i
         | Some k \<Rightarrow> k < length v \<and> key (v ! k) = i"
proof (induction "u - l" arbitrary: l u rule: less_induct)
  case less
  let ?m = "(l + u) div 2"
  have lt: "key (v ! a) < key (v ! b)" if "a < b" "b < length v" for a b
    using sorted_wrt_nth_less [OF sorted, of a b] that by simp
  show ?case
  proof (cases "l < u")
    case False
    have "key x \<noteq> i" if x: "x \<in> set v" for x
    proof -
      obtain j where "j < length v" "x = v ! j"
        using x by (metis in_set_conv_nth)
      then show ?thesis
        using less.prems(2) [of j] less.prems(3) [of j] False by (cases "j < l") auto
    qed
    then show ?thesis
      using False by (simp add: bsearch_loop.simps)
  next
    case True
    then have m: "l \<le> ?m" "?m < u" "?m < length v"
      using less.prems(1) by auto
    consider "i < key (v ! ?m)" | "key (v ! ?m) < i" | "key (v ! ?m) = i"
      by force
    then show ?thesis
    proof cases
      case 1
      have "i < key (v ! j)" if "?m \<le> j" "j < length v" for j
        using 1 lt [of ?m j] that by (cases "j = ?m") auto
      then show ?thesis
        using less.hyps [of ?m l] less.prems m True 1 by (subst bsearch_loop.simps) (simp add: intcmp_def Let_def)
    next
      case 2
      have "key (v ! j) < i" if "j < Suc ?m" "j < length v" for j
        using 2 lt [of j ?m] m(3) that by (cases "j = ?m") auto
      moreover have "\<not> i < key (v ! ?m)"
        using 2 by auto
      ultimately show ?thesis
        using less.hyps [of u "Suc ?m"] less.prems m True 2 by (subst bsearch_loop.simps) (simp add: intcmp_def Let_def)
    next
      case 3
      then show ?thesis
        using True m by (subst bsearch_loop.simps) (simp add: intcmp_def Let_def)
    qed
  qed
qed

lemma vec_bsearch_sorted:
  fixes key :: "'a \<Rightarrow> 'b::linorder"
  assumes "sorted_wrt (<) (map key v)"
  shows "vec_bsearch (\<lambda>x. intcmp i (key x)) v = Some k \<longleftrightarrow> k < length v \<and> key (v ! k) = i" (is "?l = _ \<longleftrightarrow> _")
proof -
  have spec: "case ?l of None \<Rightarrow> \<forall>x \<in> set v. key x \<noteq> i | Some k \<Rightarrow> k < length v \<and> key (v ! k) = i"
    unfolding vec_bsearch_def using assms by (intro bsearch_loop_spec) simp_all
  have "distinct (map key v)"
    using assms by (simp add: strict_sorted_iff)
  then have "k' = k" if "k < length v" "k' < length v" "key (v ! k) = key (v ! k')" for k'
    using that by (simp add: distinct_conv_nth) metis
  then show ?thesis
    using spec by (cases ?l) auto
qed

lemma urr_by_id:
  assumes "sorted_wrt (<) (map urr_id (elts (r_urr r)))"
  shows "pfcp_get_urr_by_id r i = Some k \<longleftrightarrow> k < length (elts (r_urr r)) \<and> urr_id (elts (r_urr r) ! k) = i"
  unfolding pfcp_get_urr_by_id_def by (rule vec_bsearch_sorted [OF assms])

section \<open>Quotas\<close>

text \<open>The counters a packet is counted in.\<close>

definition counts :: "counter_member \<Rightarrow> bool \<Rightarrow> bool \<Rightarrow> bool" where
  "counts d is_ul is_dl \<longleftrightarrow> (case d of UL \<Rightarrow> is_ul | DL \<Rightarrow> is_dl | TOTAL \<Rightarrow> True)"

definition consumed_octets :: "counter_member \<Rightarrow> upf_urr_t \<Rightarrow> nat" where
  "consumed_octets d u = unat (c_get d (m_consumed (v_measure (urr_volume u))))"

definition quota_octets :: "counter_member \<Rightarrow> upf_urr_t \<Rightarrow> nat" where
  "quota_octets d u = unat (c_get d (v_quota (urr_volume u)))"

text \<open>A volume rule for which some quota that was not used up is used up by further octets, for each counter the number
  given by \<open>g\<close>. A quota of 0 is none.\<close>

definition exhausts :: "upf_urr_t \<Rightarrow> (counter_member \<Rightarrow> nat) \<Rightarrow> bool" where
  "exhausts u g \<longleftrightarrow> bit (urr_methods u) 1
     \<and> (\<exists>d. consumed_octets d u < quota_octets d u \<and> quota_octets d u \<le> consumed_octets d u + g d)"

text \<open>The monitoring time of the rule does not pass a second time, which makes the data path give up the session.\<close>

definition steady :: "upf_urr_t \<Rightarrow> bool" where
  "steady u \<longleftrightarrow> abs_vlib_time (urr_monitoring_time u) = INFINITY \<or> \<not> bit (urr_status u) 1"

text \<open>The rule \<open>v\<close> is what is left of \<open>u\<close> after \<open>g\<close> octets.\<close>

definition metered :: "(counter_member \<Rightarrow> nat) \<Rightarrow> upf_urr_t \<Rightarrow> upf_urr_t \<Rightarrow> bool" where
  "metered g u v \<longleftrightarrow> urr_id v = urr_id u \<and> urr_methods v = urr_methods u \<and> (\<forall>d. quota_octets d v = quota_octets d u)
     \<and> (bit (urr_methods u) 1 \<longrightarrow> (\<forall>d. consumed_octets d v = consumed_octets d u + g d))
     \<and> (bit (urr_status v) 0 \<longleftrightarrow> bit (urr_status u) 0 \<or> exhausts u g)
     \<and> (steady u \<longrightarrow> steady v)"

lemma exhausts_none [simp]: "\<not> exhausts u (\<lambda>d. 0)"
  by (auto simp: exhausts_def)

lemma exhausts_if [simp]: "exhausts u (\<lambda>d. if b then g d else 0) \<longleftrightarrow> b \<and> exhausts u g"
  by (cases b) simp_all

lemma exhausts_split:
  assumes "metered g u v"
  shows "exhausts u (\<lambda>d. g d + h d) \<longleftrightarrow> exhausts u g \<or> exhausts v h"
proof (cases "bit (urr_methods u) 1")
  case True
  have "consumed_octets d u < quota_octets d u \<and> quota_octets d u \<le> consumed_octets d u + (g d + h d)
      \<longleftrightarrow> consumed_octets d u < quota_octets d u \<and> quota_octets d u \<le> consumed_octets d u + g d
        \<or> consumed_octets d v < quota_octets d v \<and> quota_octets d v \<le> consumed_octets d v + h d" for d
    using assms True by (auto simp: metered_def)
  then show ?thesis
    using assms True by (auto simp: exhausts_def metered_def)
qed (use assms in \<open>auto simp: exhausts_def metered_def\<close>)

lemma metered_trans:
  assumes "metered g u v" "metered h v w"
  shows "metered (\<lambda>d. g d + h d) u w"
  using assms exhausts_split [OF assms(1), of h] by (auto simp: metered_def)

lemma metered_refl [simp]: "metered (\<lambda>d. 0) u u"
  by (simp add: metered_def)

section \<open>One packet and one rule\<close>

lemma incr_and_check:
  assumes "urr_incr_and_check e len v = (r, v')"
  shows "v_quota v' = v_quota v"
    and "c_get d (m_consumed (v_measure v')) = c_get d (m_consumed (v_measure v)) + (if d = e then len else 0)"
    and "bit r 0 \<longleftrightarrow> (let c = c_get e (m_consumed (v_measure v)); q = c_get e (v_quota v) in c < q \<and> q \<le> c + len)"
  using assms
  by (cases d; cases e; auto simp: urr_incr_and_check_def urr_increment_and_check_counter_def Let_def bit_or_iff bit_BIT
      split: if_splits)+

lemma measure_volume_words:
  assumes res: "measure_volume is_ul is_dl len u = (r, v)" and vol: "bit (urr_methods u) 1"
  shows "v_quota (urr_volume v) = v_quota (urr_volume u)"
    and "c_get d (m_consumed (v_measure (urr_volume v)))
       = c_get d (m_consumed (v_measure (urr_volume u))) + (if counts d is_ul is_dl then len else 0)"
    and "bit r 0 \<longleftrightarrow> (\<exists>d. counts d is_ul is_dl
       \<and> c_get d (m_consumed (v_measure (urr_volume u))) < c_get d (v_quota (urr_volume u))
       \<and> c_get d (v_quota (urr_volume u)) \<le> c_get d (m_consumed (v_measure (urr_volume u))) + len)"
    and "urr_id v = urr_id u" "urr_methods v = urr_methods u" "urr_monitoring_time v = urr_monitoring_time u"
    and "bit (urr_status v) 0 \<longleftrightarrow> bit (urr_status u) 0 \<or> bit r 0" "bit (urr_status v) 1 = bit (urr_status u) 1"
proof -
  obtain r1 v1 where 1: "(if is_ul then urr_incr_and_check UL len (urr_volume u) else (URR_OK, urr_volume u)) = (r1, v1)"
    by (metis surj_pair)
  obtain r2 v2 where 2: "(if is_dl then urr_incr_and_check DL len v1 else (URR_OK, v1)) = (r2, v2)"
    by (metis surj_pair)
  obtain r3 v3 where 3: "urr_incr_and_check TOTAL len v2 = (r3, v3)"
    by (metis surj_pair)
  let ?c = "\<lambda>v d. c_get d (m_consumed (v_measure v))" and ?q = "v_quota (urr_volume u)"
  have v1: "v_quota v1 = ?q" "?c v1 d = ?c (urr_volume u) d + (if is_ul \<and> d = UL then len else 0)"
    "bit r1 0 \<longleftrightarrow> is_ul \<and> ?c (urr_volume u) UL < c_get UL ?q \<and> c_get UL ?q \<le> ?c (urr_volume u) UL + len" for d
    using 1 incr_and_check(1,3) [of UL len "urr_volume u" r1 v1] incr_and_check(2) [of UL len "urr_volume u" r1 v1 d] by (auto simp: Let_def simp del: c_get.simps split: if_splits)
  have v2: "v_quota v2 = ?q" "?c v2 d = ?c v1 d + (if is_dl \<and> d = DL then len else 0)"
    "bit r2 0 \<longleftrightarrow> is_dl \<and> ?c (urr_volume u) DL < c_get DL ?q \<and> c_get DL ?q \<le> ?c (urr_volume u) DL + len" for d
    using 2 incr_and_check(1,3) [of DL len v1 r2 v2] incr_and_check(2) [of DL len v1 r2 v2 d] v1(1) v1(2) [of DL]
    by (auto simp: Let_def simp del: c_get.simps split: if_splits)
  have r3: "bit r3 0 \<longleftrightarrow> ?c (urr_volume u) TOTAL < c_get TOTAL ?q \<and> c_get TOTAL ?q \<le> ?c (urr_volume u) TOTAL + len"
    using incr_and_check(3) [OF 3] v2(1) v2(2) [of TOTAL] v1(2) [of TOTAL] by (simp add: Let_def)
  have out: "r = r1 OR r2 OR r3" "v = u\<lparr>urr_volume := v3,
      urr_status := (if bit r 0 then urr_status u OR URR_OVER_QUOTA else urr_status u)\<rparr>"
    using res vol 1 2 3 by (auto simp: measure_volume_def Let_def)
  show "v_quota (urr_volume v) = ?q" "urr_id v = urr_id u" "urr_methods v = urr_methods u"
    "urr_monitoring_time v = urr_monitoring_time u"
    "bit (urr_status v) 0 \<longleftrightarrow> bit (urr_status u) 0 \<or> bit r 0" "bit (urr_status v) 1 = bit (urr_status u) 1"
    using incr_and_check(1) [OF 3] v2(1) by (simp_all add: out(2) bit_or_iff bit_BIT)
  show "?c (urr_volume v) d = ?c (urr_volume u) d + (if counts d is_ul is_dl then len else 0)"
    using incr_and_check(2) [OF 3, of d] v1(2) [of d] v2(2) [of d] by (cases d) (simp_all add: out(2) counts_def)
  have members: "(\<exists>d. P d) \<longleftrightarrow> P UL \<or> P DL \<or> P TOTAL" for P
    by (metis counter_member.exhaust)
  show "bit r 0 \<longleftrightarrow> (\<exists>d. counts d is_ul is_dl \<and> ?c (urr_volume u) d < c_get d ?q \<and> c_get d ?q \<le> ?c (urr_volume u) d + len)"
    unfolding members by (simp add: out(1) bit_or_iff v1(3) v2(3) r3 counts_def)
qed

definition octets_of :: "bool \<Rightarrow> bool \<Rightarrow> u64 \<Rightarrow> counter_member \<Rightarrow> nat" where
  "octets_of is_ul is_dl len d = (if counts d is_ul is_dl then unat len else 0)"

lemma measure_volume_metered:
  assumes res: "measure_volume is_ul is_dl len u = (r, v)"
    and bound: "\<And>d. bit (urr_methods u) 1 \<Longrightarrow> consumed_octets d u + octets_of is_ul is_dl len d < 2 ^ 64"
  shows "metered (octets_of is_ul is_dl len) u v" "bit r 0 \<longleftrightarrow> exhausts u (octets_of is_ul is_dl len)"
proof -
  have "metered (octets_of is_ul is_dl len) u v \<and> (bit r 0 \<longleftrightarrow> exhausts u (octets_of is_ul is_dl len))"
  proof (cases "bit (urr_methods u) 1")
    case False
    then show ?thesis
      using res by (simp add: measure_volume_def metered_def exhausts_def)
  next
    case True
    note m = measure_volume_words [OF res True]
    let ?c = "\<lambda>d. c_get d (m_consumed (v_measure (urr_volume u)))" and ?q = "\<lambda>d. c_get d (v_quota (urr_volume u))"
    have sum: "unat (?c d + len) = unat (?c d) + unat len" if "counts d is_ul is_dl" for d
      using bound [OF True, of d] that unat_add_lem [of "?c d" len] by (simp add: consumed_octets_def octets_of_def)
    have "bit r 0 \<longleftrightarrow> exhausts u (octets_of is_ul is_dl len)"
      using True sum
      by (auto simp: m(3) exhausts_def consumed_octets_def quota_octets_def octets_of_def word_less_nat_alt word_le_nat_alt)
    moreover have "consumed_octets d v = consumed_octets d u + octets_of is_ul is_dl len d" for d
      using sum [of d] m(2) [of d] by (simp add: consumed_octets_def octets_of_def)
    ultimately show ?thesis
      using m by (simp add: metered_def quota_octets_def steady_def)
  qed
  then show "metered (octets_of is_ul is_dl len) u v" "bit r 0 \<longleftrightarrow> exhausts u (octets_of is_ul is_dl len)"
    by blast+
qed

lemma detect_start_of_traffic_rule:
  assumes "detect_start_of_traffic is_ul is_dl now pk ip u = (s, ip', evs, v)"
  shows "\<exists>t. v = u\<lparr>urr_traffic := t\<rparr>" "\<not> bit s 0"
proof -
  have "\<exists>t. u = u\<lparr>urr_traffic := t\<rparr>"
    by (rule exI [of _ "urr_traffic u"]) simp
  then show "\<exists>t. v = u\<lparr>urr_traffic := t\<rparr>"
    using assms by (auto simp: detect_start_of_traffic_def Let_def split: if_splits option.splits)
  show "\<not> bit s 0"
    using assms by (auto simp: detect_start_of_traffic_def Let_def bit_BIT split: if_splits option.splits)
qed

lemma metered_upd [simp]:
  "metered g (u\<lparr>urr_time_of_first_packet := a, urr_time_of_last_packet := b\<rparr>) v = metered g u v"
  "exhausts (u\<lparr>urr_time_of_first_packet := a, urr_time_of_last_packet := b\<rparr>) g = exhausts u g"
  "consumed_octets d (u\<lparr>urr_time_of_first_packet := a, urr_time_of_last_packet := b\<rparr>) = consumed_octets d u"
  "metered g u (v\<lparr>urr_traffic := t\<rparr>) = metered g u v"
  by (simp_all add: metered_def exhausts_def consumed_octets_def quota_octets_def steady_def)

lemma process_urr_metered:
  assumes bound: "\<And>d. bit (urr_methods u) 1 \<Longrightarrow> consumed_octets d u + octets_of is_ul is_dl (pk_len pk) d < 2 ^ 64"
    and res: "process_urr is_ul is_dl now pk u st = (v, st')"
  shows "metered (octets_of is_ul is_dl (pk_len pk)) u v"
    and "ul_next st' = (if bit (urr_status v) 0 then UPF_FORWARD_NEXT_DROP else ul_next st)"
    and "bit (ul_status st') 0 \<longleftrightarrow> bit (ul_status st) 0 \<or> exhausts u (octets_of is_ul is_dl (pk_len pk))"
    and "ul_active st' = ul_active st"
proof -
  define u0 where "u0 = u\<lparr>urr_time_of_first_packet :=
      (if urr_time_of_first_packet u = INFINITY then At now else urr_time_of_first_packet u),
      urr_time_of_last_packet := At now\<rparr>"
  obtain r u1 where 1: "measure_volume is_ul is_dl (pk_len pk) u0 = (r, u1)"
    by (metis surj_pair)
  obtain s ip evs u2 where 2: "detect_start_of_traffic is_ul is_dl now pk (ul_ip st) u1 = (s, ip, evs, u2)"
    by (metis surj_pair)
  have m: "metered (octets_of is_ul is_dl (pk_len pk)) u0 u1" "bit r 0 \<longleftrightarrow> exhausts u0 (octets_of is_ul is_dl (pk_len pk))"
    using bound measure_volume_metered [OF 1] by (simp_all add: u0_def)
  obtain t where t: "u2 = u1\<lparr>urr_traffic := t\<rparr>" "\<not> bit s 0"
    using detect_start_of_traffic_rule [OF 2] by blast
  have out: "v = u2" "st' = st\<lparr>ul_status := ul_status st OR s OR r, ul_ip := ip, ul_events := ul_events st @ evs,
      ul_next := (if bit (urr_status u2) 0 then UPF_FORWARD_NEXT_DROP else ul_next st)\<rparr>"
    using res 1 2 by (auto simp: process_urr_def u0_def [symmetric] Let_def)
  show "metered (octets_of is_ul is_dl (pk_len pk)) u v"
    using m(1) by (simp add: out t u0_def)
  show "ul_next st' = (if bit (urr_status v) 0 then UPF_FORWARD_NEXT_DROP else ul_next st)" "ul_active st' = ul_active st"
    by (simp_all add: out)
  show "bit (ul_status st') 0 \<longleftrightarrow> bit (ul_status st) 0 \<or> exhausts u (octets_of is_ul is_dl (pk_len pk))"
    using m(2) t(2) by (simp add: out u0_def bit_or_iff)
qed

lemma metered_split:
  assumes "\<not> bit (urr_status u) 1"
  shows "metered (\<lambda>d. 0) u (split_at_monitoring_time now u)"
  by (simp add: metered_def split_at_monitoring_time_def Let_def consumed_octets_def quota_octets_def steady_def bit_or_iff bit_BIT)

section \<open>One packet and all rules\<close>

text \<open>The octets of a packet counted for the rule \<open>i\<close>: its length for every time the detection rule names \<open>i\<close>.\<close>

definition octets_for :: "u16 list \<Rightarrow> bool \<Rightarrow> bool \<Rightarrow> u64 \<Rightarrow> u16 \<Rightarrow> counter_member \<Rightarrow> nat" where
  "octets_for ids is_ul is_dl len i d = count_list ids i * octets_of is_ul is_dl len d"

text \<open>All rules of a session, each with its own number of octets.\<close>

definition metered_all :: "(u16 \<Rightarrow> counter_member \<Rightarrow> nat) \<Rightarrow> upf_urr_t list \<Rightarrow> upf_urr_t list \<Rightarrow> bool" where
  "metered_all G us vs \<longleftrightarrow> list_all2 (\<lambda>u. metered (G (urr_id u)) u) us vs"

definition no_overflow :: "(u16 \<Rightarrow> counter_member \<Rightarrow> nat) \<Rightarrow> upf_urr_t list \<Rightarrow> bool" where
  "no_overflow G us \<longleftrightarrow> (\<forall>u \<in> set us. \<forall>d. bit (urr_methods u) 1 \<longrightarrow> consumed_octets d u + G (urr_id u) d < 2 ^ 64)"

definition some_exhausted :: "(u16 \<Rightarrow> counter_member \<Rightarrow> nat) \<Rightarrow> upf_urr_t list \<Rightarrow> bool" where
  "some_exhausted G us \<longleftrightarrow> (\<exists>u \<in> set us. exhausts u (G (urr_id u)))"

definition some_over_quota :: "u16 list \<Rightarrow> upf_urr_t list \<Rightarrow> bool" where
  "some_over_quota ids us \<longleftrightarrow> (\<exists>u \<in> set us. urr_id u \<in> set ids \<and> bit (urr_status u) 0)"

lemma no_overflowD:
  "no_overflow G us \<Longrightarrow> u \<in> set us \<Longrightarrow> bit (urr_methods u) 1 \<Longrightarrow> consumed_octets d u + G (urr_id u) d < 2 ^ 64"
  by (simp add: no_overflow_def)

lemma metered_all_ids: "metered_all G us vs \<Longrightarrow> map urr_id vs = map urr_id us"
  by (auto simp: metered_all_def metered_def list_all2_conv_all_nth intro: nth_equalityI)

lemma metered_all_trans:
  assumes "metered_all G us vs" "metered_all H vs ws"
  shows "metered_all (\<lambda>i d. G i d + H i d) us ws"
  unfolding metered_all_def
proof (rule list_all2_trans [OF _ assms [unfolded metered_all_def]])
  fix u v w
  assume "metered (G (urr_id u)) u v" "metered (H (urr_id v)) v w"
  then show "metered (\<lambda>d. G (urr_id u) d + H (urr_id u) d) u w"
    using metered_trans [of "G (urr_id u)" u v "H (urr_id v)" w] by (simp add: metered_def)
qed

lemma some_exhausted_split:
  assumes "metered_all G us vs"
  shows "some_exhausted (\<lambda>i d. G i d + H i d) us \<longleftrightarrow> some_exhausted G us \<or> some_exhausted H vs"
  using assms unfolding metered_all_def some_exhausted_def
proof (induction us vs rule: list_all2_induct)
  case (Cons u us v vs)
  then have "urr_id v = urr_id u"
    by (simp add: metered_def)
  then show ?case
    using Cons exhausts_split [of "G (urr_id u)" u v "H (urr_id u)"] by auto
qed simp

lemma no_overflow_split:
  assumes "metered_all G us vs" "no_overflow (\<lambda>i d. G i d + H i d) us"
  shows "no_overflow H vs"
  using assms unfolding metered_all_def no_overflow_def
  by (induction us vs rule: list_all2_induct) (simp_all add: metered_def add.assoc)

lemma metered_all_steady: "metered_all G us vs \<Longrightarrow> \<forall>u \<in> set us. steady u \<Longrightarrow> \<forall>v \<in> set vs. steady v"
  unfolding metered_all_def by (induction us vs rule: list_all2_induct) (auto simp: metered_def)

lemma metered_all_one:
  assumes sorted: "sorted_wrt (<) (map urr_id us)" and k: "k < length us" and v: "metered g (us ! k) v"
  shows "metered_all (\<lambda>i d. if i = urr_id (us ! k) then g d else 0) us (us[k := v])"
    and "some_exhausted (\<lambda>i d. if i = urr_id (us ! k) then g d else 0) us \<longleftrightarrow> exhausts (us ! k) g"
proof -
  have id: "urr_id (us ! j) = urr_id (us ! k) \<longleftrightarrow> j = k" if "j < length us" for j
    using sorted k that by (auto simp: strict_sorted_iff distinct_conv_nth)
  then show "metered_all (\<lambda>i d. if i = urr_id (us ! k) then g d else 0) us (us[k := v])"
    using v k by (auto simp: metered_all_def list_all2_conv_all_nth nth_list_update)
  have "(\<exists>u \<in> set us. P u) \<longleftrightarrow> (\<exists>j < length us. P (us ! j))" for P
    by (metis in_set_conv_nth)
  then show "some_exhausted (\<lambda>i d. if i = urr_id (us ! k) then g d else 0) us \<longleftrightarrow> exhausts (us ! k) g"
    using id k by (auto simp: some_exhausted_def)
qed

lemma octets_for_simps [simp]:
  "octets_for [] is_ul is_dl len i d = 0"
  "octets_for (j # ids) is_ul is_dl len i d = (if i = j then octets_of is_ul is_dl len d else 0) + octets_for ids is_ul is_dl len i d"
  by (simp_all add: octets_for_def)

lemma metered_all_cong:
  assumes "\<And>u. u \<in> set us \<Longrightarrow> G (urr_id u) = H (urr_id u)"
  shows "metered_all G us vs = metered_all H us vs" "some_exhausted G us = some_exhausted H us" "no_overflow G us = no_overflow H us"
  using assms by (simp_all add: metered_all_def list_all2_conv_all_nth some_exhausted_def no_overflow_def cong: conj_cong)

lemma octets_for_other: "i \<notin> set ids \<Longrightarrow> octets_for ids is_ul is_dl len i = (\<lambda>d. 0)"
  by (simp add: octets_for_def count_list_0_iff fun_eq_iff)

lemma some_over_quota_Cons:
  assumes sorted: "sorted_wrt (<) (map urr_id us)" and k: "k < length us" "urr_id (us ! k) = i"
    and vs: "metered_all (octets_for ids is_ul is_dl len) us vs"
  shows "some_over_quota (i # ids) vs \<longleftrightarrow> bit (urr_status (us ! k)) 0 \<or> some_over_quota ids vs"
proof -
  have vk: "k < length vs" "urr_id (vs ! k) = i" "distinct (map urr_id vs)"
    using sorted k metered_all_ids [OF vs] by (metis length_map, metis length_map nth_map, simp add: strict_sorted_iff)
  then have id: "urr_id v = i \<longleftrightarrow> v = vs ! k" if "v \<in> set vs" for v
    using that by (auto simp: distinct_conv_nth in_set_conv_nth)
  have "metered (octets_for ids is_ul is_dl len i) (us ! k) (vs ! k)"
    using vs k by (auto simp: metered_all_def list_all2_conv_all_nth)
  then have "bit (urr_status (us ! k)) 0 \<Longrightarrow> bit (urr_status (vs ! k)) 0"
    "i \<notin> set ids \<Longrightarrow> bit (urr_status (vs ! k)) 0 = bit (urr_status (us ! k)) 0"
    by (simp_all add: metered_def octets_for_other)
  then show ?thesis
    using vk(1) id by (auto simp: some_over_quota_def)
qed

lemma process_urrs_loop_metered:
  assumes "sorted_wrt (<) (map urr_id (elts (r_urr (ul_active st))))"
    "\<forall>u \<in> set (elts (r_urr (ul_active st))). steady u"
    "no_overflow (octets_for ids is_ul is_dl (pk_len pk)) (elts (r_urr (ul_active st)))"
  shows "\<exists>vs. elts (r_urr (ul_active (process_urrs_loop is_ul is_dl now pk ids st))) = vs
    \<and> metered_all (octets_for ids is_ul is_dl (pk_len pk)) (elts (r_urr (ul_active st))) vs
    \<and> (bit (ul_status (process_urrs_loop is_ul is_dl now pk ids st)) 0
       \<longleftrightarrow> bit (ul_status st) 0 \<or> some_exhausted (octets_for ids is_ul is_dl (pk_len pk)) (elts (r_urr (ul_active st))))
    \<and> ul_next (process_urrs_loop is_ul is_dl now pk ids st)
       = (if some_over_quota ids vs then UPF_FORWARD_NEXT_DROP else ul_next st)"
  using assms
proof (induction ids arbitrary: st)
  case Nil
  then show ?case
    by (simp add: metered_all_def some_exhausted_def some_over_quota_def list_all2_same)
next
  case (Cons i ids)
  let ?us = "elts (r_urr (ul_active st))" and ?rest = "octets_for ids is_ul is_dl (pk_len pk)"
  let ?one = "\<lambda>j d. if j = i then octets_of is_ul is_dl (pk_len pk) d else 0"
  have total: "octets_for (i # ids) is_ul is_dl (pk_len pk) = (\<lambda>j d. ?one j d + ?rest j d)"
    by (simp add: fun_eq_iff)
  show ?case
  proof (cases "pfcp_get_urr_by_id (ul_active st) i")
    case None
    have none: "i \<noteq> urr_id u" if u: "u \<in> set ?us" for u
      using u None urr_by_id [OF Cons.prems(1), of i] by (auto simp: in_set_conv_nth)
    have "octets_for (i # ids) is_ul is_dl (pk_len pk) (urr_id u) = ?rest (urr_id u)" if "u \<in> set ?us" for u
      using none [OF that] by (simp add: fun_eq_iff)
    note same = metered_all_cong [of ?us "octets_for (i # ids) is_ul is_dl (pk_len pk)" ?rest, OF this]
    have "some_over_quota (i # ids) vs = some_over_quota ids vs" if "metered_all ?rest ?us vs" for vs
    proof -
      have "i \<noteq> urr_id v" if "v \<in> set vs" for v
        using none metered_all_ids [OF \<open>metered_all ?rest ?us vs\<close>] that by (metis (no_types) imageE imageI list.set_map)
      then show ?thesis
        by (auto simp: some_over_quota_def)
    qed
    then show ?thesis
      using Cons.IH [of st] Cons.prems None by (simp add: same del: octets_for_simps)
  next
    case (Some k)
    then have k: "k < length ?us" "urr_id (?us ! k) = i"
      using urr_by_id [OF Cons.prems(1)] by blast+
    define u0 where "u0 = ?us ! k"
    define u1 where "u1 = (if before (abs_vlib_time (urr_monitoring_time u0)) now then split_at_monitoring_time now u0 else u0)"
    obtain u2 st2 where step: "process_urr is_ul is_dl now pk u1 st = (u2, st2)"
      by (metis surj_pair)
    have "steady u0"
      using Cons.prems(2) k(1) by (simp add: u0_def)
    then have no_drop: "\<not> (before (abs_vlib_time (urr_monitoring_time u0)) now \<and> bit (urr_status u0) 1)"
      by (auto simp: steady_def)
    then have u1: "metered (\<lambda>d. 0) u0 u1"
      using metered_split [of u0 now] by (auto simp: u1_def)
    have "consumed_octets d u1 + octets_of is_ul is_dl (pk_len pk) d < 2 ^ 64" if vol: "bit (urr_methods u1) 1" for d
    proof -
      have "bit (urr_methods u0) 1" "consumed_octets d u1 = consumed_octets d u0" "u0 \<in> set ?us" "urr_id u0 = i"
        using u1 vol k by (simp_all add: metered_def u0_def)
      then have "consumed_octets d u1 + (?one i d + ?rest i d) < 2 ^ 64"
        using no_overflowD [OF Cons.prems(3) [unfolded total], of u0 d] by simp
      then show ?thesis
        by simp
    qed
    note p = process_urr_metered [OF this step]
    have u2: "metered (octets_of is_ul is_dl (pk_len pk)) (?us ! k) u2"
      "exhausts u1 (octets_of is_ul is_dl (pk_len pk)) = exhausts (?us ! k) (octets_of is_ul is_dl (pk_len pk))"
      using metered_trans [OF u1 p(1)] exhausts_split [OF u1, of "octets_of is_ul is_dl (pk_len pk)"] by (simp_all add: u0_def)
    define st3 where "st3 = st2\<lparr>ul_active := (ul_active st2)\<lparr>r_urr := map_option (\<lambda>v. v[k := u2]) (r_urr (ul_active st2))\<rparr>\<rparr>"
    have loop: "process_urrs_loop is_ul is_dl now pk (i # ids) st = process_urrs_loop is_ul is_dl now pk ids st3"
      using Some no_drop step by (auto simp: u0_def [symmetric] u1_def [symmetric] st3_def Let_def)
    have us3: "elts (r_urr (ul_active st3)) = ?us[k := u2]"
      using p(4) k(1) by (cases "r_urr (ul_active st)") (simp_all add: st3_def)
    note one = metered_all_one [OF Cons.prems(1) k(1) u2(1), unfolded k(2)]
    obtain vs where IH: "elts (r_urr (ul_active (process_urrs_loop is_ul is_dl now pk ids st3))) = vs"
        "metered_all ?rest (?us[k := u2]) vs"
        "bit (ul_status (process_urrs_loop is_ul is_dl now pk ids st3)) 0 \<longleftrightarrow> bit (ul_status st3) 0 \<or> some_exhausted ?rest (?us[k := u2])"
        "ul_next (process_urrs_loop is_ul is_dl now pk ids st3) = (if some_over_quota ids vs then UPF_FORWARD_NEXT_DROP else ul_next st3)"
      using Cons.IH [of st3] Cons.prems metered_all_ids [OF one(1)] metered_all_steady [OF one(1)] no_overflow_split [OF one(1)]
      unfolding us3 total by auto
    note all = metered_all_trans [OF one(1) IH(2)]
    have "some_over_quota (i # ids) vs \<longleftrightarrow> bit (urr_status u2) 0 \<or> some_over_quota ids vs"
      using some_over_quota_Cons [OF _ _ _ IH(2), of k i] Cons.prems(1) metered_all_ids [OF one(1)] k u2(1)
      by (simp add: metered_def)
    then show ?thesis
      using IH all p(2,3) u2(2) one(2) some_exhausted_split [OF one(1), of ?rest]
      unfolding loop total by (simp add: st3_def)
  qed
qed

section \<open>A sequence of packets\<close>

text \<open>A packet with the time it arrives at, its detection rule, and whether it goes uplink and downlink.\<close>

record usage_packet =
  up_now :: int
  up_pdr :: upf_pdr_t
  up_is_ul :: bool
  up_is_dl :: bool
  up_packet :: urr_packet

fun measure_packets ::
    "upf_forward_next \<Rightarrow> rules_t \<Rightarrow> usage_packet list \<Rightarrow> (upf_forward_next \<times> urr_report option) list" where
  "measure_packets next active [] = []"
| "measure_packets next active (p # ps) =
     (let (nx, active, _, report) =
            process_urrs (up_now p) active (up_pdr p) (up_packet p) (up_is_dl p) (up_is_ul p) next 0 in
      (nx, report) # measure_packets next active ps)"

definition quota_report :: "urr_report option \<Rightarrow> bool" where
  "quota_report report \<longleftrightarrow> (case report of None \<Rightarrow> False | Some r \<Rightarrow> bit (rep_status r) 0)"

text \<open>The octets of packets that a rule counts: of those whose detection rule names it, the uplink ones, the downlink
  ones, or all.\<close>

definition packet_octets :: "usage_packet \<Rightarrow> u16 \<Rightarrow> counter_member \<Rightarrow> nat" where
  "packet_octets p = octets_for (pdr_urr_ids (up_pdr p)) (up_is_ul p) (up_is_dl p) (pk_len (up_packet p))"

definition counted_octets :: "usage_packet list \<Rightarrow> u16 \<Rightarrow> counter_member \<Rightarrow> nat" where
  "counted_octets ps i d = (\<Sum>p \<leftarrow> ps. packet_octets p i d)"

lemma counted_octets_simps: "counted_octets [] = (\<lambda>i d. 0)" "counted_octets (p # ps) = (\<lambda>i d. packet_octets p i d + counted_octets ps i d)"
  by (simp_all add: counted_octets_def fun_eq_iff)

lemma process_urrs_metered:
  assumes sorted: "sorted_wrt (<) (map urr_id (elts (r_urr active)))" and steady: "\<forall>u \<in> set (elts (r_urr active)). steady u"
    and bound: "no_overflow (packet_octets p) (elts (r_urr active))"
    and res: "process_urrs (up_now p) active (up_pdr p) (up_packet p) (up_is_dl p) (up_is_ul p) next t = (nx, active', t', report)"
  shows "metered_all (packet_octets p) (elts (r_urr active)) (elts (r_urr active'))"
    and "nx = (if some_over_quota (pdr_urr_ids (up_pdr p)) (elts (r_urr active')) then UPF_FORWARD_NEXT_DROP else next)"
    and "quota_report report \<longleftrightarrow> some_exhausted (packet_octets p) (elts (r_urr active))"
proof -
  define st where "st = \<lparr>ul_active = active, ul_status = URR_OK, ul_ip = 0, ul_events = [], ul_next = next\<rparr>"
  define st' where "st' = process_urrs_loop (up_is_ul p) (up_is_dl p) (up_now p) (up_packet p) (pdr_urr_ids (up_pdr p)) st"
  have st: "ul_active st = active" "ul_next st = next" "\<not> bit (ul_status st) 0"
    by (simp_all add: st_def)
  have out: "nx = ul_next st'" "active' = ul_active st'" "quota_report report \<longleftrightarrow> bit (ul_status st') 0"
    using res by (auto simp: process_urrs_def st_def [symmetric] st'_def [symmetric] Let_def quota_report_def split: if_splits)
  show "metered_all (packet_octets p) (elts (r_urr active)) (elts (r_urr active'))"
    "nx = (if some_over_quota (pdr_urr_ids (up_pdr p)) (elts (r_urr active')) then UPF_FORWARD_NEXT_DROP else next)"
    "quota_report report \<longleftrightarrow> some_exhausted (packet_octets p) (elts (r_urr active))"
    using process_urrs_loop_metered [of st "pdr_urr_ids (up_pdr p)" "up_is_ul p" "up_is_dl p" "up_packet p" "up_now p"]
      sorted steady bound st unfolding st'_def [symmetric] packet_octets_def [symmetric] by (simp_all add: out)
qed

text \<open>Some rule of those that are named has used up a quota, after the octets \<open>G\<close>.\<close>

definition quota_used_up :: "u16 list \<Rightarrow> (u16 \<Rightarrow> counter_member \<Rightarrow> nat) \<Rightarrow> upf_urr_t list \<Rightarrow> bool" where
  "quota_used_up ids G us \<longleftrightarrow>
     (\<exists>u \<in> set us. urr_id u \<in> set ids \<and> (bit (urr_status u) 0 \<or> exhausts u (G (urr_id u))))"

lemma some_over_quota_metered:
  assumes "metered_all G us vs"
  shows "some_over_quota ids vs \<longleftrightarrow> quota_used_up ids G us"
  using assms unfolding metered_all_def some_over_quota_def quota_used_up_def
  by (induction us vs rule: list_all2_induct) (auto simp: metered_def)

lemma quota_used_up_split:
  assumes "metered_all G us vs"
  shows "quota_used_up ids H vs \<longleftrightarrow> quota_used_up ids (\<lambda>i d. G i d + H i d) us"
  using assms unfolding metered_all_def quota_used_up_def
proof (induction us vs rule: list_all2_induct)
  case (Cons u us v vs)
  then have "urr_id v = urr_id u" "bit (urr_status v) 0 \<longleftrightarrow> bit (urr_status u) 0 \<or> exhausts u (G (urr_id u))"
    by (simp_all add: metered_def)
  then show ?case
    using Cons exhausts_split [of "G (urr_id u)" u v "H (urr_id u)"] by auto
qed simp

text \<open>Some quota of a volume rule is reached between \<open>g\<close> and \<open>h\<close> octets.\<close>

definition crosses :: "upf_urr_t \<Rightarrow> (counter_member \<Rightarrow> nat) \<Rightarrow> (counter_member \<Rightarrow> nat) \<Rightarrow> bool" where
  "crosses u g h \<longleftrightarrow> bit (urr_methods u) 1
     \<and> (\<exists>d. consumed_octets d u + g d < quota_octets d u \<and> quota_octets d u \<le> consumed_octets d u + h d)"

lemma crosses_metered:
  assumes "metered_all F us vs"
  shows "(\<exists>v \<in> set vs. crosses v (G (urr_id v)) (H (urr_id v)))
     \<longleftrightarrow> (\<exists>u \<in> set us. crosses u (\<lambda>d. F (urr_id u) d + G (urr_id u) d) (\<lambda>d. F (urr_id u) d + H (urr_id u) d))"
  using assms unfolding metered_all_def
proof (induction us vs rule: list_all2_induct)
  case (Cons u us v vs)
  then have "crosses v (G (urr_id v)) (H (urr_id v))
      \<longleftrightarrow> crosses u (\<lambda>d. F (urr_id u) d + G (urr_id u) d) (\<lambda>d. F (urr_id u) d + H (urr_id u) d)"
    by (auto simp: crosses_def metered_def add.assoc)
  then show ?case
    using Cons by simp
qed simp

lemma exhausted_crosses: "some_exhausted H us \<longleftrightarrow> (\<exists>u \<in> set us. crosses u (\<lambda>d. 0) (H (urr_id u)))"
  by (simp add: some_exhausted_def exhausts_def crosses_def)

text \<open>C36: Volume quotas are enforced to the packet, for all usage rules of a session together and for any packets of any of
  its detection rules. A packet is dropped exactly if some usage rule its detection rule names is over quota: it was
  before, or it measures volume and one of its quotas (uplink, downlink or total; 0 is none) that was not used up is
  reached by the octets the rule counted up to and including this packet. A packet makes the data path report an
  exhausted quota exactly if some quota of some rule is reached with this packet and was not before it. This is
  for rules whose monitoring time does not pass a second time without a report in between, and whose 64-bit counters do
  not overflow.
\<close>

theorem quota_enforced:
  assumes "elts (r_urr active) = us" "sorted_wrt (<) (map urr_id us)" "\<forall>u \<in> set us. steady u"
    and "no_overflow (counted_octets ps) us" "n < length ps"
  shows "fst (measure_packets next active ps ! n)
       = (if quota_used_up (pdr_urr_ids (up_pdr (ps ! n))) (counted_octets (take (Suc n) ps)) us then UPF_FORWARD_NEXT_DROP else next)
     \<and> (quota_report (snd (measure_packets next active ps ! n))
        \<longleftrightarrow> (\<exists>u \<in> set us. crosses u (counted_octets (take n ps) (urr_id u)) (counted_octets (take (Suc n) ps) (urr_id u))))"
  using assms
proof (induction ps arbitrary: active us n)
  case (Cons p ps)
  obtain nx active' t report where
    res: "process_urrs (up_now p) active (up_pdr p) (up_packet p) (up_is_dl p) (up_is_ul p) next 0 = (nx, active', t, report)"
    by (metis surj_pair)
  have run: "measure_packets next active (p # ps) = (nx, report) # measure_packets next active' ps"
    by (simp add: res)
  have bound: "no_overflow (packet_octets p) us"
    unfolding no_overflow_def
  proof (intro ballI allI impI)
    fix u d
    assume "u \<in> set us" "bit (urr_methods u) 1"
    then show "consumed_octets d u + packet_octets p (urr_id u) d < 2 ^ 64"
      using no_overflowD [OF Cons.prems(4), of u d] by (simp add: counted_octets_simps)
  qed
  note step = process_urrs_metered [OF Cons.prems(2,3) [folded Cons.prems(1)] bound [folded Cons.prems(1)] res, unfolded Cons.prems(1)]
  show ?case
  proof (cases n)
    case 0
    then show ?thesis
      using step(2,3) some_over_quota_metered [OF step(1)] unfolding run by (simp add: counted_octets_simps exhausted_crosses)
  next
    case (Suc m)
    have "sorted_wrt (<) (map urr_id (elts (r_urr active')))" "\<forall>u \<in> set (elts (r_urr active')). steady u"
      "no_overflow (counted_octets ps) (elts (r_urr active'))" "m < length ps"
      using Cons.prems(2-5) Suc metered_all_ids [OF step(1)] metered_all_steady [OF step(1)]
        no_overflow_split [OF step(1), of "counted_octets ps"] by (simp_all add: counted_octets_simps)
    from Cons.IH [OF refl this] show ?thesis
      unfolding run by (simp add: Suc counted_octets_simps quota_used_up_split [OF step(1)] crosses_metered [OF step(1)])
  qed
qed simp

text \<open>A rule with a quota of 250 octets in total and one with 150 octets downlink; one detection rule for both, one for each.\<close>

definition quota_urr :: upf_urr_t where
  "quota_urr = \<lparr>urr_id = 3, urr_methods = 2, urr_triggers = 0, urr_status = 0, urr_update_flags = 0, urr_seq_no = 0,
     urr_start_time = INFINITY, urr_time_of_first_packet = INFINITY, urr_time_of_last_packet = INFINITY,
     urr_volume = \<lparr>v_measure = zero_measure, v_threshold = zero_counter, v_quota = \<lparr>c_ul = 0, c_dl = 0, c_total = 250\<rparr>\<rparr>,
     urr_measurement_period = zero_urr_time, urr_time_threshold = zero_urr_time, urr_time_quota = zero_urr_time,
     urr_quota_holding_time = zero_urr_time, urr_quota_validity_time = zero_urr_time,
     urr_monitoring_time = \<lparr>abs_unix_time = INFINITY, abs_vlib_time = INFINITY\<rparr>,
     urr_usage_before_monitoring_time = \<lparr>ub_start_time = INFINITY, ub_time_of_first_packet = INFINITY,
       ub_time_of_last_packet = INFINITY, ub_volume = zero_measure\<rparr>,
     urr_traffic = Map.empty, urr_traffic_timer = zero_urr_time, urr_linked_urr_ids = [], urr_liusa_bitmap = []\<rparr>"

definition quota_pdr :: upf_pdr_t where
  "quota_pdr = \<lparr>pdr_id = 1, pdr_precedence = 1,
     pdr_pdi = \<lparr>pdi_src_intf = 0, pdi_nwi_index = 0, pdi_fields = 0,
       pdi_teid = \<lparr>ft_flags = 0, ft_teid = 0, ft_ip4 = 0, ft_ip6 = 0, ft_choose_id = 0\<rparr>,
       pdi_ue_addr = \<lparr>ue_flags = 0, ue_ip4 = 0, ue_ip6 = 0, ue_prefix_delegation_length = 0, ue_prefix_length = 0\<rparr>,
       pdi_acl = [], pdi_adr = \<lparr>adr_application_id = 0, adr_db_id = 0, adr_flags = 0\<rparr>\<rparr>,
     pdr_outer_header_removal = 0, pdr_far_id = 0, pdr_urr_ids = [3], pdr_qer_ids = []\<rparr>"

definition downlink_urr :: upf_urr_t where
  "downlink_urr = quota_urr\<lparr>urr_id := 5,
     urr_volume := \<lparr>v_measure = zero_measure, v_threshold = zero_counter, v_quota = \<lparr>c_ul = 0, c_dl = 150, c_total = 0\<rparr>\<rparr>\<rparr>"

definition quota_packet :: "u16 list \<Rightarrow> bool \<Rightarrow> u64 \<Rightarrow> usage_packet" where
  "quota_packet ids ul len = \<lparr>up_now = 0, up_pdr = quota_pdr\<lparr>pdr_urr_ids := ids\<rparr>, up_is_ul = ul, up_is_dl = \<not> ul,
     up_packet = \<lparr>pk_len = len, pk_src = 1, pk_dst = 2\<rparr>\<rparr>"

definition quota_packets :: "usage_packet list" where
  "quota_packets = [quota_packet [3, 5] True 160, quota_packet [5] False 160, quota_packet [3] True 80, quota_packet [3] True 20]"

lemma quota_rules_eval:
  "bit (urr_methods quota_urr) (Suc 0)" "bit (urr_methods downlink_urr) (Suc 0)" "steady quota_urr" "steady downlink_urr"
  "urr_id quota_urr = 3" "urr_id downlink_urr = 5" "consumed_octets d quota_urr = 0" "consumed_octets d downlink_urr = 0"
  "\<not> bit (urr_status quota_urr) 0" "\<not> bit (urr_status downlink_urr) 0"
  "quota_octets d quota_urr = (if d = TOTAL then 250 else 0)" "quota_octets d downlink_urr = (if d = DL then 150 else 0)"
  by (cases d; simp add: quota_urr_def downlink_urr_def steady_def consumed_octets_def quota_octets_def zero_measure_def
      zero_counter_def bit_numeral_rec)+

lemma quota_packet_eval:
  "packet_octets (quota_packet ids ul len) i d
     = count_list ids i * (if (case d of UL \<Rightarrow> ul | DL \<Rightarrow> \<not> ul | TOTAL \<Rightarrow> True) then unat len else 0)"
  "pdr_urr_ids (up_pdr (quota_packet ids ul len)) = ids"
  by (simp_all add: packet_octets_def quota_packet_def octets_for_def octets_of_def counts_def)

theorem quota_enforced_witness:
  "let out = measure_packets UPF_FORWARD_NEXT_IP_INPUT (zero_rules\<lparr>r_urr := Some [quota_urr, downlink_urr]\<rparr>) quota_packets in
   map (\<lambda>n. fst (out ! n)) [0..<4]
     = [UPF_FORWARD_NEXT_IP_INPUT, UPF_FORWARD_NEXT_DROP, UPF_FORWARD_NEXT_IP_INPUT, UPF_FORWARD_NEXT_DROP]
   \<and> map (\<lambda>n. quota_report (snd (out ! n))) [0..<4] = [False, True, False, True]"
proof -
  have members: "(\<exists>d. P d) \<longleftrightarrow> P UL \<or> P DL \<or> P TOTAL" "(\<forall>d. P d) \<longleftrightarrow> P UL \<and> P DL \<and> P TOTAL" for P
    by (metis counter_member.exhaust)+
  have upto: "[0..<4] = [0, 1, 2, 3 :: nat]"
    by (simp add: upt_rec)
  note eval = quota_rules_eval quota_packet_eval counted_octets_simps quota_packets_def
  have "no_overflow (counted_octets quota_packets) [quota_urr, downlink_urr]"
    unfolding no_overflow_def members by (simp add: eval)
  note q = quota_enforced [of "zero_rules\<lparr>r_urr := Some [quota_urr, downlink_urr]\<rparr>" "[quota_urr, downlink_urr]" quota_packets _
      UPF_FORWARD_NEXT_IP_INPUT, OF _ _ _ this]
  show ?thesis
    unfolding Let_def upto list.map
    using q [of 0] q [of 1] q [of 2] q [of 3]
    by (simp add: quota_used_up_def exhausts_def crosses_def members eval del: measure_packets.simps)
qed

end
