(* ===== verification/Upf_Match.thy ===== *)
theory Upf_Match
  imports Upf_Update
begin

text \<open>
  Classification is correct: a compiled rule matches exactly the packets its filter describes, the
  vectors of compiled rules are ordered by precedence, and the first match belongs to the best rule.
\<close>

section \<open>Prefix masks\<close>

lemma bit_ip4_mask_loop:
  "width \<le> 32 \<Longrightarrow> \<exists>m. ip4_mask_loop width = Some m \<and> (\<forall>n. bit m n \<longleftrightarrow> n < 32 \<and> 32 \<le> n + width)"
proof (induction width)
  case (Suc i)
  then obtain m where m: "ip4_mask_loop i = Some m" "\<And>n. bit m n \<longleftrightarrow> n < 32 \<and> 32 \<le> n + i"
    by auto
  have i: "i < 32"
    using Suc.prems by simp
  have p: "8 * (3 - i div 8) + (7 - i mod 8) = 31 - i" and "i div 8 < 4"
    using i by presburger+
  then have "ip4_mask_loop (Suc i) = Some (m OR push_bit (31 - i) 1)"
    by (simp add: m(1))
  moreover have "bit (m OR push_bit (31 - i) 1) n \<longleftrightarrow> n < 32 \<and> 32 \<le> n + Suc i" for n
  proof -
    have "bit (m OR push_bit (31 - i) 1) n \<longleftrightarrow> bit m n \<or> n = 31 - i"
      using i by (auto simp: bit_or_iff push_bit_eq_mult bit_exp_iff)
    then show ?thesis
      using i m(2) [of n] by presburger
  qed
  ultimately show ?case
    by blast
qed simp

lemma ip4_mask_from_width:
  assumes "width \<le> 32"
  obtains m where "ip4_address_mask_from_width width = Some m"
    and "\<And>n. bit m n \<longleftrightarrow> n < 32 \<and> 32 \<le> n + width"
  using bit_ip4_mask_loop [OF assms] by (auto simp: ip4_address_mask_from_width_def)

lemma ip4_mask_too_wide: "32 < width \<Longrightarrow> ip4_address_mask_from_width width = None"
  by (cases width; cases "ip4_mask_loop (width - 1)") (simp_all add: ip4_address_mask_from_width_def)

lemma ip4_mask_from_width_iff: "ip4_address_mask_from_width width = None \<longleftrightarrow> 32 < width"
  using ip4_mask_too_wide [of width] ip4_mask_from_width [of width]
  by (metis not_less option.distinct(1))

text \<open>The mask of the first bits of an address of 128 bits, and what VPP promises about its functions.\<close>

definition prefix_mask :: "nat \<Rightarrow> ip6_address" where
  "prefix_mask width = NOT (mask (128 - width))"

definition ip_functions :: "'v rules_lib_scheme \<Rightarrow> bool" where
  "ip_functions lib \<longleftrightarrow>
     (\<forall>a. ip46_address_set_ip4 lib a = ucast a)
     \<and> (\<forall>m. ip46_address_mask_ip4 lib m = m AND mask 32)
     \<and> (\<forall>w \<le> 128. ip6_address_mask_from_width lib w = prefix_mask w)
     \<and> (\<forall>w \<le> 128. fib_masks lib w = prefix_mask w)"

lemma and_high_mask: "(x :: 'a::len word) AND NOT (mask n) = push_bit n (drop_bit n x)"
  by (rule bit_word_eqI) (auto simp: bit_simps)

lemma push_drop_eq_iff:
  "push_bit n (drop_bit n (x :: 'a::len word)) = push_bit n (drop_bit n y) \<longleftrightarrow> drop_bit n x = drop_bit n y"
proof
  assume "push_bit n (drop_bit n x) = push_bit n (drop_bit n y)"
  then have "bit (push_bit n (drop_bit n x)) (n + k) = bit (push_bit n (drop_bit n y)) (n + k)" for k
    by simp
  then show "drop_bit n x = drop_bit n y"
    by (intro bit_word_eqI) (auto simp: bit_simps dest: bit_imp_le_length)
qed simp

lemma masked_prefix:
  "ip46_address_is_equal_masked a b (prefix_mask width)
     \<longleftrightarrow> drop_bit (128 - width) a = drop_bit (128 - width) b"
  by (simp add: ip46_address_is_equal_masked_def prefix_mask_def and_high_mask push_drop_eq_iff)

text \<open>The mask of an IPv4 prefix compares the first bits of the last four octets.\<close>

lemma masked_ip4:
  fixes a b :: ip46_address and m :: ip4_address
  assumes m: "\<And>n. bit m n \<longleftrightarrow> n < 32 \<and> 32 \<le> n + width"
  shows "ip46_address_is_equal_masked a b (ucast m)
     \<longleftrightarrow> drop_bit (32 - width) (ucast a :: ip4_address) = drop_bit (32 - width) (ucast b)"
proof -
  have "a AND ucast m = b AND ucast m \<longleftrightarrow> (\<forall>n. n < 32 \<and> 32 \<le> n + width \<longrightarrow> bit a n = bit b n)"
  proof
    assume eq: "a AND ucast m = b AND ucast m"
    show "\<forall>n. n < 32 \<and> 32 \<le> n + width \<longrightarrow> bit a n = bit b n"
    proof (intro allI impI)
      fix n
      assume "n < 32 \<and> 32 \<le> n + width"
      then show "bit a n = bit b n"
        using arg_cong [OF eq, of "\<lambda>w. bit w n"] by (simp add: bit_simps m)
    qed
  qed (auto intro!: bit_word_eqI simp: bit_simps m)
  also have "\<dots> \<longleftrightarrow> drop_bit (32 - width) (ucast a :: ip4_address) = drop_bit (32 - width) (ucast b)"
    (is "?L = (?A = ?B)")
  proof
    assume eq: "?A = ?B"
    show ?L
    proof (intro allI impI)
      fix n
      assume n: "n < 32 \<and> 32 \<le> n + width"
      then have "32 - width + (n - (32 - width)) = n"
        by arith
      then show "bit a n = bit b n"
        using n arg_cong [OF eq, of "\<lambda>w. bit w (n - (32 - width))"] by (simp add: bit_simps)
    qed
  qed (auto intro!: bit_word_eqI simp: bit_simps)
  finally show ?thesis
    by (simp add: ip46_address_is_equal_masked_def)
qed

section \<open>What a filter means\<close>

text \<open>
  The packets that an IP filter of a detection rule describes, independent of how it is compiled. The
  address of the user equipment stands for itself (IPv4) or for its prefix of 64 bits (IPv6); the filter
  describes packets towards the user equipment, so that for packets from the access side source and
  destination are exchanged.
\<close>

definition ue_prefix_matches :: "bool \<Rightarrow> upf_pdr_t \<Rightarrow> ip46_address \<Rightarrow> bool" where
  "ue_prefix_matches is_ip4 pdr ip \<longleftrightarrow>
     (let ue = pdi_ue_addr (pdr_pdi pdr) in
      bit (pdi_fields (pdr_pdi pdr)) 2 \<longrightarrow>
        (if is_ip4 then bit (ue_flags ue) 1 \<longrightarrow> ucast ip = ue_ip4 ue
         else bit (ue_flags ue) 0 \<longrightarrow> drop_bit 64 ip = drop_bit 64 (ue_ip6 ue)))"

definition filter_address_matches :: "bool \<Rightarrow> upf_pdr_t \<Rightarrow> ipfilter_address_t \<Rightarrow> ip46_address \<Rightarrow> bool" where
  "filter_address_matches is_ip4 pdr addr ip \<longleftrightarrow>
     (if acl_addr_is_any addr then True
      else if acl_addr_is_assigned addr then ue_prefix_matches is_ip4 pdr ip
      else if is_ip4
      then drop_bit (32 - unat (ipf_mask addr)) (ucast ip :: ip4_address)
             = drop_bit (32 - unat (ipf_mask addr)) (ucast (ipf_address addr))
      else drop_bit (128 - unat (ipf_mask addr)) ip = drop_bit (128 - unat (ipf_mask addr)) (ipf_address addr))"

definition filter_port_matches :: "ipfilter_port_t \<Rightarrow> u16 \<Rightarrow> bool" where
  "filter_port_matches port p \<longleftrightarrow> port_min port \<le> p \<and> p \<le> port_max port"

text \<open>The ends of a flow seen in a direction: \<open>False\<close> is the sender.\<close>

definition flow_ip :: "flow_entry \<Rightarrow> bool \<Rightarrow> bool \<Rightarrow> ip46_address" where
  "flow_ip flow is_reverse d = dir_get (fk_ip (fe_key flow)) (d \<noteq> is_reverse)"

definition flow_port :: "flow_entry \<Rightarrow> bool \<Rightarrow> bool \<Rightarrow> u16" where
  "flow_port flow is_reverse d = dir_get (fk_port (fe_key flow)) (d \<noteq> is_reverse)"

definition from_access :: "upf_pdr_t \<Rightarrow> bool" where
  "from_access pdr \<longleftrightarrow> pdi_src_intf (pdr_pdi pdr) = SRC_INTF_ACCESS"

definition filter_matches :: "bool \<Rightarrow> upf_pdr_t \<Rightarrow> acl_rule_t \<Rightarrow> flow_entry \<Rightarrow> bool \<Rightarrow> bool" where
  "filter_matches is_ip4 pdr rule flow is_reverse \<longleftrightarrow>
     (rule_proto rule = -1 \<or> fk_proto (fe_key flow) = rule_proto rule)
     \<and> (\<forall>d. filter_address_matches is_ip4 pdr (dir_get (rule_address rule) d)
               (flow_ip flow is_reverse (d \<noteq> from_access pdr)))
     \<and> (\<forall>d. filter_port_matches (dir_get (rule_port rule) d)
               (flow_port flow is_reverse (d \<noteq> from_access pdr)))"

text \<open>
  The rest of a detection rule: the TEID, the address of the user equipment and the IP rules of an application.
  Of the address \<open>ue_in_flow\<close> says what it means; \<open>ue_compared\<close> is what of it the data path compares, which is
  nothing for IPv4, because the mask of 32 bits covers the left of the 16 octets, and the address is on the right.
\<close>

definition teid_matches :: "upf_pdr_t \<Rightarrow> u32 \<Rightarrow> bool" where
  "teid_matches pdr teid \<longleftrightarrow> (bit (pdi_fields (pdr_pdi pdr)) 0 \<longrightarrow> teid = ft_teid (pdi_teid (pdr_pdi pdr)))"

definition ue_in_rule :: "bool \<Rightarrow> upf_pdr_t \<Rightarrow> bool" where
  "ue_in_rule is_ip4 pdr \<longleftrightarrow> bit (pdi_fields (pdr_pdi pdr)) 2
     \<and> bit (ue_flags (pdi_ue_addr (pdr_pdi pdr))) (if is_ip4 then 1 else 0)"

definition ue_in_flow :: "bool \<Rightarrow> upf_pdr_t \<Rightarrow> flow_entry \<Rightarrow> bool \<Rightarrow> bool" where
  "ue_in_flow is_ip4 pdr flow is_reverse \<longleftrightarrow>
     ue_prefix_matches is_ip4 pdr (flow_ip flow is_reverse (\<not> from_access pdr))"

definition ue_compared :: "bool \<Rightarrow> upf_pdr_t \<Rightarrow> flow_entry \<Rightarrow> bool \<Rightarrow> bool" where
  "ue_compared is_ip4 pdr flow is_reverse \<longleftrightarrow> (\<not> is_ip4 \<longrightarrow> ue_in_flow False pdr flow is_reverse)"

lemma ue_in_flow_compared:
  "ue_in_flow is_ip4 pdr flow is_reverse \<Longrightarrow> ue_compared is_ip4 pdr flow is_reverse"
  "\<not> is_ip4 \<or> \<not> ue_in_rule is_ip4 pdr \<Longrightarrow> ue_in_flow is_ip4 pdr flow is_reverse = ue_compared is_ip4 pdr flow is_reverse"
  by (auto simp: ue_compared_def ue_in_flow_def ue_in_rule_def ue_prefix_matches_def Let_def)

definition application_matches :: "'v rules_lib_scheme \<Rightarrow> bool \<Rightarrow> upf_pdr_t \<Rightarrow> flow_entry \<Rightarrow> bool" where
  "application_matches lib is_ip4 pdr flow \<longleftrightarrow>
     (has_ip_rules pdr \<longrightarrow> ue_in_rule is_ip4 pdr
        \<and> upf_app_ip_rule_match lib (adr_db_id (pdi_adr (pdr_pdi pdr))) flow
            (if is_ip4 then ucast (ue_ip4 (pdi_ue_addr (pdr_pdi pdr))) else ue_ip6 (pdi_ue_addr (pdr_pdi pdr))))"

text \<open>What the data path looks for, and what the rule describes.\<close>

definition pdr_filter_matches ::
    "'v rules_lib_scheme \<Rightarrow> u32 \<Rightarrow> flow_entry \<Rightarrow> bool \<Rightarrow> bool \<Rightarrow> upf_pdr_t \<Rightarrow> acl_rule_t \<Rightarrow> bool" where
  "pdr_filter_matches lib teid flow is_reverse is_ip4 pdr rule \<longleftrightarrow>
     teid_matches pdr teid \<and> ue_compared is_ip4 pdr flow is_reverse
     \<and> application_matches lib is_ip4 pdr flow \<and> filter_matches is_ip4 pdr rule flow is_reverse"

definition pdr_describes ::
    "'v rules_lib_scheme \<Rightarrow> u32 \<Rightarrow> flow_entry \<Rightarrow> bool \<Rightarrow> bool \<Rightarrow> upf_pdr_t \<Rightarrow> acl_rule_t \<Rightarrow> bool" where
  "pdr_describes lib teid flow is_reverse is_ip4 pdr rule \<longleftrightarrow>
     teid_matches pdr teid \<and> ue_in_flow is_ip4 pdr flow is_reverse
     \<and> application_matches lib is_ip4 pdr flow \<and> filter_matches is_ip4 pdr rule flow is_reverse"

text \<open>An IPv4 flow has IPv4 addresses.\<close>

definition flow_of_family :: "bool \<Rightarrow> flow_entry \<Rightarrow> bool" where
  "flow_of_family is_ip4 flow \<longleftrightarrow>
     (is_ip4 \<longrightarrow> (\<forall>d. dir_get (fk_ip (fe_key flow)) d = ucast (ucast (dir_get (fk_ip (fe_key flow)) d) :: ip4_address)))"

section \<open>Compiled addresses\<close>

lemma put_ip4_member_0: "put_ip4_member m (0 AND mask 32) = ucast m" "put_ip4_member m 0 = ucast m"
  by (simp_all add: put_ip4_member_def)

lemma ucast_eq_masked_32:
  fixes a :: ip46_address and b m :: ip4_address
  assumes "\<And>n. bit m n \<longleftrightarrow> n < 32 \<and> 32 \<le> n + 32"
  shows "ip46_address_is_equal_masked a (ucast b) (ucast m) \<longleftrightarrow> ucast a = b"
proof -
  have "ucast (ucast b :: ip46_address) = b"
    by (rule bit_word_eqI) (simp add: bit_simps)
  then show ?thesis
    using masked_ip4 [of m 32 a "ucast b"] assms by simp
qed

text \<open>The pair of address and mask that a field of the filter is compiled to.\<close>

lemma assigned_address_exact:
  assumes lib: "ip_functions lib"
    and width: "\<not> is_ip4 \<longrightarrow> \<not> acl_addr_is_assigned addr \<longrightarrow> unat (ipf_mask addr) \<le> 128"
    and res: "assigned_address lib is_ip4 pdr addr (0, 0) = Some (ip, m)"
  shows "ip46_address_is_equal_masked a ip m \<longleftrightarrow> filter_address_matches is_ip4 pdr addr a"
proof -
  consider (any) "acl_addr_is_any addr" | (assigned) "\<not> acl_addr_is_any addr" "acl_addr_is_assigned addr"
    | (ip4) "\<not> acl_addr_is_any addr" "\<not> acl_addr_is_assigned addr" is_ip4
    | (ip6) "\<not> acl_addr_is_any addr" "\<not> acl_addr_is_assigned addr" "\<not> is_ip4"
    by blast
  then show ?thesis
  proof cases
    case any
    then show ?thesis
      using res by (auto simp: assigned_address_def filter_address_matches_def ip46_address_is_equal_masked_def)
  next
    case assigned
    obtain m32 where m32: "ip4_address_mask_from_width 32 = Some m32"
        "\<And>n. bit m32 n \<longleftrightarrow> n < 32 \<and> 32 \<le> n + 32"
      using ip4_mask_from_width [of 32] by blast
    show ?thesis
      using assigned res lib m32(1) ucast_eq_masked_32 [OF m32(2)]
      by (auto simp: assigned_address_def acl_set_ue_ip_def filter_address_matches_def Let_def
          ue_prefix_matches_def ip_functions_def put_ip4_member_0 masked_prefix
          ip46_address_is_equal_masked_def [of _ _ 0] split: if_splits)
  next
    case ip4
    then obtain m4 where m4: "ip4_address_mask_from_width (unat (ipf_mask addr)) = Some m4"
        "ip = ipf_address addr" "m = ucast m4"
      using res lib by (auto simp: assigned_address_def ip_functions_def put_ip4_member_0 bind_eq_Some_conv)
    have "unat (ipf_mask addr) \<le> 32"
      using m4(1) ip4_mask_from_width_iff by (metis not_less option.distinct(1))
    then obtain m' where "ip4_address_mask_from_width (unat (ipf_mask addr)) = Some m'"
        "\<And>n. bit m' n \<longleftrightarrow> n < 32 \<and> 32 \<le> n + unat (ipf_mask addr)"
      using ip4_mask_from_width by blast
    then show ?thesis
      using ip4 m4 masked_ip4 [of m' "unat (ipf_mask addr)"] by (simp add: filter_address_matches_def)
  next
    case ip6
    then show ?thesis
      using res lib width
      by (auto simp: assigned_address_def filter_address_matches_def ip_functions_def masked_prefix)
  qed
qed

section \<open>Compiled rules\<close>

lemma ip_assign_address_some:
  assumes "ip_assign_address lib dst src is_ip4 pdr rule acl = Some acl'"
    and "dir_get (t5_address (acl_match acl)) dst = 0" "dir_get (t5_address (acl_mask acl)) dst = 0"
  obtains ip m where
    "assigned_address lib is_ip4 pdr (dir_get (rule_address rule) src) (0, 0) = Some (ip, m)"
    "acl' = acl\<lparr>acl_match := (acl_match acl)\<lparr>t5_address := dir_put dst ip (t5_address (acl_match acl))\<rparr>,
               acl_mask := (acl_mask acl)\<lparr>t5_address := dir_put dst m (t5_address (acl_mask acl))\<rparr>\<rparr>"
  using assms by (auto simp: ip_assign_address_def bind_eq_Some_conv)

text \<open>What \<^verbatim>\<open>compile_sdf\<close> leaves in the five-tuples.\<close>

definition holds_filter ::
    "'v rules_lib_scheme \<Rightarrow> bool \<Rightarrow> upf_pdr_t \<Rightarrow> acl_rule_t \<Rightarrow> upf_acl_t \<Rightarrow> bool" where
  "holds_filter lib is_ip4 pdr rule acl \<longleftrightarrow>
     (\<forall>d. let f = (d \<noteq> from_access pdr) in
        assigned_address lib is_ip4 pdr (dir_get (rule_address rule) d) (0, 0)
          = Some (dir_get (t5_address (acl_match acl)) f, dir_get (t5_address (acl_mask acl)) f)
        \<and> dir_get (t5_port (acl_mask acl)) f = port_min (dir_get (rule_port rule) d)
        \<and> dir_get (t5_port (acl_match acl)) f = port_max (dir_get (rule_port rule) d))
     \<and> t5_protocol (acl_mask acl) = (if rule_proto rule = -1 then 0 else -1)
     \<and> (rule_proto rule \<noteq> -1 \<longrightarrow> t5_protocol (acl_match acl) = rule_proto rule)"

text \<open>The two assignments of addresses and ports, for a direction \<open>f\<close>.\<close>

lemma assign_fields:
  assumes "ip_assign_address lib (\<not> f) False is_ip4 pdr rule acl = Some a1"
    and "ip_assign_address lib f True is_ip4 pdr rule a1 = Some a2"
    and zero: "t5_address (acl_mask acl) = (0, 0)" "t5_address (acl_match acl) = (0, 0)"
    and acl': "acl' = ip_assign_port f True rule (ip_assign_port (\<not> f) False rule a2)"
  shows "let g = (d \<noteq> (\<not> f)) in
      assigned_address lib is_ip4 pdr (dir_get (rule_address rule) d) (0, 0)
        = Some (dir_get (t5_address (acl_match acl')) g, dir_get (t5_address (acl_mask acl')) g)
      \<and> dir_get (t5_port (acl_mask acl')) g = port_min (dir_get (rule_port rule) d)
      \<and> dir_get (t5_port (acl_match acl')) g = port_max (dir_get (rule_port rule) d)"
    and "acl' = acl\<lparr>acl_mask := acl_mask acl', acl_match := acl_match acl'\<rparr>"
    and "t5_protocol (acl_mask acl') = t5_protocol (acl_mask acl)"
    and "t5_protocol (acl_match acl') = t5_protocol (acl_match acl)"
proof -
  obtain ip1 m1 where 1: "assigned_address lib is_ip4 pdr (dir_get (rule_address rule) False) (0, 0) = Some (ip1, m1)"
    and a1: "a1 = acl\<lparr>acl_match := (acl_match acl)\<lparr>t5_address := dir_put (\<not> f) ip1 (t5_address (acl_match acl))\<rparr>,
               acl_mask := (acl_mask acl)\<lparr>t5_address := dir_put (\<not> f) m1 (t5_address (acl_mask acl))\<rparr>\<rparr>"
    using ip_assign_address_some [OF assms(1)] zero by (metis dir_get.simps)
  have "dir_get (t5_address (acl_match a1)) f = 0" "dir_get (t5_address (acl_mask a1)) f = 0"
    using zero by (simp_all add: a1)
  then obtain ip2 m2 where 2: "assigned_address lib is_ip4 pdr (dir_get (rule_address rule) True) (0, 0) = Some (ip2, m2)"
    and a2: "a2 = a1\<lparr>acl_match := (acl_match a1)\<lparr>t5_address := dir_put f ip2 (t5_address (acl_match a1))\<rparr>,
               acl_mask := (acl_mask a1)\<lparr>t5_address := dir_put f m2 (t5_address (acl_mask a1))\<rparr>\<rparr>"
    using ip_assign_address_some [OF assms(2)] by metis
  show "let g = (d \<noteq> (\<not> f)) in
      assigned_address lib is_ip4 pdr (dir_get (rule_address rule) d) (0, 0)
        = Some (dir_get (t5_address (acl_match acl')) g, dir_get (t5_address (acl_mask acl')) g)
      \<and> dir_get (t5_port (acl_mask acl')) g = port_min (dir_get (rule_port rule) d)
      \<and> dir_get (t5_port (acl_match acl')) g = port_max (dir_get (rule_port rule) d)"
    by (cases d; cases f) (simp_all add: acl' a1 a2 1 2 ip_assign_port_def Let_def)
  show "acl' = acl\<lparr>acl_mask := acl_mask acl', acl_match := acl_match acl'\<rparr>"
      "t5_protocol (acl_mask acl') = t5_protocol (acl_mask acl)"
      "t5_protocol (acl_match acl') = t5_protocol (acl_match acl)"
    by (simp_all add: acl' a1 a2 ip_assign_port_def Let_def)
qed

lemma compile_sdf_holds:
  assumes sdf: "compile_sdf lib is_ip4 pdr rule acl = Some acl'"
    and zero: "acl_mask acl = zero_5tuple" "acl_match acl = zero_5tuple"
  shows "holds_filter lib is_ip4 pdr rule acl'
    \<and> acl' = acl\<lparr>acl_match_sdf := True, acl_mask := acl_mask acl', acl_match := acl_match acl'\<rparr>"
proof -
  define acl0 where "acl0 = (let acl = acl\<lparr>acl_match_sdf := True\<rparr> in
     if rule_proto rule \<noteq> -1
     then acl\<lparr>acl_mask := (acl_mask acl)\<lparr>t5_protocol := -1\<rparr>,
              acl_match := (acl_match acl)\<lparr>t5_protocol := rule_proto rule\<rparr>\<rparr>
     else acl)"
  have acl0: "t5_address (acl_mask acl0) = (0, 0)" "t5_address (acl_match acl0) = (0, 0)"
      "t5_protocol (acl_mask acl0) = (if rule_proto rule = -1 then 0 else -1)"
      "rule_proto rule \<noteq> -1 \<longrightarrow> t5_protocol (acl_match acl0) = rule_proto rule"
      "acl0\<lparr>acl_mask := x, acl_match := y\<rparr> = acl\<lparr>acl_match_sdf := True, acl_mask := x, acl_match := y\<rparr>" for x y
    by (simp_all add: acl0_def zero zero_5tuple_def Let_def)
  obtain a1 a2 where "ip_assign_address lib (from_access pdr) False is_ip4 pdr rule acl0 = Some a1"
      "ip_assign_address lib (\<not> from_access pdr) True is_ip4 pdr rule a1 = Some a2"
      "acl' = ip_assign_port (\<not> from_access pdr) True rule (ip_assign_port (from_access pdr) False rule a2)"
    using sdf unfolding compile_sdf_def acl0_def [unfolded Let_def, symmetric] Let_def
    by (cases "from_access pdr") (auto simp: from_access_def bind_eq_Some_conv)
  note fields = assign_fields [of lib "\<not> from_access pdr", unfolded not_not, OF this(1,2) acl0(1,2) this(3)]
  show ?thesis
    using fields(1) trans [OF fields(2) acl0(5)] by (simp add: holds_filter_def fields(3,4) acl0(3,4))
qed

text \<open>Widths of filters that the assertions of VPP let pass.\<close>

definition widths_ok :: "bool \<Rightarrow> acl_rule_t \<Rightarrow> bool" where
  "widths_ok is_ip4 rule \<longleftrightarrow>
     (\<forall>d. let addr = dir_get (rule_address rule) d in
        acl_addr_is_assigned addr \<or> unat (ipf_mask addr) \<le> (if is_ip4 then 32 else 128))"

lemma holds_filter_matches:
  assumes lib: "ip_functions lib" and widths: "widths_ok is_ip4 rule"
    and acl: "holds_filter lib is_ip4 pdr rule acl"
  shows "(fk_proto (fe_key flow) AND t5_protocol (acl_mask acl)
            = t5_protocol (acl_match acl) AND t5_protocol (acl_mask acl)
          \<and> (\<forall>d. acl_ip46_is_equal_masked (flow_ip flow is_reverse d) acl d)
          \<and> (\<forall>d. acl_port_in_range (flow_port flow is_reverse d) acl d))
    \<longleftrightarrow> filter_matches is_ip4 pdr rule flow is_reverse"
proof -
  have addr: "acl_ip46_is_equal_masked (flow_ip flow is_reverse (d \<noteq> from_access pdr)) acl (d \<noteq> from_access pdr)
      \<longleftrightarrow> filter_address_matches is_ip4 pdr (dir_get (rule_address rule) d)
            (flow_ip flow is_reverse (d \<noteq> from_access pdr))" for d
    unfolding acl_ip46_is_equal_masked_def
    using acl widths
    by (intro assigned_address_exact [OF lib]) (auto simp: holds_filter_def widths_ok_def Let_def)
  have port: "acl_port_in_range (flow_port flow is_reverse (d \<noteq> from_access pdr)) acl (d \<noteq> from_access pdr)
      \<longleftrightarrow> filter_port_matches (dir_get (rule_port rule) d) (flow_port flow is_reverse (d \<noteq> from_access pdr))" for d
    using acl by (simp add: acl_port_in_range_def filter_port_matches_def holds_filter_def Let_def)
  have all: "(\<forall>d. P d) \<longleftrightarrow> (\<forall>d. P (d \<noteq> from_access pdr))" for P
    by (cases "from_access pdr") (simp_all add: all_bool_eq conj_commute)
  have proto: "(fk_proto (fe_key flow) AND t5_protocol (acl_mask acl)
        = t5_protocol (acl_match acl) AND t5_protocol (acl_mask acl))
      \<longleftrightarrow> rule_proto rule = -1 \<or> fk_proto (fe_key flow) = rule_proto rule"
    using acl by (simp add: holds_filter_def)
  have addrs: "(\<forall>d. acl_ip46_is_equal_masked (flow_ip flow is_reverse d) acl d)
      \<longleftrightarrow> (\<forall>d. filter_address_matches is_ip4 pdr (dir_get (rule_address rule) d)
                   (flow_ip flow is_reverse (d \<noteq> from_access pdr)))"
    using all [of "\<lambda>d. acl_ip46_is_equal_masked (flow_ip flow is_reverse d) acl d"] by (simp only: addr)
  have ports: "(\<forall>d. acl_port_in_range (flow_port flow is_reverse d) acl d)
      \<longleftrightarrow> (\<forall>d. filter_port_matches (dir_get (rule_port rule) d)
                   (flow_port flow is_reverse (d \<noteq> from_access pdr)))"
    using all [of "\<lambda>d. acl_port_in_range (flow_port flow is_reverse d) acl d"] by (simp only: port)
  show ?thesis
    by (simp only: filter_matches_def proto addrs ports)
qed

text \<open>The other fields of a compiled rule.\<close>

lemma compile_pdi_some:
  assumes "compile_pdi lib is_ip4 pdr rule idx sw_if_index = Some acl"
  shows "holds_filter lib is_ip4 pdr rule acl"
    and "acl_is_ip4 acl = is_ip4" "acl_precedence acl = ucast (pdr_precedence pdr)" "acl_pdr_idx acl = idx"
    and "acl_match_teid acl \<longleftrightarrow> bit (pdi_fields (pdr_pdi pdr)) 0"
    and "acl_match_teid acl \<Longrightarrow> acl_teid acl = ft_teid (pdi_teid (pdr_pdi pdr))"
    and "acl_match_ue_ip acl = (if ue_in_rule is_ip4 pdr then if from_access pdr then UPF_ACL_UL else UPF_ACL_DL
                                else UPF_ACL_NO_UE)"
    and "ue_in_rule is_ip4 pdr \<Longrightarrow> acl_ue_ip acl =
           (if is_ip4 then ip46_address_set_ip4 lib (ue_ip4 (pdi_ue_addr (pdr_pdi pdr)))
            else ue_ip6 (pdi_ue_addr (pdr_pdi pdr)))"
    and "acl_match_ip_app acl \<longleftrightarrow> has_ip_rules pdr"
proof -
  obtain fib a where a: "compile_sdf lib is_ip4 pdr rule
       (compile_teid pdr (zero_acl\<lparr>acl_is_ip4 := is_ip4, acl_precedence := ucast (pdr_precedence pdr),
                   acl_fib_index := fib, acl_pdr_idx := idx\<rparr>)) = Some a"
    and acl: "acl = (let acl = compile_ue_ip lib is_ip4 pdr a in
                     if has_ip_rules pdr then acl\<lparr>acl_match_ip_app := True\<rparr> else acl)"
    using assms by (auto simp: compile_pdi_def bind_eq_Some_conv Let_def)
  have "acl_mask (compile_teid pdr (zero_acl\<lparr>acl_is_ip4 := is_ip4, acl_precedence := ucast (pdr_precedence pdr),
                   acl_fib_index := fib, acl_pdr_idx := idx\<rparr>)) = zero_5tuple"
       "acl_match (compile_teid pdr (zero_acl\<lparr>acl_is_ip4 := is_ip4, acl_precedence := ucast (pdr_precedence pdr),
                   acl_fib_index := fib, acl_pdr_idx := idx\<rparr>)) = zero_5tuple"
    by (simp_all add: compile_teid_def zero_acl_def)
  from compile_sdf_holds [OF a this]
  have h: "holds_filter lib is_ip4 pdr rule a"
    and a': "a = (compile_teid pdr (zero_acl\<lparr>acl_is_ip4 := is_ip4, acl_precedence := ucast (pdr_precedence pdr),
        acl_fib_index := fib, acl_pdr_idx := idx\<rparr>))\<lparr>acl_match_sdf := True, acl_mask := acl_mask a, acl_match := acl_match a\<rparr>"
    by blast+
  have a_fields: "acl_is_ip4 a = is_ip4" "acl_precedence a = ucast (pdr_precedence pdr)" "acl_pdr_idx a = idx"
      "acl_match_teid a \<longleftrightarrow> bit (pdi_fields (pdr_pdi pdr)) 0"
      "bit (pdi_fields (pdr_pdi pdr)) 0 \<Longrightarrow> acl_teid a = ft_teid (pdi_teid (pdr_pdi pdr))"
      "acl_match_ue_ip a = UPF_ACL_NO_UE" "\<not> acl_match_ip_app a"
    by (subst a', simp add: compile_teid_def zero_acl_def)+
  have same: "acl_mask acl = acl_mask a" "acl_match acl = acl_match a"
    by (simp_all add: acl compile_ue_ip_def Let_def)
  then show "holds_filter lib is_ip4 pdr rule acl"
    using h by (simp add: holds_filter_def)
  show "acl_is_ip4 acl = is_ip4" "acl_precedence acl = ucast (pdr_precedence pdr)" "acl_pdr_idx acl = idx"
      "acl_match_teid acl \<longleftrightarrow> bit (pdi_fields (pdr_pdi pdr)) 0"
    by (simp_all add: acl compile_ue_ip_def Let_def a_fields)
  show "acl_teid acl = ft_teid (pdi_teid (pdr_pdi pdr))" if "acl_match_teid acl"
    using that by (simp add: acl compile_ue_ip_def Let_def a_fields split: if_splits)
  show "acl_match_ue_ip acl = (if ue_in_rule is_ip4 pdr then if from_access pdr then UPF_ACL_UL else UPF_ACL_DL
                                else UPF_ACL_NO_UE)"
    by (simp add: acl compile_ue_ip_def Let_def a_fields ue_in_rule_def from_access_def)
  show "acl_ue_ip acl =
           (if is_ip4 then ip46_address_set_ip4 lib (ue_ip4 (pdi_ue_addr (pdr_pdi pdr)))
            else ue_ip6 (pdi_ue_addr (pdr_pdi pdr)))" if "ue_in_rule is_ip4 pdr"
    using that by (auto simp: acl compile_ue_ip_def Let_def ue_in_rule_def split: if_splits)
  show "acl_match_ip_app acl \<longleftrightarrow> has_ip_rules pdr"
    by (simp add: acl compile_ue_ip_def Let_def a_fields)
qed

section \<open>A compiled rule matches what its filter describes\<close>

lemma flow_ip_high_bits:
  assumes "flow_of_family True flow"
  shows "drop_bit 96 (flow_ip flow is_reverse d) = 0"
proof -
  have "flow_ip flow is_reverse d = ucast (ucast (flow_ip flow is_reverse d) :: ip4_address)"
    using assms by (simp add: flow_of_family_def flow_ip_def)
  moreover have "drop_bit 96 (ucast (x :: ip4_address) :: ip46_address) = 0" for x
    by (rule bit_word_eqI) (auto simp: bit_simps dest: bit_imp_le_length)
  ultimately show ?thesis
    by metis
qed

lemma ue_check_exact:
  assumes lib: "ip_functions lib" and flow: "flow_of_family is_ip4 flow" and ue: "ue_in_rule is_ip4 pdr"
    and acl: "acl_ue_ip acl = (if is_ip4 then ip46_address_set_ip4 lib (ue_ip4 (pdi_ue_addr (pdr_pdi pdr)))
                               else ue_ip6 (pdi_ue_addr (pdr_pdi pdr)))"
  shows "ip46_address_is_equal_masked (acl_ue_ip acl) (flow_ip flow is_reverse (\<not> from_access pdr))
           (fib_masks lib (if is_ip4 then 32 else 64))
     \<longleftrightarrow> ue_compared is_ip4 pdr flow is_reverse"
proof (cases is_ip4)
  case True
  have "drop_bit 96 (ucast (x :: ip4_address) :: ip46_address) = 0" for x
    by (rule bit_word_eqI) (auto simp: bit_simps dest: bit_imp_le_length)
  then show ?thesis
    using True lib acl flow_ip_high_bits [of flow] flow
    by (simp add: ip_functions_def masked_prefix ue_compared_def ue_in_flow_def)
next
  case False
  then show ?thesis
    using lib acl ue
    by (auto simp: ip_functions_def masked_prefix ue_compared_def ue_in_flow_def ue_prefix_matches_def ue_in_rule_def)
qed

lemma classify_one_exact:
  assumes lib: "ip_functions lib" and widths: "widths_ok is_ip4 rule"
    and acl: "compile_pdi lib is_ip4 pdr rule idx sw_if_index = Some acl"
    and pdr: "vec_elt (elts (r_pdr active)) idx = Some pdr"
    and flow: "flow_of_family is_ip4 flow"
  shows "upf_acl_classify_one lib teid flow is_reverse is_ip4 acl active
     = Some (pdr_filter_matches lib teid flow is_reverse is_ip4 pdr rule)"
proof -
  note c = compile_pdi_some [OF acl]
  let ?ue = "ue_in_rule is_ip4 pdr"
  have teid: "acl_match_teid acl \<and> teid \<noteq> acl_teid acl \<longleftrightarrow> \<not> teid_matches pdr teid"
    using c(5,6) by (auto simp: teid_matches_def)
  have ul: "acl_match_ue_ip acl = UPF_ACL_UL
       \<and> \<not> ip46_address_is_equal_masked (acl_ue_ip acl) (flow_ip flow is_reverse False) (fib_masks lib (if is_ip4 then 32 else 64))
     \<longleftrightarrow> ?ue \<and> from_access pdr \<and> \<not> ue_compared is_ip4 pdr flow is_reverse"
    using c(7,8) ue_check_exact [OF lib flow _ c(8), of is_reverse] by (auto split: if_splits)
  have dl: "acl_match_ue_ip acl = UPF_ACL_DL
       \<and> \<not> ip46_address_is_equal_masked (acl_ue_ip acl) (flow_ip flow is_reverse True) (fib_masks lib (if is_ip4 then 32 else 64))
     \<longleftrightarrow> ?ue \<and> \<not> from_access pdr \<and> \<not> ue_compared is_ip4 pdr flow is_reverse"
    using c(7,8) ue_check_exact [OF lib flow _ c(8), of is_reverse] by (auto split: if_splits)
  have no_ue: "acl_match_ue_ip acl = UPF_ACL_NO_UE \<longleftrightarrow> \<not> ?ue"
    using c(7) by simp
  have in_flow: "\<not> ?ue \<Longrightarrow> ue_compared is_ip4 pdr flow is_reverse"
    by (auto simp: ue_compared_def ue_in_flow_def ue_prefix_matches_def ue_in_rule_def)
  have app: "(if \<not> acl_match_ip_app acl then Some True
        else if acl_match_ue_ip acl = UPF_ACL_NO_UE then Some False
        else do {
          pdr \<leftarrow> vec_elt (elts (r_pdr active)) (acl_pdr_idx acl);
          Some (upf_app_ip_rule_match lib (adr_db_id (pdi_adr (pdr_pdi pdr))) flow (acl_ue_ip acl))
        }) = Some (application_matches lib is_ip4 pdr flow)"
    using c(4,8,9) lib by (auto simp: no_ue pdr application_matches_def ip_functions_def)
  have filter: "(fk_proto (fe_key flow) AND t5_protocol (acl_mask acl)
            = t5_protocol (acl_match acl) AND t5_protocol (acl_mask acl)
          \<and> acl_ip46_is_equal_masked (flow_ip flow is_reverse False) acl False
          \<and> acl_ip46_is_equal_masked (flow_ip flow is_reverse True) acl True
          \<and> acl_port_in_range (flow_port flow is_reverse False) acl False
          \<and> acl_port_in_range (flow_port flow is_reverse True) acl True)
    \<longleftrightarrow> filter_matches is_ip4 pdr rule flow is_reverse"
    using holds_filter_matches [OF lib widths c(1), of flow is_reverse] by (auto simp: all_bool_eq)
  show ?thesis
    unfolding upf_acl_classify_one_def Let_def flow_ip_def [symmetric] flow_port_def [symmetric] c(2)
      teid ul dl app
    using in_flow by (auto simp: filter pdr_filter_matches_def)
qed

end
