(* ===== verification/Upf_Diff.thy ===== *)
theory Upf_Diff
  imports Upf_Update
begin

text \<open>
  The comparisons of \<^verbatim>\<open>src/upf/upf_pfcp.c\<close> are total preorders (the interface \<open>comparison\<close>), and
  \<^verbatim>\<open>vec_diff\<close> calls its argument exactly for the elements that are in only one of the vectors.
\<close>

section \<open>Comparing octets\<close>

lemma memcmp_refl [simp]: "memcmp xs xs = 0"
  by (induction xs) simp_all

lemma memcmp_swap: "memcmp ys xs = - memcmp xs ys"
  by (induction xs ys rule: memcmp.induct) auto

lemma memcmp_eq_0: "length xs = length ys \<Longrightarrow> memcmp xs ys = 0 \<longleftrightarrow> xs = ys"
  by (induction xs ys rule: memcmp.induct) auto

lemma memcmp_append:
  "length a = length c \<Longrightarrow> memcmp (a @ b) (c @ d) = (if a = c then memcmp b d else memcmp a c)"
  by (induction a c rule: list_induct2) auto

lemma memcmp_trans:
  assumes "length xs = length ys" "length ys = length zs" "memcmp xs ys \<le> 0" "memcmp ys zs \<le> 0"
  shows "memcmp xs zs \<le> 0"
  using assms
proof (induction xs ys zs rule: list_induct3)
  case (Cons x xs y ys z zs)
  then show ?case
    by (auto split: if_splits)
qed simp_all

lemma bytes_be_inj:
  assumes "bytes_be n (a :: 'a::len word) = bytes_be n b" "LENGTH('a) \<le> 8 * n"
  shows "a = b"
  using arg_cong [OF assms(1), of "word_of_be :: bytes \<Rightarrow> 'a word"] assms(2)
  by (simp add: take_bit_word_eq_self)

lemma length_mem_le [simp]: "length (mem_le n w) = n"
  by (simp add: mem_le_def)

lemma mem_le_inj: "mem_le n (a :: 'a::len word) = mem_le n b \<Longrightarrow> LENGTH('a) \<le> 8 * n \<Longrightarrow> a = b"
  by (simp add: mem_le_def bytes_be_inj)

section \<open>Comparisons\<close>

locale comparison =
  fixes compar :: "'a \<Rightarrow> 'a \<Rightarrow> int"
  assumes swap: "compar b a = - compar a b"
    and trans: "compar a b \<le> 0 \<Longrightarrow> compar b c \<le> 0 \<Longrightarrow> compar a c \<le> 0"
begin

lemma less_trans: "compar a b < 0 \<Longrightarrow> compar b c \<le> 0 \<Longrightarrow> compar a c < 0"
  using trans [of b c a] swap [of a c] swap [of a b] by linarith

lemma le_less_trans: "compar a b \<le> 0 \<Longrightarrow> compar b c < 0 \<Longrightarrow> compar a c < 0"
  using trans [of c a b] swap [of a c] swap [of b c] by linarith

lemma equal_trans: "compar a b = 0 \<Longrightarrow> compar b c = 0 \<Longrightarrow> compar a c = 0"
  using trans [of a b c] trans [of c b a] swap [of a b] swap [of b c] swap [of a c] by linarith

text \<open>Strictly increasing vectors: \<open>diff_walk\<close> finds the elements without a counterpart.\<close>

abbreviation increasing :: "'a list \<Rightarrow> bool" where
  "increasing \<equiv> sorted_wrt (\<lambda>a b. compar a b < 0)"

definition only_in :: "'a list \<Rightarrow> 'a list \<Rightarrow> 'a set" where
  "only_in xs ys = {x \<in> set xs. \<forall>y \<in> set ys. compar x y \<noteq> 0}"

lemma only_in_Nil [simp]: "only_in [] ys = {}" "only_in xs [] = set xs"
  by (auto simp: only_in_def)

lemma only_in_less:
  assumes "increasing (y # ys)" "compar x y < 0"
  shows "only_in (x # xs) (y # ys) = insert x (only_in xs (y # ys))"
    and "only_in (y # ys) (x # xs) = only_in (y # ys) xs"
proof -
  have less: "compar x z < 0" if "z \<in> set (y # ys)" for z
    using that assms less_trans [of x y z] by (auto simp: less_imp_le)
  then show "only_in (x # xs) (y # ys) = insert x (only_in xs (y # ys))"
    by (fastforce simp: only_in_def)
  have "compar z x \<noteq> 0" if "z \<in> set (y # ys)" for z
    using less [OF that] swap [of z x] by simp
  then show "only_in (y # ys) (x # xs) = only_in (y # ys) xs"
    by (auto simp: only_in_def)
qed

lemma only_in_equal:
  assumes "increasing (x # xs)" "increasing (y # ys)" "compar x y = 0"
  shows "only_in (x # xs) (y # ys) = only_in xs ys"
proof -
  have "compar z y \<noteq> 0" if "z \<in> set xs" for z
    using that assms le_less_trans [of y x z] swap [of x y] swap [of y z] by auto
  then show ?thesis
    using assms(3) by (auto simp: only_in_def)
qed

lemma diff_walk_set:
  "increasing new \<Longrightarrow> increasing old \<Longrightarrow>
     set (diff_walk compar new old)
       = (\<lambda>x. (x, True)) ` only_in new old \<union> (\<lambda>y. (y, False)) ` only_in old new"
proof (induction "length new + length old" arbitrary: new old rule: less_induct)
  case less
  show ?case
  proof (cases "new = [] \<or> old = []")
    case True
    then show ?thesis
      by (cases new; cases old) auto
  next
    case False
    then obtain x xs y ys where eqs: "new = x # xs" "old = y # ys"
      by (meson neq_Nil_conv)
    consider (same) "compar x y = 0" | (add) "compar x y < 0" | (del) "compar y x < 0" "compar x y > 0"
      using swap [of x y] by linarith
    then show ?thesis
    proof cases
      case same
      then have "set (diff_walk compar xs ys)
          = (\<lambda>x. (x, True)) ` only_in xs ys \<union> (\<lambda>y. (y, False)) ` only_in ys xs"
        using less eqs by simp
      then show ?thesis
        using same less.prems swap [of x y] by (simp add: eqs only_in_equal)
    next
      case add
      then have "set (diff_walk compar xs old)
          = (\<lambda>x. (x, True)) ` only_in xs old \<union> (\<lambda>y. (y, False)) ` only_in old xs"
        using less eqs by simp
      then show ?thesis
        using add less.prems by (simp add: eqs only_in_less)
    next
      case del
      then have "set (diff_walk compar new ys)
          = (\<lambda>x. (x, True)) ` only_in new ys \<union> (\<lambda>y. (y, False)) ` only_in ys new"
        using less eqs by simp
      then show ?thesis
        using del less.prems by (simp add: eqs only_in_less)
    qed
  qed
qed

text \<open>No two calls concern equal elements.\<close>

lemma diff_walk_distinct:
  "increasing new \<Longrightarrow> increasing old \<Longrightarrow> increasing (map fst (diff_walk compar new old))"
proof (induction "length new + length old" arbitrary: new old rule: less_induct)
  case less
  show ?case
  proof (cases "new = [] \<or> old = []")
    case True
    then show ?thesis
      using less.prems by (cases new; cases old) (auto simp: sorted_wrt_map comp_def)
  next
    case False
    then obtain x xs y ys where eqs: "new = x # xs" "old = y # ys"
      by (meson neq_Nil_conv)
    have sub: "z \<in> set xs \<union> set (y # ys)" if "z \<in> fst ` set (diff_walk compar xs (y # ys))" for z
      using that less.prems eqs by (auto simp: diff_walk_set only_in_def)
    have sub': "z \<in> set (x # xs) \<union> set ys" if "z \<in> fst ` set (diff_walk compar (x # xs) ys)" for z
      using that less.prems eqs by (auto simp: diff_walk_set only_in_def)
    consider (same) "compar x y = 0" | (add) "compar x y < 0" | (del) "compar y x < 0" "compar x y > 0"
      using swap [of x y] by linarith
    then show ?thesis
    proof cases
      case same
      then show ?thesis
        using less eqs by simp
    next
      case add
      have "compar x z < 0" if "z \<in> fst ` set (diff_walk compar xs (y # ys))" for z
        using sub [OF that] add less.prems eqs less_trans [of x y z] by (auto simp: less_imp_le)
      then show ?thesis
        using add less eqs by auto
    next
      case del
      have "compar y z < 0" if "z \<in> fst ` set (diff_walk compar (x # xs) ys)" for z
        using sub' [OF that] del less.prems eqs less_trans [of y x z] by (auto simp: less_imp_le)
      then show ?thesis
        using del less eqs by auto
    qed
  qed
qed

text \<open>A sorted vector without equal elements is increasing.\<close>

lemma increasing_sorted:
  assumes "sorted_wrt (\<lambda>a b. compar a b \<le> 0) xs"
    and "\<And>i j. i < j \<Longrightarrow> j < length xs \<Longrightarrow> compar (xs ! i) (xs ! j) \<noteq> 0"
  shows "increasing xs"
  using assms by (force simp: sorted_wrt_iff_nth_less)

end

text \<open>What sorting a vector promises, and a function that keeps the promise.\<close>

definition sorts :: "('a \<Rightarrow> 'a \<Rightarrow> int) \<Rightarrow> (('a \<Rightarrow> 'a \<Rightarrow> int) \<Rightarrow> 'a list \<Rightarrow> 'a list) \<Rightarrow> bool" where
  "sorts compar srt \<longleftrightarrow>
     (\<forall>xs. mset (srt compar xs) = mset xs \<and> sorted_wrt (\<lambda>a b. compar a b \<le> 0) (srt compar xs))"

lemma sorts_set: "sorts compar srt \<Longrightarrow> set (srt compar xs) = set xs"
  by (metis sorts_def set_mset_mset)

lemma sorts_map: "sorts compar srt \<Longrightarrow> mset (map f (srt compar xs)) = mset (map f xs)"
  by (simp add: sorts_def)

fun insert_by :: "('a \<Rightarrow> 'a \<Rightarrow> int) \<Rightarrow> 'a \<Rightarrow> 'a list \<Rightarrow> 'a list" where
  "insert_by compar x [] = [x]"
| "insert_by compar x (y # ys) = (if compar x y \<le> 0 then x # y # ys else y # insert_by compar x ys)"

definition insertion_sort :: "('a \<Rightarrow> 'a \<Rightarrow> int) \<Rightarrow> 'a list \<Rightarrow> 'a list" where
  "insertion_sort compar xs = foldr (insert_by compar) xs []"

lemma mset_insert_by: "mset (insert_by compar x xs) = add_mset x (mset xs)"
  by (induction xs) auto

lemma set_insert_by: "set (insert_by compar x xs) = insert x (set xs)"
  by (induction xs) auto

context comparison
begin

lemma sorted_insert_by:
  "sorted_wrt (\<lambda>a b. compar a b \<le> 0) xs \<Longrightarrow> sorted_wrt (\<lambda>a b. compar a b \<le> 0) (insert_by compar x xs)"
proof (induction xs)
  case (Cons y ys)
  then show ?case
    using trans [of x y] swap [of x y] by (auto simp: set_insert_by)
qed simp

lemma insertion_sort_sorts: "sorts compar insertion_sort"
proof -
  have "mset (foldr (insert_by compar) xs []) = mset xs
      \<and> sorted_wrt (\<lambda>a b. compar a b \<le> 0) (foldr (insert_by compar) xs [])" for xs
    by (induction xs) (simp_all add: mset_insert_by sorted_insert_by)
  then show ?thesis
    by (simp add: sorts_def insertion_sort_def)
qed

end

section \<open>Tables of the elements\<close>

text \<open>A comparison that tells keys apart, and a table that is kept up to date with \<^verbatim>\<open>vec_diff\<close>.\<close>

locale keyed_comparison = comparison compar for compar :: "'a \<Rightarrow> 'a \<Rightarrow> int" +
  fixes key :: "'a \<Rightarrow> 'k" and val :: "'a \<Rightarrow> 'v"
  assumes equal_iff: "compar a b = 0 \<longleftrightarrow> key a = key b"
begin

lemma increasing_srt:
  assumes "sorts compar srt" "distinct (map key xs)"
  shows "increasing (srt compar xs)"
proof (rule increasing_sorted)
  show "sorted_wrt (\<lambda>a b. compar a b \<le> 0) (srt compar xs)"
    using assms by (simp add: sorts_def)
  have "distinct (map key (srt compar xs))"
    using sorts_map [OF assms(1), of key xs] assms(2) by (metis distinct_count_atmost_1 set_mset_mset)
  then show "compar (srt compar xs ! i) (srt compar xs ! j) \<noteq> 0" if "i < j" "j < length (srt compar xs)" for i j
    using that by (auto simp: equal_iff distinct_conv_nth)
qed

definition table_op :: "'a \<Rightarrow> bool \<Rightarrow> ('k \<rightharpoonup> 'v) \<Rightarrow> 'k \<rightharpoonup> 'v" where
  "table_op x is_add T = T(key x := if is_add then Some (val x) else None)"

lemma fold_table_other:
  "k \<notin> key ` fst ` set ops \<Longrightarrow> fold (\<lambda>(x, is_add). table_op x is_add) ops T k = T k"
  by (induction ops arbitrary: T) (auto simp: table_op_def)

lemma fold_table_op:
  assumes "distinct (map key (map fst ops))" "(x, is_add) \<in> set ops"
  shows "fold (\<lambda>(x, is_add). table_op x is_add) ops T (key x) = (if is_add then Some (val x) else None)"
  using assms
proof (induction ops arbitrary: T)
  case (Cons op ops)
  show ?case
  proof (cases "(x, is_add) \<in> set ops")
    case True
    then show ?thesis
      using Cons by simp
  next
    case False
    then have "op = (x, is_add)" "key x \<notin> key ` fst ` set ops"
      using Cons.prems by (auto simp: image_iff)
    then show ?thesis
      by (simp add: fold_table_other) (simp add: table_op_def)
  qed
qed simp

lemma increasing_keys: "increasing xs \<Longrightarrow> distinct (map key xs)"
  by (induction xs) (auto simp: equal_iff [symmetric])

text \<open>After the walk the table has the keys of the new vector in place of those of the old one; an entry
  whose key is in both keeps its value.\<close>

lemma diff_table:
  fixes T :: "'k \<rightharpoonup> 'v"
  assumes new: "increasing new" and old: "increasing old"
  defines "T' \<equiv> fold (\<lambda>(x, is_add). table_op x is_add) (diff_walk compar new old) T"
  shows "x \<in> set new \<Longrightarrow> T' (key x) = (if key x \<in> key ` set old then T (key x) else Some (val x))"
    and "k \<notin> key ` set new \<Longrightarrow> T' k = (if k \<in> key ` set old then None else T k)"
proof -
  let ?ops = "diff_walk compar new old"
  have ops: "set ?ops = (\<lambda>x. (x, True)) ` only_in new old \<union> (\<lambda>y. (y, False)) ` only_in old new"
    by (rule diff_walk_set [OF new old])
  have dist: "distinct (map key (map fst ?ops))"
    by (rule increasing_keys [OF diff_walk_distinct [OF new old]])
  have only: "only_in xs ys = {x \<in> set xs. key x \<notin> key ` set ys}" for xs ys
    by (auto simp: only_in_def equal_iff)
  have other: "k \<notin> key ` fst ` set ?ops" if "k \<in> key ` set new \<longleftrightarrow> k \<in> key ` set old" for k
  proof -
    have "k \<notin> key ` only_in new old" "k \<notin> key ` only_in old new"
      using that by (auto simp: only)
    then show ?thesis
      by (auto simp: ops image_Un image_image)
  qed
  show "T' (key x) = (if key x \<in> key ` set old then T (key x) else Some (val x))" if "x \<in> set new"
  proof (cases "key x \<in> key ` set old")
    case True
    then have "key x \<notin> key ` fst ` set ?ops"
      using that by (intro other) simp
    then show ?thesis
      using True by (simp add: T'_def fold_table_other)
  next
    case False
    then have "(x, True) \<in> set ?ops"
      using that by (auto simp: ops only)
    then show ?thesis
      using False fold_table_op [OF dist] by (simp add: T'_def)
  qed
  show "T' k = (if k \<in> key ` set old then None else T k)" if "k \<notin> key ` set new"
  proof (cases "k \<in> key ` set old")
    case True
    then obtain y where "y \<in> set old" "k = key y"
      by blast
    then have "(y, False) \<in> set ?ops" "k = key y"
      using that by (auto simp: ops only)
    then show ?thesis
      using True fold_table_op [OF dist] by (auto simp: T'_def)
  next
    case False
    then have "k \<notin> key ` fst ` set ?ops"
      using that by (intro other) simp
    then show ?thesis
      using False by (simp add: T'_def fold_table_other)
  qed
qed

end

lemma intcmp_swap: "intcmp b a = - intcmp a b"
  by (auto simp: intcmp_def)

lemma intcmp_trans: "intcmp a b \<le> 0 \<Longrightarrow> intcmp b c \<le> 0 \<Longrightarrow> intcmp a (c :: 'a::linorder) \<le> 0"
  by (auto simp: intcmp_def split: if_splits)

lemma intcmp_eq_0 [simp]: "intcmp a b = 0 \<longleftrightarrow> a = b"
  by (auto simp: intcmp_def)

interpretation v4_teids: keyed_comparison v4_teid_cmp v4_key "\<lambda>e. (v4_rule_index e, si)" for si :: nat
proof
  show "v4_teid_cmp b a = - v4_teid_cmp a b" for a b
    unfolding v4_teid_cmp_def by (rule memcmp_swap)
  show "v4_teid_cmp a c \<le> 0" if "v4_teid_cmp a b \<le> 0" "v4_teid_cmp b c \<le> 0" for a b c
    using that unfolding v4_teid_cmp_def by (rule memcmp_trans [rotated 2]) simp_all
  show "v4_teid_cmp a b = 0 \<longleftrightarrow> v4_key a = v4_key b" for a b
    by (auto simp: v4_teid_cmp_def memcmp_eq_0 prod_eq_iff dest!: bytes_be_inj mem_le_inj)
qed

interpretation v6_teids: keyed_comparison v6_teid_cmp v6_key "\<lambda>e. (v6_rule_index e, si)" for si :: nat
proof
  show "v6_teid_cmp b a = - v6_teid_cmp a b" for a b
    unfolding v6_teid_cmp_def by (rule memcmp_swap)
  show "v6_teid_cmp a c \<le> 0" if "v6_teid_cmp a b \<le> 0" "v6_teid_cmp b c \<le> 0" for a b c
    using that unfolding v6_teid_cmp_def by (rule memcmp_trans [rotated 2]) simp_all
  show "v6_teid_cmp a b = 0 \<longleftrightarrow> v6_key a = v6_key b" for a b
    by (auto simp: v6_teid_cmp_def memcmp_eq_0 prod_eq_iff dest!: bytes_be_inj mem_le_inj)
qed

lemma length_mem_acl [simp]: "length (mem_acl a) = 128"
  by (simp add: mem_acl_def mem_5tuple_def)

interpretation acls: comparison upf_acl_cmp
proof
  show "upf_acl_cmp b a = - upf_acl_cmp a b" for a b
    unfolding upf_acl_cmp_def by (rule memcmp_swap)
  show "upf_acl_cmp a c \<le> 0" if "upf_acl_cmp a b \<le> 0" "upf_acl_cmp b c \<le> 0" for a b c
    using that unfolding upf_acl_cmp_def by (rule memcmp_trans [rotated 2]) simp_all
qed

interpretation ue_ips: comparison ip46_address_fib_cmp
proof
  show "ip46_address_fib_cmp b a = - ip46_address_fib_cmp a b" for a b
    using memcmp_swap [of "bytes_be 16 (uip_addr b)" "bytes_be 16 (uip_addr a)"]
    by (auto simp: ip46_address_fib_cmp_def intcmp_def)
  show "ip46_address_fib_cmp a c \<le> 0" if "ip46_address_fib_cmp a b \<le> 0" "ip46_address_fib_cmp b c \<le> 0" for a b c
    using that memcmp_trans [of "bytes_be 16 (uip_addr a)" "bytes_be 16 (uip_addr b)" "bytes_be 16 (uip_addr c)"]
    by (auto simp: ip46_address_fib_cmp_def Let_def intcmp_def split: if_splits)
qed

section \<open>The order of compiled rules\<close>

text \<open>The octets of the precedence come first, the least significant one before the others, so that the
  order is the one of the precedences as long as they fit into one octet.\<close>

lemma acl_order_precedence:
  assumes "upf_acl_cmp a b \<le> 0" "acl_precedence a < 256" "acl_precedence b < 256"
  shows "acl_precedence a \<le> acl_precedence b"
proof -
  have small: "mem_le 4 w = [ucast w, 0, 0, 0]" if "w < 256" for w :: u32
  proof -
    have "drop_bit 8 w = 0"
      using that by (simp add: drop_bit_eq_div word_less_nat_alt word_unat_eq_iff unat_div)
    then have "drop_bit (8 + n) w = 0" for n
      by (metis drop_bit_drop_bit drop_bit_of_0 add.commute)
    from this [of 0] this [of 8] this [of 16] show ?thesis
      by (simp add: mem_le_def numeral_eq_Suc)
  qed
  have "memcmp (mem_le 4 (acl_precedence a)) (mem_le 4 (acl_precedence b)) \<le> 0"
    using assms(1) unfolding upf_acl_cmp_def mem_acl_def by (simp add: memcmp_append split: if_splits)
  then have "(ucast (acl_precedence a) :: u8) \<le> ucast (acl_precedence b)"
    using assms(2,3) by (simp add: small split: if_splits)
  moreover have "unat (ucast w :: u8) = unat w" if "w < 256" for w :: u32
    using that by (simp add: unsigned_ucast_eq word_less_nat_alt take_bit_nat_eq_self)
  ultimately show ?thesis
    using assms(2,3) by (metis word_le_nat_alt)
qed

end
