(* ===== verification/Upf_Apply.thy ===== *)
theory Upf_Apply
  imports Upf_Match Upf_Diff
begin

text \<open>
  The rules that \<^verbatim>\<open>build_pfcp_rules\<close> compiles and what \<^verbatim>\<open>pfcp_update_apply\<close> makes of them: the active
  set of rules of the session and the tables of tunnels.
\<close>

section \<open>The compiled vectors\<close>

text \<open>The filters of a rule for a family, and their compilation.\<close>

definition rules_of :: "bool \<Rightarrow> upf_pdr_t \<Rightarrow> acl_rule_t list" where
  "rules_of is_ip4 pdr =
     filter (\<lambda>r. rule_type r = (if is_ip4 then IPFILTER_IPV4 else IPFILTER_IPV6) \<or> rule_type r = IPFILTER_WILDCARD)
       (pdi_acl (pdr_pdi pdr))"

definition compiles ::
    "'v rules_lib_scheme \<Rightarrow> rules_env \<Rightarrow> bool \<Rightarrow> nat \<Rightarrow> upf_pdr_t \<Rightarrow> acl_rule_t \<Rightarrow> upf_acl_t option" where
  "compiles lib env is_ip4 idx pdr rule = do {
     sw_if_index \<leftarrow> pdr_sw_if_index env pdr;
     compile_pdi lib is_ip4 pdr rule idx sw_if_index
   }"

text \<open>All members that the compilation of the rules of a session does not change.\<close>

definition same_rules :: "rules_t \<Rightarrow> rules_t \<Rightarrow> bool" where
  "same_rules r r' \<longleftrightarrow> r_pdr r' = r_pdr r \<and> r_far r' = r_far r \<and> r_urr r' = r_urr r \<and> r_qer r' = r_qer r
     \<and> r_send_end_marker r' = r_send_end_marker r \<and> r_inactivity_timer r' = r_inactivity_timer r"

lemma same_rules_refl [simp]: "same_rules r r"
  by (simp add: same_rules_def)

lemma same_rules_trans [trans]: "same_rules a b \<Longrightarrow> same_rules b c \<Longrightarrow> same_rules a c"
  by (simp add: same_rules_def)

lemma acl_vec_update [simp]:
  "acl_vec (r\<lparr>r_far := fs\<rparr>) = acl_vec r" "acl_vec (r\<lparr>r_urr := us\<rparr>) = acl_vec r"
  "acl_vec (r\<lparr>r_qer := qs\<rparr>) = acl_vec r" "acl_vec (r\<lparr>r_v4_teid := t4\<rparr>) = acl_vec r"
  "acl_vec (r\<lparr>r_v6_teid := t6\<rparr>) = acl_vec r" "acl_vec (r\<lparr>r_send_end_marker := em\<rparr>) = acl_vec r"
  "acl_vec (r\<lparr>r_inactivity_timer := it\<rparr>) = acl_vec r"
  by (simp_all add: acl_vec_def fun_eq_iff)

lemma build_acl_some:
  assumes "build_acl lib pdr idx sw rule r = Some r'"
  shows "r_v4_teid r' = r_v4_teid r" "r_v6_teid r' = r_v6_teid r" "same_rules r r'"
    and "if rule_type rule = (if is_ip4 then IPFILTER_IPV4 else IPFILTER_IPV6) \<or> rule_type rule = IPFILTER_WILDCARD
         then \<exists>acl. compile_pdi lib is_ip4 pdr rule idx sw = Some acl \<and> acl_vec r' is_ip4 = acl_vec r is_ip4 @ [acl]
         else acl_vec r' is_ip4 = acl_vec r is_ip4"
proof -
  have app: "(if has_ip_rules pdr then acl\<lparr>acl_match_ip_app := True\<rparr> else acl) = acl"
    if "compile_pdi lib True pdr rule idx sw = Some acl" for acl
    using compile_pdi_some(9) [OF that] by (cases acl) simp
  show "r_v4_teid r' = r_v4_teid r" "r_v6_teid r' = r_v6_teid r" "same_rules r r'"
    using assms by (cases "rule_type rule"; auto simp: build_acl_def bind_eq_Some_conv same_rules_def)+
  show "if rule_type rule = (if is_ip4 then IPFILTER_IPV4 else IPFILTER_IPV6) \<or> rule_type rule = IPFILTER_WILDCARD
         then \<exists>acl. compile_pdi lib is_ip4 pdr rule idx sw = Some acl \<and> acl_vec r' is_ip4 = acl_vec r is_ip4 @ [acl]
         else acl_vec r' is_ip4 = acl_vec r is_ip4"
    using assms by (cases is_ip4; cases "rule_type rule"; auto simp: build_acl_def bind_eq_Some_conv acl_vec_def app)
qed

lemma build_acls_some:
  assumes "build_acls lib pdr idx sw rules r = Some r'"
  shows "r_v4_teid r' = r_v4_teid r \<and> r_v6_teid r' = r_v6_teid r \<and> same_rules r r'
    \<and> (\<exists>acls. map Some acls = map (\<lambda>rule. compile_pdi lib is_ip4 pdr rule idx sw)
           (filter (\<lambda>r. rule_type r = (if is_ip4 then IPFILTER_IPV4 else IPFILTER_IPV6) \<or> rule_type r = IPFILTER_WILDCARD) rules)
         \<and> acl_vec r' is_ip4 = acl_vec r is_ip4 @ acls)"
  using assms
proof (induction rules arbitrary: r)
  case (Cons rule rules)
  then obtain r1 where r1: "build_acl lib pdr idx sw rule r = Some r1" "build_acls lib pdr idx sw rules r1 = Some r'"
    by (auto simp: bind_eq_Some_conv)
  note one = build_acl_some [OF r1(1)]
  from Cons.IH [OF r1(2)] obtain acls where acls:
      "map Some acls = map (\<lambda>rule. compile_pdi lib is_ip4 pdr rule idx sw)
           (filter (\<lambda>r. rule_type r = (if is_ip4 then IPFILTER_IPV4 else IPFILTER_IPV6) \<or> rule_type r = IPFILTER_WILDCARD) rules)"
      "acl_vec r' is_ip4 = acl_vec r1 is_ip4 @ acls"
    and rest: "r_v4_teid r' = r_v4_teid r1" "r_v6_teid r' = r_v6_teid r1" "same_rules r1 r'"
    by blast
  show ?case
  proof (cases "rule_type rule = (if is_ip4 then IPFILTER_IPV4 else IPFILTER_IPV6) \<or> rule_type rule = IPFILTER_WILDCARD")
    case True
    then obtain acl where "compile_pdi lib is_ip4 pdr rule idx sw = Some acl" "acl_vec r1 is_ip4 = acl_vec r is_ip4 @ [acl]"
      using one(4) [of is_ip4] by auto
    then have "map Some (acl # acls) = map (\<lambda>rule. compile_pdi lib is_ip4 pdr rule idx sw)
           (filter (\<lambda>r. rule_type r = (if is_ip4 then IPFILTER_IPV4 else IPFILTER_IPV6) \<or> rule_type r = IPFILTER_WILDCARD) (rule # rules))"
        "acl_vec r' is_ip4 = acl_vec r is_ip4 @ acl # acls"
      using True acls by simp_all
    then show ?thesis
      using one rest by (metis same_rules_trans)
  next
    case False
    then show ?thesis
      using one(1-3) one(4) [of is_ip4] rest acls by (auto intro: same_rules_trans)
  qed
qed simp

text \<open>The keys of tunnels: adding one keeps them distinct.\<close>

lemma keys_rules_add_v4_teid:
  "map v4_key (rules_add_v4_teid a t i es)
     = (if (a, t) \<in> v4_key ` set es then map v4_key es else map v4_key es @ [(a, t)])"
  by (induction es) auto

lemma keys_rules_add_v6_teid:
  "map v6_key (rules_add_v6_teid a t i es)
     = (if (a, t) \<in> v6_key ` set es then map v6_key es else map v6_key es @ [(a, t)])"
  by (induction es) auto

definition teids_distinct :: "rules_t \<Rightarrow> bool" where
  "teids_distinct r \<longleftrightarrow> distinct (map v4_key (r_v4_teid r)) \<and> distinct (map v6_key (r_v6_teid r))"

definition more_teids :: "rules_t \<Rightarrow> rules_t \<Rightarrow> bool" where
  "more_teids r r' \<longleftrightarrow> v4_key ` set (r_v4_teid r) \<subseteq> v4_key ` set (r_v4_teid r')
     \<and> v6_key ` set (r_v6_teid r) \<subseteq> v6_key ` set (r_v6_teid r') \<and> (teids_distinct r \<longrightarrow> teids_distinct r')"

lemma more_teids_refl [simp]: "more_teids r r"
  by (simp add: more_teids_def)

lemma more_teids_trans [trans]: "more_teids a b \<Longrightarrow> more_teids b c \<Longrightarrow> more_teids a c"
  unfolding more_teids_def by (meson order_trans)

lemma more_teids_v4:
  assumes "r_v4_teid r' = rules_add_v4_teid a t i (r_v4_teid r)" "r_v6_teid r' = r_v6_teid r"
  shows "more_teids r r'" "(a, t) \<in> v4_key ` set (r_v4_teid r')"
proof -
  have keys: "map v4_key (r_v4_teid r')
     = (if (a, t) \<in> v4_key ` set (r_v4_teid r) then map v4_key (r_v4_teid r) else map v4_key (r_v4_teid r) @ [(a, t)])"
    by (simp add: assms keys_rules_add_v4_teid)
  then have "v4_key ` set (r_v4_teid r') = insert (a, t) (v4_key ` set (r_v4_teid r))"
    by (simp flip: set_map split: if_splits) auto
  then show "more_teids r r'" "(a, t) \<in> v4_key ` set (r_v4_teid r')"
    using keys assms(2) by (auto simp: more_teids_def teids_distinct_def)
qed

lemma more_teids_v6:
  assumes "r_v6_teid r' = rules_add_v6_teid a t i (r_v6_teid r)" "r_v4_teid r' = r_v4_teid r"
  shows "more_teids r r'" "(a, t) \<in> v6_key ` set (r_v6_teid r')"
proof -
  have keys: "map v6_key (r_v6_teid r')
     = (if (a, t) \<in> v6_key ` set (r_v6_teid r) then map v6_key (r_v6_teid r) else map v6_key (r_v6_teid r) @ [(a, t)])"
    by (simp add: assms keys_rules_add_v6_teid)
  then have "v6_key ` set (r_v6_teid r') = insert (a, t) (v6_key ` set (r_v6_teid r))"
    by (simp flip: set_map split: if_splits) auto
  then show "more_teids r r'" "(a, t) \<in> v6_key ` set (r_v6_teid r')"
    using keys assms(2) by (auto simp: more_teids_def teids_distinct_def)
qed

text \<open>The tunnels of the local F-TEID of a rule.\<close>

definition v4_tunnel_of :: "upf_pdr_t \<Rightarrow> (ip4_address \<times> u32) set" where
  "v4_tunnel_of pdr = (let t = pdi_teid (pdr_pdi pdr) in
     if bit (pdi_fields (pdr_pdi pdr)) 0 \<and> bit (ft_flags t) 0 then {(ft_ip4 t, ft_teid t)} else {})"

definition v6_tunnel_of :: "upf_pdr_t \<Rightarrow> (ip6_address \<times> u32) set" where
  "v6_tunnel_of pdr = (let t = pdi_teid (pdr_pdi pdr) in
     if bit (pdi_fields (pdr_pdi pdr)) 0 \<and> bit (ft_flags t) 1 then {(ft_ip6 t, ft_teid t)} else {})"

lemma build_teids_more:
  assumes "bit (pdi_fields (pdr_pdi pdr)) 0"
  shows "more_teids r (build_teids pdr idx r)"
    and "v4_tunnel_of pdr \<subseteq> v4_key ` set (r_v4_teid (build_teids pdr idx r))"
    and "v6_tunnel_of pdr \<subseteq> v6_key ` set (r_v6_teid (build_teids pdr idx r))"
proof -
  let ?t = "pdi_teid (pdr_pdi pdr)"
  define r1 where "r1 = (if bit (ft_flags ?t) 0
     then r\<lparr>r_v4_teid := rules_add_v4_teid (ft_ip4 ?t) (ft_teid ?t) idx (r_v4_teid r)\<rparr> else r)"
  have r': "build_teids pdr idx r = (if bit (ft_flags ?t) 1
     then r1\<lparr>r_v6_teid := rules_add_v6_teid (ft_ip6 ?t) (ft_teid ?t) idx (r_v6_teid r1)\<rparr> else r1)"
    by (simp add: build_teids_def r1_def Let_def)
  have 1: "more_teids r r1" "v4_tunnel_of pdr \<subseteq> v4_key ` set (r_v4_teid r1)"
    using more_teids_v4 [of r1 "ft_ip4 ?t" "ft_teid ?t" idx r] by (auto simp: r1_def v4_tunnel_of_def Let_def)
  have 2: "more_teids r1 (build_teids pdr idx r)"
      "v6_tunnel_of pdr \<subseteq> v6_key ` set (r_v6_teid (build_teids pdr idx r))"
    using more_teids_v6 [of "build_teids pdr idx r" "ft_ip6 ?t" "ft_teid ?t" idx r1]
    by (auto simp: r' v6_tunnel_of_def Let_def)
  show "more_teids r (build_teids pdr idx r)"
    using 1 2 more_teids_trans by blast
  show "v4_tunnel_of pdr \<subseteq> v4_key ` set (r_v4_teid (build_teids pdr idx r))"
    using 1(2) 2(1) by (auto simp: more_teids_def)
  show "v6_tunnel_of pdr \<subseteq> v6_key ` set (r_v6_teid (build_teids pdr idx r))"
    by (rule 2(2))
qed

lemma build_teids_same [simp]:
  "same_rules s (build_teids pdr idx r) = same_rules s r" "acl_vec (build_teids pdr idx r) = acl_vec r"
  by (simp_all add: build_teids_def Let_def same_rules_def acl_vec_def fun_eq_iff)

lemma rules_add_ue_ip_same [simp]:
  "r_v4_teid (rules_add_ue_ip tdf ue d r) = r_v4_teid r" "r_v6_teid (rules_add_ue_ip tdf ue d r) = r_v6_teid r"
  "same_rules s (rules_add_ue_ip tdf ue d r) = same_rules s r" "acl_vec (rules_add_ue_ip tdf ue d r) = acl_vec r"
  by (simp_all add: rules_add_ue_ip_def Let_def same_rules_def acl_vec_def fun_eq_iff)

lemma build_ue_ips_some:
  assumes "build_ue_ips lib env pdr sw r = Some r'"
  shows "r_v4_teid r' = r_v4_teid r" "r_v6_teid r' = r_v6_teid r" "same_rules r r'" "acl_vec r' = acl_vec r"
proof -
  let ?ue = "pdi_ue_addr (pdr_pdi pdr)"
  obtain r1 where "r1 = r \<or> (\<exists>tdf ue d. r1 = rules_add_ue_ip tdf ue d r)"
    and "r' = r1 \<or> (\<exists>tdf ue d. r' = rules_add_ue_ip tdf ue d r1)"
    using assms unfolding build_ue_ips_def Let_def bind_eq_Some_conv
    by (cases "bit (ue_flags ?ue) 0"; cases "bit (ue_flags ?ue) 1") (auto simp: bind_eq_Some_conv)
  then show "r_v4_teid r' = r_v4_teid r" "r_v6_teid r' = r_v6_teid r" "same_rules r r'" "acl_vec r' = acl_vec r"
    by auto
qed

text \<open>One rule: its filters are compiled in order, and its tunnels are registered.\<close>

lemma build_pdr_some:
  assumes "build_pdr lib env idx pdr r = Some r'"
  shows "same_rules r r' \<and> more_teids r r'
    \<and> v4_tunnel_of pdr \<subseteq> v4_key ` set (r_v4_teid r') \<and> v6_tunnel_of pdr \<subseteq> v6_key ` set (r_v6_teid r')
    \<and> (\<exists>acls. map Some acls = map (compiles lib env is_ip4 idx pdr) (rules_of is_ip4 pdr)
         \<and> acl_vec r' is_ip4 = acl_vec r is_ip4 @ acls)"
proof -
  let ?f = "pdi_fields (pdr_pdi pdr)"
  obtain sw r1 r3 where sw: "pdr_sw_if_index env pdr = Some sw"
    and r1: "(if \<not> bit ?f 0 \<and> bit ?f 2 then build_ue_ips lib env pdr sw r else Some r) = Some r1"
    and r3: "build_acls lib pdr idx sw (pdi_acl (pdr_pdi pdr)) (if bit ?f 0 then build_teids pdr idx r1 else r1) = Some r3"
    and r': "r' = build_proxy pdr idx r3"
    using assms by (auto simp: build_pdr_def Let_def bind_eq_Some_conv simp del: ISSET_BIT_bit)
  have 1: "same_rules r r1" "r_v4_teid r1 = r_v4_teid r" "r_v6_teid r1 = r_v6_teid r" "acl_vec r1 = acl_vec r"
    using r1 build_ue_ips_some [of lib env pdr sw r r1] by (auto split: if_splits)
  define r2 where "r2 = (if bit ?f 0 then build_teids pdr idx r1 else r1)"
  have 2: "same_rules r1 r2" "acl_vec r2 = acl_vec r1" "more_teids r1 r2"
      "v4_tunnel_of pdr \<subseteq> v4_key ` set (r_v4_teid r2)" "v6_tunnel_of pdr \<subseteq> v6_key ` set (r_v6_teid r2)"
    using build_teids_more [where pdr = pdr and r = r1 and idx = idx]
    by (cases "bit ?f 0"; simp add: r2_def; simp add: v4_tunnel_of_def v6_tunnel_of_def)+
  from build_acls_some [OF r3 [folded r2_def], of is_ip4] obtain acls where 3: "same_rules r2 r3"
      "r_v4_teid r3 = r_v4_teid r2" "r_v6_teid r3 = r_v6_teid r2"
      "map Some acls = map (\<lambda>rule. compile_pdi lib is_ip4 pdr rule idx sw) (rules_of is_ip4 pdr)"
      "acl_vec r3 is_ip4 = acl_vec r2 is_ip4 @ acls"
    by (auto simp: rules_of_def)
  have 4: "same_rules r3 r'" "r_v4_teid r' = r_v4_teid r3" "r_v6_teid r' = r_v6_teid r3" "acl_vec r' = acl_vec r3"
    by (auto simp: r' build_proxy_def same_rules_def acl_vec_def fun_eq_iff)
  have "map Some acls = map (compiles lib env is_ip4 idx pdr) (rules_of is_ip4 pdr)"
    using 3(4) by (simp add: compiles_def sw)
  moreover have "acl_vec r' is_ip4 = acl_vec r is_ip4 @ acls"
    using 1(4) 2(2) 3(5) 4(4) by simp
  moreover have "same_rules r r'"
    using 1(1) 2(1) 3(1) 4(1) same_rules_trans by blast
  moreover have "more_teids r r'"
    using 1(2,3) 2(3) 3(2,3) 4(2,3) by (simp add: more_teids_def teids_distinct_def)
  ultimately show ?thesis
    using 2(4,5) 3(2,3) 4(2,3) by auto
qed

text \<open>All rules: the compiled filters, with the index of their rule.\<close>

definition compiled ::
    "'v rules_lib_scheme \<Rightarrow> rules_env \<Rightarrow> bool \<Rightarrow> nat \<Rightarrow> upf_pdr_t list \<Rightarrow> upf_acl_t set" where
  "compiled lib env is_ip4 k pdrs =
     {acl. \<exists>j < length pdrs. \<exists>rule \<in> set (rules_of is_ip4 (pdrs ! j)).
        compiles lib env is_ip4 (k + j) (pdrs ! j) rule = Some acl}"

definition all_compile ::
    "'v rules_lib_scheme \<Rightarrow> rules_env \<Rightarrow> bool \<Rightarrow> nat \<Rightarrow> upf_pdr_t list \<Rightarrow> bool" where
  "all_compile lib env is_ip4 k pdrs \<longleftrightarrow>
     (\<forall>j < length pdrs. \<forall>rule \<in> set (rules_of is_ip4 (pdrs ! j)).
        compiles lib env is_ip4 (k + j) (pdrs ! j) rule \<noteq> None)"

lemma compiled_Cons:
  "compiled lib env is_ip4 k (pdr # pdrs)
     = {acl. \<exists>rule \<in> set (rules_of is_ip4 pdr). compiles lib env is_ip4 k pdr rule = Some acl}
       \<union> compiled lib env is_ip4 (Suc k) pdrs"
  by (simp add: compiled_def Ex_less_Suc2 Collect_disj_eq)

lemma all_compile_Cons:
  "all_compile lib env is_ip4 k (pdr # pdrs)
     \<longleftrightarrow> (\<forall>rule \<in> set (rules_of is_ip4 pdr). compiles lib env is_ip4 k pdr rule \<noteq> None)
       \<and> all_compile lib env is_ip4 (Suc k) pdrs"
  by (simp add: all_compile_def All_less_Suc2)

lemma map_Some_set:
  assumes "map Some ys = map f xs"
  shows "set ys = {y. \<exists>x \<in> set xs. f x = Some y}" "\<forall>x \<in> set xs. f x \<noteq> None"
proof -
  have eq: "Some ` set ys = f ` set xs"
    using assms by (metis set_map)
  show "set ys = {y. \<exists>x \<in> set xs. f x = Some y}"
  proof (intro set_eqI iffI)
    fix y assume "y \<in> set ys"
    then have "Some y \<in> f ` set xs" using eq by blast
    then show "y \<in> {y. \<exists>x \<in> set xs. f x = Some y}" by auto
  next
    fix y assume "y \<in> {y. \<exists>x \<in> set xs. f x = Some y}"
    then have "Some y \<in> Some ` set ys" unfolding eq by (auto intro: rev_image_eqI)
    then show "y \<in> set ys" by auto
  qed
  show "\<forall>x \<in> set xs. f x \<noteq> None"
    using eq by (metis imageE imageI option.distinct(1))
qed

lemma build_pdrs_some:
  assumes "build_pdrs lib env k pdrs r = Some r'"
  shows "same_rules r r' \<and> more_teids r r'
    \<and> (\<forall>pdr \<in> set pdrs. v4_tunnel_of pdr \<subseteq> v4_key ` set (r_v4_teid r') \<and> v6_tunnel_of pdr \<subseteq> v6_key ` set (r_v6_teid r'))
    \<and> set (acl_vec r' is_ip4) = set (acl_vec r is_ip4) \<union> compiled lib env is_ip4 k pdrs
    \<and> all_compile lib env is_ip4 k pdrs"
  using assms
proof (induction pdrs arbitrary: k r)
  case Nil
  then show ?case
    by (simp add: compiled_def all_compile_def)
next
  case (Cons pdr pdrs)
  then obtain r1 where r1: "build_pdr lib env k pdr r = Some r1" "build_pdrs lib env (Suc k) pdrs r1 = Some r'"
    by (auto simp: bind_eq_Some_conv)
  from build_pdr_some [OF r1(1), of is_ip4] obtain acls where
    one: "same_rules r r1" "more_teids r r1" "v4_tunnel_of pdr \<subseteq> v4_key ` set (r_v4_teid r1)"
      "v6_tunnel_of pdr \<subseteq> v6_key ` set (r_v6_teid r1)"
      "map Some acls = map (compiles lib env is_ip4 k pdr) (rules_of is_ip4 pdr)"
      "acl_vec r1 is_ip4 = acl_vec r is_ip4 @ acls"
    by blast
  note acls = map_Some_set [OF one(5)]
  note rest = Cons.IH [OF r1(2)]
  have teids: "v4_key ` set (r_v4_teid r1) \<subseteq> v4_key ` set (r_v4_teid r')"
      "v6_key ` set (r_v6_teid r1) \<subseteq> v6_key ` set (r_v6_teid r')"
    using rest by (simp_all add: more_teids_def)
  have "same_rules r r'" "more_teids r r'"
    using one(1,2) rest same_rules_trans more_teids_trans by blast+
  moreover have "set (acl_vec r' is_ip4) = set (acl_vec r is_ip4) \<union> compiled lib env is_ip4 k (pdr # pdrs)"
    using rest one(6) acls(1) by (simp add: compiled_Cons Un_assoc)
  moreover have "all_compile lib env is_ip4 k (pdr # pdrs)"
    using rest acls(2) by (simp add: all_compile_Cons)
  moreover have "\<forall>p \<in> set (pdr # pdrs). v4_tunnel_of p \<subseteq> v4_key ` set (r_v4_teid r')
      \<and> v6_tunnel_of p \<subseteq> v6_key ` set (r_v6_teid r')"
    using rest one(3,4) teids by (metis (no_types, lifting) order_trans set_ConsD)
  ultimately show ?case
    by blast
qed

lemma build_pfcp_rules_some:
  assumes "build_pfcp_rules lib env pending = Some r"
  shows "same_rules pending r" "more_teids pending r"
    and "pdr \<in> set (elts (r_pdr pending)) \<Longrightarrow> v4_tunnel_of pdr \<subseteq> v4_key ` set (r_v4_teid r)"
    and "pdr \<in> set (elts (r_pdr pending)) \<Longrightarrow> v6_tunnel_of pdr \<subseteq> v6_key ` set (r_v6_teid r)"
    and "set (acl_vec r is_ip4) = set (acl_vec pending is_ip4) \<union> compiled lib env is_ip4 0 (elts (r_pdr pending))"
    and "all_compile lib env is_ip4 0 (elts (r_pdr pending))"
proof -
  let ?p = "pending\<lparr>r_proxy_precedence := -1, r_proxy_pdr_idx := NO_INDEX\<rparr>"
  obtain r1 where r1: "build_pdrs lib env 0 (elts (r_pdr pending)) ?p = Some r1"
    and r: "r = (if r_ue_src_ip r1 \<noteq> [] \<or> r_ue_dst_ip r1 \<noteq> [] \<or> r_v4_acls r1 \<noteq> [] \<or> r_v6_acls r1 \<noteq> []
           then r1\<lparr>r_flags := r_flags r1 OR PFCP_CLASSIFY\<rparr> else r1)"
    using assms unfolding build_pfcp_rules_def bind_eq_Some_conv by blast
  have r_same: "same_rules r1 r" "r_v4_teid r = r_v4_teid r1" "r_v6_teid r = r_v6_teid r1" "acl_vec r = acl_vec r1"
    by (simp_all add: r same_rules_def acl_vec_def fun_eq_iff)
  have p_same: "same_rules pending ?p" "r_v4_teid ?p = r_v4_teid pending" "r_v6_teid ?p = r_v6_teid pending"
      "acl_vec ?p = acl_vec pending"
    by (simp_all add: same_rules_def acl_vec_def fun_eq_iff)
  note b = build_pdrs_some [OF r1, of is_ip4]
  show "same_rules pending r"
    using p_same(1) b r_same(1) same_rules_trans by blast
  show "more_teids pending r"
    using b r_same(2,3) by (simp add: more_teids_def teids_distinct_def)
  show "v4_tunnel_of pdr \<subseteq> v4_key ` set (r_v4_teid r)" "v6_tunnel_of pdr \<subseteq> v6_key ` set (r_v6_teid r)"
    if "pdr \<in> set (elts (r_pdr pending))"
    using b that r_same(2,3) by auto
  show "set (acl_vec r is_ip4) = set (acl_vec pending is_ip4) \<union> compiled lib env is_ip4 0 (elts (r_pdr pending))"
    using b by (simp add: r_same(4) p_same(4))
  show "all_compile lib env is_ip4 0 (elts (r_pdr pending))"
    using b by simp
qed

section \<open>What the steps of an update leave alone\<close>

definition frame :: "upf_main_t \<Rightarrow> upf_main_t \<Rightarrow> bool" where
  "frame g g' \<longleftrightarrow> g_sessions g' = g_sessions g \<and> g_session_by_id g' = g_session_by_id g
     \<and> g_node_sessions g' = g_node_sessions g \<and> g_v4_tunnel_by_key g' = g_v4_tunnel_by_key g
     \<and> g_v6_tunnel_by_key g' = g_v6_tunnel_by_key g"

lemma frame_refl [simp]: "frame g g"
  by (simp add: frame_def)

lemma frame_trans [trans]: "frame a b \<Longrightarrow> frame b c \<Longrightarrow> frame a c"
  by (simp add: frame_def)

named_theorems frames \<open>operations that change nothing but peers, policers, timers and what is sent\<close>

lemma frame_stop_timer [frames]: "frame g (stop_timer h g)"
  by (simp add: stop_timer_def frame_def)

lemma frame_start_timer [frames]: "frame g (snd (start_timer lib si i g))"
  by (simp add: start_timer_def frame_def Let_def)

lemma frame_stop_up_inactivity_timer [frames]: "frame g (snd (upf_pfcp_session_stop_up_inactivity_timer t g))"
  by (simp add: upf_pfcp_session_stop_up_inactivity_timer_def frames)

lemma frame_start_up_inactivity_timer [frames]:
  "frame g (snd (upf_pfcp_session_start_up_inactivity_timer lib si l t g))"
  by (simp add: upf_pfcp_session_start_up_inactivity_timer_def Let_def case_prod_beta frames)

lemma frame_stop_urr_time [frames]: "frame g (snd (upf_pfcp_session_stop_urr_time now t g))"
  by (simp add: upf_pfcp_session_stop_urr_time_def frames)

lemma frame_start_stop_urr_time [frames]:
  "frame g (snd (upf_pfcp_session_start_stop_urr_time lib si st t g))"
  by (simp add: upf_pfcp_session_start_stop_urr_time_def Let_def case_prod_beta frames
      frame_trans [OF frame_stop_urr_time frame_start_timer])

lemma frame_stop_urr_timers [frames]: "frame g (snd (stop_urr_timers now urr g))"
  unfolding stop_urr_timers_def Let_def case_prod_beta snd_conv
  by (meson frame_stop_urr_time frame_trans)

lemma frame_start_urr_timers [frames]: "frame g (snd (start_urr_timers lib si urr g))"
proof -
  have step: "frame g (snd (if c then let (t, g') = upf_pfcp_session_start_stop_urr_time lib si b u g1 in (f t, g')
                            else (v, g1)))" if "frame g g1" for c b u g1 f v
    using that by (simp add: Let_def case_prod_beta frame_trans [OF that frame_start_stop_urr_time])
  show ?thesis
    unfolding start_urr_timers_def
    by (simp only: Let_def case_prod_beta) (intro step [unfolded Let_def case_prod_beta] frame_refl)
qed

lemma frame_peer_addr_ref [frames]: "peer_addr_ref lib fwd g = Some (i, g') \<Longrightarrow> frame g g'"
  by (auto simp: peer_addr_ref_def Let_def frame_def bind_eq_Some_conv split: option.splits)

lemma frame_unref_far [frames]: "unref_far lib far g = Some g' \<Longrightarrow> frame g g'"
  by (auto simp: unref_far_def peer_addr_unref_def Let_def frame_def bind_eq_Some_conv split: if_splits)

lemma frame_attach_qer_policer [frames]: "attach_qer_policer lib qer g = Some (qer', g') \<Longrightarrow> frame g g'"
  by (auto simp: attach_qer_policer_def init_qer_policer_def Let_def frame_def bind_eq_Some_conv
      split: if_splits option.splits prod.splits)

lemma frame_send_em [frames]: "frame g (send_em old em g)"
  by (auto simp: send_em_def frame_def Let_def split: option.splits)

lemma frame_fold: "(\<And>x s. frame s (f x s)) \<Longrightarrow> frame g (fold f xs g)"
proof (induction xs arbitrary: g)
  case (Cons x xs)
  then show ?case
    using frame_trans [of g "f x g"] by simp
qed simp

lemma frame_foreach: "(\<And>x s s'. f x s = Some s' \<Longrightarrow> frame s s') \<Longrightarrow> foreach f xs g = Some g' \<Longrightarrow> frame g g'"
proof (induction xs arbitrary: g)
  case (Cons x xs)
  then obtain s where "f x g = Some s" "foreach f xs s = Some g'"
    by (auto simp: bind_eq_Some_conv)
  then show ?case
    using Cons.IH Cons.prems(1) frame_trans by blast
qed simp

lemma frame_foreach_upd:
  "(\<And>x s x' s'. f x s = Some (x', s') \<Longrightarrow> frame s s') \<Longrightarrow> foreach_upd f xs g = Some (xs', g') \<Longrightarrow> frame g g'"
proof (induction xs arbitrary: g xs')
  case (Cons x xs)
  then obtain x' s xs'' where "f x g = Some (x', s)" "foreach_upd f xs s = Some (xs'', g')"
    by (auto simp: bind_eq_Some_conv)
  then show ?case
    using Cons.IH Cons.prems(1) frame_trans by blast
qed simp

lemma frame_vec_diff:
  assumes "\<And>x b s. frame s (ad x b s)" "vec_diff srt c ad new old g = (n, ol, g')"
  shows "frame g g'"
  using assms frame_fold [of "\<lambda>(x, b). ad x b"] by (auto simp: vec_diff_def Let_def case_prod_beta)

lemma frame_add_del_ue_ip [frames]: "frame g (pfcp_add_del_ue_ip lib si ue b g)"
  by (simp add: pfcp_add_del_ue_ip_def frame_def Let_def)

lemma frame_add_del_tdf [frames]:
  "frame g (pfcp_add_del_v4_tdf lib si acl b g)" "frame g (pfcp_add_del_v6_tdf lib si acl b g)"
  by (simp_all add: pfcp_add_del_v4_tdf_def pfcp_add_del_v6_tdf_def pfcp_add_del_tdf_def frame_def Let_def)

text \<open>The part of a set of rules that classification reads.\<close>

definition same_compiled :: "rules_t \<Rightarrow> rules_t \<Rightarrow> bool" where
  "same_compiled r r' \<longleftrightarrow> r_pdr r' = r_pdr r \<and> acl_vec r' = acl_vec r \<and> r_v4_teid r' = r_v4_teid r
     \<and> r_v6_teid r' = r_v6_teid r \<and> r_proxy_pdr_idx r' = r_proxy_pdr_idx r
     \<and> r_proxy_precedence r' = r_proxy_precedence r"

lemma same_compiled_refl [simp]: "same_compiled r r"
  by (simp add: same_compiled_def)

lemma same_compiled_trans [trans]: "same_compiled a b \<Longrightarrow> same_compiled b c \<Longrightarrow> same_compiled a c"
  by (simp add: same_compiled_def)

lemma same_compiled_fold: "(\<And>x r. same_compiled r (f x r)) \<Longrightarrow> same_compiled r (fold f xs r)"
proof (induction xs arbitrary: r)
  case (Cons x xs)
  then show ?case
    using same_compiled_trans [of r "f x r"] by simp
qed simp

lemma same_compiled_link_map: "same_compiled r (build_urr_link_map r)"
  unfolding build_urr_link_map_def
  by (intro same_compiled_fold) (auto simp: same_compiled_def link_urr_def acl_vec_def fun_eq_iff split: option.splits)

lemma carry_urr_frame:
  "carry_urr urr (active, g) = Some (urr', active', g') \<Longrightarrow> frame g g' \<and> same_compiled active active'"
  using frame_stop_urr_timers [of g "g_now g" urr]
  by (auto simp: carry_urr_def case_prod_beta Let_def same_compiled_def acl_vec_def fun_eq_iff split: option.splits)

lemma carry_urrs_frame:
  "foreach_upd carry_urr urrs (active, g) = Some (urrs', active', g') \<Longrightarrow> frame g g' \<and> same_compiled active active'"
proof (induction urrs arbitrary: active g urrs')
  case (Cons urr urrs)
  then obtain urr' a1 g1 us where "carry_urr urr (active, g) = Some (urr', a1, g1)"
      "foreach_upd carry_urr urrs (a1, g1) = Some (us, active', g')"
    by (auto simp: bind_eq_Some_conv)
  then show ?case
    using Cons.IH carry_urr_frame frame_trans same_compiled_trans by blast
qed simp

section \<open>The result of an update\<close>

lemma apply_far_some:
  assumes "apply_far lib far (pending, g) = Some (far', pending', g')"
  shows "frame g g' \<and> more_teids pending pending' \<and> same_rules pending pending' \<and> acl_vec pending' = acl_vec pending"
proof (cases "ohc_description (fwd_outer_header_creation (far_forward far)) = 0")
  case True
  then show ?thesis
    using assms by (simp add: apply_far_def Let_def)
next
  case False
  let ?ohc = "fwd_outer_header_creation (far_forward far)"
  obtain i where i: "peer_addr_ref lib (far_forward far) g = Some (i, g')"
    using assms False by (auto simp: apply_far_def Let_def bind_eq_Some_conv)
  consider (v4) "bit (ohc_description ?ohc) 0" | (v6) "\<not> bit (ohc_description ?ohc) 0" "bit (ohc_description ?ohc) 1"
    | (none) "\<not> bit (ohc_description ?ohc) 0" "\<not> bit (ohc_description ?ohc) 1"
    by blast
  then have "more_teids pending pending' \<and> same_rules pending pending' \<and> acl_vec pending' = acl_vec pending"
  proof cases
    case v4
    then have "pending' = pending\<lparr>r_v4_teid := rules_add_v4_teid (ucast (ohc_ip ?ohc)) (ohc_teid ?ohc) (unat (far_id far)) (r_v4_teid pending)\<rparr>"
      using assms False i by (auto simp: apply_far_def Let_def)
    then show ?thesis
      by (auto intro!: more_teids_v4(1) simp: same_rules_def acl_vec_def fun_eq_iff)
  next
    case v6
    then have "pending' = pending\<lparr>r_v6_teid := rules_add_v6_teid (ohc_ip ?ohc) (ohc_teid ?ohc) (unat (far_id far)) (r_v6_teid pending)\<rparr>"
      using assms False i by (auto simp: apply_far_def Let_def)
    then show ?thesis
      by (auto intro!: more_teids_v6(1) simp: same_rules_def acl_vec_def fun_eq_iff)
  next
    case none
    then show ?thesis
      using assms False i by (auto simp: apply_far_def Let_def)
  qed
  then show ?thesis
    using frame_peer_addr_ref [OF i] by blast
qed

lemma apply_fars_loop_some:
  "foreach_upd (apply_far lib) fars (pending, g) = Some (fars', pending', g') \<Longrightarrow>
     frame g g' \<and> more_teids pending pending' \<and> same_rules pending pending' \<and> acl_vec pending' = acl_vec pending"
proof (induction fars arbitrary: pending g fars')
  case (Cons far fars)
  then obtain far' p1 g1 fs where one: "apply_far lib far (pending, g) = Some (far', p1, g1)"
    and rest: "foreach_upd (apply_far lib) fars (p1, g1) = Some (fs, pending', g')"
    by (auto simp: bind_eq_Some_conv)
  then show ?case
    using apply_far_some [OF one] Cons.IH [OF rest] frame_trans more_teids_trans same_rules_trans by auto
qed simp

lemma apply_fars_some:
  assumes "apply_fars lib active pending g = Some (pending', g')"
  shows "frame g g'" "more_teids pending pending'" "r_pdr pending' = r_pdr pending" "acl_vec pending' = acl_vec pending"
proof -
  have "frame g g' \<and> more_teids pending pending' \<and> r_pdr pending' = r_pdr pending \<and> acl_vec pending' = acl_vec pending"
  proof (cases "r_far pending")
    case None
    then show ?thesis
      using assms by (auto simp: apply_fars_def more_teids_def teids_distinct_def acl_vec_def fun_eq_iff)
  next
    case (Some fars)
    then obtain fars' p where p: "foreach_upd (apply_far lib) fars (pending, g) = Some (fars', p, g')"
      and pending': "pending' = p\<lparr>r_far := Some fars'\<rparr>"
      using assms by (auto simp: apply_fars_def bind_eq_Some_conv)
    show ?thesis
      using apply_fars_loop_some [OF p]
      by (simp add: pending' more_teids_def teids_distinct_def same_rules_def)
  qed
  then show "frame g g'" "more_teids pending pending'" "r_pdr pending' = r_pdr pending" "acl_vec pending' = acl_vec pending"
    by blast+
qed

lemma apply_qers_some:
  assumes "apply_qers lib active pending g = Some (pending', g')"
  shows "frame g g'" "same_compiled pending pending'"
  using assms frame_foreach_upd [of "attach_qer_policer lib", OF frame_attach_qer_policer]
  by (auto simp: apply_qers_def bind_eq_Some_conv same_compiled_def acl_vec_def fun_eq_iff split: option.splits)

lemma fold_v4_teid:
  "fold (\<lambda>(x, b). pfcp_add_del_v4_teid si x b) ops g
     = g\<lparr>g_v4_tunnel_by_key := fold (\<lambda>(x, b). v4_teids.table_op si x b) ops (g_v4_tunnel_by_key g)\<rparr>"
  by (induction ops arbitrary: g) (auto simp: pfcp_add_del_v4_teid_def v4_teids.table_op_def)

lemma fold_v6_teid:
  "fold (\<lambda>(x, b). pfcp_add_del_v6_teid si x b) ops g
     = g\<lparr>g_v6_tunnel_by_key := fold (\<lambda>(x, b). v6_teids.table_op si x b) ops (g_v6_tunnel_by_key g)\<rparr>"
  by (induction ops arbitrary: g) (auto simp: pfcp_add_del_v6_teid_def v6_teids.table_op_def)

text \<open>The tables of tunnels of a session go from one set of rules to another.\<close>

definition tunnels_moved ::
    "'v session_lib_scheme \<Rightarrow> nat \<Rightarrow> rules_t \<Rightarrow> rules_t \<Rightarrow> upf_main_t \<Rightarrow> upf_main_t \<Rightarrow> bool" where
  "tunnels_moved lib si old new g g' \<longleftrightarrow>
     g_v4_tunnel_by_key g' = fold (\<lambda>(x, b). v4_teids.table_op si x b)
       (diff_walk v4_teid_cmp (sort_v4_teid lib v4_teid_cmp (r_v4_teid new)) (sort_v4_teid lib v4_teid_cmp (r_v4_teid old)))
       (g_v4_tunnel_by_key g)
     \<and> g_v6_tunnel_by_key g' = fold (\<lambda>(x, b). v6_teids.table_op si x b)
       (diff_walk v6_teid_cmp (sort_v6_teid lib v6_teid_cmp (r_v6_teid new)) (sort_v6_teid lib v6_teid_cmp (r_v6_teid old)))
       (g_v6_tunnel_by_key g)"

lemma apply_diffs_some:
  assumes "apply_diffs lib si (pending, active) g = ((pending', active'), g')"
  shows "tunnels_moved lib si active pending g g'" "g_sessions g' = g_sessions g"
    and "r_pdr pending' = r_pdr pending"
    and "acl_vec pending' is_ip4 = sort_acl lib upf_acl_cmp (acl_vec pending is_ip4)"
    and "r_v4_teid pending' = sort_v4_teid lib v4_teid_cmp (r_v4_teid pending)"
    and "r_v6_teid pending' = sort_v6_teid lib v6_teid_cmp (r_v6_teid pending)"
proof -
  have fr: "frame s (fold (\<lambda>(x, b). pfcp_add_del_ue_ip lib si x b) ops s)"
      "frame s (fold (\<lambda>(x, b). pfcp_add_del_v4_tdf lib si x b) ops' s)"
      "frame s (fold (\<lambda>(x, b). pfcp_add_del_v6_tdf lib si x b) ops' s)" for ops ops' s
    by (auto intro!: frame_fold simp: frames)
  note fr' = fr(1) [unfolded frame_def] fr(2) [unfolded frame_def] fr(3) [unfolded frame_def]
  show "tunnels_moved lib si active pending g g'" "g_sessions g' = g_sessions g"
    "r_pdr pending' = r_pdr pending"
    "acl_vec pending' is_ip4 = sort_acl lib upf_acl_cmp (acl_vec pending is_ip4)"
    "r_v4_teid pending' = sort_v4_teid lib v4_teid_cmp (r_v4_teid pending)"
    "r_v6_teid pending' = sort_v6_teid lib v6_teid_cmp (r_v6_teid pending)"
    using assms
    by (auto simp: apply_diffs_def vec_diff_def Let_def tunnels_moved_def fold_v4_teid fold_v6_teid fr' acl_vec_def)
qed

lemma after_switch_some:
  assumes "after_switch lib si p f u q l (active, old) g = Some (active', old', g')"
  shows "frame g g'" "same_compiled active active'"
proof -
  obtain a1 o1 g1 g2 urrs g3 where
    1: "apply_inactivity lib si l (active, old) g = ((a1, o1), g1)"
    and 2: "(if f then foreach (unref_far lib) (elts (r_far o1)) g1 else Some g1) = Some g2"
    and 3: "foreach_upd (\<lambda>urr g. Some (start_urr_timers lib si urr g)) (elts (r_urr a1))
             (fold (send_em o1) (r_send_end_marker a1) g2) = Some (urrs, g3)"
    and 4: "if u then \<exists>us. foreach_upd carry_urr (elts (r_urr o1))
            (a1\<lparr>r_send_end_marker := [], r_urr := map_option (\<lambda>_. urrs) (r_urr a1)\<rparr>, g3) = Some (us, active', g')
          else active' = a1\<lparr>r_send_end_marker := [], r_urr := map_option (\<lambda>_. urrs) (r_urr a1)\<rparr> \<and> g' = g3"
    using assms
    by (cases "apply_inactivity lib si l (active, old) g"; cases u)
      (auto simp: after_switch_def Let_def bind_eq_Some_conv)
  have f1: "frame g g1" "same_compiled active a1"
    using 1 frame_trans [OF frame_stop_up_inactivity_timer frame_start_up_inactivity_timer]
    by (auto simp: apply_inactivity_def Let_def case_prod_beta same_compiled_def frames split: if_splits)
  have f2: "frame g1 g2"
    using 2 frame_foreach [of "unref_far lib", OF frame_unref_far] by (auto split: if_splits)
  have f3: "frame g2 g3"
    using frame_trans [OF frame_fold [of "send_em o1", OF frame_send_em] frame_foreach_upd [OF _ 3]] frame_start_urr_timers
    by (metis option.inject snd_conv)
  have f4: "frame g3 g' \<and> same_compiled a1 active'"
  proof (cases u)
    case True
    then obtain us where "foreach_upd carry_urr (elts (r_urr o1))
        (a1\<lparr>r_send_end_marker := [], r_urr := map_option (\<lambda>_. urrs) (r_urr a1)\<rparr>, g3) = Some (us, active', g')"
      using 4 by auto
    from carry_urrs_frame [OF this] show ?thesis
      by (auto simp: same_compiled_def acl_vec_def fun_eq_iff)
  next
    case False
    then show ?thesis
      using 4 by (auto simp: same_compiled_def acl_vec_def fun_eq_iff)
  qed
  show "frame g g'"
    using f1(1) f2 f3 f4 frame_trans by blast
  show "same_compiled active active'"
    using f1(2) f4 same_compiled_trans by blast
qed

lemma pfcp_get_put_rules [simp]:
  "pfcp_get_rules (put_rules w r sx) w' = (if w = w' then r else pfcp_get_rules sx w')"
  by (auto simp: pfcp_get_rules_def put_rules_def)

text \<open>
  An update with new detection rules, in terms of its parts: \<open>built\<close> is the result of the compilation,
  \<open>full\<close> has the tunnels of the forwarding rules too.
\<close>

lemma update_apply_pdrs:
  assumes upd: "pfcp_update_apply lib si g = Some g'" and sx: "g_sessions g si = Some sx"
    and pdrs: "r_pdr (pfcp_get_rules sx PFCP_PENDING) \<noteq> None"
  obtains built full sx' where
    "build_pfcp_rules lib \<lparr>env_nwi_sw_if_index = g_nwi_sw_if_index g, env_tdf_ul_table = g_tdf_ul_table g\<rparr>
       (pfcp_get_rules sx PFCP_PENDING) = Some built"
    and "more_teids built full" "acl_vec full = acl_vec built" "r_pdr full = r_pdr built"
    and "tunnels_moved lib si (pfcp_get_rules sx PFCP_ACTIVE) full g g'"
    and "g_sessions g' = (g_sessions g)(si \<mapsto> sx')"
    and "r_pdr (pfcp_get_rules sx' PFCP_ACTIVE) = r_pdr full"
    and "\<And>is_ip4. acl_vec (pfcp_get_rules sx' PFCP_ACTIVE) is_ip4 = sort_acl lib upf_acl_cmp (acl_vec full is_ip4)"
    and "r_v4_teid (pfcp_get_rules sx' PFCP_ACTIVE) = sort_v4_teid lib v4_teid_cmp (r_v4_teid full)"
    and "r_v6_teid (pfcp_get_rules sx' PFCP_ACTIVE) = sort_v6_teid lib v6_teid_cmp (r_v6_teid full)"
proof -
  let ?pending = "pfcp_get_rules sx PFCP_PENDING" and ?active = "pfcp_get_rules sx PFCP_ACTIVE"
  let ?env = "\<lparr>env_nwi_sw_if_index = g_nwi_sw_if_index g, env_tdf_ul_table = g_tdf_ul_table g\<rparr>"
  let ?after = "after_switch lib si True (r_far ?pending \<noteq> None) (r_urr ?pending \<noteq> None) (r_qer ?pending \<noteq> None)
              (s_last_ul_traffic sx)"
  let ?sx = "\<lambda>act old. put_rules PFCP_ACTIVE act (put_rules PFCP_PENDING old
              (sx\<lparr>s_active := \<not> s_active sx, s_flags := s_flags sx AND NOT PFCP_UPDATING\<rparr>))"
  obtain built p1 g1 p3 g3 where
    b: "build_pfcp_rules lib ?env ?pending = Some built"
    and 1: "apply_fars lib ?active built g = Some (p1, g1)"
    and 3: "apply_qers lib ?active (if r_urr ?pending \<noteq> None then build_urr_link_map p1
              else p1\<lparr>r_urr := r_urr ?active\<rparr>) g1 = Some (p3, g3)"
    and rest: "(case apply_diffs lib si (p3, ?active) g3 of (sets, g) \<Rightarrow> do {
         (act, old, g) \<leftarrow> ?after sets g;
         Some (put_session si (?sx act old) g)
       }) = Some g'"
    using upd sx pdrs by (auto simp: pfcp_update_apply_def apply_pdrs_def Let_def bind_eq_Some_conv)
  obtain p4 a4 g4 where 4: "apply_diffs lib si (p3, ?active) g3 = ((p4, a4), g4)"
    by (metis surj_pair)
  obtain act old g5 where 5: "?after (p4, a4) g4 = Some (act, old, g5)"
    and g': "g' = put_session si (?sx act old) g5"
    using rest by (auto simp: 4 bind_eq_Some_conv)
  define p2 where "p2 = (if r_urr ?pending \<noteq> None then build_urr_link_map p1 else p1\<lparr>r_urr := r_urr ?active\<rparr>)"
  have p2: "same_compiled p1 p2"
    using same_compiled_link_map [of p1] by (simp add: p2_def same_compiled_def acl_vec_def fun_eq_iff)
  note f1 = apply_fars_some [OF 1]
  note f3 = apply_qers_some [OF 3 [folded p2_def]]
  note f4 = apply_diffs_some [OF 4]
  note f5 = after_switch_some [OF 5]
  have p13: "same_compiled p1 p3"
    using p2 f3(2) same_compiled_trans by blast
  show thesis
  proof (rule that [of built p1 "?sx act old"])
    show "more_teids built p1" "acl_vec p1 = acl_vec built" "r_pdr p1 = r_pdr built"
      using f1 by simp_all
    show "tunnels_moved lib si ?active p1 g g'"
      using f4(1) p13 f1(1) f3(1) f5(1)
      by (simp add: tunnels_moved_def frame_def same_compiled_def g' put_session_def)
    show "g_sessions g' = (g_sessions g)(si \<mapsto> (?sx act old))"
      using f4(2) f1(1) f3(1) f5(1) by (simp add: frame_def g' put_session_def)
  qed (use b f4 f5(2) p13 in \<open>simp_all add: same_compiled_def\<close>)
qed

section \<open>The first match is the best\<close>

lemma first_match_some:
  assumes "\<And>a. a \<in> set acls \<Longrightarrow> P a \<noteq> None"
  shows "\<exists>res. first_match P acls = Some res
    \<and> (case res of
         None \<Rightarrow> \<forall>a \<in> set acls. P a = Some False
       | Some a \<Rightarrow> a \<in> set acls \<and> P a = Some True
           \<and> (sorted_wrt R acls \<longrightarrow> (\<forall>b \<in> set acls. P b = Some True \<longrightarrow> b = a \<or> R a b)))"
  using assms
proof (induction acls)
  case (Cons a acls)
  then obtain m where m: "P a = Some m"
    by fastforce
  show ?case
  proof (cases m)
    case True
    then show ?thesis
      using m by auto
  next
    case False
    obtain res where "first_match P acls = Some res" and "case res of
         None \<Rightarrow> \<forall>a \<in> set acls. P a = Some False
       | Some a \<Rightarrow> a \<in> set acls \<and> P a = Some True
           \<and> (sorted_wrt R acls \<longrightarrow> (\<forall>b \<in> set acls. P b = Some True \<longrightarrow> b = a \<or> R a b))"
      using Cons by auto
    then show ?thesis
      using False m by (cases res) auto
  qed
qed simp

text \<open>The rules one of whose filters describes a flow.\<close>

definition matching_pdrs ::
    "'v rules_lib_scheme \<Rightarrow> u32 \<Rightarrow> flow_entry \<Rightarrow> bool \<Rightarrow> bool \<Rightarrow> upf_pdr_t list \<Rightarrow> nat set" where
  "matching_pdrs lib teid flow is_reverse is_ip4 pdrs =
     {j. j < length pdrs \<and> (\<exists>rule \<in> set (rules_of is_ip4 (pdrs ! j)).
        pdr_filter_matches lib teid flow is_reverse is_ip4 (pdrs ! j) rule)}"

definition best_pdr :: "upf_pdr_t list \<Rightarrow> nat set \<Rightarrow> nat \<Rightarrow> bool" where
  "best_pdr pdrs M i \<longleftrightarrow> i \<in> M \<and> (\<forall>j \<in> M. pdr_precedence (pdrs ! i) \<le> pdr_precedence (pdrs ! j))"

text \<open>Rules that are compiled and ordered as the code means it.\<close>

definition plain_rules :: "bool \<Rightarrow> upf_pdr_t list \<Rightarrow> bool" where
  "plain_rules is_ip4 pdrs \<longleftrightarrow>
     (\<forall>pdr \<in> set pdrs. pdr_precedence pdr < 256 \<and> (\<forall>rule \<in> set (rules_of is_ip4 pdr). widths_ok is_ip4 rule))"

lemma match_flow_best:
  fixes teid :: u32 and direction :: bool
  assumes lib: "ip_functions lib" and pdrs: "r_pdr active = Some pdrs" and plain: "plain_rules is_ip4 pdrs"
    and acls: "set (acl_vec active is_ip4) = compiled lib env is_ip4 0 pdrs" "all_compile lib env is_ip4 0 pdrs"
    and sorted: "sorted_wrt (\<lambda>a b. upf_acl_cmp a b \<le> 0) (acl_vec active is_ip4)"
    and flow: "flow_of_family is_ip4 flow"
  defines "M \<equiv> matching_pdrs lib teid flow (direction \<noteq> fe_is_reverse flow) is_ip4 pdrs"
  shows "\<exists>res. match_flow lib teid flow direction active is_ip4 = Some res
    \<and> (case res of None \<Rightarrow> M = {} | Some acl \<Rightarrow> acl_pdr_idx acl < length pdrs \<and> best_pdr pdrs M (acl_pdr_idx acl))"
proof -
  let ?P = "\<lambda>acl. upf_acl_classify_one lib teid flow (direction \<noteq> fe_is_reverse flow) is_ip4 acl active"
  let ?R = "\<lambda>a b. upf_acl_cmp a b \<le> 0"
  let ?m = "pdr_filter_matches lib teid flow (direction \<noteq> fe_is_reverse flow) is_ip4"
  have one: "?P acl = Some (?m (pdrs ! j) rule) \<and> acl_pdr_idx acl = j
      \<and> acl_precedence acl = ucast (pdr_precedence (pdrs ! j))"
    if jr: "j < length pdrs" "rule \<in> set (rules_of is_ip4 (pdrs ! j))"
      "compiles lib env is_ip4 j (pdrs ! j) rule = Some acl" for j rule acl
  proof -
    obtain sw where c: "compile_pdi lib is_ip4 (pdrs ! j) rule j sw = Some acl"
      using jr(3) by (auto simp: compiles_def bind_eq_Some_conv)
    have "widths_ok is_ip4 rule"
      using plain jr(1,2) by (auto simp: plain_rules_def)
    then show ?thesis
      using classify_one_exact [OF lib _ c _ flow, of active teid] jr(1) pdrs compile_pdi_some(3,4) [OF c]
      by (simp add: vec_elt_def)
  qed
  have source: "\<exists>j rule. j < length pdrs \<and> rule \<in> set (rules_of is_ip4 (pdrs ! j))
      \<and> compiles lib env is_ip4 j (pdrs ! j) rule = Some acl" if "acl \<in> set (acl_vec active is_ip4)" for acl
    using that acls(1) by (auto simp: compiled_def)
  have image: "\<exists>acl \<in> set (acl_vec active is_ip4). compiles lib env is_ip4 j (pdrs ! j) rule = Some acl"
    if "j < length pdrs" "rule \<in> set (rules_of is_ip4 (pdrs ! j))" for j rule
    using that acls by (auto simp: compiled_def all_compile_def) (metis add_0 option.exhaust)
  have "?P acl \<noteq> None" if "acl \<in> set (acl_vec active is_ip4)" for acl
    using source [OF that] one by fastforce
  from first_match_some [of "acl_vec active is_ip4" ?P ?R, OF this] obtain res where
    res: "match_flow lib teid flow direction active is_ip4 = Some res"
    and spec: "case res of None \<Rightarrow> \<forall>a \<in> set (acl_vec active is_ip4). ?P a = Some False
       | Some a \<Rightarrow> a \<in> set (acl_vec active is_ip4) \<and> ?P a = Some True
           \<and> (\<forall>b \<in> set (acl_vec active is_ip4). ?P b = Some True \<longrightarrow> b = a \<or> ?R a b)"
    using sorted by (auto simp: match_flow_def split: option.splits)
  have small: "ucast (pdr_precedence (pdrs ! j)) < (256 :: u32)" if "j < length pdrs" for j
  proof -
    have "pdr_precedence (pdrs ! j) < 256"
      using plain that by (simp add: plain_rules_def)
    then show ?thesis
      by (simp add: word_less_nat_alt unsigned_ucast_eq take_bit_nat_eq_self)
  qed
  show ?thesis
  proof (cases res)
    case None
    have "M = {}"
    proof (rule ccontr)
      assume "M \<noteq> {}"
      then obtain j rule where "j < length pdrs" "rule \<in> set (rules_of is_ip4 (pdrs ! j))" "?m (pdrs ! j) rule"
        by (auto simp: M_def matching_pdrs_def)
      then show False
        using image [of j rule] one [of j rule] spec None by fastforce
    qed
    then show ?thesis
      using res None by simp
  next
    case (Some acl)
    then obtain j rule where j: "j < length pdrs" "rule \<in> set (rules_of is_ip4 (pdrs ! j))"
        "compiles lib env is_ip4 j (pdrs ! j) rule = Some acl"
      using source [of acl] spec by auto
    note acl = one [OF j]
    have "j \<in> M"
      using j acl spec Some by (auto simp: M_def matching_pdrs_def)
    moreover have "pdr_precedence (pdrs ! j) \<le> pdr_precedence (pdrs ! k)" if "k \<in> M" for k
    proof -
      obtain rule' where k: "k < length pdrs" "rule' \<in> set (rules_of is_ip4 (pdrs ! k))" "?m (pdrs ! k) rule'"
        using \<open>k \<in> M\<close> by (auto simp: M_def matching_pdrs_def)
      obtain acl' where acl': "acl' \<in> set (acl_vec active is_ip4)" "compiles lib env is_ip4 k (pdrs ! k) rule' = Some acl'"
        using image [OF k(1,2)] by blast
      note b = one [OF k(1,2) acl'(2)]
      have "acl' = acl \<or> upf_acl_cmp acl acl' \<le> 0"
        using spec Some acl'(1) b k(3) by auto
      then have "acl_precedence acl \<le> acl_precedence acl'"
        using acl_order_precedence [of acl acl'] small [OF j(1)] small [OF k(1)] acl b by auto
      then show ?thesis
        using acl b by (simp add: word_le_nat_alt unsigned_ucast_eq take_bit_nat_eq_self)
    qed
    ultimately show ?thesis
      using res Some acl j(1) by (simp add: best_pdr_def)
  qed
qed

section \<open>The tunnels of a session\<close>

text \<open>The tables send exactly the keys of a set of rules to the session.\<close>

definition session_tunnels :: "nat \<Rightarrow> rules_t \<Rightarrow> upf_main_t \<Rightarrow> bool" where
  "session_tunnels si r g \<longleftrightarrow>
     (\<forall>k. k \<in> v4_key ` set (r_v4_teid r) \<longleftrightarrow> (\<exists>i. g_v4_tunnel_by_key g k = Some (i, si)))
     \<and> (\<forall>k. k \<in> v6_key ` set (r_v6_teid r) \<longleftrightarrow> (\<exists>i. g_v6_tunnel_by_key g k = Some (i, si)))"

text \<open>The tunnels of other sessions stay, unless the session claims one of their keys.\<close>

definition other_tunnels_kept :: "nat \<Rightarrow> rules_t \<Rightarrow> upf_main_t \<Rightarrow> upf_main_t \<Rightarrow> bool" where
  "other_tunnels_kept si new g g' \<longleftrightarrow>
     (\<forall>k i sj. sj \<noteq> si \<longrightarrow> k \<notin> v4_key ` set (r_v4_teid new) \<longrightarrow>
        (g_v4_tunnel_by_key g' k = Some (i, sj) \<longleftrightarrow> g_v4_tunnel_by_key g k = Some (i, sj)))
     \<and> (\<forall>k i sj. sj \<noteq> si \<longrightarrow> k \<notin> v6_key ` set (r_v6_teid new) \<longrightarrow>
        (g_v6_tunnel_by_key g' k = Some (i, sj) \<longleftrightarrow> g_v6_tunnel_by_key g k = Some (i, sj)))"

lemma tunnels_moved_exact:
  assumes sorts: "sorts v4_teid_cmp (sort_v4_teid lib)" "sorts v6_teid_cmp (sort_v6_teid lib)"
    and distinct: "teids_distinct old" "teids_distinct new"
    and moved: "tunnels_moved lib si old new g g'" and before: "session_tunnels si old g"
  shows "session_tunnels si new g'" "other_tunnels_kept si new g g'"
proof -
  let ?n4 = "sort_v4_teid lib v4_teid_cmp (r_v4_teid new)" and ?o4 = "sort_v4_teid lib v4_teid_cmp (r_v4_teid old)"
  let ?n6 = "sort_v6_teid lib v6_teid_cmp (r_v6_teid new)" and ?o6 = "sort_v6_teid lib v6_teid_cmp (r_v6_teid old)"
  have set4: "set ?n4 = set (r_v4_teid new)" "set ?o4 = set (r_v4_teid old)"
    by (simp_all add: sorts_set [OF sorts(1)])
  have set6: "set ?n6 = set (r_v6_teid new)" "set ?o6 = set (r_v6_teid old)"
    by (simp_all add: sorts_set [OF sorts(2)])
  have inc4: "v4_teids.increasing ?n4" "v4_teids.increasing ?o4"
    using distinct by (simp_all add: teids_distinct_def v4_teids.increasing_srt [OF sorts(1)])
  have inc6: "v6_teids.increasing ?n6" "v6_teids.increasing ?o6"
    using distinct by (simp_all add: teids_distinct_def v6_teids.increasing_srt [OF sorts(2)])
  note d4 = v4_teids.diff_table [OF inc4, where si = si and T = "g_v4_tunnel_by_key g", unfolded set4]
  note d6 = v6_teids.diff_table [OF inc6, where si = si and T = "g_v6_tunnel_by_key g", unfolded set6]
  have b4: "k \<in> v4_key ` set (r_v4_teid old) \<longleftrightarrow> (\<exists>i. g_v4_tunnel_by_key g k = Some (i, si))" for k
    using before unfolding session_tunnels_def by blast
  have new4: "\<exists>i. g_v4_tunnel_by_key g' k = Some (i, si)" if k: "k \<in> v4_key ` set (r_v4_teid new)" for k
  proof -
    obtain x where x: "x \<in> set (r_v4_teid new)" "k = v4_key x"
      using k by blast
    show ?thesis
    proof (cases "k \<in> v4_key ` set (r_v4_teid old)")
      case True
      then have "\<exists>i. g_v4_tunnel_by_key g k = Some (i, si)"
        using before unfolding session_tunnels_def by blast
      then show ?thesis
        using moved d4(1) [OF x(1)] True x(2) by (simp add: tunnels_moved_def)
    next
      case False
      then show ?thesis
        using moved d4(1) [OF x(1)] x(2) by (simp add: tunnels_moved_def)
    qed
  qed
  have gone4: "g_v4_tunnel_by_key g' k = (if k \<in> v4_key ` set (r_v4_teid old) then None else g_v4_tunnel_by_key g k)"
    if "k \<notin> v4_key ` set (r_v4_teid new)" for k
    using that moved d4(2) by (simp add: tunnels_moved_def)
  have b6: "k \<in> v6_key ` set (r_v6_teid old) \<longleftrightarrow> (\<exists>i. g_v6_tunnel_by_key g k = Some (i, si))" for k
    using before unfolding session_tunnels_def by blast
  have new6: "\<exists>i. g_v6_tunnel_by_key g' k = Some (i, si)" if k: "k \<in> v6_key ` set (r_v6_teid new)" for k
  proof -
    obtain x where x: "x \<in> set (r_v6_teid new)" "k = v6_key x"
      using k by blast
    show ?thesis
    proof (cases "k \<in> v6_key ` set (r_v6_teid old)")
      case True
      then have "\<exists>i. g_v6_tunnel_by_key g k = Some (i, si)"
        using before unfolding session_tunnels_def by blast
      then show ?thesis
        using moved d6(1) [OF x(1)] True x(2) by (simp add: tunnels_moved_def)
    next
      case False
      then show ?thesis
        using moved d6(1) [OF x(1)] x(2) by (simp add: tunnels_moved_def)
    qed
  qed
  have gone6: "g_v6_tunnel_by_key g' k = (if k \<in> v6_key ` set (r_v6_teid old) then None else g_v6_tunnel_by_key g k)"
    if "k \<notin> v6_key ` set (r_v6_teid new)" for k
    using that moved d6(2) by (simp add: tunnels_moved_def)
  have "k \<in> v4_key ` set (r_v4_teid new) \<longleftrightarrow> (\<exists>i. g_v4_tunnel_by_key g' k = Some (i, si))" for k
    using new4 [of k] gone4 [of k] b4 [of k] by (metis option.distinct(1))
  moreover have "k \<in> v6_key ` set (r_v6_teid new) \<longleftrightarrow> (\<exists>i. g_v6_tunnel_by_key g' k = Some (i, si))" for k
    using new6 [of k] gone6 [of k] b6 [of k] by (metis option.distinct(1))
  ultimately show "session_tunnels si new g'"
    unfolding session_tunnels_def by blast
  have "g_v4_tunnel_by_key g' k = Some (i, sj) \<longleftrightarrow> g_v4_tunnel_by_key g k = Some (i, sj)"
    if "sj \<noteq> si" "k \<notin> v4_key ` set (r_v4_teid new)" for k i sj
    using that gone4 [of k] b4 [of k] by auto
  moreover have "g_v6_tunnel_by_key g' k = Some (i, sj) \<longleftrightarrow> g_v6_tunnel_by_key g k = Some (i, sj)"
    if "sj \<noteq> si" "k \<notin> v6_key ` set (r_v6_teid new)" for k i sj
    using that gone6 [of k] b6 [of k] by auto
  ultimately show "other_tunnels_kept si new g g'"
    unfolding other_tunnels_kept_def by blast
qed

end
