(* ===== verification/Upf_Account.thy ===== *)
theory Upf_Account
  imports Upf_Report Upf_Quota Upf_Apply
begin

text \<open>
  Accounting of usage: what the rules of a session measure and what is reported to the control plane. The relation
  \<open>accounts\<close> says of a change of the rules how much volume came in and how much was reported; it composes, and every
  operation of the data path and of the reports is shown to be such a change.
\<close>

section \<open>Volumes\<close>

definition unreported :: "counter_member \<Rightarrow> upf_urr_t \<Rightarrow> u64" where
  "unreported d urr = c_get d (m_bytes (v_measure (urr_volume urr)))
     + (if bit (urr_status urr) 1 then c_get d (m_bytes (ub_volume (urr_usage_before_monitoring_time urr))) else 0)"

fun volume_of :: "counter_member \<Rightarrow> pfcp_volume_measurement \<Rightarrow> u64" where
  "volume_of UL m = vm_volume_ul m"
| "volume_of DL m = vm_volume_dl m"
| "volume_of TOTAL m = vm_volume_total m"

definition reported :: "counter_member \<Rightarrow> u16 \<Rightarrow> pfcp_usage_report_t list \<Rightarrow> u64" where
  "reported d i rs = (\<Sum>r \<leftarrow> rs. if ur_urr_id r = ucast i \<and> bit (ur_fields r) USAGE_REPORT_VOLUME_MEASUREMENT
                               then volume_of d (ur_volume_measurement r) else 0)"

lemma reported_simps [simp]: "reported d i [] = 0" "reported d i (rs @ rs') = reported d i rs + reported d i rs'"
  by (simp_all add: reported_def)

text \<open>The accounts of the volume rules with an id in \<open>S\<close>.\<close>

definition accounts ::
    "counter_member \<Rightarrow> u16 set \<Rightarrow> (u16 \<Rightarrow> u64) \<Rightarrow> (u16 \<Rightarrow> u64) \<Rightarrow> upf_urr_t list \<Rightarrow> upf_urr_t list \<Rightarrow> bool" where
  "accounts d S inp out us us' \<longleftrightarrow> list_all2 (\<lambda>u u'. urr_id u' = urr_id u \<and> urr_methods u' = urr_methods u
     \<and> (urr_id u \<in> S \<longrightarrow> bit (urr_methods u) 1 \<longrightarrow>
          unreported d u + inp (urr_id u) = out (urr_id u) + unreported d u')) us us'"

lemma accounts_refl [simp]: "accounts d S (\<lambda>_. 0) (\<lambda>_. 0) us us"
  by (simp add: accounts_def list_all2_same)

lemma accounts_ids: "accounts d S inp out us us' \<Longrightarrow> map urr_id us' = map urr_id us"
  by (auto simp: accounts_def list_all2_conv_all_nth intro: nth_equalityI)

lemma accounts_trans:
  assumes "accounts d S i1 o1 us us'" "accounts d S i2 o2 us' us''"
    and "\<And>i. i \<in> S \<Longrightarrow> inp i = i1 i + i2 i" "\<And>i. i \<in> S \<Longrightarrow> out i = o1 i + o2 i"
  shows "accounts d S inp out us us''"
  unfolding accounts_def
proof (rule list_all2_trans [OF _ assms(1,2) [unfolded accounts_def]], clarsimp)
  fix u u' u''
  assume "urr_id u' = urr_id u" "urr_methods u' = urr_methods u" "urr_id u \<in> S"
    and *: "unreported d u + i1 (urr_id u) = o1 (urr_id u) + unreported d u'"
    "unreported d u' + i2 (urr_id u) = o2 (urr_id u) + unreported d u''"
  then show "unreported d u + inp (urr_id u) = out (urr_id u) + unreported d u''"
    using assms(3,4) [of "urr_id u"] by (simp add: add.assoc [symmetric] *(1))
qed

text \<open>A change that leaves the volumes alone.\<close>

definition same_usage :: "upf_urr_t \<Rightarrow> upf_urr_t \<Rightarrow> bool" where
  "same_usage u u' \<longleftrightarrow> urr_id u' = urr_id u \<and> urr_methods u' = urr_methods u
     \<and> m_bytes (v_measure (urr_volume u')) = m_bytes (v_measure (urr_volume u))
     \<and> bit (urr_status u') 1 = bit (urr_status u) 1
     \<and> urr_usage_before_monitoring_time u' = urr_usage_before_monitoring_time u"

lemma same_usage_unreported: "same_usage u u' \<Longrightarrow> unreported d u' = unreported d u"
  by (simp add: same_usage_def unreported_def)

lemma same_usage_refl [simp]: "same_usage u u"
  by (simp add: same_usage_def)

lemma same_usage_trans: "same_usage a b \<Longrightarrow> same_usage b c \<Longrightarrow> same_usage a c"
  by (simp add: same_usage_def)

lemma accounts_same_usage:
  "list_all2 same_usage us us' \<Longrightarrow> accounts d S (\<lambda>_. 0) (\<lambda>_. 0) us us'"
  unfolding accounts_def
  by (erule list_all2_mono) (simp add: same_usage_unreported, simp add: same_usage_def)

lemma same_usage_update:
  "list_all2 same_usage us vs \<Longrightarrow> same_usage (vs ! k) u \<Longrightarrow> list_all2 same_usage us (vs[k := u])"
  by (cases "k < length vs") (auto simp: list_all2_conv_all_nth nth_list_update list_update_beyond intro: same_usage_trans)

section \<open>Packets\<close>

lemma incr_bytes:
  assumes "urr_incr_and_check e len v = (r, v')"
  shows "c_get d (m_bytes (v_measure v')) = c_get d (m_bytes (v_measure v)) + (if d = e then len else 0)"
  using assms
  by (cases d; cases e) (auto simp: urr_incr_and_check_def urr_increment_and_check_counter_def Let_def)

lemma measure_volume_bytes:
  assumes "measure_volume is_ul is_dl len urr = (r, urr')" "bit (urr_methods urr) 1"
  shows "c_get d (m_bytes (v_measure (urr_volume urr')))
       = c_get d (m_bytes (v_measure (urr_volume urr))) + (if counts d is_ul is_dl then len else 0)"
proof -
  obtain r1 v1 where 1: "(if is_ul then urr_incr_and_check UL len (urr_volume urr) else (URR_OK, urr_volume urr)) = (r1, v1)"
    by (metis surj_pair)
  obtain r2 v2 where 2: "(if is_dl then urr_incr_and_check DL len v1 else (URR_OK, v1)) = (r2, v2)"
    by (metis surj_pair)
  obtain r3 v3 where 3: "urr_incr_and_check TOTAL len v2 = (r3, v3)"
    by (metis surj_pair)
  have "urr_volume urr' = v3"
    using assms 1 2 3 by (auto simp: measure_volume_def Let_def)
  moreover have "c_get d (m_bytes (v_measure v1)) = c_get d (m_bytes (v_measure (urr_volume urr))) + (if is_ul \<and> d = UL then len else 0)"
    using 1 incr_bytes [of UL len "urr_volume urr" r1 v1 d] by (auto split: if_splits)
  moreover have "c_get d (m_bytes (v_measure v2)) = c_get d (m_bytes (v_measure v1)) + (if is_dl \<and> d = DL then len else 0)"
    using 2 incr_bytes [of DL len v1 r2 v2 d] by (auto split: if_splits)
  ultimately show ?thesis
    using incr_bytes [OF 3, of d] by (cases d) (simp_all add: counts_def)
qed

lemma measure_volume_frame:
  assumes "measure_volume is_ul is_dl len urr = (r, urr')"
  shows "urr_id urr' = urr_id urr" "urr_methods urr' = urr_methods urr" "bit (urr_status urr') 1 = bit (urr_status urr) 1"
    "urr_usage_before_monitoring_time urr' = urr_usage_before_monitoring_time urr"
  using assms by (auto simp: measure_volume_def Let_def bit_or_iff bit_BIT split: if_splits prod.splits)

lemma detect_same_usage:
  "detect_start_of_traffic is_ul is_dl now pk ip urr = (s, ip', evs, urr') \<Longrightarrow> same_usage urr urr'"
  by (auto simp: detect_start_of_traffic_def same_usage_def Let_def split: if_splits option.splits)

lemma process_urr_unreported:
  assumes "process_urr is_ul is_dl now pk urr st = (urr', st')"
  shows "urr_id urr' = urr_id urr" "urr_methods urr' = urr_methods urr"
    and "bit (urr_methods urr) 1 \<Longrightarrow>
      unreported d urr' = unreported d urr + (if counts d is_ul is_dl then pk_len pk else 0)"
    and "ul_active st' = ul_active st" "bit (ul_status st) n \<Longrightarrow> bit (ul_status st') n"
proof -
  define urr0 where "urr0 = urr\<lparr>urr_time_of_first_packet :=
      (if urr_time_of_first_packet urr = INFINITY then At now else urr_time_of_first_packet urr),
      urr_time_of_last_packet := At now\<rparr>"
  obtain r urr1 where 1: "measure_volume is_ul is_dl (pk_len pk) urr0 = (r, urr1)"
    by (metis surj_pair)
  obtain s ip evs urr2 where 2: "detect_start_of_traffic is_ul is_dl now pk (ul_ip st) urr1 = (s, ip, evs, urr2)"
    by (metis surj_pair)
  have out: "urr' = urr2" "ul_active st' = ul_active st" "ul_status st' = ul_status st OR s OR r"
    using assms 1 2 by (auto simp: process_urr_def urr0_def [symmetric] Let_def)
  note m = measure_volume_bytes [OF 1, of d] measure_volume_frame [OF 1]
  show "urr_id urr' = urr_id urr" "urr_methods urr' = urr_methods urr" "ul_active st' = ul_active st"
    using m detect_same_usage [OF 2] by (simp_all add: out urr0_def same_usage_def)
  show "unreported d urr' = unreported d urr + (if counts d is_ul is_dl then pk_len pk else 0)" if "bit (urr_methods urr) 1"
    using m that same_usage_unreported [OF detect_same_usage [OF 2], of d] by (simp add: out urr0_def unreported_def)
  show "bit (ul_status st') n" if "bit (ul_status st) n"
    using that by (simp add: out bit_or_iff)
qed

lemma split_unreported:
  assumes "\<not> bit (urr_status urr) 1"
  shows "unreported d (split_at_monitoring_time now urr) = unreported d urr"
    "urr_id (split_at_monitoring_time now urr) = urr_id urr"
    "urr_methods (split_at_monitoring_time now urr) = urr_methods urr"
  using assms by (cases d; simp add: split_at_monitoring_time_def unreported_def Let_def bit_or_iff bit_BIT zero_counter_def)+

text \<open>One rule of the vector changes.\<close>

lemma accounts_one:
  assumes "sorted_wrt (<) (map urr_id us)" "k < length us" "urr_id u = urr_id (us ! k)" "urr_methods u = urr_methods (us ! k)"
    and "urr_id u \<in> S \<Longrightarrow> bit (urr_methods u) 1 \<Longrightarrow> unreported d (us ! k) + x = y + unreported d u"
  shows "accounts d S (\<lambda>i. if i = urr_id u then x else 0) (\<lambda>i. if i = urr_id u then y else 0) us (us[k := u])"
proof -
  have "urr_id (us ! j) = urr_id u \<longleftrightarrow> j = k" if "j < length us" for j
    using assms(1-3) that by (auto simp: strict_sorted_iff distinct_conv_nth)
  then show ?thesis
    using assms(2-5) by (simp add: accounts_def list_all2_conv_all_nth nth_list_update)
qed

abbreviation (input) "DROP_BIT \<equiv> 3 :: nat"

lemma process_urrs_loop_accounts:
  assumes "sorted_wrt (<) (map urr_id (elts (r_urr (ul_active st))))"
    "\<not> bit (ul_status (process_urrs_loop is_ul is_dl now pk ids st)) DROP_BIT"
  shows "accounts d S (\<lambda>i. of_nat (count_list ids i) * (if counts d is_ul is_dl then pk_len pk else 0)) (\<lambda>_. 0)
    (elts (r_urr (ul_active st))) (elts (r_urr (ul_active (process_urrs_loop is_ul is_dl now pk ids st))))"
  using assms
proof (induction ids arbitrary: st)
  case (Cons i ids)
  let ?us = "elts (r_urr (ul_active st))" and ?len = "if counts d is_ul is_dl then pk_len pk else 0"
  show ?case
  proof (cases "pfcp_get_urr_by_id (ul_active st) i")
    case None
    have "i \<noteq> urr_id u" if u: "u \<in> set ?us" for u
    proof -
      obtain j where "j < length ?us" "u = ?us ! j"
        using u by (metis in_set_conv_nth)
      then show ?thesis
        using None urr_by_id [OF Cons.prems(1), of i j] by auto
    qed
    moreover have "accounts d S (\<lambda>i. of_nat (count_list ids i) * ?len) (\<lambda>_. 0) ?us
        (elts (r_urr (ul_active (process_urrs_loop is_ul is_dl now pk ids st))))"
      using Cons None by simp
    ultimately show ?thesis
      using None by (auto simp: accounts_def list_all2_conv_all_nth)
  next
    case (Some k)
    then have k: "k < length ?us" "urr_id (?us ! k) = i"
      using urr_by_id [OF Cons.prems(1)] by blast+
    define u0 where "u0 = ?us ! k"
    define u1 where "u1 = (if before (abs_vlib_time (urr_monitoring_time u0)) now then split_at_monitoring_time now u0 else u0)"
    obtain u2 st2 where step: "process_urr is_ul is_dl now pk u1 st = (u2, st2)"
      by (metis surj_pair)
    have no_drop: "\<not> (before (abs_vlib_time (urr_monitoring_time u0)) now \<and> bit (urr_status u0) 1)"
      using Cons.prems(2) Some by (auto simp: u0_def Let_def bit_or_iff bit_BIT)
    define st3 where "st3 = st2\<lparr>ul_active := (ul_active st2)\<lparr>r_urr := map_option (\<lambda>v. v[k := u2]) (r_urr (ul_active st2))\<rparr>\<rparr>"
    have loop: "process_urrs_loop is_ul is_dl now pk (i # ids) st = process_urrs_loop is_ul is_dl now pk ids st3"
      using Some no_drop step by (auto simp: u0_def [symmetric] u1_def [symmetric] st3_def Let_def)
    have u1: "unreported d u1 = unreported d u0" "urr_id u1 = i" "urr_methods u1 = urr_methods u0"
      using no_drop split_unreported [of u0] k(2) by (auto simp: u1_def u0_def)
    note pu = process_urr_unreported [OF step]
    have us3: "elts (r_urr (ul_active st3)) = ?us[k := u2]"
      using pu(4) k(1) by (cases "r_urr (ul_active st)") (simp_all add: st3_def)
    have first: "accounts d S (\<lambda>j. if j = i then ?len else 0) (\<lambda>_. 0) ?us (?us[k := u2])"
    proof -
      have "urr_id u2 = i" "urr_methods u2 = urr_methods (?us ! k)" "bit (urr_methods u2) 1 \<Longrightarrow> unreported d (?us ! k) + ?len = 0 + unreported d u2"
        using pu(1,2) pu(3) [of d] u1 by (simp_all add: u0_def)
      then show ?thesis
        using accounts_one [OF Cons.prems(1) k(1), of u2 S d ?len 0] k(2) by simp
    qed
    have "sorted_wrt (<) (map urr_id (elts (r_urr (ul_active st3))))"
      using Cons.prems(1) by (simp only: us3 accounts_ids [OF first])
    then have "accounts d S (\<lambda>j. of_nat (count_list ids j) * ?len) (\<lambda>_. 0) (?us[k := u2])
        (elts (r_urr (ul_active (process_urrs_loop is_ul is_dl now pk ids st3))))"
      using Cons.IH [of st3] Cons.prems(2) us3 loop by simp
    from accounts_trans [OF first this] show ?thesis
      unfolding loop by (simp add: distrib_right)
  qed
qed simp

section \<open>Reports\<close>

lemma take_volume_unreported:
  assumes "take_volume now urr = (u, m)"
  shows "unreported d urr = c_get d (m_bytes m) + unreported d u" "c_get d (m_bytes (v_measure (urr_volume u))) = 0"
    "urr_id u = urr_id urr" "urr_methods u = urr_methods urr"
  using assms
  by (cases d; auto simp: take_volume_def unreported_def Let_def bit_or_iff bit_BIT zero_counter_def split: if_splits)+

text \<open>Which rule a report is about, and the volume it has.\<close>

definition for_rule :: "u16 \<Rightarrow> pfcp_usage_report_t \<Rightarrow> bool" where
  "for_rule i r \<longleftrightarrow> ur_urr_id r = ucast i"

lemma init_usage_report_for:
  assumes "init_usage_report urr trigger = (r, urr')"
  shows "for_rule (urr_id urr) r" "same_usage urr urr'" "urr_start_time urr' = urr_start_time urr"
    "\<not> bit (ur_fields r) USAGE_REPORT_VOLUME_MEASUREMENT"
  using assms
  by (auto simp: init_usage_report_def for_rule_def same_usage_def bit_SET_BIT)

lemma report_times_for:
  assumes "report_times now vnow start duration first latest tp_start tp_end r = Some r'"
  shows "for_rule i r' = for_rule i r"
    "bit (ur_fields r') USAGE_REPORT_VOLUME_MEASUREMENT = bit (ur_fields r) USAGE_REPORT_VOLUME_MEASUREMENT"
  using assms
  by (auto simp: report_times_def for_rule_def bit_SET_BIT Let_def
      split: if_splits Option.bind_splits)

lemma report_volume_for [simp]:
  "for_rule i (report_volume m duration r) = for_rule i r"
  "bit (ur_fields (report_volume m duration r)) USAGE_REPORT_VOLUME_MEASUREMENT"
  "volume_of d (ur_volume_measurement (report_volume m duration r)) = c_get d (m_bytes m)"
  by (cases d; simp add: report_volume_def for_rule_def bit_SET_BIT)+

lemma report_ue_for [simp]: "for_rule i (report_ue lib ue trigger r) = for_rule i r"
  by (simp add: report_ue_def for_rule_def Let_def split: option.split)

lemma ucast_u16_u32_eq [simp]: "(ucast (a::u16) :: u32) = ucast b \<longleftrightarrow> a = b"
proof
  assume "(ucast a :: u32) = ucast b"
  then have "(ucast (ucast a :: u32) :: u16) = ucast (ucast b :: u32)"
    by simp
  then show "a = b"
    by (simp add: unsigned_ucast_eq)
qed simp

lemma reported_one:
  assumes "for_rule i r" "bit (ur_fields r) USAGE_REPORT_VOLUME_MEASUREMENT"
  shows "reported d j [r] = (if j = i then volume_of d (ur_volume_measurement r) else 0)"
  using assms by (auto simp: reported_def for_rule_def)

lemma reported_other: "\<forall>r \<in> set rs. for_rule i r \<Longrightarrow> j \<noteq> i \<Longrightarrow> reported d j rs = 0"
  by (induction rs) (auto simp: reported_def for_rule_def)

lemma report_before_for:
  assumes "report_before vnow now trigger u = Some (r, u')"
  shows "same_usage u u'" "for_rule (urr_id u) r" "bit (ur_fields r) USAGE_REPORT_VOLUME_MEASUREMENT"
    "volume_of d (ur_volume_measurement r) = c_get d (m_bytes (ub_volume (urr_usage_before_monitoring_time u)))"
proof -
  obtain r0 u0 where 0: "init_usage_report u USAGE_REPORT_TRIGGER_MONITORING_TIME = (r0, u0)"
    by (metis surj_pair)
  note i = init_usage_report_for [OF 0]
  have u0: "u' = u0"
    using assms by (auto simp: report_before_def 0 Let_def split: if_splits Option.bind_splits)
  obtain duration r1 where "r = report_volume (ub_volume (urr_usage_before_monitoring_time u0)) duration r1"
    "for_rule (urr_id u) r1"
    using assms i(1)
    by (auto simp: report_before_def 0 Let_def for_rule_def report_times_for [unfolded for_rule_def]
        split: if_splits Option.bind_splits)
  then show "same_usage u u'" "for_rule (urr_id u) r" "bit (ur_fields r) USAGE_REPORT_VOLUME_MEASUREMENT"
    "volume_of d (ur_volume_measurement r) = c_get d (m_bytes (ub_volume (urr_usage_before_monitoring_time u)))"
    using i(2) by (simp_all add: u0 same_usage_def)
qed

lemma restart_urr_usage:
  "urr_id (restart_urr n u) = urr_id u" "urr_methods (restart_urr n u) = urr_methods u"
  "unreported d (restart_urr n u) = c_get d (m_bytes (v_measure (urr_volume u)))"
  by (simp_all add: restart_urr_def Let_def unreported_def bit_and_iff bit_not_iff bit_BIT)

lemma report_usage_ev_accounts:
  assumes res: "report_usage_ev lib vnow ue trigger now urr = Some (urr', rs)"
  shows "urr_id urr' = urr_id urr" "urr_methods urr' = urr_methods urr" "\<forall>r \<in> set rs. for_rule (urr_id urr) r"
    and "trigger AND USAGE_REPORT_TRIGGER_START_OF_TRAFFIC = 0 \<Longrightarrow>
      unreported d urr' = 0 \<and> reported d (urr_id urr) rs = unreported d urr"
proof -
  obtain u1 m where 1: "take_volume now urr = (u1, m)"
    by (metis surj_pair)
  note tv = take_volume_unreported(1,2) [OF 1, of d] take_volume_unreported(3,4) [OF 1]
  obtain bs u2 where 2: "(if bit (urr_status u1) 1
      then do { (r, urr) \<leftarrow> report_before vnow now trigger u1; Some ([r], urr) } else Some ([], u1)) = Some (bs, u2)"
    using res 1 by (auto simp: report_usage_ev_def Let_def split: if_splits Option.bind_splits)
  have bs: "same_usage u1 u2" "\<forall>r \<in> set bs. for_rule (urr_id u1) r"
    "reported d (urr_id u1) bs = (if bit (urr_status u1) 1 then c_get d (m_bytes (ub_volume (urr_usage_before_monitoring_time u1))) else 0)"
    using 2 by (auto simp: reported_one [OF report_before_for(2,3)] report_before_for split: if_splits Option.bind_splits)
  obtain r3 u3 where 3: "init_usage_report u2 trigger = (r3, u3)"
    by (metis surj_pair)
  note i = init_usage_report_for [OF 3]
  obtain r4 n where rs: "rs = bs @ [if trigger AND USAGE_REPORT_TRIGGER_START_OF_TRAFFIC = 0 then report_volume m n r4 else r4]"
      "urr' = restart_urr n u3" "for_rule (urr_id u2) r4"
    using res i(1) 1 2 3
    by (auto simp: report_usage_ev_def Let_def report_times_for for_rule_def report_times_for [unfolded for_rule_def]
        report_ue_for [unfolded for_rule_def] split: if_splits Option.bind_splits)
  have ids: "urr_id u2 = urr_id urr" "urr_id u3 = urr_id urr" "urr_methods u3 = urr_methods urr"
    using tv bs(1) i(2) by (simp_all add: same_usage_def)
  then show "urr_id urr' = urr_id urr" "urr_methods urr' = urr_methods urr"
    by (simp_all add: rs restart_urr_usage)
  show "\<forall>r \<in> set rs. for_rule (urr_id urr) r"
    using bs(2) rs(3) tv ids by (auto simp: rs(1))
  show "unreported d urr' = 0 \<and> reported d (urr_id urr) rs = unreported d urr" if "trigger AND USAGE_REPORT_TRIGGER_START_OF_TRAFFIC = 0"
    using that tv bs i(2) rs(3) ids by (simp add: rs(1,2) restart_urr_usage same_usage_def reported_one [of "urr_id urr"] unreported_def [of d u1] add.commute)
qed

lemma build_reports_accounts:
  assumes "build_reports lib vnow ue now liusa idx evs us = Some (us', rs)" "distinct (map urr_id us)"
    and "\<And>k. k < length evs \<Longrightarrow> k < length us \<Longrightarrow> urr_id (us ! k) \<in> S \<Longrightarrow>
      ev_triggers (evs ! k) AND USAGE_REPORT_TRIGGER_START_OF_TRAFFIC = 0"
  shows "accounts d S (\<lambda>_. 0) (\<lambda>i. reported d i rs) us us' \<and> (\<forall>r \<in> set rs. \<exists>u \<in> set us. for_rule (urr_id u) r)"
  using assms
proof (induction evs arbitrary: idx us us' rs)
  case Nil
  then show ?case
    by simp
next
  case (Cons ev evs)
  obtain urr urrs where us: "us = urr # urrs"
    using Cons.prems(1) by (cases us) auto
  obtain u rs1 us2 rs2 where
    head: "(if ev_triggers ev \<noteq> 0 then report_usage_ev lib vnow ue (ev_triggers ev) (ev_now ev) urr
            else if idx \<in> set liusa then report_usage_ev lib vnow ue USAGE_REPORT_TRIGGER_LINKED_USAGE_REPORTING now urr
            else Some (urr, [])) = Some (u, rs1)"
    and tail: "build_reports lib vnow ue now liusa (Suc idx) evs urrs = Some (us2, rs2)"
    and out: "us' = u # us2" "rs = rs1 @ rs2"
    using Cons.prems(1) by (auto simp: us split: Option.bind_splits)
  have "ev_triggers (evs ! k) AND USAGE_REPORT_TRIGGER_START_OF_TRAFFIC = 0"
    if "k < length evs" "k < length urrs" "urr_id (urrs ! k) \<in> S" for k
    using Cons.prems(3) [of "Suc k"] that by (simp add: us)
  then have IH: "accounts d S (\<lambda>_. 0) (\<lambda>i. reported d i rs2) urrs us2" "\<forall>r \<in> set rs2. \<exists>u \<in> set urrs. for_rule (urr_id u) r"
    using Cons.IH [OF tail] Cons.prems(2) by (simp_all add: us)
  have no_start: "ev_triggers ev AND USAGE_REPORT_TRIGGER_START_OF_TRAFFIC = 0" if "urr_id urr \<in> S"
    using Cons.prems(3) [of 0] that by (simp add: us)
  have "urr_id u = urr_id urr \<and> urr_methods u = urr_methods urr \<and> (\<forall>r \<in> set rs1. for_rule (urr_id urr) r)
      \<and> (urr_id urr \<in> S \<longrightarrow> reported d (urr_id urr) rs1 + unreported d u = unreported d urr)"
  proof (cases "ev_triggers ev = 0 \<and> idx \<notin> set liusa")
    case False
    then obtain trigger t where r: "report_usage_ev lib vnow ue trigger t urr = Some (u, rs1)"
      "urr_id urr \<in> S \<Longrightarrow> trigger AND USAGE_REPORT_TRIGGER_START_OF_TRAFFIC = 0"
      using head no_start by (auto simp: bit_BIT split: if_splits)
    then show ?thesis
      using report_usage_ev_accounts(1-3) [OF r(1)] report_usage_ev_accounts(4) [OF r(1), of d] by simp
  qed (use head in auto)
  then have first: "urr_id u = urr_id urr" "urr_methods u = urr_methods urr" "\<forall>r \<in> set rs1. for_rule (urr_id urr) r"
    "urr_id urr \<in> S \<Longrightarrow> reported d (urr_id urr) rs1 + unreported d u = unreported d urr"
    by blast+
  have "reported d (urr_id urr) rs2 = 0"
    using IH(2) Cons.prems(2) unfolding us by (induction rs2) (auto simp: reported_def for_rule_def)
  moreover have "reported d (urr_id (urrs ! k)) rs1 = 0" if "k < length urrs" for k
    using reported_other [OF first(3)] Cons.prems(2) that unfolding us by (metis distinct.simps(2) list.simps(9) nth_map nth_mem length_map)
  then have "accounts d S (\<lambda>_. 0) (\<lambda>i. reported d i rs) urrs us2"
    using IH(1) by (simp add: accounts_def list_all2_conv_all_nth out(2))
  ultimately show ?case
    using first IH(2) by (auto simp: us out accounts_def)
qed

end
