(* ===== verification/Upf_List.thy ===== *)
theory Upf_List
  imports Upf_Session
begin

text \<open>
  The sessions of an association. The code links them into a doubly linked list by indices into the pool of
  sessions; here every association has the plain list of its sessions, and attaching, detaching and releasing
  sessions are the operations on these lists.
\<close>

section \<open>The list of an association\<close>

definition head_index :: "nat list \<Rightarrow> nat" where
  "head_index xs = (case xs of [] \<Rightarrow> NO_INDEX | x # _ \<Rightarrow> x)"

lemma head_index_simps [simp]: "head_index [] = NO_INDEX" "head_index (x # xs) = x"
  by (simp_all add: head_index_def)

lemma head_index_append [simp]: "head_index (xs @ ys) = (if xs = [] then head_index ys else hd xs)"
  by (cases xs) simp_all

text \<open>\<open>chain ss n prev xs nxt\<close>: the sessions \<open>xs\<close> of association \<open>n\<close> are linked, between the index \<open>prev\<close> and the
  index \<open>nxt\<close>.\<close>

fun chain :: "(nat \<rightharpoonup> upf_session_t) \<Rightarrow> nat \<Rightarrow> nat \<Rightarrow> nat list \<Rightarrow> nat \<Rightarrow> bool" where
  "chain ss n prev [] nxt \<longleftrightarrow> True"
| "chain ss n prev (x # xs) nxt \<longleftrightarrow>
     (case ss x of None \<Rightarrow> False
      | Some sx \<Rightarrow> s_assoc_node sx = n \<and> s_assoc_prev sx = prev
          \<and> s_assoc_next sx = (if xs = [] then nxt else hd xs))
     \<and> chain ss n x xs nxt"

definition node_list :: "upf_main_t \<Rightarrow> nat \<Rightarrow> nat list \<Rightarrow> bool" where
  "node_list g n xs \<longleftrightarrow> g_node_sessions g n = Some (head_index xs) \<and> distinct xs \<and> NO_INDEX \<notin> set xs
     \<and> chain (g_sessions g) n NO_INDEX xs NO_INDEX"

lemma chain_append:
  "chain ss n prev (xs @ ys) nxt
     \<longleftrightarrow> chain ss n prev xs (if ys = [] then nxt else hd ys) \<and> chain ss n (if xs = [] then prev else last xs) ys nxt"
  by (induction xs arbitrary: prev) (auto split: option.splits)

lemma chain_cong: "(\<And>x. x \<in> set xs \<Longrightarrow> ss' x = ss x) \<Longrightarrow> chain ss' n prev xs nxt = chain ss n prev xs nxt"
  by (induction xs arbitrary: prev) (auto split: option.splits)

lemma chain_other [simp]: "x \<notin> set xs \<Longrightarrow> chain (ss(x := v)) n prev xs nxt = chain ss n prev xs nxt"
  by (rule chain_cong) auto

lemma chain_session:
  assumes "chain ss n prev xs nxt" "x \<in> set xs"
  obtains sx where "ss x = Some sx" "s_assoc_node sx = n"
  using assms by (induction xs arbitrary: prev) (auto split: option.splits)

lemma node_list_session:
  assumes "node_list g n xs" "x \<in> set xs"
  obtains sx where "g_sessions g x = Some sx" "s_assoc_node sx = n"
  using assms chain_session by (metis node_list_def)

text \<open>Lists of different associations have no session in common.\<close>

lemma node_lists_disjoint:
  assumes "node_list g n xs" "node_list g m ys" "n \<noteq> m" "x \<in> set xs"
  shows "x \<notin> set ys"
proof
  assume "x \<in> set ys"
  obtain sx where "g_sessions g x = Some sx" "s_assoc_node sx = n"
    using node_list_session [OF assms(1,4)] by blast
  moreover obtain sx' where "g_sessions g x = Some sx'" "s_assoc_node sx' = m"
    using node_list_session [OF assms(2) \<open>x \<in> set ys\<close>] by blast
  ultimately show False
    using assms(3) by simp
qed

text \<open>Changes of a session that leave its links alone.\<close>

definition same_links :: "upf_main_t \<Rightarrow> upf_main_t \<Rightarrow> bool" where
  "same_links g g' \<longleftrightarrow> g_node_sessions g' = g_node_sessions g
     \<and> (\<forall>x. map_option (\<lambda>s. (s_assoc_node s, s_assoc_prev s, s_assoc_next s)) (g_sessions g' x)
          = map_option (\<lambda>s. (s_assoc_node s, s_assoc_prev s, s_assoc_next s)) (g_sessions g x))"

lemma chain_same_links: "same_links g g' \<Longrightarrow> chain (g_sessions g') n prev xs nxt = chain (g_sessions g) n prev xs nxt"
proof (induction xs arbitrary: prev)
  case (Cons x xs)
  have "map_option (\<lambda>s. (s_assoc_node s, s_assoc_prev s, s_assoc_next s)) (g_sessions g' x)
      = map_option (\<lambda>s. (s_assoc_node s, s_assoc_prev s, s_assoc_next s)) (g_sessions g x)"
    using Cons.prems by (simp add: same_links_def)
  then show ?case
    using Cons.IH [OF Cons.prems] by (auto split: option.splits)
qed simp

lemma node_list_same_links: "same_links g g' \<Longrightarrow> node_list g' n xs = node_list g n xs"
  by (simp add: node_list_def chain_same_links) (simp add: same_links_def)

section \<open>Attaching and detaching\<close>

lemma get_rules_put [simp]:
  "pfcp_get_rules (put_rules r x sx) r' = (if r = r' then x else pfcp_get_rules sx r')"
  by (cases r; cases r') (auto simp: pfcp_get_rules_def put_rules_def)

text \<open>What is left of a session without its links.\<close>

definition unlinked :: "upf_session_t \<Rightarrow> upf_session_t" where
  "unlinked sx = sx\<lparr>s_assoc_node := 0, s_assoc_prev := 0, s_assoc_next := 0\<rparr>"

lemma unlinked_same [simp]:
  "pfcp_get_rules (unlinked sx) r = pfcp_get_rules sx r" "s_nat_addr (unlinked sx) = s_nat_addr sx"
  "s_cp_seid (unlinked sx) = s_cp_seid sx"
  by (simp_all add: unlinked_def pfcp_get_rules_def)

lemma unlinked_eqD:
  assumes "unlinked sx = unlinked sy"
  shows "pfcp_get_rules sx r = pfcp_get_rules sy r" "s_nat_addr sx = s_nat_addr sy" "s_cp_seid sx = s_cp_seid sy"
  using assms by (metis unlinked_same)+

text \<open>A step that replaces the list of one association: it changes nothing but links, and only of the sessions
  of the association and of one more.\<close>

definition relinks :: "nat \<Rightarrow> nat set \<Rightarrow> upf_main_t \<Rightarrow> upf_main_t \<Rightarrow> bool" where
  "relinks n X g g' \<longleftrightarrow> g' = g\<lparr>g_sessions := g_sessions g', g_node_sessions := g_node_sessions g'\<rparr>
     \<and> (\<forall>m. m \<noteq> n \<longrightarrow> g_node_sessions g' m = g_node_sessions g m)
     \<and> (\<forall>x. x \<notin> X \<longrightarrow> g_sessions g' x = g_sessions g x)
     \<and> (\<forall>x. map_option unlinked (g_sessions g' x) = map_option unlinked (g_sessions g x))"

lemma relinks_fields:
  assumes "relinks n X g g'"
  shows "g_adf_ref_cnt g' = g_adf_ref_cnt g" "g_nat_used_blocks g' = g_nat_used_blocks g"
    "g_qer_policers g' = g_qer_policers g" "g_session_by_id g' = g_session_by_id g"
    "g_v4_tunnel_by_key g' = g_v4_tunnel_by_key g" "g_v6_tunnel_by_key g' = g_v6_tunnel_by_key g"
proof -
  have eq: "g' = g\<lparr>g_sessions := g_sessions g', g_node_sessions := g_node_sessions g'\<rparr>"
    using assms by (simp add: relinks_def)
  show "g_adf_ref_cnt g' = g_adf_ref_cnt g" "g_nat_used_blocks g' = g_nat_used_blocks g"
    "g_qer_policers g' = g_qer_policers g" "g_session_by_id g' = g_session_by_id g"
    "g_v4_tunnel_by_key g' = g_v4_tunnel_by_key g" "g_v6_tunnel_by_key g' = g_v6_tunnel_by_key g"
    using arg_cong [OF eq, of g_adf_ref_cnt] arg_cong [OF eq, of g_nat_used_blocks] arg_cong [OF eq, of g_qer_policers]
      arg_cong [OF eq, of g_session_by_id] arg_cong [OF eq, of g_v4_tunnel_by_key] arg_cong [OF eq, of g_v6_tunnel_by_key]
    by simp_all
qed

lemma relinks_other_list:
  assumes "relinks n X g g'" "node_list g m ys" "m \<noteq> n" "set ys \<inter> X = {}"
  shows "node_list g' m ys"
proof -
  have "g_sessions g' x = g_sessions g x" if "x \<in> set ys" for x
    using assms(1,4) that by (auto simp: relinks_def)
  then have "chain (g_sessions g') k prev ys nxt = chain (g_sessions g) k prev ys nxt" for k prev nxt
    by (rule chain_cong)
  then show ?thesis
    using assms(1-3) by (simp add: node_list_def relinks_def)
qed

text \<open>An operation returns, with a result as described.\<close>

definition returns :: "'a option \<Rightarrow> ('a \<Rightarrow> bool) \<Rightarrow> bool" where
  "returns r P \<longleftrightarrow> (case r of None \<Rightarrow> False | Some x \<Rightarrow> P x)"

lemma returns_simps [simp]: "returns (Some x) P = P x" "returns None P = False"
  by (simp_all add: returns_def)

lemma returnsE:
  assumes "returns r P"
  obtains x where "r = Some x" "P x"
  using assms by (cases r) simp_all

lemma attach_list:
  assumes list: "node_list g n xs" and i: "g_sessions g i = Some sx" "i \<notin> set xs" "i \<noteq> NO_INDEX"
  shows "returns (node_assoc_attach_session n i g) (\<lambda>g'. node_list g' n (i # xs) \<and> relinks n (set (i # xs)) g g')"
proof (cases xs)
  case Nil
  then show ?thesis
    using assms
    by (auto simp: node_assoc_attach_session_def update_session_def put_session_def node_list_def relinks_def unlinked_def)
next
  case (Cons y ys)
  then obtain sy where "g_sessions g y = Some sy" and y: "y \<noteq> i" "y \<noteq> NO_INDEX"
    using list i by (auto simp: node_list_def split: option.splits)
  then show ?thesis
    using assms Cons
    by (auto simp: node_assoc_attach_session_def update_session_def put_session_def node_list_def relinks_def unlinked_def
        fun_upd_twist split: option.splits)
qed

lemma detach_list:
  assumes list: "node_list g n (ys @ i # zs)"
  shows "returns (node_assoc_detach_session i g) (\<lambda>g'. node_list g' n (ys @ zs) \<and> relinks n (set (ys @ i # zs)) g g')"
proof -
  obtain sx where sx: "g_sessions g i = Some sx" "s_assoc_node sx = n"
    "s_assoc_prev sx = (if ys = [] then NO_INDEX else last ys)" "s_assoc_next sx = (if zs = [] then NO_INDEX else hd zs)"
    using list by (auto simp: node_list_def chain_append split: option.splits if_splits)
  have dist: "distinct (ys @ i # zs)" "NO_INDEX \<notin> set (ys @ i # zs)"
    using list by (simp_all add: node_list_def)
  show ?thesis
  proof (cases ys rule: rev_cases)
    case Nil
    show ?thesis
    proof (cases zs)
      case Nil
      then show ?thesis
        using list sx \<open>ys = []\<close>
        by (auto simp: node_assoc_detach_session_def update_session_def put_session_def node_list_def relinks_def unlinked_def)
    next
      case (Cons q zs')
      then show ?thesis
        using list sx \<open>ys = []\<close>
        by (auto simp: node_assoc_detach_session_def update_session_def put_session_def node_list_def relinks_def
            unlinked_def split: option.splits)
    qed
  next
    case (snoc ys' p)
    then obtain sp where p: "g_sessions g p = Some sp" "s_assoc_node sp = n"
        "s_assoc_prev sp = (if ys' = [] then NO_INDEX else last ys')"
      using list by (auto simp: node_list_def chain_append split: option.splits if_splits)
    show ?thesis
    proof (cases zs)
      case Nil
      then show ?thesis
        using list sx p snoc
        by (auto simp: node_assoc_detach_session_def update_session_def put_session_def node_list_def relinks_def
            unlinked_def chain_append split: option.splits)
    next
      case (Cons q zs')
      then show ?thesis
        using list sx p snoc
        by (auto simp: node_assoc_detach_session_def update_session_def put_session_def node_list_def relinks_def
            unlinked_def chain_append split: option.splits)
    qed
  qed
qed

section \<open>What a session refers to\<close>

definition both_sets :: "(rules_t \<Rightarrow> 'a list option) \<Rightarrow> upf_session_t \<Rightarrow> 'a list" where
  "both_sets f sx = elts (f (pfcp_get_rules sx PFCP_ACTIVE)) @ elts (f (pfcp_get_rules sx PFCP_PENDING))"

text \<open>Every application database and NAT address a session refers to exists.\<close>

definition references_exist :: "upf_main_t \<Rightarrow> upf_session_t \<Rightarrow> bool" where
  "references_exist g sx \<longleftrightarrow>
     (\<forall>pdr \<in> set (both_sets r_pdr sx). adr_db_id (pdi_adr (pdr_pdi pdr)) = -1
        \<or> adr_db_id (pdi_adr (pdr_pdi pdr)) \<in> dom (g_adf_ref_cnt g))
     \<and> (\<forall>ap. s_nat_addr sx = Some ap \<longrightarrow> ap \<in> dom (g_nat_used_blocks g))"

text \<open>The references a policer counts, and those a list of QoS rules holds.\<close>

definition policer_count :: "upf_main_t \<Rightarrow> nat \<Rightarrow> nat" where
  "policer_count g p = (case g_qer_policers g p of None \<Rightarrow> 0 | Some pol \<Rightarrow> unat (pol_ref_cnt pol))"

definition uses :: "nat \<Rightarrow> upf_qer_t list \<Rightarrow> nat" where
  "uses p qers = length (filter (\<lambda>q. qer_policer_value q \<noteq> -1 \<and> unat (qer_policer_value q) = p) qers)"

lemma uses_simps [simp]:
  "uses p [] = 0" "uses p (q # qs) = (if qer_policer_value q \<noteq> -1 \<and> unat (qer_policer_value q) = p then 1 else 0) + uses p qs"
  "uses p (xs @ ys) = uses p xs + uses p ys"
  by (simp_all add: uses_def)

section \<open>Freeing a session\<close>

text \<open>Steps that change only counters of references.\<close>

definition refs_frame :: "upf_main_t \<Rightarrow> upf_main_t \<Rightarrow> bool" where
  "refs_frame g g' \<longleftrightarrow> g_sessions g' = g_sessions g \<and> g_node_sessions g' = g_node_sessions g
     \<and> g_session_by_id g' = g_session_by_id g \<and> g_v4_tunnel_by_key g' = g_v4_tunnel_by_key g
     \<and> g_v6_tunnel_by_key g' = g_v6_tunnel_by_key g \<and> dom (g_adf_ref_cnt g') = dom (g_adf_ref_cnt g)
     \<and> dom (g_nat_used_blocks g') = dom (g_nat_used_blocks g)"

lemma refs_frame_refl [simp]: "refs_frame g g"
  by (simp add: refs_frame_def)

lemma refs_frame_trans [trans]: "refs_frame a b \<Longrightarrow> refs_frame b c \<Longrightarrow> refs_frame a c"
  by (simp add: refs_frame_def)

lemma free_pdrs:
  assumes "\<forall>pdr \<in> set pdrs. adr_db_id (pdi_adr (pdr_pdi pdr)) = -1 \<or> adr_db_id (pdi_adr (pdr_pdi pdr)) \<in> dom (g_adf_ref_cnt g)"
  shows "returns (foreach pfcp_free_pdr pdrs g) (\<lambda>g'. refs_frame g g' \<and> g_qer_policers g' = g_qer_policers g)"
  using assms
proof (induction pdrs arbitrary: g)
  case (Cons pdr pdrs)
  have "returns (pfcp_free_pdr pdr g) (\<lambda>g1. refs_frame g g1 \<and> g_qer_policers g1 = g_qer_policers g)"
    using Cons.prems by (auto simp: pfcp_free_pdr_def upf_adf_put_adr_db_def refs_frame_def insert_absorb domI)
  then obtain g1 where g1: "pfcp_free_pdr pdr g = Some g1" "refs_frame g g1" "g_qer_policers g1 = g_qer_policers g"
    by (auto elim: returnsE)
  have "\<forall>pdr \<in> set pdrs. adr_db_id (pdi_adr (pdr_pdi pdr)) = -1 \<or> adr_db_id (pdi_adr (pdr_pdi pdr)) \<in> dom (g_adf_ref_cnt g1)"
    using Cons.prems g1(2) by (simp add: refs_frame_def)
  from Cons.IH [OF this] show ?case
    using g1 refs_frame_trans by (auto elim!: returnsE)
qed simp

lemma free_qers:
  assumes "\<And>p. uses p qers \<le> policer_count g p"
  shows "returns (foreach pfcp_free_qer qers g)
     (\<lambda>g'. refs_frame g g' \<and> (\<forall>p. policer_count g' p = policer_count g p - uses p qers))"
  using assms
proof (induction qers arbitrary: g)
  case (Cons q qers)
  have "returns (pfcp_free_qer q g)
      (\<lambda>g1. refs_frame g g1 \<and> (\<forall>p. policer_count g1 p = policer_count g p - uses p [q]))"
  proof (cases "qer_policer_value q = -1")
    case False
    then obtain pol where pol: "g_qer_policers g (unat (qer_policer_value q)) = Some pol" "0 < unat (pol_ref_cnt pol)"
      using Cons.prems [of "unat (qer_policer_value q)"] by (auto simp: policer_count_def split: option.splits)
    have "unat (pol_ref_cnt pol - 1) = unat (pol_ref_cnt pol) - 1"
      using pol(2) by (intro unat_minus_one) auto
    then show ?thesis
      using False pol by (auto simp: pfcp_free_qer_def detach_qer_policer_def Let_def refs_frame_def policer_count_def)
  qed (simp add: pfcp_free_qer_def detach_qer_policer_def)
  then obtain g1 where g1: "pfcp_free_qer q g = Some g1" "refs_frame g g1"
      "\<And>p. policer_count g1 p = policer_count g p - uses p [q]"
    by (auto elim: returnsE)
  have "uses p qers \<le> policer_count g1 p" for p
    using Cons.prems [of p] g1(3) [of p] by (simp split: if_splits)
  from Cons.IH [OF this] show ?case
    using g1 refs_frame_trans by (auto elim!: returnsE)
qed simp

lemma free_rules:
  assumes sx: "g_sessions g i = Some sx" and rules: "rules = pfcp_get_rules sx rule"
    and pdrs: "\<forall>pdr \<in> set (elts (r_pdr rules)). adr_db_id (pdi_adr (pdr_pdi pdr)) = -1
      \<or> adr_db_id (pdi_adr (pdr_pdi pdr)) \<in> dom (g_adf_ref_cnt g)"
    and qers: "\<And>p. uses p (elts (r_qer rules)) \<le> policer_count g p"
  shows "returns (pfcp_free_rules i rule g) (\<lambda>g'. g_sessions g' = (g_sessions g)(i \<mapsto> put_rules rule zero_rules sx)
     \<and> refs_frame g (g'\<lparr>g_sessions := g_sessions g\<rparr>)
     \<and> (\<forall>p. policer_count g' p = policer_count g p - uses p (elts (r_qer rules))))"
proof -
  obtain g1 where g1: "foreach pfcp_free_pdr (elts (r_pdr rules)) g = Some g1" "refs_frame g g1"
      "g_qer_policers g1 = g_qer_policers g"
    using free_pdrs [OF pdrs] by (auto elim: returnsE)
  have "uses p (elts (r_qer rules)) \<le> policer_count g1 p" for p
    using qers [of p] g1(3) by (simp add: policer_count_def)
  from free_qers [OF this]
  obtain g2 where g2: "foreach pfcp_free_qer (elts (r_qer rules)) g1 = Some g2" "refs_frame g1 g2"
      "\<forall>p. policer_count g2 p = policer_count g1 p - uses p (elts (r_qer rules))"
    by (auto elim: returnsE)
  show ?thesis
    using sx rules g1 g2
    by (auto simp: pfcp_free_rules_def update_session_def put_session_def refs_frame_def policer_count_def)
qed

lemma free_session:
  assumes sx: "g_sessions g i = Some sx" and refs: "references_exist g sx"
    and qers: "\<And>p. uses p (both_sets r_qer sx) \<le> policer_count g p"
  shows "returns (pfcp_free_session i g) (\<lambda>g'. g_sessions g' = (g_sessions g)(i := None)
     \<and> refs_frame g (g'\<lparr>g_sessions := g_sessions g\<rparr>)
     \<and> (\<forall>p. policer_count g' p = policer_count g p - uses p (both_sets r_qer sx)))"
proof -
  let ?a = "pfcp_get_rules sx PFCP_ACTIVE" and ?p = "pfcp_get_rules sx PFCP_PENDING"
  have pdrs: "\<forall>pdr \<in> set (elts (r_pdr ?a)). adr_db_id (pdi_adr (pdr_pdi pdr)) = -1
      \<or> adr_db_id (pdi_adr (pdr_pdi pdr)) \<in> dom (g_adf_ref_cnt g)"
    "\<forall>pdr \<in> set (elts (r_pdr ?p)). adr_db_id (pdi_adr (pdr_pdi pdr)) = -1
      \<or> adr_db_id (pdi_adr (pdr_pdi pdr)) \<in> dom (g_adf_ref_cnt g)"
    using refs by (auto simp: references_exist_def both_sets_def)
  have le: "uses p (elts (r_qer ?a)) + uses p (elts (r_qer ?p)) \<le> policer_count g p" for p
    using qers [of p] by (simp add: both_sets_def)
  have "uses p (elts (r_qer ?a)) \<le> policer_count g p" for p
    using le [of p] by simp
  from free_rules [OF sx refl pdrs(1) this]
  obtain g1 where g1: "pfcp_free_rules i PFCP_ACTIVE g = Some g1"
      "g_sessions g1 = (g_sessions g)(i \<mapsto> put_rules PFCP_ACTIVE zero_rules sx)"
      "refs_frame g (g1\<lparr>g_sessions := g_sessions g\<rparr>)"
      "\<forall>p. policer_count g1 p = policer_count g p - uses p (elts (r_qer ?a))"
    by (auto elim: returnsE)
  let ?sx1 = "put_rules PFCP_ACTIVE zero_rules sx"
  have sx1: "g_sessions g1 i = Some ?sx1" "pfcp_get_rules ?sx1 PFCP_PENDING = ?p" "s_nat_addr ?sx1 = s_nat_addr sx"
    using g1(2) by (simp_all add: put_rules_def pfcp_get_rules_def)
  have dom1: "dom (g_adf_ref_cnt g1) = dom (g_adf_ref_cnt g)" "dom (g_nat_used_blocks g1) = dom (g_nat_used_blocks g)"
    using g1(3) by (simp_all add: refs_frame_def)
  have "uses p (elts (r_qer ?p)) \<le> policer_count g1 p" for p
    using le [of p] g1(4) by simp
  from free_rules [OF sx1(1) sx1(2) [symmetric], unfolded dom1, OF pdrs(2) this]
  obtain g2 where g2: "pfcp_free_rules i PFCP_PENDING g1 = Some g2"
      "g_sessions g2 = (g_sessions g1)(i \<mapsto> put_rules PFCP_PENDING zero_rules ?sx1)"
      "refs_frame g1 (g2\<lparr>g_sessions := g_sessions g1\<rparr>)"
      "\<forall>p. policer_count g2 p = policer_count g1 p - uses p (elts (r_qer ?p))"
    by (auto elim: returnsE)
  have nat: "s_nat_addr (put_rules PFCP_PENDING zero_rules ?sx1) = s_nat_addr sx"
    by (simp add: put_rules_def)
  have nat2: "\<exists>n. g_nat_used_blocks g2 ap = Some n" if "s_nat_addr sx = Some ap" for ap
    using that refs dom1(2) g2(3) by (auto simp: references_exist_def refs_frame_def)
  show ?thesis
  proof (cases "s_nat_addr sx")
    case None
    then show ?thesis
      using g1 g2 nat
      by (auto simp: pfcp_free_session_def refs_frame_def policer_count_def both_sets_def)
  next
    case (Some ap)
    then obtain n where "g_nat_used_blocks g2 ap = Some n"
      using nat2 by blast
    then show ?thesis
      using g1 g2 nat Some
      by (auto simp: pfcp_free_session_def upf_delete_nat_binding_def refs_frame_def policer_count_def both_sets_def)
  qed
qed

section \<open>Disabling a session\<close>

text \<open>Steps that leave sessions, lists, tables and counters alone.\<close>

definition quiet :: "upf_main_t \<Rightarrow> upf_main_t \<Rightarrow> bool" where
  "quiet g g' \<longleftrightarrow> g_sessions g' = g_sessions g \<and> g_node_sessions g' = g_node_sessions g
     \<and> g_session_by_id g' = g_session_by_id g \<and> g_v4_tunnel_by_key g' = g_v4_tunnel_by_key g
     \<and> g_v6_tunnel_by_key g' = g_v6_tunnel_by_key g \<and> g_adf_ref_cnt g' = g_adf_ref_cnt g
     \<and> g_nat_used_blocks g' = g_nat_used_blocks g \<and> g_qer_policers g' = g_qer_policers g"

lemma quiet_refl [simp]: "quiet g g"
  by (simp add: quiet_def)

lemma quiet_trans [trans]: "quiet a b \<Longrightarrow> quiet b c \<Longrightarrow> quiet a c"
  by (simp add: quiet_def)

lemma quiet_fold: "(\<And>x s. quiet s (f x s)) \<Longrightarrow> quiet g (fold f xs g)"
proof (induction xs arbitrary: g)
  case (Cons x xs)
  then show ?case
    using quiet_trans by (metis fold_simps(2))
qed simp

lemma quiet_stop_urr_timers: "quiet g (snd (stop_urr_timers now urr g))"
proof -
  have stop: "quiet g (snd (upf_pfcp_session_stop_urr_time now t g))" for t g
    by (simp add: upf_pfcp_session_stop_urr_time_def stop_timer_def quiet_def)
  show ?thesis
    unfolding stop_urr_timers_def Let_def case_prod_beta snd_conv
    by (rule quiet_trans [OF stop quiet_trans [OF stop quiet_trans [OF stop quiet_trans [OF stop stop]]]])
qed

lemma quiet_stop_urrs:
  "returns (foreach_upd (\<lambda>urr g. Some (stop_urr_timers (g_timer_last_run g) urr g)) urrs g) (\<lambda>(_, g'). quiet g g')"
proof (induction urrs arbitrary: g)
  case (Cons urr urrs)
  obtain urr' g1 where g1: "stop_urr_timers (g_timer_last_run g) urr g = (urr', g1)"
    by (metis surj_pair)
  then have "quiet g g1"
    using quiet_stop_urr_timers by (metis snd_conv)
  moreover obtain us g2 where
      "foreach_upd (\<lambda>urr g. Some (stop_urr_timers (g_timer_last_run g) urr g)) urrs g1 = Some (us, g2)" "quiet g1 g2"
    using Cons.IH [of g1] by (auto elim: returnsE)
  ultimately show ?case
    using quiet_trans [of g g1 g2] g1 by simp
qed simp

lemma fold_del_v4:
  "fold (\<lambda>e. pfcp_add_del_v4_teid i e False) es g
     = g\<lparr>g_v4_tunnel_by_key := (\<lambda>k. if k \<in> v4_key ` set es then None else g_v4_tunnel_by_key g k)\<rparr>"
  by (induction es arbitrary: g) (auto simp: pfcp_add_del_v4_teid_def fun_eq_iff)

lemma fold_del_v6:
  "fold (\<lambda>e. pfcp_add_del_v6_teid i e False) es g
     = g\<lparr>g_v6_tunnel_by_key := (\<lambda>k. if k \<in> v6_key ` set es then None else g_v6_tunnel_by_key g k)\<rparr>"
  by (induction es arbitrary: g) (auto simp: pfcp_add_del_v6_teid_def fun_eq_iff)

text \<open>The state with the table entries of a session removed.\<close>

definition without_entries :: "nat \<Rightarrow> upf_session_t \<Rightarrow> upf_main_t \<Rightarrow> upf_main_t" where
  "without_entries i sx g = (let active = pfcp_get_rules sx PFCP_ACTIVE in
     g\<lparr>g_session_by_id := (g_session_by_id g)(s_cp_seid sx := None),
       g_v4_tunnel_by_key := (\<lambda>k. if k \<in> v4_key ` set (r_v4_teid active) then None else g_v4_tunnel_by_key g k),
       g_v6_tunnel_by_key := (\<lambda>k. if k \<in> v6_key ` set (r_v6_teid active) then None else g_v6_tunnel_by_key g k)\<rparr>)"

lemma disable_session:
  assumes list: "node_list g n (ys @ i # zs)" and sx: "g_sessions g i = Some sx"
  shows "returns (pfcp_disable_session lib i g) (\<lambda>g'. \<exists>g1 g2 sx'. quiet (without_entries i sx g) g1
     \<and> relinks n (set (ys @ i # zs)) g1 g2 \<and> node_list g2 n (ys @ zs)
     \<and> quiet (g2\<lparr>g_sessions := (g_sessions g2)(i \<mapsto> sx')\<rparr>) g'
     \<and> both_sets r_pdr sx' = both_sets r_pdr sx \<and> both_sets r_qer sx' = both_sets r_qer sx
     \<and> s_nat_addr sx' = s_nat_addr sx)"
proof -
  let ?active = "pfcp_get_rules sx PFCP_ACTIVE"
  define routes where "routes = (\<lambda>g. fold (\<lambda>acl. pfcp_add_del_v6_tdf lib i acl False) (r_v6_acls ?active)
    (fold (\<lambda>acl. pfcp_add_del_v4_tdf lib i acl False) (r_v4_acls ?active)
      (fold (\<lambda>ue_ip. pfcp_add_del_ue_ip lib i ue_ip False) (r_ue_src_ip ?active)
        (fold (\<lambda>ue_ip. pfcp_add_del_ue_ip lib i ue_ip False) (r_ue_dst_ip ?active) g))))"
  have tdf: "quiet g (pfcp_add_del_tdf lib is_ip4 i acl False g)" for is_ip4 acl g
    by (simp add: pfcp_add_del_tdf_def quiet_def Let_def)
  have ue: "quiet g (pfcp_add_del_ue_ip lib i ue_ip False g)" for ue_ip g
    by (simp add: pfcp_add_del_ue_ip_def quiet_def Let_def)
  have routes: "quiet g (routes g)" for g
    unfolding routes_def pfcp_add_del_v4_tdf_def pfcp_add_del_v6_tdf_def
    by (rule quiet_trans [OF quiet_fold [OF ue] quiet_trans [OF quiet_fold [OF ue]
            quiet_trans [OF quiet_fold [OF tdf] quiet_fold [OF tdf]]]])
  define g1 where "g1 = routes (without_entries i sx g)"
  have g1': "routes (fold (\<lambda>e. pfcp_add_del_v6_teid i e False) (r_v6_teid ?active)
      (fold (\<lambda>e. pfcp_add_del_v4_teid i e False) (r_v4_teid ?active)
        (g\<lparr>g_session_by_id := (g_session_by_id g)(s_cp_seid sx := None)\<rparr>))) = g1"
    by (simp add: g1_def without_entries_def Let_def fold_del_v4 fold_del_v6 cong: if_cong)
  have g1: "quiet (without_entries i sx g) g1"
    unfolding g1_def by (rule routes)
  then have "node_list g1 n (ys @ i # zs)"
    using list by (simp add: node_list_def quiet_def without_entries_def Let_def)
  from detach_list [OF this]
  obtain g2 where g2: "node_assoc_detach_session i g1 = Some g2" "node_list g2 n (ys @ zs)"
      "relinks n (set (ys @ i # zs)) g1 g2"
    by (auto elim: returnsE)
  obtain urrs g3 where g3: "foreach_upd (\<lambda>urr g. Some (stop_urr_timers (g_timer_last_run g) urr g)) (elts (r_urr ?active)) g2
      = Some (urrs, g3)" "quiet g2 g3"
    using quiet_stop_urrs [of "elts (r_urr ?active)" g2] by (auto elim: returnsE)
  obtain t g4 where g4: "upf_pfcp_session_stop_up_inactivity_timer (r_inactivity_timer ?active) g3 = (t, g4)" "quiet g3 g4"
    by (simp add: upf_pfcp_session_stop_up_inactivity_timer_def stop_timer_def quiet_def)
  have "map_option unlinked (g_sessions g2 i) = Some (unlinked sx)"
    using g2(3) g1 sx by (simp add: relinks_def quiet_def without_entries_def Let_def)
  then obtain sx2 where sx2: "g_sessions g2 i = Some sx2" "unlinked sx2 = unlinked sx"
    by auto
  note same = unlinked_eqD [OF sx2(2)]
  let ?new = "?active\<lparr>r_urr := map_option (\<lambda>_. urrs) (r_urr ?active), r_inactivity_timer := t\<rparr>"
  let ?sx' = "put_rules PFCP_ACTIVE ?new sx2"
  have sx4: "g_sessions g4 i = Some sx2"
    using g3(2) g4(2) sx2(1) by (simp add: quiet_def)
  define g5 where "g5 = (put_session i ?sx' g4)\<lparr>g_sessions_counter := g_sessions_counter g4 - 1\<rparr>"
  have "pfcp_disable_session lib i g = Some g5"
    using g2(1) g3(1) g4(1) sx4 g1'
    by (simp add: pfcp_disable_session_def sx Let_def routes_def update_session_def put_session_def g5_def)
  moreover have "quiet (g2\<lparr>g_sessions := (g_sessions g2)(i \<mapsto> ?sx')\<rparr>) g5"
    using g3(2) g4(2) by (simp add: quiet_def put_session_def g5_def)
  moreover have "both_sets r_pdr ?sx' = both_sets r_pdr sx" "both_sets r_qer ?sx' = both_sets r_qer sx"
    by (simp_all add: both_sets_def same(1))
  moreover have "s_nat_addr ?sx' = s_nat_addr sx"
    using same(2) by (simp add: put_rules_def)
  ultimately show ?thesis
    using g1 g2(2,3) unfolding returns_def by auto
qed

section \<open>Deleting a session\<close>

text \<open>The effect of disabling and freeing session \<open>i\<close> of association \<open>n\<close>, whose sessions are \<open>X\<close>.\<close>

definition deleted :: "nat \<Rightarrow> nat set \<Rightarrow> nat \<Rightarrow> upf_session_t \<Rightarrow> upf_main_t \<Rightarrow> upf_main_t \<Rightarrow> bool" where
  "deleted n X i sx g g' \<longleftrightarrow> g_sessions g' i = None
     \<and> (\<forall>x. x \<notin> X \<longrightarrow> g_sessions g' x = g_sessions g x)
     \<and> (\<forall>x. x \<noteq> i \<longrightarrow> map_option unlinked (g_sessions g' x) = map_option unlinked (g_sessions g x))
     \<and> (\<forall>m. m \<noteq> n \<longrightarrow> g_node_sessions g' m = g_node_sessions g m)
     \<and> g_session_by_id g' = g_session_by_id (without_entries i sx g)
     \<and> g_v4_tunnel_by_key g' = g_v4_tunnel_by_key (without_entries i sx g)
     \<and> g_v6_tunnel_by_key g' = g_v6_tunnel_by_key (without_entries i sx g)
     \<and> dom (g_adf_ref_cnt g') = dom (g_adf_ref_cnt g) \<and> dom (g_nat_used_blocks g') = dom (g_nat_used_blocks g)
     \<and> (\<forall>p. policer_count g' p = policer_count g p - uses p (both_sets r_qer sx))"

lemma delete_session:
  assumes list: "node_list g n (ys @ i # zs)" and sx: "g_sessions g i = Some sx" and refs: "references_exist g sx"
    and qers: "\<And>p. uses p (both_sets r_qer sx) \<le> policer_count g p"
  shows "returns (pfcp_disable_session lib i g \<bind> pfcp_free_session i)
     (\<lambda>g'. node_list g' n (ys @ zs) \<and> deleted n (set (ys @ i # zs)) i sx g g')"
proof -
  obtain g1 g2 g3 sx' where g3: "pfcp_disable_session lib i g = Some g3"
    and g1: "quiet (without_entries i sx g) g1" and g2: "relinks n (set (ys @ i # zs)) g1 g2" "node_list g2 n (ys @ zs)"
    and q: "quiet (g2\<lparr>g_sessions := (g_sessions g2)(i \<mapsto> sx')\<rparr>) g3"
    and sx': "both_sets r_pdr sx' = both_sets r_pdr sx" "both_sets r_qer sx' = both_sets r_qer sx"
      "s_nat_addr sx' = s_nat_addr sx"
    using disable_session [OF list sx, of lib] by (auto elim: returnsE)
  have rest: "g_adf_ref_cnt g3 = g_adf_ref_cnt g" "g_nat_used_blocks g3 = g_nat_used_blocks g"
    "g_qer_policers g3 = g_qer_policers g"
    using g1 q by (simp_all add: relinks_fields [OF g2(1)] quiet_def without_entries_def Let_def)
  have "references_exist g3 sx'"
    using refs by (simp add: references_exist_def sx' rest)
  moreover have "policer_count g3 = policer_count g"
    by (simp add: fun_eq_iff policer_count_def rest)
  moreover have "g_sessions g3 i = Some sx'"
    using q by (simp add: quiet_def)
  ultimately obtain g4 where g4: "pfcp_free_session i g3 = Some g4" "g_sessions g4 = (g_sessions g3)(i := None)"
      "refs_frame g3 (g4\<lparr>g_sessions := g_sessions g3\<rparr>)"
      "\<forall>p. policer_count g4 p = policer_count g p - uses p (both_sets r_qer sx)"
    using free_session [of g3 i sx'] qers by (auto simp: sx' elim: returnsE)
  have nodes: "g_node_sessions g4 = g_node_sessions g2"
    using g4(3) q by (simp add: quiet_def refs_frame_def)
  have sessions: "g_sessions g4 = (g_sessions g2)(i := None)"
    using g4(2) q by (simp add: quiet_def)
  have "i \<notin> set (ys @ zs)"
    using list by (simp add: node_list_def)
  then have "node_list g4 n (ys @ zs)"
    using g2(2) by (simp add: node_list_def nodes sessions)
  moreover have "deleted n (set (ys @ i # zs)) i sx g g4"
    unfolding deleted_def
  proof (intro conjI allI impI)
    fix x
    assume "x \<notin> set (ys @ i # zs)"
    then show "g_sessions g4 x = g_sessions g x"
      using g1 g2(1) by (simp add: sessions relinks_def quiet_def without_entries_def Let_def)
  next
    fix x
    assume "x \<noteq> i"
    then show "map_option unlinked (g_sessions g4 x) = map_option unlinked (g_sessions g x)"
      using g1 g2(1) by (simp add: sessions relinks_def quiet_def without_entries_def Let_def)
  next
    fix m
    assume "m \<noteq> n"
    then show "g_node_sessions g4 m = g_node_sessions g m"
      using g1 g2(1) by (simp add: nodes relinks_def quiet_def without_entries_def Let_def)
  next
    fix p
    show "policer_count g4 p = policer_count g p - uses p (both_sets r_qer sx)"
      using g4(4) by simp
  qed (use g4(3) q g1 rest relinks_fields [OF g2(1)] sessions in \<open>simp_all add: refs_frame_def quiet_def\<close>)
  ultimately show ?thesis
    using g3 g4(1) by simp
qed

text \<open>Table entries that lead to a session are those the session knows of.\<close>

definition entries_known :: "upf_main_t \<Rightarrow> nat \<Rightarrow> bool" where
  "entries_known g x \<longleftrightarrow> (\<forall>sx. g_sessions g x = Some sx \<longrightarrow>
     (\<forall>s. g_session_by_id g s = Some x \<longrightarrow> s = s_cp_seid sx)
     \<and> (\<forall>k r. g_v4_tunnel_by_key g k = Some (r, x) \<longrightarrow> k \<in> v4_key ` set (r_v4_teid (pfcp_get_rules sx PFCP_ACTIVE)))
     \<and> (\<forall>k r. g_v6_tunnel_by_key g k = Some (r, x) \<longrightarrow> k \<in> v6_key ` set (r_v6_teid (pfcp_get_rules sx PFCP_ACTIVE))))"

definition no_entries :: "upf_main_t \<Rightarrow> nat \<Rightarrow> bool" where
  "no_entries g x \<longleftrightarrow> (\<forall>s. g_session_by_id g s \<noteq> Some x)
     \<and> (\<forall>k r. g_v4_tunnel_by_key g k \<noteq> Some (r, x)) \<and> (\<forall>k r. g_v6_tunnel_by_key g k \<noteq> Some (r, x))"

lemma deleted_no_entries:
  assumes "deleted n X i sx g g'" "g_sessions g i = Some sx" "entries_known g i"
  shows "no_entries g' i"
  using assms by (auto simp: deleted_def no_entries_def entries_known_def without_entries_def Let_def)

lemma deleted_keeps_no_entries: "deleted n X i sx g g' \<Longrightarrow> no_entries g x \<Longrightarrow> no_entries g' x"
  by (auto simp: deleted_def no_entries_def without_entries_def Let_def)

lemma deleted_session:
  assumes "deleted n X i sx g g'" "g_sessions g' x = Some sx'"
  obtains sy where "g_sessions g x = Some sy" "unlinked sx' = unlinked sy"
proof (cases "x = i")
  case False
  then have "map_option unlinked (g_sessions g' x) = map_option unlinked (g_sessions g x)"
    using assms(1) unfolding deleted_def by blast
  then show ?thesis
    using that assms(2) by (cases "g_sessions g x") auto
qed (use assms in \<open>simp add: deleted_def\<close>)

lemma deleted_keeps_known:
  assumes del: "deleted n X i sx g g'" and known: "entries_known g x"
  shows "entries_known g' x"
  unfolding entries_known_def
proof (rule allI, rule impI)
  fix sx'
  assume "g_sessions g' x = Some sx'"
  then obtain sy where sy: "g_sessions g x = Some sy" "unlinked sx' = unlinked sy"
    using deleted_session [OF del] by blast
  have "g_session_by_id g s = Some x" if "g_session_by_id g' s = Some x" for s
    using del that by (auto simp: deleted_def without_entries_def Let_def split: if_splits)
  moreover have "g_v4_tunnel_by_key g k = Some (r, x)" if "g_v4_tunnel_by_key g' k = Some (r, x)" for k r
    using del that by (auto simp: deleted_def without_entries_def Let_def split: if_splits)
  moreover have "g_v6_tunnel_by_key g k = Some (r, x)" if "g_v6_tunnel_by_key g' k = Some (r, x)" for k r
    using del that by (auto simp: deleted_def without_entries_def Let_def split: if_splits)
  ultimately show "(\<forall>s. g_session_by_id g' s = Some x \<longrightarrow> s = s_cp_seid sx')
     \<and> (\<forall>k r. g_v4_tunnel_by_key g' k = Some (r, x) \<longrightarrow> k \<in> v4_key ` set (r_v4_teid (pfcp_get_rules sx' PFCP_ACTIVE)))
     \<and> (\<forall>k r. g_v6_tunnel_by_key g' k = Some (r, x) \<longrightarrow> k \<in> v6_key ` set (r_v6_teid (pfcp_get_rules sx' PFCP_ACTIVE)))"
    using known sy(1) unfolding unlinked_eqD [OF sy(2)] entries_known_def by blast
qed

section \<open>Releasing the sessions of an association\<close>

text \<open>Everything the sessions refer to is there, and the policers count at least their references.\<close>

definition releasable :: "upf_main_t \<Rightarrow> nat list \<Rightarrow> bool" where
  "releasable g xs \<longleftrightarrow>
     (\<forall>x \<in> set xs. case g_sessions g x of None \<Rightarrow> False | Some sx \<Rightarrow> references_exist g sx)
     \<and> (\<forall>p. (\<Sum>x\<leftarrow>xs. case g_sessions g x of None \<Rightarrow> 0 | Some sx \<Rightarrow> uses p (both_sets r_qer sx)) \<le> policer_count g p)"

lemma releasable_Cons:
  assumes "releasable g (x # xs)" "g_sessions g x = Some sx"
  shows "references_exist g sx" "uses p (both_sets r_qer sx) \<le> policer_count g p"
  using assms add_leD1 by (fastforce simp: releasable_def)+

lemma releasable_deleted:
  assumes del: "deleted n X i sx g g'" and rel: "releasable g (i # xs)" and sx: "g_sessions g i = Some sx" and "i \<notin> set xs"
  shows "releasable g' xs"
proof -
  have other: "map_option unlinked (g_sessions g' x) = map_option unlinked (g_sessions g x)" if "x \<in> set xs" for x
    using del that \<open>i \<notin> set xs\<close> unfolding deleted_def by metis
  have same: "references_exist g' sy' = references_exist g sy" "both_sets r_qer sy' = both_sets r_qer sy"
    if "unlinked sy' = unlinked sy" for sy sy'
    using del unlinked_eqD [OF that] by (simp_all add: references_exist_def both_sets_def deleted_def)
  have session: "\<exists>sy sy'. g_sessions g x = Some sy \<and> g_sessions g' x = Some sy' \<and> unlinked sy' = unlinked sy"
    if "x \<in> set xs" for x
    using other [OF that] rel that by (cases "g_sessions g' x") (auto simp: releasable_def split: option.splits)
  have "(case g_sessions g' x of None \<Rightarrow> 0 | Some sx \<Rightarrow> uses p (both_sets r_qer sx))
      = (case g_sessions g x of None \<Rightarrow> 0 | Some sx \<Rightarrow> uses p (both_sets r_qer sx))" if x: "x \<in> set xs" for x p
  proof -
    obtain sy sy' where sy: "g_sessions g x = Some sy" "g_sessions g' x = Some sy'" "unlinked sy' = unlinked sy"
      using session [OF x] by blast
    then show ?thesis
      by (simp add: same(2) [OF sy(3)])
  qed
  then have sums: "(\<Sum>x\<leftarrow>xs. case g_sessions g' x of None \<Rightarrow> 0 | Some sx \<Rightarrow> uses p (both_sets r_qer sx))
      = (\<Sum>x\<leftarrow>xs. case g_sessions g x of None \<Rightarrow> 0 | Some sx \<Rightarrow> uses p (both_sets r_qer sx))" for p
    by (intro arg_cong [of _ _ sum_list] map_cong refl)
  have all: "uses p (both_sets r_qer sx)
      + (\<Sum>x\<leftarrow>xs. case g_sessions g x of None \<Rightarrow> 0 | Some sx \<Rightarrow> uses p (both_sets r_qer sx)) \<le> policer_count g p" for p
    using rel sx by (simp add: releasable_def)
  have count: "policer_count g' p = policer_count g p - uses p (both_sets r_qer sx)" for p
    using del by (simp add: deleted_def)
  have "case g_sessions g' x of None \<Rightarrow> False | Some sx \<Rightarrow> references_exist g' sx" if x: "x \<in> set xs" for x
  proof -
    obtain sy sy' where sy: "g_sessions g x = Some sy" "g_sessions g' x = Some sy'" "unlinked sy' = unlinked sy"
      using session [OF x] by blast
    have "references_exist g sy"
      using rel x sy(1) by (auto simp: releasable_def dest!: bspec [of _ _ x])
    then show ?thesis
      by (simp add: sy(2) same(1) [OF sy(3)])
  qed
  moreover have "(\<Sum>x\<leftarrow>xs. case g_sessions g' x of None \<Rightarrow> 0 | Some sx \<Rightarrow> uses p (both_sets r_qer sx)) \<le> policer_count g' p"
    for p
    unfolding sums count using all [of p] by linarith
  ultimately show ?thesis
    unfolding releasable_def by blast
qed

lemma release_loop:
  assumes "node_list g n xs" "releasable g xs" "\<And>x. x \<in> set xs \<Longrightarrow> entries_known g x"
  shows "returns (release_sessions_loop lib (head_index xs) g) (\<lambda>g'. node_list g' n []
     \<and> g_sessions g' = (\<lambda>x. if x \<in> set xs then None else g_sessions g x)
     \<and> (\<forall>m. m \<noteq> n \<longrightarrow> g_node_sessions g' m = g_node_sessions g m)
     \<and> (\<forall>x. x \<in> set xs \<or> no_entries g x \<longrightarrow> no_entries g' x))"
  using assms
proof (induction xs arbitrary: g)
  case Nil
  then show ?case
    by (simp add: release_sessions_loop.simps)
next
  case (Cons x xs)
  obtain sx where sx: "g_sessions g x = Some sx" "s_assoc_next sx = head_index xs" and x: "x \<noteq> NO_INDEX" "x \<notin> set xs"
    using Cons.prems(1) by (auto simp: node_list_def head_index_def split: option.splits list.splits if_splits)
  note rel = releasable_Cons [OF Cons.prems(2) sx(1)]
  obtain g2 where g2: "pfcp_disable_session lib x g \<bind> pfcp_free_session x = Some g2"
      "node_list g2 n xs" "deleted n (set (x # xs)) x sx g g2"
    using delete_session [of g n "[]" x xs sx lib] Cons.prems(1) sx(1) rel by (auto elim: returnsE)
  have "entries_known g2 y" if "y \<in> set xs" for y
    using deleted_keeps_known [OF g2(3)] Cons.prems(3) that by simp
  from Cons.IH [OF g2(2) releasable_deleted [OF g2(3) Cons.prems(2) sx(1) x(2)] this]
  obtain g' where g': "release_sessions_loop lib (head_index xs) g2 = Some g'" "node_list g' n []"
      "g_sessions g' = (\<lambda>y. if y \<in> set xs then None else g_sessions g2 y)"
      "\<forall>m. m \<noteq> n \<longrightarrow> g_node_sessions g' m = g_node_sessions g2 m"
      "\<forall>y. y \<in> set xs \<or> no_entries g2 y \<longrightarrow> no_entries g' y"
    by (auto elim: returnsE)
  have "release_sessions_loop lib x g = Some g'"
    using g2(1) g'(1) sx x(1) by (subst release_sessions_loop.simps) (auto simp: bind_eq_Some_conv)
  moreover have "g_sessions g' = (\<lambda>y. if y \<in> set (x # xs) then None else g_sessions g y)"
    using g2(3) by (auto simp: g'(3) deleted_def fun_eq_iff)
  moreover have "\<forall>m. m \<noteq> n \<longrightarrow> g_node_sessions g' m = g_node_sessions g m"
    using g'(4) g2(3) by (simp add: deleted_def)
  moreover have "no_entries g' y" if "y \<in> set (x # xs) \<or> no_entries g y" for y
    using g'(5) deleted_no_entries [OF g2(3) sx(1)] deleted_keeps_no_entries [OF g2(3)] Cons.prems(3) that by auto
  ultimately show ?case
    using g'(2) by simp
qed

section \<open>All associations\<close>

text \<open>The abstract state: the list of sessions of every association.\<close>

definition session_lists :: "upf_main_t \<Rightarrow> (nat \<Rightarrow> nat list) \<Rightarrow> bool" where
  "session_lists g L \<longleftrightarrow> (\<forall>n. case g_node_sessions g n of None \<Rightarrow> L n = [] | Some _ \<Rightarrow> node_list g n (L n))"

lemma session_listsD: "session_lists g L \<Longrightarrow> n \<in> dom (g_node_sessions g) \<Longrightarrow> node_list g n (L n)"
  by (auto simp: session_lists_def dest!: spec [of _ n])

lemma session_lists_update:
  assumes lists: "session_lists g L" and n: "n \<in> dom (g_node_sessions g)" and new: "node_list g' n xs"
    and nodes: "\<And>m. m \<noteq> n \<Longrightarrow> g_node_sessions g' m = g_node_sessions g m"
    and sessions: "\<And>x. x \<in> dom (g_sessions g) \<Longrightarrow> x \<notin> set (L n) \<Longrightarrow> g_sessions g' x = g_sessions g x"
  shows "session_lists g' (L(n := xs))"
  unfolding session_lists_def
proof
  fix m
  show "case g_node_sessions g' m of None \<Rightarrow> (L(n := xs)) m = [] | Some _ \<Rightarrow> node_list g' m ((L(n := xs)) m)"
  proof (cases "m = n")
    case True
    then show ?thesis
      using new by (simp add: node_list_def)
  next
    case False
    have m: "case g_node_sessions g m of None \<Rightarrow> L m = [] | Some _ \<Rightarrow> node_list g m (L m)"
      using lists by (simp add: session_lists_def)
    show ?thesis
    proof (cases "g_node_sessions g m")
      case None
      then show ?thesis
        using m False nodes by simp
    next
      case (Some h)
      then have list: "node_list g m (L m)"
        using m by simp
      have "g_sessions g' x = g_sessions g x" if "x \<in> set (L m)" for x
        using sessions node_lists_disjoint [OF list session_listsD [OF lists n] False that]
          node_list_session [OF list that] by (metis domI)
      then have "chain (g_sessions g') m prev (L m) nxt = chain (g_sessions g) m prev (L m) nxt" for prev nxt
        by (rule chain_cong)
      then show ?thesis
        using list Some False nodes by (simp add: node_list_def)
    qed
  qed
qed

lemma release_sessions_list:
  assumes lists: "session_lists g L" "n \<in> dom (g_node_sessions g)" and rel: "releasable g (L n)"
    and known: "\<And>x. x \<in> set (L n) \<Longrightarrow> entries_known g x"
  obtains g' where "release_sessions lib n g = Some g'" "session_lists g' (L(n := []))"
    "g_sessions g' = (\<lambda>x. if x \<in> set (L n) then None else g_sessions g x)"
    "\<And>m. m \<noteq> n \<Longrightarrow> g_node_sessions g' m = g_node_sessions g m" "g_node_sessions g' n \<noteq> None"
    "\<And>x. x \<in> set (L n) \<Longrightarrow> no_entries g' x"
proof -
  note list = session_listsD [OF lists]
  obtain g' where g': "release_sessions_loop lib (head_index (L n)) g = Some g'" "node_list g' n []"
      "g_sessions g' = (\<lambda>x. if x \<in> set (L n) then None else g_sessions g x)"
      "\<forall>m. m \<noteq> n \<longrightarrow> g_node_sessions g' m = g_node_sessions g m"
      "\<forall>x. x \<in> set (L n) \<or> no_entries g x \<longrightarrow> no_entries g' x"
    using release_loop [OF list rel known, of lib] by (auto elim: returnsE)
  have "session_lists g' (L(n := []))"
    by (rule session_lists_update [OF lists g'(2)]) (use g'(3,4) in simp_all)
  moreover have "release_sessions lib n g = Some g'"
    using list g'(1) by (simp add: release_sessions_def node_list_def)
  ultimately show thesis
    using that g'(2-5) by (simp add: node_list_def)
qed

lemma create_session_list:
  assumes lists: "session_lists g L" and n: "n \<in> dom (g_node_sessions g)"
    and i: "ses_pool_index lib (dom (g_sessions g)) \<notin> dom (g_sessions g)" "ses_pool_index lib (dom (g_sessions g)) \<noteq> NO_INDEX"
  shows "returns (pfcp_create_session lib n up_address cp_seid cp_address g) (\<lambda>(i, g'). i \<notin> dom (g_sessions g)
     \<and> session_lists g' (L(n := i # L n)) \<and> pfcp_lookup cp_seid g' = Some i)"
proof -
  define i where "i = ses_pool_index lib (dom (g_sessions g))"
  define sx where "sx = new_session\<lparr>s_up_address := up_address, s_cp_seid := cp_seid, s_cp_address := cp_address,
      s_last_ul_traffic := g_vlib_now g, s_unix_time_start := g_now g\<rparr>"
  note list = session_listsD [OF lists n]
  have i_new: "i \<notin> set (L n)" "i \<notin> dom (g_sessions g)" "i \<noteq> NO_INDEX"
    using i node_list_session [OF list, of i] unfolding i_def by blast+
  then have "node_list (put_session i sx g) n (L n)" "g_sessions (put_session i sx g) i = Some sx"
    using list by (simp_all add: node_list_def put_session_def)
  from attach_list [OF this i_new(1,3)]
  obtain g' where g': "node_assoc_attach_session n i (put_session i sx g) = Some g'" "node_list g' n (i # L n)"
      "relinks n (set (i # L n)) (put_session i sx g) g'"
    by (auto elim: returnsE)
  let ?g = "g'\<lparr>g_session_by_id := (g_session_by_id g')(cp_seid \<mapsto> i), g_sessions_counter := g_sessions_counter g' + 1\<rparr>"
  have "session_lists ?g (L(n := i # L n))"
  proof (rule session_lists_update [OF lists n])
    show "node_list ?g n (i # L n)"
      using g'(2) by (simp add: node_list_def)
    show "g_node_sessions ?g m = g_node_sessions g m" if "m \<noteq> n" for m
      using g'(3) that by (simp add: relinks_def put_session_def)
    show "g_sessions ?g x = g_sessions g x" if "x \<in> dom (g_sessions g)" "x \<notin> set (L n)" for x
      using g'(3) that i_new(2) by (auto simp: relinks_def put_session_def)
  qed
  then show ?thesis
    using g'(1) i_new(2) by (simp add: pfcp_create_session_def i_def [symmetric] sx_def [symmetric] Let_def pfcp_lookup_def)
qed

lemma delete_session_list:
  assumes lists: "session_lists g L" and n: "n \<in> dom (g_node_sessions g)" and i: "i \<in> set (L n)"
    and rel: "releasable g [i]"
  shows "returns (pfcp_disable_session lib i g \<bind> pfcp_free_session i)
     (\<lambda>g'. g_sessions g' i = None \<and> session_lists g' (L(n := remove1 i (L n))))"
proof -
  note list = session_listsD [OF lists n]
  obtain ys zs where split: "L n = ys @ i # zs"
    using i split_list by metis
  then have rem: "remove1 i (L n) = ys @ zs"
    using list by (simp add: node_list_def remove1_append)
  obtain sx where sx: "g_sessions g i = Some sx"
    using node_list_session [OF list i] by blast
  obtain g' where g': "pfcp_disable_session lib i g \<bind> pfcp_free_session i = Some g'"
      "node_list g' n (ys @ zs)" "deleted n (set (L n)) i sx g g'"
    using delete_session [of g n ys i zs sx lib] list sx releasable_Cons [OF rel sx]
    unfolding split by (auto elim: returnsE)
  have "session_lists g' (L(n := ys @ zs))"
    by (rule session_lists_update [OF lists n g'(2)]) (use g'(3) in \<open>simp_all add: deleted_def\<close>)
  then show ?thesis
    using g'(1,3) rem by (simp add: deleted_def)
qed

end
