(* ===== verification/Upf_Correct.thy ===== *)
theory Upf_Correct
  imports Upf_Apply Upf_List
begin

text \<open>
  What an update of the rules of a session promises to the packets that follow: the flow classifier picks the
  detection rule of the best precedence among those that describe the flow, and the tables of tunnels send
  exactly the tunnels of the new rules to the session; and what creating, deleting and releasing sessions makes of
  the lists of sessions of the associations.
\<close>

section \<open>Classification after an update\<close>

text \<open>
  \<^verbatim>\<open>upf_app_dpo_match\<close> (\<^verbatim>\<open>upf_app_dpo.c\<close>) reads nothing of a flow but its key and its orientation; the rest of the
  match is a lookup in the FIB of the application.
\<close>

definition app_match_by_key :: "'v rules_lib_scheme \<Rightarrow> bool" where
  "app_match_by_key lib \<longleftrightarrow>
     (\<forall>id f f' a. fe_key f = fe_key f' \<longrightarrow> fe_is_reverse f = fe_is_reverse f' \<longrightarrow>
        upf_app_ip_rule_match lib id f a = upf_app_ip_rule_match lib id f' a)"

lemma matching_pdrs_by_key:
  assumes "app_match_by_key lib" "fe_key f = fe_key f'" "fe_is_reverse f = fe_is_reverse f'"
  shows "matching_pdrs lib teid f is_reverse is_ip4 pdrs = matching_pdrs lib teid f' is_reverse is_ip4 pdrs"
proof -
  have "application_matches lib is_ip4 pdr f = application_matches lib is_ip4 pdr f'" for pdr
    using assms unfolding application_matches_def app_match_by_key_def by metis
  moreover have "flow_ip f = flow_ip f'" "flow_port f = flow_port f'"
    using assms by (simp_all add: flow_ip_def flow_port_def fun_eq_iff)
  ultimately show ?thesis
    using assms(2)
    by (simp add: matching_pdrs_def pdr_filter_matches_def ue_compared_def ue_in_flow_def filter_matches_def)
qed

text \<open>
  The reference result of a classification: the packet is dropped if no rule describes it, and otherwise gets
  the index of a describing rule of the lowest precedence value, whose identifier the flow remembers.
\<close>

definition chosen ::
    "upf_pdr_t list \<Rightarrow> nat set \<Rightarrow> bool \<Rightarrow> nat \<Rightarrow> upf_classify_next \<times> nat \<times> flow_entry \<Rightarrow> bool" where
  "chosen pdrs M direction unset res \<longleftrightarrow> (case res of (next, idx, flow) \<Rightarrow>
     if M = {} then next = UPF_CLASSIFY_NEXT_DROP \<and> idx = unset
     else next \<noteq> UPF_CLASSIFY_NEXT_DROP \<and> best_pdr pdrs M idx \<and> flow_pdr_id flow direction = pdr_id (pdrs ! idx))"

lemma set_flow_fields [simp]:
  "fe_key (set_flow_teid d t f) = fe_key f" "fe_key (set_flow_next d n f) = fe_key f"
  "fe_key (set_flow_pdr_id d i f) = fe_key f" "fe_key (note_application pdr f) = fe_key f"
  "fe_is_reverse (set_flow_teid d t f) = fe_is_reverse f" "fe_is_reverse (set_flow_next d n f) = fe_is_reverse f"
  "fe_is_reverse (set_flow_pdr_id d i f) = fe_is_reverse f"
  "fe_is_reverse (note_application pdr f) = fe_is_reverse f"
  "fe_is_l3_proxy (set_flow_teid d t f) = fe_is_l3_proxy f" "fe_is_l3_proxy (set_flow_next d n f) = fe_is_l3_proxy f"
  "fe_is_l3_proxy (set_flow_pdr_id d i f) = fe_is_l3_proxy f"
  "flow_pdr_id (set_flow_next d n f) d' = flow_pdr_id f d'"
  "flow_pdr_id (note_application pdr f) d' = flow_pdr_id f d'"
  "flow_pdr_id (set_flow_pdr_id d i f) d' = (if d = d' then i else flow_pdr_id f d')"
  "flow_pdr_id (f\<lparr>fe_is_l3_proxy := b\<rparr>) d' = flow_pdr_id f d'"
  "flow_pdr_id (f\<lparr>fe_is_redirect := b\<rparr>) d' = flow_pdr_id f d'"
  by (auto simp: set_flow_teid_def set_flow_next_def set_flow_pdr_id_def note_application_def flow_pdr_id_def
      flow_dir_def)

lemma chosen_match:
  fixes teid :: u32 and direction :: bool
  assumes "app_match_by_key lib" "fe_key f = fe_key flow" "fe_is_reverse f = fe_is_reverse flow"
    and "ip_functions lib" "r_pdr active = Some pdrs" "plain_rules is_ip4 pdrs"
      "set (acl_vec active is_ip4) = compiled lib env is_ip4 0 pdrs" "all_compile lib env is_ip4 0 pdrs"
      "sorted_wrt (\<lambda>a b. upf_acl_cmp a b \<le> 0) (acl_vec active is_ip4)" "flow_of_family is_ip4 flow"
  defines "M \<equiv> matching_pdrs lib teid flow (direction \<noteq> fe_is_reverse flow) is_ip4 pdrs"
  obtains "match_flow lib teid f direction active is_ip4 = Some None" "M = {}"
  | acl where "match_flow lib teid f direction active is_ip4 = Some (Some acl)" "M \<noteq> {}"
      "acl_pdr_idx acl < length pdrs" "best_pdr pdrs M (acl_pdr_idx acl)"
proof -
  have "flow_of_family is_ip4 f"
    using assms(2,10) by (simp add: flow_of_family_def)
  note best = match_flow_best [OF assms(4-9) this, of teid direction, unfolded assms(3)]
  have "matching_pdrs lib teid f (direction \<noteq> fe_is_reverse flow) is_ip4 pdrs = M"
    unfolding M_def by (rule matching_pdrs_by_key [OF assms(1-3)])
  then show thesis
    using best that by (auto simp: best_pdr_def split: option.splits)
qed

lemma classify_return_chosen:
  fixes teid :: u32
  assumes rules: "app_match_by_key lib" "ip_functions lib" "r_pdr active = Some pdrs" "plain_rules is_ip4 pdrs"
      "set (acl_vec active is_ip4) = compiled lib env is_ip4 0 pdrs" "all_compile lib env is_ip4 0 pdrs"
      "sorted_wrt (\<lambda>a b. upf_acl_cmp a b \<le> 0) (acl_vec active is_ip4)" "flow_of_family is_ip4 flow"
  defines "t \<equiv> if teid \<noteq> 0 then teid else flow_teid flow FT_REVERSE"
  shows "\<exists>res. upf_acl_classify_return lib teid flow active is_ip4 unset = Some res
    \<and> chosen pdrs (matching_pdrs lib t flow (\<not> fe_is_reverse flow) is_ip4 pdrs) FT_REVERSE unset res"
proof -
  define f where "f = snd (reverse_teid teid flow)"
  have f: "reverse_teid teid flow = (t, f)" "fe_key f = fe_key flow" "fe_is_reverse f = fe_is_reverse flow"
    by (auto simp: f_def t_def reverse_teid_def)
  show ?thesis
  proof (rule chosen_match [OF rules(1) f(2,3) rules(2-8), of t FT_REVERSE])
    assume "match_flow lib t f FT_REVERSE active is_ip4 = Some None"
      "matching_pdrs lib t flow (FT_REVERSE \<noteq> fe_is_reverse flow) is_ip4 pdrs = {}"
    then show ?thesis
      by (simp add: upf_acl_classify_return_def f chosen_def)
  next
    fix acl
    assume acl: "match_flow lib t f FT_REVERSE active is_ip4 = Some (Some acl)" "acl_pdr_idx acl < length pdrs"
      "matching_pdrs lib t flow (FT_REVERSE \<noteq> fe_is_reverse flow) is_ip4 pdrs \<noteq> {}"
      "best_pdr pdrs (matching_pdrs lib t flow (FT_REVERSE \<noteq> fe_is_reverse flow) is_ip4 pdrs) (acl_pdr_idx acl)"
    then show ?thesis
      using rules(3) by (auto simp: upf_acl_classify_return_def f chosen_def vec_elt_def Let_def)
  qed
qed

lemma classify_forward_chosen:
  fixes teid :: u32
  assumes rules: "app_match_by_key lib" "ip_functions lib" "r_pdr active = Some pdrs" "plain_rules is_ip4 pdrs"
      "set (acl_vec active is_ip4) = compiled lib env is_ip4 0 pdrs" "all_compile lib env is_ip4 0 pdrs"
      "sorted_wrt (\<lambda>a b. upf_acl_cmp a b \<le> 0) (acl_vec active is_ip4)" "flow_of_family is_ip4 flow"
    and no_proxy: "fk_proto (fe_key flow) \<noteq> IP_PROTOCOL_TCP \<or> r_proxy_pdr_idx active = NO_INDEX"
  defines "t \<equiv> if teid \<noteq> 0 then teid else flow_teid flow FT_ORIGIN"
  shows "\<exists>res. upf_acl_classify_forward lib teid flow active is_ip4 = Some res
    \<and> chosen pdrs (matching_pdrs lib t flow (fe_is_reverse flow) is_ip4 pdrs) FT_ORIGIN NO_INDEX res"
proof -
  define f0 where "f0 = (if teid \<noteq> 0 then set_flow_teid FT_ORIGIN teid flow else flow)"
  define f where "f = set_flow_next FT_ORIGIN FT_NEXT_DROP (set_flow_next FT_REVERSE FT_NEXT_DROP (f0\<lparr>fe_is_l3_proxy := False\<rparr>))"
  have f: "fe_key f = fe_key flow" "fe_is_reverse f = fe_is_reverse flow" "\<not> fe_is_l3_proxy f"
    by (auto simp: f_def f0_def)
  have start: "(if teid \<noteq> 0 then (teid, set_flow_teid FT_ORIGIN teid flow) else (flow_teid flow FT_ORIGIN, flow)) = (t, f0)"
    by (simp add: t_def f0_def)
  have no_tcp: "\<not> (fk_proto (fe_key f0) = IP_PROTOCOL_TCP \<and> r_proxy_pdr_idx active \<noteq> NO_INDEX)"
    using no_proxy by (auto simp: f0_def)
  note unfolded = upf_acl_classify_forward_def [of lib teid flow active is_ip4, unfolded start, unfolded Let_def,
      unfolded prod.case if_not_P [OF no_tcp], folded f_def, unfolded prod.case]
  show ?thesis
  proof (rule chosen_match [OF rules(1) f(1,2) rules(2-8), of t FT_ORIGIN])
    assume "match_flow lib t f FT_ORIGIN active is_ip4 = Some None"
      "matching_pdrs lib t flow (FT_ORIGIN \<noteq> fe_is_reverse flow) is_ip4 pdrs = {}"
    then show ?thesis
      by (simp add: unfolded chosen_def)
  next
    fix acl
    assume acl: "match_flow lib t f FT_ORIGIN active is_ip4 = Some (Some acl)" "acl_pdr_idx acl < length pdrs"
      "matching_pdrs lib t flow (FT_ORIGIN \<noteq> fe_is_reverse flow) is_ip4 pdrs \<noteq> {}"
      "best_pdr pdrs (matching_pdrs lib t flow (FT_ORIGIN \<noteq> fe_is_reverse flow) is_ip4 pdrs) (acl_pdr_idx acl)"
    then show ?thesis
      using rules(3) f(3) by (auto simp: unfolded chosen_def vec_elt_def split: prod.splits if_splits)
  qed
qed

text \<open>The state of the active rules after an update that has new detection rules.\<close>

lemma update_compiled:
  assumes upd: "pfcp_update_apply lib si g = Some g'" "g_sessions g si = Some sx"
      "r_pdr (pfcp_get_rules sx PFCP_PENDING) = Some pdrs"
    and empty: "acl_vec (pfcp_get_rules sx PFCP_PENDING) is_ip4 = []"
    and sorts: "sorts upf_acl_cmp (sort_acl lib)"
  obtains sx' env where "g_sessions g' si = Some sx'" "r_pdr (pfcp_get_rules sx' PFCP_ACTIVE) = Some pdrs"
    "set (acl_vec (pfcp_get_rules sx' PFCP_ACTIVE) is_ip4) = compiled lib env is_ip4 0 pdrs"
    "all_compile lib env is_ip4 0 pdrs"
    "sorted_wrt (\<lambda>a b. upf_acl_cmp a b \<le> 0) (acl_vec (pfcp_get_rules sx' PFCP_ACTIVE) is_ip4)"
proof (rule update_apply_pdrs [OF upd(1,2)])
  show "r_pdr (pfcp_get_rules sx PFCP_PENDING) \<noteq> None"
    using upd(3) by simp
next
  let ?env = "\<lparr>env_nwi_sw_if_index = g_nwi_sw_if_index g, env_tdf_ul_table = g_tdf_ul_table g\<rparr>"
  fix built full sx'
  assume b: "build_pfcp_rules lib ?env (pfcp_get_rules sx PFCP_PENDING) = Some built"
    and full: "acl_vec full = acl_vec built" "r_pdr full = r_pdr built"
    and sx': "g_sessions g' = (g_sessions g)(si \<mapsto> sx')" "r_pdr (pfcp_get_rules sx' PFCP_ACTIVE) = r_pdr full"
    and acls: "\<And>is_ip4. acl_vec (pfcp_get_rules sx' PFCP_ACTIVE) is_ip4 = sort_acl lib upf_acl_cmp (acl_vec full is_ip4)"
  show thesis
  proof (rule that [of sx' ?env])
    show "r_pdr (pfcp_get_rules sx' PFCP_ACTIVE) = Some pdrs"
      using sx' full build_pfcp_rules_some(1) [OF b] upd(3) by (simp add: same_rules_def)
    show "set (acl_vec (pfcp_get_rules sx' PFCP_ACTIVE) is_ip4) = compiled lib ?env is_ip4 0 pdrs"
      using build_pfcp_rules_some(5) [OF b, of is_ip4] upd(3) empty by (simp add: acls full sorts_set [OF sorts])
    show "all_compile lib ?env is_ip4 0 pdrs"
      using build_pfcp_rules_some(6) [OF b, of is_ip4] upd(3) by simp
    show "sorted_wrt (\<lambda>a b. upf_acl_cmp a b \<le> 0) (acl_vec (pfcp_get_rules sx' PFCP_ACTIVE) is_ip4)"
      using sorts by (simp add: acls sorts_def)
  qed (simp add: sx')
qed

section \<open>An instance\<close>

text \<open>
  The functions of VPP as its documentation has them, with insertion sort for its sort, and a session without
  active rules whose pending rules are a rule for all of a tunnel, with precedence 20, and one for the TCP and
  UDP ports 80 to 90 of a network, with precedence 10.
\<close>

definition vpp_lib :: session_lib where
  "vpp_lib = \<lparr>unformat_ip46_address = (\<lambda>_ _. None), format_ip46_address = (\<lambda>_. []),
     ip46_address_is_ip4 = (\<lambda>a. drop_bit 32 a = 0), ip46_address_set_ip4 = ucast, vec_slack = (\<lambda>n. n \<le> 64),
     ip4_address_compare = (\<lambda>a b. uint a - uint b), ip6_address_compare = (\<lambda>a b. uint a - uint b),
     ip46_address_mask_ip4 = (\<lambda>m. m AND mask 32), ip6_address_mask_from_width = prefix_mask,
     fib_masks = prefix_mask, fib_index_by_sw_if_index = (\<lambda>_. [0]), upf_app_ip_rule_match = (\<lambda>_ _ _. True),
     ses_pool_index = (\<lambda>_. 0), fib_table_get_index_for_sw_if_index = (\<lambda>_ _. 0), peer_dpoi_index = (\<lambda>_. 0),
     mask_to_preflen = (\<lambda>_ _. 0), sort_ue_ip = insertion_sort, sort_v4_teid = insertion_sort,
     sort_v6_teid = insertion_sort, sort_acl = insertion_sort, sort_pdr = insertion_sort,
     sort_far = insertion_sort, sort_urr = insertion_sort, sort_qer = insertion_sort\<rparr>"

definition any_rule :: acl_rule_t where
  "any_rule = \<lparr>rule_type = IPFILTER_WILDCARD, rule_action = ACL_PERMIT, rule_direction = ACL_OUT, rule_proto = -1,
     rule_address = (ACL_ADDR_ANY, ACL_ADDR_ANY),
     rule_port = (\<lparr>port_min = 0, port_max = -1\<rparr>, \<lparr>port_min = 0, port_max = -1\<rparr>)\<rparr>"

definition web_rule :: acl_rule_t where
  "web_rule = any_rule\<lparr>rule_type := IPFILTER_IPV4,
     rule_address := (\<lparr>ipf_address = 0x0a010000, ipf_mask = 16\<rparr>, ACL_ADDR_ANY),
     rule_port := (\<lparr>port_min = 80, port_max = 90\<rparr>, \<lparr>port_min = 0, port_max = -1\<rparr>)\<rparr>"

definition tunnel_pdr :: "u32 \<Rightarrow> u16 \<Rightarrow> acl_rule_t \<Rightarrow> upf_pdr_t" where
  "tunnel_pdr i precedence rule = \<lparr>pdr_id = i, pdr_precedence = precedence,
     pdr_pdi = \<lparr>pdi_src_intf = 0, pdi_nwi_index = 0, pdi_fields = 1,
       pdi_teid = \<lparr>ft_flags = 1, ft_teid = 77, ft_ip4 = 0xc0a80001, ft_ip6 = 0, ft_choose_id = 0\<rparr>,
       pdi_ue_addr = \<lparr>ue_flags = 0, ue_ip4 = 0, ue_ip6 = 0, ue_prefix_delegation_length = 0, ue_prefix_length = 0\<rparr>,
       pdi_acl = [rule], pdi_adr = \<lparr>adr_application_id = -1, adr_db_id = -1, adr_flags = 0\<rparr>\<rparr>,
     pdr_outer_header_removal = 0, pdr_far_id = 0, pdr_urr_ids = [], pdr_qer_ids = []\<rparr>"

definition two_pdrs :: "upf_pdr_t list" where
  "two_pdrs = [tunnel_pdr 1 20 any_rule, tunnel_pdr 2 10 web_rule]"

definition pending_session :: upf_session_t where
  "pending_session = new_session\<lparr>s_rules := (zero_rules, zero_rules\<lparr>r_pdr := Some two_pdrs\<rparr>)\<rparr>"

definition no_sessions :: upf_main_t where
  "no_sessions = \<lparr>g_sessions = Map.empty, g_session_by_id = Map.empty, g_node_sessions = [0 \<mapsto> NO_INDEX],
     g_v4_tunnel_by_key = Map.empty, g_v6_tunnel_by_key = Map.empty, g_tdf_ul_table = (\<lambda>_. []),
     g_nwi_sw_if_index = [0 \<mapsto> 0], g_peers = Map.empty, g_peer_index_by_ip = Map.empty,
     g_qer_policers = Map.empty, g_qer_by_id = Map.empty, g_adf_ref_cnt = Map.empty,
     g_nat_used_blocks = Map.empty, g_sessions_counter = 0, g_timers = [], g_fib = [], g_end_markers = [],
     g_nat_bindings_deleted = [], g_now = 0, g_vlib_now = 0, g_timer_last_run = 0\<rparr>"

definition upf_state :: upf_main_t where
  "upf_state = no_sessions\<lparr>g_sessions := [0 \<mapsto> pending_session], g_v4_tunnel_by_key := [(1, 1) \<mapsto> (0, 5)]\<rparr>"

text \<open>Two sessions of an association, the second of which has a tunnel.\<close>

definition two_sessions :: upf_main_t where
  "two_sessions = no_sessions\<lparr>
     g_sessions := [0 \<mapsto> new_session\<lparr>s_cp_seid := 5, s_assoc_prev := 1, s_assoc_next := NO_INDEX\<rparr>,
       1 \<mapsto> new_session\<lparr>s_cp_seid := 6, s_assoc_prev := NO_INDEX, s_assoc_next := 0,
              s_rules := (zero_rules\<lparr>r_v4_teid := [\<lparr>v4_key = (3, 4), v4_rule_index = 0\<rparr>]\<rparr>, zero_rules)\<rparr>],
     g_node_sessions := [0 \<mapsto> 1], g_session_by_id := [5 \<mapsto> 0, 6 \<mapsto> 1],
     g_v4_tunnel_by_key := [(3, 4) \<mapsto> (0, 1)]\<rparr>"

definition web_flow :: flow_entry where
  "web_flow = new_flow \<lparr>fk_seid = 0, fk_ip = (0x64010203, 0x0a010203), fk_port = (4000, 85), fk_proto = 17\<rparr>
     10 0 False 0 0"

lemma vpp_functions:
  "ip_functions vpp_lib" "app_match_by_key vpp_lib" "sorts upf_acl_cmp (sort_acl vpp_lib)"
  "sorts v4_teid_cmp (sort_v4_teid vpp_lib)" "sorts v6_teid_cmp (sort_v6_teid vpp_lib)"
  by (simp_all add: ip_functions_def app_match_by_key_def vpp_lib_def acls.insertion_sort_sorts
      v4_teids.insertion_sort_sorts v6_teids.insertion_sort_sorts)

text \<open>
  Compilation reads outside of a vector or a mask only for a network instance that does not exist, an interface
  without a FIB table, or a filter with a prefix longer than the address.
\<close>

definition resolvable :: "'v rules_lib_scheme \<Rightarrow> rules_env \<Rightarrow> upf_pdr_t \<Rightarrow> bool" where
  "resolvable lib env pdr \<longleftrightarrow>
     (case pdr_sw_if_index env pdr of None \<Rightarrow> False
      | Some sw \<Rightarrow> \<forall>is_ip4. sw < length (fib_index_by_sw_if_index lib is_ip4))
     \<and> (\<forall>is_ip4. \<forall>rule \<in> set (rules_of is_ip4 pdr). widths_ok is_ip4 rule)"

lemma assigned_address_returns:
  assumes "acl_addr_is_assigned addr \<or> unat (ipf_mask addr) \<le> (if is_ip4 then 32 else 128)"
  shows "\<exists>r. assigned_address lib is_ip4 pdr addr im = Some r"
proof -
  have mask: "\<exists>m. ip4_address_mask_from_width w = Some m" if "w \<le> 32" for w
    using ip4_mask_from_width_iff [of w] that by auto
  show ?thesis
    using assms mask [of 32] mask [of "unat (ipf_mask addr)"]
    by (auto simp: assigned_address_def acl_set_ue_ip_def Let_def)
qed

lemma ip_assign_address_returns:
  assumes "widths_ok is_ip4 rule"
  shows "\<exists>acl'. ip_assign_address lib dst src is_ip4 pdr rule acl = Some acl'"
proof -
  obtain ip m where "assigned_address lib is_ip4 pdr (dir_get (rule_address rule) src)
      (dir_get (t5_address (acl_match acl)) dst, dir_get (t5_address (acl_mask acl)) dst) = Some (ip, m)"
    using assigned_address_returns [of "dir_get (rule_address rule) src"] assms unfolding widths_ok_def Let_def
    by (metis surj_pair)
  then show ?thesis
    by (simp add: ip_assign_address_def)
qed

lemma compile_pdi_returns:
  assumes widths: "widths_ok is_ip4 rule" and sw: "sw < length (fib_index_by_sw_if_index lib is_ip4)"
  shows "\<exists>acl. compile_pdi lib is_ip4 pdr rule idx sw = Some acl"
proof -
  define A where "A dst src acl = the (ip_assign_address lib dst src is_ip4 pdr rule acl)" for dst src acl
  have A: "ip_assign_address lib dst src is_ip4 pdr rule acl = Some (A dst src acl)" for dst src acl
    using ip_assign_address_returns [OF widths, of lib dst src pdr acl] by (auto simp: A_def)
  have sdf: "\<exists>acl'. compile_sdf lib is_ip4 pdr rule acl = Some acl'" for acl
    by (simp add: compile_sdf_def A Let_def)
  define S where "S acl = the (compile_sdf lib is_ip4 pdr rule acl)" for acl
  have S: "compile_sdf lib is_ip4 pdr rule acl = Some (S acl)" for acl
    using sdf [of acl] by (auto simp: S_def)
  show ?thesis
    using sw by (simp add: compile_pdi_def upf_fib_index_by_sw_if_index_def vec_elt_def S Let_def)
qed

lemma build_acls_returns:
  assumes "\<And>is_ip4 rule. rule \<in> set rs \<Longrightarrow> rule_type rule = (if is_ip4 then IPFILTER_IPV4 else IPFILTER_IPV6)
      \<or> rule_type rule = IPFILTER_WILDCARD \<Longrightarrow> widths_ok is_ip4 rule"
    and sw: "\<And>is_ip4. sw < length (fib_index_by_sw_if_index lib is_ip4)"
  shows "\<exists>r'. build_acls lib pdr idx sw rs r = Some r'"
  using assms(1)
proof (induction rs arbitrary: r)
  case (Cons rule rs)
  have c: "\<exists>acl. compile_pdi lib True pdr rule idx sw = Some acl"
    if "rule_type rule = IPFILTER_IPV4 \<or> rule_type rule = IPFILTER_WILDCARD"
    using compile_pdi_returns [OF Cons.prems [of rule True] sw] that by simp
  have d: "\<exists>acl. compile_pdi lib False pdr rule idx sw = Some acl"
    if "rule_type rule = IPFILTER_IPV6 \<or> rule_type rule = IPFILTER_WILDCARD"
    using compile_pdi_returns [OF Cons.prems [of rule False] sw] that by simp
  have "\<exists>r'. build_acl lib pdr idx sw rule r = Some r'"
    using c d by (auto simp: build_acl_def)
  then show ?case
    using Cons by fastforce
qed simp

lemma build_pdr_returns:
  assumes "resolvable lib env pdr"
  shows "\<exists>r'. build_pdr lib env idx pdr r = Some r'"
proof -
  obtain sw where sw: "pdr_sw_if_index env pdr = Some sw" "\<And>is_ip4. sw < length (fib_index_by_sw_if_index lib is_ip4)"
    using assms by (auto simp: resolvable_def split: option.splits)
  have acls: "\<exists>r'. build_acls lib pdr idx sw (pdi_acl (pdr_pdi pdr)) r = Some r'" for r
    using assms by (intro build_acls_returns sw) (auto simp: resolvable_def rules_of_def)
  have ue: "\<exists>r'. build_ue_ips lib env pdr sw r = Some r'" for r
    using sw(2) [of True] sw(2) [of False]
    by (simp add: build_ue_ips_def upf_fib_index_by_sw_if_index_def vec_elt_def Let_def)
  define U where "U r = the (build_ue_ips lib env pdr sw r)" for r
  define B where "B r = the (build_acls lib pdr idx sw (pdi_acl (pdr_pdi pdr)) r)" for r
  have U: "build_ue_ips lib env pdr sw r = Some (U r)" for r
    using ue [of r] by (auto simp: U_def)
  have B: "build_acls lib pdr idx sw (pdi_acl (pdr_pdi pdr)) r = Some (B r)" for r
    using acls [of r] by (auto simp: B_def)
  show ?thesis
    by (simp add: build_pdr_def sw(1) U B Let_def)
qed

lemma build_pfcp_rules_returns:
  assumes "\<And>pdr. pdr \<in> set (elts (r_pdr pending)) \<Longrightarrow> resolvable lib env pdr"
  shows "\<exists>built. build_pfcp_rules lib env pending = Some built"
proof -
  have "\<exists>r'. build_pdrs lib env idx pdrs r = Some r'" if "\<And>pdr. pdr \<in> set pdrs \<Longrightarrow> resolvable lib env pdr" for idx pdrs r
    using that
  proof (induction pdrs arbitrary: idx r)
    case (Cons pdr pdrs)
    obtain r' where "build_pdr lib env idx pdr r = Some r'"
      using build_pdr_returns Cons.prems by (metis list.set_intros(1))
    then show ?case
      using Cons by simp
  qed simp
  then obtain r where "build_pdrs lib env 0 (elts (r_pdr pending))
      (pending\<lparr>r_proxy_precedence := -1, r_proxy_pdr_idx := NO_INDEX\<rparr>) = Some r"
    using assms by blast
  then show ?thesis
    by (simp add: build_pfcp_rules_def)
qed

text \<open>An update of detection and usage rules only returns if the rules compile.\<close>

lemma foreach_upd_total: "(\<And>x s. f x s \<noteq> None) \<Longrightarrow> foreach_upd f xs s \<noteq> None"
proof (induction xs arbitrary: s)
  case (Cons x xs)
  obtain y s' where "f x s = Some (y, s')"
    using Cons.prems [of x s] by auto
  then show ?case
    using Cons.IH [of s'] Cons.prems by auto
qed simp

lemma fold_keeps: "(\<And>x s. f (g x s) = f s) \<Longrightarrow> f (fold g xs s) = f s"
  by (induction xs arbitrary: s) simp_all

lemma r_qer_link_map [simp]: "r_qer (build_urr_link_map r) = r_qer r"
  unfolding build_urr_link_map_def
  by (intro fold_keeps) (simp add: link_urr_def split: option.splits)

lemma update_apply_returns:
  assumes "g_sessions g si = Some sx" "r_pdr (pfcp_get_rules sx PFCP_PENDING) \<noteq> None"
    and none: "r_far (pfcp_get_rules sx PFCP_PENDING) = None" "r_qer (pfcp_get_rules sx PFCP_PENDING) = None"
    and b: "build_pfcp_rules lib \<lparr>env_nwi_sw_if_index = g_nwi_sw_if_index g, env_tdf_ul_table = g_tdf_ul_table g\<rparr>
         (pfcp_get_rules sx PFCP_PENDING) = Some built"
  shows "\<exists>g'. pfcp_update_apply lib si g = Some g'"
proof -
  have far: "r_far built = None" "r_qer built = None"
    using build_pfcp_rules_some(1) [OF b] none by (simp_all add: same_rules_def)
  have carry: "foreach_upd carry_urr urrs s \<noteq> None" for urrs s
    by (rule foreach_upd_total) (auto simp: carry_urr_def split: option.splits prod.splits)
  have start: "foreach_upd (\<lambda>urr g. Some (start_urr_timers lib si urr g)) urrs g \<noteq> None" for urrs g
    by (rule foreach_upd_total) simp
  define S where "S urrs g = the (foreach_upd (\<lambda>urr g. Some (start_urr_timers lib si urr g)) urrs g)" for urrs g
  define C where "C urrs s = the (foreach_upd carry_urr urrs s)" for urrs s
  have S: "foreach_upd (\<lambda>urr g. Some (start_urr_timers lib si urr g)) urrs g = Some (S urrs g)" for urrs g
    unfolding S_def by (rule option.collapse [OF start, symmetric])
  have C: "foreach_upd carry_urr urrs s = Some (C urrs s)" for urrs s
    unfolding C_def by (rule option.collapse [OF carry, symmetric])
  have after: "\<exists>r. after_switch lib si p False u q last_ul sets g = Some r" for p u q last_ul sets g
    by (simp add: after_switch_def S C Let_def split: prod.splits)
  define A where "A p u q l sets g = the (after_switch lib si p False u q l sets g)" for p u q l sets g
  have A: "after_switch lib si p False u q l sets g = Some (A p u q l sets g)" for p u q l sets g
    using after [of p u q l sets g] by (auto simp: A_def)
  show ?thesis
    using assms(2)
    by (simp add: pfcp_update_apply_def assms(1) none apply_pdrs_def b apply_fars_def far apply_qers_def A
        Let_def split: prod.split)
qed

lemma two_pdrs_resolvable:
  "pdr \<in> set two_pdrs \<Longrightarrow> resolvable vpp_lib \<lparr>env_nwi_sw_if_index = [0 \<mapsto> 0], env_tdf_ul_table = tdf\<rparr> pdr"
  by (auto simp: resolvable_def two_pdrs_def tunnel_pdr_def pdr_sw_if_index_def vpp_lib_def rules_of_def
      any_rule_def web_rule_def widths_ok_def ACL_ADDR_ANY_def all_bool_eq)

lemma update_upf_state: "\<exists>g'. pfcp_update_apply vpp_lib 0 upf_state = Some g'"
proof -
  let ?env = "\<lparr>env_nwi_sw_if_index = g_nwi_sw_if_index upf_state, env_tdf_ul_table = g_tdf_ul_table upf_state\<rparr>"
  have "resolvable vpp_lib ?env pdr" if "pdr \<in> set (elts (r_pdr (pfcp_get_rules pending_session PFCP_PENDING)))" for pdr
    using that two_pdrs_resolvable [of pdr]
    by (simp add: upf_state_def no_sessions_def pending_session_def pfcp_get_rules_def new_session_def Let_def)
  then obtain built where "build_pfcp_rules vpp_lib ?env (pfcp_get_rules pending_session PFCP_PENDING) = Some built"
    using build_pfcp_rules_returns by blast
  then show ?thesis
    by (rule update_apply_returns [rotated -1])
      (simp_all add: upf_state_def no_sessions_def pending_session_def pfcp_get_rules_def new_session_def zero_rules_def Let_def)
qed

text \<open>The rules that describe a flow are those the data path finds, less those it finds because it does not compare
  the IPv4 address of the user equipment.\<close>

definition described_pdrs ::
    "'v rules_lib_scheme \<Rightarrow> u32 \<Rightarrow> flow_entry \<Rightarrow> bool \<Rightarrow> bool \<Rightarrow> upf_pdr_t list \<Rightarrow> nat set" where
  "described_pdrs lib teid flow is_reverse is_ip4 pdrs =
     {j. j < length pdrs \<and> (\<exists>rule \<in> set (rules_of is_ip4 (pdrs ! j)).
        pdr_describes lib teid flow is_reverse is_ip4 (pdrs ! j) rule)}"

lemma described_pdrs_eq:
  "described_pdrs lib teid flow is_reverse is_ip4 pdrs
     = {j \<in> matching_pdrs lib teid flow is_reverse is_ip4 pdrs. ue_in_flow is_ip4 (pdrs ! j) flow is_reverse}"
  using ue_in_flow_compared(1) by (auto simp: described_pdrs_def matching_pdrs_def pdr_describes_def pdr_filter_matches_def)

lemma described_pdrs_exact:
  assumes "\<not> is_ip4 \<or> (\<forall>pdr \<in> set pdrs. \<not> ue_in_rule is_ip4 pdr)"
  shows "described_pdrs lib teid flow is_reverse is_ip4 pdrs = matching_pdrs lib teid flow is_reverse is_ip4 pdrs"
  unfolding described_pdrs_def matching_pdrs_def pdr_describes_def pdr_filter_matches_def
  using ue_in_flow_compared(2) assms by (auto simp: nth_mem)

text \<open>C32: After an update with new detection rules, all of precedence below 256 and with prefix lengths within the
  address, packets get the rule of the best precedence: in both directions the classifier picks, among the rules with
  a filter that fits the flow, one of the lowest precedence value, and drops the packet if there is none. What fits is
  the tunnel, prefixes, ports, protocol, application and, for IPv6, the prefix of the user equipment; for IPv6
  flows and for rules without an IPv4 address of the user equipment these are exactly the rules that describe
  the flow, while an IPv4 address of the user equipment is not compared (the rules that describe the flow
  are then those among the fitting ones for which the address is right). The forward direction of TCP is excluded
  while the rules ask for a proxy. The proof goes through the compilation of every filter to values and masks, the
  sort of the compiled filters and the linear search.
\<close>

theorem classified_by_best_rule:
  assumes lib: "ip_functions lib" "app_match_by_key lib" "sorts upf_acl_cmp (sort_acl lib)"
    and upd: "pfcp_update_apply lib si g = Some g'" "g_sessions g si = Some sx"
      "r_pdr (pfcp_get_rules sx PFCP_PENDING) = Some pdrs" "acl_vec (pfcp_get_rules sx PFCP_PENDING) is_ip4 = []"
    and plain: "plain_rules is_ip4 pdrs" and flow: "flow_of_family is_ip4 flow"
  shows "\<exists>sx'. g_sessions g' si = Some sx' \<and> (let active = pfcp_get_rules sx' PFCP_ACTIVE in
     (\<exists>res. upf_acl_classify_return lib teid flow active is_ip4 unset = Some res
        \<and> chosen pdrs (matching_pdrs lib (if teid \<noteq> 0 then teid else flow_teid flow FT_REVERSE) flow
            (\<not> fe_is_reverse flow) is_ip4 pdrs) FT_REVERSE unset res)
     \<and> (fk_proto (fe_key flow) \<noteq> IP_PROTOCOL_TCP \<or> r_proxy_pdr_idx active = NO_INDEX \<longrightarrow>
        (\<exists>res. upf_acl_classify_forward lib teid flow active is_ip4 = Some res
          \<and> chosen pdrs (matching_pdrs lib (if teid \<noteq> 0 then teid else flow_teid flow FT_ORIGIN) flow
              (fe_is_reverse flow) is_ip4 pdrs) FT_ORIGIN NO_INDEX res)))
     \<and> (\<forall>t rev. described_pdrs lib t flow rev is_ip4 pdrs
           = {j \<in> matching_pdrs lib t flow rev is_ip4 pdrs. ue_in_flow is_ip4 (pdrs ! j) flow rev}
         \<and> (\<not> is_ip4 \<or> (\<forall>pdr \<in> set pdrs. \<not> ue_in_rule is_ip4 pdr) \<longrightarrow>
           described_pdrs lib t flow rev is_ip4 pdrs = matching_pdrs lib t flow rev is_ip4 pdrs))"
proof -
  obtain sx' env where sx': "g_sessions g' si = Some sx'" and "r_pdr (pfcp_get_rules sx' PFCP_ACTIVE) = Some pdrs"
    "set (acl_vec (pfcp_get_rules sx' PFCP_ACTIVE) is_ip4) = compiled lib env is_ip4 0 pdrs"
    "all_compile lib env is_ip4 0 pdrs"
    "sorted_wrt (\<lambda>a b. upf_acl_cmp a b \<le> 0) (acl_vec (pfcp_get_rules sx' PFCP_ACTIVE) is_ip4)"
    using update_compiled [OF upd lib(3)] by blast
  note active = lib(2,1) this(2) plain this(3-5) flow
  show ?thesis
    unfolding Let_def
    using sx' classify_return_chosen [OF active, of teid unset] classify_forward_chosen [OF active, of teid]
      described_pdrs_eq [of lib _ flow _ is_ip4 pdrs] described_pdrs_exact [of is_ip4 pdrs lib _ flow] by blast
qed

lemma pending_rules:
  "g_sessions upf_state 0 = Some pending_session"
  "pfcp_get_rules pending_session PFCP_PENDING = zero_rules\<lparr>r_pdr := Some two_pdrs\<rparr>"
  "pfcp_get_rules pending_session PFCP_ACTIVE = zero_rules"
  by (simp_all add: upf_state_def no_sessions_def pending_session_def pfcp_get_rules_def new_session_def Let_def)

lemma web_flow_matches: "matching_pdrs vpp_lib 77 web_flow False True two_pdrs = {0, 1}"
proof -
  have "pdr_filter_matches vpp_lib 77 web_flow False True (tunnel_pdr i precedence any_rule) any_rule"
    "pdr_filter_matches vpp_lib 77 web_flow False True (tunnel_pdr i precedence web_rule) web_rule" for i precedence
    by (simp_all add: pdr_filter_matches_def teid_matches_def ue_compared_def ue_in_flow_def application_matches_def has_ip_rules_def
        filter_matches_def all_bool_eq tunnel_pdr_def any_rule_def web_rule_def web_flow_def new_flow_def flow_ip_def
        flow_port_def from_access_def filter_address_matches_def acl_addr_is_any_def acl_addr_is_assigned_def
        ACL_ADDR_ANY_def filter_port_matches_def)
  moreover have "rules_of True (tunnel_pdr i precedence any_rule) = [any_rule]"
    "rules_of True (tunnel_pdr i precedence web_rule) = [web_rule]" for i precedence
    by (simp_all add: rules_of_def tunnel_pdr_def any_rule_def web_rule_def)
  ultimately show ?thesis
    by (auto simp: matching_pdrs_def two_pdrs_def less_Suc_eq)
qed

theorem classified_by_best_rule_witness:
  "\<exists>g' sx' next flow'. pfcp_update_apply vpp_lib 0 upf_state = Some g' \<and> g_sessions g' 0 = Some sx'
     \<and> upf_acl_classify_forward vpp_lib 77 web_flow (pfcp_get_rules sx' PFCP_ACTIVE) True = Some (next, 1, flow')
     \<and> next \<noteq> UPF_CLASSIFY_NEXT_DROP"
proof -
  obtain g' where upd: "pfcp_update_apply vpp_lib 0 upf_state = Some g'"
    using update_upf_state by blast
  have "plain_rules True two_pdrs"
    using two_pdrs_resolvable by (auto simp: plain_rules_def resolvable_def two_pdrs_def tunnel_pdr_def)
  moreover have flow: "flow_of_family True web_flow" "fk_proto (fe_key web_flow) = 17" "\<not> fe_is_reverse web_flow"
    by (simp_all add: flow_of_family_def web_flow_def new_flow_def)
  ultimately obtain sx' res where sx': "g_sessions g' 0 = Some sx'"
    and res: "upf_acl_classify_forward vpp_lib 77 web_flow (pfcp_get_rules sx' PFCP_ACTIVE) True = Some res"
    and chosen: "chosen two_pdrs (matching_pdrs vpp_lib 77 web_flow False True two_pdrs) FT_ORIGIN NO_INDEX res"
    using classified_by_best_rule [OF vpp_functions(1-3) upd, of pending_session two_pdrs True web_flow 77 0]
    by (auto simp: Let_def pending_rules zero_rules_def acl_vec_def)
  obtain "next" idx flow' where "res = (next, idx, flow')"
    by (metis surj_pair)
  moreover from this have "idx = 1" "next \<noteq> UPF_CLASSIFY_NEXT_DROP"
    using chosen [unfolded web_flow_matches] by (auto simp: chosen_def best_pdr_def two_pdrs_def tunnel_pdr_def)
  ultimately show ?thesis
    using upd sx' res by blast
qed

section \<open>Tunnels after an update\<close>

text \<open>C33: An update that has pending detection rules moves the tunnels: if the tables sent exactly the tunnels of the
  active rules to the session before, they send exactly the tunnels of the new active rules to it after, among
  them every local F-TEID of the new detection rules, whose keys stay distinct; a tunnel of another session
  stays as it is where the new rules do not claim its key. Of the sessions only the one updated changes. An update
  without pending detection rules is not covered: its forwarding rules do not register tunnels.
\<close>

theorem update_registers_tunnels:
  assumes sorts: "sorts v4_teid_cmp (sort_v4_teid lib)" "sorts v6_teid_cmp (sort_v6_teid lib)"
    and upd: "pfcp_update_apply lib si g = Some g'" "g_sessions g si = Some sx"
      "r_pdr (pfcp_get_rules sx PFCP_PENDING) = Some pdrs"
    and before: "session_tunnels si (pfcp_get_rules sx PFCP_ACTIVE) g"
      "teids_distinct (pfcp_get_rules sx PFCP_ACTIVE)" "teids_distinct (pfcp_get_rules sx PFCP_PENDING)"
  shows "\<exists>sx'. g_sessions g' = (g_sessions g)(si \<mapsto> sx') \<and> (let active = pfcp_get_rules sx' PFCP_ACTIVE in
     session_tunnels si active g' \<and> teids_distinct active \<and> other_tunnels_kept si active g g'
     \<and> (\<forall>pdr \<in> set pdrs. v4_tunnel_of pdr \<subseteq> v4_key ` set (r_v4_teid active)
          \<and> v6_tunnel_of pdr \<subseteq> v6_key ` set (r_v6_teid active)))"
proof (rule update_apply_pdrs [OF upd(1,2)])
  show "r_pdr (pfcp_get_rules sx PFCP_PENDING) \<noteq> None"
    using upd(3) by simp
next
  fix built full sx'
  let ?active = "pfcp_get_rules sx' PFCP_ACTIVE"
  assume b: "build_pfcp_rules lib \<lparr>env_nwi_sw_if_index = g_nwi_sw_if_index g, env_tdf_ul_table = g_tdf_ul_table g\<rparr>
      (pfcp_get_rules sx PFCP_PENDING) = Some built"
    and more: "more_teids built full"
    and moved: "tunnels_moved lib si (pfcp_get_rules sx PFCP_ACTIVE) full g g'"
    and sx': "g_sessions g' = (g_sessions g)(si \<mapsto> sx')"
    and teids: "r_v4_teid ?active = sort_v4_teid lib v4_teid_cmp (r_v4_teid full)"
      "r_v6_teid ?active = sort_v6_teid lib v6_teid_cmp (r_v6_teid full)"
  have mset: "mset (r_v4_teid ?active) = mset (r_v4_teid full)" "mset (r_v6_teid ?active) = mset (r_v6_teid full)"
    using sorts by (simp_all add: teids sorts_def)
  then have set: "set (r_v4_teid ?active) = set (r_v4_teid full)" "set (r_v6_teid ?active) = set (r_v6_teid full)"
    by (metis set_mset_mset)+
  have full: "teids_distinct full"
    using more build_pfcp_rules_some(2) [OF b] before(3) by (simp add: more_teids_def)
  note exact = tunnels_moved_exact [OF sorts before(2) full moved before(1)]
  have "session_tunnels si ?active g'" "other_tunnels_kept si ?active g g'"
    using exact by (simp_all add: session_tunnels_def other_tunnels_kept_def set)
  moreover have "teids_distinct ?active"
    using full mset unfolding teids_distinct_def by (metis mset_map mset_eq_imp_distinct_iff)
  moreover have "v4_tunnel_of pdr \<subseteq> v4_key ` set (r_v4_teid ?active) \<and> v6_tunnel_of pdr \<subseteq> v6_key ` set (r_v6_teid ?active)"
    if "pdr \<in> set pdrs" for pdr
    using build_pfcp_rules_some(3,4) [OF b, of pdr] that more upd(3) by (auto simp: more_teids_def set)
  ultimately show ?thesis
    unfolding Let_def using sx' by blast
qed

theorem update_registers_tunnels_witness:
  "\<exists>g' i. pfcp_update_apply vpp_lib 0 upf_state = Some g' \<and> g_v4_tunnel_by_key g' (0xc0a80001, 77) = Some (i, 0)"
proof -
  obtain g' where upd: "pfcp_update_apply vpp_lib 0 upf_state = Some g'"
    using update_upf_state by blast
  have "session_tunnels 0 (pfcp_get_rules pending_session PFCP_ACTIVE) upf_state"
    "teids_distinct (pfcp_get_rules pending_session PFCP_ACTIVE)"
    "teids_distinct (pfcp_get_rules pending_session PFCP_PENDING)"
    by (simp_all add: pending_rules upf_state_def no_sessions_def zero_rules_def session_tunnels_def teids_distinct_def)
  then obtain sx' where sx': "session_tunnels 0 (pfcp_get_rules sx' PFCP_ACTIVE) g'"
    "other_tunnels_kept 0 (pfcp_get_rules sx' PFCP_ACTIVE) upf_state g'"
    "\<forall>pdr \<in> set two_pdrs. v4_tunnel_of pdr \<subseteq> v4_key ` set (r_v4_teid (pfcp_get_rules sx' PFCP_ACTIVE))"
    using update_registers_tunnels [OF vpp_functions(4,5) upd, of pending_session two_pdrs]
    by (auto simp: Let_def pending_rules zero_rules_def)
  have "(0xc0a80001, 77) \<in> v4_key ` set (r_v4_teid (pfcp_get_rules sx' PFCP_ACTIVE))"
    using sx'(3) by (simp add: two_pdrs_def tunnel_pdr_def v4_tunnel_of_def)
  then obtain i where "g_v4_tunnel_by_key g' (0xc0a80001, 77) = Some (i, 0)"
    using sx'(1) unfolding session_tunnels_def by blast
  with upd show ?thesis
    by blast
qed

section \<open>Sessions of an association\<close>

text \<open>C34: The doubly linked lists of sessions are the plain lists of the associations: creating a session puts it
  at the front of the list of its association, where its SEID is looked up, and deleting one takes it out; the
  lists of all other associations stay. Both operations return.
\<close>

theorem session_lists_refined:
  assumes "session_lists g L" "n \<in> dom (g_node_sessions g)"
  shows "(ses_pool_index lib (dom (g_sessions g)) \<notin> dom (g_sessions g)
       \<and> ses_pool_index lib (dom (g_sessions g)) \<noteq> NO_INDEX \<longrightarrow>
       returns (pfcp_create_session lib n up_address cp_seid cp_address g) (\<lambda>(i, g'). i \<notin> dom (g_sessions g)
         \<and> session_lists g' (L(n := i # L n)) \<and> pfcp_lookup cp_seid g' = Some i))
     \<and> (i \<in> set (L n) \<and> releasable g [i] \<longrightarrow>
       returns (pfcp_disable_session lib i g \<bind> pfcp_free_session i)
         (\<lambda>g'. g_sessions g' i = None \<and> session_lists g' (L(n := remove1 i (L n)))))"
  using create_session_list [OF assms] delete_session_list [OF assms] by blast

lemma two_sessions_lists:
  "session_lists two_sessions (\<lambda>n. if n = 0 then [1, 0] else [])" "0 \<in> dom (g_node_sessions two_sessions)"
  "releasable two_sessions [1, 0]" "releasable two_sessions [0]"
  by (auto simp: two_sessions_def no_sessions_def session_lists_def node_list_def new_session_def Let_def
      releasable_def references_exist_def both_sets_def pfcp_get_rules_def zero_rules_def split: option.splits if_splits)

theorem session_lists_refined_witness:
  "returns (pfcp_create_session vpp_lib 0 1 7 2 no_sessions) (\<lambda>(i, g'). session_lists g' ((\<lambda>_. [])(0 := [i])))
   \<and> returns (pfcp_disable_session vpp_lib 0 two_sessions \<bind> pfcp_free_session 0)
       (\<lambda>g'. session_lists g' (\<lambda>n. if n = 0 then [1] else []))"
proof -
  have "session_lists no_sessions (\<lambda>_. [])"
    by (simp add: session_lists_def no_sessions_def node_list_def)
  then have "returns (pfcp_create_session vpp_lib 0 1 7 2 no_sessions) (\<lambda>(i, g'). session_lists g' ((\<lambda>_. [])(0 := [i])))"
    using session_lists_refined [of no_sessions "\<lambda>_. []" 0 vpp_lib 1 7 2 0]
    by (auto simp: no_sessions_def vpp_lib_def elim!: returnsE)
  moreover have "(\<lambda>n. if n = (0::nat) then [1, 0] else [])(0 := remove1 0 [1, 0]) = (\<lambda>n. if n = 0 then [1::nat] else [])"
    by auto
  then have "returns (pfcp_disable_session vpp_lib 0 two_sessions \<bind> pfcp_free_session 0)
       (\<lambda>g'. session_lists g' (\<lambda>n. if n = 0 then [1] else []))"
    using session_lists_refined [OF two_sessions_lists(1,2), of vpp_lib 0 0 0 0] two_sessions_lists(4)
    by (auto elim!: returnsE)
  ultimately show ?thesis
    by blast
qed

text \<open>C35: Releasing an association returns and frees exactly its sessions: the loop over the linked list ends although
  every turn unlinks and frees the session it stands on, all other sessions are untouched, the list is empty, and
  no entry of the tables of SEIDs and tunnels leads to a freed session. The sessions may share policers and
  application databases.
\<close>

theorem release_frees_sessions:
  assumes lists: "session_lists g L" "n \<in> dom (g_node_sessions g)" and rel: "releasable g (L n)"
    and known: "\<forall>x \<in> set (L n). entries_known g x"
  shows "\<exists>g'. release_sessions lib n g = Some g' \<and> session_lists g' (L(n := []))
     \<and> g_sessions g' = (\<lambda>x. if x \<in> set (L n) then None else g_sessions g x)
     \<and> (\<forall>x \<in> set (L n). no_entries g' x)"
  by (rule release_sessions_list [OF lists rel, of lib]) (use known in auto)

theorem release_frees_sessions_witness:
  "\<exists>g'. release_sessions vpp_lib 0 two_sessions = Some g' \<and> g_sessions g' = Map.empty \<and> no_entries g' 1"
proof -
  have "\<forall>x \<in> set [1, 0]. entries_known two_sessions x"
    by (auto simp: entries_known_def two_sessions_def no_sessions_def new_session_def pfcp_get_rules_def zero_rules_def
        Let_def split: if_splits)
  then obtain g' where g': "release_sessions vpp_lib 0 two_sessions = Some g'"
      "g_sessions g' = (\<lambda>x. if x \<in> set [1, 0] then None else g_sessions two_sessions x)" "no_entries g' 1"
    using release_frees_sessions [OF two_sessions_lists(1,2), of vpp_lib] two_sessions_lists(3) by auto
  moreover have "g_sessions g' = Map.empty"
    by (auto simp: g'(2) two_sessions_def no_sessions_def fun_eq_iff)
  ultimately show ?thesis
    by blast
qed

end
