(* ===== verification/Upf_Billing.thy ===== *)
theory Upf_Billing
  imports Upf_Account Upf_Correct
begin

text \<open>
  What happens to the usage rules of a session over time: packets are measured, events and timers of the session cause
  reports, and the control plane asks for reports. All of it keeps the accounts of \<open>Upf_Account\<close>.
\<close>

section \<open>Which reports are due\<close>

text \<open>No report of the start of traffic is due for a rule with an id in \<open>S\<close>.\<close>

definition no_start_due :: "u16 set \<Rightarrow> upf_urr_t list \<Rightarrow> upf_usage_report_t \<Rightarrow> bool" where
  "no_start_due S us report \<longleftrightarrow> length (rp_events report) = length us
     \<and> (\<forall>k < length us. urr_id (us ! k) \<in> S \<longrightarrow>
          ev_triggers (rp_events report ! k) AND USAGE_REPORT_TRIGGER_START_OF_TRAFFIC = 0)"

lemma no_start_due_init [simp]: "no_start_due S us (upf_usage_report_init (length us))"
  by (simp add: no_start_due_def upf_usage_report_init_def)

lemma no_start_due_trigger:
  assumes "no_start_due S us report" "k < length us \<Longrightarrow> urr_id (us ! k) \<in> S \<Longrightarrow> \<not> bit trigger 4"
  shows "no_start_due S us (upf_usage_report_trigger k trigger liusa now report)"
  using assms
  by (cases "k < length us") (auto simp: no_start_due_def upf_usage_report_trigger_def nth_list_update list_update_beyond)

lemma no_start_due_set:
  "\<not> bit trigger 4 \<Longrightarrow> no_start_due S us (upf_usage_report_set trigger now (upf_usage_report_init (length us)))"
  by (simp add: no_start_due_def upf_usage_report_set_def upf_usage_report_init_def)

lemma no_start_due_ids:
  "map urr_id us = map urr_id us' \<Longrightarrow> no_start_due S us report = no_start_due S us' report"
  unfolding no_start_due_def by (metis length_map nth_map)

lemma report_build_accounts:
  assumes "upf_usage_report_build lib vnow ue now report us = Some (us', rs)" "distinct (map urr_id us)"
    "no_start_due S us report"
  shows "accounts d S (\<lambda>_. 0) (\<lambda>i. reported d i rs) us us'"
  using build_reports_accounts [OF assms(1) [unfolded upf_usage_report_build_def] assms(2), of S d] assms(3)
  by (auto simp: no_start_due_def)

section \<open>The rules of a session\<close>

lemma elts_map: "length us' = length (elts v) \<Longrightarrow> elts (map_option (\<lambda>_. us') v) = us'"
  by (cases v) simp_all

lemma active_urrs_put:
  assumes "active_urrs si g = Some us" "length us' = length us" "put_urrs si us' g = Some g'"
  shows "active_urrs si g' = Some us'"
  using assms
  by (cases "g_sessions g si")
    (auto simp: active_urrs_def put_urrs_def update_session_def put_session_def Let_def elts_map)

lemma active_urrs_cong: "g_sessions g' = g_sessions g \<Longrightarrow> active_urrs si g' = active_urrs si g"
  by (simp add: active_urrs_def)

lemma accounts_length: "accounts d S inp out us us' \<Longrightarrow> length us' = length us"
  by (simp add: accounts_def list_all2_lengthD)

lemma same_usages_trans: "list_all2 same_usage a b \<Longrightarrow> list_all2 same_usage b c \<Longrightarrow> list_all2 same_usage a c"
  by (rule list_all2_trans [OF same_usage_trans])

lemma same_usages_ids: "list_all2 same_usage us us' \<Longrightarrow> map urr_id us' = map urr_id us"
  by (rule accounts_ids [OF accounts_same_usage])

section \<open>Events of the data path\<close>

lemma traffic_events:
  assumes "fold (traffic_event lib si now) uev ((active, send, report), g) = ((active', send', report'), g')"
    "sorted_wrt (<) (map urr_id (elts (r_urr active)))" "no_start_due S (elts (r_urr active)) report"
    "\<forall>ev \<in> set uev. ucast (fst ev) \<in> S \<longrightarrow> snd ev AND URR_START_OF_TRAFFIC = 0"
  shows "list_all2 same_usage (elts (r_urr active)) (elts (r_urr active')) \<and> no_start_due S (elts (r_urr active)) report'
    \<and> frame g g'"
  using assms
proof (induction uev arbitrary: active send report g)
  case Nil
  then show ?case
    by (simp add: list_all2_same)
next
  case (Cons ev uev)
  obtain active1 send1 report1 g1 where 1: "traffic_event lib si now ev ((active, send, report), g) = ((active1, send1, report1), g1)"
    by (metis surj_pair)
  have step: "list_all2 same_usage (elts (r_urr active)) (elts (r_urr active1)) \<and> no_start_due S (elts (r_urr active)) report1
    \<and> frame g g1"
  proof (cases "pfcp_get_urr_by_id active (ucast (fst ev))")
    case None
    then show ?thesis
      using 1 Cons.prems(3) by (simp add: traffic_event_def list_all2_same)
  next
    case (Some k)
    then have k: "k < length (elts (r_urr active))" "urr_id (elts (r_urr active) ! k) = ucast (fst ev)"
      using urr_by_id [OF Cons.prems(2)] by blast+
    let ?urr = "elts (r_urr active) ! k"
    have upd: "elts (map_option (\<lambda>v. v[k := u]) (r_urr active)) = (elts (r_urr active))[k := u]" for u
      by (cases "r_urr active") simp_all
    have "same_usage ?urr (?urr\<lparr>urr_traffic_timer := t\<rparr>)" for t
      by (simp add: same_usage_def)
    then have "list_all2 same_usage (elts (r_urr active)) ((elts (r_urr active))[k := ?urr\<lparr>urr_traffic_timer := t\<rparr>])" for t
      by (intro same_usage_update) (simp_all add: list_all2_same)
    then show ?thesis
      using 1 Some k Cons.prems(3,4)
      by (auto simp: traffic_event_def Let_def upd list_all2_same case_prod_beta frames
          intro!: no_start_due_trigger split: if_splits)
  qed
  then have ids: "map urr_id (elts (r_urr active1)) = map urr_id (elts (r_urr active))"
    using same_usages_ids by blast
  have "list_all2 same_usage (elts (r_urr active1)) (elts (r_urr active')) \<and> no_start_due S (elts (r_urr active1)) report' \<and> frame g1 g'"
    using Cons.IH [of active1 send1 report1 g1] Cons.prems(1,2,4) step 1 by (simp add: ids no_start_due_ids [OF ids])
  then show ?case
    using step same_usages_trans frame_trans by (simp add: no_start_due_ids [OF ids]) blast
qed

lemma volume_events:
  assumes "fold (volume_event now) ks (us, send, report) = (us', send', report')" "no_start_due S us report"
  shows "list_all2 same_usage us us' \<and> no_start_due S us report'"
  using assms
proof (induction ks arbitrary: us send report)
  case Nil
  then show ?case
    by (simp add: list_all2_same)
next
  case (Cons k ks)
  obtain us1 send1 report1 where 1: "volume_event now k (us, send, report) = (us1, send1, report1)"
    by (metis surj_pair)
  have "\<not> bit (urr_check_volume e v) 4" for e v
    by (auto simp: urr_check_volume_def urr_check_counter_def Let_def bit_or_iff bit_BIT)
  moreover have "same_usage (us ! k) ((us ! k)\<lparr>urr_status := urr_status (us ! k) OR URR_REPORTED\<rparr>)"
    by (simp add: same_usage_def bit_or_iff bit_BIT)
  ultimately have step: "list_all2 same_usage us us1 \<and> no_start_due S us report1"
    using 1 Cons.prems(2)
    by (auto simp: volume_event_def Let_def list_all2_same bit_or_iff intro!: no_start_due_trigger same_usage_update
        split: if_splits)
  then have ids: "map urr_id us1 = map urr_id us"
    using same_usages_ids by blast
  then have "list_all2 same_usage us1 us' \<and> no_start_due S us1 report'"
    using Cons.IH [of us1 send1 report1] Cons.prems(1) 1 step by (simp add: no_start_due_ids [OF ids])
  then show ?case
    using step same_usages_trans by (simp add: no_start_due_ids [OF ids]) blast
qed

definition reports_of :: "pfcp_session_report_request_t option \<Rightarrow> pfcp_usage_report_t list" where
  "reports_of req = (case req of None \<Rightarrow> [] | Some r \<Rightarrow> rr_usage_report r)"

lemma reports_of_simps [simp]: "reports_of None = []" "reports_of (Some r) = rr_usage_report r"
  by (simp_all add: reports_of_def)

lemma usage_report_accounts:
  assumes "upf_pfcp_session_usage_report lib si ue uev now g = Some (req, g')" "active_urrs si g = Some us"
    "sorted_wrt (<) (map urr_id us)"
    "\<forall>ev \<in> set uev. ucast (fst ev) \<in> S \<longrightarrow> snd ev AND URR_START_OF_TRAFFIC = 0"
  shows "\<exists>us'. active_urrs si g' = Some us' \<and> accounts d S (\<lambda>_. 0) (\<lambda>i. reported d i (reports_of req)) us us'"
proof -
  obtain sx where sx: "g_sessions g si = Some sx" "us = elts (r_urr (pfcp_get_rules sx PFCP_ACTIVE))"
    using assms(2) by (auto simp: active_urrs_def bind_eq_Some_conv)
  show ?thesis
  proof (cases "us = []")
    case True
    then show ?thesis
      using assms sx by (simp add: upf_pfcp_session_usage_report_def)
  next
    case False
    obtain active1 send1 report1 g1 where 1: "fold (traffic_event lib si now) uev
        ((pfcp_get_rules sx PFCP_ACTIVE, False, upf_usage_report_init (length us)), g) = ((active1, send1, report1), g1)"
      by (metis surj_pair)
    obtain us2 send2 report2 where 2: "fold (volume_event now) [0..<length us] (elts (r_urr active1), send1, report1) = (us2, send2, report2)"
      by (metis surj_pair)
    have t: "list_all2 same_usage us (elts (r_urr active1))" "no_start_due S us report1" "frame g g1"
      using traffic_events [OF 1, of S] assms(3,4) by (simp_all add: sx(2))
    note ids1 = same_usages_ids [OF t(1)]
    have v: "list_all2 same_usage us us2" "no_start_due S us report2"
      using volume_events [OF 2, of S] t(1,2) same_usages_trans by (auto simp: no_start_due_ids [OF ids1])
    note ids2 = same_usages_ids [OF v(1)]
    have urrs1: "active_urrs si g1 = Some us"
      using t(3) assms(2) by (simp add: frame_def active_urrs_def)
    have keep: "accounts d S (\<lambda>_. 0) (\<lambda>_. 0) us us2"
      by (rule accounts_same_usage [OF v(1)])
    show ?thesis
    proof (cases send2)
      case False
      then have "put_urrs si us2 g1 = Some g'" "req = None"
        using assms(1) \<open>us \<noteq> []\<close> sx 1 2 by (auto simp: upf_pfcp_session_usage_report_def Let_def bind_eq_Some_conv)
      then show ?thesis
        using active_urrs_put [OF urrs1] keep accounts_length [OF keep] by auto
    next
      case True
      then obtain us3 rs where 3: "upf_usage_report_build lib (g_vlib_now g1) (Some ue) now report2 us2 = Some (us3, rs)"
          "put_urrs si us3 g1 = Some g'" "reports_of req = rs"
        using assms(1) \<open>us \<noteq> []\<close> sx 1 2 by (auto simp: upf_pfcp_session_usage_report_def Let_def bind_eq_Some_conv)
      have "distinct (map urr_id us2)" "no_start_due S us2 report2"
        using assms(3) v(2) by (simp_all add: ids2 strict_sorted_iff no_start_due_ids [OF ids2])
      from accounts_trans [OF keep report_build_accounts [OF 3(1) this]]
      have "accounts d S (\<lambda>_. 0) (\<lambda>i. reported d i rs) us us3"
        by simp
      then show ?thesis
        using active_urrs_put [OF urrs1 _ 3(2)] accounts_length 3(3) by blast
    qed
  qed
qed

section \<open>Timers\<close>

definition timer_step ::
    "upf_urr_t \<times> urr_timer_state \<times> upf_main_t \<Rightarrow> upf_urr_t \<times> urr_timer_state \<times> upf_main_t \<Rightarrow> bool" where
  "timer_step x y \<longleftrightarrow> same_usage (fst x) (fst y) \<and> frame (snd (snd x)) (snd (snd y))
     \<and> (bit (ut_trigger (fst (snd y))) 4 \<longrightarrow> bit (ut_trigger (fst (snd x))) 4)"

lemma timer_step_trans: "timer_step x y \<Longrightarrow> timer_step y z \<Longrightarrow> timer_step x z"
  unfolding timer_step_def using same_usage_trans frame_trans by blast

lemma timer_trigger_start:
  "\<not> bit trigger 4 \<Longrightarrow> bit (ut_trigger (timer_trigger triggers wanted trigger t st)) 4 = bit (ut_trigger st) 4"
  by (simp add: timer_trigger_def bit_or_iff)

lemma frame_timer [simp]:
  "frame g (snd (upf_pfcp_session_start_stop_urr_time lib si b t g))"
  "frame g (snd (upf_pfcp_session_stop_urr_time now t g))"
  by (simp_all add: frames)

lemma timer_step_period: "timer_step x (period_timer lib si now x)"
  by (cases x) (simp add: period_timer_def timer_step_def Let_def case_prod_beta same_usage_def timer_trigger_start bit_BIT)

lemma timer_step_threshold: "timer_step x (threshold_timer now x)"
  by (cases x) (simp add: threshold_timer_def timer_step_def Let_def case_prod_beta same_usage_def timer_trigger_start bit_BIT)

lemma timer_step_quota: "timer_step x (quota_timer now x)"
  by (cases x) (simp add: quota_timer_def timer_step_def Let_def case_prod_beta same_usage_def timer_trigger_start
      bit_or_iff bit_BIT)

lemma timer_step_validity: "timer_step x (validity_timer now x)"
  by (cases x) (simp add: validity_timer_def timer_step_def Let_def case_prod_beta same_usage_def timer_trigger_start
      bit_or_iff bit_BIT)

lemma timer_step_traffic: "timer_step x (traffic_timer lib si now x)"
  by (cases x) (simp add: traffic_timer_def timer_step_def Let_def case_prod_beta same_usage_def)

lemma timer_steps:
  "timer_step x (traffic_timer lib si now (validity_timer now (quota_timer now (threshold_timer now (period_timer lib si now x)))))"
  by (meson timer_step_trans timer_step_period timer_step_threshold timer_step_quota timer_step_validity timer_step_traffic)

lemma urr_timers:
  assumes "fold (urr_timer lib si now) ks (us, report, usar, g) = (us', report', usar', g')" "no_start_due S us report"
  shows "list_all2 same_usage us us' \<and> no_start_due S us report' \<and> frame g g'"
  using assms
proof (induction ks arbitrary: us report usar g)
  case Nil
  then show ?case
    by (simp add: list_all2_same)
next
  case (Cons k ks)
  obtain us1 report1 usar1 g1 where 1: "urr_timer lib si now k (us, report, usar, g) = (us1, report1, usar1, g1)"
    by (metis surj_pair)
  obtain u st g2 where u: "traffic_timer lib si now (validity_timer now (quota_timer now (threshold_timer now
      (period_timer lib si now (us ! k, \<lparr>ut_trigger = 0, ut_trigger_now = now\<rparr>, g))))) = (u, st, g2)"
    by (metis surj_pair)
  have ts: "same_usage (us ! k) u" "frame g g2" "\<not> bit (ut_trigger st) 4"
    using timer_steps [of "(us ! k, \<lparr>ut_trigger = 0, ut_trigger_now = now\<rparr>, g)" lib si now] unfolding u timer_step_def by auto
  then have "same_usage (us ! k) (u\<lparr>urr_triggers := x\<rparr>)" for x
    by (simp add: same_usage_def)
  then have step: "list_all2 same_usage us us1 \<and> no_start_due S us report1 \<and> frame g g1"
    using 1 ts Cons.prems(2)
    by (auto simp: urr_timer_def u list_all2_same intro!: no_start_due_trigger same_usage_update split: if_splits)
  note ids = same_usages_ids [OF conjunct1 [OF this]]
  have "list_all2 same_usage us1 us' \<and> no_start_due S us1 report' \<and> frame g1 g'"
    using Cons.IH [of us1 report1 usar1 g1] Cons.prems(1) 1 step by (simp add: no_start_due_ids [OF ids])
  then show ?case
    using step same_usages_trans frame_trans by (simp add: no_start_due_ids [OF ids]) blast
qed

lemma inactivity_frame: "frame g (snd (snd (inactivity_expired lib si last_ul t g)))"
  by (simp add: inactivity_expired_def Let_def case_prod_beta
      frame_trans [OF frame_stop_up_inactivity_timer frame_start_up_inactivity_timer])

lemma urr_timer_accounts:
  assumes "upf_pfcp_session_urr_timer lib si now g = Some (req, g')" "active_urrs si g = Some us"
    "sorted_wrt (<) (map urr_id us)"
  shows "\<exists>us'. active_urrs si g' = Some us' \<and> accounts d S (\<lambda>_. 0) (\<lambda>i. reported d i (reports_of req)) us us'"
proof -
  obtain sx where sx: "g_sessions g si = Some sx" "us = elts (r_urr (pfcp_get_rules sx PFCP_ACTIVE))"
    using assms(2) by (auto simp: active_urrs_def bind_eq_Some_conv)
  let ?active = "pfcp_get_rules sx PFCP_ACTIVE"
  obtain inactive t g1 where 1: "inactivity_expired lib si (s_last_ul_traffic sx) (r_inactivity_timer ?active) g = (inactive, t, g1)"
    by (metis surj_pair)
  obtain us2 report usar g2 where 2: "fold (urr_timer lib si now) [0..<length us] (us, upf_usage_report_init (length us), False, g1)
      = (us2, report, usar, g2)"
    by (metis surj_pair)
  note v = urr_timers [OF 2 no_start_due_init, of S]
  have g2: "g_sessions g2 = g_sessions g"
    using v inactivity_frame [of g lib si "s_last_ul_traffic sx" "r_inactivity_timer ?active"] 1 by (simp add: frame_def)
  obtain g3 where g3: "update_session si (put_rules PFCP_ACTIVE (?active\<lparr>r_inactivity_timer := t\<rparr>)) g2 = Some g3"
    using sx(1) g2 by (simp add: update_session_def)
  then have urrs: "active_urrs si g3 = Some us"
    using sx g2 by (auto simp: update_session_def put_session_def active_urrs_def)
  have keep: "accounts d S (\<lambda>_. 0) (\<lambda>_. 0) us us2"
    using v accounts_same_usage by blast
  have ids: "map urr_id us2 = map urr_id us"
    using v same_usages_ids by blast
  show ?thesis
  proof (cases "inactive \<or> usar")
    case False
    then have "put_urrs si us2 g3 = Some g'" "req = None"
      using assms(1) sx 1 2 g3 by (auto simp: upf_pfcp_session_urr_timer_def Let_def bind_eq_Some_conv)
    then show ?thesis
      using active_urrs_put [OF urrs] keep accounts_length [OF keep] by auto
  next
    case True
    then obtain us3 rs where 3: "upf_usage_report_build lib (g_vlib_now g3) None now report us2 = Some (us3, rs)"
        "put_urrs si us3 g3 = Some g'" "reports_of req = rs"
      using assms(1) sx 1 2 g3 by (auto simp: upf_pfcp_session_urr_timer_def Let_def bind_eq_Some_conv)
    have "distinct (map urr_id us2)" "no_start_due S us2 report"
      using assms(3) v by (simp_all add: ids strict_sorted_iff no_start_due_ids [OF ids])
    from accounts_trans [OF keep report_build_accounts [OF 3(1) this]]
    have "accounts d S (\<lambda>_. 0) (\<lambda>i. reported d i rs) us us3"
      by simp
    then show ?thesis
      using active_urrs_put [OF urrs _ 3(2)] accounts_length 3(3) by blast
  qed
qed

section \<open>All that happens to the usage rules of a session\<close>

text \<open>
  A packet that a detection rule was found for, an event of the data path, the expiry of a timer, a request of the control
  plane for reports, and the time passing.
\<close>

datatype usage_event =
  Packet upf_pdr_t urr_packet bool bool
| Event ip46_address "(u32 \<times> u8) list"
| Timer
| Query upf_usage_report_t
| Clock int int

text \<open>The results of a step are the reports, and whether the data path asks for the session to be dropped.\<close>

fun usage_step ::
    "'v session_lib_scheme \<Rightarrow> nat \<Rightarrow> usage_event \<Rightarrow> upf_main_t \<Rightarrow> (pfcp_usage_report_t list \<times> bool \<times> upf_main_t) option" where
  "usage_step lib si (Packet pdr pk is_ul is_dl) g = do {
     sx \<leftarrow> g_sessions g si;
     let (next, active, last_ul, report) = process_urrs (g_vlib_now g) (pfcp_get_rules sx PFCP_ACTIVE) pdr pk is_dl is_ul
           UPF_FORWARD_NEXT_IP_INPUT (s_last_ul_traffic sx);
     Some ([], (case report of None \<Rightarrow> False | Some r \<Rightarrow> rep_status r AND URR_DROP_SESSION \<noteq> 0),
           put_session si (put_rules PFCP_ACTIVE active (sx\<lparr>s_last_ul_traffic := last_ul\<rparr>)) g)
   }"
| "usage_step lib si (Event ue uev) g = do {
     (req, g) \<leftarrow> upf_pfcp_session_usage_report lib si ue uev (g_now g) g;
     Some (reports_of req, False, g)
   }"
| "usage_step lib si Timer g = do {
     (req, g) \<leftarrow> upf_pfcp_session_urr_timer lib si (g_now g) g;
     Some (reports_of req, False, g)
   }"
| "usage_step lib si (Query report) g = do {
     urrs \<leftarrow> active_urrs si g;
     (urrs, rs) \<leftarrow> upf_usage_report_build lib (g_vlib_now g) None (g_now g) report urrs;
     g \<leftarrow> put_urrs si urrs g;
     Some (rs, False, g)
   }"
| "usage_step lib si (Clock now vnow) g = Some ([], False, g\<lparr>g_now := now, g_vlib_now := vnow, g_timer_last_run := now\<rparr>)"

fun usage_run ::
    "'v session_lib_scheme \<Rightarrow> nat \<Rightarrow> usage_event list \<Rightarrow> upf_main_t \<Rightarrow> (pfcp_usage_report_t list \<times> bool \<times> upf_main_t) option" where
  "usage_run lib si [] g = Some ([], False, g)"
| "usage_run lib si (e # es) g = do {
     (rs, drop, g) \<leftarrow> usage_step lib si e g;
     (rs', drop', g) \<leftarrow> usage_run lib si es g;
     Some (rs @ rs', drop \<or> drop', g)
   }"

text \<open>What a packet adds to the volume of a rule: its length for every time its detection rule names the usage rule.\<close>

fun charged :: "counter_member \<Rightarrow> u16 \<Rightarrow> usage_event \<Rightarrow> u64" where
  "charged d i (Packet pdr pk is_ul is_dl) =
     of_nat (count_list (pdr_urr_ids pdr) i) * (if counts d is_ul is_dl then pk_len pk else 0)"
| "charged d i _ = 0"

text \<open>The event does not announce the start of traffic for the rule.\<close>

fun no_start :: "u16 \<Rightarrow> usage_event \<Rightarrow> bool" where
  "no_start i (Event ue uev) \<longleftrightarrow> (\<forall>ev \<in> set uev. ucast (fst ev) = i \<longrightarrow> snd ev AND URR_START_OF_TRAFFIC = 0)"
| "no_start i (Query report) \<longleftrightarrow> (\<forall>ev \<in> set (rp_events report). ev_triggers ev AND USAGE_REPORT_TRIGGER_START_OF_TRAFFIC = 0)"
| "no_start i _ \<longleftrightarrow> True"

lemma packet_accounts:
  assumes "process_urrs now active pdr pk is_dl is_ul next last_ul = (nx, active', l, report)"
    "sorted_wrt (<) (map urr_id (elts (r_urr active)))"
    "\<not> (case report of None \<Rightarrow> False | Some r \<Rightarrow> rep_status r AND URR_DROP_SESSION \<noteq> 0)"
  shows "accounts d S (\<lambda>i. of_nat (count_list (pdr_urr_ids pdr) i) * (if counts d is_ul is_dl then pk_len pk else 0)) (\<lambda>_. 0)
    (elts (r_urr active)) (elts (r_urr active'))"
proof -
  define st where "st = \<lparr>ul_active = active, ul_status = URR_OK, ul_ip = 0, ul_events = [], ul_next = next\<rparr>"
  define st' where "st' = process_urrs_loop is_ul is_dl now pk (pdr_urr_ids pdr) st"
  have "ul_active st = active"
    by (simp add: st_def)
  moreover have "active' = ul_active st'" "\<not> bit (ul_status st') DROP_BIT"
    using assms(1,3) by (auto simp: process_urrs_def st_def [symmetric] st'_def [symmetric] Let_def split: if_splits)
  ultimately show ?thesis
    using process_urrs_loop_accounts [of st is_ul is_dl now pk "pdr_urr_ids pdr" d S] assms(2) by (simp add: st'_def)
qed

lemma usage_step_accounts:
  assumes step: "usage_step lib si e g = Some (rs, False, g')" and us: "active_urrs si g = Some us" "sorted_wrt (<) (map urr_id us)"
    and ev: "\<forall>i \<in> S. no_start i e"
  shows "\<exists>us'. active_urrs si g' = Some us' \<and> accounts d S (\<lambda>i. charged d i e) (\<lambda>i. reported d i rs) us us'"
proof (cases e)
  case (Packet pdr pk is_ul is_dl)
  obtain sx where sx: "g_sessions g si = Some sx" "us = elts (r_urr (pfcp_get_rules sx PFCP_ACTIVE))"
    using us(1) by (auto simp: active_urrs_def bind_eq_Some_conv)
  obtain nx active l report where p: "process_urrs (g_vlib_now g) (pfcp_get_rules sx PFCP_ACTIVE) pdr pk is_dl is_ul
      UPF_FORWARD_NEXT_IP_INPUT (s_last_ul_traffic sx) = (nx, active, l, report)"
    by (metis surj_pair)
  have out: "rs = []" "g' = put_session si (put_rules PFCP_ACTIVE active (sx\<lparr>s_last_ul_traffic := l\<rparr>)) g"
    "\<not> (case report of None \<Rightarrow> False | Some r \<Rightarrow> rep_status r AND URR_DROP_SESSION \<noteq> 0)"
    using step by (auto simp: Packet sx(1) p)
  have "active_urrs si g' = Some (elts (r_urr active))"
    by (simp add: active_urrs_def out(2) put_session_def)
  moreover have "accounts d S (\<lambda>i. charged d i e) (\<lambda>i. reported d i rs) us (elts (r_urr active))"
    using packet_accounts [OF p _ out(3), of d S] us(2) by (simp add: sx(2) Packet out(1))
  ultimately show ?thesis
    by blast
next
  case (Event ue uev)
  then obtain req where "upf_pfcp_session_usage_report lib si ue uev (g_now g) g = Some (req, g')" "rs = reports_of req"
    using step by (auto simp: bind_eq_Some_conv)
  then show ?thesis
    using usage_report_accounts [OF _ us, of lib ue uev "g_now g" req g' S d] ev by (auto simp: Event)
next
  case Timer
  then obtain req where "upf_pfcp_session_urr_timer lib si (g_now g) g = Some (req, g')" "rs = reports_of req"
    using step by (auto simp: bind_eq_Some_conv)
  then show ?thesis
    using urr_timer_accounts [OF _ us, of lib "g_now g" req g' d S] by (simp add: Timer)
next
  case (Query report)
  obtain us2 where 2: "upf_usage_report_build lib (g_vlib_now g) None (g_now g) report us = Some (us2, rs)"
    "put_urrs si us2 g = Some g'"
    using step us(1) by (auto simp: Query bind_eq_Some_conv)
  have "ev_triggers (rp_events report ! k) AND USAGE_REPORT_TRIGGER_START_OF_TRAFFIC = 0"
    if "k < length (rp_events report)" "urr_id (us ! k) \<in> S" for k
    using ev that by (auto simp: Query)
  then have "accounts d S (\<lambda>_. 0) (\<lambda>i. reported d i rs) us us2"
    using build_reports_accounts [OF 2(1) [unfolded upf_usage_report_build_def], of S d] us(2)
    by (auto simp: strict_sorted_iff)
  then show ?thesis
    using active_urrs_put [OF us(1) _ 2(2)] accounts_length by (auto simp: Query)
next
  case (Clock now vnow)
  then show ?thesis
    using step us(1) by (auto simp: active_urrs_def)
qed

lemma usage_run_accounts:
  assumes "usage_run lib si es g = Some (rs, False, g')" "active_urrs si g = Some us" "sorted_wrt (<) (map urr_id us)"
    "\<forall>i \<in> S. \<forall>e \<in> set es. no_start i e"
  shows "\<exists>us'. active_urrs si g' = Some us' \<and> accounts d S (\<lambda>i. \<Sum>e \<leftarrow> es. charged d i e) (\<lambda>i. reported d i rs) us us'"
  using assms
proof (induction es arbitrary: g rs us)
  case (Cons e es)
  obtain rs1 g1 rs2 where 1: "usage_step lib si e g = Some (rs1, False, g1)" "usage_run lib si es g1 = Some (rs2, False, g')"
      "rs = rs1 @ rs2"
    using Cons.prems(1) by (auto simp: bind_eq_Some_conv)
  obtain us1 where us1: "active_urrs si g1 = Some us1" "accounts d S (\<lambda>i. charged d i e) (\<lambda>i. reported d i rs1) us us1"
    using usage_step_accounts [OF 1(1) Cons.prems(2,3), of S d] Cons.prems(4) by auto
  have "sorted_wrt (<) (map urr_id us1)"
    using Cons.prems(3) by (simp add: accounts_ids [OF us1(2)])
  then obtain us2 where us2: "active_urrs si g' = Some us2"
      "accounts d S (\<lambda>i. \<Sum>e \<leftarrow> es. charged d i e) (\<lambda>i. reported d i rs2) us1 us2"
    using Cons.IH [OF 1(2) us1(1)] Cons.prems(4) by auto
  then show ?case
    using accounts_trans [OF us1(2) us2(2)] by (auto simp: 1(3))
qed simp

text \<open>C37: Usage is accounted for to the octet, over any sequence of packets, events, timers and queries of a session:
  for each volume rule, what was not reported yet and what the packets added is what the reports sum up to and
  what is left, for uplink, downlink and total, also when the volume is split at the monitoring time and when
  counters wrap around. The exception are reports of the start of traffic, which drop what was measured; no
  result is claimed for a session the data path asks to drop.
\<close>

theorem usage_accounted:
  assumes run: "usage_run lib si es g = Some (rs, False, g')" and us: "active_urrs si g = Some us" "sorted_wrt (<) (map urr_id us)"
    and rule: "k < length us" "urr_methods (us ! k) AND PFCP_URR_VOLUME \<noteq> 0" "\<forall>e \<in> set es. no_start (urr_id (us ! k)) e"
  shows "\<exists>us'. active_urrs si g' = Some us' \<and> map urr_id us' = map urr_id us
    \<and> unreported d (us ! k) + (\<Sum>e \<leftarrow> es. charged d (urr_id (us ! k)) e)
      = reported d (urr_id (us ! k)) rs + unreported d (us' ! k)"
proof -
  obtain us' where us': "active_urrs si g' = Some us'"
      "accounts d {urr_id (us ! k)} (\<lambda>i. \<Sum>e \<leftarrow> es. charged d i e) (\<lambda>i. reported d i rs) us us'"
    using usage_run_accounts [OF run us, of "{urr_id (us ! k)}" d] rule(3) by auto
  show ?thesis
    using us' rule(1,2) accounts_ids [OF us'(2)] list_all2_nthD [OF us'(2) [unfolded accounts_def] rule(1)] by auto
qed

text \<open>A session with one rule, an uplink packet, and a query five seconds after the rule was created.\<close>

definition billed_rule :: upf_urr_t where
  "billed_rule = quota_urr\<lparr>urr_start_time := At 0\<rparr>"

definition billed_session :: upf_session_t where
  "billed_session = new_session\<lparr>s_rules := (zero_rules\<lparr>r_urr := Some [billed_rule]\<rparr>, zero_rules)\<rparr>"

definition billed_state :: upf_main_t where
  "billed_state = no_sessions\<lparr>g_sessions := [0 \<mapsto> billed_session], g_now := 500\<rparr>"

definition billed_events :: "usage_event list" where
  "billed_events = [Packet quota_pdr \<lparr>pk_len = 100, pk_src = 1, pk_dst = 2\<rparr> True False,
     Query \<lparr>rp_events = [\<lparr>ev_triggers = USAGE_REPORT_TRIGGER_IMMEDIATE_REPORT, ev_now = 500\<rparr>], rp_liusa_bitmap = []\<rparr>]"

lemma urr_by_id_single: "r_urr r = Some [u] \<Longrightarrow> pfcp_get_urr_by_id r i = (if urr_id u = i then Some 0 else None)"
  by (auto simp: pfcp_get_urr_by_id_def vec_bsearch_def bsearch_loop.simps intcmp_def)

lemma billed_packet:
  "process_urr True False 0 \<lparr>pk_len = 100, pk_src = 1, pk_dst = 2\<rparr> billed_rule
       \<lparr>ul_active = r, ul_status = 0, ul_ip = 0, ul_events = [], ul_next = n\<rparr>
     = (billed_rule\<lparr>urr_time_of_first_packet := At 0, urr_time_of_last_packet := At 0,
          urr_volume := (urr_volume billed_rule)\<lparr>v_measure := \<lparr>m_packets = \<lparr>c_ul = 1, c_dl = 0, c_total = 1\<rparr>,
            m_bytes = \<lparr>c_ul = 100, c_dl = 0, c_total = 100\<rparr>, m_consumed = \<lparr>c_ul = 100, c_dl = 0, c_total = 100\<rparr>\<rparr>\<rparr>\<rparr>,
        \<lparr>ul_active = r, ul_status = 0, ul_ip = 0, ul_events = [], ul_next = n\<rparr>)"
  by (simp add: process_urr_def billed_rule_def quota_urr_def measure_volume_def bit_numeral_rec urr_incr_and_check_def
      urr_increment_and_check_counter_def detect_start_of_traffic_def zero_measure_def zero_counter_def zero_urr_time_def Let_def)

lemma billed_query:
  "\<exists>u r. report_usage_ev vpp_lib 0 None (BIT 7) 500
       (billed_rule\<lparr>urr_time_of_first_packet := At 0, urr_time_of_last_packet := At 0, urr_volume := v\<rparr>) = Some (u, [r])"
  by (simp add: billed_rule_def quota_urr_def report_usage_ev_def take_volume_def Let_def init_usage_report_def
      duration_between_def traffic_trigger_def report_times_def bit_numeral_rec bit_BIT)

lemma billed_run:
  obtains r u g' where "usage_run vpp_lib 0 billed_events billed_state = Some ([r], False, g')" "active_urrs 0 g' = Some [u]"
proof -
  let ?s0 = "\<lparr>ul_active = pfcp_get_rules billed_session PFCP_ACTIVE, ul_status = 0, ul_ip = 0, ul_events = [], ul_next = UPF_FORWARD_NEXT_IP_INPUT\<rparr>"
  obtain v where v: "process_urr True False 0 \<lparr>pk_len = 100, pk_src = 1, pk_dst = 2\<rparr> billed_rule ?s0
      = (billed_rule\<lparr>urr_time_of_first_packet := At 0, urr_time_of_last_packet := At 0, urr_volume := v\<rparr>, ?s0)"
    using billed_packet by blast
  obtain u r where q: "report_usage_ev vpp_lib 0 None (BIT 7) 500
       (billed_rule\<lparr>urr_time_of_first_packet := At 0, urr_time_of_last_packet := At 0, urr_volume := v\<rparr>) = Some (u, [r])"
    using billed_query by blast
  have rule: "pfcp_get_rules billed_session PFCP_ACTIVE = zero_rules\<lparr>r_urr := Some [billed_rule]\<rparr>" "urr_id billed_rule = 3"
    "\<not> before (abs_vlib_time (urr_monitoring_time billed_rule)) 0"
    by (simp_all add: billed_session_def new_session_def Let_def pfcp_get_rules_def billed_rule_def quota_urr_def)
  define sx1 where "sx1 = put_rules PFCP_ACTIVE (zero_rules\<lparr>r_urr := Some [billed_rule\<lparr>urr_time_of_first_packet := At 0,
      urr_time_of_last_packet := At 0, urr_volume := v\<rparr>]\<rparr>) (billed_session\<lparr>s_last_ul_traffic := 0\<rparr>)"
  have p: "process_urrs 0 (pfcp_get_rules billed_session PFCP_ACTIVE) quota_pdr \<lparr>pk_len = 100, pk_src = 1, pk_dst = 2\<rparr> False True
      UPF_FORWARD_NEXT_IP_INPUT (s_last_ul_traffic billed_session) = (UPF_FORWARD_NEXT_IP_INPUT,
        zero_rules\<lparr>r_urr := Some [billed_rule\<lparr>urr_time_of_first_packet := At 0, urr_time_of_last_packet := At 0, urr_volume := v\<rparr>]\<rparr>, 0, None)"
    using v by (simp add: process_urrs_def quota_pdr_def urr_by_id_single rule Let_def)
  have 1: "usage_step vpp_lib 0 (hd billed_events) billed_state = Some ([], False, put_session 0 sx1 billed_state)"
    using p by (simp add: billed_events_def billed_state_def no_sessions_def sx1_def)
  have urrs: "active_urrs 0 (put_session 0 sx1 billed_state) = Some [billed_rule\<lparr>urr_time_of_first_packet := At 0,
      urr_time_of_last_packet := At 0, urr_volume := v\<rparr>]"
    by (simp add: active_urrs_def put_session_def sx1_def)
  obtain g' where g': "put_urrs 0 [u] (put_session 0 sx1 billed_state) = Some g'"
    by (simp add: put_urrs_def update_session_def put_session_def)
  have 2: "usage_step vpp_lib 0 (billed_events ! 1) (put_session 0 sx1 billed_state) = Some ([r], False, g')"
    using q g' urrs by (simp add: billed_events_def upf_usage_report_build_def put_session_def billed_state_def no_sessions_def BIT_def)
  define e1 e2 where "e1 = hd billed_events" and "e2 = billed_events ! 1"
  have es: "billed_events = [e1, e2]"
    by (simp add: billed_events_def e1_def e2_def)
  have "usage_run vpp_lib 0 billed_events billed_state = Some ([r], False, g')"
    unfolding es usage_run.simps 1 [folded e1_def] bind.bind_lunit prod.case 2 [folded e2_def] by simp
  then show thesis
    using that active_urrs_put [OF urrs _ g'] by auto
qed

theorem usage_accounted_witness:
  "\<exists>r u g'. usage_run vpp_lib 0 billed_events billed_state = Some ([r], False, g') \<and> active_urrs 0 g' = Some [u]
     \<and> 100 = reported TOTAL 3 [r] + unreported TOTAL u"
proof (rule billed_run)
  fix r u g'
  assume run: "usage_run vpp_lib 0 billed_events billed_state = Some ([r], False, g')" "active_urrs 0 g' = Some [u]"
  have us: "active_urrs 0 billed_state = Some [billed_rule]"
    by (simp add: active_urrs_def billed_state_def billed_session_def new_session_def Let_def pfcp_get_rules_def)
  have "unreported TOTAL billed_rule = 0" "urr_id billed_rule = 3" "bit (urr_methods billed_rule) 1" "\<forall>e \<in> set billed_events. no_start 3 e"
    "(\<Sum>e \<leftarrow> billed_events. charged TOTAL 3 e) = 100"
    by (auto simp: billed_rule_def quota_urr_def unreported_def zero_measure_def zero_counter_def bit_numeral_rec
        billed_events_def counts_def quota_pdr_def bit_BIT)
  then show ?thesis
    using usage_accounted [OF run(1) us, of 0 TOTAL] run by auto
qed

end
