(* ===== verification/Pfcp_IE_Rest.thy ===== *)
theory Pfcp_IE_Rest
  imports Pfcp_IE_Basic
begin

text \<open>
  Information element codecs of \<^verbatim>\<open>src/upf/pfcp.c\<close>, third part: from DL Flow Level Marking to the
  Broadband Forum and Travelping vendor elements, with the same conventions as the first part.
\<close>

section \<open>Flow level marking, header enrichment, flag octets\<close>

record pfcp_dl_flow_level_marking =
  flm_flags :: u8
  flm_tos_traffic_class :: u16
  flm_service_class_indicator :: u16

definition decode_dl_flow_level_marking :: "bytes \<Rightarrow> nat \<Rightarrow> pfcp_dl_flow_level_marking dec" where [codec_defs]:
  "decode_dl_flow_level_marking data len =
     (if len < 1 then Reject PFCP_CAUSE_INVALID_LENGTH
      else get_u8 data (\<lambda>b data.
        let flags = b AND 0x03; len = len - 1 in
        opt_field (ISSET_BIT flags 0) 2 get_u16 0 data len (\<lambda>ttc data len.
        opt_field (ISSET_BIT flags 1) 2 get_u16 0 data len (\<lambda>sci data len.
          Done \<lparr>flm_flags = flags, flm_tos_traffic_class = ttc, flm_service_class_indicator = sci\<rparr>))))"

definition encode_dl_flow_level_marking :: "pfcp_dl_flow_level_marking \<Rightarrow> bytes" where [codec_defs]:
  "encode_dl_flow_level_marking v =
     put_u8 (flm_flags v)
     @ opt_put (ISSET_BIT (flm_flags v) 0) (put_u16 (flm_tos_traffic_class v))
     @ opt_put (ISSET_BIT (flm_flags v) 1) (put_u16 (flm_service_class_indicator v))"

definition ok_dl_flow_level_marking :: "pfcp_dl_flow_level_marking \<Rightarrow> bool" where [codec_ok]:
  "ok_dl_flow_level_marking v \<longleftrightarrow> flm_flags v AND 3 = flm_flags v
     \<and> (\<not> bit (flm_flags v) 0 \<longrightarrow> flm_tos_traffic_class v = 0)
     \<and> (\<not> bit (flm_flags v) 1 \<longrightarrow> flm_service_class_indicator v = 0)"

record pfcp_header_enrichment =
  he_type :: u8
  he_name :: bytes
  he_value :: bytes

definition decode_header_enrichment :: "bytes \<Rightarrow> nat \<Rightarrow> pfcp_header_enrichment dec" where [codec_defs]:
  "decode_header_enrichment data len =
     (if len < 1 then Reject PFCP_CAUSE_INVALID_LENGTH
      else get_u8 data (\<lambda>b data.
        let len = len - 1 in
        opt_vec True data len (\<lambda>name data len.
        opt_vec True data len (\<lambda>value data len.
          Done \<lparr>he_type = b AND 0x0f, he_name = name, he_value = value\<rparr>))))"

definition encode_header_enrichment :: "pfcp_header_enrichment \<Rightarrow> bytes" where [codec_defs]:
  "encode_header_enrichment v = put_u8 (he_type v) @ put_vec16 (he_name v) @ put_vec16 (he_value v)"

definition ok_header_enrichment :: "pfcp_header_enrichment \<Rightarrow> bool" where [codec_ok]:
  "ok_header_enrichment v \<longleftrightarrow> he_type v AND 0x0f = he_type v
     \<and> length (he_name v) < 2 ^ 16 \<and> length (he_value v) < 2 ^ 16"

text \<open>Elements that are one octet of flags, of which some bits are kept.\<close>

definition decode_flags_octet :: "u8 \<Rightarrow> bytes \<Rightarrow> nat \<Rightarrow> u8 dec" where [codec_defs]:
  "decode_flags_octet m data len = (if len < 1 then Reject PFCP_CAUSE_INVALID_LENGTH
     else get_u8 data (\<lambda>b _. Done (b AND m)))"

definition decode_measurement_information :: "bytes \<Rightarrow> nat \<Rightarrow> u8 dec" where [codec_defs]:
  "decode_measurement_information = decode_flags_octet 0x1f"

definition encode_measurement_information :: "u8 \<Rightarrow> bytes" where [codec_defs]:
  "encode_measurement_information v = put_u8 v"

definition decode_node_report_type :: "bytes \<Rightarrow> nat \<Rightarrow> u8 dec" where [codec_defs]:
  "decode_node_report_type = decode_flags_octet 0x0f"

definition encode_node_report_type :: "u8 \<Rightarrow> bytes" where [codec_defs]:
  "encode_node_report_type v = put_u8 v"

definition decode_oci_flags :: "bytes \<Rightarrow> nat \<Rightarrow> u8 dec" where [codec_defs]:
  "decode_oci_flags = decode_flags_octet 0x01"

definition encode_oci_flags :: "u8 \<Rightarrow> bytes" where [codec_defs]:
  "encode_oci_flags v = put_u8 v"

definition decode_pfcp_association_release_request :: "bytes \<Rightarrow> nat \<Rightarrow> u8 dec" where [codec_defs]:
  "decode_pfcp_association_release_request = decode_flags_octet 0x03"

definition encode_pfcp_association_release_request :: "u8 \<Rightarrow> bytes" where [codec_defs]:
  "encode_pfcp_association_release_request v = put_u8 v"

definition decode_pdn_type :: "bytes \<Rightarrow> nat \<Rightarrow> u8 dec" where [codec_defs]:
  "decode_pdn_type = decode_flags_octet 0x0f"

definition encode_pdn_type :: "u8 \<Rightarrow> bytes" where [codec_defs]:
  "encode_pdn_type v = put_u8 v"

definition decode_rqi :: "bytes \<Rightarrow> nat \<Rightarrow> u8 dec" where [codec_defs]:
  "decode_rqi = decode_flags_octet 0x01"

definition encode_rqi :: "u8 \<Rightarrow> bytes" where [codec_defs]:
  "encode_rqi v = put_u8 v"

definition decode_proxying :: "bytes \<Rightarrow> nat \<Rightarrow> u8 dec" where [codec_defs]:
  "decode_proxying = decode_flags_octet 0x03"

definition encode_proxying :: "u8 \<Rightarrow> bytes" where [codec_defs]:
  "encode_proxying v = put_u8 v"

definition decode_ethernet_filter_properties :: "bytes \<Rightarrow> nat \<Rightarrow> u8 dec" where [codec_defs]:
  "decode_ethernet_filter_properties = decode_flags_octet 0x01"

definition encode_ethernet_filter_properties :: "u8 \<Rightarrow> bytes" where [codec_defs]:
  "encode_ethernet_filter_properties v = put_u8 v"

definition decode_ethernet_pdu_session_information :: "bytes \<Rightarrow> nat \<Rightarrow> u8 dec" where [codec_defs]:
  "decode_ethernet_pdu_session_information = decode_flags_octet 0x01"

definition encode_ethernet_pdu_session_information :: "u8 \<Rightarrow> bytes" where [codec_defs]:
  "encode_ethernet_pdu_session_information v = put_u8 v"

definition ok_flags_octet :: "u8 \<Rightarrow> u8 \<Rightarrow> bool" where [codec_ok]:
  "ok_flags_octet m v \<longleftrightarrow> v AND m = v"

section \<open>Remote GTP-U peer, failed rule, time quota mechanism\<close>

record pfcp_remote_gtp_u_peer =
  rgp_ip :: ip46_address
  rgp_destination_interface :: u8
  rgp_network_instance :: bytes

definition decode_remote_gtp_u_peer :: "vlib \<Rightarrow> bytes \<Rightarrow> nat \<Rightarrow> pfcp_remote_gtp_u_peer dec" where [codec_defs]:
  "decode_remote_gtp_u_peer lib data len =
     (if len < 1 then Reject PFCP_CAUSE_INVALID_LENGTH
      else get_u8 data (\<lambda>flags data.
        let len = len - 1;
            ni = (\<lambda>ip di data len.
              opt_vec (ISSET_BIT flags 3) data len (\<lambda>ni data len.
                Done \<lparr>rgp_ip = ip, rgp_destination_interface = di, rgp_network_instance = ni\<rparr>));
            di = (\<lambda>ip data len.
              if ISSET_BIT flags 2 then
                if len < 2 then Reject PFCP_CAUSE_INVALID_LENGTH
                else get_u16 data (\<lambda>di_len data.
                  let len = len - 2 in
                  if di_len \<noteq> 1 \<or> len < unat di_len then Reject PFCP_CAUSE_INVALID_LENGTH
                  else get_u8 data (\<lambda>b data.
                    let v = b AND 0x0f; len = len - unat di_len in
                    if v \<ge> 6 then Reject PFCP_CAUSE_REQUEST_REJECTED else ni ip v data len))
              else ni ip 0xff data len) in
        if ISSET_BIT flags 0 then
          (if len < 16 then Reject PFCP_CAUSE_INVALID_LENGTH
           else get_ip46_ip6 data (\<lambda>ip data. di ip data (len - 16)))
        else if ISSET_BIT flags 1 then
          (if len < 4 then Reject PFCP_CAUSE_INVALID_LENGTH
           else get_ip46_ip4 lib data (\<lambda>ip data. di ip data (len - 4)))
        else di 0 data len))"

definition encode_remote_gtp_u_peer :: "vlib \<Rightarrow> pfcp_remote_gtp_u_peer \<Rightarrow> bytes" where [codec_defs]:
  "encode_remote_gtp_u_peer lib v =
     (let flags = (if rgp_destination_interface v \<noteq> 0xff then BIT 2 else 0)
                  OR (if rgp_network_instance v \<noteq> [] then BIT 3 else 0) in
      (if ip46_address_is_ip4 lib (rgp_ip v) then put_u8 (flags OR BIT 1) @ put_ip46_ip4 (rgp_ip v)
       else put_u8 (flags OR BIT 0) @ put_ip46_ip6 (rgp_ip v))
      @ opt_put (rgp_destination_interface v \<noteq> 0xff)
          (put_u16 1 @ put_u8 (rgp_destination_interface v))
      @ opt_put (rgp_network_instance v \<noteq> []) (put_vec16 (rgp_network_instance v)))"

definition ok_remote_gtp_u_peer :: "vlib \<Rightarrow> pfcp_remote_gtp_u_peer \<Rightarrow> bool" where [codec_ok]:
  "ok_remote_gtp_u_peer lib v \<longleftrightarrow>
     (ip46_address_is_ip4 lib (rgp_ip v) \<longrightarrow> ip46_address_set_ip4 lib (ucast (rgp_ip v)) = rgp_ip v)
     \<and> (rgp_destination_interface v = 0xff \<or> rgp_destination_interface v < 6)
     \<and> length (rgp_network_instance v) < 2 ^ 16"

record pfcp_failed_rule_id =
  fr_type :: u8
  fr_id :: u32

definition decode_failed_rule_id :: "bytes \<Rightarrow> nat \<Rightarrow> pfcp_failed_rule_id dec" where [codec_defs]:
  "decode_failed_rule_id data len =
     (if len < 1 then Reject PFCP_CAUSE_INVALID_LENGTH
      else get_u8 data (\<lambda>type data.
        let len = len - 1 in
        if type = 0 then
          (if len < 2 then Reject PFCP_CAUSE_INVALID_LENGTH
           else get_u16 data (\<lambda>id _. Done \<lparr>fr_type = type, fr_id = ucast id\<rparr>))
        else if type = 4 then
          (if len < 1 then Reject PFCP_CAUSE_INVALID_LENGTH
           else get_u8 data (\<lambda>id _. Done \<lparr>fr_type = type, fr_id = ucast id\<rparr>))
        else
          (if len < 4 then Reject PFCP_CAUSE_INVALID_LENGTH
           else get_u32 data (\<lambda>id _. Done \<lparr>fr_type = type, fr_id = id\<rparr>))))"

definition encode_failed_rule_id :: "pfcp_failed_rule_id \<Rightarrow> bytes" where [codec_defs]:
  "encode_failed_rule_id v =
     put_u8 (fr_type v) @
     (if fr_type v = 0 then put_u16 (ucast (fr_id v))
      else if fr_type v = 4 then put_u8 (ucast (fr_id v))
      else put_u32 (fr_id v))"

definition ok_failed_rule_id :: "pfcp_failed_rule_id \<Rightarrow> bool" where [codec_ok]:
  "ok_failed_rule_id v \<longleftrightarrow> (fr_type v = 0 \<longrightarrow> take_bit 16 (fr_id v) = fr_id v)
     \<and> (fr_type v = 4 \<longrightarrow> take_bit 8 (fr_id v) = fr_id v)"

record pfcp_time_quota_mechanism =
  tqm_base_time_interval_type :: u8
  tqm_base_time_interval :: u32

text \<open>Three octets are required, five are read.\<close>

definition decode_time_quota_mechanism :: "bytes \<Rightarrow> nat \<Rightarrow> pfcp_time_quota_mechanism dec" where [codec_defs]:
  "decode_time_quota_mechanism data len =
     (if len < 3 then Reject PFCP_CAUSE_INVALID_LENGTH
      else get_u8 data (\<lambda>b data. get_u32 data (\<lambda>i _.
        Done \<lparr>tqm_base_time_interval_type = b AND 0x03, tqm_base_time_interval = i\<rparr>)))"

definition encode_time_quota_mechanism :: "pfcp_time_quota_mechanism \<Rightarrow> bytes" where [codec_defs]:
  "encode_time_quota_mechanism v =
     put_u8 (tqm_base_time_interval_type v) @ put_u32 (tqm_base_time_interval v)"

definition ok_time_quota_mechanism :: "pfcp_time_quota_mechanism \<Rightarrow> bool" where [codec_ok]:
  "ok_time_quota_mechanism v \<longleftrightarrow> tqm_base_time_interval_type v AND 3 = tqm_base_time_interval_type v"

section \<open>User plane IP resource information, multiplier, MAC addresses, VLAN tags\<close>

record pfcp_user_plane_ip_resource_information =
  upir_flags :: u8
  upir_teid_range_indication :: u8
  upir_teid_range :: u8
  upir_source_intf :: u8
  upir_network_instance :: bytes
  upir_ip4 :: ip4_address
  upir_ip6 :: ip6_address

text \<open>The network instance takes the whole rest of the element; the source interface octet is read
  behind it.\<close>

definition decode_user_plane_ip_resource_information ::
    "bytes \<Rightarrow> nat \<Rightarrow> pfcp_user_plane_ip_resource_information dec" where [codec_defs]:
  "decode_user_plane_ip_resource_information data len =
     (if len < 1 then Reject PFCP_CAUSE_INVALID_LENGTH
      else get_u8 data (\<lambda>flags data.
        let len = len - 1; ind = drop_bit 2 flags AND 0x07 in
        opt_field (ind \<noteq> 0) 1 get_u8 0 data len (\<lambda>range data len.
        opt_field (ISSET_BIT flags 0) 4 get_ip4 0 data len (\<lambda>ip4 data len.
        opt_field (ISSET_BIT flags 1) 16 get_ip6 0 data len (\<lambda>ip6 data len.
        sel_field (ISSET_BIT flags 5) (get_vec len) [] data (\<lambda>ni data.
        sel_field (ISSET_BIT flags 6) get_u8 0 data (\<lambda>si data.
          Done \<lparr>upir_flags = flags AND 0x63, upir_teid_range_indication = ind,
                upir_teid_range = range, upir_source_intf = si AND 0x0f,
                upir_network_instance = ni, upir_ip4 = ip4, upir_ip6 = ip6\<rparr>)))))))"

definition encode_user_plane_ip_resource_information ::
    "pfcp_user_plane_ip_resource_information \<Rightarrow> bytes" where [codec_defs]:
  "encode_user_plane_ip_resource_information v =
     put_u8 ((upir_flags v AND 0x63) OR push_bit 2 (upir_teid_range_indication v AND 0x07)
       OR (if upir_network_instance v \<noteq> [] then BIT 5 else 0))
     @ opt_put (upir_teid_range_indication v \<noteq> 0) (put_u8 (upir_teid_range v))
     @ opt_put (ISSET_BIT (upir_flags v) 0) (put_ip4 (upir_ip4 v))
     @ opt_put (ISSET_BIT (upir_flags v) 1) (put_ip6 (upir_ip6 v))
     @ upir_network_instance v
     @ opt_put (ISSET_BIT (upir_flags v) 6) (put_u8 (upir_source_intf v AND 0x0f))"

definition ok_user_plane_ip_resource_information ::
    "pfcp_user_plane_ip_resource_information \<Rightarrow> bool" where [codec_ok]:
  "ok_user_plane_ip_resource_information v \<longleftrightarrow>
     upir_flags v AND 0x63 = upir_flags v \<and> \<not> bit (upir_flags v) 6
     \<and> upir_teid_range_indication v AND 0x07 = upir_teid_range_indication v
     \<and> (upir_teid_range_indication v = 0 \<longrightarrow> upir_teid_range v = 0)
     \<and> (\<not> bit (upir_flags v) 0 \<longrightarrow> upir_ip4 v = 0) \<and> (\<not> bit (upir_flags v) 1 \<longrightarrow> upir_ip6 v = 0)
     \<and> (\<not> bit (upir_flags v) 5 \<longrightarrow> upir_network_instance v = []) \<and> upir_source_intf v = 0"

record pfcp_multiplier =
  mult_digits :: u64
  mult_exponent :: u32

definition decode_multiplier :: "bytes \<Rightarrow> nat \<Rightarrow> pfcp_multiplier dec" where [codec_defs]:
  "decode_multiplier data len =
     (if len < 12 then Reject PFCP_CAUSE_INVALID_LENGTH
      else get_u64 data (\<lambda>d data. get_u32 data (\<lambda>e _.
        Done \<lparr>mult_digits = d, mult_exponent = e\<rparr>)))"

definition encode_multiplier :: "pfcp_multiplier \<Rightarrow> bytes" where [codec_defs]:
  "encode_multiplier v = put_u64 (mult_digits v) @ put_u32 (mult_exponent v)"

record pfcp_mac_address =
  mac_flags :: u8
  mac_src :: "48 word"
  mac_dst :: "48 word"
  mac_upper_src :: "48 word"
  mac_upper_dst :: "48 word"

definition decode_pfcp_mac_address :: "bytes \<Rightarrow> nat \<Rightarrow> pfcp_mac_address dec" where [codec_defs]:
  "decode_pfcp_mac_address data len =
     (if len < 1 then Reject PFCP_CAUSE_INVALID_LENGTH
      else get_u8 data (\<lambda>flags data.
        let len = len - 1 in
        opt_field (ISSET_BIT flags 0) 6 get_mac 0 data len (\<lambda>s data len.
        opt_field (ISSET_BIT flags 1) 6 get_mac 0 data len (\<lambda>d data len.
        opt_field (ISSET_BIT flags 2) 6 get_mac 0 data len (\<lambda>us data len.
        opt_field (ISSET_BIT flags 3) 6 get_mac 0 data len (\<lambda>ud data len.
          Done \<lparr>mac_flags = flags, mac_src = s, mac_dst = d, mac_upper_src = us,
                mac_upper_dst = ud\<rparr>))))))"

definition encode_pfcp_mac_address :: "pfcp_mac_address \<Rightarrow> bytes" where [codec_defs]:
  "encode_pfcp_mac_address v =
     put_u8 (mac_flags v)
     @ opt_put (ISSET_BIT (mac_flags v) 0) (put_mac (mac_src v))
     @ opt_put (ISSET_BIT (mac_flags v) 1) (put_mac (mac_dst v))
     @ opt_put (ISSET_BIT (mac_flags v) 2) (put_mac (mac_upper_src v))
     @ opt_put (ISSET_BIT (mac_flags v) 3) (put_mac (mac_upper_dst v))"

definition ok_pfcp_mac_address :: "pfcp_mac_address \<Rightarrow> bool" where [codec_ok]:
  "ok_pfcp_mac_address v \<longleftrightarrow>
     (\<not> bit (mac_flags v) 0 \<longrightarrow> mac_src v = 0) \<and> (\<not> bit (mac_flags v) 1 \<longrightarrow> mac_dst v = 0)
     \<and> (\<not> bit (mac_flags v) 2 \<longrightarrow> mac_upper_src v = 0)
     \<and> (\<not> bit (mac_flags v) 3 \<longrightarrow> mac_upper_dst v = 0)"

text \<open>\<^verbatim>\<open>mask\<close> and \<^verbatim>\<open>tci\<close> are kept in network order by the code and modelled by their host value.\<close>

record pfcp_vlan_tag =
  vlan_mask :: u16
  vlan_tci :: u16

definition decode_vlan_tag :: "bytes \<Rightarrow> nat \<Rightarrow> pfcp_vlan_tag dec" where [codec_defs]:
  "decode_vlan_tag data len =
     (if len < 3 then Reject PFCP_CAUSE_INVALID_LENGTH
      else get_u8 data (\<lambda>d0 data. get_u8 data (\<lambda>d1 data. get_u8 data (\<lambda>d2 data.
        Done \<lparr>vlan_mask = (if ISSET_BIT d0 0 then 0xe000 else 0)
                OR (if ISSET_BIT d0 1 then 0x1000 else 0) OR (if ISSET_BIT d0 2 then 0x0fff else 0),
              vlan_tci = push_bit 5 (ucast (d1 AND 0x07)) OR push_bit 1 (ucast (d1 AND 0x08))
                OR push_bit 4 (ucast (d1 AND 0xf0)) OR ucast d2\<rparr>))))"

definition encode_vlan_tag :: "pfcp_vlan_tag \<Rightarrow> bytes" where [codec_defs]:
  "encode_vlan_tag v =
     put_u8 ((if vlan_mask v AND 0xe000 \<noteq> 0 then BIT 0 else 0)
       OR (if vlan_mask v AND 0x1000 \<noteq> 0 then BIT 1 else 0)
       OR (if vlan_mask v AND 0x0fff \<noteq> 0 then BIT 2 else 0))
     @ put_u16 (drop_bit 5 (vlan_tci v AND 0xe000) OR drop_bit 1 (vlan_tci v AND 0x1000)
         OR push_bit 4 (vlan_tci v AND 0x0f00) OR (vlan_tci v AND 0x00ff))"

definition ok_vlan_tag :: "pfcp_vlan_tag \<Rightarrow> bool" where [codec_ok]:
  "ok_vlan_tag v \<longleftrightarrow> take_bit 12 (vlan_tci v) = vlan_tci v
     \<and> vlan_mask v \<in> {0, 0xe000, 0x1000, 0xf000, 0x0fff, 0xefff, 0x1fff, 0xffff}"

section \<open>User id, MAC address lists, trace information\<close>

text \<open>\<^verbatim>\<open>imei_len\<close> and \<^verbatim>\<open>imei[8]\<close> are modelled by the list of the first \<^verbatim>\<open>imei_len\<close> octets, and so are
  the other two arrays.\<close>

record pfcp_user_id =
  uid_imei :: bytes
  uid_imsi :: bytes
  uid_msisdn :: bytes
  uid_nai :: bytes

definition opt_vec8 ::
    "bool \<Rightarrow> nat \<Rightarrow> bytes \<Rightarrow> nat \<Rightarrow> (bytes \<Rightarrow> bytes \<Rightarrow> nat \<Rightarrow> 'b dec) \<Rightarrow> 'b dec" where
  "opt_vec8 c bnd data len k =
     (if c then (if len < 1 then Reject PFCP_CAUSE_INVALID_LENGTH
        else get_u8 data (\<lambda>l data.
          let len = len - 1 in
          if unat l > bnd \<or> len < unat l then Reject PFCP_CAUSE_INVALID_LENGTH
          else get_vec (unat l) data (\<lambda>v data. k v data (len - unat l))))
      else k [] data len)"

definition put_vec8 :: "bytes \<Rightarrow> bytes" where
  "put_vec8 v = put_u8 (of_nat (length v)) @ v"

definition decode_user_id :: "bytes \<Rightarrow> nat \<Rightarrow> pfcp_user_id dec" where [codec_defs]:
  "decode_user_id data len =
     (if len < 1 then Reject PFCP_CAUSE_INVALID_LENGTH
      else get_u8 data (\<lambda>flags data.
        let len = len - 1 in
        opt_vec8 (ISSET_BIT flags 0) 8 data len (\<lambda>imei data len.
        opt_vec8 (ISSET_BIT flags 1) 8 data len (\<lambda>imsi data len.
        opt_vec8 (ISSET_BIT flags 2) 8 data len (\<lambda>msisdn data len.
        opt_vec8 (ISSET_BIT flags 4) 255 data len (\<lambda>nai data len.
          Done \<lparr>uid_imei = imei, uid_imsi = imsi, uid_msisdn = msisdn, uid_nai = nai\<rparr>))))))"

definition encode_user_id :: "pfcp_user_id \<Rightarrow> bytes" where [codec_defs]:
  "encode_user_id v =
     put_u8 ((if uid_imei v \<noteq> [] then BIT 0 else 0) OR (if uid_imsi v \<noteq> [] then BIT 1 else 0)
       OR (if uid_msisdn v \<noteq> [] then BIT 2 else 0) OR (if uid_nai v \<noteq> [] then BIT 4 else 0))
     @ opt_put (uid_imei v \<noteq> []) (put_vec8 (uid_imei v))
     @ opt_put (uid_imsi v \<noteq> []) (put_vec8 (uid_imsi v))
     @ opt_put (uid_msisdn v \<noteq> []) (put_vec8 (uid_msisdn v))
     @ opt_put (uid_nai v \<noteq> []) (put_vec8 (uid_nai v))"

definition ok_user_id :: "pfcp_user_id \<Rightarrow> bool" where [codec_ok]:
  "ok_user_id v \<longleftrightarrow> length (uid_imei v) \<le> 8 \<and> length (uid_imsi v) \<le> 8
     \<and> length (uid_msisdn v) \<le> 8 \<and> length (uid_nai v) \<le> 255"

fun get_macs :: "nat \<Rightarrow> bytes \<Rightarrow> (48 word list \<Rightarrow> bytes \<Rightarrow> 'b dec) \<Rightarrow> 'b dec" where
  "get_macs 0 data k = k [] data"
| "get_macs (Suc n) data k = get_mac data (\<lambda>m data. get_macs n data (\<lambda>ms. k (m # ms)))"

text \<open>\<^verbatim>\<open>length\<close> is not reduced by the count octet; the encoder appends one octet of each address,
  the vector it appends to being one of octets.\<close>

definition decode_mac_addresses_vec :: "bytes \<Rightarrow> nat \<Rightarrow> 48 word list dec" where [codec_defs]:
  "decode_mac_addresses_vec data len =
     (if len < 1 then Reject PFCP_CAUSE_INVALID_LENGTH
      else get_u8 data (\<lambda>cnt data.
        if len < unat cnt * 6 then Reject PFCP_CAUSE_INVALID_LENGTH
        else get_macs (unat cnt) data (\<lambda>ms _. Done ms)))"

definition encode_mac_addresses_vec :: "48 word list \<Rightarrow> bytes" where [codec_defs]:
  "encode_mac_addresses_vec v =
     put_u8 (of_nat (length v)) @ map (\<lambda>m. ucast (drop_bit 40 m)) v"

record pfcp_trace_information =
  trace_mccmnc :: "u8 \<times> u8 \<times> u8"
  trace_id :: u32
  trace_triggering_events :: bytes
  trace_depth :: u8
  trace_interfaces :: bytes
  trace_collection_entity :: ip46_address

text \<open>The trace depth is written and not read; the IPv4 case falls through to the IPv6 one.\<close>

definition decode_trace_information :: "vlib \<Rightarrow> bytes \<Rightarrow> nat \<Rightarrow> pfcp_trace_information dec" where [codec_defs]:
  "decode_trace_information lib data len =
     (if len < 8 then Reject PFCP_CAUSE_INVALID_LENGTH
      else get_u8 data (\<lambda>m0 data. get_u8 data (\<lambda>m1 data. get_u8 data (\<lambda>m2 data.
        get_u32 data (\<lambda>tid data. get_u8 data (\<lambda>l data.
        let len = len - 8 in
        if len < unat l then Reject PFCP_CAUSE_INVALID_LENGTH
        else get_vec (unat l) data (\<lambda>te data.
          let len = len - unat l in
          if len < 1 then Reject PFCP_CAUSE_INVALID_LENGTH
          else get_u8 data (\<lambda>l data.
            let len = len - 1 in
            if len < unat l then Reject PFCP_CAUSE_INVALID_LENGTH
            else get_vec (unat l) data (\<lambda>ifs data.
              let len = len - unat l in
              if len < 1 then Reject PFCP_CAUSE_INVALID_LENGTH
              else get_u8 data (\<lambda>l data.
                let len = len - 1;
                    fin = (\<lambda>ip _. Done \<lparr>trace_mccmnc = (m0, m1, m2), trace_id = tid,
                      trace_triggering_events = te, trace_depth = 0, trace_interfaces = ifs,
                      trace_collection_entity = ip\<rparr>) in
                if len < unat l then Reject PFCP_CAUSE_INVALID_LENGTH
                else if l = 4 then get_ip46_ip4 lib data (\<lambda>ip data. get_ip46_ip6 data fin)
                else if l = 16 then get_ip46_ip6 data fin
                else Reject PFCP_CAUSE_INVALID_LENGTH))))))))))"

definition encode_trace_information :: "vlib \<Rightarrow> pfcp_trace_information \<Rightarrow> bytes" where [codec_defs]:
  "encode_trace_information lib v =
     put_u8 (fst (trace_mccmnc v)) @ put_u8 (fst (snd (trace_mccmnc v)))
     @ put_u8 (snd (snd (trace_mccmnc v))) @ put_u32 (trace_id v)
     @ put_vec8 (trace_triggering_events v) @ put_u8 (trace_depth v) @ put_vec8 (trace_interfaces v)
     @ (if ip46_address_is_ip4 lib (trace_collection_entity v)
        then put_u8 4 @ put_ip46_ip4 (trace_collection_entity v)
        else put_u8 16 @ put_ip46_ip6 (trace_collection_entity v))"

section \<open>UE address pool, alternative SMF address, SNTP time stamps\<close>

text \<open>
  \<^verbatim>\<open>get_vec (v, id_len, data)\<close> is applied to the address of the field instead of the field. Resetting
  the length of that "vector" clears the 32 bits eight octets before the field, the lower half of the
  pointer \<^verbatim>\<open>grp.ies\<close> of the structure, which are zero unless an element of the group was already put
  aside. With \<^verbatim>\<open>id_len\<close> 0 nothing is appended, and the field keeps its initial value, the empty vector.
  Otherwise the middle of the structure is resized as if it was a vector with a header, which the
  model shows as \<open>Fault\<close>.
\<close>

definition decode_ue_ip_address_pool_identity :: "bytes \<Rightarrow> nat \<Rightarrow> bytes dec" where [codec_defs]:
  "decode_ue_ip_address_pool_identity data len =
     (if len < 2 then Reject PFCP_CAUSE_INVALID_LENGTH
      else get_u16 data (\<lambda>id_len data.
        if len - 2 < unat id_len then Reject PFCP_CAUSE_INVALID_LENGTH
        else if id_len = 0 then Done [] else Fault))"

text \<open>
  \<^verbatim>\<open>vec_append (*vec, *v)\<close> takes the octets of the identity for pointers, since \<^verbatim>\<open>v\<close> has one level of
  indirection too many: it makes room for one octet for each of them and copies eight, so that it
  reads and writes seven octets for each octet of the identity behind the end of the two vectors.
\<close>

definition encode_ue_ip_address_pool_identity :: "vlib \<Rightarrow> bytes \<Rightarrow> bytes dec" where [codec_defs]:
  "encode_ue_ip_address_pool_identity lib v =
     (if v = [] \<or> vec_slack lib (7 * length v) then Done (put_u16 (of_nat (length v)) @ v) else Fault)"

record pfcp_alternative_smf_ip_address =
  smf_flags :: u8
  smf_ip4 :: ip4_address
  smf_ip6 :: ip6_address

definition decode_alternative_smf_ip_address ::
    "bytes \<Rightarrow> nat \<Rightarrow> pfcp_alternative_smf_ip_address dec" where [codec_defs]:
  "decode_alternative_smf_ip_address data len =
     (if len < 9 then Reject PFCP_CAUSE_INVALID_LENGTH
      else get_u8 data (\<lambda>b data.
        let flags = b AND 0x03 in
        if flags = 0 then Reject (-1)
        else
          opt_field (ISSET_BIT flags 0) 4 get_ip4 0 data len (\<lambda>ip4 data len.
          opt_field (ISSET_BIT flags 1) 16 get_ip6 0 data len (\<lambda>ip6 data len.
            Done \<lparr>smf_flags = flags, smf_ip4 = ip4, smf_ip6 = ip6\<rparr>))))"

definition encode_alternative_smf_ip_address :: "pfcp_alternative_smf_ip_address \<Rightarrow> bytes" where [codec_defs]:
  "encode_alternative_smf_ip_address v =
     put_u8 (smf_flags v)
     @ opt_put (ISSET_BIT (smf_flags v) 0) (put_ip4 (smf_ip4 v))
     @ opt_put (ISSET_BIT (smf_flags v) 1) (put_ip6 (smf_ip6 v))"

text \<open>An IPv4 address alone makes an element of five octets, which the decoder refuses.\<close>

definition ok_alternative_smf_ip_address :: "pfcp_alternative_smf_ip_address \<Rightarrow> bool" where [codec_ok]:
  "ok_alternative_smf_ip_address v \<longleftrightarrow> smf_flags v AND 3 = smf_flags v \<and> bit (smf_flags v) 1
     \<and> (\<not> bit (smf_flags v) 0 \<longrightarrow> smf_ip4 v = 0)"

text \<open>
  SNTP time stamps are \<^verbatim>\<open>f64\<close> in memory. A non-negative double that is a multiple of \<open>2 ^ -32\<close> is
  modelled by that multiple; \<open>round53\<close> is the rounding of a sum to 53 significant bits, to nearest
  with ties to even. The conversions and the integer subtractions of the source are exact.
\<close>

fun f64_shift :: "nat \<Rightarrow> nat" where
  "f64_shift k = (if k < 2 ^ 53 then 0 else Suc (f64_shift (k div 2)))"

declare f64_shift.simps [simp del]

definition round53 :: "nat \<Rightarrow> nat" where
  "round53 k = (let e = f64_shift k; q = k div 2 ^ e; r = 2 * (k mod 2 ^ e) in
     (if r > 2 ^ e \<or> (r = 2 ^ e \<and> odd q) then Suc q else q) * 2 ^ e)"

definition decode_sntp_time_stamp_ie :: "bytes \<Rightarrow> nat \<Rightarrow> nat dec" where [codec_defs]:
  "decode_sntp_time_stamp_ie data len =
     (if len \<noteq> 8 then Reject PFCP_CAUSE_INVALID_LENGTH
      else get_u32 data (\<lambda>s data. get_u32 data (\<lambda>f _.
        let sec = (if unat s \<ge> 2208988800 then unat s - 2208988800 else unat s + 2085978496) in
        Done (round53 (sec * 2 ^ 32 + unat f)))))"

definition encode_sntp_time_stamp_ie :: "nat \<Rightarrow> bytes" where [codec_defs]:
  "encode_sntp_time_stamp_ie v =
     (let sec = v div 2 ^ 32; frac = v mod 2 ^ 32 in
      put_u32 (of_nat (if sec \<ge> 2085978496 then sec - 2085978496 else sec + 2208988800))
      @ put_u32 (of_nat frac))"

definition ok_sntp_time_stamp_ie :: "nat \<Rightarrow> bool" where [codec_ok]:
  "ok_sntp_time_stamp_ie v \<longleftrightarrow> v < 2 ^ 64 \<and> round53 v = v"

section \<open>Vendor elements, packet reports, IP version\<close>

definition decode_bbf_nat_outside_address :: "bytes \<Rightarrow> nat \<Rightarrow> ip4_address dec" where [codec_defs]:
  "decode_bbf_nat_outside_address data len = (if len < 4 then Reject PFCP_CAUSE_INVALID_LENGTH
     else get_ip4 data (\<lambda>v _. Done v))"

definition encode_bbf_nat_outside_address :: "ip4_address \<Rightarrow> bytes" where [codec_defs]:
  "encode_bbf_nat_outside_address v = put_ip4 v"

record pfcp_bbf_nat_external_port_range =
  bbf_start_port :: u16
  bbf_end_port :: u16

text \<open>Both ports are stored in \<^verbatim>\<open>start_port\<close>.\<close>

definition decode_bbf_nat_external_port_range ::
    "bytes \<Rightarrow> nat \<Rightarrow> pfcp_bbf_nat_external_port_range dec" where [codec_defs]:
  "decode_bbf_nat_external_port_range data len = (if len < 4 then Reject PFCP_CAUSE_INVALID_LENGTH
     else get_u16 data (\<lambda>a data. get_u16 data (\<lambda>b _.
       Done \<lparr>bbf_start_port = b, bbf_end_port = 0\<rparr>)))"

definition encode_bbf_nat_external_port_range ::
    "pfcp_bbf_nat_external_port_range \<Rightarrow> bytes" where [codec_defs]:
  "encode_bbf_nat_external_port_range v = put_u16 (bbf_start_port v) @ put_u16 (bbf_end_port v)"

definition ok_bbf_nat_external_port_range :: "pfcp_bbf_nat_external_port_range \<Rightarrow> bool" where [codec_ok]:
  "ok_bbf_nat_external_port_range v \<longleftrightarrow> bbf_start_port v = 0 \<and> bbf_end_port v = 0"

text \<open>Little-endian halves are read, a big-endian word is written.\<close>

definition decode_bbf_up_function_features :: "bytes \<Rightarrow> nat \<Rightarrow> u32 dec" where [codec_defs]:
  "decode_bbf_up_function_features data len =
     (if len mod 2 \<noteq> 0 \<or> len < 4 then Reject PFCP_CAUSE_INVALID_LENGTH
      else get_u16_little data (\<lambda>a data. get_u16_little data (\<lambda>b _.
        Done (ucast a OR push_bit 16 (ucast b)))))"

definition encode_bbf_up_function_features :: "u32 \<Rightarrow> bytes" where [codec_defs]:
  "encode_bbf_up_function_features v = put_u32 v"

definition ok_bbf_up_function_features :: "u32 \<Rightarrow> bool" where [codec_ok]:
  "ok_bbf_up_function_features v \<longleftrightarrow> v = word_of_be (rev (bytes_be 4 v))"

record pfcp_fatemeh_packet_header =
  ph_ip_version_and_header_length :: u8
  ph_tos :: u8
  ph_length :: u16
  ph_fragment_id :: u16
  ph_flags_and_fragment_offset :: u16
  ph_ttl :: u8
  ph_protocol :: u8
  ph_checksum :: u16
  ph_src :: u32
  ph_dst :: u32

definition decode_fatemeh_packet_header :: "bytes \<Rightarrow> nat \<Rightarrow> pfcp_fatemeh_packet_header dec" where [codec_defs]:
  "decode_fatemeh_packet_header data len =
     (if len < 20 then Reject PFCP_CAUSE_INVALID_LENGTH
      else get_u8 data (\<lambda>vh data. get_u8 data (\<lambda>tos data. get_u16 data (\<lambda>l data.
        get_u16 data (\<lambda>fid data. get_u16 data (\<lambda>ffo data. get_u8 data (\<lambda>ttl data.
        get_u8 data (\<lambda>pr data. get_u16 data (\<lambda>ck data. get_u32 data (\<lambda>src data.
        get_u32 data (\<lambda>dst data.
          Done \<lparr>ph_ip_version_and_header_length = vh, ph_tos = tos, ph_length = l,
                ph_fragment_id = fid, ph_flags_and_fragment_offset = ffo, ph_ttl = ttl,
                ph_protocol = pr, ph_checksum = ck, ph_src = src, ph_dst = dst\<rparr>)))))))))))"

definition encode_fatemeh_packet_header :: "pfcp_fatemeh_packet_header \<Rightarrow> bytes" where [codec_defs]:
  "encode_fatemeh_packet_header v =
     put_u8 (ph_ip_version_and_header_length v) @ put_u8 (ph_tos v) @ put_u16 (ph_length v)
     @ put_u16 (ph_fragment_id v) @ put_u16 (ph_flags_and_fragment_offset v) @ put_u8 (ph_ttl v)
     @ put_u8 (ph_protocol v) @ put_u16 (ph_checksum v) @ put_u32 (ph_src v) @ put_u32 (ph_dst v)"

record pfcp_fatemeh_packet_data =
  pd_length :: u16
  pd_data :: bytes

text \<open>The stated length of the packet data is not compared with the length of the element.\<close>

definition decode_fatemeh_packet_data :: "bytes \<Rightarrow> nat \<Rightarrow> pfcp_fatemeh_packet_data dec" where [codec_defs]:
  "decode_fatemeh_packet_data data len =
     (if len < 2 then Reject PFCP_CAUSE_INVALID_LENGTH
      else get_u16 data (\<lambda>l data. get_vec (unat l) data (\<lambda>d _.
        Done \<lparr>pd_length = l, pd_data = d\<rparr>)))"

definition encode_fatemeh_packet_data :: "pfcp_fatemeh_packet_data \<Rightarrow> bytes" where [codec_defs]:
  "encode_fatemeh_packet_data v = put_u16 (pd_length v) @ take (unat (pd_length v)) (pd_data v)"

definition ok_fatemeh_packet_data :: "pfcp_fatemeh_packet_data \<Rightarrow> bool" where [codec_ok]:
  "ok_fatemeh_packet_data v \<longleftrightarrow> length (pd_data v) = unat (pd_length v)"

text \<open>The length is not looked at. The encoder is the only one that can fail.\<close>

definition decode_ip_version :: "bytes \<Rightarrow> nat \<Rightarrow> u8 dec" where [codec_defs]:
  "decode_ip_version data len =
     get_u8 data (\<lambda>v _. if \<not> ISSET_BIT v 0 \<and> \<not> ISSET_BIT v 1 then Reject (-1) else Done v)"

definition encode_ip_version :: "u8 \<Rightarrow> bytes option" where [codec_defs]:
  "encode_ip_version v =
     (if \<not> ISSET_BIT v 0 \<and> \<not> ISSET_BIT v 1 then None else Some (put_u8 v))"

section \<open>Laws\<close>
interpretation dl_flow_level_marking: safe_codec decode_dl_flow_level_marking
  encode_dl_flow_level_marking ok_dl_flow_level_marking
  by (unfold_locales, simp add: codec_defs codec_ok Let_def)
     (auto simp: decode_dl_flow_level_marking_def Let_def Fault_simps split: if_splits)

interpretation header_enrichment:
  safe_codec decode_header_enrichment encode_header_enrichment ok_header_enrichment
  by (unfold_locales, simp add: codec_defs codec_ok Let_def)
     (auto simp: decode_header_enrichment_def Let_def Fault_simps split: if_splits)

interpretation measurement_information: safe_codec decode_measurement_information
  encode_measurement_information "ok_flags_octet 0x1f"
  by unfold_locales (auto simp: codec_defs codec_ok Fault_simps split: if_splits)
interpretation node_report_type: safe_codec decode_node_report_type
  encode_node_report_type "ok_flags_octet 0x0f"
  by unfold_locales (auto simp: codec_defs codec_ok Fault_simps split: if_splits)
interpretation oci_flags: safe_codec decode_oci_flags encode_oci_flags "ok_flags_octet 0x01"
  by unfold_locales (auto simp: codec_defs codec_ok Fault_simps split: if_splits)
interpretation association_release: safe_codec decode_pfcp_association_release_request
  encode_pfcp_association_release_request "ok_flags_octet 0x03"
  by unfold_locales (auto simp: codec_defs codec_ok Fault_simps split: if_splits)
interpretation pdn_type: safe_codec decode_pdn_type encode_pdn_type "ok_flags_octet 0x0f"
  by unfold_locales (auto simp: codec_defs codec_ok Fault_simps split: if_splits)
interpretation rqi: safe_codec decode_rqi encode_rqi "ok_flags_octet 0x01"
  by unfold_locales (auto simp: codec_defs codec_ok Fault_simps split: if_splits)
interpretation proxying: safe_codec decode_proxying encode_proxying "ok_flags_octet 0x03"
  by unfold_locales (auto simp: codec_defs codec_ok Fault_simps split: if_splits)
interpretation ethernet_filter_properties: safe_codec decode_ethernet_filter_properties
  encode_ethernet_filter_properties "ok_flags_octet 0x01"
  by unfold_locales (auto simp: codec_defs codec_ok Fault_simps split: if_splits)
interpretation ethernet_pdu_session_information: safe_codec
  decode_ethernet_pdu_session_information encode_ethernet_pdu_session_information
  "ok_flags_octet 0x01"
  by unfold_locales (auto simp: codec_defs codec_ok Fault_simps split: if_splits)

interpretation failed_rule_id: safe_codec decode_failed_rule_id encode_failed_rule_id ok_failed_rule_id
  by unfold_locales (auto simp: codec_defs codec_ok Let_def Fault_simps unsigned_ucast_eq split: if_splits)

interpretation time_quota_mechanism: ie_codec decode_time_quota_mechanism
  encode_time_quota_mechanism ok_time_quota_mechanism
  by unfold_locales (simp add: codec_defs codec_ok)

interpretation multiplier: safe_codec decode_multiplier encode_multiplier "\<lambda>_. True"
  by unfold_locales (auto simp: codec_defs Fault_simps split: if_splits)

interpretation pfcp_mac_address:
  safe_codec decode_pfcp_mac_address encode_pfcp_mac_address ok_pfcp_mac_address
  by (unfold_locales, simp add: codec_defs codec_ok Let_def)
     (auto simp: decode_pfcp_mac_address_def Let_def Fault_simps split: if_splits)

lemma length_put_vec8 [simp]: "length (put_vec8 v) = 1 + length v"
  by (simp add: put_vec8_def)

lemma opt_vec8_False [simp]: "opt_vec8 False bnd data len k = k [] data len"
  by (simp add: opt_vec8_def)

lemma opt_vec8_True [simp]: "length v \<le> bnd \<Longrightarrow> bnd < 256 \<Longrightarrow> Suc (length v) \<le> len \<Longrightarrow>
    opt_vec8 True bnd (put_vec8 v @ rest) len k = k v rest (len - Suc (length v))"
  by (auto simp: opt_vec8_def put_vec8_def unat_of_nat Let_def)

lemma opt_vec8_FaultE:
  assumes "opt_vec8 c bnd data len k = Fault" "len \<le> length data"
  obtains v data' len' where "k v data' len' = Fault" "len' \<le> length data'"
  using assms by (auto simp: opt_vec8_def Let_def Fault_simps not_less split: if_splits)

interpretation user_id: safe_codec decode_user_id encode_user_id ok_user_id
proof unfold_locales
  fix v rest assume "ok_user_id v"
  then show "decode_user_id (encode_user_id v @ rest) (length (encode_user_id v)) = Done v"
    by (cases "uid_imei v = []"; cases "uid_imsi v = []"; cases "uid_msisdn v = []"; cases "uid_nai v = []")
       (simp_all add: decode_user_id_def encode_user_id_def ok_user_id_def Let_def bit_or_iff)
next
  fix data n assume *: "decode_user_id data n = Fault"
  show "length data < n"
  proof (rule ccontr)
    assume "\<not> length data < n"
    with * show False
      by (auto simp: decode_user_id_def Let_def get_u8_Fault split: if_splits
          elim!: opt_vec8_FaultE)
  qed
qed

interpretation remote_gtp_u_peer: safe_codec "decode_remote_gtp_u_peer lib"
  "encode_remote_gtp_u_peer lib" "ok_remote_gtp_u_peer lib" for lib
proof unfold_locales
  fix v rest assume ok: "ok_remote_gtp_u_peer lib v"
  have di: "x AND 15 = x \<and> \<not> 6 \<le> x" if "x < 6" for x :: u8
    using that by (auto simp: word_le_nat_alt dest!: word_less_6)
  from ok show "decode_remote_gtp_u_peer lib (encode_remote_gtp_u_peer lib v @ rest)
      (length (encode_remote_gtp_u_peer lib v)) = Done v"
    by (cases "rgp_destination_interface v = 0xff"; cases "ip46_address_is_ip4 lib (rgp_ip v)")
       (simp_all add: decode_remote_gtp_u_peer_def encode_remote_gtp_u_peer_def
         ok_remote_gtp_u_peer_def Let_def bit_or_iff di)
next
  fix data n assume "decode_remote_gtp_u_peer lib data n = Fault"
  then show "length data < n"
    by (auto simp: decode_remote_gtp_u_peer_def Let_def Fault_simps split: if_splits)
qed

lemma vlan_tci:
  fixes t :: u16
  assumes "take_bit 12 t = t"
  defines "w \<equiv> drop_bit 5 (t AND 0xe000) OR drop_bit 1 (t AND 0x1000)
         OR push_bit 4 (t AND 0x0f00) OR (t AND 0x00ff)"
  shows "push_bit 5 (ucast ((ucast (drop_bit 8 w) :: u8) AND 0x07)) OR push_bit 1 (ucast ((ucast (drop_bit 8 w) :: u8) AND 0x08))
                OR push_bit 4 (ucast ((ucast (drop_bit 8 w) :: u8) AND 0xf0)) OR ucast (ucast w :: u8) = t"
(is "?l = t")
proof (rule u16_eqI)
  fix n :: nat assume "n < 16"
  moreover have "\<not> bit t m" if "12 \<le> m" for m
    using assms(1) that by (metis bit_take_bit_iff not_le)
  ultimately show "bit ?l n = bit t n"
    unfolding w_def less_16 less_8
    by (elim disjE) (simp_all add: bit_simps del: push_bit_Suc)
qed

lemma upir_flags_octet:
  fixes f r :: u8
  assumes "f AND 0x63 = f" "r AND 7 = r" "c \<longrightarrow> bit f 5"
  defines "w \<equiv> (f AND 0x63) OR push_bit 2 (r AND 0x07) OR (if c then BIT 5 else 0)"
  shows "w AND 0x63 = f" "drop_bit 2 w AND 7 = r" "bit w 0 = bit f 0" "bit w 1 = bit f 1" "bit w 5 = bit f 5" "bit w 6 = bit f 6"
proof -
  have f: "bit f n \<longleftrightarrow> bit f n \<and> bit (0x63 :: u8) n" for n using assms(1) by (metis bit_and_iff)
  have r: "bit r n \<longleftrightarrow> bit r n \<and> bit (7 :: u8) n" for n using assms(2) by (metis bit_and_iff)
  have nf: "\<not> bit f 2" "\<not> bit f 3" "\<not> bit f 4" "\<not> bit f 7" 
    using f [of 2] f [of 3] f [of 4] f [of 7] by simp_all
  have nr: "\<not> bit r 3" "\<not> bit r 4" "\<not> bit r 5" "\<not> bit r 6" "\<not> bit r 7" 
    using r [of 3] r [of 4] r [of 5] r [of 6] r [of 7] by simp_all
  show "w AND 0x63 = f"
    by (rule u8_eqI, unfold less_8 w_def, elim disjE) (use nf nr assms(3) in \<open>auto simp: bit_simps\<close>)
  show "drop_bit 2 w AND 7 = r"
    by (rule u8_eqI, unfold less_8 w_def, elim disjE) (use nf nr assms(3) in \<open>auto simp: bit_simps\<close>)
  show "bit w 0 = bit f 0" "bit w 1 = bit f 1" "bit w 5 = bit f 5" "bit w 6 = bit f 6"
    using assms(3) nr by (auto simp: w_def bit_simps)
qed


interpretation user_plane_ip_resource_information: ie_codec decode_user_plane_ip_resource_information
  encode_user_plane_ip_resource_information ok_user_plane_ip_resource_information
proof unfold_locales
  fix v rest assume ok: "ok_user_plane_ip_resource_information v"
  have f: "upir_flags v AND 0x63 = upir_flags v" "upir_teid_range_indication v AND 7 = upir_teid_range_indication v"
    "upir_network_instance v \<noteq> [] \<longrightarrow> bit (upir_flags v) 5"
    using ok by (auto simp: ok_user_plane_ip_resource_information_def)
  note octet = upir_flags_octet [OF f]
  show "decode_user_plane_ip_resource_information (encode_user_plane_ip_resource_information v @ rest)
      (length (encode_user_plane_ip_resource_information v)) = Done v"
    unfolding decode_user_plane_ip_resource_information_def encode_user_plane_ip_resource_information_def Let_def
    by (simp only: append_assoc get_u8_put ISSET_BIT_bit octet)
       (use ok in \<open>cases "bit (upir_flags v) 5"; simp add: ok_user_plane_ip_resource_information_def\<close>)
qed

interpretation vlan_tag: safe_codec decode_vlan_tag encode_vlan_tag ok_vlan_tag
proof unfold_locales
  fix v rest assume "ok_vlan_tag v"
  then show "decode_vlan_tag (encode_vlan_tag v @ rest) (length (encode_vlan_tag v)) = Done v"
    unfolding decode_vlan_tag_def encode_vlan_tag_def ok_vlan_tag_def put_u16_octets
    apply (simp only: append_assoc get_u8_put get_u8_Cons append_Cons append_Nil vlan_tci)
    apply (cases v)
    by (auto simp: bit_simps)
next
  fix data n assume "decode_vlan_tag data n = Fault"
  then show "length data < n"
    by (auto simp: decode_vlan_tag_def Fault_simps split: if_splits)
qed

interpretation alternative_smf_ip_address: ie_codec decode_alternative_smf_ip_address
  encode_alternative_smf_ip_address ok_alternative_smf_ip_address
  by unfold_locales (auto simp: codec_defs codec_ok Let_def)

interpretation bbf_nat_outside_address: safe_codec decode_bbf_nat_outside_address encode_bbf_nat_outside_address "\<lambda>_. True"
  by unfold_locales (auto simp: codec_defs Fault_simps split: if_splits)

interpretation bbf_nat_external_port_range: safe_codec decode_bbf_nat_external_port_range
  encode_bbf_nat_external_port_range ok_bbf_nat_external_port_range
  by unfold_locales (auto simp: codec_defs codec_ok Fault_simps split: if_splits)

interpretation fatemeh_packet_header: safe_codec decode_fatemeh_packet_header encode_fatemeh_packet_header "\<lambda>_. True"
  by (unfold_locales, simp add: codec_defs)
     (auto simp: decode_fatemeh_packet_header_def Fault_simps split: if_splits)

interpretation fatemeh_packet_data: ie_codec decode_fatemeh_packet_data encode_fatemeh_packet_data ok_fatemeh_packet_data
  by unfold_locales (auto simp: codec_defs codec_ok)

lemma put_u32_octets:
  "put_u32 w = [ucast (drop_bit 24 w), ucast (drop_bit 16 w), ucast (drop_bit 8 w), ucast w]"
  by (simp add: put_u32_def eval_nat_numeral)

lemma decode_encode_bbf_up_function_features:
  "decode_bbf_up_function_features (encode_bbf_up_function_features v @ rest)
     (length (encode_bbf_up_function_features v)) = Done (word_of_be (rev (bytes_be 4 v)))"
proof -
  have "ucast (word_of_be [b1, b0] :: u16) OR push_bit 16 (ucast (word_of_be [b3, b2] :: u16)) =
      (word_of_be [b3, b2, b1, b0] :: u32)" for b0 b1 b2 b3
    by (rule bit_word_eqI) (auto simp: word_of_be_def bit_simps dest: bit_imp_le_length)
  then show ?thesis
    by (simp add: codec_defs get_u16_little_def put_u32_octets put_u32_octets [unfolded put_u32_def])
qed

interpretation bbf_up_function_features: safe_codec decode_bbf_up_function_features
  encode_bbf_up_function_features ok_bbf_up_function_features
  by unfold_locales
     (simp_all add: decode_encode_bbf_up_function_features ok_bbf_up_function_features_def,
      auto simp: decode_bbf_up_function_features_def Fault_simps split: if_splits)

lemma sntp_base:
  assumes "s < 2 ^ 32"
  defines "w \<equiv> unat (of_nat (if s \<ge> 2085978496 then s - 2085978496 else s + 2208988800) :: u32)"
  shows "(if w \<ge> 2208988800 then w - 2208988800 else w + 2085978496) = s"
proof -
  have "w = (if s \<ge> 2085978496 then s - 2085978496 else s + 2208988800)"
    using assms(1) by (simp add: w_def unat_of_nat)
  with assms(1) show ?thesis by auto
qed

interpretation sntp_time_stamp: safe_codec decode_sntp_time_stamp_ie encode_sntp_time_stamp_ie ok_sntp_time_stamp_ie
proof unfold_locales
  fix v rest assume ok: "ok_sntp_time_stamp_ie v"
  then have "v div 2 ^ 32 < 2 ^ 32"
    by (simp add: ok_sntp_time_stamp_ie_def less_mult_imp_div_less)
  note sec = sntp_base [OF this]
  have frac: "unat (of_nat (v mod 2 ^ 32) :: u32) = v mod 2 ^ 32"
    by (simp add: unat_of_nat)
  show "decode_sntp_time_stamp_ie (encode_sntp_time_stamp_ie v @ rest)
      (length (encode_sntp_time_stamp_ie v)) = Done v"
    unfolding decode_sntp_time_stamp_ie_def encode_sntp_time_stamp_ie_def Let_def
    by (simp only: append_assoc get_u32_put sec frac div_mult_mod_eq)
       (use ok in \<open>simp add: ok_sntp_time_stamp_ie_def\<close>)
next
  fix data n assume "decode_sntp_time_stamp_ie data n = Fault"
  then show "length data < n"
    by (auto simp: decode_sntp_time_stamp_ie_def Fault_simps Let_def split: if_splits)
qed

lemma get_u8_DoneE:
  assumes "get_u8 data k = Done x"
  obtains b data' where "data = b # data'" "k b data' = Done x"
  using assms by (auto simp: get_u8_def split: list.splits)

lemma get_be_DoneE:
  assumes "get_be n data k = Done x"
  obtains w p data' where "data = p @ data'" "length p = n" "k w data' = Done x"
  using assms that [of "take n data" "drop n data"] by (auto simp: get_be_def split: if_splits)

lemma get_vec_DoneE:
  assumes "get_vec l data k = Done x"
  obtains v data' where "data = v @ data'" "length v = l" "k v data' = Done x"
  using assms that [of "take l data" "drop l data"] by (auto simp: get_vec_def split: if_splits)

lemma Reject_neq_DoneE:
  assumes "(if c then Reject e else r) = Done x"
  obtains "r = Done x"
  using assms by (simp split: if_splits)

lemma decode_trace_information_Done:
  assumes "decode_trace_information lib data len = Done v"
  obtains p l m a q where "length p = 7"
    "data = p @ l # trace_triggering_events v @ m # trace_interfaces v @ a # q"
    "unat l = length (trace_triggering_events v)" "unat m = length (trace_interfaces v)"
    "a \<noteq> 0" "trace_depth v = 0"
  using assms unfolding decode_trace_information_def get_u32_def Let_def
  apply (elim Reject_neq_DoneE get_u8_DoneE get_be_DoneE get_vec_DoneE)
  subgoal for m0 d0 m1 d1 m2 d2 tid p d3 l d4 te d5 m d6 ifs d7 a d8
    using that [of "m0 # m1 # m2 # p" l m a d8]
    by (auto simp: get_defs split: if_splits)
  done

lemma trace_information_lost:
  "decode_trace_information lib (encode_trace_information lib v @ rest)
     (length (encode_trace_information lib v)) \<noteq> Done v"
proof
  assume "decode_trace_information lib (encode_trace_information lib v @ rest)
     (length (encode_trace_information lib v)) = Done v"
  then obtain p l m a q where *: "length p = 7"
    "encode_trace_information lib v @ rest =
       p @ l # trace_triggering_events v @ m # trace_interfaces v @ a # q"
    "unat m = length (trace_interfaces v)" "a \<noteq> 0" "trace_depth v = 0"
    by (rule decode_trace_information_Done)
  obtain p' q' where "length p' = 7" "encode_trace_information lib v @ rest =
      p' @ of_nat (length (trace_triggering_events v)) # trace_triggering_events v @
      trace_depth v # of_nat (length (trace_interfaces v)) # q'"
    by (rule that [of "put_u8 (fst (trace_mccmnc v)) @ put_u8 (fst (snd (trace_mccmnc v)))
      @ put_u8 (snd (snd (trace_mccmnc v))) @ put_u32 (trace_id v)"])
       (simp_all add: encode_trace_information_def put_vec8_def put_u8_def)
  with * show False
    by (auto simp: append_eq_append_conv)
qed

text \<open>The identity of a pool is read back only if it is empty.\<close>

lemma ue_ip_address_pool_identity_Done:
  "decode_ue_ip_address_pool_identity data len = Done v \<Longrightarrow> v = []"
  by (auto simp: codec_defs get_defs split: if_splits)

lemma ue_ip_address_pool_identity_rt:
  "encode_ue_ip_address_pool_identity lib [] = Done bs \<Longrightarrow>
     decode_ue_ip_address_pool_identity (bs @ rest) (length bs) = Done []"
  by (auto simp: codec_defs split: if_splits)

lemma ue_ip_address_pool_identity_faults:
  assumes "encode_ue_ip_address_pool_identity lib v = Done bs" "v \<noteq> []" "length v < 2 ^ 16"
  shows "decode_ue_ip_address_pool_identity (bs @ rest) (length bs) = Fault"
proof -
  from assms have "(of_nat (length v) :: u16) \<noteq> 0"
    by (simp add: word_unat_eq_iff unat_of_nat)
  with assms show ?thesis by (auto simp: codec_defs unat_of_nat split: if_splits)
qed

interpretation mac_addresses_vec: ie_codec decode_mac_addresses_vec encode_mac_addresses_vec "\<lambda>v. v = []"
  by unfold_locales (simp add: codec_defs)

lemma ip_version_rt: "encode_ip_version v = Some bs \<Longrightarrow> decode_ip_version (bs @ rest) n = Done v"
  by (auto simp: codec_defs split: if_splits)

end
