(* ===== verification/Upf_Request.thy ===== *)
theory Upf_Request
  imports Upf_Report Pfcp_IE_Rest
begin

text \<open>
  The groups of the session requests and responses that the session procedures read and write, from \<^verbatim>\<open>src/upf/pfcp.h\<close>,
  with the members these procedures use; \<open>fields\<close> of a group has a bit for each element that is present. Then the state of
  the procedures of \<^verbatim>\<open>src/upf/upf_pfcp_api.c\<close> and the allocation of TEIDs, NAT port blocks and outer headers.
\<close>

section \<open>Rules in requests\<close>

abbreviation (input) "PDI_F_TEID \<equiv> 1 :: nat"
abbreviation (input) "PDI_NETWORK_INSTANCE \<equiv> 2 :: nat"
abbreviation (input) "PDI_UE_IP_ADDRESS \<equiv> 3 :: nat"
abbreviation (input) "PDI_SDF_FILTER \<equiv> 4 :: nat"
abbreviation (input) "PDI_APPLICATION_ID \<equiv> 5 :: nat"

record pfcp_pdi_t =
  pi_fields :: u32
  pi_source_interface :: u8
  pi_f_teid :: pfcp_f_teid
  pi_network_instance :: bytes
  pi_ue_ip_address :: pfcp_ue_ip_address
  pi_sdf_filter :: "pfcp_sdf_filter list"
  pi_application_id :: bytes

abbreviation (input) "CREATE_PDR_OUTER_HEADER_REMOVAL \<equiv> 3 :: nat"
abbreviation (input) "CREATE_PDR_FAR_ID \<equiv> 4 :: nat"
abbreviation (input) "CREATE_PDR_URR_ID \<equiv> 5 :: nat"
abbreviation (input) "CREATE_PDR_QER_ID \<equiv> 6 :: nat"

record pfcp_create_pdr_t =
  cp_fields :: u32
  cp_pdr_id :: u16
  cp_precedence :: u32
  cp_pdi :: pfcp_pdi_t
  cp_outer_header_removal :: u8
  cp_far_id :: u32
  cp_urr_id :: "u32 list"
  cp_qer_id :: "u32 list"

abbreviation (input) "CREATED_PDR_PDR_ID \<equiv> 0 :: nat"
abbreviation (input) "CREATED_PDR_F_TEID \<equiv> 1 :: nat"

record pfcp_created_pdr_t =
  cd_fields :: u32
  cd_pdr_id :: u16
  cd_f_teid :: pfcp_f_teid

abbreviation (input) "UPDATE_PDR_OUTER_HEADER_REMOVAL \<equiv> 1 :: nat"
abbreviation (input) "UPDATE_PDR_FAR_ID \<equiv> 4 :: nat"
abbreviation (input) "UPDATE_PDR_URR_ID \<equiv> 5 :: nat"
abbreviation (input) "UPDATE_PDR_QER_ID \<equiv> 6 :: nat"

record pfcp_update_pdr_t =
  up_fields :: u32
  up_pdr_id :: u16
  up_outer_header_removal :: u8
  up_precedence :: u32
  up_pdi :: pfcp_pdi_t
  up_far_id :: u32
  up_urr_id :: "u32 list"
  up_qer_id :: "u32 list"

abbreviation (input) "FORWARDING_PARAMETERS_NETWORK_INSTANCE \<equiv> 1 :: nat"
abbreviation (input) "FORWARDING_PARAMETERS_REDIRECT_INFORMATION \<equiv> 2 :: nat"
abbreviation (input) "FORWARDING_PARAMETERS_OUTER_HEADER_CREATION \<equiv> 3 :: nat"
abbreviation (input) "FORWARDING_PARAMETERS_BBF_APPLY_ACTION \<equiv> 10 :: nat"
abbreviation (input) "FORWARDING_PARAMETERS_BBF_NAT_PORT_BLOCK \<equiv> 11 :: nat"

record pfcp_forwarding_parameters_t =
  fp_fields :: u32
  fp_destination_interface :: u8
  fp_network_instance :: bytes
  fp_redirect_information :: pfcp_redirect_information
  fp_outer_header_creation :: pfcp_outer_header_creation
  fp_bbf_apply_action :: u8
  fp_nat_port_block :: bytes

abbreviation (input) "UPDATE_FORWARDING_PARAMETERS_NETWORK_INSTANCE \<equiv> 1 :: nat"
abbreviation (input) "UPDATE_FORWARDING_PARAMETERS_REDIRECT_INFORMATION \<equiv> 2 :: nat"
abbreviation (input) "UPDATE_FORWARDING_PARAMETERS_OUTER_HEADER_CREATION \<equiv> 3 :: nat"
abbreviation (input) "UPDATE_FORWARDING_PARAMETERS_PFCPSMREQ_FLAGS \<equiv> 7 :: nat"
abbreviation (input) "PFCPSMREQ_SNDEM \<equiv> BIT 1 :: u8"
abbreviation (input) "PFCPSMREQ_QAURR \<equiv> BIT 2 :: u8"

record pfcp_update_forwarding_parameters_t =
  uf_fields :: u32
  uf_destination_interface :: u8
  uf_network_instance :: bytes
  uf_redirect_information :: pfcp_redirect_information
  uf_outer_header_creation :: pfcp_outer_header_creation
  uf_pfcpsmreq_flags :: u8

abbreviation (input) "CREATE_FAR_FORWARDING_PARAMETERS \<equiv> 2 :: nat"

record pfcp_create_far_t =
  cf_fields :: u32
  cf_far_id :: u32
  cf_apply_action :: u8
  cf_forwarding_parameters :: pfcp_forwarding_parameters_t

abbreviation (input) "UPDATE_FAR_APPLY_ACTION \<equiv> 1 :: nat"
abbreviation (input) "UPDATE_FAR_UPDATE_FORWARDING_PARAMETERS \<equiv> 2 :: nat"

record pfcp_update_far_t =
  uf_grp_fields :: u32
  uf_far_id :: u32
  uf_apply_action :: u8
  uf_update_forwarding_parameters :: pfcp_update_forwarding_parameters_t

abbreviation (input) "URR_REPORTING_TRIGGERS \<equiv> 2 :: nat"
abbreviation (input) "URR_MEASUREMENT_PERIOD \<equiv> 3 :: nat"
abbreviation (input) "URR_VOLUME_THRESHOLD \<equiv> 4 :: nat"
abbreviation (input) "URR_VOLUME_QUOTA \<equiv> 5 :: nat"
abbreviation (input) "URR_TIME_THRESHOLD \<equiv> 6 :: nat"
abbreviation (input) "URR_TIME_QUOTA \<equiv> 7 :: nat"
abbreviation (input) "URR_QUOTA_VALIDITY_TIME \<equiv> 10 :: nat"
abbreviation (input) "URR_MONITORING_TIME \<equiv> 11 :: nat"
abbreviation (input) "URR_LINKED_URR_ID \<equiv> 15 :: nat"

text \<open>The groups to create and to update a usage reporting rule have the same members and numbers.\<close>

record pfcp_create_urr_t =
  cu_fields :: u32
  cu_urr_id :: u32
  cu_measurement_method :: u8
  cu_reporting_triggers :: u32
  cu_measurement_period :: u32
  cu_volume_threshold :: pfcp_volume_ie
  cu_volume_quota :: pfcp_volume_ie
  cu_time_threshold :: u32
  cu_time_quota :: u32
  cu_quota_validity_time :: u32
  cu_monitoring_time :: u32
  cu_linked_urr_id :: "u32 list"

type_synonym pfcp_update_urr_t = pfcp_create_urr_t

abbreviation (input) "QER_QER_CORRELATION_ID \<equiv> 1 :: nat"
abbreviation (input) "QER_GATE_STATUS \<equiv> 2 :: nat"
abbreviation (input) "QER_MBR \<equiv> 3 :: nat"

record pfcp_create_qer_t =
  cq_fields :: u32
  cq_qer_id :: u32
  cq_qer_correlation_id :: u32
  cq_gate_status :: pfcp_gate_status
  cq_mbr :: pfcp_bit_rate

type_synonym pfcp_update_qer_t = pfcp_create_qer_t

section \<open>Requests and responses\<close>

abbreviation (input) "SESSION_ESTABLISHMENT_REQUEST_USER_PLANE_INACTIVITY_TIMER \<equiv> 10 :: nat"

text \<open>The node id of the request is part of the member \<^verbatim>\<open>request\<close>. The elements to remove and to query are the ids.\<close>

record pfcp_session_establishment_request_t =
  se_fields :: u32
  se_node_id :: pfcp_node_id
  se_f_seid :: pfcp_f_seid
  se_create_pdr :: "pfcp_create_pdr_t list"
  se_create_far :: "pfcp_create_far_t list"
  se_create_urr :: "pfcp_create_urr_t list"
  se_create_qer :: "pfcp_create_qer_t list"
  se_user_plane_inactivity_timer :: u32

abbreviation (input) "SESSION_MODIFICATION_REQUEST_PFCPSMREQ_FLAGS \<equiv> 19 :: nat"
abbreviation (input) "SESSION_MODIFICATION_REQUEST_QUERY_URR \<equiv> 20 :: nat"
abbreviation (input) "SESSION_MODIFICATION_REQUEST_USER_PLANE_INACTIVITY_TIMER \<equiv> 22 :: nat"

record pfcp_session_modification_request_t =
  sm_fields :: u32
  sm_remove_pdr :: "u16 list"
  sm_remove_far :: "u32 list"
  sm_remove_urr :: "u32 list"
  sm_remove_qer :: "u32 list"
  sm_create_pdr :: "pfcp_create_pdr_t list"
  sm_create_far :: "pfcp_create_far_t list"
  sm_create_urr :: "pfcp_create_urr_t list"
  sm_create_qer :: "pfcp_create_qer_t list"
  sm_update_pdr :: "pfcp_update_pdr_t list"
  sm_update_far :: "pfcp_update_far_t list"
  sm_update_urr :: "pfcp_update_urr_t list"
  sm_update_qer :: "pfcp_update_qer_t list"
  sm_pfcpsmreq_flags :: u8
  sm_query_urr :: "u32 list"
  sm_user_plane_inactivity_timer :: u32

record pfcp_tp_created_binding_t =
  cb_fields :: u32
  cb_block :: bytes
  cb_outside_addr :: ip4_address
  cb_port_range :: pfcp_bbf_nat_external_port_range

abbreviation (input) "SESSION_PROCEDURE_RESPONSE_NODE_ID \<equiv> 0 :: nat"
abbreviation (input) "SESSION_PROCEDURE_RESPONSE_CAUSE \<equiv> 1 :: nat"
abbreviation (input) "SESSION_PROCEDURE_RESPONSE_TP_ERROR_REPORT \<equiv> 3 :: nat"
abbreviation (input) "SESSION_PROCEDURE_RESPONSE_UP_F_SEID \<equiv> 4 :: nat"
abbreviation (input) "SESSION_PROCEDURE_RESPONSE_CREATED_PDR \<equiv> 5 :: nat"
abbreviation (input) "SESSION_PROCEDURE_RESPONSE_USAGE_REPORT \<equiv> 8 :: nat"
abbreviation (input) "SESSION_PROCEDURE_RESPONSE_FAILED_RULE_ID \<equiv> 10 :: nat"
abbreviation (input) "SESSION_PROCEDURE_RESPONSE_TP_CREATED_BINDING \<equiv> 13 :: nat"

abbreviation (input) "PFCP_CAUSE_SESSION_CONTEXT_NOT_FOUND \<equiv> 65 :: int"
abbreviation (input) "PFCP_CAUSE_NO_ESTABLISHED_PFCP_ASSOCIATION \<equiv> 72 :: int"
abbreviation (input) "PFCP_CAUSE_RULE_CREATION_MODIFICATION_FAILURE \<equiv> 73 :: int"

abbreviation (input) "FAILED_RULE_TYPE_PDR \<equiv> 0 :: u8"
abbreviation (input) "FAILED_RULE_TYPE_FAR \<equiv> 1 :: u8"
abbreviation (input) "FAILED_RULE_TYPE_QER \<equiv> 2 :: u8"
abbreviation (input) "FAILED_RULE_TYPE_URR \<equiv> 3 :: u8"

text \<open>\<open>re_seid\<close> is the SEID in the header of the response. The error message of a response is its format, with the id of the
  rule where there is one.\<close>

record pfcp_session_procedure_response_t =
  re_seid :: u64
  re_fields :: u32
  re_node_id :: pfcp_node_id
  re_cause :: int
  re_tp_error_report :: "string \<times> nat"
  re_up_f_seid :: pfcp_f_seid
  re_created_pdr :: "pfcp_created_pdr_t list"
  re_usage_report :: "pfcp_usage_report_t list"
  re_failed_rule_id :: pfcp_failed_rule_id
  re_created_binding :: pfcp_tp_created_binding_t

section \<open>The state of the procedures\<close>

record upf_upip_res_t =
  upip_ip4 :: ip4_address
  upip_ip6 :: ip6_address
  upip_nwi_index :: nat
  upip_intf :: u8
  upip_teid :: u32
  upip_mask :: u32

record upf_nwi_t =
  nwi_fib_index :: "bool \<Rightarrow> u32"
  nwi_sw_if_index :: nat

record upf_adf_app_t =
  app_flags :: u32
  app_db_index :: u32

text \<open>The addresses of a pool are indices of the counters of used blocks, with the external address.\<close>

record upf_nat_pool_t =
  np_name :: bytes
  np_addresses :: "(nat \<times> ip4_address) list"
  np_port_block_size :: u16
  np_min_port :: u16
  np_max_blocks_per_addr :: u16

text \<open>The members of \<^verbatim>\<open>upf_main\<close> that session requests only read.\<close>

record upf_config_t =
  cfg_nwis :: "nat \<rightharpoonup> upf_nwi_t"
  cfg_nwi_index_by_name :: "bytes \<rightharpoonup> nat"
  cfg_upip_res :: "upf_upip_res_t list"
  cfg_upf_app_by_name :: "bytes \<rightharpoonup> nat"
  cfg_upf_apps :: "nat \<rightharpoonup> upf_adf_app_t"
  cfg_nat_pools :: "bytes \<rightharpoonup> upf_nat_pool_t"
  cfg_node_id :: pfcp_node_id
  cfg_association :: "pfcp_node_id \<rightharpoonup> nat"

text \<open>
  What the handlers of session requests change: the sessions, the seed of the random numbers, the NAT bindings that
  were made, the requests that were sent to the control plane, and the response.
\<close>

record api_t =
  a_main :: upf_main_t
  a_rand_base :: u32
  a_nat_bindings :: "(ip4_address \<times> ip4_address \<times> u16) list"
  a_sent :: "pfcp_session_report_request_t list"
  a_resp :: pfcp_session_procedure_response_t

text \<open>
  What the procedures use of VPP and of its NAT plugin: random numbers with their seed, the text form of IP filters
  (\<^verbatim>\<open>unformat_ipfilter\<close> on top of \<^verbatim>\<open>unformat\<close>: whether it was understood, and the filter as far as it was read), which session an address is routed to after the given calls of the FIB, the
  interface a route leads to, the addresses of interfaces, checksums, and the block of ports of a new NAT binding.
\<close>

record api_lib = session_lib +
  random_u32 :: "u32 \<Rightarrow> u32 \<times> u32"
  unformat_ipfilter :: "bytes \<Rightarrow> bool \<times> acl_rule_t"
  session_dpo :: "fib_call list \<Rightarrow> bool \<Rightarrow> u32 \<Rightarrow> ip46_address \<Rightarrow> nat option"
  fib_get_resolving_interface :: "u32 \<Rightarrow> ip46_address \<Rightarrow> bool \<Rightarrow> nat"
  address_to_if_address :: "bool \<Rightarrow> ip46_address \<Rightarrow> u32 \<Rightarrow> nat option"
  ip_interface_get_first_ip :: "nat \<Rightarrow> bool \<Rightarrow> ip46_address option"
  ip4_header_checksum :: "bytes \<Rightarrow> u16"
  nat_create_binding :: "(ip4_address \<times> ip4_address \<times> u16) list \<Rightarrow> ip4_address list \<Rightarrow> ip4_address \<Rightarrow> ip4_address \<Rightarrow> u16 \<Rightarrow> u16 \<Rightarrow> u16"

section \<open>TEIDs\<close>

definition lookup_nwi :: "upf_config_t \<Rightarrow> bytes \<Rightarrow> nat option" where
  "lookup_nwi cfg name = cfg_nwi_index_by_name cfg name"

definition validate_teid :: "u32 \<Rightarrow> bool" where
  "validate_teid teid \<longleftrightarrow> teid \<noteq> 0 \<and> teid \<noteq> 0xffffffff"

definition teid_v4_lookup_session_index :: "u32 \<Rightarrow> ip4_address \<Rightarrow> upf_main_t \<Rightarrow> nat" where
  "teid_v4_lookup_session_index teid ip4 g =
     (case g_v4_tunnel_by_key g (ip4, teid) of None \<Rightarrow> NO_INDEX | Some (_, si) \<Rightarrow> si)"

definition teid_v6_lookup_session_index :: "u32 \<Rightarrow> ip6_address \<Rightarrow> upf_main_t \<Rightarrow> nat" where
  "teid_v6_lookup_session_index teid ip6 g =
     (case g_v6_tunnel_by_key g (ip6, teid) of None \<Rightarrow> NO_INDEX | Some (_, si) \<Rightarrow> si)"

abbreviation (input) "F_TEID_CH \<equiv> BIT 2 :: u8"
abbreviation (input) "F_TEID_CHID \<equiv> BIT 3 :: u8"

definition teid_is_free :: "u8 \<Rightarrow> upf_upip_res_t \<Rightarrow> upf_main_t \<Rightarrow> u32 \<Rightarrow> bool" where
  "teid_is_free flags res g teid \<longleftrightarrow>
     (flags AND F_TEID_V4 = 0 \<or> teid_v4_lookup_session_index teid (upip_ip4 res) g = NO_INDEX)
     \<and> (flags AND F_TEID_V6 = 0 \<or> teid_v6_lookup_session_index teid (upip_ip6 res) g = NO_INDEX)"

text \<open>The loop ends with a free TEID or when no retries are left, which only invalid TEIDs use up. The result is
  the TEID, or 0, and the seed.\<close>

partial_function (option) teid_loop ::
    "'v api_lib_scheme \<Rightarrow> u8 \<Rightarrow> upf_upip_res_t \<Rightarrow> upf_main_t \<Rightarrow> u8 \<Rightarrow> u32 \<Rightarrow> (u32 \<times> u32) option" where
  "teid_loop lib flags res g retry_cnt seed =
     (let (r, seed) = random_u32 lib seed; teid = r AND NOT (upip_mask res) in
      if \<not> validate_teid teid then
        (if retry_cnt - 1 > 0 then teid_loop lib flags res g (retry_cnt - 1) seed else Some (0, seed))
      else if teid_is_free flags res g teid then Some (teid, teid)
      else if retry_cnt > 0 then teid_loop lib flags res g retry_cnt teid
      else Some (0, teid))"

definition process_teid_generation ::
    "'v api_lib_scheme \<Rightarrow> u8 \<Rightarrow> u8 \<Rightarrow> upf_upip_res_t \<Rightarrow> nat \<Rightarrow> api_t \<Rightarrow> (u32 \<times> api_t) option" where
  "process_teid_generation lib chid flags res si a = do {
     (teid, seed) \<leftarrow> teid_loop lib flags res (a_main a) 10 (a_rand_base a);
     let a = a\<lparr>a_rand_base := seed\<rparr>;
     if teid = 0 then Some (0, a)
     else if flags AND F_TEID_CHID = 0 then Some (teid, a)
     else do {
       g \<leftarrow> update_session si (\<lambda>sx. sx\<lparr>s_teid_by_chid := (s_teid_by_chid sx)(chid \<mapsto> teid)\<rparr>) (a_main a);
       Some (teid, a\<lparr>a_main := g\<rparr>)
     }
   }"

text \<open>The handling of an F-TEID works on the detection rule; it fails if the result is \<open>False\<close>. A new rule is
  created, not updated, if \<open>create\<close>.\<close>

definition chosen_teid ::
    "'v api_lib_scheme \<Rightarrow> nat \<Rightarrow> pfcp_f_teid \<Rightarrow> upf_upip_res_t \<Rightarrow> bool \<Rightarrow> api_t \<Rightarrow> (u32 \<times> api_t) option" where
  "chosen_teid lib si ft res create a = do {
     sx \<leftarrow> g_sessions (a_main a) si;
     let teid = (if ft_flags ft AND F_TEID_CHID = 0 then 0
                 else case s_teid_by_chid sx (ft_choose_id ft) of None \<Rightarrow> 0 | Some teid \<Rightarrow> teid);
     if teid \<noteq> 0 then Some (teid, a)
     else if \<not> create then Some (0, a)
     else process_teid_generation lib (ft_choose_id ft) (ft_flags ft) res si a
   }"

definition set_chosen_teid :: "u8 \<Rightarrow> u32 \<Rightarrow> upf_upip_res_t \<Rightarrow> pfcp_f_teid \<Rightarrow> pfcp_f_teid" where
  "set_chosen_teid flags teid res t =
     (let t = t\<lparr>ft_teid := teid\<rparr>;
          t = (if upip_ip4 res \<noteq> 0 \<and> flags AND F_TEID_V4 \<noteq> 0
               then t\<lparr>ft_ip4 := upip_ip4 res, ft_flags := ft_flags t OR F_TEID_V4\<rparr> else t) in
      if upip_ip6 res \<noteq> 0 \<and> flags AND F_TEID_V6 \<noteq> 0
      then t\<lparr>ft_flags := ft_flags t OR F_TEID_V6, ft_ip6 := upip_ip6 res\<rparr> else t)"

definition add_created_pdr :: "upf_pdr_t \<Rightarrow> api_t \<Rightarrow> api_t" where
  "add_created_pdr pdr a =
     (let resp = a_resp a in
      a\<lparr>a_resp := resp\<lparr>re_created_pdr := re_created_pdr resp @
          [\<lparr>cd_fields = SET_BIT (SET_BIT 0 CREATED_PDR_PDR_ID) CREATED_PDR_F_TEID, cd_pdr_id = ucast (pdr_id pdr),
            cd_f_teid = pdi_teid (pdr_pdi pdr)\<rparr>]\<rparr>\<rparr>)"

definition handle_f_teid ::
    "'v api_lib_scheme \<Rightarrow> nat \<Rightarrow> pfcp_pdi_t \<Rightarrow> upf_upip_res_t option \<Rightarrow> bool \<Rightarrow> upf_pdr_t \<times> api_t
       \<Rightarrow> (bool \<times> upf_pdr_t \<times> api_t) option" where
  "handle_f_teid lib si pdi res create = (\<lambda>(pdr, a).
     let ft = pi_f_teid pdi; p = pdr_pdi pdr; p = p\<lparr>pdi_fields := pdi_fields p OR F_PDI_LOCAL_F_TEID\<rparr>;
         pdr = pdr\<lparr>pdr_pdi := p\<rparr> in
     if ft_flags ft AND F_TEID_CH \<noteq> 0 then
       (case res of
          None \<Rightarrow> Some (False, pdr, a)
        | Some res \<Rightarrow> do {
            (teid, a) \<leftarrow> chosen_teid lib si ft res create a;
            if teid = 0 then Some (False, pdr, a)
            else do {
              let pdr = pdr\<lparr>pdr_pdi := p\<lparr>pdi_teid := set_chosen_teid (ft_flags ft) teid res (pdi_teid p)\<rparr>\<rparr>;
              Some (True, pdr, if create then add_created_pdr pdr a else a)
            }
          })
     else
       let sidx = (if ft_flags ft AND F_TEID_V4 \<noteq> 0 then teid_v4_lookup_session_index (ft_teid ft) (ft_ip4 ft) (a_main a)
                   else if ft_flags ft AND F_TEID_V6 \<noteq> 0 then teid_v6_lookup_session_index (ft_teid ft) (ft_ip6 ft) (a_main a)
                   else NO_INDEX) in
       if sidx \<noteq> NO_INDEX \<and> sidx \<noteq> si then Some (False, pdr, a)
       else Some (True, pdr\<lparr>pdr_pdi := p\<lparr>pdi_teid := ft\<rparr>\<rparr>, a))"

section \<open>Conflicts of addresses\<close>

definition purge_conflicting_session :: "'v api_lib_scheme \<Rightarrow> nat \<Rightarrow> nat \<Rightarrow> api_t \<Rightarrow> api_t option" where
  "purge_conflicting_session lib old new a = do {
     sx_old \<leftarrow> g_sessions (a_main a) old;
     sx_new \<leftarrow> g_sessions (a_main a) new;
     if s_assoc_node sx_old \<noteq> s_assoc_node sx_new then Some a
     else do {
       (req, g) \<leftarrow> upf_pfcp_session_up_deletion_report lib old (a_main a);
       g \<leftarrow> pfcp_disable_session lib old g;
       g \<leftarrow> pfcp_free_session old g;
       Some (a\<lparr>a_main := g, a_sent := a_sent a @ [req]\<rparr>)
     }
   }"

text \<open>The result is whether there was no conflict.\<close>

definition resolve_ue_ip_conflicts ::
    "'v api_lib_scheme \<Rightarrow> nat \<Rightarrow> upf_nwi_t \<Rightarrow> pfcp_ue_ip_address \<Rightarrow> api_t \<Rightarrow> (bool \<times> api_t) option" where
  "resolve_ue_ip_conflicts lib si nwi ue a = do {
     (ok4, a) \<leftarrow> (if ue_flags ue AND IE_UE_IP_ADDRESS_V4 = 0 then Some (True, a)
                  else case session_dpo lib (g_fib (a_main a)) True (nwi_fib_index nwi True) (ucast (ue_ip4 ue)) of
                    None \<Rightarrow> Some (True, a)
                  | Some old \<Rightarrow> if old = si then Some (True, a)
                               else do { a \<leftarrow> purge_conflicting_session lib old si a; Some (False, a) });
     (ok6, a) \<leftarrow> (if ue_flags ue AND IE_UE_IP_ADDRESS_V6 = 0 then Some (True, a)
                  else case session_dpo lib (g_fib (a_main a)) False (nwi_fib_index nwi False) (ue_ip6 ue) of
                    None \<Rightarrow> Some (True, a)
                  | Some old \<Rightarrow> if old = si then Some (True, a)
                               else do { a \<leftarrow> purge_conflicting_session lib old si a; Some (False, a) });
     Some (ok4 \<and> ok6, a)
   }"

end
