(* ===== verification/Upf_Procedures.thy ===== *)
theory Upf_Procedures
  imports Upf_Request
begin

text \<open>
  The session procedures of \<^verbatim>\<open>src/upf/upf_pfcp_api.c\<close>: creating, updating and removing the rules of a session, and the handlers
  of session establishment, modification and deletion requests. The handler of a request returns the number the
  function in C returns, and the state with the response that is sent.

  A rule that is created is added to the pending set of rules also when it is refused half-way, as far as it was
  filled in.
\<close>

section \<open>Steps that may fail\<close>

text \<open>A part of a procedure that ends with \<^verbatim>\<open>goto out_error\<close> returns \<open>False\<close>, and what follows is skipped.\<close>

fun steps :: "('s \<Rightarrow> (bool \<times> 's) option) list \<Rightarrow> 's \<Rightarrow> (bool \<times> 's) option" where
  "steps [] s = Some (True, s)"
| "steps (f # fs) s = do { (ok, s) \<leftarrow> f s; if ok then steps fs s else Some (False, s) }"

fun foreach_ok :: "('a \<Rightarrow> 's \<Rightarrow> (bool \<times> 's) option) \<Rightarrow> 'a list \<Rightarrow> 's \<Rightarrow> (bool \<times> 's) option" where
  "foreach_ok f [] s = Some (True, s)"
| "foreach_ok f (x # xs) s = do { (ok, s) \<leftarrow> f x s; if ok then foreach_ok f xs s else Some (False, s) }"

text \<open>The errors of a rule, with its id, and the common end of the procedures that fail.\<close>

definition rule_error :: "string \<Rightarrow> u32 \<Rightarrow> api_t \<Rightarrow> api_t" where
  "rule_error fmt i a =
     (let resp = a_resp a in
      a\<lparr>a_resp := resp\<lparr>re_fields := SET_BIT (re_fields resp) SESSION_PROCEDURE_RESPONSE_TP_ERROR_REPORT,
          re_tp_error_report := (fmt, unat i), re_failed_rule_id := (re_failed_rule_id resp)\<lparr>fr_id := i\<rparr>\<rparr>\<rparr>)"

definition out_error :: "u8 \<Rightarrow> api_t \<Rightarrow> api_t" where
  "out_error type a =
     (let resp = a_resp a in
      a\<lparr>a_resp := resp\<lparr>re_cause := PFCP_CAUSE_RULE_CREATION_MODIFICATION_FAILURE,
          re_fields := SET_BIT (re_fields resp) SESSION_PROCEDURE_RESPONSE_FAILED_RULE_ID,
          re_failed_rule_id := (re_failed_rule_id resp)\<lparr>fr_type := type\<rparr>\<rparr>\<rparr>)"

definition update_pending :: "nat \<Rightarrow> (rules_t \<Rightarrow> rules_t) \<Rightarrow> api_t \<Rightarrow> api_t option" where
  "update_pending si f a = do {
     g \<leftarrow> update_session si (\<lambda>sx. put_rules PFCP_PENDING (f (pfcp_get_rules sx PFCP_PENDING)) sx) (a_main a);
     Some (a\<lparr>a_main := g\<rparr>)
   }"

definition on_session :: "nat \<Rightarrow> (upf_session_t \<Rightarrow> upf_session_t) \<Rightarrow> api_t \<Rightarrow> api_t option" where
  "on_session si f a = do { g \<leftarrow> update_session si f (a_main a); Some (a\<lparr>a_main := g\<rparr>) }"

definition finish_rules :: "u8 \<Rightarrow> bool \<times> api_t \<Rightarrow> int \<times> api_t" where
  "finish_rules type = (\<lambda>(ok, a). if ok then (0, a) else (-1, out_error type a))"

text \<open>\<^verbatim>\<open>vec_alloc\<close> makes room in a vector, which is not \<^verbatim>\<open>NULL\<close> afterwards.\<close>

definition vec_alloc :: "'a list option \<Rightarrow> 'a list option" where
  "vec_alloc v = Some (elts v)"

definition OPT :: "u32 \<Rightarrow> nat \<Rightarrow> 'a \<Rightarrow> 'a \<Rightarrow> 'a" where
  "OPT w f x y = (if ISSET_BIT w f then x else y)"

section \<open>Packet detection rules\<close>

definition wildcard_acl :: acl_rule_t where
  "wildcard_acl = \<lparr>rule_type = IPFILTER_WILDCARD, rule_action = ACL_PERMIT, rule_direction = ACL_OUT, rule_proto = -1,
     rule_address = (ACL_ADDR_ANY, ACL_ADDR_ASSIGNED),
     rule_port = (\<lparr>port_min = 0, port_max = -1\<rparr>, \<lparr>port_min = 0, port_max = -1\<rparr>)\<rparr>"

definition zero_pdr :: upf_pdr_t where
  "zero_pdr = \<lparr>pdr_id = 0, pdr_precedence = 0,
     pdr_pdi = \<lparr>pdi_src_intf = 0, pdi_nwi_index = 0, pdi_fields = 0,
       pdi_teid = \<lparr>ft_flags = 0, ft_teid = 0, ft_ip4 = 0, ft_ip6 = 0, ft_choose_id = 0\<rparr>,
       pdi_ue_addr = \<lparr>ue_flags = 0, ue_ip4 = 0, ue_ip6 = 0, ue_prefix_delegation_length = 0, ue_prefix_length = 0\<rparr>,
       pdi_acl = [], pdi_adr = \<lparr>adr_application_id = 0, adr_db_id = 0, adr_flags = 0\<rparr>\<rparr>,
     pdr_outer_header_removal = 0, pdr_far_id = 0, pdr_urr_ids = [], pdr_qer_ids = []\<rparr>"

definition new_pdr :: "pfcp_create_pdr_t \<Rightarrow> upf_pdr_t" where
  "new_pdr pdr = zero_pdr\<lparr>pdr_id := ucast (cp_pdr_id pdr), pdr_precedence := ucast (cp_precedence pdr),
     pdr_pdi := (pdr_pdi zero_pdr)\<lparr>pdi_nwi_index := NO_INDEX,
       pdi_adr := \<lparr>adr_application_id = -1, adr_db_id = -1, adr_flags = 0\<rparr>\<rparr>\<rparr>"

text \<open>The resource of the network instance of a rule.\<close>

definition upip_res_of :: "upf_config_t \<Rightarrow> nat \<Rightarrow> upf_upip_res_t option" where
  "upip_res_of cfg nwi_index = find (\<lambda>res. upip_nwi_index res = nwi_index) (cfg_upip_res cfg)"

definition map_pdi :: "(upf_pdi_t \<Rightarrow> upf_pdi_t) \<Rightarrow> upf_pdr_t \<Rightarrow> upf_pdr_t" where
  "map_pdi f pdr = pdr\<lparr>pdr_pdi := f (pdr_pdi pdr)\<rparr>"

text \<open>Whether the filters of the rule are replaced or added to.\<close>

definition set_wildcard :: "bool \<Rightarrow> upf_pdi_t \<Rightarrow> upf_pdi_t" where
  "set_wildcard reset p = p\<lparr>pdi_fields := pdi_fields p OR F_PDI_SDF_FILTER,
     pdi_acl := (if reset then [] else pdi_acl p) @ [wildcard_acl]\<rparr>"

definition pdr_network_instance ::
    "upf_config_t \<Rightarrow> u16 \<Rightarrow> pfcp_pdi_t \<Rightarrow> bool \<Rightarrow> upf_pdr_t \<times> api_t \<Rightarrow> (bool \<times> upf_pdr_t \<times> api_t) option" where
  "pdr_network_instance cfg i pdi update = (\<lambda>(pdr, a).
     if \<not> ISSET_BIT (pi_fields pdi) PDI_NETWORK_INSTANCE then Some (True, pdr, a)
     else if update \<and> pi_network_instance pdi = [] then Some (True, map_pdi (\<lambda>p. p\<lparr>pdi_nwi_index := NO_INDEX\<rparr>) pdr, a)
     else case lookup_nwi cfg (pi_network_instance pdi) of
       None \<Rightarrow> Some (False, pdr, rule_error ''PDR ID %u, unknown Network Instance'' (ucast i) a)
     | Some n \<Rightarrow> Some (True, map_pdi (\<lambda>p. p\<lparr>pdi_nwi_index := n\<rparr>) pdr, a))"

definition pdr_f_teid ::
    "'v api_lib_scheme \<Rightarrow> upf_config_t \<Rightarrow> nat \<Rightarrow> u16 \<Rightarrow> pfcp_pdi_t \<Rightarrow> bool \<Rightarrow> upf_pdr_t \<times> api_t
       \<Rightarrow> (bool \<times> upf_pdr_t \<times> api_t) option" where
  "pdr_f_teid lib cfg si i pdi create = (\<lambda>(pdr, a).
     if \<not> ISSET_BIT (pi_fields pdi) PDI_F_TEID then Some (True, pdr, a)
     else do {
       (ok, pdr, a) \<leftarrow> handle_f_teid lib si pdi (upip_res_of cfg (pdi_nwi_index (pdr_pdi pdr))) create (pdr, a);
       Some (ok, pdr, if ok then a else rule_error ''PDR ID %u, can't handle F-TEID'' (ucast i) a)
     })"

definition pdr_ue_ip ::
    "nat \<Rightarrow> pfcp_pdi_t \<Rightarrow> bool \<Rightarrow> upf_pdr_t \<times> api_t \<Rightarrow> (bool \<times> upf_pdr_t \<times> api_t) option" where
  "pdr_ue_ip si pdi create = (\<lambda>(pdr, a).
     if \<not> ISSET_BIT (pi_fields pdi) PDI_UE_IP_ADDRESS then Some (True, pdr, a)
     else do {
       let ue = pi_ue_ip_address pdi;
       let pdr = map_pdi (\<lambda>p. p\<lparr>pdi_fields := pdi_fields p OR F_PDI_UE_IP_ADDR, pdi_ue_addr := ue\<rparr>) pdr;
       a \<leftarrow> (if create \<and> ue_flags ue AND IE_UE_IP_ADDRESS_V4 \<noteq> 0
             then on_session si (\<lambda>sx. sx\<lparr>s_user_addr := ue_ip4 ue\<rparr>) a else Some a);
       Some (True, if \<not> ISSET_BIT (pi_fields pdi) PDI_SDF_FILTER \<and> \<not> ISSET_BIT (pi_fields pdi) PDI_APPLICATION_ID
                   then map_pdi (set_wildcard (\<not> create)) pdr else pdr, a)
     })"

text \<open>The texts of the filters are parsed one after the other.\<close>

fun parse_filters :: "'v api_lib_scheme \<Rightarrow> pfcp_sdf_filter list \<Rightarrow> bool \<times> acl_rule_t list" where
  "parse_filters lib [] = (True, [])"
| "parse_filters lib (sdf # sdfs) =
     (case unformat_ipfilter lib (sdf_flow sdf) of
        (False, acl) \<Rightarrow> (False, [acl])
      | (True, acl) \<Rightarrow> let (ok, acls) = parse_filters lib sdfs in (ok, acl # acls))"

definition pdr_sdf_filter ::
    "'v api_lib_scheme \<Rightarrow> u16 \<Rightarrow> pfcp_pdi_t \<Rightarrow> bool \<Rightarrow> upf_pdr_t \<times> api_t \<Rightarrow> (bool \<times> upf_pdr_t \<times> api_t) option" where
  "pdr_sdf_filter lib i pdi create = (\<lambda>(pdr, a).
     if \<not> ISSET_BIT (pi_fields pdi) PDI_SDF_FILTER then Some (True, pdr, a)
     else
       let (ok, acls) = parse_filters lib (pi_sdf_filter pdi);
           pdr = map_pdi (\<lambda>p. p\<lparr>pdi_fields := pdi_fields p OR F_PDI_SDF_FILTER,
                                  pdi_acl := (if create then pdi_acl p else []) @ acls\<rparr>) pdr in
       Some (ok, pdr, if ok then a else rule_error ''PDR ID %u, failed to parse SDF'' (ucast i) a))"

definition upf_adf_get_adr_db :: "upf_config_t \<Rightarrow> nat \<Rightarrow> upf_main_t \<Rightarrow> (u32 \<times> upf_main_t) option" where
  "upf_adf_get_adr_db cfg application_id g =
     (if application_id = NO_INDEX then Some (-1, g)
      else do {
        app \<leftarrow> cfg_upf_apps cfg application_id;
        let db = app_db_index app;
        case g_adf_ref_cnt g db of
          Some n \<Rightarrow> Some (db, if db \<noteq> -1 then g\<lparr>g_adf_ref_cnt := (g_adf_ref_cnt g)(db \<mapsto> n + 1)\<rparr> else g)
        | None \<Rightarrow> Some (db, g)
      })"

definition pdr_application ::
    "upf_config_t \<Rightarrow> u16 \<Rightarrow> pfcp_pdi_t \<Rightarrow> bool \<Rightarrow> upf_pdr_t \<times> api_t \<Rightarrow> (bool \<times> upf_pdr_t \<times> api_t) option" where
  "pdr_application cfg i pdi create = (\<lambda>(pdr, a).
     if \<not> ISSET_BIT (pi_fields pdi) PDI_APPLICATION_ID then Some (True, pdr, a)
     else
       let pdr = map_pdi (\<lambda>p. p\<lparr>pdi_fields := pdi_fields p OR F_PDI_APPLICATION_ID\<rparr>) pdr in
       case cfg_upf_app_by_name cfg (pi_application_id pdi) of
         None \<Rightarrow> Some (False, pdr, rule_error ''PDR ID %u, unknown Application ID'' (ucast i) a)
       | Some n \<Rightarrow> do {
           app \<leftarrow> cfg_upf_apps cfg n;
           (db, g) \<leftarrow> upf_adf_get_adr_db cfg n (a_main a);
           let pdr = map_pdi (\<lambda>p. p\<lparr>pdi_adr := \<lparr>adr_application_id = of_nat n, adr_db_id = db, adr_flags = app_flags app\<rparr>\<rparr>) pdr;
           let pdr = (if ISSET_BIT (pi_fields pdi) PDI_SDF_FILTER then pdr
                      else if app_flags app AND UPF_ADR_IP_RULES \<noteq> 0 then map_pdi (set_wildcard (\<not> create)) pdr
                      else if create then pdr else map_pdi (\<lambda>p. p\<lparr>pdi_acl := []\<rparr>) pdr);
           Some (True, pdr, a\<lparr>a_main := g\<rparr>)
         })"

definition pdr_conflicts ::
    "'v api_lib_scheme \<Rightarrow> upf_config_t \<Rightarrow> nat \<Rightarrow> u16 \<Rightarrow> pfcp_pdi_t \<Rightarrow> upf_pdr_t \<times> api_t \<Rightarrow> (bool \<times> upf_pdr_t \<times> api_t) option" where
  "pdr_conflicts lib cfg si i pdi = (\<lambda>(pdr, a).
     if pdi_fields (pdr_pdi pdr) AND F_PDI_UE_IP_ADDR = 0 then Some (True, pdr, a)
     else if \<not> ISSET_BIT (pi_fields pdi) PDI_NETWORK_INSTANCE \<or> pdi_nwi_index (pdr_pdi pdr) = NO_INDEX then Some (True, pdr, a)
     else do {
       nwi \<leftarrow> cfg_nwis cfg (pdi_nwi_index (pdr_pdi pdr));
       (ok, a) \<leftarrow> resolve_ue_ip_conflicts lib si nwi (pdi_ue_addr (pdr_pdi pdr)) a;
       Some (ok, pdr, if ok then a else rule_error ''PDR ID %u, duplicate UE IP'' (ucast i) a)
     })"

definition create_pdr_rest :: "pfcp_create_pdr_t \<Rightarrow> upf_pdr_t \<times> api_t \<Rightarrow> (bool \<times> upf_pdr_t \<times> api_t) option" where
  "create_pdr_rest pdr = (\<lambda>(create, a).
     Some (True, create\<lparr>
       pdr_outer_header_removal := OPT (cp_fields pdr) CREATE_PDR_OUTER_HEADER_REMOVAL (cp_outer_header_removal pdr) (-1),
       pdr_far_id := OPT (cp_fields pdr) CREATE_PDR_FAR_ID (ucast (cp_far_id pdr)) (-1),
       pdr_urr_ids := (if ISSET_BIT (cp_fields pdr) CREATE_PDR_URR_ID then map ucast (cp_urr_id pdr) else []),
       pdr_qer_ids := (if ISSET_BIT (cp_fields pdr) CREATE_PDR_QER_ID then cp_qer_id pdr else [])\<rparr>, a))"

definition create_one_pdr ::
    "'v api_lib_scheme \<Rightarrow> upf_config_t \<Rightarrow> nat \<Rightarrow> pfcp_create_pdr_t \<Rightarrow> api_t \<Rightarrow> (bool \<times> api_t) option" where
  "create_one_pdr lib cfg si pdr a = do {
     let i = cp_pdr_id pdr; let pdi = cp_pdi pdr;
     (ok, create, a) \<leftarrow> steps
       [pdr_network_instance cfg i pdi False,
        (\<lambda>(create, a). Some (True, map_pdi (\<lambda>p. p\<lparr>pdi_src_intf := pi_source_interface pdi\<rparr>) create, a)),
        pdr_f_teid lib cfg si i pdi True,
        pdr_ue_ip si pdi True,
        pdr_sdf_filter lib i pdi True,
        pdr_application cfg i pdi True,
        create_pdr_rest pdr,
        pdr_conflicts lib cfg si i pdi] (new_pdr pdr, a);
     a \<leftarrow> update_pending si (\<lambda>r. r\<lparr>r_pdr := Some (elts (r_pdr r) @ [create])\<rparr>) a;
     Some (ok, a)
   }"

definition handle_create_pdr ::
    "'v api_lib_scheme \<Rightarrow> upf_config_t \<Rightarrow> nat \<Rightarrow> pfcp_create_pdr_t list \<Rightarrow> api_t \<Rightarrow> (int \<times> api_t) option" where
  "handle_create_pdr lib cfg si create_pdr a = do {
     a \<leftarrow> on_session si pfcp_make_pending_pdr a;
     a \<leftarrow> update_pending si (\<lambda>r. r\<lparr>r_pdr := vec_alloc (r_pdr r)\<rparr>) a;
     (ok, a) \<leftarrow> foreach_ok (create_one_pdr lib cfg si) create_pdr a;
     a \<leftarrow> (if ok then update_pending si (pfcp_sort_pdrs lib) a else Some a);
     Some (finish_rules FAILED_RULE_TYPE_PDR (ok, a))
   }"

text \<open>An update works on the rule in its place.\<close>

definition update_pdr_rest :: "pfcp_update_pdr_t \<Rightarrow> upf_pdr_t \<times> api_t \<Rightarrow> (bool \<times> upf_pdr_t \<times> api_t) option" where
  "update_pdr_rest pdr = (\<lambda>(update, a).
     Some (True, update\<lparr>
       pdr_outer_header_removal := OPT (up_fields pdr) UPDATE_PDR_OUTER_HEADER_REMOVAL (up_outer_header_removal pdr) (-1),
       pdr_far_id := OPT (up_fields pdr) UPDATE_PDR_FAR_ID (ucast (up_far_id pdr)) (-1),
       pdr_urr_ids := (if ISSET_BIT (up_fields pdr) UPDATE_PDR_URR_ID then map ucast (up_urr_id pdr) else pdr_urr_ids update),
       pdr_qer_ids := (if ISSET_BIT (up_fields pdr) UPDATE_PDR_QER_ID then up_qer_id pdr else pdr_qer_ids update)\<rparr>, a))"

definition update_one_pdr ::
    "'v api_lib_scheme \<Rightarrow> upf_config_t \<Rightarrow> nat \<Rightarrow> pfcp_update_pdr_t \<Rightarrow> api_t \<Rightarrow> (bool \<times> api_t) option" where
  "update_one_pdr lib cfg si pdr a = do {
     let i = up_pdr_id pdr; let pdi = up_pdi pdr;
     sx \<leftarrow> g_sessions (a_main a) si;
     let (found, sx) = pfcp_get_pdr PFCP_PENDING (ucast i) sx;
     let a = a\<lparr>a_main := put_session si sx (a_main a)\<rparr>;
     case found of
       None \<Rightarrow> Some (False, rule_error ''PDR ID %u, not found'' (ucast i) a)
     | Some k \<Rightarrow> do {
         (ok, update, a) \<leftarrow> steps
           [pdr_network_instance cfg i pdi True,
            (\<lambda>(update, a). Some (True, map_pdi (\<lambda>p. p\<lparr>pdi_src_intf := pi_source_interface pdi\<rparr>)
                                    (update\<lparr>pdr_precedence := ucast (up_precedence pdr)\<rparr>), a)),
            pdr_f_teid lib cfg si i pdi False,
            pdr_ue_ip si pdi False,
            pdr_sdf_filter lib i pdi False,
            pdr_application cfg i pdi False,
            update_pdr_rest pdr,
            pdr_conflicts lib cfg si i pdi] (elts (r_pdr (pfcp_get_rules sx PFCP_PENDING)) ! k, a);
         a \<leftarrow> update_pending si (\<lambda>r. r\<lparr>r_pdr := map_option (\<lambda>v. v[k := update]) (r_pdr r)\<rparr>) a;
         Some (ok, a)
       }
   }"

definition handle_update_pdr ::
    "'v api_lib_scheme \<Rightarrow> upf_config_t \<Rightarrow> nat \<Rightarrow> pfcp_update_pdr_t list \<Rightarrow> api_t \<Rightarrow> (int \<times> api_t) option" where
  "handle_update_pdr lib cfg si update_pdr a = do {
     a \<leftarrow> on_session si pfcp_make_pending_pdr a;
     res \<leftarrow> foreach_ok (update_one_pdr lib cfg si) update_pdr a;
     Some (finish_rules FAILED_RULE_TYPE_PDR res)
   }"

text \<open>The procedures that remove rules differ in the deletion of a rule.\<close>

definition remove_one ::
    "(nat \<Rightarrow> u32 \<Rightarrow> upf_main_t \<Rightarrow> (int \<times> upf_main_t) option) \<Rightarrow> string \<Rightarrow> nat \<Rightarrow> u32 \<Rightarrow> api_t \<Rightarrow> (bool \<times> api_t) option" where
  "remove_one delete fmt si i a = do {
     (r, g) \<leftarrow> delete si i (a_main a);
     let a = a\<lparr>a_main := g\<rparr>;
     Some (r = 0, if r = 0 then a else rule_error fmt i a)
   }"

definition handle_remove_pdr :: "nat \<Rightarrow> u16 list \<Rightarrow> api_t \<Rightarrow> (int \<times> api_t) option" where
  "handle_remove_pdr si remove_pdr a = do {
     a \<leftarrow> on_session si pfcp_make_pending_pdr a;
     res \<leftarrow> foreach_ok (remove_one pfcp_delete_pdr ''PDR ID %u, unable to remove'' si) (map ucast remove_pdr) a;
     Some (finish_rules FAILED_RULE_TYPE_PDR res)
   }"

section \<open>NAT bindings\<close>

text \<open>The address with the fewest blocks in use, below the limit of the pool.\<close>

fun get_nat_addr_loop ::
    "(nat \<rightharpoonup> u32) \<Rightarrow> u16 \<Rightarrow> (nat \<times> ip4_address) list \<Rightarrow> u32 \<Rightarrow> (nat \<times> ip4_address) option
       \<Rightarrow> (nat \<times> ip4_address) option option" where
  "get_nat_addr_loop used limit [] least addr = Some addr"
| "get_nat_addr_loop used limit (this_addr # addrs) least addr = do {
     n \<leftarrow> used (fst this_addr);
     if n < least \<and> n < ucast limit then get_nat_addr_loop used limit addrs n (Some this_addr)
     else get_nat_addr_loop used limit addrs least addr
   }"

definition get_nat_addr :: "upf_nat_pool_t \<Rightarrow> upf_main_t \<Rightarrow> (nat \<times> ip4_address) option option" where
  "get_nat_addr np g = get_nat_addr_loop (g_nat_used_blocks g) (np_max_blocks_per_addr np) (np_addresses np) (-1) None"

definition upf_alloc_and_assign_nat_binding ::
    "'v api_lib_scheme \<Rightarrow> upf_nat_pool_t \<Rightarrow> nat \<times> ip4_address \<Rightarrow> ip4_address \<Rightarrow> nat \<Rightarrow> api_t \<Rightarrow> (int \<times> api_t) option" where
  "upf_alloc_and_assign_nat_binding lib np addr user_ip si a = do {
     let port_start = nat_create_binding lib (a_nat_bindings a) (g_nat_bindings_deleted (a_main a)) user_ip (snd addr)
                        (np_min_port np) (np_port_block_size np);
     if port_start = 0 then Some (1, a)
     else do {
       n \<leftarrow> g_nat_used_blocks (a_main a) (fst addr);
       g \<leftarrow> update_session si (\<lambda>sx. sx\<lparr>s_nat_addr := Some (fst addr)\<rparr>) (a_main a);
       let g = g\<lparr>g_nat_used_blocks := (g_nat_used_blocks g)(fst addr \<mapsto> n + 1)\<rparr>;
       let binding = \<lparr>cb_fields = SET_BIT (SET_BIT (SET_BIT 0 0) 1) 2, cb_block = np_name np, cb_outside_addr = snd addr,
                      cb_port_range = \<lparr>bbf_start_port = port_start, bbf_end_port = port_start + np_port_block_size np - 1\<rparr>\<rparr>;
       Some (0, a\<lparr>a_main := g, a_nat_bindings := a_nat_bindings a @ [(user_ip, snd addr, port_start)],
                  a_resp := (a_resp a)\<lparr>re_created_binding := binding\<rparr>\<rparr>)
     }
   }"

definition handle_nat_binding_creation ::
    "'v api_lib_scheme \<Rightarrow> upf_config_t \<Rightarrow> nat \<Rightarrow> bytes \<Rightarrow> api_t \<Rightarrow> (int \<times> api_t) option" where
  "handle_nat_binding_creation lib cfg si nat_pool_name a = do {
     sx \<leftarrow> g_sessions (a_main a) si;
     if s_nat_addr sx \<noteq> None then Some (0, a)
     else if s_user_addr sx = 0 then Some (-1, a)
     else case cfg_nat_pools cfg nat_pool_name of
       None \<Rightarrow> Some (-1, a)
     | Some np \<Rightarrow> do {
         ap \<leftarrow> get_nat_addr np (a_main a);
         case ap of
           None \<Rightarrow> Some (-1, a)
         | Some addr \<Rightarrow> do {
             (rc, a) \<leftarrow> upf_alloc_and_assign_nat_binding lib np addr (s_user_addr sx) si a;
             let resp = a_resp a;
             Some (rc, a\<lparr>a_resp := resp\<lparr>re_fields := SET_BIT (re_fields resp) SESSION_PROCEDURE_RESPONSE_TP_CREATED_BINDING\<rparr>\<rparr>)
           }
       }
   }"

section \<open>Forwarding rules\<close>

abbreviation (input) "INTF_INVALID \<equiv> -1 :: u8"

text \<open>The source address of a tunnel: a resource of this side whose address is one of the interface.\<close>

definition upip_usable :: "'v api_lib_scheme \<Rightarrow> upf_far_forward_t \<Rightarrow> u32 \<Rightarrow> bool \<Rightarrow> upf_upip_res_t \<Rightarrow> bool" where
  "upip_usable lib ff fib_index is_ip4 res \<longleftrightarrow>
     (let addr = (if is_ip4 then ucast (upip_ip4 res) else upip_ip6 res) in
      addr \<noteq> 0 \<and> (upip_intf res = INTF_INVALID \<or> fwd_dst_intf ff = upip_intf res)
      \<and> (upip_nwi_index res = NO_INDEX \<or> fwd_nwi_index ff = NO_INDEX \<or> fwd_nwi_index ff = upip_nwi_index res)
      \<and> address_to_if_address lib is_ip4 addr fib_index = Some (fwd_dst_sw_if_index ff))"

definition upip_ip_interface_ip :: "'v api_lib_scheme \<Rightarrow> upf_config_t \<Rightarrow> upf_far_forward_t \<Rightarrow> u32 \<Rightarrow> bool \<Rightarrow> ip46_address option" where
  "upip_ip_interface_ip lib cfg ff fib_index is_ip4 =
     (case find (upip_usable lib ff fib_index is_ip4) (cfg_upip_res cfg) of
        Some res \<Rightarrow> Some (if is_ip4 then ucast (upip_ip4 res) else upip_ip6 res)
      | None \<Rightarrow> ip_interface_get_first_ip lib (fwd_dst_sw_if_index ff) is_ip4)"

text \<open>The headers in front of a packet of the tunnel: IP, UDP and the first eight octets of GTP-U.\<close>

definition gtpu_rewrite_tail :: "u32 \<Rightarrow> bytes" where
  "gtpu_rewrite_tail teid =
     bytes_be 2 (2152 :: u16) @ bytes_be 2 (2152 :: u16) @ [0, 0, 0, 0] @ [0x30, 255, 0, 0] @ bytes_be 4 teid"

definition ip_udp_gtpu_rewrite ::
    "'v api_lib_scheme \<Rightarrow> upf_config_t \<Rightarrow> u32 \<Rightarrow> bool \<Rightarrow> upf_far_forward_t \<Rightarrow> upf_far_forward_t option" where
  "ip_udp_gtpu_rewrite lib cfg fib_index is_ip4 ff = do {
     src \<leftarrow> upip_ip_interface_ip lib cfg ff fib_index is_ip4;
     let ohc = fwd_outer_header_creation ff;
     let ip4 = (\<lambda>checksum. [0x45, 0, 0, 0, 0, 0, 0, 0, 254, 17] @ bytes_be 2 checksum @ bytes_be 4 (ucast src :: ip4_address)
                           @ bytes_be 4 (ucast (ohc_ip ohc) :: ip4_address));
     let ip6 = [0x60, 0, 0, 0, 0, 0, 17, 255] @ bytes_be 16 src @ bytes_be 16 (ohc_ip ohc);
     Some (ff\<lparr>fwd_rewrite := (if is_ip4 then ip4 (ip4_header_checksum lib (ip4 (0 :: u16))) else ip6)
                             @ gtpu_rewrite_tail (ohc_teid ohc)\<rparr>)
   }"

definition cpy_redirect_information :: "pfcp_redirect_information \<Rightarrow> pfcp_redirect_information" where
  "cpy_redirect_information src =
     \<lparr>redir_type = redir_type src, redir_ip = (if redir_type src \<le> 1 then redir_ip src else 0), redir_other_ip = 0,
      redir_uri = (if redir_type src = 2 \<or> redir_type src = 3 then redir_uri src else [])\<rparr>"

definition upf_nwi_fib_index :: "upf_config_t \<Rightarrow> bool \<Rightarrow> nat \<Rightarrow> u32" where
  "upf_nwi_fib_index cfg is_ip4 nwi_index =
     (case cfg_nwis cfg nwi_index of None \<Rightarrow> -1 | Some nwi \<Rightarrow> nwi_fib_index nwi is_ip4)"

definition zero_far :: upf_far_t where
  "zero_far = \<lparr>far_id = 0, far_apply_action = 0,
     far_forward = \<lparr>fwd_flags = 0, fwd_dst_intf = 0, fwd_dst_sw_if_index = 0, fwd_nwi_index = 0, fwd_redirect_information = None,
       fwd_outer_header_creation = \<lparr>ohc_description = 0, ohc_teid = 0, ohc_ip = 0, ohc_port = 0, ohc_c_tag = 0, ohc_s_tag = 0\<rparr>,
       fwd_peer_idx = 0, fwd_rewrite = []\<rparr>\<rparr>"

definition map_fwd :: "(upf_far_forward_t \<Rightarrow> upf_far_forward_t) \<Rightarrow> upf_far_t \<Rightarrow> upf_far_t" where
  "map_fwd f far = far\<lparr>far_forward := f (far_forward far)\<rparr>"

text \<open>The network instance of a rule; in an update an empty name removes it.\<close>

definition far_network_instance ::
    "upf_config_t \<Rightarrow> u32 \<Rightarrow> bool \<Rightarrow> bytes \<Rightarrow> bool \<Rightarrow> upf_far_t \<times> api_t \<Rightarrow> (bool \<times> upf_far_t \<times> api_t) option" where
  "far_network_instance cfg i present name update = (\<lambda>(far, a).
     if \<not> present then Some (True, far, a)
     else if update \<and> name = [] then Some (True, map_fwd (\<lambda>f. f\<lparr>fwd_nwi_index := NO_INDEX\<rparr>) far, a)
     else case lookup_nwi cfg name of
       None \<Rightarrow> Some (False, far, rule_error ''FAR ID %u, unknown Network Instance'' i a)
     | Some n \<Rightarrow> Some (True, map_fwd (\<lambda>f. f\<lparr>fwd_nwi_index := n\<rparr>) far, a))"

definition far_redirect ::
    "bool \<Rightarrow> pfcp_redirect_information \<Rightarrow> upf_far_t \<times> api_t \<Rightarrow> (bool \<times> upf_far_t \<times> api_t) option" where
  "far_redirect present info = (\<lambda>(far, a).
     Some (True, if present then map_fwd (\<lambda>f. f\<lparr>fwd_flags := fwd_flags f OR FAR_F_REDIRECT_INFORMATION,
                                  fwd_redirect_information := Some (cpy_redirect_information info)\<rparr>) far else far, a))"

definition far_nat ::
    "'v api_lib_scheme \<Rightarrow> upf_config_t \<Rightarrow> nat \<Rightarrow> pfcp_forwarding_parameters_t \<Rightarrow> upf_far_t \<times> api_t \<Rightarrow> (bool \<times> upf_far_t \<times> api_t) option" where
  "far_nat lib cfg si fp = (\<lambda>(far, a).
     if ISSET_BIT (fp_fields fp) FORWARDING_PARAMETERS_BBF_APPLY_ACTION \<and> fp_bbf_apply_action fp AND BIT 0 \<noteq> 0
        \<and> ISSET_BIT (fp_fields fp) FORWARDING_PARAMETERS_BBF_NAT_PORT_BLOCK
     then do { (rc, a) \<leftarrow> handle_nat_binding_creation lib cfg si (fp_nat_port_block fp) a; Some (rc = 0, far, a) }
     else Some (True, far, a))"

definition far_outer_header ::
    "'v api_lib_scheme \<Rightarrow> upf_config_t \<Rightarrow> u32 \<Rightarrow> bool \<Rightarrow> pfcp_outer_header_creation \<Rightarrow> upf_far_t \<times> api_t
       \<Rightarrow> (bool \<times> upf_far_t \<times> api_t) option" where
  "far_outer_header lib cfg i present ohc = (\<lambda>(far, a).
     if \<not> present then Some (True, far, a)
     else do {
       let is_ip4 = (ohc_description ohc AND OUTER_HEADER_CREATION_ANY_IP4 \<noteq> 0);
       let far = map_fwd (\<lambda>f. f\<lparr>fwd_flags := fwd_flags f OR FAR_F_OUTER_HEADER_CREATION, fwd_outer_header_creation := ohc\<rparr>) far;
       let fib_index = upf_nwi_fib_index cfg is_ip4 (fwd_nwi_index (far_forward far));
       if fib_index = -1
       then Some (False, far, rule_error ''FAR ID %u, Network Instance with invalid FIB index for IPv%d'' i a)
       else do {
         let sw = fib_get_resolving_interface lib fib_index (ohc_ip ohc) is_ip4;
         let far = map_fwd (\<lambda>f. f\<lparr>fwd_dst_sw_if_index := sw\<rparr>) far;
         if sw = NO_INDEX then Some (False, far, rule_error ''FAR ID %u, no route to %U in FIB index %d'' i a)
         else do {
           fwd \<leftarrow> ip_udp_gtpu_rewrite lib cfg fib_index is_ip4 (far_forward far);
           Some (True, far\<lparr>far_forward := fwd\<rparr>, a)
         }
       }
     })"

definition new_far :: "pfcp_create_far_t \<Rightarrow> upf_far_t" where
  "new_far far = (map_fwd (\<lambda>f. f\<lparr>fwd_nwi_index := NO_INDEX, fwd_dst_sw_if_index := NO_INDEX\<rparr>) zero_far)
     \<lparr>far_id := ucast (cf_far_id far), far_apply_action := ucast (cf_apply_action far)\<rparr>"

definition create_one_far ::
    "'v api_lib_scheme \<Rightarrow> upf_config_t \<Rightarrow> nat \<Rightarrow> pfcp_create_far_t \<Rightarrow> api_t \<Rightarrow> (bool \<times> api_t) option" where
  "create_one_far lib cfg si far a = do {
     let fp = cf_forwarding_parameters far; let i = cf_far_id far; let create = new_far far;
     (ok, create, a) \<leftarrow>
       (if far_apply_action create AND FAR_FORWARD \<noteq> 0 \<and> ISSET_BIT (cf_fields far) CREATE_FAR_FORWARDING_PARAMETERS
        then steps
          [far_network_instance cfg i (ISSET_BIT (fp_fields fp) FORWARDING_PARAMETERS_NETWORK_INSTANCE) (fp_network_instance fp) False,
           (\<lambda>(create, a). Some (True, map_fwd (\<lambda>f. f\<lparr>fwd_dst_intf := fp_destination_interface fp\<rparr>) create, a)),
           far_redirect (ISSET_BIT (fp_fields fp) FORWARDING_PARAMETERS_REDIRECT_INFORMATION) (fp_redirect_information fp),
           far_nat lib cfg si fp,
           far_outer_header lib cfg i (ISSET_BIT (fp_fields fp) FORWARDING_PARAMETERS_OUTER_HEADER_CREATION)
             (fp_outer_header_creation fp)] (create, a)
        else Some (True, create, a));
     a \<leftarrow> update_pending si (\<lambda>r. r\<lparr>r_far := Some (elts (r_far r) @ [create])\<rparr>) a;
     Some (ok, a)
   }"

definition handle_create_far ::
    "'v api_lib_scheme \<Rightarrow> upf_config_t \<Rightarrow> nat \<Rightarrow> pfcp_create_far_t list \<Rightarrow> api_t \<Rightarrow> (int \<times> api_t) option" where
  "handle_create_far lib cfg si create_far a = do {
     a \<leftarrow> on_session si pfcp_make_pending_far a;
     a \<leftarrow> update_pending si (\<lambda>r. r\<lparr>r_far := vec_alloc (r_far r)\<rparr>) a;
     (ok, a) \<leftarrow> foreach_ok (create_one_far lib cfg si) create_far a;
     a \<leftarrow> (if ok then update_pending si (pfcp_sort_fars lib) a else Some a);
     Some (finish_rules FAILED_RULE_TYPE_FAR (ok, a))
   }"

text \<open>An end marker for the old tunnel is asked for before the new one is set.\<close>

definition far_end_marker ::
    "'v api_lib_scheme \<Rightarrow> nat \<Rightarrow> pfcp_update_far_t \<Rightarrow> upf_far_t \<times> api_t \<Rightarrow> (bool \<times> upf_far_t \<times> api_t) option" where
  "far_end_marker lib si far = (\<lambda>(update, a).
     let uf = uf_update_forwarding_parameters far in
     if ISSET_BIT (uf_fields uf) UPDATE_FORWARDING_PARAMETERS_OUTER_HEADER_CREATION
        \<and> ISSET_BIT (uf_fields uf) UPDATE_FORWARDING_PARAMETERS_PFCPSMREQ_FLAGS
        \<and> uf_pfcpsmreq_flags uf AND PFCPSMREQ_SNDEM \<noteq> 0
     then do { g \<leftarrow> pfcp_send_end_marker lib si (ucast (uf_far_id far)) (a_main a); Some (True, update, a\<lparr>a_main := g\<rparr>) }
     else Some (True, update, a))"

definition update_one_far ::
    "'v api_lib_scheme \<Rightarrow> upf_config_t \<Rightarrow> nat \<Rightarrow> pfcp_update_far_t \<Rightarrow> api_t \<Rightarrow> (bool \<times> api_t) option" where
  "update_one_far lib cfg si far a = do {
     let uf = uf_update_forwarding_parameters far; let i = uf_far_id far;
     sx \<leftarrow> g_sessions (a_main a) si;
     let (found, sx) = pfcp_get_far PFCP_PENDING (ucast i) sx;
     let a = a\<lparr>a_main := put_session si sx (a_main a)\<rparr>;
     case found of
       None \<Rightarrow> Some (False, rule_error ''FAR ID %u, not found'' i a)
     | Some k \<Rightarrow> do {
         let update = elts (r_far (pfcp_get_rules sx PFCP_PENDING)) ! k;
         let update = update\<lparr>far_apply_action :=
               OPT (uf_grp_fields far) UPDATE_FAR_APPLY_ACTION (ucast (uf_apply_action far)) (far_apply_action update)\<rparr>;
         (ok, update, a) \<leftarrow>
           (if far_apply_action update AND FAR_FORWARD \<noteq> 0 \<and> ISSET_BIT (uf_grp_fields far) UPDATE_FAR_UPDATE_FORWARDING_PARAMETERS
            then steps
              [far_network_instance cfg i (ISSET_BIT (uf_fields uf) UPDATE_FORWARDING_PARAMETERS_NETWORK_INSTANCE)
                 (uf_network_instance uf) True,
               (\<lambda>(update, a). Some (True, map_fwd (\<lambda>f. f\<lparr>fwd_dst_intf := uf_destination_interface uf\<rparr>) update, a)),
               far_redirect (ISSET_BIT (uf_fields uf) UPDATE_FORWARDING_PARAMETERS_REDIRECT_INFORMATION) (uf_redirect_information uf),
               far_end_marker lib si far,
               far_outer_header lib cfg i (ISSET_BIT (uf_fields uf) UPDATE_FORWARDING_PARAMETERS_OUTER_HEADER_CREATION)
                 (uf_outer_header_creation uf)] (update, a)
            else Some (True, update, a));
         a \<leftarrow> update_pending si (\<lambda>r. r\<lparr>r_far := map_option (\<lambda>v. v[k := update]) (r_far r)\<rparr>) a;
         Some (ok, a)
       }
   }"

definition handle_update_far ::
    "'v api_lib_scheme \<Rightarrow> upf_config_t \<Rightarrow> nat \<Rightarrow> pfcp_update_far_t list \<Rightarrow> api_t \<Rightarrow> (int \<times> api_t) option" where
  "handle_update_far lib cfg si update_far a = do {
     a \<leftarrow> on_session si pfcp_make_pending_far a;
     res \<leftarrow> foreach_ok (update_one_far lib cfg si) update_far a;
     Some (finish_rules FAILED_RULE_TYPE_FAR res)
   }"

definition handle_remove_far :: "nat \<Rightarrow> u32 list \<Rightarrow> api_t \<Rightarrow> (int \<times> api_t) option" where
  "handle_remove_far si remove_far a = do {
     a \<leftarrow> on_session si pfcp_make_pending_far a;
     res \<leftarrow> foreach_ok (remove_one pfcp_delete_far ''FAR ID %u, unable to remove'' si) remove_far a;
     Some (finish_rules FAILED_RULE_TYPE_FAR res)
   }"

end
