(* ===== verification/Upf_Handlers.thy ===== *)
theory Upf_Handlers
  imports Upf_Procedures
begin

text \<open>
  The rest of the session procedures of \<^verbatim>\<open>src/upf/upf_pfcp_api.c\<close>: usage reporting and QoS rules, and the handlers of session
  requests, which put the procedures for rules together and apply or drop the changes.
\<close>

section \<open>Usage reporting rules\<close>

abbreviation (input) "TRAFFIC_TIMER_PERIOD \<equiv> 60 :: nat"
abbreviation (input) "REPORTING_TRIGGER_LINKED_USAGE_REPORTING \<equiv> BIT 7 :: u16"
abbreviation (input) "PFCP_URR_UPDATE_MONITORING_TIME \<equiv> BIT 3 :: u8"

definition unused_timer :: urr_time_t where
  "unused_timer = zero_urr_time\<lparr>t_handle := NO_INDEX\<rparr>"

definition new_urr :: "int \<Rightarrow> pfcp_create_urr_t \<Rightarrow> upf_urr_t" where
  "new_urr now urr =
     \<lparr>urr_id = ucast (cu_urr_id urr), urr_methods = ucast (cu_measurement_method urr),
      urr_triggers = OPT (cu_fields urr) URR_REPORTING_TRIGGERS (ucast (cu_reporting_triggers urr)) 0,
      urr_status = 0, urr_update_flags = 0, urr_seq_no = 0, urr_start_time = At now,
      urr_time_of_first_packet = INFINITY, urr_time_of_last_packet = INFINITY,
      urr_volume = \<lparr>v_measure = zero_measure, v_threshold = zero_counter, v_quota = zero_counter\<rparr>,
      urr_measurement_period = unused_timer, urr_time_threshold = unused_timer, urr_time_quota = unused_timer,
      urr_quota_holding_time = zero_urr_time, urr_quota_validity_time = unused_timer,
      urr_monitoring_time = \<lparr>abs_unix_time = At 0, abs_vlib_time = INFINITY\<rparr>,
      urr_usage_before_monitoring_time = \<lparr>ub_start_time = At 0, ub_time_of_first_packet = At 0,
        ub_time_of_last_packet = At 0, ub_volume = zero_measure\<rparr>,
      urr_traffic = Map.empty, urr_traffic_timer = unused_timer\<lparr>t_period := TRAFFIC_TIMER_PERIOD, t_base := now\<rparr>,
      urr_linked_urr_ids = [], urr_liusa_bitmap = []\<rparr>"

definition counter_of :: "pfcp_volume_ie \<Rightarrow> urr_counter_t" where
  "counter_of v = \<lparr>c_ul = vol_ul v, c_dl = vol_dl v, c_total = vol_total v\<rparr>"

definition set_flag :: "u8 \<Rightarrow> upf_urr_t \<Rightarrow> upf_urr_t" where
  "set_flag f urr = urr\<lparr>urr_update_flags := urr_update_flags urr OR f\<rparr>"

text \<open>The monitoring time has the fraction of a second of the start of the session.\<close>

definition set_monitoring_time :: "int \<Rightarrow> int \<Rightarrow> int \<Rightarrow> pfcp_create_urr_t \<Rightarrow> upf_urr_t \<Rightarrow> upf_urr_t" where
  "set_monitoring_time unix_time_start vnow now urr create =
     (if \<not> ISSET_BIT (cu_fields urr) URR_MONITORING_TIME then create
      else
        let unix_time = 100 * int (unat (cu_monitoring_time urr)) + unix_time_start mod 100 in
        (set_flag PFCP_URR_UPDATE_MONITORING_TIME create)\<lparr>urr_monitoring_time :=
           \<lparr>abs_unix_time = At unix_time, abs_vlib_time = At (vnow + (unix_time - now))\<rparr>\<rparr>)"

definition create_urr :: "int \<Rightarrow> int \<Rightarrow> int \<Rightarrow> pfcp_create_urr_t \<Rightarrow> upf_urr_t" where
  "create_urr unix_time_start vnow now urr =
     (let has = (\<lambda>f. ISSET_BIT (cu_fields urr) f); create = new_urr now urr;
          create = (if has URR_MEASUREMENT_PERIOD
                    then (set_flag PFCP_URR_UPDATE_MEASUREMENT_PERIOD create)\<lparr>urr_measurement_period :=
                           unused_timer\<lparr>t_period := unat (cu_measurement_period urr), t_base := now\<rparr>\<rparr> else create);
          create = (if has URR_VOLUME_THRESHOLD
                    then create\<lparr>urr_volume := (urr_volume create)\<lparr>v_threshold := counter_of (cu_volume_threshold urr)\<rparr>\<rparr> else create);
          create = (if has URR_VOLUME_QUOTA
                    then create\<lparr>urr_volume := (urr_volume create)\<lparr>v_quota := counter_of (cu_volume_quota urr)\<rparr>\<rparr> else create);
          create = (if has URR_TIME_THRESHOLD
                    then (set_flag PFCP_URR_UPDATE_TIME_THRESHOLD create)\<lparr>urr_time_threshold :=
                           unused_timer\<lparr>t_period := unat (cu_time_threshold urr), t_base := now\<rparr>\<rparr> else create);
          create = (if has URR_TIME_QUOTA
                    then (set_flag PFCP_URR_UPDATE_TIME_QUOTA create)\<lparr>urr_time_quota :=
                           unused_timer\<lparr>t_period := unat (cu_time_quota urr), t_base := now\<rparr>\<rparr> else create);
          create = (if has URR_QUOTA_VALIDITY_TIME
                    then (set_flag PFCP_URR_UPDATE_QUOTA_VALIDITY_TIME create)\<lparr>urr_quota_validity_time :=
                           unused_timer\<lparr>t_period := unat (cu_quota_validity_time urr), t_base := now\<rparr>\<rparr> else create);
          create = set_monitoring_time unix_time_start vnow now urr create in
      if has URR_LINKED_URR_ID \<and> urr_triggers create AND REPORTING_TRIGGER_LINKED_USAGE_REPORTING \<noteq> 0
      then create\<lparr>urr_linked_urr_ids := cu_linked_urr_id urr\<rparr> else create)"

definition handle_create_urr ::
    "'v api_lib_scheme \<Rightarrow> nat \<Rightarrow> pfcp_create_urr_t list \<Rightarrow> int \<Rightarrow> api_t \<Rightarrow> (int \<times> api_t) option" where
  "handle_create_urr lib si create_urrs now a = do {
     a \<leftarrow> on_session si pfcp_make_pending_urr a;
     sx \<leftarrow> g_sessions (a_main a) si;
     a \<leftarrow> update_pending si (\<lambda>r. r\<lparr>r_urr := Some (elts (r_urr r)
           @ map (create_urr (s_unix_time_start sx) (g_vlib_now (a_main a)) now) create_urrs)\<rparr>) a;
     a \<leftarrow> update_pending si (pfcp_sort_urrs lib) a;
     Some (0, a)
   }"

text \<open>The base of the time quota is the start time of the rule.\<close>

fun time_base :: "f64_time \<Rightarrow> int" where
  "time_base (At t) = t"
| "time_base INFINITY = 0"

definition update_urr :: "int \<Rightarrow> int \<Rightarrow> int \<Rightarrow> pfcp_update_urr_t \<Rightarrow> upf_urr_t \<Rightarrow> upf_urr_t" where
  "update_urr unix_time_start vnow now urr update =
     (let has = (\<lambda>f. ISSET_BIT (cu_fields urr) f);
          update = update\<lparr>urr_methods := ucast (cu_measurement_method urr),
                     urr_triggers := OPT (cu_fields urr) URR_REPORTING_TRIGGERS (ucast (cu_reporting_triggers urr)) (urr_triggers update),
                     urr_status := urr_status update AND NOT (URR_OVER_QUOTA OR URR_REPORTED)\<rparr>;
          update = (if has URR_MEASUREMENT_PERIOD
                    then (set_flag PFCP_URR_UPDATE_MEASUREMENT_PERIOD update)\<lparr>urr_measurement_period :=
                           (urr_measurement_period update)\<lparr>t_period := unat (cu_measurement_period urr), t_base := now\<rparr>\<rparr> else update);
          update = (if has URR_VOLUME_THRESHOLD
                    then update\<lparr>urr_volume := (urr_volume update)\<lparr>v_threshold := counter_of (cu_volume_threshold urr)\<rparr>\<rparr> else update);
          update = (if has URR_VOLUME_QUOTA
                    then (set_flag PFCP_URR_UPDATE_VOLUME_QUOTA update)\<lparr>urr_volume := (urr_volume update)
                           \<lparr>v_measure := (v_measure (urr_volume update))\<lparr>m_consumed := zero_counter\<rparr>,
                            v_quota := counter_of (cu_volume_quota urr)\<rparr>\<rparr> else update);
          update = (if has URR_TIME_THRESHOLD
                    then (set_flag PFCP_URR_UPDATE_TIME_THRESHOLD update)\<lparr>urr_time_threshold :=
                           (urr_time_threshold update)\<lparr>t_period := unat (cu_time_threshold urr)\<rparr>\<rparr> else update);
          update = (if has URR_TIME_QUOTA
                    then (set_flag PFCP_URR_UPDATE_TIME_QUOTA update)\<lparr>urr_time_quota :=
                           (urr_time_quota update)\<lparr>t_period := unat (cu_time_quota urr), t_base := time_base (urr_start_time update)\<rparr>\<rparr>
                    else update);
          update = (if has URR_QUOTA_VALIDITY_TIME
                    then (set_flag PFCP_URR_UPDATE_QUOTA_VALIDITY_TIME update)\<lparr>urr_quota_validity_time :=
                           (urr_quota_validity_time update)\<lparr>t_period := unat (cu_quota_validity_time urr), t_base := now\<rparr>\<rparr> else update);
          update = set_monitoring_time unix_time_start vnow now urr update in
      update\<lparr>urr_linked_urr_ids :=
        (if has URR_LINKED_URR_ID \<and> urr_triggers update AND REPORTING_TRIGGER_LINKED_USAGE_REPORTING \<noteq> 0
         then cu_linked_urr_id urr else [])\<rparr>)"

definition update_one_urr :: "nat \<Rightarrow> int \<Rightarrow> pfcp_update_urr_t \<Rightarrow> api_t \<Rightarrow> (bool \<times> api_t) option" where
  "update_one_urr si now urr a = do {
     sx \<leftarrow> g_sessions (a_main a) si;
     let (found, sx) = pfcp_get_urr PFCP_PENDING (ucast (cu_urr_id urr)) sx;
     let a = a\<lparr>a_main := put_session si sx (a_main a)\<rparr>;
     case found of
       None \<Rightarrow> Some (False, rule_error ''URR ID %u, not found'' (cu_urr_id urr) a)
     | Some k \<Rightarrow> do {
         a \<leftarrow> update_pending si (\<lambda>r. r\<lparr>r_urr := map_option (\<lambda>v. v[k :=
                update_urr (s_unix_time_start sx) (g_vlib_now (a_main a)) now urr (v ! k)]) (r_urr r)\<rparr>) a;
         Some (True, a)
       }
   }"

definition handle_update_urr :: "nat \<Rightarrow> pfcp_update_urr_t list \<Rightarrow> int \<Rightarrow> api_t \<Rightarrow> (int \<times> api_t) option" where
  "handle_update_urr si update_urrs now a = do {
     a \<leftarrow> on_session si pfcp_make_pending_urr a;
     res \<leftarrow> foreach_ok (update_one_urr si now) update_urrs a;
     Some (finish_rules FAILED_RULE_TYPE_URR res)
   }"

definition handle_remove_urr :: "nat \<Rightarrow> u32 list \<Rightarrow> api_t \<Rightarrow> (int \<times> api_t) option" where
  "handle_remove_urr si remove_urr a = do {
     a \<leftarrow> on_session si pfcp_make_pending_urr a;
     res \<leftarrow> foreach_ok (remove_one pfcp_delete_urr ''URR ID %u, unable to remove'' si) remove_urr a;
     Some (finish_rules FAILED_RULE_TYPE_URR res)
   }"

section \<open>QoS rules\<close>

definition policer_key :: "nat \<Rightarrow> pfcp_create_qer_t \<Rightarrow> u32 \<Rightarrow> u64" where
  "policer_key si qer i = OPT (cq_fields qer) QER_QER_CORRELATION_ID (ucast (cq_qer_correlation_id qer))
     (push_bit 32 (of_nat si) OR ucast i)"

definition create_qer :: "nat \<Rightarrow> pfcp_create_qer_t \<Rightarrow> upf_qer_t" where
  "create_qer si qer =
     \<lparr>qer_id = cq_qer_id qer, qer_flags = (if ISSET_BIT (cq_fields qer) QER_MBR then PFCP_QER_MBR else 0),
      qer_gate_status = (gate_ul (cq_gate_status qer), gate_dl (cq_gate_status qer)),
      qer_mbr = (if ISSET_BIT (cq_fields qer) QER_MBR then cq_mbr qer else \<lparr>rate_ul = 0, rate_dl = 0\<rparr>),
      qer_policer_key = policer_key si qer (cq_qer_id qer), qer_policer_value = -1\<rparr>"

definition handle_create_qer ::
    "'v api_lib_scheme \<Rightarrow> nat \<Rightarrow> pfcp_create_qer_t list \<Rightarrow> api_t \<Rightarrow> (int \<times> api_t) option" where
  "handle_create_qer lib si create_qers a = do {
     a \<leftarrow> on_session si pfcp_make_pending_qer a;
     a \<leftarrow> update_pending si (\<lambda>r. r\<lparr>r_qer := Some (elts (r_qer r) @ map (create_qer si) create_qers)\<rparr>) a;
     a \<leftarrow> update_pending si (pfcp_sort_qers lib) a;
     Some (0, a)
   }"

definition update_qer :: "nat \<Rightarrow> pfcp_update_qer_t \<Rightarrow> upf_qer_t \<Rightarrow> upf_qer_t" where
  "update_qer si qer update =
     (let update = update\<lparr>qer_policer_key := policer_key si qer (qer_id update), qer_policer_value := -1\<rparr>;
          update = (if ISSET_BIT (cq_fields qer) QER_GATE_STATUS
                    then update\<lparr>qer_gate_status := (gate_ul (cq_gate_status qer), gate_dl (cq_gate_status qer))\<rparr> else update) in
      if ISSET_BIT (cq_fields qer) QER_MBR then update\<lparr>qer_flags := qer_flags update OR PFCP_QER_MBR, qer_mbr := cq_mbr qer\<rparr> else update)"

definition update_one_qer :: "nat \<Rightarrow> pfcp_update_qer_t \<Rightarrow> api_t \<Rightarrow> (bool \<times> api_t) option" where
  "update_one_qer si qer a = do {
     sx \<leftarrow> g_sessions (a_main a) si;
     let (found, sx) = pfcp_get_qer PFCP_PENDING (cq_qer_id qer) sx;
     let a = a\<lparr>a_main := put_session si sx (a_main a)\<rparr>;
     case found of
       None \<Rightarrow> Some (False, rule_error ''QER ID %u, not found'' (cq_qer_id qer) a)
     | Some k \<Rightarrow> do {
         a \<leftarrow> update_pending si (\<lambda>r. r\<lparr>r_qer := map_option (\<lambda>v. v[k := update_qer si qer (v ! k)]) (r_qer r)\<rparr>) a;
         Some (True, a)
       }
   }"

definition handle_update_qer :: "nat \<Rightarrow> pfcp_update_qer_t list \<Rightarrow> api_t \<Rightarrow> (int \<times> api_t) option" where
  "handle_update_qer si update_qers a = do {
     a \<leftarrow> on_session si pfcp_make_pending_qer a;
     res \<leftarrow> foreach_ok (update_one_qer si) update_qers a;
     Some (finish_rules FAILED_RULE_TYPE_QER res)
   }"

definition handle_remove_qer :: "nat \<Rightarrow> u32 list \<Rightarrow> api_t \<Rightarrow> (int \<times> api_t) option" where
  "handle_remove_qer si remove_qer a = do {
     a \<leftarrow> on_session si pfcp_make_pending_qer a;
     res \<leftarrow> foreach_ok (remove_one pfcp_delete_qer ''QER ID %u, unable to remove'' si) remove_qer a;
     Some (finish_rules FAILED_RULE_TYPE_QER res)
   }"

section \<open>Session requests\<close>

definition zero_response :: pfcp_session_procedure_response_t where
  "zero_response = \<lparr>re_seid = 0, re_fields = 0, re_node_id = \<lparr>nid_type = 0, nid_ip = 0, nid_fqdn = []\<rparr>, re_cause = 0,
     re_tp_error_report = ([], 0), re_up_f_seid = \<lparr>fs_flags = 0, fs_seid = 0, fs_ip4 = 0, fs_ip6 = 0\<rparr>,
     re_created_pdr = [], re_usage_report = [], re_failed_rule_id = \<lparr>fr_type = 0, fr_id = 0\<rparr>,
     re_created_binding = \<lparr>cb_fields = 0, cb_block = [], cb_outside_addr = 0,
       cb_port_range = \<lparr>bbf_start_port = 0, bbf_end_port = 0\<rparr>\<rparr>\<rparr>"

definition set_resp :: "(pfcp_session_procedure_response_t \<Rightarrow> pfcp_session_procedure_response_t) \<Rightarrow> api_t \<Rightarrow> api_t" where
  "set_resp f a = a\<lparr>a_resp := f (a_resp a)\<rparr>"

definition resp_field :: "nat \<Rightarrow> pfcp_session_procedure_response_t \<Rightarrow> pfcp_session_procedure_response_t" where
  "resp_field f resp = resp\<lparr>re_fields := SET_BIT (re_fields resp) f\<rparr>"

text \<open>\<^verbatim>\<open>tp_session_error_report\<close> without the id of a rule.\<close>

definition session_error :: "string \<Rightarrow> api_t \<Rightarrow> api_t" where
  "session_error fmt = set_resp (\<lambda>r. (resp_field SESSION_PROCEDURE_RESPONSE_TP_ERROR_REPORT r)\<lparr>re_tp_error_report := (fmt, 0)\<rparr>)"

text \<open>The procedures are called one after the other until one does not return 0.\<close>

fun calls :: "(api_t \<Rightarrow> (int \<times> api_t) option) list \<Rightarrow> api_t \<Rightarrow> (int \<times> api_t) option" where
  "calls [] a = Some (0, a)"
| "calls (f # fs) a = do { (r, a) \<leftarrow> f a; if r \<noteq> 0 then Some (r, a) else calls fs a }"

definition set_inactivity_timer :: "bool \<Rightarrow> u32 \<Rightarrow> nat \<Rightarrow> api_t \<Rightarrow> api_t option" where
  "set_inactivity_timer present period si a =
     (if present then update_pending si (\<lambda>r. r\<lparr>r_inactivity_timer :=
            (r_inactivity_timer r)\<lparr>t_period := unat period, t_handle := NO_INDEX\<rparr>\<rparr>) a else Some a)"

definition note_created_pdrs :: "api_t \<Rightarrow> (int \<times> api_t) option" where
  "note_created_pdrs a =
     Some (0, if re_created_pdr (a_resp a) \<noteq> [] then set_resp (resp_field SESSION_PROCEDURE_RESPONSE_CREATED_PDR) a else a)"

definition on_main :: "(upf_main_t \<Rightarrow> upf_main_t option) \<Rightarrow> api_t \<Rightarrow> (int \<times> api_t) option" where
  "on_main f a = do { g \<leftarrow> f (a_main a); Some (0, a\<lparr>a_main := g\<rparr>) }"

definition establish_rules ::
    "'v api_lib_scheme \<Rightarrow> upf_config_t \<Rightarrow> pfcp_session_establishment_request_t \<Rightarrow> nat \<Rightarrow> api_t \<Rightarrow> (int \<times> api_t) option" where
  "establish_rules lib cfg req si a = do {
     a \<leftarrow> set_inactivity_timer (ISSET_BIT (se_fields req) SESSION_ESTABLISHMENT_REQUEST_USER_PLANE_INACTIVITY_TIMER)
           (se_user_plane_inactivity_timer req) si a;
     calls [handle_create_pdr lib cfg si (se_create_pdr req), note_created_pdrs,
            handle_create_far lib cfg si (se_create_far req),
            handle_create_urr lib si (se_create_urr req) (g_now (a_main a)),
            on_main (pfcp_update_apply lib si), on_main (pfcp_update_finish si)] a
   }"

text \<open>The response to begin with, and the address of this side in it; \<open>lcl\<close> and \<open>rmt\<close> are the addresses of the message.\<close>

definition establishment_response :: "upf_config_t \<Rightarrow> pfcp_session_procedure_response_t" where
  "establishment_response cfg = (resp_field SESSION_PROCEDURE_RESPONSE_NODE_ID (resp_field SESSION_PROCEDURE_RESPONSE_CAUSE zero_response))
     \<lparr>re_cause := PFCP_CAUSE_REQUEST_REJECTED, re_node_id := cfg_node_id cfg\<rparr>"

definition up_f_seid :: "'v api_lib_scheme \<Rightarrow> ip46_address \<Rightarrow> ip46_address \<Rightarrow> pfcp_f_seid \<Rightarrow> pfcp_f_seid" where
  "up_f_seid lib lcl rmt f =
     (if ip46_address_is_ip4 lib rmt then f\<lparr>fs_flags := fs_flags f OR BIT 1, fs_ip4 := ucast lcl\<rparr>
      else f\<lparr>fs_flags := fs_flags f OR BIT 0, fs_ip6 := lcl\<rparr>)"

definition handle_session_establishment_request ::
    "'v api_lib_scheme \<Rightarrow> upf_config_t \<Rightarrow> ip46_address \<Rightarrow> ip46_address \<Rightarrow> pfcp_session_establishment_request_t \<Rightarrow> api_t
       \<Rightarrow> (int \<times> api_t) option" where
  "handle_session_establishment_request lib cfg lcl rmt req a = do {
     let seid = fs_seid (se_f_seid req);
     let a = set_resp (\<lambda>_. (establishment_response cfg)\<lparr>re_seid := seid\<rparr>) a;
     case cfg_association cfg (se_node_id req) of
       None \<Rightarrow> Some (-1, set_resp (\<lambda>r. r\<lparr>re_cause := PFCP_CAUSE_NO_ESTABLISHED_PFCP_ASSOCIATION\<rparr>)
                       (session_error ''no established PFCP association'' a))
     | Some assoc \<Rightarrow> do {
         let a = set_resp (\<lambda>r. (resp_field SESSION_PROCEDURE_RESPONSE_UP_F_SEID r)
                   \<lparr>re_up_f_seid := (re_up_f_seid r)\<lparr>fs_seid := seid\<rparr>\<rparr>) a;
         if pfcp_lookup seid (a_main a) \<noteq> None then Some (-1, session_error ''Duplicate SEID'' a)
         else do {
           let a = set_resp (\<lambda>r. r\<lparr>re_up_f_seid := up_f_seid lib lcl rmt (re_up_f_seid r)\<rparr>) a;
           let is_ip4 = ip46_address_is_ip4 lib rmt;
           let up_address = (if is_ip4 then ip46_address_set_ip4 lib (ucast lcl) else lcl);
           let cp_address = (if is_ip4 then ip46_address_set_ip4 lib (fs_ip4 (se_f_seid req)) else fs_ip6 (se_f_seid req));
           (si, g) \<leftarrow> pfcp_create_session lib assoc up_address seid cp_address (a_main a);
           (r, a) \<leftarrow> establish_rules lib cfg req si (a\<lparr>a_main := g\<rparr>);
           if r = 0 then Some (0, set_resp (\<lambda>r. r\<lparr>re_cause := PFCP_CAUSE_REQUEST_ACCEPTED\<rparr>) a)
           else do {
             g \<leftarrow> pfcp_disable_session lib si (a_main a);
             g \<leftarrow> pfcp_free_session si g;
             Some (r, a\<lparr>a_main := g\<rparr>)
           }
         }
       }
   }"

text \<open>The elements of a modification request that change rules.\<close>

definition update_mask :: u32 where
  "update_mask = fold (\<lambda>f w. SET_BIT w f) [1, 2, 3, 4, 5, 7, 8, 9, 10, 11, 13, 14, 15, 16, 17, 22] 0"

definition modify_rules ::
    "'v api_lib_scheme \<Rightarrow> upf_config_t \<Rightarrow> pfcp_session_modification_request_t \<Rightarrow> nat \<Rightarrow> api_t \<Rightarrow> (int \<times> api_t) option" where
  "modify_rules lib cfg req si a = do {
     let now = g_now (a_main a);
     a \<leftarrow> on_session si pfcp_update_session a;
     a \<leftarrow> set_inactivity_timer (ISSET_BIT (sm_fields req) SESSION_MODIFICATION_REQUEST_USER_PLANE_INACTIVITY_TIMER)
           (sm_user_plane_inactivity_timer req) si a;
     calls [handle_create_pdr lib cfg si (sm_create_pdr req), note_created_pdrs,
            handle_update_pdr lib cfg si (sm_update_pdr req),
            handle_remove_pdr si (sm_remove_pdr req),
            handle_create_far lib cfg si (sm_create_far req),
            handle_update_far lib cfg si (sm_update_far req),
            handle_remove_far si (sm_remove_far req),
            handle_create_urr lib si (sm_create_urr req) now,
            handle_update_urr si (sm_update_urr req) now,
            handle_remove_urr si (sm_remove_urr req),
            handle_create_qer lib si (sm_create_qer req),
            handle_update_qer si (sm_update_qer req),
            handle_remove_qer si (sm_remove_qer req),
            on_main (pfcp_update_apply lib si),
            on_main (update_session si (\<lambda>sx. sx\<lparr>s_generation := s_generation sx + 1\<rparr>))] a
   }"

text \<open>The reports a modification request asks for: of the given rules, or of all.\<close>

definition query_one :: "int \<Rightarrow> rules_t \<Rightarrow> u32 \<Rightarrow> upf_usage_report_t \<Rightarrow> upf_usage_report_t" where
  "query_one now active i report =
     (case pfcp_get_urr_by_id active (ucast i) of
        None \<Rightarrow> report
      | Some k \<Rightarrow> upf_usage_report_trigger k USAGE_REPORT_TRIGGER_IMMEDIATE_REPORT
                    (urr_liusa_bitmap (elts (r_urr active) ! k)) now report)"

definition query_reports ::
    "'v api_lib_scheme \<Rightarrow> pfcp_session_modification_request_t \<Rightarrow> nat \<Rightarrow> api_t \<Rightarrow> api_t option" where
  "query_reports lib req si a = do {
     sx \<leftarrow> g_sessions (a_main a) si;
     let active = pfcp_get_rules sx PFCP_ACTIVE; let urrs = elts (r_urr active); let now = g_now (a_main a);
     let report = upf_usage_report_init (length urrs);
     let query = (ISSET_BIT (sm_fields req) SESSION_MODIFICATION_REQUEST_QUERY_URR \<and> sm_query_urr req \<noteq> []);
     let all = (\<not> query \<and> ISSET_BIT (sm_fields req) SESSION_MODIFICATION_REQUEST_PFCPSMREQ_FLAGS
                \<and> sm_pfcpsmreq_flags req AND PFCPSMREQ_QAURR \<noteq> 0 \<and> urrs \<noteq> []);
     let report = (if query then fold (query_one now active) (sm_query_urr req) report
                   else if all then upf_usage_report_set USAGE_REPORT_TRIGGER_IMMEDIATE_REPORT now report else report);
     let a = (if query \<or> all then set_resp (resp_field SESSION_PROCEDURE_RESPONSE_USAGE_REPORT) a else a);
     (urrs, rs) \<leftarrow> upf_usage_report_build lib (g_vlib_now (a_main a)) None now report urrs;
     g \<leftarrow> put_urrs si urrs (a_main a);
     Some (set_resp (\<lambda>r. r\<lparr>re_usage_report := re_usage_report r @ rs\<rparr>) (a\<lparr>a_main := g\<rparr>))
   }"

definition handle_session_modification_request ::
    "'v api_lib_scheme \<Rightarrow> upf_config_t \<Rightarrow> u64 \<Rightarrow> pfcp_session_modification_request_t \<Rightarrow> api_t \<Rightarrow> (int \<times> api_t) option" where
  "handle_session_modification_request lib cfg seid req a = do {
     let a = set_resp (\<lambda>_. (resp_field SESSION_PROCEDURE_RESPONSE_CAUSE zero_response)\<lparr>re_cause := PFCP_CAUSE_REQUEST_REJECTED\<rparr>) a;
     case pfcp_lookup seid (a_main a) of
       None \<Rightarrow> Some (-1, set_resp (\<lambda>r. r\<lparr>re_cause := PFCP_CAUSE_SESSION_CONTEXT_NOT_FOUND\<rparr>) a)
     | Some si \<Rightarrow> do {
         sx \<leftarrow> g_sessions (a_main a) si;
         let a = set_resp (\<lambda>r. r\<lparr>re_seid := s_cp_seid sx\<rparr>) a;
         (r, a) \<leftarrow> (if sm_fields req AND update_mask \<noteq> 0 then modify_rules lib cfg req si a else Some (0, a));
         if r \<noteq> 0 then Some (r, a)
         else do {
           a \<leftarrow> query_reports lib req si a;
           g \<leftarrow> pfcp_update_finish si (a_main a);
           Some (0, set_resp (\<lambda>r. r\<lparr>re_cause := PFCP_CAUSE_REQUEST_ACCEPTED\<rparr>) (a\<lparr>a_main := g\<rparr>))
         }
       }
   }"

definition handle_session_deletion_request ::
    "'v api_lib_scheme \<Rightarrow> u64 \<Rightarrow> api_t \<Rightarrow> (int \<times> api_t) option" where
  "handle_session_deletion_request lib seid a = do {
     let a = set_resp (\<lambda>_. (resp_field SESSION_PROCEDURE_RESPONSE_CAUSE zero_response)\<lparr>re_cause := PFCP_CAUSE_REQUEST_REJECTED\<rparr>) a;
     case pfcp_lookup seid (a_main a) of
       None \<Rightarrow> Some (-1, set_resp (\<lambda>r. r\<lparr>re_cause := PFCP_CAUSE_SESSION_CONTEXT_NOT_FOUND\<rparr>) a)
     | Some si \<Rightarrow> do {
         sx \<leftarrow> g_sessions (a_main a) si;
         let a = set_resp (\<lambda>r. r\<lparr>re_seid := s_cp_seid sx\<rparr>) a;
         g \<leftarrow> pfcp_disable_session lib si (a_main a);
         urrs \<leftarrow> active_urrs si g;
         (a, g) \<leftarrow> (if urrs \<noteq> [] then do {
             (rs, g) \<leftarrow> report_all lib USAGE_REPORT_TRIGGER_TERMINATION_REPORT si g;
             Some (set_resp (\<lambda>r. (resp_field SESSION_PROCEDURE_RESPONSE_USAGE_REPORT r)\<lparr>re_usage_report := rs\<rparr>) a, g)
           } else Some (a, g));
         g \<leftarrow> pfcp_free_session si g;
         Some (0, set_resp (\<lambda>r. r\<lparr>re_cause := PFCP_CAUSE_REQUEST_ACCEPTED\<rparr>) (a\<lparr>a_main := g\<rparr>))
       }
   }"

end
