(* ===== verification/Upf_Establish.thy ===== *)
theory Upf_Establish
  imports Upf_Handlers Upf_Correct
begin

text \<open>
  Properties of the session procedures: the TEIDs that are handed out, and what an establishment request leaves behind when it is
  accepted and when it is refused.
\<close>

section \<open>TEIDs\<close>

text \<open>The TEIDs the loop tries, as long as they are valid.\<close>

fun tried :: "'v api_lib_scheme \<Rightarrow> upf_upip_res_t \<Rightarrow> u32 \<Rightarrow> nat \<Rightarrow> u32" where
  "tried lib res seed 0 = fst (random_u32 lib seed) AND NOT (upip_mask res)"
| "tried lib res seed (Suc n) = tried lib res (tried lib res seed 0) n"

lemma teid_loop_result:
  assumes "teid_loop lib flags res g retry seed = Some r"
  shows "fst r = 0 \<or> validate_teid (fst r) \<and> fst r AND upip_mask res = 0 \<and> teid_is_free flags res g (fst r)"
proof (rule teid_loop.raw_induct [where P = "\<lambda>lib flags res g retry seed r.
    fst r = 0 \<or> validate_teid (fst r) \<and> fst r AND upip_mask res = 0 \<and> teid_is_free flags res g (fst r)", OF _ assms])
  fix rec lib flags res g retry seed r
  assume IH: "\<And>lib flags res g retry seed r. rec lib flags res g retry seed = Some r \<Longrightarrow>
      fst r = 0 \<or> validate_teid (fst r) \<and> fst r AND upip_mask res = 0 \<and> teid_is_free flags res g (fst r)"
    and eq: "(let (r, seed) = random_u32 lib seed; teid = r AND NOT (upip_mask res) in
      if \<not> validate_teid teid then
        (if retry - 1 > 0 then rec lib flags res g (retry - 1) seed else Some (0, seed))
      else if teid_is_free flags res g teid then Some (teid, teid)
      else if retry > 0 then rec lib flags res g retry teid
      else Some (0, teid)) = Some r"
  show "fst r = 0 \<or> validate_teid (fst r) \<and> fst r AND upip_mask res = 0 \<and> teid_is_free flags res g (fst r)"
    using eq IH by (auto simp: Let_def case_prod_beta and.assoc split: if_splits)
qed

lemma teid_loop_finds:
  assumes "0 < retry" "\<forall>k < n. validate_teid (tried lib res seed k) \<and> \<not> teid_is_free flags res g (tried lib res seed k)"
    "validate_teid (tried lib res seed n)" "teid_is_free flags res g (tried lib res seed n)"
  shows "teid_loop lib flags res g retry seed = Some (tried lib res seed n, tried lib res seed n)"
  using assms
proof (induction n arbitrary: seed)
  case 0
  then show ?case
    by (subst teid_loop.simps) (simp add: case_prod_beta Let_def)
next
  case (Suc n)
  have "validate_teid (tried lib res seed 0)" "\<not> teid_is_free flags res g (tried lib res seed 0)"
    using Suc.prems(2) by blast+
  moreover have "teid_loop lib flags res g retry (tried lib res seed 0) = Some (tried lib res seed (Suc n), tried lib res seed (Suc n))"
    using Suc.IH [of "tried lib res seed 0"] Suc.prems by (metis Suc_mono tried.simps(2))
  ultimately show ?case
    using Suc.prems(1) by (subst teid_loop.simps) (simp add: case_prod_beta Let_def)
qed

lemma teid_loop_starves:
  assumes "0 < retry" "\<forall>n. validate_teid (tried lib res seed n) \<and> \<not> teid_is_free flags res g (tried lib res seed n)"
  shows "teid_loop lib flags res g retry seed = None"
proof (rule ccontr)
  assume "teid_loop lib flags res g retry seed \<noteq> None"
  then obtain r where r: "teid_loop lib flags res g retry seed = Some r"
    by blast
  let ?P = "\<lambda>lib flags res g retry seed (r :: u32 \<times> u32). 0 < retry \<longrightarrow>
    (\<forall>n. validate_teid (tried lib res seed n) \<and> \<not> teid_is_free flags res g (tried lib res seed n)) \<longrightarrow> False"
  have "?P lib flags res g retry seed r"
  proof (rule teid_loop.raw_induct [where P = ?P, OF _ r], intro impI)
    fix rec lib flags res g retry seed r
    assume IH: "\<And>lib flags res g retry seed r. rec lib flags res g retry seed = Some r \<Longrightarrow> ?P lib flags res g retry seed r"
      and eq: "(let (r, seed) = random_u32 lib seed; teid = r AND NOT (upip_mask res) in
        if \<not> validate_teid teid then
          (if retry - 1 > 0 then rec lib flags res g (retry - 1) seed else Some (0, seed))
        else if teid_is_free flags res g teid then Some (teid, teid)
        else if retry > 0 then rec lib flags res g retry teid
        else Some (0, teid)) = Some r"
      and pos: "0 < retry"
      and taken: "\<forall>n. validate_teid (tried lib res seed n) \<and> \<not> teid_is_free flags res g (tried lib res seed n)"
    have "rec lib flags res g retry (tried lib res seed 0) = Some r"
      using eq pos taken [THEN spec, of 0] by (simp add: Let_def case_prod_beta)
    moreover have "\<forall>n. validate_teid (tried lib res (tried lib res seed 0) n) \<and> \<not> teid_is_free flags res g (tried lib res (tried lib res seed 0) n)"
      using taken by (metis tried.simps(2))
    ultimately show False
      using IH pos by blast
  qed
  with assms show False
    by blast
qed

lemma generated_teid:
  assumes "process_teid_generation lib chid flags res si a = Some (teid, a')" "teid \<noteq> 0"
  shows "validate_teid teid" "teid AND upip_mask res = 0" "teid_is_free flags res (a_main a) teid"
    "flags AND F_TEID_CHID \<noteq> 0 \<Longrightarrow> \<exists>sx. g_sessions (a_main a') si = Some sx \<and> s_teid_by_chid sx chid = Some teid"
  using assms teid_loop_result [of lib flags res "a_main a" 10 "a_rand_base a"]
  by (auto simp: process_teid_generation_def update_session_def put_session_def Let_def bind_eq_Some_conv split: if_splits)

lemma generated_first_free:
  assumes "g_sessions (a_main a) si \<noteq> None" "\<forall>k < n. validate_teid (tried lib res (a_rand_base a) k)
      \<and> \<not> teid_is_free flags res (a_main a) (tried lib res (a_rand_base a) k)"
    "validate_teid (tried lib res (a_rand_base a) n)" "teid_is_free flags res (a_main a) (tried lib res (a_rand_base a) n)"
  shows "\<exists>a'. process_teid_generation lib chid flags res si a = Some (tried lib res (a_rand_base a) n, a')
      \<and> a_rand_base a' = tried lib res (a_rand_base a) n"
proof -
  have "teid_loop lib flags res (a_main a) 10 (a_rand_base a) = Some (tried lib res (a_rand_base a) n, tried lib res (a_rand_base a) n)"
    by (rule teid_loop_finds) (use assms in auto)
  moreover have "tried lib res (a_rand_base a) n \<noteq> 0"
    using assms(3) by (simp add: validate_teid_def)
  ultimately show ?thesis
    using assms(1) by (auto simp: process_teid_generation_def update_session_def Let_def)
qed

text \<open>C38: A TEID the user plane chooses is valid, outside the mask of the resource, and not in use by any session for the
  addresses asked for; it is remembered under the CHOOSE id. As long as the random numbers give valid TEIDs, the first one
  that is not in use is taken, however many are tried before; if all of them are in use, the loop never returns,
  since the retry counter is only decremented for invalid TEIDs.
\<close>

theorem generated_teids:
  assumes "g_sessions (a_main a) si \<noteq> None"
  shows "let gen = process_teid_generation lib chid flags res si a; tri = tried lib res (a_rand_base a);
      free = teid_is_free flags res (a_main a) in
      (\<forall>teid a'. gen = Some (teid, a') \<and> teid \<noteq> 0 \<longrightarrow> validate_teid teid \<and> teid AND upip_mask res = 0 \<and> free teid
         \<and> (flags AND F_TEID_CHID \<noteq> 0 \<longrightarrow> (\<exists>sx. g_sessions (a_main a') si = Some sx \<and> s_teid_by_chid sx chid = Some teid)))
    \<and> ((\<forall>k < n. validate_teid (tri k) \<and> \<not> free (tri k)) \<and> validate_teid (tri n) \<and> free (tri n) \<longrightarrow>
         (\<exists>a'. gen = Some (tri n, a') \<and> a_rand_base a' = tri n))
    \<and> ((\<forall>k. validate_teid (tri k) \<and> \<not> free (tri k)) \<longrightarrow> gen = None)"
  unfolding Let_def
proof (intro conjI impI allI)
  assume "\<forall>k. validate_teid (tried lib res (a_rand_base a) k) \<and> \<not> teid_is_free flags res (a_main a) (tried lib res (a_rand_base a) k)"
  then show "process_teid_generation lib chid flags res si a = None"
    using teid_loop_starves [of 10 lib res "a_rand_base a" flags "a_main a"] by (simp add: process_teid_generation_def)
qed (use assms in \<open>blast intro: generated_teid generated_first_free\<close>)+

text \<open>Numbers that count up, and a state in which the first of them is the TEID of another session.\<close>

definition vpp_api :: api_lib where
  "vpp_api = session_lib.extend vpp_lib (api_lib.fields (\<lambda>s. (s + 1, s + 1)) (\<lambda>_. (True, any_rule)) (\<lambda>_ _ _ _. None)
     (\<lambda>_ _ _. 0) (\<lambda>_ _ _. None) (\<lambda>_ _. None) (\<lambda>_. 0) (\<lambda>_ _ _ _ _ _. 0))"

definition api_state :: "upf_main_t \<Rightarrow> api_t" where
  "api_state g = \<lparr>a_main = g, a_rand_base = 0, a_nat_bindings = [], a_sent = [], a_resp = zero_response\<rparr>"

definition some_upip :: upf_upip_res_t where
  "some_upip = \<lparr>upip_ip4 = 1, upip_ip6 = 0, upip_nwi_index = 0, upip_intf = 0, upip_teid = 0, upip_mask = 0xff000000\<rparr>"

lemma random_vpp_api: "random_u32 vpp_api s = (s + 1, s + 1)"
  by (simp add: vpp_api_def session_lib.defs api_lib.defs)

theorem generated_teids_witness:
  "(\<exists>a'. process_teid_generation vpp_api 0 F_TEID_V4 some_upip 0 (api_state upf_state) = Some (2, a') \<and> a_rand_base a' = 2)
   \<and> process_teid_generation (vpp_api\<lparr>random_u32 := \<lambda>_. (1, 1)\<rparr>) 0 F_TEID_V4 some_upip 0 (api_state upf_state) = None"
proof
  have si: "g_sessions (a_main (api_state upf_state)) 0 \<noteq> None"
    by (simp add: api_state_def upf_state_def)
  have 1: "teid_is_free F_TEID_V4 some_upip (a_main (api_state upf_state)) teid \<longleftrightarrow> teid \<noteq> 1" for teid
    by (simp add: teid_is_free_def api_state_def upf_state_def no_sessions_def some_upip_def teid_v4_lookup_session_index_def BIT_def)
  have 2: "tried vpp_api some_upip (a_rand_base (api_state upf_state)) (Suc 0) = 2"
    "tried vpp_api some_upip (a_rand_base (api_state upf_state)) 0 = 1"
    by (simp_all add: random_vpp_api some_upip_def api_state_def)
  have "\<forall>k < Suc 0. validate_teid (tried vpp_api some_upip (a_rand_base (api_state upf_state)) k)
      \<and> \<not> teid_is_free F_TEID_V4 some_upip (a_main (api_state upf_state)) (tried vpp_api some_upip (a_rand_base (api_state upf_state)) k)"
    unfolding 1 less_Suc0 using 2(2) by (simp add: validate_teid_def del: tried.simps)
  moreover have "validate_teid (tried vpp_api some_upip (a_rand_base (api_state upf_state)) (Suc 0))"
    "teid_is_free F_TEID_V4 some_upip (a_main (api_state upf_state)) (tried vpp_api some_upip (a_rand_base (api_state upf_state)) (Suc 0))"
    unfolding 1 2 by (simp_all add: validate_teid_def)
  ultimately show "\<exists>a'. process_teid_generation vpp_api 0 F_TEID_V4 some_upip 0 (api_state upf_state) = Some (2, a') \<and> a_rand_base a' = 2"
    using generated_teids [OF si, of vpp_api 0 F_TEID_V4 some_upip "Suc 0", unfolded Let_def, THEN conjunct2, THEN conjunct1]
    unfolding 2(1) by blast
  let ?lib = "vpp_api\<lparr>random_u32 := \<lambda>_. (1, 1)\<rparr>"
  have "tried ?lib some_upip seed k = 1" for seed k
    by (induction k arbitrary: seed) (simp_all add: some_upip_def)
  then have "\<forall>k. validate_teid (tried ?lib some_upip (a_rand_base (api_state upf_state)) k)
      \<and> \<not> teid_is_free F_TEID_V4 some_upip (a_main (api_state upf_state)) (tried ?lib some_upip (a_rand_base (api_state upf_state)) k)"
    unfolding 1 by (simp add: validate_teid_def)
  then show "process_teid_generation ?lib 0 F_TEID_V4 some_upip 0 (api_state upf_state) = None"
    using generated_teids [OF si, of ?lib 0 F_TEID_V4 some_upip 0, unfolded Let_def, THEN conjunct2, THEN conjunct2] by blast
qed

end
