(* ===== verification/Upf_Delete.thy ===== *)
theory Upf_Delete
  imports Upf_Billing Upf_Establish
begin

text \<open>
  Session deletion requests: the session is disabled, its usage rules are reported for the last time, and it is freed.
\<close>

section \<open>Reports that can be made\<close>

text \<open>The times of a rule are not in the future and not before the epoch, so that they can be converted to seconds.\<close>

fun between :: "int \<Rightarrow> int \<Rightarrow> f64_time \<Rightarrow> bool" where
  "between lo hi (At t) \<longleftrightarrow> lo \<le> t \<and> t \<le> hi"
| "between lo hi INFINITY \<longleftrightarrow> False"

fun packet_ok :: "int \<Rightarrow> int \<Rightarrow> f64_time \<Rightarrow> bool" where
  "packet_ok vnow now (At t) \<longleftrightarrow> 0 \<le> now - (vnow - t)"
| "packet_ok vnow now INFINITY \<longleftrightarrow> True"

definition clock_ok :: "int \<Rightarrow> int \<Rightarrow> upf_urr_t \<Rightarrow> bool" where
  "clock_ok vnow now urr \<longleftrightarrow> between 0 now (urr_start_time urr)
     \<and> packet_ok vnow now (urr_time_of_first_packet urr) \<and> packet_ok vnow now (urr_time_of_last_packet urr)
     \<and> (if bit (urr_status urr) 1
        then let ub = urr_usage_before_monitoring_time urr in
             between 0 (time_base (urr_start_time urr)) (ub_start_time ub)
             \<and> packet_ok vnow now (ub_time_of_first_packet ub) \<and> packet_ok vnow now (ub_time_of_last_packet ub)
        else before (abs_unix_time (urr_monitoring_time urr)) now \<longrightarrow>
             between (time_base (urr_start_time urr)) now (abs_unix_time (urr_monitoring_time urr)))"

lemma report_times_returns:
  assumes "packet_ok vnow now first" "packet_ok vnow now latest"
  shows "\<exists>r'. report_times now vnow start duration first latest tp_start tp_end r = Some r'"
  using assms by (cases first; cases latest) (auto simp: report_times_def Let_def)

lemma seconds_between: "between lo hi t \<Longrightarrow> 0 \<le> lo \<Longrightarrow> seconds t = Some (nat (time_base t div 100))"
  by (cases t) auto

lemma duration_returns: "a \<le> b \<Longrightarrow> \<exists>n. duration_between (nat (a div 100)) (nat (b div 100)) = Some n"
  by (auto simp: duration_between_def zdiv_mono1 nat_mono)

lemma between_le: "between lo hi t \<Longrightarrow> lo \<le> time_base t \<and> time_base t \<le> hi"
  by (cases t) auto

lemma report_before_returns:
  assumes "between 0 now (urr_start_time urr)" "between 0 (time_base (urr_start_time urr)) (ub_start_time (urr_usage_before_monitoring_time urr))"
    "packet_ok vnow now (ub_time_of_first_packet (urr_usage_before_monitoring_time urr))"
    "packet_ok vnow now (ub_time_of_last_packet (urr_usage_before_monitoring_time urr))"
  shows "\<exists>r. report_before vnow now trigger urr = Some (r, urr\<lparr>urr_seq_no := urr_seq_no urr + 1\<rparr>)"
proof -
  obtain n where n: "duration_between (nat (time_base (ub_start_time (urr_usage_before_monitoring_time urr)) div 100))
      (nat (time_base (urr_start_time urr) div 100)) = Some n"
    using duration_returns between_le [OF assms(2)] by blast
  show ?thesis
    using assms(1,2) n report_times_returns [OF assms(3,4)]
    by (auto simp: report_before_def init_usage_report_def Let_def seconds_between bind_eq_Some_conv)
qed

lemma report_usage_returns:
  assumes "clock_ok vnow now urr"
  shows "\<exists>r. report_usage_ev lib vnow ue trigger now urr = Some r"
proof -
  obtain u m where tv: "take_volume now urr = (u, m)"
    by (metis surj_pair)
  have u: "between 0 now (urr_start_time u)" "packet_ok vnow now (urr_time_of_first_packet u)"
    "packet_ok vnow now (urr_time_of_last_packet u)"
    "bit (urr_status u) 1 \<Longrightarrow> between 0 (time_base (urr_start_time u)) (ub_start_time (urr_usage_before_monitoring_time u))
       \<and> packet_ok vnow now (ub_time_of_first_packet (urr_usage_before_monitoring_time u))
       \<and> packet_ok vnow now (ub_time_of_last_packet (urr_usage_before_monitoring_time u))"
    using tv assms
    by (cases "urr_start_time urr"; cases "abs_unix_time (urr_monitoring_time urr)";
        force simp: take_volume_def clock_ok_def Let_def split: if_splits)+
  obtain bs u2 where 2: "(if bit (urr_status u) 1
      then do { (r, urr) \<leftarrow> report_before vnow now trigger u; Some ([r], urr) } else Some ([], u)) = Some (bs, u2)"
    "urr_start_time u2 = urr_start_time u" "urr_time_of_first_packet u2 = urr_time_of_first_packet u"
    "urr_time_of_last_packet u2 = urr_time_of_last_packet u"
    using report_before_returns [OF u(1), of vnow trigger] u(4) by (cases "bit (urr_status u) 1") auto
  obtain n where n: "duration_between (nat (time_base (urr_start_time u) div 100)) (nat (now div 100)) = Some n"
    using duration_returns between_le [OF u(1)] by blast
  have "0 \<le> now"
    using between_le [OF u(1)] by linarith
  then show ?thesis
    using tv 2 n seconds_between [OF u(1)] report_times_returns [OF u(2,3)]
    by (auto simp: report_usage_ev_def init_usage_report_def Let_def bind_eq_Some_conv split: if_splits)
qed

lemma all_reports_return:
  assumes "\<forall>urr \<in> set us. clock_ok vnow now urr" "length evs = length us" "\<forall>ev \<in> set evs. ev_now ev = now"
  shows "\<exists>us' rs. build_reports lib vnow ue now liusa idx evs us = Some (us', rs)"
  using assms
proof (induction evs arbitrary: idx us)
  case (Cons ev evs)
  obtain u us' where us: "us = u # us'"
    using Cons.prems(2) by (cases us) auto
  obtain us2 rs2 where "build_reports lib vnow ue now liusa (Suc idx) evs us' = Some (us2, rs2)"
    using Cons.IH [of us' "Suc idx"] Cons.prems by (auto simp: us)
  moreover have "\<exists>r. report_usage_ev lib vnow ue trigger now u = Some r" for trigger
    using report_usage_returns [of vnow now u] Cons.prems(1) by (auto simp: us)
  ultimately show ?case
    using Cons.prems(3) by (fastforce simp: us bind_eq_Some_conv)
qed simp

section \<open>What disabling a session leaves of its usage rules\<close>

text \<open>Only the timers of a rule are changed.\<close>

definition untimed :: "upf_urr_t \<Rightarrow> upf_urr_t" where
  "untimed urr = urr\<lparr>urr_measurement_period := zero_urr_time, urr_time_threshold := zero_urr_time,
     urr_time_quota := zero_urr_time, urr_quota_validity_time := zero_urr_time, urr_traffic_timer := zero_urr_time\<rparr>"

lemma untimed_fields:
  "urr_id (untimed u) = urr_id u" "urr_methods (untimed u) = urr_methods u" "unreported d (untimed u) = unreported d u"
  "clock_ok vnow now (untimed u) = clock_ok vnow now u"
  by (simp_all add: untimed_def unreported_def clock_ok_def)

lemma untimed_same:
  assumes "untimed u' = untimed u"
  shows "urr_id u' = urr_id u" "urr_methods u' = urr_methods u" "unreported d u' = unreported d u"
    "clock_ok vnow now u' = clock_ok vnow now u"
  using assms by (metis untimed_fields)+

text \<open>Steps that leave the clocks and the rules of a session alone.\<close>

definition calm :: "nat \<Rightarrow> upf_main_t \<Rightarrow> upf_main_t \<Rightarrow> bool" where
  "calm i g g' \<longleftrightarrow> g_now g' = g_now g \<and> g_vlib_now g' = g_vlib_now g
     \<and> map_option s_rules (g_sessions g' i) = map_option s_rules (g_sessions g i)
     \<and> map_option s_active (g_sessions g' i) = map_option s_active (g_sessions g i)"

lemma calm_refl [simp]: "calm i g g"
  by (simp add: calm_def)

lemma calm_trans [trans]: "calm i a b \<Longrightarrow> calm i b c \<Longrightarrow> calm i a c"
  by (simp add: calm_def)

lemma calm_fold: "(\<And>x s. calm i s (f x s)) \<Longrightarrow> calm i g (fold f xs g)"
proof (induction xs arbitrary: g)
  case (Cons x xs)
  then show ?case
    using calm_trans by (metis fold_simps(2))
qed simp

lemma calm_stop_urr_timers: "calm i g (snd (stop_urr_timers now urr g))" "untimed (fst (stop_urr_timers now urr g)) = untimed urr"
proof -
  have stop: "calm i g (snd (upf_pfcp_session_stop_urr_time now t g))" for t g
    by (simp add: upf_pfcp_session_stop_urr_time_def stop_timer_def calm_def)
  show "calm i g (snd (stop_urr_timers now urr g))"
    unfolding stop_urr_timers_def Let_def case_prod_beta snd_conv
    by (rule calm_trans [OF stop calm_trans [OF stop calm_trans [OF stop calm_trans [OF stop stop]]]])
  show "untimed (fst (stop_urr_timers now urr g)) = untimed urr"
    by (simp add: stop_urr_timers_def Let_def case_prod_beta untimed_def)
qed

lemma calm_stop_urrs:
  assumes "foreach_upd (\<lambda>urr g. Some (stop_urr_timers (g_timer_last_run g) urr g)) us g = Some (us', g')"
  shows "calm i g g' \<and> map untimed us' = map untimed us"
  using assms
proof (induction us arbitrary: g us')
  case (Cons u us)
  obtain u1 g1 where 1: "stop_urr_timers (g_timer_last_run g) u g = (u1, g1)"
    by (metis surj_pair)
  obtain us2 where 2: "foreach_upd (\<lambda>urr g. Some (stop_urr_timers (g_timer_last_run g) urr g)) us g1 = Some (us2, g')"
      "us' = u1 # us2"
    using Cons.prems 1 by (auto simp: bind_eq_Some_conv)
  have "calm i g g1" "untimed u1 = untimed u"
    using calm_stop_urr_timers(1) [of i g "g_timer_last_run g" u] calm_stop_urr_timers(2) [of "g_timer_last_run g" u g]
    by (simp_all add: 1)
  then show ?case
    using Cons.IH [OF 2(1)] calm_trans 2(2) by auto
qed simp

lemma calm_detach:
  assumes "node_assoc_detach_session j g = Some g'"
  shows "calm i g g'"
  using assms
  by (auto simp: node_assoc_detach_session_def update_session_def put_session_def calm_def bind_eq_Some_conv split: if_splits)

lemma disable_session_urrs:
  assumes dis: "pfcp_disable_session lib i g = Some g'" and us: "active_urrs i g = Some us"
  shows "g_now g' = g_now g" "g_vlib_now g' = g_vlib_now g"
    "\<exists>us'. active_urrs i g' = Some us' \<and> map untimed us' = map untimed us"
proof -
  obtain sx where sx: "g_sessions g i = Some sx" "us = elts (r_urr (pfcp_get_rules sx PFCP_ACTIVE))"
    using us by (auto simp: active_urrs_def bind_eq_Some_conv)
  let ?active = "pfcp_get_rules sx PFCP_ACTIVE"
  define routes where "routes = (\<lambda>g. fold (\<lambda>acl. pfcp_add_del_v6_tdf lib i acl False) (r_v6_acls ?active)
    (fold (\<lambda>acl. pfcp_add_del_v4_tdf lib i acl False) (r_v4_acls ?active)
      (fold (\<lambda>ue_ip. pfcp_add_del_ue_ip lib i ue_ip False) (r_ue_src_ip ?active)
        (fold (\<lambda>ue_ip. pfcp_add_del_ue_ip lib i ue_ip False) (r_ue_dst_ip ?active)
          (fold (\<lambda>e. pfcp_add_del_v6_teid i e False) (r_v6_teid ?active)
            (fold (\<lambda>e. pfcp_add_del_v4_teid i e False) (r_v4_teid ?active) g))))))"
  have op: "calm i g (pfcp_add_del_v4_teid i e4 False g)" "calm i g (pfcp_add_del_v6_teid i e6 False g)"
    "calm i g (pfcp_add_del_ue_ip lib i ue_ip False g)" "calm i g (pfcp_add_del_tdf lib is_ip4 i acl False g)"
    for e4 e6 ue_ip is_ip4 acl g
    by (simp_all add: calm_def pfcp_add_del_v4_teid_def pfcp_add_del_v6_teid_def pfcp_add_del_ue_ip_def pfcp_add_del_tdf_def Let_def)
  have routes: "calm i g (routes g)" for g
    unfolding routes_def pfcp_add_del_v4_tdf_def pfcp_add_del_v6_tdf_def
    by (rule calm_trans [OF calm_fold [OF op(1)] calm_trans [OF calm_fold [OF op(2)] calm_trans [OF calm_fold [OF op(3)]
            calm_trans [OF calm_fold [OF op(3)] calm_trans [OF calm_fold [OF op(4)] calm_fold [OF op(4)]]]]]])
  define g1 where "g1 = routes (g\<lparr>g_session_by_id := (g_session_by_id g)(s_cp_seid sx := None)\<rparr>)"
  let ?stop = "upf_pfcp_session_stop_up_inactivity_timer (r_inactivity_timer ?active)"
  obtain g2 us' g3 where g2: "node_assoc_detach_session i g1 = Some g2"
    and g3: "foreach_upd (\<lambda>urr g. Some (stop_urr_timers (g_timer_last_run g) urr g)) us g2 = Some (us', g3)"
    and last: "update_session i (put_rules PFCP_ACTIVE (?active\<lparr>r_urr := map_option (\<lambda>_. us') (r_urr ?active),
        r_inactivity_timer := fst (?stop g3)\<rparr>)) (snd (?stop g3)) \<bind>
      (\<lambda>g. Some (g\<lparr>g_sessions_counter := g_sessions_counter g - 1\<rparr>)) = Some g'"
    using dis sx(1)
    by (auto simp: pfcp_disable_session_def sx(2) g1_def routes_def Let_def bind_eq_Some_conv case_prod_beta)
  have "calm i g g1"
    using routes [of "g\<lparr>g_session_by_id := (g_session_by_id g)(s_cp_seid sx := None)\<rparr>"] by (simp add: g1_def calm_def)
  also have "calm i g1 g2"
    using calm_detach [OF g2] .
  also have "calm i g2 g3"
    using calm_stop_urrs [OF g3] by blast
  finally have calm: "calm i g g3" .
  note same = calm_stop_urrs [OF g3, THEN conjunct2]
  obtain t g4 where g4: "?stop g3 = (t, g4)"
    by (metis surj_pair)
  then obtain sx4 where g': "g' = (put_session i (put_rules PFCP_ACTIVE (?active\<lparr>r_urr := map_option (\<lambda>_. us') (r_urr ?active),
        r_inactivity_timer := t\<rparr>) sx4) g4)\<lparr>g_sessions_counter := g_sessions_counter g4 - 1\<rparr>"
    using last by (auto simp: update_session_def bind_eq_Some_conv put_session_def)
  have "g_now g4 = g_now g3" "g_vlib_now g4 = g_vlib_now g3"
    using g4 by (auto simp: upf_pfcp_session_stop_up_inactivity_timer_def stop_timer_def)
  then show "g_now g' = g_now g" "g_vlib_now g' = g_vlib_now g"
    using calm by (simp_all add: g' calm_def put_session_def)
  have "length us' = length us"
    using same by (metis length_map)
  then have "active_urrs i g' = Some us'"
    by (simp add: active_urrs_def g' put_session_def elts_map sx(2))
  then show "\<exists>us'. active_urrs i g' = Some us' \<and> map untimed us' = map untimed us"
    using same by blast
qed

section \<open>What freeing a session does not look at\<close>

lemma foreach_commutes:
  "(\<And>x s. f x (h s) = map_option h (f x s)) \<Longrightarrow> foreach f xs (h s) = map_option h (foreach f xs s)"
proof (induction xs arbitrary: s)
  case (Cons x xs)
  then show ?case
    by (cases "f x s") simp_all
qed simp

definition free_refs :: "rules_t \<Rightarrow> upf_main_t \<Rightarrow> upf_main_t option" where
  "free_refs rules g = foreach pfcp_free_pdr (elts (r_pdr rules)) g \<bind> foreach pfcp_free_qer (elts (r_qer rules))"

lemma free_refs_sessions: "free_refs rules (g\<lparr>g_sessions := ss\<rparr>) = map_option (\<lambda>g. g\<lparr>g_sessions := ss\<rparr>) (free_refs rules g)"
proof -
  have pdr: "pfcp_free_pdr pdr (g\<lparr>g_sessions := ss\<rparr>) = map_option (\<lambda>g. g\<lparr>g_sessions := ss\<rparr>) (pfcp_free_pdr pdr g)" for pdr g
    by (cases "g_adf_ref_cnt g (adr_db_id (pdi_adr (pdr_pdi pdr)))") (simp_all add: pfcp_free_pdr_def upf_adf_put_adr_db_def)
  have qer: "pfcp_free_qer q (g\<lparr>g_sessions := ss\<rparr>) = map_option (\<lambda>g. g\<lparr>g_sessions := ss\<rparr>) (pfcp_free_qer q g)" for q g
    by (cases "g_qer_policers g (unat (qer_policer_value q))") (simp_all add: pfcp_free_qer_def detach_qer_policer_def Let_def)
  show ?thesis
    unfolding free_refs_def foreach_commutes [where h = "\<lambda>g. g\<lparr>g_sessions := ss\<rparr>" and f = pfcp_free_pdr, OF pdr]
    by (cases "foreach pfcp_free_pdr (elts (r_pdr rules)) g")
      (simp_all add: foreach_commutes [where h = "\<lambda>g. g\<lparr>g_sessions := ss\<rparr>" and f = pfcp_free_qer, OF qer])
qed

lemma free_refs_keeps: "free_refs rules g = Some g' \<Longrightarrow> g_sessions g' = g_sessions g"
  using free_refs_sessions [of rules "g_sessions g" g] by (cases g') (auto dest: arg_cong [of _ _ g_sessions])

lemma free_session_urrs:
  assumes "put_urrs i us g = Some g'"
  shows "pfcp_free_session i g' = pfcp_free_session i g"
proof -
  obtain sx where sx: "g_sessions g i = Some sx"
    using assms by (auto simp: put_urrs_def update_session_def bind_eq_Some_conv)
  let ?r = "pfcp_get_rules sx PFCP_ACTIVE"
  let ?sx' = "put_rules PFCP_ACTIVE (?r\<lparr>r_urr := map_option (\<lambda>_. us) (r_urr ?r)\<rparr>) sx"
  have g': "g' = g\<lparr>g_sessions := (g_sessions g)(i \<mapsto> ?sx')\<rparr>"
    using assms sx by (simp add: put_urrs_def update_session_def put_session_def Let_def)
  have refs: "pfcp_free_rules i PFCP_ACTIVE g = free_refs (pfcp_get_rules sx PFCP_ACTIVE) g \<bind> update_session i (put_rules PFCP_ACTIVE zero_rules)"
    if "g_sessions g i = Some sx" for g sx
    using that by (simp add: pfcp_free_rules_def free_refs_def Let_def)
  have "free_refs (pfcp_get_rules ?sx' PFCP_ACTIVE) = free_refs ?r"
    by (simp add: free_refs_def fun_eq_iff)
  then have eqs: "pfcp_free_rules i PFCP_ACTIVE g = free_refs ?r g \<bind> update_session i (put_rules PFCP_ACTIVE zero_rules)"
    "pfcp_free_rules i PFCP_ACTIVE g' = free_refs ?r g' \<bind> update_session i (put_rules PFCP_ACTIVE zero_rules)"
    "free_refs ?r g' = map_option (\<lambda>h. h\<lparr>g_sessions := (g_sessions g)(i \<mapsto> ?sx')\<rparr>) (free_refs ?r g)"
    using refs [OF sx] refs [of g' ?sx'] by (simp_all add: g' free_refs_sessions)
  have put: "put_rules PFCP_ACTIVE zero_rules ?sx' = put_rules PFCP_ACTIVE zero_rules sx"
    by (cases "s_rules sx"; cases "s_active sx") (simp_all add: put_rules_def)
  have "pfcp_free_rules i PFCP_ACTIVE g' = pfcp_free_rules i PFCP_ACTIVE g"
  proof (cases "free_refs ?r g")
    case None
    then show ?thesis
      unfolding eqs by simp
  next
    case (Some g2)
    then have "g_sessions g2 = g_sessions g"
      by (rule free_refs_keeps)
    then show ?thesis
      unfolding eqs Some using sx by (simp add: update_session_def put_session_def put)
  qed
  then show ?thesis
    by (simp add: pfcp_free_session_def)
qed

section \<open>The last reports\<close>

lemma build_reports_nothing_left:
  assumes "build_reports lib vnow ue now liusa idx evs us = Some (us', rs)" "length evs = length us"
    "\<forall>ev \<in> set evs. ev_triggers ev \<noteq> 0 \<and> ev_triggers ev AND USAGE_REPORT_TRIGGER_START_OF_TRAFFIC = 0"
  shows "\<forall>u \<in> set us'. unreported d u = 0"
  using assms
proof (induction evs arbitrary: idx us us' rs)
  case (Cons ev evs)
  obtain u us0 where us: "us = u # us0"
    using Cons.prems(2) by (cases us) auto
  obtain u1 rs1 us2 rs2 where "report_usage_ev lib vnow ue (ev_triggers ev) (ev_now ev) u = Some (u1, rs1)"
      "build_reports lib vnow ue now liusa (Suc idx) evs us0 = Some (us2, rs2)" and us': "us' = u1 # us2"
    using Cons.prems(1,3) by (auto simp: us bind_eq_Some_conv)
  note parts = this(1,2)
  have "unreported d u1 = 0"
    using report_usage_ev_accounts(4) [OF parts(1), of d] Cons.prems(3) by simp
  then show ?case
    using Cons.IH [OF parts(2)] Cons.prems(2,3) by (simp add: us us')
qed auto

lemma report_all_complete:
  assumes us: "active_urrs i g = Some us" "distinct (map urr_id us)" "\<forall>u \<in> set us. clock_ok (g_vlib_now g) (g_now g) u"
    and trigger: "trigger \<noteq> 0" "\<not> bit trigger 4"
  shows "\<exists>rs us' g'. report_all lib trigger i g = Some (rs, g') \<and> put_urrs i us' g = Some g'
    \<and> (\<forall>u \<in> set us. bit (urr_methods u) 1 \<longrightarrow> reported d (urr_id u) rs = unreported d u)"
proof -
  let ?report = "upf_usage_report_set trigger (g_now g) (upf_usage_report_init (length us))"
  have evs: "length (rp_events ?report) = length us" "\<forall>ev \<in> set (rp_events ?report). ev_now ev = g_now g"
    "\<forall>ev \<in> set (rp_events ?report). ev_triggers ev = trigger"
    by (auto simp: upf_usage_report_set_def upf_usage_report_init_def)
  obtain us' rs where build: "build_reports lib (g_vlib_now g) None (g_now g) (rp_liusa_bitmap ?report) 0 (rp_events ?report) us = Some (us', rs)"
    using all_reports_return [OF us(3) evs(1,2)] by blast
  have acc: "accounts d UNIV (\<lambda>_. 0) (\<lambda>i. reported d i rs) us us'"
    by (rule report_build_accounts [OF build [folded upf_usage_report_build_def] us(2)]) (use trigger(2) in \<open>rule no_start_due_set\<close>)
  have "\<forall>u \<in> set us'. unreported d u = 0"
    by (rule build_reports_nothing_left [OF build evs(1)]) (use evs(3) trigger in \<open>auto simp: bit_BIT\<close>)
  then have "reported d (urr_id u) rs = unreported d u" if "u \<in> set us" "bit (urr_methods u) 1" for u
    using acc that unfolding accounts_def list_all2_conv_all_nth by (metis (no_types) UNIV_I add.right_neutral in_set_conv_nth)
  moreover obtain g' where "put_urrs i us' g = Some g'"
    using us(1) by (auto simp: put_urrs_def update_session_def active_urrs_def bind_eq_Some_conv)
  ultimately show ?thesis
    using us(1) build by (auto simp: report_all_def upf_usage_report_build_def Let_def bind_eq_Some_conv)
qed

lemma delete_session_effect:
  assumes lists: "session_lists g L" "n \<in> dom (g_node_sessions g)" "i \<in> set (L n)"
    and sx: "g_sessions g i = Some sx" and rel: "releasable g [i]" and known: "entries_known g i"
    and del: "pfcp_disable_session lib i g \<bind> pfcp_free_session i = Some g'"
  shows "g_sessions g' i = None" "session_lists g' (L(n := remove1 i (L n)))" "no_entries g' i"
    "x \<noteq> i \<Longrightarrow> map_option unlinked (g_sessions g' x) = map_option unlinked (g_sessions g x)"
proof -
  show "g_sessions g' i = None" "session_lists g' (L(n := remove1 i (L n)))"
    using delete_session_list [OF lists rel, of lib] del by simp_all
  obtain ys zs where split: "L n = ys @ i # zs"
    using lists(3) split_list by metis
  then have "deleted n (set (ys @ i # zs)) i sx g g'"
    using delete_session [of g n ys i zs sx lib] session_listsD [OF lists(1,2)] sx releasable_Cons [OF rel sx] del by simp
  then show "no_entries g' i" "x \<noteq> i \<Longrightarrow> map_option unlinked (g_sessions g' x) = map_option unlinked (g_sessions g x)"
    using deleted_no_entries [OF _ sx known] by (auto simp: deleted_def)
qed

lemma final_reports:
  assumes dis: "pfcp_disable_session lib i g = Some g1" and us: "active_urrs i g = Some us" "distinct (map urr_id us)"
    "\<forall>u \<in> set us. clock_ok (g_vlib_now g) (g_now g) u"
  shows "\<exists>us1 rs us' g2. active_urrs i g1 = Some us1 \<and> length us1 = length us
    \<and> report_all lib USAGE_REPORT_TRIGGER_TERMINATION_REPORT i g1 = Some (rs, g2) \<and> put_urrs i us' g1 = Some g2
    \<and> (\<forall>u \<in> set us. bit (urr_methods u) 1 \<longrightarrow> reported d (urr_id u) rs = unreported d u)"
proof -
  obtain us1 where us1: "active_urrs i g1 = Some us1" "map untimed us1 = map untimed us"
    and clocks: "g_now g1 = g_now g" "g_vlib_now g1 = g_vlib_now g"
    using disable_session_urrs [OF dis us(1)] by blast
  have len: "length us1 = length us"
    using us1(2) by (metis length_map)
  have same: "urr_id (us1 ! k) = urr_id (us ! k)" "urr_methods (us1 ! k) = urr_methods (us ! k)"
    "unreported d (us1 ! k) = unreported d (us ! k)" "clock_ok vnow now (us1 ! k) = clock_ok vnow now (us ! k)"
    if "k < length us" for k vnow now
    using untimed_same [of "us1 ! k" "us ! k"] us1(2) that len by (metis nth_map)+
  then have "map urr_id us1 = map urr_id us"
    using len by (simp add: list_eq_iff_nth_eq)
  then have "distinct (map urr_id us1)"
    using us(2) by simp
  moreover have "\<forall>u \<in> set us1. clock_ok (g_vlib_now g1) (g_now g1) u"
    using us(3) same(4) len unfolding clocks by (metis in_set_conv_nth)
  ultimately obtain rs us' g2 where r: "report_all lib USAGE_REPORT_TRIGGER_TERMINATION_REPORT i g1 = Some (rs, g2)"
      "put_urrs i us' g1 = Some g2" "\<forall>u \<in> set us1. bit (urr_methods u) 1 \<longrightarrow> reported d (urr_id u) rs = unreported d u"
    using report_all_complete [OF us1(1), of USAGE_REPORT_TRIGGER_TERMINATION_REPORT] by (fastforce simp: bit_BIT BIT_def)
  have "reported d (urr_id u) rs = unreported d u" if u: "u \<in> set us" "bit (urr_methods u) 1" for u
  proof -
    obtain k where k: "k < length us" "u = us ! k"
      using u(1) by (metis in_set_conv_nth)
    then have "us1 ! k \<in> set us1"
      using len by simp
    then show ?thesis
      using r(3) same(1-3) [OF k(1)] u(2) k by (metis (no_types))
  qed
  then show ?thesis
    using us1(1) len r(1,2) by blast
qed

text \<open>C39: A deletion request for a session that exists is answered with the final usage reports and leaves nothing of the
  session behind: it is freed and taken out of the list of its association, no SEID and no tunnel leads to it, and all other
  sessions keep their rules. For each volume rule the reports of the response add up to exactly what was measured and not
  reported before. A request for an unknown SEID is refused and changes nothing but the response.
\<close>

theorem session_deleted:
  fixes a :: api_t
  assumes lists: "session_lists (a_main a) L" "n \<in> dom (g_node_sessions (a_main a))" "i \<in> set (L n)"
    and rel: "releasable (a_main a) [i]" "entries_known (a_main a) i"
    and us: "active_urrs i (a_main a) = Some us" "distinct (map urr_id us)"
      "\<forall>u \<in> set us. clock_ok (g_vlib_now (a_main a)) (g_now (a_main a)) u"
  shows "(pfcp_lookup seid (a_main a) = Some i \<longrightarrow>
      returns (handle_session_deletion_request lib seid a) (\<lambda>(r, a'). r = 0
        \<and> re_cause (a_resp a') = PFCP_CAUSE_REQUEST_ACCEPTED
        \<and> g_sessions (a_main a') i = None \<and> session_lists (a_main a') (L(n := remove1 i (L n))) \<and> no_entries (a_main a') i
        \<and> (\<forall>x. x \<noteq> i \<longrightarrow> map_option unlinked (g_sessions (a_main a') x) = map_option unlinked (g_sessions (a_main a) x))
        \<and> (\<forall>u \<in> set us. bit (urr_methods u) 1 \<longrightarrow>
             reported d (urr_id u) (re_usage_report (a_resp a')) = unreported d u)))
    \<and> (pfcp_lookup seid (a_main a) = None \<longrightarrow>
      returns (handle_session_deletion_request lib seid a) (\<lambda>(r, a'). r = -1
        \<and> re_cause (a_resp a') = PFCP_CAUSE_SESSION_CONTEXT_NOT_FOUND \<and> a_main a' = a_main a))"
proof (intro conjI impI)
  assume lookup: "pfcp_lookup seid (a_main a) = Some i"
  obtain sx where sx: "g_sessions (a_main a) i = Some sx"
    using us(1) by (auto simp: active_urrs_def bind_eq_Some_conv)
  obtain g1 g' where g': "pfcp_disable_session lib i (a_main a) = Some g1" "pfcp_free_session i g1 = Some g'"
    using delete_session_list [OF lists rel(1), of lib] by (auto simp: bind_eq_Some_conv elim!: returnsE)
  note effect = delete_session_effect [OF lists sx rel, where lib = lib and g' = g']
  obtain us1 rs us' g2 where rep: "active_urrs i g1 = Some us1" "length us1 = length us"
      "report_all lib USAGE_REPORT_TRIGGER_TERMINATION_REPORT i g1 = Some (rs, g2)" "put_urrs i us' g1 = Some g2"
      "\<forall>u \<in> set us. bit (urr_methods u) 1 \<longrightarrow> reported d (urr_id u) rs = unreported d u"
    using final_reports [OF g'(1) us] by blast
  have g2: "pfcp_free_session i g2 = Some g'"
    using free_session_urrs [OF rep(4)] g'(2) by simp
  show "returns (handle_session_deletion_request lib seid a) (\<lambda>(r, a'). r = 0
        \<and> re_cause (a_resp a') = PFCP_CAUSE_REQUEST_ACCEPTED
        \<and> g_sessions (a_main a') i = None \<and> session_lists (a_main a') (L(n := remove1 i (L n))) \<and> no_entries (a_main a') i
        \<and> (\<forall>x. x \<noteq> i \<longrightarrow> map_option unlinked (g_sessions (a_main a') x) = map_option unlinked (g_sessions (a_main a) x))
        \<and> (\<forall>u \<in> set us. bit (urr_methods u) 1 \<longrightarrow>
             reported d (urr_id u) (re_usage_report (a_resp a')) = unreported d u))"
    using lookup sx g' rep g2 effect
    by (cases "us = []") (auto simp: handle_session_deletion_request_def set_resp_def Let_def resp_field_def)
next
  assume "pfcp_lookup seid (a_main a) = None"
  then show "returns (handle_session_deletion_request lib seid a) (\<lambda>(r, a'). r = -1
        \<and> re_cause (a_resp a') = PFCP_CAUSE_SESSION_CONTEXT_NOT_FOUND \<and> a_main a' = a_main a)"
    by (simp add: handle_session_deletion_request_def set_resp_def)
qed

text \<open>A session with a usage rule that has measured an uplink packet of 100 octets.\<close>

definition used_rule :: upf_urr_t where
  "used_rule = billed_rule\<lparr>urr_volume := (urr_volume billed_rule)\<lparr>v_measure := \<lparr>m_packets = \<lparr>c_ul = 1, c_dl = 0, c_total = 1\<rparr>,
     m_bytes = \<lparr>c_ul = 100, c_dl = 0, c_total = 100\<rparr>, m_consumed = \<lparr>c_ul = 100, c_dl = 0, c_total = 100\<rparr>\<rparr>\<rparr>\<rparr>"

definition used_session :: upf_session_t where
  "used_session = new_session\<lparr>s_cp_seid := 7, s_assoc_prev := NO_INDEX, s_assoc_next := NO_INDEX,
     s_rules := (zero_rules\<lparr>r_urr := Some [used_rule]\<rparr>, zero_rules)\<rparr>"

definition used_state :: upf_main_t where
  "used_state = no_sessions\<lparr>g_sessions := [0 \<mapsto> used_session], g_session_by_id := [7 \<mapsto> 0], g_node_sessions := [0 \<mapsto> 0], g_now := 500\<rparr>"

lemma used_rules:
  "pfcp_get_rules used_session PFCP_ACTIVE = zero_rules\<lparr>r_urr := Some [used_rule]\<rparr>"
  "pfcp_get_rules used_session PFCP_PENDING = zero_rules" "s_nat_addr used_session = None" "s_cp_seid used_session = 7"
  by (simp_all add: used_session_def new_session_def Let_def pfcp_get_rules_def)

theorem session_deleted_witness:
  "returns (handle_session_deletion_request vpp_api 7 (api_state used_state)) (\<lambda>(r, a'). r = 0
     \<and> g_sessions (a_main a') 0 = None \<and> reported TOTAL 3 (re_usage_report (a_resp a')) = 100)"
proof -
  let ?a = "api_state used_state" and ?L = "\<lambda>n. if n = 0 then [0] else [] :: nat list"
  have main: "a_main ?a = used_state"
    by (simp add: api_state_def)
  have "session_lists used_state ?L" "0 \<in> dom (g_node_sessions used_state)" "0 \<in> set (?L 0)"
    by (auto simp: used_state_def no_sessions_def session_lists_def node_list_def used_session_def new_session_def Let_def
        split: option.splits if_splits)
  moreover have "releasable used_state [0]" "entries_known used_state 0"
    by (auto simp: releasable_def references_exist_def both_sets_def entries_known_def used_state_def no_sessions_def used_rules
        zero_rules_def split: if_splits)
  moreover have "active_urrs 0 used_state = Some [used_rule]"
    by (simp add: active_urrs_def used_state_def used_rules)
  moreover have "clock_ok (g_vlib_now used_state) (g_now used_state) used_rule"
    by (simp add: clock_ok_def used_rule_def billed_rule_def quota_urr_def used_state_def no_sessions_def)
  moreover have "pfcp_lookup 7 used_state = Some 0"
    by (simp add: pfcp_lookup_def used_state_def)
  moreover have "urr_id used_rule = 3" "bit (urr_methods used_rule) 1" "unreported TOTAL used_rule = 100"
    by (simp_all add: used_rule_def billed_rule_def quota_urr_def unreported_def bit_numeral_rec)
  ultimately show ?thesis
    using session_deleted [of ?a ?L 0 0 "[used_rule]" 7 vpp_api TOTAL, unfolded main]
    by (auto elim!: returnsE)
qed

end
