(* ===== verification/Pfcp_Ids.thy ===== *)
theory Pfcp_Ids
  imports Main
begin

text \<open>
  The numbers of \<^verbatim>\<open>src/upf/pfcp.h\<close>: message types, information element types, vendors, and the
  positions of the elements in their groups.
\<close>

section \<open>Message types\<close>

abbreviation (input) "PFCP_HEARTBEAT_REQUEST \<equiv> 1 :: nat"
abbreviation (input) "PFCP_HEARTBEAT_RESPONSE \<equiv> 2 :: nat"
abbreviation (input) "PFCP_PFD_MANAGEMENT_REQUEST \<equiv> 3 :: nat"
abbreviation (input) "PFCP_ASSOCIATION_SETUP_REQUEST \<equiv> 5 :: nat"
abbreviation (input) "PFCP_ASSOCIATION_SETUP_RESPONSE \<equiv> 6 :: nat"
abbreviation (input) "PFCP_ASSOCIATION_UPDATE_REQUEST \<equiv> 7 :: nat"
abbreviation (input) "PFCP_ASSOCIATION_UPDATE_RESPONSE \<equiv> 8 :: nat"
abbreviation (input) "PFCP_ASSOCIATION_RELEASE_REQUEST \<equiv> 9 :: nat"
abbreviation (input) "PFCP_ASSOCIATION_RELEASE_RESPONSE \<equiv> 10 :: nat"
abbreviation (input) "PFCP_NODE_REPORT_REQUEST \<equiv> 12 :: nat"
abbreviation (input) "PFCP_NODE_REPORT_RESPONSE \<equiv> 13 :: nat"
abbreviation (input) "PFCP_SESSION_SET_DELETION_REQUEST \<equiv> 14 :: nat"
abbreviation (input) "PFCP_SESSION_SET_DELETION_RESPONSE \<equiv> 15 :: nat"
abbreviation (input) "PFCP_SESSION_ESTABLISHMENT_REQUEST \<equiv> 50 :: nat"
abbreviation (input) "PFCP_SESSION_ESTABLISHMENT_RESPONSE \<equiv> 51 :: nat"
abbreviation (input) "PFCP_SESSION_MODIFICATION_REQUEST \<equiv> 52 :: nat"
abbreviation (input) "PFCP_SESSION_MODIFICATION_RESPONSE \<equiv> 53 :: nat"
abbreviation (input) "PFCP_SESSION_DELETION_REQUEST \<equiv> 54 :: nat"
abbreviation (input) "PFCP_SESSION_DELETION_RESPONSE \<equiv> 55 :: nat"
abbreviation (input) "PFCP_SESSION_REPORT_REQUEST \<equiv> 56 :: nat"
abbreviation (input) "PFCP_SESSION_REPORT_RESPONSE \<equiv> 57 :: nat"
abbreviation (input) "PFCP_VERSION_NOT_SUPPORTED_RESPONSE \<equiv> 11 :: nat"

section \<open>Information element types\<close>

abbreviation (input) "VENDOR_BBF \<equiv> 3561 :: nat"
abbreviation (input) "VENDOR_TRAVELPING \<equiv> 18681 :: nat"

abbreviation (input) "PFCP_IE_CREATE_PDR \<equiv> 1 :: nat"
abbreviation (input) "PFCP_IE_PDI \<equiv> 2 :: nat"
abbreviation (input) "PFCP_IE_CREATE_FAR \<equiv> 3 :: nat"
abbreviation (input) "PFCP_IE_FORWARDING_PARAMETERS \<equiv> 4 :: nat"
abbreviation (input) "PFCP_IE_DUPLICATING_PARAMETERS \<equiv> 5 :: nat"
abbreviation (input) "PFCP_IE_CREATE_URR \<equiv> 6 :: nat"
abbreviation (input) "PFCP_IE_CREATE_QER \<equiv> 7 :: nat"
abbreviation (input) "PFCP_IE_CREATED_PDR \<equiv> 8 :: nat"
abbreviation (input) "PFCP_IE_UPDATE_PDR \<equiv> 9 :: nat"
abbreviation (input) "PFCP_IE_UPDATE_FAR \<equiv> 10 :: nat"
abbreviation (input) "PFCP_IE_UPDATE_FORWARDING_PARAMETERS \<equiv> 11 :: nat"
abbreviation (input) "PFCP_IE_UPDATE_BAR_RESPONSE \<equiv> 12 :: nat"
abbreviation (input) "PFCP_IE_UPDATE_URR \<equiv> 13 :: nat"
abbreviation (input) "PFCP_IE_UPDATE_QER \<equiv> 14 :: nat"
abbreviation (input) "PFCP_IE_REMOVE_PDR \<equiv> 15 :: nat"
abbreviation (input) "PFCP_IE_REMOVE_FAR \<equiv> 16 :: nat"
abbreviation (input) "PFCP_IE_REMOVE_URR \<equiv> 17 :: nat"
abbreviation (input) "PFCP_IE_REMOVE_QER \<equiv> 18 :: nat"
abbreviation (input) "PFCP_IE_CAUSE \<equiv> 19 :: nat"
abbreviation (input) "PFCP_IE_SOURCE_INTERFACE \<equiv> 20 :: nat"
abbreviation (input) "PFCP_IE_F_TEID \<equiv> 21 :: nat"
abbreviation (input) "PFCP_IE_NETWORK_INSTANCE \<equiv> 22 :: nat"
abbreviation (input) "PFCP_IE_SDF_FILTER \<equiv> 23 :: nat"
abbreviation (input) "PFCP_IE_APPLICATION_ID \<equiv> 24 :: nat"
abbreviation (input) "PFCP_IE_GATE_STATUS \<equiv> 25 :: nat"
abbreviation (input) "PFCP_IE_MBR \<equiv> 26 :: nat"
abbreviation (input) "PFCP_IE_GBR \<equiv> 27 :: nat"
abbreviation (input) "PFCP_IE_QER_CORRELATION_ID \<equiv> 28 :: nat"
abbreviation (input) "PFCP_IE_PRECEDENCE \<equiv> 29 :: nat"
abbreviation (input) "PFCP_IE_TRANSPORT_LEVEL_MARKING \<equiv> 30 :: nat"
abbreviation (input) "PFCP_IE_VOLUME_THRESHOLD \<equiv> 31 :: nat"
abbreviation (input) "PFCP_IE_TIME_THRESHOLD \<equiv> 32 :: nat"
abbreviation (input) "PFCP_IE_MONITORING_TIME \<equiv> 33 :: nat"
abbreviation (input) "PFCP_IE_SUBSEQUENT_VOLUME_THRESHOLD \<equiv> 34 :: nat"
abbreviation (input) "PFCP_IE_SUBSEQUENT_TIME_THRESHOLD \<equiv> 35 :: nat"
abbreviation (input) "PFCP_IE_INACTIVITY_DETECTION_TIME \<equiv> 36 :: nat"
abbreviation (input) "PFCP_IE_REPORTING_TRIGGERS \<equiv> 37 :: nat"
abbreviation (input) "PFCP_IE_REDIRECT_INFORMATION \<equiv> 38 :: nat"
abbreviation (input) "PFCP_IE_REPORT_TYPE \<equiv> 39 :: nat"
abbreviation (input) "PFCP_IE_OFFENDING_IE \<equiv> 40 :: nat"
abbreviation (input) "PFCP_IE_FORWARDING_POLICY \<equiv> 41 :: nat"
abbreviation (input) "PFCP_IE_DESTINATION_INTERFACE \<equiv> 42 :: nat"
abbreviation (input) "PFCP_IE_UP_FUNCTION_FEATURES \<equiv> 43 :: nat"
abbreviation (input) "PFCP_IE_APPLY_ACTION \<equiv> 44 :: nat"
abbreviation (input) "PFCP_IE_DOWNLINK_DATA_SERVICE_INFORMATION \<equiv> 45 :: nat"
abbreviation (input) "PFCP_IE_DOWNLINK_DATA_NOTIFICATION_DELAY \<equiv> 46 :: nat"
abbreviation (input) "PFCP_IE_DL_BUFFERING_DURATION \<equiv> 47 :: nat"
abbreviation (input) "PFCP_IE_DL_BUFFERING_SUGGESTED_PACKET_COUNT \<equiv> 48 :: nat"
abbreviation (input) "PFCP_IE_PFCPSMREQ_FLAGS \<equiv> 49 :: nat"
abbreviation (input) "PFCP_IE_PFCPSRRSP_FLAGS \<equiv> 50 :: nat"
abbreviation (input) "PFCP_IE_LOAD_CONTROL_INFORMATION \<equiv> 51 :: nat"
abbreviation (input) "PFCP_IE_SEQUENCE_NUMBER \<equiv> 52 :: nat"
abbreviation (input) "PFCP_IE_METRIC \<equiv> 53 :: nat"
abbreviation (input) "PFCP_IE_OVERLOAD_CONTROL_INFORMATION \<equiv> 54 :: nat"
abbreviation (input) "PFCP_IE_TIMER \<equiv> 55 :: nat"
abbreviation (input) "PFCP_IE_PDR_ID \<equiv> 56 :: nat"
abbreviation (input) "PFCP_IE_F_SEID \<equiv> 57 :: nat"
abbreviation (input) "PFCP_IE_APPLICATION_ID_PFDS \<equiv> 58 :: nat"
abbreviation (input) "PFCP_IE_PFD \<equiv> 59 :: nat"
abbreviation (input) "PFCP_IE_NODE_ID \<equiv> 60 :: nat"
abbreviation (input) "PFCP_IE_PFD_CONTENTS \<equiv> 61 :: nat"
abbreviation (input) "PFCP_IE_MEASUREMENT_METHOD \<equiv> 62 :: nat"
abbreviation (input) "PFCP_IE_USAGE_REPORT_TRIGGER \<equiv> 63 :: nat"
abbreviation (input) "PFCP_IE_MEASUREMENT_PERIOD \<equiv> 64 :: nat"
abbreviation (input) "PFCP_IE_FQ_CSID \<equiv> 65 :: nat"
abbreviation (input) "PFCP_IE_VOLUME_MEASUREMENT \<equiv> 66 :: nat"
abbreviation (input) "PFCP_IE_DURATION_MEASUREMENT \<equiv> 67 :: nat"
abbreviation (input) "PFCP_IE_APPLICATION_DETECTION_INFORMATION \<equiv> 68 :: nat"
abbreviation (input) "PFCP_IE_TIME_OF_FIRST_PACKET \<equiv> 69 :: nat"
abbreviation (input) "PFCP_IE_TIME_OF_LAST_PACKET \<equiv> 70 :: nat"
abbreviation (input) "PFCP_IE_QUOTA_HOLDING_TIME \<equiv> 71 :: nat"
abbreviation (input) "PFCP_IE_DROPPED_DL_TRAFFIC_THRESHOLD \<equiv> 72 :: nat"
abbreviation (input) "PFCP_IE_VOLUME_QUOTA \<equiv> 73 :: nat"
abbreviation (input) "PFCP_IE_TIME_QUOTA \<equiv> 74 :: nat"
abbreviation (input) "PFCP_IE_START_TIME \<equiv> 75 :: nat"
abbreviation (input) "PFCP_IE_END_TIME \<equiv> 76 :: nat"
abbreviation (input) "PFCP_IE_QUERY_URR \<equiv> 77 :: nat"
abbreviation (input) "PFCP_IE_USAGE_REPORT_SMR \<equiv> 78 :: nat"
abbreviation (input) "PFCP_IE_USAGE_REPORT_SDR \<equiv> 79 :: nat"
abbreviation (input) "PFCP_IE_USAGE_REPORT_SRR \<equiv> 80 :: nat"
abbreviation (input) "PFCP_IE_URR_ID \<equiv> 81 :: nat"
abbreviation (input) "PFCP_IE_LINKED_URR_ID \<equiv> 82 :: nat"
abbreviation (input) "PFCP_IE_DOWNLINK_DATA_REPORT \<equiv> 83 :: nat"
abbreviation (input) "PFCP_IE_OUTER_HEADER_CREATION \<equiv> 84 :: nat"
abbreviation (input) "PFCP_IE_CREATE_BAR \<equiv> 85 :: nat"
abbreviation (input) "PFCP_IE_UPDATE_BAR_REQUEST \<equiv> 86 :: nat"
abbreviation (input) "PFCP_IE_REMOVE_BAR \<equiv> 87 :: nat"
abbreviation (input) "PFCP_IE_BAR_ID \<equiv> 88 :: nat"
abbreviation (input) "PFCP_IE_CP_FUNCTION_FEATURES \<equiv> 89 :: nat"
abbreviation (input) "PFCP_IE_USAGE_INFORMATION \<equiv> 90 :: nat"
abbreviation (input) "PFCP_IE_APPLICATION_INSTANCE_ID \<equiv> 91 :: nat"
abbreviation (input) "PFCP_IE_FLOW_INFORMATION \<equiv> 92 :: nat"
abbreviation (input) "PFCP_IE_UE_IP_ADDRESS \<equiv> 93 :: nat"
abbreviation (input) "PFCP_IE_PACKET_RATE \<equiv> 94 :: nat"
abbreviation (input) "PFCP_IE_OUTER_HEADER_REMOVAL \<equiv> 95 :: nat"
abbreviation (input) "PFCP_IE_RECOVERY_TIME_STAMP \<equiv> 96 :: nat"
abbreviation (input) "PFCP_IE_DL_FLOW_LEVEL_MARKING \<equiv> 97 :: nat"
abbreviation (input) "PFCP_IE_HEADER_ENRICHMENT \<equiv> 98 :: nat"
abbreviation (input) "PFCP_IE_ERROR_INDICATION_REPORT \<equiv> 99 :: nat"
abbreviation (input) "PFCP_IE_MEASUREMENT_INFORMATION \<equiv> 100 :: nat"
abbreviation (input) "PFCP_IE_NODE_REPORT_TYPE \<equiv> 101 :: nat"
abbreviation (input) "PFCP_IE_USER_PLANE_PATH_FAILURE_REPORT \<equiv> 102 :: nat"
abbreviation (input) "PFCP_IE_REMOTE_GTP_U_PEER \<equiv> 103 :: nat"
abbreviation (input) "PFCP_IE_UR_SEQN \<equiv> 104 :: nat"
abbreviation (input) "PFCP_IE_UPDATE_DUPLICATING_PARAMETERS \<equiv> 105 :: nat"
abbreviation (input) "PFCP_IE_ACTIVATE_PREDEFINED_RULES \<equiv> 106 :: nat"
abbreviation (input) "PFCP_IE_DEACTIVATE_PREDEFINED_RULES \<equiv> 107 :: nat"
abbreviation (input) "PFCP_IE_FAR_ID \<equiv> 108 :: nat"
abbreviation (input) "PFCP_IE_QER_ID \<equiv> 109 :: nat"
abbreviation (input) "PFCP_IE_OCI_FLAGS \<equiv> 110 :: nat"
abbreviation (input) "PFCP_IE_PFCP_ASSOCIATION_RELEASE_REQUEST \<equiv> 111 :: nat"
abbreviation (input) "PFCP_IE_GRACEFUL_RELEASE_PERIOD \<equiv> 112 :: nat"
abbreviation (input) "PFCP_IE_PDN_TYPE \<equiv> 113 :: nat"
abbreviation (input) "PFCP_IE_FAILED_RULE_ID \<equiv> 114 :: nat"
abbreviation (input) "PFCP_IE_TIME_QUOTA_MECHANISM \<equiv> 115 :: nat"
abbreviation (input) "PFCP_IE_USER_PLANE_IP_RESOURCE_INFORMATION \<equiv> 116 :: nat"
abbreviation (input) "PFCP_IE_USER_PLANE_INACTIVITY_TIMER \<equiv> 117 :: nat"
abbreviation (input) "PFCP_IE_AGGREGATED_URRS \<equiv> 118 :: nat"
abbreviation (input) "PFCP_IE_MULTIPLIER \<equiv> 119 :: nat"
abbreviation (input) "PFCP_IE_AGGREGATED_URR_ID \<equiv> 120 :: nat"
abbreviation (input) "PFCP_IE_SUBSEQUENT_VOLUME_QUOTA \<equiv> 121 :: nat"
abbreviation (input) "PFCP_IE_SUBSEQUENT_TIME_QUOTA \<equiv> 122 :: nat"
abbreviation (input) "PFCP_IE_RQI \<equiv> 123 :: nat"
abbreviation (input) "PFCP_IE_QFI \<equiv> 124 :: nat"
abbreviation (input) "PFCP_IE_QUERY_URR_REFERENCE \<equiv> 125 :: nat"
abbreviation (input) "PFCP_IE_ADDITIONAL_USAGE_REPORTS_INFORMATION \<equiv> 126 :: nat"
abbreviation (input) "PFCP_IE_CREATE_TRAFFIC_ENDPOINT \<equiv> 127 :: nat"
abbreviation (input) "PFCP_IE_CREATED_TRAFFIC_ENDPOINT \<equiv> 128 :: nat"
abbreviation (input) "PFCP_IE_UPDATE_TRAFFIC_ENDPOINT \<equiv> 129 :: nat"
abbreviation (input) "PFCP_IE_REMOVE_TRAFFIC_ENDPOINT \<equiv> 130 :: nat"
abbreviation (input) "PFCP_IE_TRAFFIC_ENDPOINT_ID \<equiv> 131 :: nat"
abbreviation (input) "PFCP_IE_ETHERNET_PACKET_FILTER \<equiv> 132 :: nat"
abbreviation (input) "PFCP_IE_MAC_ADDRESS \<equiv> 133 :: nat"
abbreviation (input) "PFCP_IE_C_TAG \<equiv> 134 :: nat"
abbreviation (input) "PFCP_IE_S_TAG \<equiv> 135 :: nat"
abbreviation (input) "PFCP_IE_ETHERTYPE \<equiv> 136 :: nat"
abbreviation (input) "PFCP_IE_PROXYING \<equiv> 137 :: nat"
abbreviation (input) "PFCP_IE_ETHERNET_FILTER_ID \<equiv> 138 :: nat"
abbreviation (input) "PFCP_IE_ETHERNET_FILTER_PROPERTIES \<equiv> 139 :: nat"
abbreviation (input) "PFCP_IE_SUGGESTED_BUFFERING_PACKETS_COUNT \<equiv> 140 :: nat"
abbreviation (input) "PFCP_IE_USER_ID \<equiv> 141 :: nat"
abbreviation (input) "PFCP_IE_ETHERNET_PDU_SESSION_INFORMATION \<equiv> 142 :: nat"
abbreviation (input) "PFCP_IE_ETHERNET_TRAFFIC_INFORMATION \<equiv> 143 :: nat"
abbreviation (input) "PFCP_IE_MAC_ADDRESSES_DETECTED \<equiv> 144 :: nat"
abbreviation (input) "PFCP_IE_MAC_ADDRESSES_REMOVED \<equiv> 145 :: nat"
abbreviation (input) "PFCP_IE_ETHERNET_INACTIVITY_TIMER \<equiv> 146 :: nat"
abbreviation (input) "PFCP_IE_ADDITIONAL_MONITORING_TIME \<equiv> 147 :: nat"
abbreviation (input) "PFCP_IE_EVENT_QUOTA \<equiv> 148 :: nat"
abbreviation (input) "PFCP_IE_EVENT_THRESHOLD \<equiv> 149 :: nat"
abbreviation (input) "PFCP_IE_SUBSEQUENT_EVENT_QUOTA \<equiv> 150 :: nat"
abbreviation (input) "PFCP_IE_SUBSEQUENT_EVENT_THRESHOLD \<equiv> 151 :: nat"
abbreviation (input) "PFCP_IE_TRACE_INFORMATION \<equiv> 152 :: nat"
abbreviation (input) "PFCP_IE_FRAMED_ROUTE \<equiv> 153 :: nat"
abbreviation (input) "PFCP_IE_FRAMED_ROUTING \<equiv> 154 :: nat"
abbreviation (input) "PFCP_IE_FRAMED_IPV6_ROUTE \<equiv> 155 :: nat"
abbreviation (input) "PFCP_IE_EVENT_TIME_STAMP \<equiv> 156 :: nat"
abbreviation (input) "PFCP_IE_AVERAGING_WINDOW \<equiv> 157 :: nat"
abbreviation (input) "PFCP_IE_PAGING_POLICY_INDICATOR \<equiv> 158 :: nat"
abbreviation (input) "PFCP_IE_APN_DNN \<equiv> 159 :: nat"
abbreviation (input) "PFCP_IE_TGPP_INTERFACE_TYPE \<equiv> 160 :: nat"
abbreviation (input) "PFCP_IE_PFCPSRREQ_FLAGS \<equiv> 161 :: nat"
abbreviation (input) "PFCP_IE_PFCPAUREQ_FLAGS \<equiv> 162 :: nat"
abbreviation (input) "PFCP_IE_ACTIVATION_TIME \<equiv> 163 :: nat"
abbreviation (input) "PFCP_IE_DEACTIVATION_TIME \<equiv> 164 :: nat"
abbreviation (input) "PFCP_IE_CREATE_MAR \<equiv> 165 :: nat"
abbreviation (input) "PFCP_IE_ACCESS_FORWARDING_ACTION_INFORMATION_1 \<equiv> 166 :: nat"
abbreviation (input) "PFCP_IE_ACCESS_FORWARDING_ACTION_INFORMATION_2 \<equiv> 167 :: nat"
abbreviation (input) "PFCP_IE_REMOVE_MAR \<equiv> 168 :: nat"
abbreviation (input) "PFCP_IE_UPDATE_MAR \<equiv> 169 :: nat"
abbreviation (input) "PFCP_IE_MAR_ID \<equiv> 170 :: nat"
abbreviation (input) "PFCP_IE_STEERING_FUNCTIONALITY \<equiv> 171 :: nat"
abbreviation (input) "PFCP_IE_STEERING_MODE \<equiv> 172 :: nat"
abbreviation (input) "PFCP_IE_WEIGHT \<equiv> 173 :: nat"
abbreviation (input) "PFCP_IE_PRIORITY \<equiv> 174 :: nat"
abbreviation (input) "PFCP_IE_UPDATE_ACCESS_FORWARDING_ACTION_INFORMATION_1 \<equiv> 175 :: nat"
abbreviation (input) "PFCP_IE_UPDATE_ACCESS_FORWARDING_ACTION_INFORMATION_2 \<equiv> 176 :: nat"
abbreviation (input) "PFCP_IE_UE_IP_ADDRESS_POOL_IDENTITY \<equiv> 177 :: nat"
abbreviation (input) "PFCP_IE_ALTERNATIVE_SMF_IP_ADDRESS \<equiv> 178 :: nat"
abbreviation (input) "PFCP_IE_QUOTA_VALIDITY_TIME \<equiv> 181 :: nat"
abbreviation (input) "PFCP_IE_UE_IP_ADDRESS_POOL_INFORMATION \<equiv> 233 :: nat"
abbreviation (input) "PFCP_IE_IP_VERSION \<equiv> 258 :: nat"
abbreviation (input) "PFCP_IE_PACKET_REPORT \<equiv> 180 :: nat"
abbreviation (input) "PFCP_IE_TRAFFIC_REPORT_PACKET_TYPE \<equiv> 181 :: nat"
abbreviation (input) "PFCP_IE_TRAFFIC_REPORT_PACKET_HEADER \<equiv> 182 :: nat"
abbreviation (input) "PFCP_IE_TRAFFIC_REPORT_PACKET_DATA \<equiv> 183 :: nat"
abbreviation (input) "PFCP_IE_TP_PACKET_MEASUREMENT \<equiv> 1 :: nat"
abbreviation (input) "PFCP_IE_TP_BUILD_ID \<equiv> 2 :: nat"
abbreviation (input) "PFCP_IE_TP_NOW \<equiv> 3 :: nat"
abbreviation (input) "PFCP_IE_TP_START_TIME \<equiv> 4 :: nat"
abbreviation (input) "PFCP_IE_TP_END_TIME \<equiv> 5 :: nat"
abbreviation (input) "PFCP_IE_TP_ERROR_REPORT \<equiv> 6 :: nat"
abbreviation (input) "PFCP_IE_TP_CREATED_NAT_BINDING \<equiv> 10 :: nat"
abbreviation (input) "PFCP_IE_TP_ERROR_MESSAGE \<equiv> 7 :: nat"
abbreviation (input) "PFCP_IE_TP_FILE_NAME \<equiv> 8 :: nat"
abbreviation (input) "PFCP_IE_TP_LINE_NUMBER \<equiv> 9 :: nat"
abbreviation (input) "PFCP_IE_BBF_UP_FUNCTION_FEATURES \<equiv> 0 :: nat"
abbreviation (input) "PFCP_IE_BBF_NAT_OUTSIDE_ADDRESS \<equiv> 14 :: nat"
abbreviation (input) "PFCP_IE_BBF_APPLY_ACTION \<equiv> 15 :: nat"
abbreviation (input) "PFCP_IE_BBF_NAT_PORT_BLOCK \<equiv> 18 :: nat"
abbreviation (input) "PFCP_IE_BBF_NAT_EXTERNAL_PORT_RANGE \<equiv> 16 :: nat"

section \<open>Positions in the groups\<close>

abbreviation (input) "CREATE_PDR_PDR_ID \<equiv> 0 :: nat"
abbreviation (input) "CREATE_PDR_PRECEDENCE \<equiv> 1 :: nat"
abbreviation (input) "CREATE_PDR_PDI \<equiv> 2 :: nat"
abbreviation (input) "CREATE_PDR_OUTER_HEADER_REMOVAL \<equiv> 3 :: nat"
abbreviation (input) "CREATE_PDR_FAR_ID \<equiv> 4 :: nat"
abbreviation (input) "CREATE_PDR_URR_ID \<equiv> 5 :: nat"
abbreviation (input) "CREATE_PDR_QER_ID \<equiv> 6 :: nat"
abbreviation (input) "CREATE_PDR_ACTIVATE_PREDEFINED_RULES \<equiv> 7 :: nat"
abbreviation (input) "CREATE_PDR_ACTIVATION_TIME \<equiv> 8 :: nat"
abbreviation (input) "CREATE_PDR_DEACTIVATION_TIME \<equiv> 9 :: nat"
abbreviation (input) "CREATE_PDR_MAR_ID \<equiv> 10 :: nat"
abbreviation (input) "PDI_SOURCE_INTERFACE \<equiv> 0 :: nat"
abbreviation (input) "PDI_F_TEID \<equiv> 1 :: nat"
abbreviation (input) "PDI_NETWORK_INSTANCE \<equiv> 2 :: nat"
abbreviation (input) "PDI_UE_IP_ADDRESS \<equiv> 3 :: nat"
abbreviation (input) "PDI_SDF_FILTER \<equiv> 4 :: nat"
abbreviation (input) "PDI_APPLICATION_ID \<equiv> 5 :: nat"
abbreviation (input) "PDI_ETHERNET_PDU_SESSION_INFORMATION \<equiv> 6 :: nat"
abbreviation (input) "PDI_ETHERNET_PACKET_FILTER \<equiv> 7 :: nat"
abbreviation (input) "PDI_QFI \<equiv> 8 :: nat"
abbreviation (input) "PDI_FRAMED_ROUTE \<equiv> 9 :: nat"
abbreviation (input) "PDI_FRAMED_ROUTING \<equiv> 10 :: nat"
abbreviation (input) "PDI_FRAMED_IPV6_ROUTE \<equiv> 11 :: nat"
abbreviation (input) "PDI_SOURCE_INTERFACE_TYPE \<equiv> 12 :: nat"
abbreviation (input) "CREATE_FAR_FAR_ID \<equiv> 0 :: nat"
abbreviation (input) "CREATE_FAR_APPLY_ACTION \<equiv> 1 :: nat"
abbreviation (input) "CREATE_FAR_FORWARDING_PARAMETERS \<equiv> 2 :: nat"
abbreviation (input) "CREATE_FAR_DUPLICATING_PARAMETERS \<equiv> 3 :: nat"
abbreviation (input) "CREATE_FAR_BAR_ID \<equiv> 4 :: nat"
abbreviation (input) "FORWARDING_PARAMETERS_DESTINATION_INTERFACE \<equiv> 0 :: nat"
abbreviation (input) "FORWARDING_PARAMETERS_NETWORK_INSTANCE \<equiv> 1 :: nat"
abbreviation (input) "FORWARDING_PARAMETERS_REDIRECT_INFORMATION \<equiv> 2 :: nat"
abbreviation (input) "FORWARDING_PARAMETERS_OUTER_HEADER_CREATION \<equiv> 3 :: nat"
abbreviation (input) "FORWARDING_PARAMETERS_TRANSPORT_LEVEL_MARKING \<equiv> 4 :: nat"
abbreviation (input) "FORWARDING_PARAMETERS_FORWARDING_POLICY \<equiv> 5 :: nat"
abbreviation (input) "FORWARDING_PARAMETERS_HEADER_ENRICHMENT \<equiv> 6 :: nat"
abbreviation (input) "FORWARDING_PARAMETERS_LINKED_TRAFFIC_ENDPOINT_ID \<equiv> 7 :: nat"
abbreviation (input) "FORWARDING_PARAMETERS_PROXYING \<equiv> 8 :: nat"
abbreviation (input) "FORWARDING_PARAMETERS_DESTINATION_INTERFACE_TYPE \<equiv> 9 :: nat"
abbreviation (input) "FORWARDING_PARAMETERS_BBF_APPLY_ACTION \<equiv> 10 :: nat"
abbreviation (input) "FORWARDING_PARAMETERS_BBF_NAT_PORT_BLOCK \<equiv> 11 :: nat"
abbreviation (input) "DUPLICATING_PARAMETERS_DESTINATION_INTERFACE \<equiv> 0 :: nat"
abbreviation (input) "DUPLICATING_PARAMETERS_OUTER_HEADER_CREATION \<equiv> 1 :: nat"
abbreviation (input) "DUPLICATING_PARAMETERS_TRANSPORT_LEVEL_MARKING \<equiv> 2 :: nat"
abbreviation (input) "DUPLICATING_PARAMETERS_FORWARDING_POLICY \<equiv> 3 :: nat"
abbreviation (input) "CREATE_URR_URR_ID \<equiv> 0 :: nat"
abbreviation (input) "CREATE_URR_MEASUREMENT_METHOD \<equiv> 1 :: nat"
abbreviation (input) "CREATE_URR_REPORTING_TRIGGERS \<equiv> 2 :: nat"
abbreviation (input) "CREATE_URR_MEASUREMENT_PERIOD \<equiv> 3 :: nat"
abbreviation (input) "CREATE_URR_VOLUME_THRESHOLD \<equiv> 4 :: nat"
abbreviation (input) "CREATE_URR_VOLUME_QUOTA \<equiv> 5 :: nat"
abbreviation (input) "CREATE_URR_TIME_THRESHOLD \<equiv> 6 :: nat"
abbreviation (input) "CREATE_URR_TIME_QUOTA \<equiv> 7 :: nat"
abbreviation (input) "CREATE_URR_QUOTA_HOLDING_TIME \<equiv> 8 :: nat"
abbreviation (input) "CREATE_URR_DROPPED_DL_TRAFFIC_THRESHOLD \<equiv> 9 :: nat"
abbreviation (input) "CREATE_URR_QUOTA_VALIDITY_TIME \<equiv> 10 :: nat"
abbreviation (input) "CREATE_URR_MONITORING_TIME \<equiv> 11 :: nat"
abbreviation (input) "CREATE_URR_SUBSEQUENT_VOLUME_THRESHOLD \<equiv> 12 :: nat"
abbreviation (input) "CREATE_URR_SUBSEQUENT_TIME_THRESHOLD \<equiv> 13 :: nat"
abbreviation (input) "CREATE_URR_INACTIVITY_DETECTION_TIME \<equiv> 14 :: nat"
abbreviation (input) "CREATE_URR_LINKED_URR_ID \<equiv> 15 :: nat"
abbreviation (input) "CREATE_URR_MEASUREMENT_INFORMATION \<equiv> 16 :: nat"
abbreviation (input) "CREATE_URR_TIME_QUOTA_MECHANISM \<equiv> 17 :: nat"
abbreviation (input) "CREATE_URR_AGGREGATED_URRS \<equiv> 18 :: nat"
abbreviation (input) "CREATE_URR_FAR_ID_FOR_QUOTE_ACTION \<equiv> 19 :: nat"
abbreviation (input) "CREATE_URR_ETHERNET_INACTIVITY_TIMER \<equiv> 20 :: nat"
abbreviation (input) "CREATE_URR_ADDITIONAL_MONITORING_TIME \<equiv> 21 :: nat"
abbreviation (input) "CREATE_QER_QER_ID \<equiv> 0 :: nat"
abbreviation (input) "CREATE_QER_QER_CORRELATION_ID \<equiv> 1 :: nat"
abbreviation (input) "CREATE_QER_GATE_STATUS \<equiv> 2 :: nat"
abbreviation (input) "CREATE_QER_MBR \<equiv> 3 :: nat"
abbreviation (input) "CREATE_QER_GBR \<equiv> 4 :: nat"
abbreviation (input) "CREATE_QER_PACKET_RATE \<equiv> 5 :: nat"
abbreviation (input) "CREATE_QER_DL_FLOW_LEVEL_MARKING \<equiv> 6 :: nat"
abbreviation (input) "CREATE_QER_QOS_FLOW_IDENTIFIER \<equiv> 7 :: nat"
abbreviation (input) "CREATE_QER_REFLECTIVE_QOS \<equiv> 8 :: nat"
abbreviation (input) "CREATE_QER_PAGING_POLICY_INDICATOR \<equiv> 9 :: nat"
abbreviation (input) "CREATE_QER_AVERAGING_WINDOW \<equiv> 10 :: nat"
abbreviation (input) "CREATED_PDR_PDR_ID \<equiv> 0 :: nat"
abbreviation (input) "CREATED_PDR_F_TEID \<equiv> 1 :: nat"
abbreviation (input) "CREATED_PDR_UE_IP_ADDRESS \<equiv> 2 :: nat"
abbreviation (input) "UPDATE_PDR_PDR_ID \<equiv> 0 :: nat"
abbreviation (input) "UPDATE_PDR_OUTER_HEADER_REMOVAL \<equiv> 1 :: nat"
abbreviation (input) "UPDATE_PDR_PRECEDENCE \<equiv> 2 :: nat"
abbreviation (input) "UPDATE_PDR_PDI \<equiv> 3 :: nat"
abbreviation (input) "UPDATE_PDR_FAR_ID \<equiv> 4 :: nat"
abbreviation (input) "UPDATE_PDR_URR_ID \<equiv> 5 :: nat"
abbreviation (input) "UPDATE_PDR_QER_ID \<equiv> 6 :: nat"
abbreviation (input) "UPDATE_PDR_ACTIVATE_PREDEFINED_RULES \<equiv> 7 :: nat"
abbreviation (input) "UPDATE_PDR_DEACTIVATE_PREDEFINED_RULES \<equiv> 8 :: nat"
abbreviation (input) "UPDATE_PDR_ACTIVATION_TIME \<equiv> 9 :: nat"
abbreviation (input) "UPDATE_PDR_DEACTIVATION_TIME \<equiv> 10 :: nat"
abbreviation (input) "UPDATE_FAR_FAR_ID \<equiv> 0 :: nat"
abbreviation (input) "UPDATE_FAR_APPLY_ACTION \<equiv> 1 :: nat"
abbreviation (input) "UPDATE_FAR_UPDATE_FORWARDING_PARAMETERS \<equiv> 2 :: nat"
abbreviation (input) "UPDATE_FAR_UPDATE_DUPLICATING_PARAMETERS \<equiv> 3 :: nat"
abbreviation (input) "UPDATE_FAR_BAR_ID \<equiv> 4 :: nat"
abbreviation (input) "UPDATE_FORWARDING_PARAMETERS_DESTINATION_INTERFACE \<equiv> 0 :: nat"
abbreviation (input) "UPDATE_FORWARDING_PARAMETERS_NETWORK_INSTANCE \<equiv> 1 :: nat"
abbreviation (input) "UPDATE_FORWARDING_PARAMETERS_REDIRECT_INFORMATION \<equiv> 2 :: nat"
abbreviation (input) "UPDATE_FORWARDING_PARAMETERS_OUTER_HEADER_CREATION \<equiv> 3 :: nat"
abbreviation (input) "UPDATE_FORWARDING_PARAMETERS_TRANSPORT_LEVEL_MARKING \<equiv> 4 :: nat"
abbreviation (input) "UPDATE_FORWARDING_PARAMETERS_FORWARDING_POLICY \<equiv> 5 :: nat"
abbreviation (input) "UPDATE_FORWARDING_PARAMETERS_HEADER_ENRICHMENT \<equiv> 6 :: nat"
abbreviation (input) "UPDATE_FORWARDING_PARAMETERS_PFCPSMREQ_FLAGS \<equiv> 7 :: nat"
abbreviation (input) "UPDATE_FORWARDING_PARAMETERS_LINKED_TRAFFIC_ENDPOINT_ID \<equiv> 8 :: nat"
abbreviation (input) "UPDATE_FORWARDING_PARAMETERS_DESTINATION_INTERFACE_TYPE \<equiv> 9 :: nat"
abbreviation (input) "UPDATE_BAR_RESPONSE_BAR_ID \<equiv> 0 :: nat"
abbreviation (input) "UPDATE_BAR_RESPONSE_DOWNLINK_DATA_NOTIFICATION_DELAY \<equiv> 1 :: nat"
abbreviation (input) "UPDATE_BAR_RESPONSE_DL_BUFFERING_DURATION \<equiv> 2 :: nat"
abbreviation (input) "UPDATE_BAR_RESPONSE_DL_BUFFERING_SUGGESTED_PACKET_COUNT \<equiv> 3 :: nat"
abbreviation (input) "UPDATE_BAR_RESPONSE_SUGGESTED_BUFFERING_PACKETS_COUNT \<equiv> 4 :: nat"
abbreviation (input) "UPDATE_URR_URR_ID \<equiv> 0 :: nat"
abbreviation (input) "UPDATE_URR_MEASUREMENT_METHOD \<equiv> 1 :: nat"
abbreviation (input) "UPDATE_URR_REPORTING_TRIGGERS \<equiv> 2 :: nat"
abbreviation (input) "UPDATE_URR_MEASUREMENT_PERIOD \<equiv> 3 :: nat"
abbreviation (input) "UPDATE_URR_VOLUME_THRESHOLD \<equiv> 4 :: nat"
abbreviation (input) "UPDATE_URR_VOLUME_QUOTA \<equiv> 5 :: nat"
abbreviation (input) "UPDATE_URR_TIME_THRESHOLD \<equiv> 6 :: nat"
abbreviation (input) "UPDATE_URR_TIME_QUOTA \<equiv> 7 :: nat"
abbreviation (input) "UPDATE_URR_QUOTA_HOLDING_TIME \<equiv> 8 :: nat"
abbreviation (input) "UPDATE_URR_DROPPED_DL_TRAFFIC_THRESHOLD \<equiv> 9 :: nat"
abbreviation (input) "UPDATE_URR_QUOTA_VALIDITY_TIME \<equiv> 10 :: nat"
abbreviation (input) "UPDATE_URR_MONITORING_TIME \<equiv> 11 :: nat"
abbreviation (input) "UPDATE_URR_SUBSEQUENT_VOLUME_THRESHOLD \<equiv> 12 :: nat"
abbreviation (input) "UPDATE_URR_SUBSEQUENT_TIME_THRESHOLD \<equiv> 13 :: nat"
abbreviation (input) "UPDATE_URR_INACTIVITY_DETECTION_TIME \<equiv> 14 :: nat"
abbreviation (input) "UPDATE_URR_LINKED_URR_ID \<equiv> 15 :: nat"
abbreviation (input) "UPDATE_URR_MEASUREMENT_INFORMATION \<equiv> 16 :: nat"
abbreviation (input) "UPDATE_URR_TIME_QUOTA_MECHANISM \<equiv> 17 :: nat"
abbreviation (input) "UPDATE_URR_AGGREGATED_URRS \<equiv> 18 :: nat"
abbreviation (input) "UPDATE_URR_FAR_ID_FOR_QUOTE_ACTION \<equiv> 19 :: nat"
abbreviation (input) "UPDATE_URR_ETHERNET_INACTIVITY_TIMER \<equiv> 20 :: nat"
abbreviation (input) "UPDATE_QER_QER_ID \<equiv> 0 :: nat"
abbreviation (input) "UPDATE_QER_QER_CORRELATION_ID \<equiv> 1 :: nat"
abbreviation (input) "UPDATE_QER_GATE_STATUS \<equiv> 2 :: nat"
abbreviation (input) "UPDATE_QER_MBR \<equiv> 3 :: nat"
abbreviation (input) "UPDATE_QER_GBR \<equiv> 4 :: nat"
abbreviation (input) "UPDATE_QER_PACKET_RATE \<equiv> 5 :: nat"
abbreviation (input) "UPDATE_QER_DL_FLOW_LEVEL_MARKING \<equiv> 6 :: nat"
abbreviation (input) "UPDATE_QER_QOS_FLOW_IDENTIFIER \<equiv> 7 :: nat"
abbreviation (input) "UPDATE_QER_REFLECTIVE_QOS \<equiv> 8 :: nat"
abbreviation (input) "UPDATE_QER_PAGING_POLICY_INDICATOR \<equiv> 9 :: nat"
abbreviation (input) "UPDATE_QER_AVERAGING_WINDOW \<equiv> 10 :: nat"
abbreviation (input) "REMOVE_PDR_PDR_ID \<equiv> 0 :: nat"
abbreviation (input) "REMOVE_FAR_FAR_ID \<equiv> 0 :: nat"
abbreviation (input) "REMOVE_URR_URR_ID \<equiv> 0 :: nat"
abbreviation (input) "REMOVE_QER_QER_ID \<equiv> 0 :: nat"
abbreviation (input) "LOAD_CONTROL_INFORMATION_SEQUENCE_NUMBER \<equiv> 0 :: nat"
abbreviation (input) "LOAD_CONTROL_INFORMATION_METRIC \<equiv> 1 :: nat"
abbreviation (input) "OVERLOAD_CONTROL_INFORMATION_SEQUENCE_NUMBER \<equiv> 0 :: nat"
abbreviation (input) "OVERLOAD_CONTROL_INFORMATION_METRIC \<equiv> 1 :: nat"
abbreviation (input) "OVERLOAD_CONTROL_INFORMATION_TIMER \<equiv> 2 :: nat"
abbreviation (input) "OVERLOAD_CONTROL_INFORMATION_OCI_FLAGS \<equiv> 3 :: nat"
abbreviation (input) "APPLICATION_ID_PFDS_APPLICATION_ID \<equiv> 0 :: nat"
abbreviation (input) "APPLICATION_ID_PFDS_PFD \<equiv> 1 :: nat"
abbreviation (input) "PFD_PFD_CONTENTS \<equiv> 0 :: nat"
abbreviation (input) "APPLICATION_DETECTION_INFORMATION_APPLICATION_ID \<equiv> 0 :: nat"
abbreviation (input) "APPLICATION_DETECTION_INFORMATION_APPLICATION_INSTANCE_ID \<equiv> 1 :: nat"
abbreviation (input) "APPLICATION_DETECTION_INFORMATION_FLOW_INFORMATION \<equiv> 2 :: nat"
abbreviation (input) "QUERY_URR_URR_ID \<equiv> 0 :: nat"
abbreviation (input) "USAGE_REPORT_URR_ID \<equiv> 0 :: nat"
abbreviation (input) "USAGE_REPORT_UR_SEQN \<equiv> 1 :: nat"
abbreviation (input) "USAGE_REPORT_USAGE_REPORT_TRIGGER \<equiv> 2 :: nat"
abbreviation (input) "USAGE_REPORT_START_TIME \<equiv> 3 :: nat"
abbreviation (input) "USAGE_REPORT_END_TIME \<equiv> 4 :: nat"
abbreviation (input) "USAGE_REPORT_VOLUME_MEASUREMENT \<equiv> 5 :: nat"
abbreviation (input) "USAGE_REPORT_DURATION_MEASUREMENT \<equiv> 6 :: nat"
abbreviation (input) "USAGE_REPORT_TIME_OF_FIRST_PACKET \<equiv> 10 :: nat"
abbreviation (input) "USAGE_REPORT_TIME_OF_LAST_PACKET \<equiv> 11 :: nat"
abbreviation (input) "USAGE_REPORT_USAGE_INFORMATION \<equiv> 12 :: nat"
abbreviation (input) "USAGE_REPORT_QUERY_URR_REFERENCE \<equiv> 13 :: nat"
abbreviation (input) "USAGE_REPORT_EVENT_TIME_STAMP \<equiv> 14 :: nat"
abbreviation (input) "USAGE_REPORT_ETHERNET_TRAFFIC_INFORMATION \<equiv> 15 :: nat"
abbreviation (input) "USAGE_REPORT_TP_NOW \<equiv> 16 :: nat"
abbreviation (input) "USAGE_REPORT_TP_START_TIME \<equiv> 17 :: nat"
abbreviation (input) "USAGE_REPORT_TP_END_TIME \<equiv> 18 :: nat"
abbreviation (input) "TRAFFIC_REPORT_PACKET_TYPE \<equiv> 0 :: nat"
abbreviation (input) "TRAFFIC_REPORT_PACKET_HEADER \<equiv> 1 :: nat"
abbreviation (input) "TRAFFIC_REPORT_PACKET_DATA \<equiv> 2 :: nat"
abbreviation (input) "USAGE_REPORT_APPLICATION_DETECTION_INFORMATION \<equiv> 7 :: nat"
abbreviation (input) "USAGE_REPORT_UE_IP_ADDRESS \<equiv> 8 :: nat"
abbreviation (input) "USAGE_REPORT_NETWORK_INSTANCE \<equiv> 9 :: nat"
abbreviation (input) "DOWNLINK_DATA_REPORT_PDR_ID \<equiv> 0 :: nat"
abbreviation (input) "DOWNLINK_DATA_REPORT_DOWNLINK_DATA_SERVICE_INFORMATION \<equiv> 1 :: nat"
abbreviation (input) "CREATE_BAR_BAR_ID \<equiv> 0 :: nat"
abbreviation (input) "CREATE_BAR_DOWNLINK_DATA_NOTIFICATION_DELAY \<equiv> 1 :: nat"
abbreviation (input) "CREATE_BAR_SUGGESTED_BUFFERING_PACKETS_COUNT \<equiv> 2 :: nat"
abbreviation (input) "UPDATE_BAR_REQUEST_BAR_ID \<equiv> 0 :: nat"
abbreviation (input) "UPDATE_BAR_REQUEST_DOWNLINK_DATA_NOTIFICATION_DELAY \<equiv> 1 :: nat"
abbreviation (input) "UPDATE_BAR_REQUEST_SUGGESTED_BUFFERING_PACKETS_COUNT \<equiv> 2 :: nat"
abbreviation (input) "REMOVE_BAR_BAR_ID \<equiv> 0 :: nat"
abbreviation (input) "ERROR_INDICATION_REPORT_F_TEID \<equiv> 0 :: nat"
abbreviation (input) "USER_PLANE_PATH_FAILURE_REPORT_REMOTE_GTP_U_PEER \<equiv> 0 :: nat"
abbreviation (input) "UPDATE_DUPLICATING_PARAMETERS_DESTINATION_INTERFACE \<equiv> 0 :: nat"
abbreviation (input) "UPDATE_DUPLICATING_PARAMETERS_OUTER_HEADER_CREATION \<equiv> 1 :: nat"
abbreviation (input) "UPDATE_DUPLICATING_PARAMETERS_TRANSPORT_LEVEL_MARKING \<equiv> 2 :: nat"
abbreviation (input) "UPDATE_DUPLICATING_PARAMETERS_FORWARDING_POLICY \<equiv> 3 :: nat"
abbreviation (input) "AGGREGATED_URRS_AGGREGATED_URR_ID \<equiv> 0 :: nat"
abbreviation (input) "AGGREGATED_URRS_MULTIPLIER \<equiv> 1 :: nat"
abbreviation (input) "CREATE_TRAFFIC_ENDPOINT_TRAFFIC_ENDPOINT_ID \<equiv> 0 :: nat"
abbreviation (input) "CREATE_TRAFFIC_ENDPOINT_F_TEID \<equiv> 1 :: nat"
abbreviation (input) "CREATE_TRAFFIC_ENDPOINT_NETWORK_INSTANCE \<equiv> 2 :: nat"
abbreviation (input) "CREATE_TRAFFIC_ENDPOINT_UE_IP_ADDRESS \<equiv> 3 :: nat"
abbreviation (input) "CREATE_TRAFFIC_ENDPOINT_ETHERNET_PDU_SESSION_INFORMATION \<equiv> 4 :: nat"
abbreviation (input) "CREATE_TRAFFIC_ENDPOINT_FRAMED_ROUTE \<equiv> 5 :: nat"
abbreviation (input) "CREATE_TRAFFIC_ENDPOINT_FRAMED_ROUTING \<equiv> 6 :: nat"
abbreviation (input) "CREATE_TRAFFIC_ENDPOINT_FRAMED_IPV6_ROUTE \<equiv> 7 :: nat"
abbreviation (input) "CREATED_TRAFFIC_ENDPOINT_TRAFFIC_ENDPOINT_ID \<equiv> 0 :: nat"
abbreviation (input) "CREATED_TRAFFIC_ENDPOINT_F_TEID \<equiv> 1 :: nat"
abbreviation (input) "CREATED_TRAFFIC_ENDPOINT_UE_IP_ADDRESS \<equiv> 2 :: nat"
abbreviation (input) "UPDATE_TRAFFIC_ENDPOINT_TRAFFIC_ENDPOINT_ID \<equiv> 0 :: nat"
abbreviation (input) "UPDATE_TRAFFIC_ENDPOINT_F_TEID \<equiv> 1 :: nat"
abbreviation (input) "UPDATE_TRAFFIC_ENDPOINT_NETWORK_INSTANCE \<equiv> 2 :: nat"
abbreviation (input) "UPDATE_TRAFFIC_ENDPOINT_UE_IP_ADDRESS \<equiv> 3 :: nat"
abbreviation (input) "UPDATE_TRAFFIC_ENDPOINT_FRAMED_ROUTE \<equiv> 4 :: nat"
abbreviation (input) "UPDATE_TRAFFIC_ENDPOINT_FRAMED_ROUTING \<equiv> 5 :: nat"
abbreviation (input) "UPDATE_TRAFFIC_ENDPOINT_FRAMED_IPV6_ROUTE \<equiv> 6 :: nat"
abbreviation (input) "REMOVE_TRAFFIC_ENDPOINT_TRAFFIC_ENDPOINT_ID \<equiv> 0 :: nat"
abbreviation (input) "ETHERNET_PACKET_FILTER_ETHERNET_FILTER_ID \<equiv> 0 :: nat"
abbreviation (input) "ETHERNET_PACKET_FILTER_ETHERNET_FILTER_PROPERTIES \<equiv> 1 :: nat"
abbreviation (input) "ETHERNET_PACKET_FILTER_MAC_ADDRESS \<equiv> 2 :: nat"
abbreviation (input) "ETHERNET_PACKET_FILTER_ETHERTYPE \<equiv> 3 :: nat"
abbreviation (input) "ETHERNET_PACKET_FILTER_C_TAG \<equiv> 4 :: nat"
abbreviation (input) "ETHERNET_PACKET_FILTER_S_TAG \<equiv> 5 :: nat"
abbreviation (input) "ETHERNET_PACKET_FILTER_SDF_FILTER \<equiv> 6 :: nat"
abbreviation (input) "ETHERNET_TRAFFIC_INFORMATION_MAC_ADDRESSES_DETECTED \<equiv> 0 :: nat"
abbreviation (input) "ETHERNET_TRAFFIC_INFORMATION_MAC_ADDRESSES_REMOVED \<equiv> 1 :: nat"
abbreviation (input) "ADDITIONAL_MONITORING_TIME_MONITORING_TIME \<equiv> 0 :: nat"
abbreviation (input) "ADDITIONAL_MONITORING_TIME_SUBSEQUENT_VOLUME_THRESHOLD \<equiv> 1 :: nat"
abbreviation (input) "ADDITIONAL_MONITORING_TIME_SUBSEQUENT_TIME_THRESHOLD \<equiv> 2 :: nat"
abbreviation (input) "ADDITIONAL_MONITORING_TIME_SUBSEQUENT_VOLUME_QUOTA \<equiv> 3 :: nat"
abbreviation (input) "ADDITIONAL_MONITORING_TIME_SUBSEQUENT_TIME_QUOTA \<equiv> 4 :: nat"
abbreviation (input) "CREATE_MAR_MAR_ID \<equiv> 0 :: nat"
abbreviation (input) "CREATE_MAR_STEERING_FUNCTIONALITY \<equiv> 1 :: nat"
abbreviation (input) "CREATE_MAR_STEERING_MODE \<equiv> 2 :: nat"
abbreviation (input) "CREATE_MAR_ACCESS_FORWARDING_ACTION_INFORMATION_1 \<equiv> 3 :: nat"
abbreviation (input) "CREATE_MAR_ACCESS_FORWARDING_ACTION_INFORMATION_2 \<equiv> 4 :: nat"
abbreviation (input) "ACCESS_FORWARDING_ACTION_INFORMATION_FAR_ID \<equiv> 0 :: nat"
abbreviation (input) "ACCESS_FORWARDING_ACTION_INFORMATION_WEIGHT \<equiv> 1 :: nat"
abbreviation (input) "ACCESS_FORWARDING_ACTION_INFORMATION_PRIORITY \<equiv> 2 :: nat"
abbreviation (input) "ACCESS_FORWARDING_ACTION_INFORMATION_URR_ID \<equiv> 3 :: nat"
abbreviation (input) "REMOVE_MAR_MAR_ID \<equiv> 0 :: nat"
abbreviation (input) "UPDATE_MAR_MAR_ID \<equiv> 0 :: nat"
abbreviation (input) "UPDATE_MAR_STEERING_FUNCTIONALITY \<equiv> 1 :: nat"
abbreviation (input) "UPDATE_MAR_STEERING_MODE \<equiv> 2 :: nat"
abbreviation (input) "UPDATE_MAR_UPDATE_ACCESS_FORWARDING_ACTION_INFORMATION_1 \<equiv> 3 :: nat"
abbreviation (input) "UPDATE_MAR_UPDATE_ACCESS_FORWARDING_ACTION_INFORMATION_2 \<equiv> 4 :: nat"
abbreviation (input) "UPDATE_MAR_ACCESS_FORWARDING_ACTION_INFORMATION_1 \<equiv> 5 :: nat"
abbreviation (input) "UPDATE_MAR_ACCESS_FORWARDING_ACTION_INFORMATION_2 \<equiv> 6 :: nat"
abbreviation (input) "UPDATE_ACCESS_FORWARDING_ACTION_INFORMATION_FAR_ID \<equiv> 0 :: nat"
abbreviation (input) "UPDATE_ACCESS_FORWARDING_ACTION_INFORMATION_WEIGHT \<equiv> 1 :: nat"
abbreviation (input) "UPDATE_ACCESS_FORWARDING_ACTION_INFORMATION_PRIORITY \<equiv> 2 :: nat"
abbreviation (input) "UPDATE_ACCESS_FORWARDING_ACTION_INFORMATION_URR_ID \<equiv> 3 :: nat"
abbreviation (input) "UE_IP_ADDRESS_POOL_INFORMATION_POOL_IDENTIFY \<equiv> 0 :: nat"
abbreviation (input) "UE_IP_ADDRESS_POOL_INFORMATION_NETWORK_INSTANCE \<equiv> 1 :: nat"
abbreviation (input) "UE_IP_ADDRESS_POOL_INFORMATION_IP_VERSION \<equiv> 2 :: nat"
abbreviation (input) "UE_IP_ADDRESS_POOL_INFORMATION_BBF_NAT_PORT_BLOCK \<equiv> 3 :: nat"
abbreviation (input) "TP_ERROR_REPORT_TP_ERROR_MESSAGE \<equiv> 0 :: nat"
abbreviation (input) "TP_ERROR_REPORT_TP_FILE_NAME \<equiv> 1 :: nat"
abbreviation (input) "TP_ERROR_REPORT_TP_LINE_NUMBER \<equiv> 2 :: nat"
abbreviation (input) "TP_CREATED_BINDING_NAT_PORT_BLOCK \<equiv> 0 :: nat"
abbreviation (input) "TP_CREATED_BINDING_NAT_OUTSIDE_ADDRESS \<equiv> 1 :: nat"
abbreviation (input) "TP_CREATED_BINDING_NAT_EXTERNAL_PORT_RANGE \<equiv> 2 :: nat"
abbreviation (input) "PFCP_RESPONSE_CAUSE \<equiv> 1 :: nat"
abbreviation (input) "PFCP_RESPONSE_OFFENDING_IE \<equiv> 2 :: nat"
abbreviation (input) "PFCP_RESPONSE_RECOVERY_TIME_STAMP \<equiv> 3 :: nat"
abbreviation (input) "PFCP_RESPONSE_TP_ERROR_REPORT \<equiv> 4 :: nat"
abbreviation (input) "HEARTBEAT_REQUEST_RECOVERY_TIME_STAMP \<equiv> 0 :: nat"
abbreviation (input) "PFD_MANAGEMENT_REQUEST_APPLICATION_ID_PFDS \<equiv> 0 :: nat"
abbreviation (input) "ASSOCIATION_SETUP_REQUEST_NODE_ID \<equiv> 0 :: nat"
abbreviation (input) "ASSOCIATION_SETUP_REQUEST_RECOVERY_TIME_STAMP \<equiv> 1 :: nat"
abbreviation (input) "ASSOCIATION_SETUP_REQUEST_CP_FUNCTION_FEATURES \<equiv> 3 :: nat"
abbreviation (input) "ASSOCIATION_SETUP_REQUEST_UP_FUNCTION_FEATURES \<equiv> 2 :: nat"
abbreviation (input) "ASSOCIATION_SETUP_REQUEST_USER_PLANE_IP_RESOURCE_INFORMATION \<equiv> 4 :: nat"
abbreviation (input) "ASSOCIATION_SETUP_REQUEST_TP_BUILD_ID \<equiv> 6 :: nat"
abbreviation (input) "ASSOCIATION_SETUP_REQUEST_UE_IP_ADDRESS_POOL_INFORMATION \<equiv> 5 :: nat"
abbreviation (input) "ASSOCIATION_SETUP_REQUEST_ALTERNATIVE_SMF_IP_ADDRESS \<equiv> 7 :: nat"
abbreviation (input) "ASSOCIATION_PROCEDURE_RESPONSE_NODE_ID \<equiv> 0 :: nat"
abbreviation (input) "ASSOCIATION_PROCEDURE_RESPONSE_CAUSE \<equiv> 1 :: nat"
abbreviation (input) "ASSOCIATION_PROCEDURE_RESPONSE_TP_ERROR_REPORT \<equiv> 8 :: nat"
abbreviation (input) "ASSOCIATION_PROCEDURE_RESPONSE_RECOVERY_TIME_STAMP \<equiv> 2 :: nat"
abbreviation (input) "ASSOCIATION_PROCEDURE_RESPONSE_CP_FUNCTION_FEATURES \<equiv> 4 :: nat"
abbreviation (input) "ASSOCIATION_PROCEDURE_RESPONSE_UP_FUNCTION_FEATURES \<equiv> 3 :: nat"
abbreviation (input) "ASSOCIATION_PROCEDURE_RESPONSE_BBF_UP_FUNCTION_FEATURES \<equiv> 5 :: nat"
abbreviation (input) "ASSOCIATION_PROCEDURE_RESPONSE_USER_PLANE_IP_RESOURCE_INFORMATION \<equiv> 7 :: nat"
abbreviation (input) "ASSOCIATION_PROCEDURE_RESPONSE_TP_BUILD_ID \<equiv> 9 :: nat"
abbreviation (input) "ASSOCIATION_PROCEDURE_RESPONSE_UE_IP_ADDRESS_POOL_INFORMATION \<equiv> 6 :: nat"
abbreviation (input) "ASSOCIATION_UPDATE_REQUEST_NODE_ID \<equiv> 0 :: nat"
abbreviation (input) "ASSOCIATION_UPDATE_REQUEST_CP_FUNCTION_FEATURES \<equiv> 1 :: nat"
abbreviation (input) "ASSOCIATION_UPDATE_REQUEST_UP_FUNCTION_FEATURES \<equiv> 2 :: nat"
abbreviation (input) "ASSOCIATION_UPDATE_REQUEST_PFCP_ASSOCIATION_RELEASE_REQUEST \<equiv> 3 :: nat"
abbreviation (input) "ASSOCIATION_UPDATE_REQUEST_GRACEFUL_RELEASE_PERIOD \<equiv> 4 :: nat"
abbreviation (input) "ASSOCIATION_UPDATE_REQUEST_USER_PLANE_IP_RESOURCE_INFORMATION \<equiv> 6 :: nat"
abbreviation (input) "ASSOCIATION_UPDATE_REQUEST_PFCPAUREQ_FLAGS \<equiv> 7 :: nat"
abbreviation (input) "ASSOCIATION_UPDATE_REQUEST_UE_IP_ADDRESS_POOL_INFORMATION \<equiv> 5 :: nat"
abbreviation (input) "ASSOCIATION_UPDATE_REQUEST_ALTERNATIVE_SMF_IP_ADDRESS \<equiv> 9 :: nat"
abbreviation (input) "ASSOCIATION_RELEASE_REQUEST_NODE_ID \<equiv> 0 :: nat"
abbreviation (input) "NODE_REPORT_REQUEST_NODE_ID \<equiv> 0 :: nat"
abbreviation (input) "NODE_REPORT_REQUEST_NODE_REPORT_TYPE \<equiv> 1 :: nat"
abbreviation (input) "NODE_REPORT_REQUEST_USER_PLANE_PATH_FAILURE_REPORT \<equiv> 2 :: nat"
abbreviation (input) "SESSION_SET_DELETION_REQUEST_NODE_ID \<equiv> 0 :: nat"
abbreviation (input) "SESSION_SET_DELETION_REQUEST_FQ_CSID \<equiv> 1 :: nat"
abbreviation (input) "SESSION_ESTABLISHMENT_REQUEST_NODE_ID \<equiv> 0 :: nat"
abbreviation (input) "SESSION_ESTABLISHMENT_REQUEST_F_SEID \<equiv> 1 :: nat"
abbreviation (input) "SESSION_ESTABLISHMENT_REQUEST_CREATE_PDR \<equiv> 2 :: nat"
abbreviation (input) "SESSION_ESTABLISHMENT_REQUEST_CREATE_FAR \<equiv> 3 :: nat"
abbreviation (input) "SESSION_ESTABLISHMENT_REQUEST_CREATE_URR \<equiv> 4 :: nat"
abbreviation (input) "SESSION_ESTABLISHMENT_REQUEST_CREATE_QER \<equiv> 5 :: nat"
abbreviation (input) "SESSION_ESTABLISHMENT_REQUEST_CREATE_BAR \<equiv> 6 :: nat"
abbreviation (input) "SESSION_ESTABLISHMENT_REQUEST_CREATE_TRAFFIC_ENDPOINT \<equiv> 7 :: nat"
abbreviation (input) "SESSION_ESTABLISHMENT_REQUEST_PDN_TYPE \<equiv> 8 :: nat"
abbreviation (input) "SESSION_ESTABLISHMENT_REQUEST_FQ_CSID \<equiv> 9 :: nat"
abbreviation (input) "SESSION_ESTABLISHMENT_REQUEST_USER_PLANE_INACTIVITY_TIMER \<equiv> 10 :: nat"
abbreviation (input) "SESSION_ESTABLISHMENT_REQUEST_USER_ID \<equiv> 11 :: nat"
abbreviation (input) "SESSION_ESTABLISHMENT_REQUEST_TRACE_INFORMATION \<equiv> 12 :: nat"
abbreviation (input) "SESSION_ESTABLISHMENT_REQUEST_APN_DNN \<equiv> 13 :: nat"
abbreviation (input) "SESSION_ESTABLISHMENT_REQUEST_CREATE_MAR \<equiv> 14 :: nat"
abbreviation (input) "SESSION_PROCEDURE_RESPONSE_NODE_ID \<equiv> 0 :: nat"
abbreviation (input) "SESSION_PROCEDURE_RESPONSE_CAUSE \<equiv> 1 :: nat"
abbreviation (input) "SESSION_PROCEDURE_RESPONSE_OFFENDING_IE \<equiv> 2 :: nat"
abbreviation (input) "SESSION_PROCEDURE_RESPONSE_TP_ERROR_REPORT \<equiv> 3 :: nat"
abbreviation (input) "SESSION_PROCEDURE_RESPONSE_UP_F_SEID \<equiv> 4 :: nat"
abbreviation (input) "SESSION_PROCEDURE_RESPONSE_CREATED_PDR \<equiv> 5 :: nat"
abbreviation (input) "SESSION_PROCEDURE_RESPONSE_LOAD_CONTROL_INFORMATION \<equiv> 6 :: nat"
abbreviation (input) "SESSION_PROCEDURE_RESPONSE_OVERLOAD_CONTROL_INFORMATION \<equiv> 7 :: nat"
abbreviation (input) "SESSION_PROCEDURE_RESPONSE_FQ_CSID \<equiv> 9 :: nat"
abbreviation (input) "SESSION_PROCEDURE_RESPONSE_FAILED_RULE_ID \<equiv> 10 :: nat"
abbreviation (input) "SESSION_PROCEDURE_RESPONSE_CREATED_TRAFFIC_ENDPOINT \<equiv> 12 :: nat"
abbreviation (input) "SESSION_PROCEDURE_RESPONSE_TP_CREATED_BINDING \<equiv> 13 :: nat"
abbreviation (input) "SESSION_MODIFICATION_REQUEST_F_SEID \<equiv> 0 :: nat"
abbreviation (input) "SESSION_MODIFICATION_REQUEST_REMOVE_PDR \<equiv> 1 :: nat"
abbreviation (input) "SESSION_MODIFICATION_REQUEST_REMOVE_FAR \<equiv> 2 :: nat"
abbreviation (input) "SESSION_MODIFICATION_REQUEST_REMOVE_URR \<equiv> 3 :: nat"
abbreviation (input) "SESSION_MODIFICATION_REQUEST_REMOVE_QER \<equiv> 4 :: nat"
abbreviation (input) "SESSION_MODIFICATION_REQUEST_REMOVE_BAR \<equiv> 5 :: nat"
abbreviation (input) "SESSION_MODIFICATION_REQUEST_REMOVE_TRAFFIC_ENDPOINT \<equiv> 6 :: nat"
abbreviation (input) "SESSION_MODIFICATION_REQUEST_CREATE_PDR \<equiv> 7 :: nat"
abbreviation (input) "SESSION_MODIFICATION_REQUEST_CREATE_FAR \<equiv> 8 :: nat"
abbreviation (input) "SESSION_MODIFICATION_REQUEST_CREATE_URR \<equiv> 9 :: nat"
abbreviation (input) "SESSION_MODIFICATION_REQUEST_CREATE_QER \<equiv> 10 :: nat"
abbreviation (input) "SESSION_MODIFICATION_REQUEST_CREATE_BAR \<equiv> 11 :: nat"
abbreviation (input) "SESSION_MODIFICATION_REQUEST_CREATE_TRAFFIC_ENDPOINT \<equiv> 12 :: nat"
abbreviation (input) "SESSION_MODIFICATION_REQUEST_UPDATE_PDR \<equiv> 13 :: nat"
abbreviation (input) "SESSION_MODIFICATION_REQUEST_UPDATE_FAR \<equiv> 14 :: nat"
abbreviation (input) "SESSION_MODIFICATION_REQUEST_UPDATE_URR \<equiv> 15 :: nat"
abbreviation (input) "SESSION_MODIFICATION_REQUEST_UPDATE_QER \<equiv> 16 :: nat"
abbreviation (input) "SESSION_MODIFICATION_REQUEST_UPDATE_BAR \<equiv> 17 :: nat"
abbreviation (input) "SESSION_MODIFICATION_REQUEST_UPDATE_TRAFFIC_ENDPOINT \<equiv> 18 :: nat"
abbreviation (input) "SESSION_MODIFICATION_REQUEST_PFCPSMREQ_FLAGS \<equiv> 19 :: nat"
abbreviation (input) "SESSION_MODIFICATION_REQUEST_QUERY_URR \<equiv> 20 :: nat"
abbreviation (input) "SESSION_MODIFICATION_REQUEST_FQ_CSID \<equiv> 21 :: nat"
abbreviation (input) "SESSION_MODIFICATION_REQUEST_USER_PLANE_INACTIVITY_TIMER \<equiv> 22 :: nat"
abbreviation (input) "SESSION_MODIFICATION_REQUEST_QUERY_URR_REFERENCE \<equiv> 23 :: nat"
abbreviation (input) "SESSION_MODIFICATION_REQUEST_TRACE_INFORMATION \<equiv> 24 :: nat"
abbreviation (input) "SESSION_MODIFICATION_REQUEST_REMOVE_MAR \<equiv> 25 :: nat"
abbreviation (input) "SESSION_MODIFICATION_REQUEST_UPDATE_MAR \<equiv> 26 :: nat"
abbreviation (input) "SESSION_MODIFICATION_REQUEST_CREATE_MAR \<equiv> 27 :: nat"
abbreviation (input) "SESSION_PROCEDURE_RESPONSE_USAGE_REPORT \<equiv> 8 :: nat"
abbreviation (input) "SESSION_PROCEDURE_RESPONSE_ADDITIONAL_USAGE_REPORTS_INFORMATION \<equiv> 11 :: nat"
abbreviation (input) "SESSION_REPORT_REQUEST_REPORT_TYPE \<equiv> 0 :: nat"
abbreviation (input) "SESSION_REPORT_REQUEST_DOWNLINK_DATA_REPORT \<equiv> 1 :: nat"
abbreviation (input) "SESSION_REPORT_REQUEST_USAGE_REPORT \<equiv> 2 :: nat"
abbreviation (input) "SESSION_REPORT_REQUEST_ERROR_INDICATION_REPORT \<equiv> 3 :: nat"
abbreviation (input) "SESSION_REPORT_REQUEST_LOAD_CONTROL_INFORMATION \<equiv> 4 :: nat"
abbreviation (input) "SESSION_REPORT_REQUEST_OVERLOAD_CONTROL_INFORMATION \<equiv> 5 :: nat"
abbreviation (input) "SESSION_REPORT_REQUEST_ADDITIONAL_USAGE_REPORTS_INFORMATION \<equiv> 6 :: nat"
abbreviation (input) "SESSION_REPORT_REQUEST_PACKET_REPORT \<equiv> 7 :: nat"
abbreviation (input) "SESSION_REPORT_REQUEST_PFCPSRREQ_FLAGS \<equiv> 8 :: nat"
abbreviation (input) "SESSION_REPORT_RESPONSE_CAUSE \<equiv> 1 :: nat"
abbreviation (input) "SESSION_REPORT_RESPONSE_OFFENDING_IE \<equiv> 2 :: nat"
abbreviation (input) "SESSION_REPORT_RESPONSE_TP_ERROR_REPORT \<equiv> 4 :: nat"
abbreviation (input) "SESSION_REPORT_RESPONSE_UPDATE_BAR \<equiv> 5 :: nat"
abbreviation (input) "SESSION_REPORT_RESPONSE_PFCPSRRSP_FLAGS \<equiv> 6 :: nat"
abbreviation (input) "SESSION_REPORT_RESPONSE_CP_F_SEID \<equiv> 7 :: nat"
abbreviation (input) "SESSION_REPORT_RESPONSE_N4_u_F_TEID \<equiv> 8 :: nat"
abbreviation (input) "PFCP_RESPONSE_NODE_ID \<equiv> 0 :: nat"

end
