(* ===== verification/Pfcp_Leaf.thy ===== *)
theory Pfcp_Leaf
  imports Pfcp_IE_More Pfcp_IE_Rest
begin

text \<open>
  The simple information elements as one type. A \<^verbatim>\<open>pfcp_ie_def\<close> of a simple element holds pointers to
  a decoder and an encoder; \<open>ie_codec_id\<close> names the pairs that occur in \<^verbatim>\<open>src/upf/pfcp.c\<close>, after the
  \<^verbatim>\<open>#define decode_x decode_y\<close> aliases are resolved, and \<open>ie_leaf\<close> is the value the pointed-to
  structure holds, tagged with the codec it belongs to.
\<close>

section \<open>Codecs and their values\<close>

datatype (plugins only: size code) ie_codec_id =
    K_u8_ie
  | K_u16_ie
  | K_u16_little_ie
  | K_u32_ie
  | K_simple_vec_ie
  | K_volume_ie
  | K_time_stamp_ie
  | K_timer_ie
  | K_source_interface
  | K_f_teid
  | K_sdf_filter
  | K_gate_status
  | K_bit_rate
  | K_redirect_information
  | K_forwarding_policy
  | K_destination_interface
  | K_up_function_features
  | K_downlink_data_service_information
  | K_dl_buffering_suggested_packet_count
  | K_f_seid
  | K_node_id
  | K_pfd_contents
  | K_usage_report_trigger
  | K_fq_csid
  | K_volume_measurement
  | K_dropped_dl_traffic_threshold
  | K_outer_header_creation
  | K_flow_information
  | K_ue_ip_address
  | K_packet_rate
  | K_dl_flow_level_marking
  | K_header_enrichment
  | K_measurement_information
  | K_node_report_type
  | K_oci_flags
  | K_pfcp_association_release_request
  | K_pdn_type
  | K_rqi
  | K_proxying
  | K_ethernet_filter_properties
  | K_ethernet_pdu_session_information
  | K_remote_gtp_u_peer
  | K_failed_rule_id
  | K_time_quota_mechanism
  | K_user_plane_ip_resource_information
  | K_multiplier
  | K_pfcp_mac_address
  | K_vlan_tag
  | K_user_id
  | K_mac_addresses_vec
  | K_trace_information
  | K_ue_ip_address_pool_identity
  | K_alternative_smf_ip_address
  | K_sntp_time_stamp_ie
  | K_bbf_nat_outside_address
  | K_bbf_nat_external_port_range
  | K_bbf_up_function_features
  | K_fatemeh_packet_header
  | K_fatemeh_packet_data
  | K_ip_version

datatype (plugins only: size code) ie_leaf =
    V_u8_ie u8
  | V_u16_ie u16
  | V_u16_little_ie u16
  | V_u32_ie u32
  | V_simple_vec_ie bytes
  | V_volume_ie pfcp_volume_ie
  | V_time_stamp_ie u32
  | V_timer_ie pfcp_timer_ie
  | V_source_interface u8
  | V_f_teid pfcp_f_teid
  | V_sdf_filter pfcp_sdf_filter
  | V_gate_status pfcp_gate_status
  | V_bit_rate pfcp_bit_rate
  | V_redirect_information pfcp_redirect_information
  | V_forwarding_policy bytes
  | V_destination_interface u8
  | V_up_function_features u64
  | V_downlink_data_service_information pfcp_downlink_data_service_information
  | V_dl_buffering_suggested_packet_count u16
  | V_f_seid pfcp_f_seid
  | V_node_id pfcp_node_id
  | V_pfd_contents pfcp_pfd_contents
  | V_usage_report_trigger u32
  | V_fq_csid pfcp_fq_csid
  | V_volume_measurement pfcp_volume_measurement
  | V_dropped_dl_traffic_threshold pfcp_dropped_dl_traffic_threshold
  | V_outer_header_creation pfcp_outer_header_creation
  | V_flow_information pfcp_flow_information
  | V_ue_ip_address pfcp_ue_ip_address
  | V_packet_rate pfcp_packet_rate
  | V_dl_flow_level_marking pfcp_dl_flow_level_marking
  | V_header_enrichment pfcp_header_enrichment
  | V_measurement_information u8
  | V_node_report_type u8
  | V_oci_flags u8
  | V_pfcp_association_release_request u8
  | V_pdn_type u8
  | V_rqi u8
  | V_proxying u8
  | V_ethernet_filter_properties u8
  | V_ethernet_pdu_session_information u8
  | V_remote_gtp_u_peer pfcp_remote_gtp_u_peer
  | V_failed_rule_id pfcp_failed_rule_id
  | V_time_quota_mechanism pfcp_time_quota_mechanism
  | V_user_plane_ip_resource_information pfcp_user_plane_ip_resource_information
  | V_multiplier pfcp_multiplier
  | V_pfcp_mac_address pfcp_mac_address
  | V_vlan_tag pfcp_vlan_tag
  | V_user_id pfcp_user_id
  | V_mac_addresses_vec "48 word list"
  | V_trace_information pfcp_trace_information
  | V_ue_ip_address_pool_identity bytes
  | V_alternative_smf_ip_address pfcp_alternative_smf_ip_address
  | V_sntp_time_stamp_ie nat
  | V_bbf_nat_outside_address ip4_address
  | V_bbf_nat_external_port_range pfcp_bbf_nat_external_port_range
  | V_bbf_up_function_features u32
  | V_fatemeh_packet_header pfcp_fatemeh_packet_header
  | V_fatemeh_packet_data pfcp_fatemeh_packet_data
  | V_ip_version u8

primrec leaf_codec :: "ie_leaf \<Rightarrow> ie_codec_id" where
  "leaf_codec (V_u8_ie v) = K_u8_ie"
| "leaf_codec (V_u16_ie v) = K_u16_ie"
| "leaf_codec (V_u16_little_ie v) = K_u16_little_ie"
| "leaf_codec (V_u32_ie v) = K_u32_ie"
| "leaf_codec (V_simple_vec_ie v) = K_simple_vec_ie"
| "leaf_codec (V_volume_ie v) = K_volume_ie"
| "leaf_codec (V_time_stamp_ie v) = K_time_stamp_ie"
| "leaf_codec (V_timer_ie v) = K_timer_ie"
| "leaf_codec (V_source_interface v) = K_source_interface"
| "leaf_codec (V_f_teid v) = K_f_teid"
| "leaf_codec (V_sdf_filter v) = K_sdf_filter"
| "leaf_codec (V_gate_status v) = K_gate_status"
| "leaf_codec (V_bit_rate v) = K_bit_rate"
| "leaf_codec (V_redirect_information v) = K_redirect_information"
| "leaf_codec (V_forwarding_policy v) = K_forwarding_policy"
| "leaf_codec (V_destination_interface v) = K_destination_interface"
| "leaf_codec (V_up_function_features v) = K_up_function_features"
| "leaf_codec (V_downlink_data_service_information v) = K_downlink_data_service_information"
| "leaf_codec (V_dl_buffering_suggested_packet_count v) = K_dl_buffering_suggested_packet_count"
| "leaf_codec (V_f_seid v) = K_f_seid"
| "leaf_codec (V_node_id v) = K_node_id"
| "leaf_codec (V_pfd_contents v) = K_pfd_contents"
| "leaf_codec (V_usage_report_trigger v) = K_usage_report_trigger"
| "leaf_codec (V_fq_csid v) = K_fq_csid"
| "leaf_codec (V_volume_measurement v) = K_volume_measurement"
| "leaf_codec (V_dropped_dl_traffic_threshold v) = K_dropped_dl_traffic_threshold"
| "leaf_codec (V_outer_header_creation v) = K_outer_header_creation"
| "leaf_codec (V_flow_information v) = K_flow_information"
| "leaf_codec (V_ue_ip_address v) = K_ue_ip_address"
| "leaf_codec (V_packet_rate v) = K_packet_rate"
| "leaf_codec (V_dl_flow_level_marking v) = K_dl_flow_level_marking"
| "leaf_codec (V_header_enrichment v) = K_header_enrichment"
| "leaf_codec (V_measurement_information v) = K_measurement_information"
| "leaf_codec (V_node_report_type v) = K_node_report_type"
| "leaf_codec (V_oci_flags v) = K_oci_flags"
| "leaf_codec (V_pfcp_association_release_request v) = K_pfcp_association_release_request"
| "leaf_codec (V_pdn_type v) = K_pdn_type"
| "leaf_codec (V_rqi v) = K_rqi"
| "leaf_codec (V_proxying v) = K_proxying"
| "leaf_codec (V_ethernet_filter_properties v) = K_ethernet_filter_properties"
| "leaf_codec (V_ethernet_pdu_session_information v) = K_ethernet_pdu_session_information"
| "leaf_codec (V_remote_gtp_u_peer v) = K_remote_gtp_u_peer"
| "leaf_codec (V_failed_rule_id v) = K_failed_rule_id"
| "leaf_codec (V_time_quota_mechanism v) = K_time_quota_mechanism"
| "leaf_codec (V_user_plane_ip_resource_information v) = K_user_plane_ip_resource_information"
| "leaf_codec (V_multiplier v) = K_multiplier"
| "leaf_codec (V_pfcp_mac_address v) = K_pfcp_mac_address"
| "leaf_codec (V_vlan_tag v) = K_vlan_tag"
| "leaf_codec (V_user_id v) = K_user_id"
| "leaf_codec (V_mac_addresses_vec v) = K_mac_addresses_vec"
| "leaf_codec (V_trace_information v) = K_trace_information"
| "leaf_codec (V_ue_ip_address_pool_identity v) = K_ue_ip_address_pool_identity"
| "leaf_codec (V_alternative_smf_ip_address v) = K_alternative_smf_ip_address"
| "leaf_codec (V_sntp_time_stamp_ie v) = K_sntp_time_stamp_ie"
| "leaf_codec (V_bbf_nat_outside_address v) = K_bbf_nat_outside_address"
| "leaf_codec (V_bbf_nat_external_port_range v) = K_bbf_nat_external_port_range"
| "leaf_codec (V_bbf_up_function_features v) = K_bbf_up_function_features"
| "leaf_codec (V_fatemeh_packet_header v) = K_fatemeh_packet_header"
| "leaf_codec (V_fatemeh_packet_data v) = K_fatemeh_packet_data"
| "leaf_codec (V_ip_version v) = K_ip_version"

fun map_dec :: "('a \<Rightarrow> 'b) \<Rightarrow> 'a dec \<Rightarrow> 'b dec" where
  "map_dec f (Done v) = Done (f v)"
| "map_dec f (Reject r) = Reject r"
| "map_dec f Fault = Fault"

text \<open>\<^verbatim>\<open>def->decode (ie, length, p)\<close>\<close>

primrec decode_leaf :: "vlib \<Rightarrow> ie_codec_id \<Rightarrow> bytes \<Rightarrow> nat \<Rightarrow> ie_leaf dec" where
  "decode_leaf lib K_u8_ie data len = map_dec V_u8_ie (decode_u8_ie data len)"
| "decode_leaf lib K_u16_ie data len = map_dec V_u16_ie (decode_u16_ie data len)"
| "decode_leaf lib K_u16_little_ie data len = map_dec V_u16_little_ie (decode_u16_little_ie data len)"
| "decode_leaf lib K_u32_ie data len = map_dec V_u32_ie (decode_u32_ie data len)"
| "decode_leaf lib K_simple_vec_ie data len = map_dec V_simple_vec_ie (decode_simple_vec_ie data len)"
| "decode_leaf lib K_volume_ie data len = map_dec V_volume_ie (decode_volume_ie data len)"
| "decode_leaf lib K_time_stamp_ie data len = map_dec V_time_stamp_ie (decode_time_stamp_ie data len)"
| "decode_leaf lib K_timer_ie data len = map_dec V_timer_ie (decode_timer_ie data len)"
| "decode_leaf lib K_source_interface data len = map_dec V_source_interface (decode_source_interface data len)"
| "decode_leaf lib K_f_teid data len = map_dec V_f_teid (decode_f_teid data len)"
| "decode_leaf lib K_sdf_filter data len = map_dec V_sdf_filter (decode_sdf_filter data len)"
| "decode_leaf lib K_gate_status data len = map_dec V_gate_status (decode_gate_status data len)"
| "decode_leaf lib K_bit_rate data len = map_dec V_bit_rate (decode_bit_rate data len)"
| "decode_leaf lib K_redirect_information data len = map_dec V_redirect_information (decode_redirect_information lib data len)"
| "decode_leaf lib K_forwarding_policy data len = map_dec V_forwarding_policy (decode_forwarding_policy data len)"
| "decode_leaf lib K_destination_interface data len = map_dec V_destination_interface (decode_destination_interface data len)"
| "decode_leaf lib K_up_function_features data len = map_dec V_up_function_features (decode_up_function_features data len)"
| "decode_leaf lib K_downlink_data_service_information data len = map_dec V_downlink_data_service_information (decode_downlink_data_service_information data len)"
| "decode_leaf lib K_dl_buffering_suggested_packet_count data len = map_dec V_dl_buffering_suggested_packet_count (decode_dl_buffering_suggested_packet_count data len)"
| "decode_leaf lib K_f_seid data len = map_dec V_f_seid (decode_f_seid data len)"
| "decode_leaf lib K_node_id data len = map_dec V_node_id (decode_node_id lib data len)"
| "decode_leaf lib K_pfd_contents data len = map_dec V_pfd_contents (decode_pfd_contents data len)"
| "decode_leaf lib K_usage_report_trigger data len = map_dec V_usage_report_trigger (decode_usage_report_trigger data len)"
| "decode_leaf lib K_fq_csid data len = map_dec V_fq_csid (decode_fq_csid lib data len)"
| "decode_leaf lib K_volume_measurement data len = map_dec V_volume_measurement (decode_volume_measurement data len)"
| "decode_leaf lib K_dropped_dl_traffic_threshold data len = map_dec V_dropped_dl_traffic_threshold (decode_dropped_dl_traffic_threshold data len)"
| "decode_leaf lib K_outer_header_creation data len = map_dec V_outer_header_creation (decode_outer_header_creation lib data len)"
| "decode_leaf lib K_flow_information data len = map_dec V_flow_information (decode_flow_information data len)"
| "decode_leaf lib K_ue_ip_address data len = map_dec V_ue_ip_address (decode_ue_ip_address data len)"
| "decode_leaf lib K_packet_rate data len = map_dec V_packet_rate (decode_packet_rate data len)"
| "decode_leaf lib K_dl_flow_level_marking data len = map_dec V_dl_flow_level_marking (decode_dl_flow_level_marking data len)"
| "decode_leaf lib K_header_enrichment data len = map_dec V_header_enrichment (decode_header_enrichment data len)"
| "decode_leaf lib K_measurement_information data len = map_dec V_measurement_information (decode_measurement_information data len)"
| "decode_leaf lib K_node_report_type data len = map_dec V_node_report_type (decode_node_report_type data len)"
| "decode_leaf lib K_oci_flags data len = map_dec V_oci_flags (decode_oci_flags data len)"
| "decode_leaf lib K_pfcp_association_release_request data len = map_dec V_pfcp_association_release_request (decode_pfcp_association_release_request data len)"
| "decode_leaf lib K_pdn_type data len = map_dec V_pdn_type (decode_pdn_type data len)"
| "decode_leaf lib K_rqi data len = map_dec V_rqi (decode_rqi data len)"
| "decode_leaf lib K_proxying data len = map_dec V_proxying (decode_proxying data len)"
| "decode_leaf lib K_ethernet_filter_properties data len = map_dec V_ethernet_filter_properties (decode_ethernet_filter_properties data len)"
| "decode_leaf lib K_ethernet_pdu_session_information data len = map_dec V_ethernet_pdu_session_information (decode_ethernet_pdu_session_information data len)"
| "decode_leaf lib K_remote_gtp_u_peer data len = map_dec V_remote_gtp_u_peer (decode_remote_gtp_u_peer lib data len)"
| "decode_leaf lib K_failed_rule_id data len = map_dec V_failed_rule_id (decode_failed_rule_id data len)"
| "decode_leaf lib K_time_quota_mechanism data len = map_dec V_time_quota_mechanism (decode_time_quota_mechanism data len)"
| "decode_leaf lib K_user_plane_ip_resource_information data len = map_dec V_user_plane_ip_resource_information (decode_user_plane_ip_resource_information data len)"
| "decode_leaf lib K_multiplier data len = map_dec V_multiplier (decode_multiplier data len)"
| "decode_leaf lib K_pfcp_mac_address data len = map_dec V_pfcp_mac_address (decode_pfcp_mac_address data len)"
| "decode_leaf lib K_vlan_tag data len = map_dec V_vlan_tag (decode_vlan_tag data len)"
| "decode_leaf lib K_user_id data len = map_dec V_user_id (decode_user_id data len)"
| "decode_leaf lib K_mac_addresses_vec data len = map_dec V_mac_addresses_vec (decode_mac_addresses_vec data len)"
| "decode_leaf lib K_trace_information data len = map_dec V_trace_information (decode_trace_information lib data len)"
| "decode_leaf lib K_ue_ip_address_pool_identity data len = map_dec V_ue_ip_address_pool_identity (decode_ue_ip_address_pool_identity data len)"
| "decode_leaf lib K_alternative_smf_ip_address data len = map_dec V_alternative_smf_ip_address (decode_alternative_smf_ip_address data len)"
| "decode_leaf lib K_sntp_time_stamp_ie data len = map_dec V_sntp_time_stamp_ie (decode_sntp_time_stamp_ie data len)"
| "decode_leaf lib K_bbf_nat_outside_address data len = map_dec V_bbf_nat_outside_address (decode_bbf_nat_outside_address data len)"
| "decode_leaf lib K_bbf_nat_external_port_range data len = map_dec V_bbf_nat_external_port_range (decode_bbf_nat_external_port_range data len)"
| "decode_leaf lib K_bbf_up_function_features data len = map_dec V_bbf_up_function_features (decode_bbf_up_function_features data len)"
| "decode_leaf lib K_fatemeh_packet_header data len = map_dec V_fatemeh_packet_header (decode_fatemeh_packet_header data len)"
| "decode_leaf lib K_fatemeh_packet_data data len = map_dec V_fatemeh_packet_data (decode_fatemeh_packet_data data len)"
| "decode_leaf lib K_ip_version data len = map_dec V_ip_version (decode_ip_version data len)"

text \<open>\<^verbatim>\<open>def->encode (v, vec)\<close>: the octets appended, or the error. Only the encoder of the IP version
  can fail.\<close>

primrec encode_leaf :: "vlib \<Rightarrow> ie_leaf \<Rightarrow> bytes dec" where
  "encode_leaf lib (V_u8_ie v) = Done (encode_u8_ie v)"
| "encode_leaf lib (V_u16_ie v) = Done (encode_u16_ie v)"
| "encode_leaf lib (V_u16_little_ie v) = Done (encode_u16_little_ie v)"
| "encode_leaf lib (V_u32_ie v) = Done (encode_u32_ie v)"
| "encode_leaf lib (V_simple_vec_ie v) = Done (encode_simple_vec_ie v)"
| "encode_leaf lib (V_volume_ie v) = Done (encode_volume_ie v)"
| "encode_leaf lib (V_time_stamp_ie v) = Done (encode_time_stamp_ie v)"
| "encode_leaf lib (V_timer_ie v) = Done (encode_timer_ie v)"
| "encode_leaf lib (V_source_interface v) = Done (encode_source_interface v)"
| "encode_leaf lib (V_f_teid v) = Done (encode_f_teid v)"
| "encode_leaf lib (V_sdf_filter v) = Done (encode_sdf_filter v)"
| "encode_leaf lib (V_gate_status v) = Done (encode_gate_status v)"
| "encode_leaf lib (V_bit_rate v) = Done (encode_bit_rate v)"
| "encode_leaf lib (V_redirect_information v) = Done (encode_redirect_information lib v)"
| "encode_leaf lib (V_forwarding_policy v) = Done (encode_forwarding_policy v)"
| "encode_leaf lib (V_destination_interface v) = Done (encode_destination_interface v)"
| "encode_leaf lib (V_up_function_features v) = Done (encode_up_function_features v)"
| "encode_leaf lib (V_downlink_data_service_information v) = Done (encode_downlink_data_service_information v)"
| "encode_leaf lib (V_dl_buffering_suggested_packet_count v) = Done (encode_dl_buffering_suggested_packet_count v)"
| "encode_leaf lib (V_f_seid v) = Done (encode_f_seid v)"
| "encode_leaf lib (V_node_id v) = Done (encode_node_id v)"
| "encode_leaf lib (V_pfd_contents v) = Done (encode_pfd_contents v)"
| "encode_leaf lib (V_usage_report_trigger v) = Done (encode_usage_report_trigger v)"
| "encode_leaf lib (V_fq_csid v) = Done (encode_fq_csid v)"
| "encode_leaf lib (V_volume_measurement v) = Done (encode_volume_measurement v)"
| "encode_leaf lib (V_dropped_dl_traffic_threshold v) = Done (encode_dropped_dl_traffic_threshold v)"
| "encode_leaf lib (V_outer_header_creation v) = Done (encode_outer_header_creation v)"
| "encode_leaf lib (V_flow_information v) = Done (encode_flow_information v)"
| "encode_leaf lib (V_ue_ip_address v) = Done (encode_ue_ip_address v)"
| "encode_leaf lib (V_packet_rate v) = Done (encode_packet_rate v)"
| "encode_leaf lib (V_dl_flow_level_marking v) = Done (encode_dl_flow_level_marking v)"
| "encode_leaf lib (V_header_enrichment v) = Done (encode_header_enrichment v)"
| "encode_leaf lib (V_measurement_information v) = Done (encode_measurement_information v)"
| "encode_leaf lib (V_node_report_type v) = Done (encode_node_report_type v)"
| "encode_leaf lib (V_oci_flags v) = Done (encode_oci_flags v)"
| "encode_leaf lib (V_pfcp_association_release_request v) = Done (encode_pfcp_association_release_request v)"
| "encode_leaf lib (V_pdn_type v) = Done (encode_pdn_type v)"
| "encode_leaf lib (V_rqi v) = Done (encode_rqi v)"
| "encode_leaf lib (V_proxying v) = Done (encode_proxying v)"
| "encode_leaf lib (V_ethernet_filter_properties v) = Done (encode_ethernet_filter_properties v)"
| "encode_leaf lib (V_ethernet_pdu_session_information v) = Done (encode_ethernet_pdu_session_information v)"
| "encode_leaf lib (V_remote_gtp_u_peer v) = Done (encode_remote_gtp_u_peer lib v)"
| "encode_leaf lib (V_failed_rule_id v) = Done (encode_failed_rule_id v)"
| "encode_leaf lib (V_time_quota_mechanism v) = Done (encode_time_quota_mechanism v)"
| "encode_leaf lib (V_user_plane_ip_resource_information v) = Done (encode_user_plane_ip_resource_information v)"
| "encode_leaf lib (V_multiplier v) = Done (encode_multiplier v)"
| "encode_leaf lib (V_pfcp_mac_address v) = Done (encode_pfcp_mac_address v)"
| "encode_leaf lib (V_vlan_tag v) = Done (encode_vlan_tag v)"
| "encode_leaf lib (V_user_id v) = Done (encode_user_id v)"
| "encode_leaf lib (V_mac_addresses_vec v) = Done (encode_mac_addresses_vec v)"
| "encode_leaf lib (V_trace_information v) = Done (encode_trace_information lib v)"
| "encode_leaf lib (V_ue_ip_address_pool_identity v) = encode_ue_ip_address_pool_identity lib v"
| "encode_leaf lib (V_alternative_smf_ip_address v) = Done (encode_alternative_smf_ip_address v)"
| "encode_leaf lib (V_sntp_time_stamp_ie v) = Done (encode_sntp_time_stamp_ie v)"
| "encode_leaf lib (V_bbf_nat_outside_address v) = Done (encode_bbf_nat_outside_address v)"
| "encode_leaf lib (V_bbf_nat_external_port_range v) = Done (encode_bbf_nat_external_port_range v)"
| "encode_leaf lib (V_bbf_up_function_features v) = Done (encode_bbf_up_function_features v)"
| "encode_leaf lib (V_fatemeh_packet_header v) = Done (encode_fatemeh_packet_header v)"
| "encode_leaf lib (V_fatemeh_packet_data v) = Done (encode_fatemeh_packet_data v)"
| "encode_leaf lib (V_ip_version v) =
     (case encode_ip_version v of None \<Rightarrow> Reject (-1) | Some bs \<Rightarrow> Done bs)"

text \<open>The values that survive the wire, as the laws of the single codecs have them.\<close>

primrec ok_leaf :: "vlib \<Rightarrow> ie_leaf \<Rightarrow> bool" where
  "ok_leaf lib (V_u8_ie v) \<longleftrightarrow> True"
| "ok_leaf lib (V_u16_ie v) \<longleftrightarrow> True"
| "ok_leaf lib (V_u16_little_ie v) \<longleftrightarrow> True"
| "ok_leaf lib (V_u32_ie v) \<longleftrightarrow> True"
| "ok_leaf lib (V_simple_vec_ie v) \<longleftrightarrow> True"
| "ok_leaf lib (V_volume_ie v) \<longleftrightarrow> ok_volume_ie v"
| "ok_leaf lib (V_time_stamp_ie v) \<longleftrightarrow> True"
| "ok_leaf lib (V_timer_ie v) \<longleftrightarrow> ok_timer_ie v"
| "ok_leaf lib (V_source_interface v) \<longleftrightarrow> ok_source_interface v"
| "ok_leaf lib (V_f_teid v) \<longleftrightarrow> ok_f_teid v"
| "ok_leaf lib (V_sdf_filter v) \<longleftrightarrow> ok_sdf_filter v"
| "ok_leaf lib (V_gate_status v) \<longleftrightarrow> ok_gate_status v"
| "ok_leaf lib (V_bit_rate v) \<longleftrightarrow> ok_bit_rate v"
| "ok_leaf lib (V_redirect_information v) \<longleftrightarrow> ok_redirect_information lib v"
| "ok_leaf lib (V_forwarding_policy v) \<longleftrightarrow> ok_forwarding_policy v"
| "ok_leaf lib (V_destination_interface v) \<longleftrightarrow> ok_destination_interface v"
| "ok_leaf lib (V_up_function_features v) \<longleftrightarrow> ok_up_function_features v"
| "ok_leaf lib (V_downlink_data_service_information v) \<longleftrightarrow> ok_downlink_data_service_information v"
| "ok_leaf lib (V_dl_buffering_suggested_packet_count v) \<longleftrightarrow> True"
| "ok_leaf lib (V_f_seid v) \<longleftrightarrow> ok_f_seid v"
| "ok_leaf lib (V_node_id v) \<longleftrightarrow> ok_node_id lib v"
| "ok_leaf lib (V_pfd_contents v) \<longleftrightarrow> False"
| "ok_leaf lib (V_usage_report_trigger v) \<longleftrightarrow> ok_usage_report_trigger v"
| "ok_leaf lib (V_fq_csid v) \<longleftrightarrow> ok_fq_csid lib v"
| "ok_leaf lib (V_volume_measurement v) \<longleftrightarrow> ok_volume_measurement v"
| "ok_leaf lib (V_dropped_dl_traffic_threshold v) \<longleftrightarrow> ok_dropped_dl_traffic_threshold v"
| "ok_leaf lib (V_outer_header_creation v) \<longleftrightarrow> ok_outer_header_creation lib v"
| "ok_leaf lib (V_flow_information v) \<longleftrightarrow> ok_flow_information v"
| "ok_leaf lib (V_ue_ip_address v) \<longleftrightarrow> ok_ue_ip_address v"
| "ok_leaf lib (V_packet_rate v) \<longleftrightarrow> ok_packet_rate v"
| "ok_leaf lib (V_dl_flow_level_marking v) \<longleftrightarrow> ok_dl_flow_level_marking v"
| "ok_leaf lib (V_header_enrichment v) \<longleftrightarrow> ok_header_enrichment v"
| "ok_leaf lib (V_measurement_information v) \<longleftrightarrow> ok_flags_octet 0x1f v"
| "ok_leaf lib (V_node_report_type v) \<longleftrightarrow> ok_flags_octet 0x0f v"
| "ok_leaf lib (V_oci_flags v) \<longleftrightarrow> ok_flags_octet 0x01 v"
| "ok_leaf lib (V_pfcp_association_release_request v) \<longleftrightarrow> ok_flags_octet 0x03 v"
| "ok_leaf lib (V_pdn_type v) \<longleftrightarrow> ok_flags_octet 0x0f v"
| "ok_leaf lib (V_rqi v) \<longleftrightarrow> ok_flags_octet 0x01 v"
| "ok_leaf lib (V_proxying v) \<longleftrightarrow> ok_flags_octet 0x03 v"
| "ok_leaf lib (V_ethernet_filter_properties v) \<longleftrightarrow> ok_flags_octet 0x01 v"
| "ok_leaf lib (V_ethernet_pdu_session_information v) \<longleftrightarrow> ok_flags_octet 0x01 v"
| "ok_leaf lib (V_remote_gtp_u_peer v) \<longleftrightarrow> ok_remote_gtp_u_peer lib v"
| "ok_leaf lib (V_failed_rule_id v) \<longleftrightarrow> ok_failed_rule_id v"
| "ok_leaf lib (V_time_quota_mechanism v) \<longleftrightarrow> ok_time_quota_mechanism v"
| "ok_leaf lib (V_user_plane_ip_resource_information v) \<longleftrightarrow> ok_user_plane_ip_resource_information v"
| "ok_leaf lib (V_multiplier v) \<longleftrightarrow> True"
| "ok_leaf lib (V_pfcp_mac_address v) \<longleftrightarrow> ok_pfcp_mac_address v"
| "ok_leaf lib (V_vlan_tag v) \<longleftrightarrow> ok_vlan_tag v"
| "ok_leaf lib (V_user_id v) \<longleftrightarrow> ok_user_id v"
| "ok_leaf lib (V_mac_addresses_vec v) \<longleftrightarrow> v = []"
| "ok_leaf lib (V_trace_information v) \<longleftrightarrow> False"
| "ok_leaf lib (V_ue_ip_address_pool_identity v) \<longleftrightarrow> v = []"
| "ok_leaf lib (V_alternative_smf_ip_address v) \<longleftrightarrow> ok_alternative_smf_ip_address v"
| "ok_leaf lib (V_sntp_time_stamp_ie v) \<longleftrightarrow> ok_sntp_time_stamp_ie v"
| "ok_leaf lib (V_bbf_nat_outside_address v) \<longleftrightarrow> True"
| "ok_leaf lib (V_bbf_nat_external_port_range v) \<longleftrightarrow> ok_bbf_nat_external_port_range v"
| "ok_leaf lib (V_bbf_up_function_features v) \<longleftrightarrow> ok_bbf_up_function_features v"
| "ok_leaf lib (V_fatemeh_packet_header v) \<longleftrightarrow> True"
| "ok_leaf lib (V_fatemeh_packet_data v) \<longleftrightarrow> ok_fatemeh_packet_data v"
| "ok_leaf lib (V_ip_version v) \<longleftrightarrow> bit v 0 \<or> bit v 1"

text \<open>The codecs whose decoder stays within the stated length.\<close>

definition bounded_codec :: "ie_codec_id \<Rightarrow> bool" where
  "bounded_codec k \<longleftrightarrow> k \<notin> {K_f_teid, K_redirect_information, K_f_seid, K_outer_header_creation, K_time_quota_mechanism, K_user_plane_ip_resource_information, K_mac_addresses_vec, K_trace_information, K_ue_ip_address_pool_identity, K_alternative_smf_ip_address, K_fatemeh_packet_data, K_ip_version}"

section \<open>Laws\<close>

lemmas leaf_rt =
  u8_ie.rt
  u16_ie.rt
  u16_little_ie.rt
  u32_ie.rt
  simple_vec_ie.rt
  volume_ie.rt
  time_stamp_ie.rt
  timer_ie.rt
  source_interface.rt
  f_teid.rt
  sdf_filter.rt
  gate_status.rt
  bit_rate.rt
  redirect_information.rt
  forwarding_policy.rt
  destination_interface.rt
  up_function_features.rt
  ddsi.rt
  dlbspc.rt
  f_seid.rt
  node_id.rt
  usage_report_trigger.rt
  fq_csid.rt
  volume_measurement.rt
  dropped_dl_traffic_threshold.rt
  outer_header_creation.rt
  flow_information.rt
  ue_ip_address.rt
  packet_rate.rt
  dl_flow_level_marking.rt
  header_enrichment.rt
  measurement_information.rt
  node_report_type.rt
  oci_flags.rt
  association_release.rt
  pdn_type.rt
  rqi.rt
  proxying.rt
  ethernet_filter_properties.rt
  ethernet_pdu_session_information.rt
  remote_gtp_u_peer.rt
  failed_rule_id.rt
  time_quota_mechanism.rt
  user_plane_ip_resource_information.rt
  multiplier.rt
  pfcp_mac_address.rt
  vlan_tag.rt
  user_id.rt
  mac_addresses_vec.rt
  alternative_smf_ip_address.rt
  sntp_time_stamp.rt
  bbf_nat_outside_address.rt
  bbf_nat_external_port_range.rt
  bbf_up_function_features.rt
  fatemeh_packet_header.rt
  fatemeh_packet_data.rt
  ip_version_rt
  ue_ip_address_pool_identity_rt

theorem decode_encode_leaf:
  assumes "ok_leaf lib v" "encode_leaf lib v = Done bs" "length bs < 2 ^ 16"
  shows "decode_leaf lib (leaf_codec v) (bs @ rest) (length bs) = Done v"
  using assms by (cases v) (auto simp: leaf_rt split: option.splits)

lemma ok_leaf_encode: "ok_leaf lib v \<Longrightarrow> \<exists>bs. encode_leaf lib v = Done bs"
  by (cases v) (auto simp: encode_ip_version_def encode_ue_ip_address_pool_identity_def)

lemma map_dec_Fault [simp]: "map_dec f r = Fault \<longleftrightarrow> r = Fault"
  by (cases r) auto

lemma map_dec_Done: "map_dec f r = Done w \<longleftrightarrow> (\<exists>v. r = Done v \<and> w = f v)"
  by (cases r) auto

lemma decode_leaf_codec: "decode_leaf lib k data len = Done v \<Longrightarrow> leaf_codec v = k"
  by (cases k) (auto simp: map_dec_Done)

lemma opt_vec_FaultE:
  assumes "opt_vec c data len k = Fault" "len \<le> length data"
  obtains v data' len' where "k v data' len' = Fault" "len' \<le> length data'"
  using assms by (auto simp: opt_vec_Fault Let_def split: if_splits)

lemma pfd_contents_safe: "decode_pfd_contents data n = Fault \<Longrightarrow> length data < n"
  unfolding decode_pfd_contents_def Let_def get_u8_Fault
  by (rule ccontr) (auto simp: get_u8_Fault split: if_splits elim!: opt_vec_FaultE)

lemmas leaf_safe =
  u8_ie.safe
  u16_ie.safe
  u16_little_ie.safe
  u32_ie.safe
  simple_vec_ie.safe
  volume_ie.safe
  time_stamp_ie.safe
  timer_ie.safe
  source_interface.safe
  sdf_filter.safe
  gate_status.safe
  bit_rate.safe
  forwarding_policy.safe
  destination_interface.safe
  up_function_features.safe
  ddsi.safe
  dlbspc.safe
  node_id.safe
  usage_report_trigger.safe
  fq_csid.safe
  volume_measurement.safe
  dropped_dl_traffic_threshold.safe
  flow_information.safe
  ue_ip_address.safe
  packet_rate.safe
  dl_flow_level_marking.safe
  header_enrichment.safe
  measurement_information.safe
  node_report_type.safe
  oci_flags.safe
  association_release.safe
  pdn_type.safe
  rqi.safe
  proxying.safe
  ethernet_filter_properties.safe
  ethernet_pdu_session_information.safe
  remote_gtp_u_peer.safe
  failed_rule_id.safe
  multiplier.safe
  pfcp_mac_address.safe
  vlan_tag.safe
  user_id.safe
  sntp_time_stamp.safe
  bbf_nat_outside_address.safe
  bbf_nat_external_port_range.safe
  bbf_up_function_features.safe
  fatemeh_packet_header.safe
  pfd_contents_safe

theorem decode_leaf_bounded:
  assumes "bounded_codec k" "len \<le> length data"
  shows "decode_leaf lib k data len \<noteq> Fault"
  using assms by (cases k) (auto simp: bounded_codec_def dest: leaf_safe)

section \<open>Refusals\<close>

text \<open>A decoder that refuses its input returns a non-zero code.\<close>

definition refuses_nonzero :: "'a dec \<Rightarrow> bool" where
  "refuses_nonzero r \<longleftrightarrow> r \<noteq> Reject 0"

lemma refuses_nonzero_base [simp]:
  "refuses_nonzero (Done v)" "refuses_nonzero Fault" "refuses_nonzero (Reject r) \<longleftrightarrow> r \<noteq> 0"
  "refuses_nonzero (map_dec f d) \<longleftrightarrow> refuses_nonzero d"
  by (auto simp: refuses_nonzero_def) (cases d; simp)+

lemma refuses_nonzero_get:
  "(\<And>b data. refuses_nonzero (k1 b data)) \<Longrightarrow> refuses_nonzero (get_u8 data k1)"
  "(\<And>b data. refuses_nonzero (k2 b data)) \<Longrightarrow> refuses_nonzero (get_u16 data k2)"
  "(\<And>b data. refuses_nonzero (k2 b data)) \<Longrightarrow> refuses_nonzero (get_u16_little data k2)"
  "(\<And>b data. refuses_nonzero (k3 b data)) \<Longrightarrow> refuses_nonzero (get_u24 data k3)"
  "(\<And>b data. refuses_nonzero (k3 b data)) \<Longrightarrow> refuses_nonzero (get_u32 data k3)"
  "(\<And>b data. refuses_nonzero (k4 b data)) \<Longrightarrow> refuses_nonzero (get_u40 data k4)"
  "(\<And>b data. refuses_nonzero (k4 b data)) \<Longrightarrow> refuses_nonzero (get_u64 data k4)"
  "(\<And>b data. refuses_nonzero (k3 b data)) \<Longrightarrow> refuses_nonzero (get_ip4 data k3)"
  "(\<And>b data. refuses_nonzero (k5 b data)) \<Longrightarrow> refuses_nonzero (get_ip6 data k5)"
  "(\<And>b data. refuses_nonzero (k5 b data)) \<Longrightarrow> refuses_nonzero (get_ip46_ip4 lib data k5)"
  "(\<And>b data. refuses_nonzero (k5 b data)) \<Longrightarrow> refuses_nonzero (get_ip46_ip6 data k5)"
  "(\<And>b data. refuses_nonzero (k6 b data)) \<Longrightarrow> refuses_nonzero (get_mac data k6)"
  "(\<And>b data. refuses_nonzero (k7 b data)) \<Longrightarrow> refuses_nonzero (get_vec l data k7)"
  by (simp_all add: get_defs split: list.splits)

lemma refuses_nonzero_opt:
  "(\<And>w data n. refuses_nonzero (k1 w data n)) \<Longrightarrow>
   (\<And>k. (\<And>w data. refuses_nonzero (k w data)) \<Longrightarrow> refuses_nonzero (get data k)) \<Longrightarrow>
   refuses_nonzero (opt_field c n get z data len k1)"
  "(\<And>w data. refuses_nonzero (k2 w data)) \<Longrightarrow>
   (\<And>k. (\<And>w data. refuses_nonzero (k w data)) \<Longrightarrow> refuses_nonzero (get data k)) \<Longrightarrow>
   refuses_nonzero (sel_field c get z data k2)"
  "(\<And>w data n. refuses_nonzero (k3 w data n)) \<Longrightarrow> refuses_nonzero (opt_vec c data len k3)"
  "(\<And>w data n. refuses_nonzero (k3 w data n)) \<Longrightarrow> refuses_nonzero (opt_vec8 c bnd data len k3)"
  by (auto simp: opt_field_def sel_field_def opt_vec_def opt_vec8_def Let_def intro!: refuses_nonzero_get)

lemma refuses_nonzero_lists:
  "(\<And>b data. refuses_nonzero (k1 b data)) \<Longrightarrow> refuses_nonzero (get_u16s n data k1)"
  "(\<And>b data. refuses_nonzero (k2 b data)) \<Longrightarrow> refuses_nonzero (get_macs n data k2)"
  by (induction n arbitrary: data k1 k2) (auto intro!: refuses_nonzero_get)

lemma refuses_nonzero_rate:
  "(\<And>b data. refuses_nonzero (k b data)) \<Longrightarrow> refuses_nonzero (get_rate data k)"
  by (auto simp: get_rate_def intro!: refuses_nonzero_get)

lemma refuses_nonzero_option:
  "refuses_nonzero a \<Longrightarrow> (\<And>x. refuses_nonzero (f x)) \<Longrightarrow>
   refuses_nonzero (case opt of None \<Rightarrow> a | Some x \<Rightarrow> f x)"
  by (cases opt) simp_all

lemma refuses_nonzero_if:
  "(c \<Longrightarrow> refuses_nonzero a) \<Longrightarrow> (\<not> c \<Longrightarrow> refuses_nonzero b) \<Longrightarrow> refuses_nonzero (if c then a else b)"
  by simp

lemmas refuses_nonzero_intros = refuses_nonzero_get refuses_nonzero_opt refuses_nonzero_lists
  refuses_nonzero_rate refuses_nonzero_option refuses_nonzero_if

lemma decode_leaf_refuses: "decode_leaf lib k data len \<noteq> Reject 0"
proof -
  have "refuses_nonzero (decode_leaf lib k data len)"
    by (cases k; simp only: decode_leaf.simps refuses_nonzero_base; unfold codec_defs Let_def;
        intro refuses_nonzero_intros; simp)
  then show ?thesis by (simp add: refuses_nonzero_def)
qed
end
