(* ===== verification/Pfcp_Tables.thy ===== *)
theory Pfcp_Tables
  imports Pfcp_Ids Pfcp_Leaf
begin

text \<open>
  The tables of \<^verbatim>\<open>src/upf/pfcp.c\<close> that drive the decoder and the encoder: for each group the elements it
  may contain, for each information element its codec or its group, for each message its group.

  The tables are arrays with designated initialisers, as in the source: positions that are not
  named hold a zeroed entry, and a position that is named twice holds what is written last.
\<close>

named_theorems pfcp_tables \<open>the contents of the tables\<close>

section \<open>Entries\<close>

record pfcp_group_ie_def =
  item_type :: nat
  item_vendor :: nat
  item_is_array :: bool

abbreviation (input) "no_elem \<equiv> \<lparr>item_type = 0, item_vendor = 0, item_is_array = False\<rparr>"
abbreviation (input) "elem t \<equiv> \<lparr>item_type = t, item_vendor = 0, item_is_array = False\<rparr>"
abbreviation (input) "elem_array t \<equiv> \<lparr>item_type = t, item_vendor = 0, item_is_array = True\<rparr>"
abbreviation (input) "vendor_elem v t \<equiv> \<lparr>item_type = t, item_vendor = v, item_is_array = False\<rparr>"
abbreviation (input) "vendor_elem_array v t \<equiv> \<lparr>item_type = t, item_vendor = v, item_is_array = True\<rparr>"

text \<open>\<^verbatim>\<open>size\<close> is the length of \<^verbatim>\<open>group\<close>; a simple element has a codec and no group.\<close>

record pfcp_ie_def =
  mandatory :: u32
  group :: "pfcp_group_ie_def list"
  codec :: "ie_codec_id option"

abbreviation (input) "no_def \<equiv> \<lparr>mandatory = 0, group = [], codec = None\<rparr>"
abbreviation (input) "simple_ie k \<equiv> \<lparr>mandatory = 0, group = [], codec = Some k\<rparr>"
abbreviation (input) "grouped_ie m g \<equiv> \<lparr>mandatory = m, group = g, codec = None\<rparr>"

definition BITS :: "nat list \<Rightarrow> u32" where
  "BITS ns = foldr (\<lambda>n m. BIT n OR m) ns 0"

text \<open>An array from its designated initialisers; \<open>table_at\<close> is an index expression, \<open>None\<close> when the
  index is behind the last element.\<close>

definition init_at :: "'a \<Rightarrow> (nat \<times> 'a) list \<Rightarrow> nat \<Rightarrow> 'a" where
  "init_at z inits i = fold (\<lambda>(k, x) y. if k = i then x else y) inits z"

definition last_index :: "(nat \<times> 'a) list \<Rightarrow> nat" where
  "last_index inits = fold (\<lambda>(k, x). max k) inits 0"

definition table_at :: "'a \<Rightarrow> (nat \<times> 'a) list \<Rightarrow> nat \<Rightarrow> 'a option" where
  "table_at z inits i = (if i \<le> last_index inits then Some (init_at z inits i) else None)"

definition designated :: "(nat \<times> pfcp_group_ie_def) list \<Rightarrow> pfcp_group_ie_def list" where
  "designated inits = map (init_at no_elem inits) [0..<Suc (last_index inits)]"

lemmas table_simps = table_at_def init_at_def last_index_def designated_def

section \<open>Groups\<close>

definition pfcp_create_pdr_group :: "pfcp_group_ie_def list" where [pfcp_tables]:
  "pfcp_create_pdr_group = designated [
     (CREATE_PDR_PDR_ID, elem PFCP_IE_PDR_ID),
     (CREATE_PDR_PRECEDENCE, elem PFCP_IE_PRECEDENCE),
     (CREATE_PDR_PDI, elem PFCP_IE_PDI),
     (CREATE_PDR_OUTER_HEADER_REMOVAL, elem PFCP_IE_OUTER_HEADER_REMOVAL),
     (CREATE_PDR_FAR_ID, elem PFCP_IE_FAR_ID),
     (CREATE_PDR_URR_ID, elem_array PFCP_IE_URR_ID),
     (CREATE_PDR_QER_ID, elem_array PFCP_IE_QER_ID),
     (CREATE_PDR_ACTIVATE_PREDEFINED_RULES, elem PFCP_IE_ACTIVATE_PREDEFINED_RULES),
     (CREATE_PDR_ACTIVATION_TIME, elem PFCP_IE_ACTIVATION_TIME),
     (CREATE_PDR_DEACTIVATION_TIME, elem PFCP_IE_DEACTIVATION_TIME),
     (CREATE_PDR_MAR_ID, elem PFCP_IE_MAR_ID)]"

definition pfcp_pdi_group :: "pfcp_group_ie_def list" where [pfcp_tables]:
  "pfcp_pdi_group = designated [
     (PDI_SOURCE_INTERFACE, elem PFCP_IE_SOURCE_INTERFACE),
     (PDI_F_TEID, elem PFCP_IE_F_TEID),
     (PDI_NETWORK_INSTANCE, elem PFCP_IE_NETWORK_INSTANCE),
     (PDI_UE_IP_ADDRESS, elem PFCP_IE_UE_IP_ADDRESS),
     (PDI_SDF_FILTER, elem_array PFCP_IE_SDF_FILTER),
     (PDI_APPLICATION_ID, elem PFCP_IE_APPLICATION_ID),
     (PDI_ETHERNET_PDU_SESSION_INFORMATION, elem PFCP_IE_ETHERNET_PDU_SESSION_INFORMATION),
     (PDI_ETHERNET_PACKET_FILTER, elem PFCP_IE_ETHERNET_PACKET_FILTER),
     (PDI_QFI, elem PFCP_IE_QFI),
     (PDI_FRAMED_ROUTE, elem_array PFCP_IE_FRAMED_ROUTE),
     (PDI_FRAMED_ROUTING, elem PFCP_IE_FRAMED_ROUTING),
     (PDI_FRAMED_IPV6_ROUTE, elem_array PFCP_IE_FRAMED_IPV6_ROUTE),
     (PDI_SOURCE_INTERFACE_TYPE, elem PFCP_IE_TGPP_INTERFACE_TYPE)]"

definition pfcp_create_far_group :: "pfcp_group_ie_def list" where [pfcp_tables]:
  "pfcp_create_far_group = designated [
     (CREATE_FAR_FAR_ID, elem PFCP_IE_FAR_ID),
     (CREATE_FAR_APPLY_ACTION, elem PFCP_IE_APPLY_ACTION),
     (CREATE_FAR_FORWARDING_PARAMETERS, elem PFCP_IE_FORWARDING_PARAMETERS),
     (CREATE_FAR_DUPLICATING_PARAMETERS, elem PFCP_IE_DUPLICATING_PARAMETERS),
     (CREATE_FAR_BAR_ID, elem PFCP_IE_BAR_ID)]"

definition pfcp_forwarding_parameters_group :: "pfcp_group_ie_def list" where [pfcp_tables]:
  "pfcp_forwarding_parameters_group = designated [
     (FORWARDING_PARAMETERS_DESTINATION_INTERFACE, elem PFCP_IE_DESTINATION_INTERFACE),
     (FORWARDING_PARAMETERS_NETWORK_INSTANCE, elem PFCP_IE_NETWORK_INSTANCE),
     (FORWARDING_PARAMETERS_REDIRECT_INFORMATION, elem PFCP_IE_REDIRECT_INFORMATION),
     (FORWARDING_PARAMETERS_OUTER_HEADER_CREATION, elem PFCP_IE_OUTER_HEADER_CREATION),
     (FORWARDING_PARAMETERS_TRANSPORT_LEVEL_MARKING, elem PFCP_IE_TRANSPORT_LEVEL_MARKING),
     (FORWARDING_PARAMETERS_FORWARDING_POLICY, elem PFCP_IE_FORWARDING_POLICY),
     (FORWARDING_PARAMETERS_HEADER_ENRICHMENT, elem PFCP_IE_HEADER_ENRICHMENT),
     (FORWARDING_PARAMETERS_LINKED_TRAFFIC_ENDPOINT_ID, elem PFCP_IE_TRAFFIC_ENDPOINT_ID),
     (FORWARDING_PARAMETERS_PROXYING, elem PFCP_IE_PROXYING),
     (FORWARDING_PARAMETERS_DESTINATION_INTERFACE_TYPE, elem PFCP_IE_TGPP_INTERFACE_TYPE),
     (FORWARDING_PARAMETERS_BBF_APPLY_ACTION, vendor_elem VENDOR_BBF PFCP_IE_BBF_APPLY_ACTION),
     (FORWARDING_PARAMETERS_BBF_NAT_PORT_BLOCK, vendor_elem VENDOR_BBF PFCP_IE_BBF_NAT_PORT_BLOCK)]"

definition pfcp_duplicating_parameters_group :: "pfcp_group_ie_def list" where [pfcp_tables]:
  "pfcp_duplicating_parameters_group = designated [
     (DUPLICATING_PARAMETERS_DESTINATION_INTERFACE, elem PFCP_IE_DESTINATION_INTERFACE),
     (DUPLICATING_PARAMETERS_OUTER_HEADER_CREATION, elem PFCP_IE_OUTER_HEADER_CREATION),
     (DUPLICATING_PARAMETERS_TRANSPORT_LEVEL_MARKING, elem PFCP_IE_TRANSPORT_LEVEL_MARKING),
     (DUPLICATING_PARAMETERS_FORWARDING_POLICY, elem PFCP_IE_FORWARDING_POLICY)]"

definition pfcp_create_urr_group :: "pfcp_group_ie_def list" where [pfcp_tables]:
  "pfcp_create_urr_group = designated [
     (CREATE_URR_URR_ID, elem PFCP_IE_URR_ID),
     (CREATE_URR_MEASUREMENT_METHOD, elem PFCP_IE_MEASUREMENT_METHOD),
     (CREATE_URR_REPORTING_TRIGGERS, elem PFCP_IE_REPORTING_TRIGGERS),
     (CREATE_URR_MEASUREMENT_PERIOD, elem PFCP_IE_MEASUREMENT_PERIOD),
     (CREATE_URR_VOLUME_THRESHOLD, elem PFCP_IE_VOLUME_THRESHOLD),
     (CREATE_URR_VOLUME_QUOTA, elem PFCP_IE_VOLUME_QUOTA),
     (CREATE_URR_TIME_THRESHOLD, elem PFCP_IE_TIME_THRESHOLD),
     (CREATE_URR_TIME_QUOTA, elem PFCP_IE_TIME_QUOTA),
     (CREATE_URR_QUOTA_HOLDING_TIME, elem PFCP_IE_QUOTA_HOLDING_TIME),
     (CREATE_URR_DROPPED_DL_TRAFFIC_THRESHOLD, elem PFCP_IE_DROPPED_DL_TRAFFIC_THRESHOLD),
     (CREATE_URR_QUOTA_VALIDITY_TIME, elem PFCP_IE_QUOTA_VALIDITY_TIME),
     (CREATE_URR_MONITORING_TIME, elem PFCP_IE_MONITORING_TIME),
     (CREATE_URR_SUBSEQUENT_VOLUME_THRESHOLD, elem PFCP_IE_SUBSEQUENT_VOLUME_THRESHOLD),
     (CREATE_URR_SUBSEQUENT_TIME_THRESHOLD, elem PFCP_IE_SUBSEQUENT_TIME_THRESHOLD),
     (CREATE_URR_INACTIVITY_DETECTION_TIME, elem PFCP_IE_INACTIVITY_DETECTION_TIME),
     (CREATE_URR_LINKED_URR_ID, elem_array PFCP_IE_LINKED_URR_ID),
     (CREATE_URR_MEASUREMENT_INFORMATION, elem PFCP_IE_MEASUREMENT_INFORMATION),
     (CREATE_URR_TIME_QUOTA_MECHANISM, elem PFCP_IE_TIME_QUOTA_MECHANISM),
     (CREATE_URR_AGGREGATED_URRS, elem PFCP_IE_AGGREGATED_URRS),
     (CREATE_URR_FAR_ID_FOR_QUOTE_ACTION, elem PFCP_IE_FAR_ID),
     (CREATE_URR_ETHERNET_INACTIVITY_TIMER, elem PFCP_IE_ETHERNET_INACTIVITY_TIMER),
     (CREATE_URR_ADDITIONAL_MONITORING_TIME, elem_array PFCP_IE_ADDITIONAL_MONITORING_TIME)]"

definition pfcp_create_qer_group :: "pfcp_group_ie_def list" where [pfcp_tables]:
  "pfcp_create_qer_group = designated [
     (CREATE_QER_QER_ID, elem PFCP_IE_QER_ID),
     (CREATE_QER_QER_CORRELATION_ID, elem PFCP_IE_QER_CORRELATION_ID),
     (CREATE_QER_GATE_STATUS, elem PFCP_IE_GATE_STATUS),
     (CREATE_QER_MBR, elem PFCP_IE_MBR),
     (CREATE_QER_GBR, elem PFCP_IE_GBR),
     (CREATE_QER_PACKET_RATE, elem PFCP_IE_PACKET_RATE),
     (CREATE_QER_DL_FLOW_LEVEL_MARKING, elem PFCP_IE_DL_FLOW_LEVEL_MARKING),
     (CREATE_QER_QOS_FLOW_IDENTIFIER, elem PFCP_IE_QFI),
     (CREATE_QER_REFLECTIVE_QOS, elem PFCP_IE_RQI),
     (CREATE_QER_PAGING_POLICY_INDICATOR, elem PFCP_IE_PAGING_POLICY_INDICATOR),
     (CREATE_QER_AVERAGING_WINDOW, elem PFCP_IE_AVERAGING_WINDOW)]"

definition pfcp_created_pdr_group :: "pfcp_group_ie_def list" where [pfcp_tables]:
  "pfcp_created_pdr_group = designated [
     (CREATED_PDR_PDR_ID, elem PFCP_IE_PDR_ID),
     (CREATED_PDR_F_TEID, elem PFCP_IE_F_TEID),
     (CREATED_PDR_UE_IP_ADDRESS, elem PFCP_IE_UE_IP_ADDRESS)]"

definition pfcp_update_pdr_group :: "pfcp_group_ie_def list" where [pfcp_tables]:
  "pfcp_update_pdr_group = designated [
     (UPDATE_PDR_PDR_ID, elem PFCP_IE_PDR_ID),
     (UPDATE_PDR_OUTER_HEADER_REMOVAL, elem PFCP_IE_OUTER_HEADER_REMOVAL),
     (UPDATE_PDR_PRECEDENCE, elem PFCP_IE_PRECEDENCE),
     (UPDATE_PDR_PDI, elem PFCP_IE_PDI),
     (UPDATE_PDR_FAR_ID, elem PFCP_IE_FAR_ID),
     (UPDATE_PDR_URR_ID, elem_array PFCP_IE_URR_ID),
     (UPDATE_PDR_QER_ID, elem_array PFCP_IE_QER_ID),
     (UPDATE_PDR_ACTIVATE_PREDEFINED_RULES, elem PFCP_IE_ACTIVATE_PREDEFINED_RULES),
     (UPDATE_PDR_DEACTIVATE_PREDEFINED_RULES, elem PFCP_IE_DEACTIVATE_PREDEFINED_RULES),
     (UPDATE_PDR_ACTIVATION_TIME, elem PFCP_IE_ACTIVATION_TIME),
     (UPDATE_PDR_DEACTIVATION_TIME, elem PFCP_IE_DEACTIVATION_TIME)]"

definition pfcp_update_far_group :: "pfcp_group_ie_def list" where [pfcp_tables]:
  "pfcp_update_far_group = designated [
     (UPDATE_FAR_FAR_ID, elem PFCP_IE_FAR_ID),
     (UPDATE_FAR_APPLY_ACTION, elem PFCP_IE_APPLY_ACTION),
     (UPDATE_FAR_UPDATE_FORWARDING_PARAMETERS, elem PFCP_IE_UPDATE_FORWARDING_PARAMETERS),
     (UPDATE_FAR_UPDATE_DUPLICATING_PARAMETERS, elem PFCP_IE_UPDATE_DUPLICATING_PARAMETERS),
     (UPDATE_FAR_BAR_ID, elem PFCP_IE_BAR_ID)]"

definition pfcp_update_forwarding_parameters_group :: "pfcp_group_ie_def list" where [pfcp_tables]:
  "pfcp_update_forwarding_parameters_group = designated [
     (UPDATE_FORWARDING_PARAMETERS_DESTINATION_INTERFACE, elem PFCP_IE_DESTINATION_INTERFACE),
     (UPDATE_FORWARDING_PARAMETERS_NETWORK_INSTANCE, elem PFCP_IE_NETWORK_INSTANCE),
     (UPDATE_FORWARDING_PARAMETERS_REDIRECT_INFORMATION, elem PFCP_IE_REDIRECT_INFORMATION),
     (UPDATE_FORWARDING_PARAMETERS_OUTER_HEADER_CREATION, elem PFCP_IE_OUTER_HEADER_CREATION),
     (UPDATE_FORWARDING_PARAMETERS_TRANSPORT_LEVEL_MARKING, elem PFCP_IE_TRANSPORT_LEVEL_MARKING),
     (UPDATE_FORWARDING_PARAMETERS_FORWARDING_POLICY, elem PFCP_IE_FORWARDING_POLICY),
     (UPDATE_FORWARDING_PARAMETERS_HEADER_ENRICHMENT, elem PFCP_IE_HEADER_ENRICHMENT),
     (UPDATE_FORWARDING_PARAMETERS_PFCPSMREQ_FLAGS, elem PFCP_IE_PFCPSMREQ_FLAGS),
     (UPDATE_FORWARDING_PARAMETERS_LINKED_TRAFFIC_ENDPOINT_ID, elem PFCP_IE_TRAFFIC_ENDPOINT_ID),
     (UPDATE_FORWARDING_PARAMETERS_DESTINATION_INTERFACE_TYPE, elem PFCP_IE_TGPP_INTERFACE_TYPE)]"

definition pfcp_update_bar_response_group :: "pfcp_group_ie_def list" where [pfcp_tables]:
  "pfcp_update_bar_response_group = designated [
     (UPDATE_BAR_RESPONSE_BAR_ID, elem PFCP_IE_BAR_ID),
     (UPDATE_BAR_RESPONSE_DOWNLINK_DATA_NOTIFICATION_DELAY, elem PFCP_IE_DOWNLINK_DATA_NOTIFICATION_DELAY),
     (UPDATE_BAR_RESPONSE_DL_BUFFERING_DURATION, elem PFCP_IE_DL_BUFFERING_DURATION),
     (UPDATE_BAR_RESPONSE_DL_BUFFERING_SUGGESTED_PACKET_COUNT, elem PFCP_IE_DL_BUFFERING_SUGGESTED_PACKET_COUNT),
     (UPDATE_BAR_RESPONSE_SUGGESTED_BUFFERING_PACKETS_COUNT, elem PFCP_IE_SUGGESTED_BUFFERING_PACKETS_COUNT)]"

definition pfcp_update_urr_group :: "pfcp_group_ie_def list" where [pfcp_tables]:
  "pfcp_update_urr_group = designated [
     (UPDATE_URR_URR_ID, elem PFCP_IE_URR_ID),
     (UPDATE_URR_MEASUREMENT_METHOD, elem PFCP_IE_MEASUREMENT_METHOD),
     (UPDATE_URR_REPORTING_TRIGGERS, elem PFCP_IE_REPORTING_TRIGGERS),
     (UPDATE_URR_MEASUREMENT_PERIOD, elem PFCP_IE_MEASUREMENT_PERIOD),
     (UPDATE_URR_VOLUME_THRESHOLD, elem PFCP_IE_VOLUME_THRESHOLD),
     (UPDATE_URR_VOLUME_QUOTA, elem PFCP_IE_VOLUME_QUOTA),
     (UPDATE_URR_TIME_THRESHOLD, elem PFCP_IE_TIME_THRESHOLD),
     (UPDATE_URR_TIME_QUOTA, elem PFCP_IE_TIME_QUOTA),
     (UPDATE_URR_QUOTA_HOLDING_TIME, elem PFCP_IE_QUOTA_HOLDING_TIME),
     (UPDATE_URR_DROPPED_DL_TRAFFIC_THRESHOLD, elem PFCP_IE_DROPPED_DL_TRAFFIC_THRESHOLD),
     (UPDATE_URR_QUOTA_VALIDITY_TIME, elem PFCP_IE_QUOTA_VALIDITY_TIME),
     (UPDATE_URR_MONITORING_TIME, elem PFCP_IE_MONITORING_TIME),
     (UPDATE_URR_SUBSEQUENT_VOLUME_THRESHOLD, elem PFCP_IE_SUBSEQUENT_VOLUME_THRESHOLD),
     (UPDATE_URR_SUBSEQUENT_TIME_THRESHOLD, elem PFCP_IE_SUBSEQUENT_TIME_THRESHOLD),
     (UPDATE_URR_INACTIVITY_DETECTION_TIME, elem PFCP_IE_INACTIVITY_DETECTION_TIME),
     (UPDATE_URR_LINKED_URR_ID, elem_array PFCP_IE_LINKED_URR_ID),
     (UPDATE_URR_MEASUREMENT_INFORMATION, elem PFCP_IE_MEASUREMENT_INFORMATION),
     (UPDATE_URR_TIME_QUOTA_MECHANISM, elem PFCP_IE_TIME_QUOTA_MECHANISM),
     (UPDATE_URR_AGGREGATED_URRS, elem PFCP_IE_AGGREGATED_URRS),
     (UPDATE_URR_FAR_ID_FOR_QUOTE_ACTION, elem PFCP_IE_FAR_ID),
     (UPDATE_URR_ETHERNET_INACTIVITY_TIMER, elem PFCP_IE_ETHERNET_INACTIVITY_TIMER)]"

definition pfcp_update_qer_group :: "pfcp_group_ie_def list" where [pfcp_tables]:
  "pfcp_update_qer_group = designated [
     (UPDATE_QER_QER_ID, elem PFCP_IE_QER_ID),
     (UPDATE_QER_QER_CORRELATION_ID, elem PFCP_IE_QER_CORRELATION_ID),
     (UPDATE_QER_GATE_STATUS, elem PFCP_IE_GATE_STATUS),
     (UPDATE_QER_MBR, elem PFCP_IE_MBR),
     (UPDATE_QER_GBR, elem PFCP_IE_GBR),
     (UPDATE_QER_PACKET_RATE, elem PFCP_IE_PACKET_RATE),
     (UPDATE_QER_DL_FLOW_LEVEL_MARKING, elem PFCP_IE_DL_FLOW_LEVEL_MARKING),
     (UPDATE_QER_QOS_FLOW_IDENTIFIER, elem PFCP_IE_QFI),
     (UPDATE_QER_REFLECTIVE_QOS, elem PFCP_IE_RQI),
     (UPDATE_QER_PAGING_POLICY_INDICATOR, elem PFCP_IE_PAGING_POLICY_INDICATOR),
     (UPDATE_QER_AVERAGING_WINDOW, elem PFCP_IE_AVERAGING_WINDOW)]"

definition pfcp_remove_pdr_group :: "pfcp_group_ie_def list" where [pfcp_tables]:
  "pfcp_remove_pdr_group = designated [
     (REMOVE_PDR_PDR_ID, elem PFCP_IE_PDR_ID)]"

definition pfcp_remove_far_group :: "pfcp_group_ie_def list" where [pfcp_tables]:
  "pfcp_remove_far_group = designated [
     (REMOVE_FAR_FAR_ID, elem PFCP_IE_FAR_ID)]"

definition pfcp_remove_urr_group :: "pfcp_group_ie_def list" where [pfcp_tables]:
  "pfcp_remove_urr_group = designated [
     (REMOVE_URR_URR_ID, elem PFCP_IE_URR_ID)]"

definition pfcp_remove_qer_group :: "pfcp_group_ie_def list" where [pfcp_tables]:
  "pfcp_remove_qer_group = designated [
     (REMOVE_QER_QER_ID, elem PFCP_IE_QER_ID)]"

definition pfcp_load_control_information_group :: "pfcp_group_ie_def list" where [pfcp_tables]:
  "pfcp_load_control_information_group = designated [
     (LOAD_CONTROL_INFORMATION_SEQUENCE_NUMBER, elem PFCP_IE_SEQUENCE_NUMBER),
     (LOAD_CONTROL_INFORMATION_METRIC, elem PFCP_IE_METRIC)]"

definition pfcp_overload_control_information_group :: "pfcp_group_ie_def list" where [pfcp_tables]:
  "pfcp_overload_control_information_group = designated [
     (OVERLOAD_CONTROL_INFORMATION_SEQUENCE_NUMBER, elem PFCP_IE_SEQUENCE_NUMBER),
     (OVERLOAD_CONTROL_INFORMATION_METRIC, elem PFCP_IE_METRIC),
     (OVERLOAD_CONTROL_INFORMATION_TIMER, elem PFCP_IE_TIMER),
     (OVERLOAD_CONTROL_INFORMATION_OCI_FLAGS, elem PFCP_IE_OCI_FLAGS)]"

definition pfcp_application_id_pfds_group :: "pfcp_group_ie_def list" where [pfcp_tables]:
  "pfcp_application_id_pfds_group = designated [
     (APPLICATION_ID_PFDS_APPLICATION_ID, elem PFCP_IE_APPLICATION_ID),
     (APPLICATION_ID_PFDS_PFD, elem_array PFCP_IE_PFD)]"

definition pfcp_pfd_group :: "pfcp_group_ie_def list" where [pfcp_tables]:
  "pfcp_pfd_group = designated [
     (PFD_PFD_CONTENTS, elem_array PFCP_IE_PFD_CONTENTS)]"

definition pfcp_application_detection_information_group :: "pfcp_group_ie_def list" where [pfcp_tables]:
  "pfcp_application_detection_information_group = designated [
     (APPLICATION_DETECTION_INFORMATION_APPLICATION_ID, elem PFCP_IE_APPLICATION_ID),
     (APPLICATION_DETECTION_INFORMATION_APPLICATION_INSTANCE_ID, elem PFCP_IE_APPLICATION_INSTANCE_ID),
     (APPLICATION_DETECTION_INFORMATION_FLOW_INFORMATION, elem PFCP_IE_FLOW_INFORMATION)]"

definition pfcp_query_urr_group :: "pfcp_group_ie_def list" where [pfcp_tables]:
  "pfcp_query_urr_group = designated [
     (QUERY_URR_URR_ID, elem PFCP_IE_URR_ID)]"

definition pfcp_usage_report_smr_group :: "pfcp_group_ie_def list" where [pfcp_tables]:
  "pfcp_usage_report_smr_group = designated [
     (USAGE_REPORT_URR_ID, elem PFCP_IE_URR_ID),
     (USAGE_REPORT_UR_SEQN, elem PFCP_IE_UR_SEQN),
     (USAGE_REPORT_USAGE_REPORT_TRIGGER, elem PFCP_IE_USAGE_REPORT_TRIGGER),
     (USAGE_REPORT_START_TIME, elem PFCP_IE_START_TIME),
     (USAGE_REPORT_END_TIME, elem PFCP_IE_END_TIME),
     (USAGE_REPORT_VOLUME_MEASUREMENT, elem PFCP_IE_VOLUME_MEASUREMENT),
     (USAGE_REPORT_DURATION_MEASUREMENT, elem PFCP_IE_DURATION_MEASUREMENT),
     (USAGE_REPORT_TIME_OF_FIRST_PACKET, elem PFCP_IE_TIME_OF_FIRST_PACKET),
     (USAGE_REPORT_TIME_OF_LAST_PACKET, elem PFCP_IE_TIME_OF_LAST_PACKET),
     (USAGE_REPORT_USAGE_INFORMATION, elem PFCP_IE_USAGE_INFORMATION),
     (USAGE_REPORT_QUERY_URR_REFERENCE, elem PFCP_IE_QUERY_URR_REFERENCE),
     (USAGE_REPORT_EVENT_TIME_STAMP, elem_array PFCP_IE_EVENT_TIME_STAMP),
     (USAGE_REPORT_ETHERNET_TRAFFIC_INFORMATION, elem PFCP_IE_ETHERNET_TRAFFIC_INFORMATION),
     (USAGE_REPORT_TP_NOW, vendor_elem VENDOR_TRAVELPING PFCP_IE_TP_NOW),
     (USAGE_REPORT_TP_START_TIME, vendor_elem VENDOR_TRAVELPING PFCP_IE_TP_START_TIME),
     (USAGE_REPORT_TP_END_TIME, vendor_elem VENDOR_TRAVELPING PFCP_IE_TP_END_TIME)]"

definition pfcp_packet_report_group :: "pfcp_group_ie_def list" where [pfcp_tables]:
  "pfcp_packet_report_group = designated [
     (TRAFFIC_REPORT_PACKET_TYPE, elem PFCP_IE_TRAFFIC_REPORT_PACKET_TYPE),
     (TRAFFIC_REPORT_PACKET_HEADER, elem PFCP_IE_TRAFFIC_REPORT_PACKET_HEADER),
     (TRAFFIC_REPORT_PACKET_DATA, elem PFCP_IE_TRAFFIC_REPORT_PACKET_DATA)]"

definition pfcp_usage_report_sdr_group :: "pfcp_group_ie_def list" where [pfcp_tables]:
  "pfcp_usage_report_sdr_group = designated [
     (USAGE_REPORT_URR_ID, elem PFCP_IE_URR_ID),
     (USAGE_REPORT_UR_SEQN, elem PFCP_IE_UR_SEQN),
     (USAGE_REPORT_USAGE_REPORT_TRIGGER, elem PFCP_IE_USAGE_REPORT_TRIGGER),
     (USAGE_REPORT_START_TIME, elem PFCP_IE_START_TIME),
     (USAGE_REPORT_END_TIME, elem PFCP_IE_END_TIME),
     (USAGE_REPORT_VOLUME_MEASUREMENT, elem PFCP_IE_VOLUME_MEASUREMENT),
     (USAGE_REPORT_DURATION_MEASUREMENT, elem PFCP_IE_DURATION_MEASUREMENT),
     (USAGE_REPORT_TIME_OF_FIRST_PACKET, elem PFCP_IE_TIME_OF_FIRST_PACKET),
     (USAGE_REPORT_TIME_OF_LAST_PACKET, elem PFCP_IE_TIME_OF_LAST_PACKET),
     (USAGE_REPORT_USAGE_INFORMATION, elem PFCP_IE_USAGE_INFORMATION),
     (USAGE_REPORT_ETHERNET_TRAFFIC_INFORMATION, elem PFCP_IE_ETHERNET_TRAFFIC_INFORMATION),
     (USAGE_REPORT_TP_NOW, vendor_elem VENDOR_TRAVELPING PFCP_IE_TP_NOW),
     (USAGE_REPORT_TP_START_TIME, vendor_elem VENDOR_TRAVELPING PFCP_IE_TP_START_TIME),
     (USAGE_REPORT_TP_END_TIME, vendor_elem VENDOR_TRAVELPING PFCP_IE_TP_END_TIME)]"

definition pfcp_usage_report_srr_group :: "pfcp_group_ie_def list" where [pfcp_tables]:
  "pfcp_usage_report_srr_group = designated [
     (USAGE_REPORT_URR_ID, elem PFCP_IE_URR_ID),
     (USAGE_REPORT_UR_SEQN, elem PFCP_IE_UR_SEQN),
     (USAGE_REPORT_USAGE_REPORT_TRIGGER, elem PFCP_IE_USAGE_REPORT_TRIGGER),
     (USAGE_REPORT_START_TIME, elem PFCP_IE_START_TIME),
     (USAGE_REPORT_END_TIME, elem PFCP_IE_END_TIME),
     (USAGE_REPORT_VOLUME_MEASUREMENT, elem PFCP_IE_VOLUME_MEASUREMENT),
     (USAGE_REPORT_DURATION_MEASUREMENT, elem PFCP_IE_DURATION_MEASUREMENT),
     (USAGE_REPORT_APPLICATION_DETECTION_INFORMATION, elem PFCP_IE_APPLICATION_DETECTION_INFORMATION),
     (USAGE_REPORT_UE_IP_ADDRESS, elem PFCP_IE_UE_IP_ADDRESS),
     (USAGE_REPORT_NETWORK_INSTANCE, elem PFCP_IE_NETWORK_INSTANCE),
     (USAGE_REPORT_TIME_OF_FIRST_PACKET, elem PFCP_IE_TIME_OF_FIRST_PACKET),
     (USAGE_REPORT_TIME_OF_LAST_PACKET, elem PFCP_IE_TIME_OF_LAST_PACKET),
     (USAGE_REPORT_USAGE_INFORMATION, elem PFCP_IE_USAGE_INFORMATION),
     (USAGE_REPORT_QUERY_URR_REFERENCE, elem PFCP_IE_QUERY_URR_REFERENCE),
     (USAGE_REPORT_ETHERNET_TRAFFIC_INFORMATION, elem PFCP_IE_ETHERNET_TRAFFIC_INFORMATION),
     (USAGE_REPORT_TP_NOW, vendor_elem VENDOR_TRAVELPING PFCP_IE_TP_NOW),
     (USAGE_REPORT_TP_START_TIME, vendor_elem VENDOR_TRAVELPING PFCP_IE_TP_START_TIME),
     (USAGE_REPORT_TP_END_TIME, vendor_elem VENDOR_TRAVELPING PFCP_IE_TP_END_TIME)]"

definition pfcp_downlink_data_report_group :: "pfcp_group_ie_def list" where [pfcp_tables]:
  "pfcp_downlink_data_report_group = designated [
     (DOWNLINK_DATA_REPORT_PDR_ID, elem_array PFCP_IE_PDR_ID),
     (DOWNLINK_DATA_REPORT_DOWNLINK_DATA_SERVICE_INFORMATION, elem_array PFCP_IE_DOWNLINK_DATA_SERVICE_INFORMATION)]"

definition pfcp_create_bar_group :: "pfcp_group_ie_def list" where [pfcp_tables]:
  "pfcp_create_bar_group = designated [
     (CREATE_BAR_BAR_ID, elem PFCP_IE_BAR_ID),
     (CREATE_BAR_DOWNLINK_DATA_NOTIFICATION_DELAY, elem PFCP_IE_DOWNLINK_DATA_NOTIFICATION_DELAY),
     (CREATE_BAR_SUGGESTED_BUFFERING_PACKETS_COUNT, elem PFCP_IE_SUGGESTED_BUFFERING_PACKETS_COUNT)]"

definition pfcp_update_bar_request_group :: "pfcp_group_ie_def list" where [pfcp_tables]:
  "pfcp_update_bar_request_group = designated [
     (UPDATE_BAR_REQUEST_BAR_ID, elem PFCP_IE_BAR_ID),
     (UPDATE_BAR_REQUEST_DOWNLINK_DATA_NOTIFICATION_DELAY, elem PFCP_IE_DOWNLINK_DATA_NOTIFICATION_DELAY),
     (UPDATE_BAR_REQUEST_SUGGESTED_BUFFERING_PACKETS_COUNT, elem PFCP_IE_SUGGESTED_BUFFERING_PACKETS_COUNT)]"

definition pfcp_remove_bar_group :: "pfcp_group_ie_def list" where [pfcp_tables]:
  "pfcp_remove_bar_group = designated [
     (REMOVE_BAR_BAR_ID, elem PFCP_IE_BAR_ID)]"

definition pfcp_error_indication_report_group :: "pfcp_group_ie_def list" where [pfcp_tables]:
  "pfcp_error_indication_report_group = designated [
     (ERROR_INDICATION_REPORT_F_TEID, elem_array PFCP_IE_F_TEID)]"

definition pfcp_user_plane_path_failure_report_group :: "pfcp_group_ie_def list" where [pfcp_tables]:
  "pfcp_user_plane_path_failure_report_group = designated [
     (USER_PLANE_PATH_FAILURE_REPORT_REMOTE_GTP_U_PEER, elem_array PFCP_IE_REMOTE_GTP_U_PEER)]"

definition pfcp_update_duplicating_parameters_group :: "pfcp_group_ie_def list" where [pfcp_tables]:
  "pfcp_update_duplicating_parameters_group = designated [
     (UPDATE_DUPLICATING_PARAMETERS_DESTINATION_INTERFACE, elem PFCP_IE_DESTINATION_INTERFACE),
     (UPDATE_DUPLICATING_PARAMETERS_OUTER_HEADER_CREATION, elem PFCP_IE_OUTER_HEADER_CREATION),
     (UPDATE_DUPLICATING_PARAMETERS_TRANSPORT_LEVEL_MARKING, elem PFCP_IE_TRANSPORT_LEVEL_MARKING),
     (UPDATE_DUPLICATING_PARAMETERS_FORWARDING_POLICY, elem PFCP_IE_FORWARDING_POLICY)]"

definition pfcp_aggregated_urrs_group :: "pfcp_group_ie_def list" where [pfcp_tables]:
  "pfcp_aggregated_urrs_group = designated [
     (AGGREGATED_URRS_AGGREGATED_URR_ID, elem PFCP_IE_AGGREGATED_URR_ID),
     (AGGREGATED_URRS_MULTIPLIER, elem PFCP_IE_MULTIPLIER)]"

definition pfcp_create_traffic_endpoint_group :: "pfcp_group_ie_def list" where [pfcp_tables]:
  "pfcp_create_traffic_endpoint_group = designated [
     (CREATE_TRAFFIC_ENDPOINT_TRAFFIC_ENDPOINT_ID, elem PFCP_IE_TRAFFIC_ENDPOINT_ID),
     (CREATE_TRAFFIC_ENDPOINT_F_TEID, elem PFCP_IE_F_TEID),
     (CREATE_TRAFFIC_ENDPOINT_NETWORK_INSTANCE, elem PFCP_IE_NETWORK_INSTANCE),
     (CREATE_TRAFFIC_ENDPOINT_UE_IP_ADDRESS, elem PFCP_IE_UE_IP_ADDRESS),
     (CREATE_TRAFFIC_ENDPOINT_ETHERNET_PDU_SESSION_INFORMATION, elem PFCP_IE_ETHERNET_PDU_SESSION_INFORMATION),
     (CREATE_TRAFFIC_ENDPOINT_FRAMED_ROUTE, elem_array PFCP_IE_FRAMED_ROUTE),
     (CREATE_TRAFFIC_ENDPOINT_FRAMED_ROUTING, elem PFCP_IE_FRAMED_ROUTING),
     (CREATE_TRAFFIC_ENDPOINT_FRAMED_IPV6_ROUTE, elem_array PFCP_IE_FRAMED_IPV6_ROUTE)]"

definition pfcp_created_traffic_endpoint_group :: "pfcp_group_ie_def list" where [pfcp_tables]:
  "pfcp_created_traffic_endpoint_group = designated [
     (CREATED_TRAFFIC_ENDPOINT_TRAFFIC_ENDPOINT_ID, elem PFCP_IE_TRAFFIC_ENDPOINT_ID),
     (CREATED_TRAFFIC_ENDPOINT_F_TEID, elem PFCP_IE_F_TEID),
     (CREATED_TRAFFIC_ENDPOINT_UE_IP_ADDRESS, elem PFCP_IE_UE_IP_ADDRESS)]"

definition pfcp_update_traffic_endpoint_group :: "pfcp_group_ie_def list" where [pfcp_tables]:
  "pfcp_update_traffic_endpoint_group = designated [
     (UPDATE_TRAFFIC_ENDPOINT_TRAFFIC_ENDPOINT_ID, elem PFCP_IE_TRAFFIC_ENDPOINT_ID),
     (UPDATE_TRAFFIC_ENDPOINT_F_TEID, elem PFCP_IE_F_TEID),
     (UPDATE_TRAFFIC_ENDPOINT_NETWORK_INSTANCE, elem PFCP_IE_NETWORK_INSTANCE),
     (UPDATE_TRAFFIC_ENDPOINT_UE_IP_ADDRESS, elem PFCP_IE_UE_IP_ADDRESS),
     (UPDATE_TRAFFIC_ENDPOINT_FRAMED_ROUTE, elem_array PFCP_IE_FRAMED_ROUTE),
     (UPDATE_TRAFFIC_ENDPOINT_FRAMED_ROUTING, elem PFCP_IE_FRAMED_ROUTING),
     (UPDATE_TRAFFIC_ENDPOINT_FRAMED_IPV6_ROUTE, elem_array PFCP_IE_FRAMED_IPV6_ROUTE)]"

definition pfcp_remove_traffic_endpoint_group :: "pfcp_group_ie_def list" where [pfcp_tables]:
  "pfcp_remove_traffic_endpoint_group = designated [
     (REMOVE_TRAFFIC_ENDPOINT_TRAFFIC_ENDPOINT_ID, elem PFCP_IE_TRAFFIC_ENDPOINT_ID)]"

definition pfcp_ethernet_packet_filter_group :: "pfcp_group_ie_def list" where [pfcp_tables]:
  "pfcp_ethernet_packet_filter_group = designated [
     (ETHERNET_PACKET_FILTER_ETHERNET_FILTER_ID, elem PFCP_IE_ETHERNET_FILTER_ID),
     (ETHERNET_PACKET_FILTER_ETHERNET_FILTER_PROPERTIES, elem PFCP_IE_ETHERNET_FILTER_PROPERTIES),
     (ETHERNET_PACKET_FILTER_MAC_ADDRESS, elem PFCP_IE_MAC_ADDRESS),
     (ETHERNET_PACKET_FILTER_ETHERTYPE, elem PFCP_IE_ETHERTYPE),
     (ETHERNET_PACKET_FILTER_C_TAG, elem PFCP_IE_C_TAG),
     (ETHERNET_PACKET_FILTER_S_TAG, elem PFCP_IE_S_TAG),
     (ETHERNET_PACKET_FILTER_SDF_FILTER, elem_array PFCP_IE_SDF_FILTER)]"

definition pfcp_ethernet_traffic_information_group :: "pfcp_group_ie_def list" where [pfcp_tables]:
  "pfcp_ethernet_traffic_information_group = designated [
     (ETHERNET_TRAFFIC_INFORMATION_MAC_ADDRESSES_DETECTED, elem PFCP_IE_MAC_ADDRESSES_DETECTED),
     (ETHERNET_TRAFFIC_INFORMATION_MAC_ADDRESSES_REMOVED, elem PFCP_IE_MAC_ADDRESSES_REMOVED)]"

definition pfcp_additional_monitoring_time_group :: "pfcp_group_ie_def list" where [pfcp_tables]:
  "pfcp_additional_monitoring_time_group = designated [
     (ADDITIONAL_MONITORING_TIME_MONITORING_TIME, elem PFCP_IE_MONITORING_TIME),
     (ADDITIONAL_MONITORING_TIME_SUBSEQUENT_VOLUME_THRESHOLD, elem PFCP_IE_SUBSEQUENT_VOLUME_THRESHOLD),
     (ADDITIONAL_MONITORING_TIME_SUBSEQUENT_TIME_THRESHOLD, elem PFCP_IE_SUBSEQUENT_TIME_THRESHOLD),
     (ADDITIONAL_MONITORING_TIME_SUBSEQUENT_VOLUME_QUOTA, elem PFCP_IE_SUBSEQUENT_VOLUME_QUOTA),
     (ADDITIONAL_MONITORING_TIME_SUBSEQUENT_TIME_QUOTA, elem PFCP_IE_SUBSEQUENT_TIME_QUOTA)]"

definition pfcp_create_mar_group :: "pfcp_group_ie_def list" where [pfcp_tables]:
  "pfcp_create_mar_group = designated [
     (CREATE_MAR_MAR_ID, elem PFCP_IE_MAR_ID),
     (CREATE_MAR_STEERING_FUNCTIONALITY, elem PFCP_IE_STEERING_FUNCTIONALITY),
     (CREATE_MAR_STEERING_MODE, elem PFCP_IE_STEERING_MODE),
     (CREATE_MAR_ACCESS_FORWARDING_ACTION_INFORMATION_1, elem PFCP_IE_ACCESS_FORWARDING_ACTION_INFORMATION_1),
     (CREATE_MAR_ACCESS_FORWARDING_ACTION_INFORMATION_2, elem PFCP_IE_ACCESS_FORWARDING_ACTION_INFORMATION_2)]"

definition pfcp_access_forwarding_action_information_group :: "pfcp_group_ie_def list" where [pfcp_tables]:
  "pfcp_access_forwarding_action_information_group = designated [
     (ACCESS_FORWARDING_ACTION_INFORMATION_FAR_ID, elem PFCP_IE_FAR_ID),
     (ACCESS_FORWARDING_ACTION_INFORMATION_WEIGHT, elem PFCP_IE_WEIGHT),
     (ACCESS_FORWARDING_ACTION_INFORMATION_PRIORITY, elem PFCP_IE_PRIORITY),
     (ACCESS_FORWARDING_ACTION_INFORMATION_URR_ID, elem PFCP_IE_URR_ID)]"

definition pfcp_remove_mar_group :: "pfcp_group_ie_def list" where [pfcp_tables]:
  "pfcp_remove_mar_group = designated [
     (REMOVE_MAR_MAR_ID, elem PFCP_IE_MAR_ID)]"

definition pfcp_update_mar_group :: "pfcp_group_ie_def list" where [pfcp_tables]:
  "pfcp_update_mar_group = designated [
     (UPDATE_MAR_MAR_ID, elem PFCP_IE_MAR_ID),
     (UPDATE_MAR_STEERING_FUNCTIONALITY, elem PFCP_IE_STEERING_FUNCTIONALITY),
     (UPDATE_MAR_STEERING_MODE, elem PFCP_IE_STEERING_MODE),
     (UPDATE_MAR_UPDATE_ACCESS_FORWARDING_ACTION_INFORMATION_1, elem PFCP_IE_UPDATE_ACCESS_FORWARDING_ACTION_INFORMATION_1),
     (UPDATE_MAR_UPDATE_ACCESS_FORWARDING_ACTION_INFORMATION_2, elem PFCP_IE_UPDATE_ACCESS_FORWARDING_ACTION_INFORMATION_2),
     (UPDATE_MAR_ACCESS_FORWARDING_ACTION_INFORMATION_1, elem PFCP_IE_ACCESS_FORWARDING_ACTION_INFORMATION_1),
     (UPDATE_MAR_ACCESS_FORWARDING_ACTION_INFORMATION_2, elem PFCP_IE_ACCESS_FORWARDING_ACTION_INFORMATION_2)]"

definition pfcp_update_access_forwarding_action_information_group :: "pfcp_group_ie_def list" where [pfcp_tables]:
  "pfcp_update_access_forwarding_action_information_group = designated [
     (UPDATE_ACCESS_FORWARDING_ACTION_INFORMATION_FAR_ID, elem PFCP_IE_FAR_ID),
     (UPDATE_ACCESS_FORWARDING_ACTION_INFORMATION_WEIGHT, elem PFCP_IE_WEIGHT),
     (UPDATE_ACCESS_FORWARDING_ACTION_INFORMATION_PRIORITY, elem PFCP_IE_PRIORITY),
     (UPDATE_ACCESS_FORWARDING_ACTION_INFORMATION_URR_ID, elem PFCP_IE_URR_ID)]"

definition pfcp_ue_ip_address_pool_group :: "pfcp_group_ie_def list" where [pfcp_tables]:
  "pfcp_ue_ip_address_pool_group = designated [
     (UE_IP_ADDRESS_POOL_INFORMATION_POOL_IDENTIFY, elem PFCP_IE_UE_IP_ADDRESS_POOL_IDENTITY),
     (UE_IP_ADDRESS_POOL_INFORMATION_NETWORK_INSTANCE, elem PFCP_IE_NETWORK_INSTANCE),
     (UE_IP_ADDRESS_POOL_INFORMATION_IP_VERSION, elem PFCP_IE_IP_VERSION),
     (UE_IP_ADDRESS_POOL_INFORMATION_BBF_NAT_PORT_BLOCK, vendor_elem_array VENDOR_BBF PFCP_IE_BBF_NAT_PORT_BLOCK)]"

definition pfcp_tp_error_report_group :: "pfcp_group_ie_def list" where [pfcp_tables]:
  "pfcp_tp_error_report_group = designated [
     (TP_ERROR_REPORT_TP_ERROR_MESSAGE, vendor_elem VENDOR_TRAVELPING PFCP_IE_TP_ERROR_MESSAGE),
     (TP_ERROR_REPORT_TP_FILE_NAME, vendor_elem VENDOR_TRAVELPING PFCP_IE_TP_FILE_NAME),
     (TP_ERROR_REPORT_TP_LINE_NUMBER, vendor_elem VENDOR_TRAVELPING PFCP_IE_TP_LINE_NUMBER)]"

definition pfcp_tp_created_binding_group :: "pfcp_group_ie_def list" where [pfcp_tables]:
  "pfcp_tp_created_binding_group = designated [
     (TP_CREATED_BINDING_NAT_PORT_BLOCK, vendor_elem VENDOR_BBF PFCP_IE_BBF_NAT_PORT_BLOCK),
     (TP_CREATED_BINDING_NAT_OUTSIDE_ADDRESS, vendor_elem VENDOR_BBF PFCP_IE_BBF_NAT_OUTSIDE_ADDRESS),
     (TP_CREATED_BINDING_NAT_EXTERNAL_PORT_RANGE, vendor_elem VENDOR_BBF PFCP_IE_BBF_NAT_EXTERNAL_PORT_RANGE)]"

definition pfcp_simple_response_group :: "pfcp_group_ie_def list" where [pfcp_tables]:
  "pfcp_simple_response_group = designated [
     (PFCP_RESPONSE_CAUSE, elem PFCP_IE_CAUSE),
     (PFCP_RESPONSE_OFFENDING_IE, elem PFCP_IE_OFFENDING_IE),
     (PFCP_RESPONSE_RECOVERY_TIME_STAMP, elem PFCP_IE_RECOVERY_TIME_STAMP),
     (PFCP_RESPONSE_TP_ERROR_REPORT, vendor_elem VENDOR_TRAVELPING PFCP_IE_TP_ERROR_REPORT)]"

definition pfcp_heartbeat_request_group :: "pfcp_group_ie_def list" where [pfcp_tables]:
  "pfcp_heartbeat_request_group = designated [
     (HEARTBEAT_REQUEST_RECOVERY_TIME_STAMP, elem PFCP_IE_RECOVERY_TIME_STAMP)]"

definition pfcp_pfd_management_request_group :: "pfcp_group_ie_def list" where [pfcp_tables]:
  "pfcp_pfd_management_request_group = designated [
     (PFD_MANAGEMENT_REQUEST_APPLICATION_ID_PFDS, elem_array PFCP_IE_APPLICATION_ID_PFDS)]"

definition pfcp_association_setup_request_group :: "pfcp_group_ie_def list" where [pfcp_tables]:
  "pfcp_association_setup_request_group = designated [
     (ASSOCIATION_SETUP_REQUEST_NODE_ID, elem PFCP_IE_NODE_ID),
     (ASSOCIATION_SETUP_REQUEST_RECOVERY_TIME_STAMP, elem PFCP_IE_RECOVERY_TIME_STAMP),
     (ASSOCIATION_SETUP_REQUEST_CP_FUNCTION_FEATURES, elem PFCP_IE_CP_FUNCTION_FEATURES),
     (ASSOCIATION_SETUP_REQUEST_UP_FUNCTION_FEATURES, elem PFCP_IE_UP_FUNCTION_FEATURES),
     (ASSOCIATION_SETUP_REQUEST_USER_PLANE_IP_RESOURCE_INFORMATION, elem_array PFCP_IE_USER_PLANE_IP_RESOURCE_INFORMATION),
     (ASSOCIATION_SETUP_REQUEST_TP_BUILD_ID, vendor_elem VENDOR_TRAVELPING PFCP_IE_TP_BUILD_ID),
     (ASSOCIATION_SETUP_REQUEST_UE_IP_ADDRESS_POOL_INFORMATION, elem_array PFCP_IE_UE_IP_ADDRESS_POOL_INFORMATION),
     (ASSOCIATION_SETUP_REQUEST_ALTERNATIVE_SMF_IP_ADDRESS, elem_array PFCP_IE_ALTERNATIVE_SMF_IP_ADDRESS)]"

definition pfcp_association_setup_response_group :: "pfcp_group_ie_def list" where [pfcp_tables]:
  "pfcp_association_setup_response_group = designated [
     (ASSOCIATION_PROCEDURE_RESPONSE_NODE_ID, elem PFCP_IE_NODE_ID),
     (ASSOCIATION_PROCEDURE_RESPONSE_CAUSE, elem PFCP_IE_CAUSE),
     (ASSOCIATION_PROCEDURE_RESPONSE_TP_ERROR_REPORT, vendor_elem VENDOR_TRAVELPING PFCP_IE_TP_ERROR_REPORT),
     (ASSOCIATION_PROCEDURE_RESPONSE_RECOVERY_TIME_STAMP, elem PFCP_IE_RECOVERY_TIME_STAMP),
     (ASSOCIATION_PROCEDURE_RESPONSE_CP_FUNCTION_FEATURES, elem PFCP_IE_CP_FUNCTION_FEATURES),
     (ASSOCIATION_PROCEDURE_RESPONSE_UP_FUNCTION_FEATURES, elem PFCP_IE_UP_FUNCTION_FEATURES),
     (ASSOCIATION_PROCEDURE_RESPONSE_BBF_UP_FUNCTION_FEATURES, vendor_elem VENDOR_BBF PFCP_IE_BBF_UP_FUNCTION_FEATURES),
     (ASSOCIATION_PROCEDURE_RESPONSE_USER_PLANE_IP_RESOURCE_INFORMATION, elem_array PFCP_IE_USER_PLANE_IP_RESOURCE_INFORMATION),
     (ASSOCIATION_PROCEDURE_RESPONSE_TP_BUILD_ID, vendor_elem VENDOR_TRAVELPING PFCP_IE_TP_BUILD_ID),
     (ASSOCIATION_PROCEDURE_RESPONSE_UE_IP_ADDRESS_POOL_INFORMATION, elem_array PFCP_IE_UE_IP_ADDRESS_POOL_INFORMATION)]"

definition pfcp_association_update_request_group :: "pfcp_group_ie_def list" where [pfcp_tables]:
  "pfcp_association_update_request_group = designated [
     (ASSOCIATION_UPDATE_REQUEST_NODE_ID, elem PFCP_IE_NODE_ID),
     (ASSOCIATION_UPDATE_REQUEST_CP_FUNCTION_FEATURES, elem PFCP_IE_CP_FUNCTION_FEATURES),
     (ASSOCIATION_UPDATE_REQUEST_UP_FUNCTION_FEATURES, elem PFCP_IE_UP_FUNCTION_FEATURES),
     (ASSOCIATION_UPDATE_REQUEST_PFCP_ASSOCIATION_RELEASE_REQUEST, elem PFCP_IE_PFCP_ASSOCIATION_RELEASE_REQUEST),
     (ASSOCIATION_UPDATE_REQUEST_GRACEFUL_RELEASE_PERIOD, elem PFCP_IE_GRACEFUL_RELEASE_PERIOD),
     (ASSOCIATION_UPDATE_REQUEST_USER_PLANE_IP_RESOURCE_INFORMATION, elem_array PFCP_IE_USER_PLANE_IP_RESOURCE_INFORMATION),
     (ASSOCIATION_UPDATE_REQUEST_PFCPAUREQ_FLAGS, elem PFCP_IE_PFCPAUREQ_FLAGS),
     (ASSOCIATION_UPDATE_REQUEST_UE_IP_ADDRESS_POOL_INFORMATION, elem_array PFCP_IE_UE_IP_ADDRESS_POOL_INFORMATION),
     (ASSOCIATION_UPDATE_REQUEST_ALTERNATIVE_SMF_IP_ADDRESS, elem_array PFCP_IE_ALTERNATIVE_SMF_IP_ADDRESS)]"

definition pfcp_association_update_response_group :: "pfcp_group_ie_def list" where [pfcp_tables]:
  "pfcp_association_update_response_group = designated [
     (ASSOCIATION_PROCEDURE_RESPONSE_NODE_ID, elem PFCP_IE_NODE_ID),
     (ASSOCIATION_PROCEDURE_RESPONSE_CAUSE, elem PFCP_IE_CAUSE),
     (ASSOCIATION_PROCEDURE_RESPONSE_TP_ERROR_REPORT, vendor_elem VENDOR_TRAVELPING PFCP_IE_TP_ERROR_REPORT),
     (ASSOCIATION_PROCEDURE_RESPONSE_CP_FUNCTION_FEATURES, elem PFCP_IE_CP_FUNCTION_FEATURES),
     (ASSOCIATION_PROCEDURE_RESPONSE_UP_FUNCTION_FEATURES, elem PFCP_IE_UP_FUNCTION_FEATURES)]"

definition pfcp_association_release_request_group :: "pfcp_group_ie_def list" where [pfcp_tables]:
  "pfcp_association_release_request_group = designated [
     (ASSOCIATION_RELEASE_REQUEST_NODE_ID, elem PFCP_IE_NODE_ID)]"

definition pfcp_node_report_request_group :: "pfcp_group_ie_def list" where [pfcp_tables]:
  "pfcp_node_report_request_group = designated [
     (NODE_REPORT_REQUEST_NODE_ID, elem PFCP_IE_NODE_ID),
     (NODE_REPORT_REQUEST_NODE_REPORT_TYPE, elem PFCP_IE_NODE_REPORT_TYPE),
     (NODE_REPORT_REQUEST_USER_PLANE_PATH_FAILURE_REPORT, elem PFCP_IE_USER_PLANE_PATH_FAILURE_REPORT)]"

definition pfcp_session_set_deletion_request_group :: "pfcp_group_ie_def list" where [pfcp_tables]:
  "pfcp_session_set_deletion_request_group = designated [
     (SESSION_SET_DELETION_REQUEST_NODE_ID, elem PFCP_IE_NODE_ID),
     (SESSION_SET_DELETION_REQUEST_FQ_CSID, elem_array PFCP_IE_FQ_CSID)]"

definition pfcp_session_establishment_request_group :: "pfcp_group_ie_def list" where [pfcp_tables]:
  "pfcp_session_establishment_request_group = designated [
     (SESSION_ESTABLISHMENT_REQUEST_NODE_ID, elem PFCP_IE_NODE_ID),
     (SESSION_ESTABLISHMENT_REQUEST_F_SEID, elem PFCP_IE_F_SEID),
     (SESSION_ESTABLISHMENT_REQUEST_CREATE_PDR, elem_array PFCP_IE_CREATE_PDR),
     (SESSION_ESTABLISHMENT_REQUEST_CREATE_FAR, elem_array PFCP_IE_CREATE_FAR),
     (SESSION_ESTABLISHMENT_REQUEST_CREATE_URR, elem_array PFCP_IE_CREATE_URR),
     (SESSION_ESTABLISHMENT_REQUEST_CREATE_QER, elem_array PFCP_IE_CREATE_QER),
     (SESSION_ESTABLISHMENT_REQUEST_CREATE_BAR, elem_array PFCP_IE_CREATE_BAR),
     (SESSION_ESTABLISHMENT_REQUEST_CREATE_TRAFFIC_ENDPOINT, elem_array PFCP_IE_CREATE_TRAFFIC_ENDPOINT),
     (SESSION_ESTABLISHMENT_REQUEST_PDN_TYPE, elem PFCP_IE_PDN_TYPE),
     (SESSION_ESTABLISHMENT_REQUEST_FQ_CSID, elem_array PFCP_IE_FQ_CSID),
     (SESSION_ESTABLISHMENT_REQUEST_USER_PLANE_INACTIVITY_TIMER, elem PFCP_IE_USER_PLANE_INACTIVITY_TIMER),
     (SESSION_ESTABLISHMENT_REQUEST_USER_ID, elem PFCP_IE_USER_ID),
     (SESSION_ESTABLISHMENT_REQUEST_TRACE_INFORMATION, elem PFCP_IE_TRACE_INFORMATION),
     (SESSION_ESTABLISHMENT_REQUEST_APN_DNN, elem PFCP_IE_APN_DNN),
     (SESSION_ESTABLISHMENT_REQUEST_CREATE_MAR, elem_array PFCP_IE_CREATE_MAR)]"

definition pfcp_session_establishment_response_group :: "pfcp_group_ie_def list" where [pfcp_tables]:
  "pfcp_session_establishment_response_group = designated [
     (SESSION_PROCEDURE_RESPONSE_NODE_ID, elem PFCP_IE_NODE_ID),
     (SESSION_PROCEDURE_RESPONSE_CAUSE, elem PFCP_IE_CAUSE),
     (SESSION_PROCEDURE_RESPONSE_OFFENDING_IE, elem PFCP_IE_OFFENDING_IE),
     (SESSION_PROCEDURE_RESPONSE_TP_ERROR_REPORT, vendor_elem VENDOR_TRAVELPING PFCP_IE_TP_ERROR_REPORT),
     (SESSION_PROCEDURE_RESPONSE_UP_F_SEID, elem PFCP_IE_F_SEID),
     (SESSION_PROCEDURE_RESPONSE_CREATED_PDR, elem_array PFCP_IE_CREATED_PDR),
     (SESSION_PROCEDURE_RESPONSE_LOAD_CONTROL_INFORMATION, elem PFCP_IE_LOAD_CONTROL_INFORMATION),
     (SESSION_PROCEDURE_RESPONSE_OVERLOAD_CONTROL_INFORMATION, elem PFCP_IE_OVERLOAD_CONTROL_INFORMATION),
     (SESSION_PROCEDURE_RESPONSE_FQ_CSID, elem_array PFCP_IE_FQ_CSID),
     (SESSION_PROCEDURE_RESPONSE_FAILED_RULE_ID, elem PFCP_IE_FAILED_RULE_ID),
     (SESSION_PROCEDURE_RESPONSE_CREATED_TRAFFIC_ENDPOINT, elem_array PFCP_IE_CREATED_TRAFFIC_ENDPOINT),
     (SESSION_PROCEDURE_RESPONSE_TP_CREATED_BINDING, vendor_elem VENDOR_TRAVELPING PFCP_IE_TP_CREATED_NAT_BINDING)]"

definition pfcp_session_modification_request_group :: "pfcp_group_ie_def list" where [pfcp_tables]:
  "pfcp_session_modification_request_group = designated [
     (SESSION_MODIFICATION_REQUEST_F_SEID, elem PFCP_IE_F_SEID),
     (SESSION_MODIFICATION_REQUEST_REMOVE_PDR, elem_array PFCP_IE_REMOVE_PDR),
     (SESSION_MODIFICATION_REQUEST_REMOVE_FAR, elem_array PFCP_IE_REMOVE_FAR),
     (SESSION_MODIFICATION_REQUEST_REMOVE_URR, elem_array PFCP_IE_REMOVE_URR),
     (SESSION_MODIFICATION_REQUEST_REMOVE_QER, elem_array PFCP_IE_REMOVE_QER),
     (SESSION_MODIFICATION_REQUEST_REMOVE_BAR, elem_array PFCP_IE_REMOVE_BAR),
     (SESSION_MODIFICATION_REQUEST_REMOVE_TRAFFIC_ENDPOINT, elem_array PFCP_IE_REMOVE_TRAFFIC_ENDPOINT),
     (SESSION_MODIFICATION_REQUEST_CREATE_PDR, elem_array PFCP_IE_CREATE_PDR),
     (SESSION_MODIFICATION_REQUEST_CREATE_FAR, elem_array PFCP_IE_CREATE_FAR),
     (SESSION_MODIFICATION_REQUEST_CREATE_URR, elem_array PFCP_IE_CREATE_URR),
     (SESSION_MODIFICATION_REQUEST_CREATE_QER, elem_array PFCP_IE_CREATE_QER),
     (SESSION_MODIFICATION_REQUEST_CREATE_BAR, elem_array PFCP_IE_CREATE_BAR),
     (SESSION_MODIFICATION_REQUEST_CREATE_TRAFFIC_ENDPOINT, elem_array PFCP_IE_CREATE_TRAFFIC_ENDPOINT),
     (SESSION_MODIFICATION_REQUEST_UPDATE_PDR, elem_array PFCP_IE_UPDATE_PDR),
     (SESSION_MODIFICATION_REQUEST_UPDATE_FAR, elem_array PFCP_IE_UPDATE_FAR),
     (SESSION_MODIFICATION_REQUEST_UPDATE_URR, elem_array PFCP_IE_UPDATE_URR),
     (SESSION_MODIFICATION_REQUEST_UPDATE_QER, elem_array PFCP_IE_UPDATE_QER),
     (SESSION_MODIFICATION_REQUEST_UPDATE_BAR, elem_array PFCP_IE_UPDATE_BAR_REQUEST),
     (SESSION_MODIFICATION_REQUEST_UPDATE_TRAFFIC_ENDPOINT, elem_array PFCP_IE_UPDATE_TRAFFIC_ENDPOINT),
     (SESSION_MODIFICATION_REQUEST_PFCPSMREQ_FLAGS, elem PFCP_IE_PFCPSMREQ_FLAGS),
     (SESSION_MODIFICATION_REQUEST_QUERY_URR, elem_array PFCP_IE_QUERY_URR),
     (SESSION_MODIFICATION_REQUEST_FQ_CSID, elem_array PFCP_IE_FQ_CSID),
     (SESSION_MODIFICATION_REQUEST_USER_PLANE_INACTIVITY_TIMER, elem PFCP_IE_USER_PLANE_INACTIVITY_TIMER),
     (SESSION_MODIFICATION_REQUEST_QUERY_URR_REFERENCE, elem PFCP_IE_QUERY_URR_REFERENCE),
     (SESSION_MODIFICATION_REQUEST_TRACE_INFORMATION, elem PFCP_IE_TRACE_INFORMATION),
     (SESSION_MODIFICATION_REQUEST_REMOVE_MAR, elem_array PFCP_IE_REMOVE_MAR),
     (SESSION_MODIFICATION_REQUEST_UPDATE_MAR, elem_array PFCP_IE_UPDATE_MAR),
     (SESSION_MODIFICATION_REQUEST_CREATE_MAR, elem_array PFCP_IE_CREATE_MAR)]"

definition pfcp_session_modification_response_group :: "pfcp_group_ie_def list" where [pfcp_tables]:
  "pfcp_session_modification_response_group = designated [
     (SESSION_PROCEDURE_RESPONSE_CAUSE, elem PFCP_IE_CAUSE),
     (SESSION_PROCEDURE_RESPONSE_OFFENDING_IE, elem PFCP_IE_OFFENDING_IE),
     (SESSION_PROCEDURE_RESPONSE_TP_ERROR_REPORT, vendor_elem VENDOR_TRAVELPING PFCP_IE_TP_ERROR_REPORT),
     (SESSION_PROCEDURE_RESPONSE_CREATED_PDR, elem_array PFCP_IE_CREATED_PDR),
     (SESSION_PROCEDURE_RESPONSE_LOAD_CONTROL_INFORMATION, elem PFCP_IE_LOAD_CONTROL_INFORMATION),
     (SESSION_PROCEDURE_RESPONSE_OVERLOAD_CONTROL_INFORMATION, elem PFCP_IE_OVERLOAD_CONTROL_INFORMATION),
     (SESSION_PROCEDURE_RESPONSE_USAGE_REPORT, elem_array PFCP_IE_USAGE_REPORT_SMR),
     (SESSION_PROCEDURE_RESPONSE_FAILED_RULE_ID, elem PFCP_IE_FAILED_RULE_ID),
     (SESSION_PROCEDURE_RESPONSE_ADDITIONAL_USAGE_REPORTS_INFORMATION, elem PFCP_IE_ADDITIONAL_USAGE_REPORTS_INFORMATION),
     (SESSION_PROCEDURE_RESPONSE_CREATED_TRAFFIC_ENDPOINT, elem_array PFCP_IE_CREATED_TRAFFIC_ENDPOINT)]"

definition pfcp_session_deletion_response_group :: "pfcp_group_ie_def list" where [pfcp_tables]:
  "pfcp_session_deletion_response_group = designated [
     (SESSION_PROCEDURE_RESPONSE_CAUSE, elem PFCP_IE_CAUSE),
     (SESSION_PROCEDURE_RESPONSE_OFFENDING_IE, elem PFCP_IE_OFFENDING_IE),
     (SESSION_PROCEDURE_RESPONSE_TP_ERROR_REPORT, vendor_elem VENDOR_TRAVELPING PFCP_IE_TP_ERROR_REPORT),
     (SESSION_PROCEDURE_RESPONSE_LOAD_CONTROL_INFORMATION, elem PFCP_IE_LOAD_CONTROL_INFORMATION),
     (SESSION_PROCEDURE_RESPONSE_OVERLOAD_CONTROL_INFORMATION, elem PFCP_IE_OVERLOAD_CONTROL_INFORMATION),
     (SESSION_PROCEDURE_RESPONSE_USAGE_REPORT, elem_array PFCP_IE_USAGE_REPORT_SDR)]"

definition pfcp_session_report_request_group :: "pfcp_group_ie_def list" where [pfcp_tables]:
  "pfcp_session_report_request_group = designated [
     (SESSION_REPORT_REQUEST_REPORT_TYPE, elem PFCP_IE_REPORT_TYPE),
     (SESSION_REPORT_REQUEST_DOWNLINK_DATA_REPORT, elem PFCP_IE_DOWNLINK_DATA_REPORT),
     (SESSION_REPORT_REQUEST_USAGE_REPORT, elem_array PFCP_IE_USAGE_REPORT_SRR),
     (SESSION_REPORT_REQUEST_ERROR_INDICATION_REPORT, elem PFCP_IE_ERROR_INDICATION_REPORT),
     (SESSION_REPORT_REQUEST_LOAD_CONTROL_INFORMATION, elem PFCP_IE_LOAD_CONTROL_INFORMATION),
     (SESSION_REPORT_REQUEST_OVERLOAD_CONTROL_INFORMATION, elem PFCP_IE_OVERLOAD_CONTROL_INFORMATION),
     (SESSION_REPORT_REQUEST_ADDITIONAL_USAGE_REPORTS_INFORMATION, elem PFCP_IE_ADDITIONAL_USAGE_REPORTS_INFORMATION),
     (SESSION_REPORT_REQUEST_PACKET_REPORT, elem PFCP_IE_PACKET_REPORT),
     (SESSION_REPORT_REQUEST_PFCPSRREQ_FLAGS, elem PFCP_IE_PFCPSRREQ_FLAGS)]"

definition pfcp_session_report_response_group :: "pfcp_group_ie_def list" where [pfcp_tables]:
  "pfcp_session_report_response_group = designated [
     (SESSION_REPORT_RESPONSE_CAUSE, elem PFCP_IE_CAUSE),
     (SESSION_REPORT_RESPONSE_OFFENDING_IE, elem PFCP_IE_OFFENDING_IE),
     (SESSION_REPORT_RESPONSE_TP_ERROR_REPORT, vendor_elem VENDOR_TRAVELPING PFCP_IE_TP_ERROR_REPORT),
     (SESSION_REPORT_RESPONSE_UPDATE_BAR, elem_array PFCP_IE_UPDATE_BAR_RESPONSE),
     (SESSION_REPORT_RESPONSE_PFCPSRRSP_FLAGS, elem PFCP_IE_PFCPSRRSP_FLAGS),
     (SESSION_REPORT_RESPONSE_CP_F_SEID, elem PFCP_IE_F_SEID),
     (SESSION_REPORT_RESPONSE_N4_u_F_TEID, elem PFCP_IE_F_TEID)]"

section \<open>Information elements\<close>

definition tgpp_specs_1 :: "(nat \<times> pfcp_ie_def) list" where [pfcp_tables]:
  "tgpp_specs_1 = [
     (PFCP_IE_CREATE_PDR, grouped_ie (BITS [CREATE_PDR_PDR_ID, CREATE_PDR_PRECEDENCE, CREATE_PDR_PDI]) pfcp_create_pdr_group),
     (PFCP_IE_PDI, grouped_ie (BITS [PDI_SOURCE_INTERFACE]) pfcp_pdi_group),
     (PFCP_IE_CREATE_FAR, grouped_ie (BITS [CREATE_FAR_FAR_ID, CREATE_FAR_APPLY_ACTION]) pfcp_create_far_group),
     (PFCP_IE_FORWARDING_PARAMETERS, grouped_ie (BITS [FORWARDING_PARAMETERS_DESTINATION_INTERFACE]) pfcp_forwarding_parameters_group),
     (PFCP_IE_DUPLICATING_PARAMETERS, grouped_ie (BITS [DUPLICATING_PARAMETERS_DESTINATION_INTERFACE]) pfcp_duplicating_parameters_group),
     (PFCP_IE_CREATE_URR, grouped_ie (BITS [CREATE_URR_URR_ID, CREATE_URR_MEASUREMENT_METHOD, CREATE_URR_REPORTING_TRIGGERS]) pfcp_create_urr_group),
     (PFCP_IE_CREATE_QER, grouped_ie (BITS [CREATE_QER_QER_ID, CREATE_QER_GATE_STATUS]) pfcp_create_qer_group),
     (PFCP_IE_CREATED_PDR, grouped_ie (BITS [CREATED_PDR_PDR_ID]) pfcp_created_pdr_group),
     (PFCP_IE_UPDATE_PDR, grouped_ie (BITS [UPDATE_PDR_PDR_ID]) pfcp_update_pdr_group),
     (PFCP_IE_UPDATE_FAR, grouped_ie (BITS [UPDATE_FAR_FAR_ID]) pfcp_update_far_group),
     (PFCP_IE_UPDATE_FORWARDING_PARAMETERS, grouped_ie 0 pfcp_update_forwarding_parameters_group),
     (PFCP_IE_UPDATE_BAR_RESPONSE, grouped_ie (BITS [UPDATE_BAR_RESPONSE_BAR_ID]) pfcp_update_bar_response_group),
     (PFCP_IE_UPDATE_URR, grouped_ie (BITS [UPDATE_URR_URR_ID]) pfcp_update_urr_group),
     (PFCP_IE_UPDATE_QER, grouped_ie (BITS [UPDATE_QER_QER_ID]) pfcp_update_qer_group),
     (PFCP_IE_REMOVE_PDR, grouped_ie (BITS [REMOVE_PDR_PDR_ID]) pfcp_remove_pdr_group),
     (PFCP_IE_REMOVE_FAR, grouped_ie (BITS [REMOVE_FAR_FAR_ID]) pfcp_remove_far_group)]"

definition tgpp_specs_2 :: "(nat \<times> pfcp_ie_def) list" where [pfcp_tables]:
  "tgpp_specs_2 = [
     (PFCP_IE_REMOVE_URR, grouped_ie (BITS [REMOVE_URR_URR_ID]) pfcp_remove_urr_group),
     (PFCP_IE_REMOVE_QER, grouped_ie (BITS [REMOVE_QER_QER_ID]) pfcp_remove_qer_group),
     (PFCP_IE_CAUSE, simple_ie K_u8_ie),
     (PFCP_IE_SOURCE_INTERFACE, simple_ie K_source_interface),
     (PFCP_IE_F_TEID, simple_ie K_f_teid),
     (PFCP_IE_NETWORK_INSTANCE, simple_ie K_simple_vec_ie),
     (PFCP_IE_SDF_FILTER, simple_ie K_sdf_filter),
     (PFCP_IE_APPLICATION_ID, simple_ie K_simple_vec_ie),
     (PFCP_IE_GATE_STATUS, simple_ie K_gate_status),
     (PFCP_IE_MBR, simple_ie K_bit_rate),
     (PFCP_IE_GBR, simple_ie K_bit_rate),
     (PFCP_IE_QER_CORRELATION_ID, simple_ie K_u32_ie),
     (PFCP_IE_PRECEDENCE, simple_ie K_u32_ie),
     (PFCP_IE_TRANSPORT_LEVEL_MARKING, simple_ie K_u16_ie),
     (PFCP_IE_VOLUME_THRESHOLD, simple_ie K_volume_ie),
     (PFCP_IE_TIME_THRESHOLD, simple_ie K_u32_ie),
     (PFCP_IE_MONITORING_TIME, simple_ie K_time_stamp_ie),
     (PFCP_IE_SUBSEQUENT_VOLUME_THRESHOLD, simple_ie K_volume_ie),
     (PFCP_IE_SUBSEQUENT_TIME_THRESHOLD, simple_ie K_u32_ie),
     (PFCP_IE_INACTIVITY_DETECTION_TIME, simple_ie K_u32_ie),
     (PFCP_IE_REPORTING_TRIGGERS, simple_ie K_u16_little_ie),
     (PFCP_IE_REDIRECT_INFORMATION, simple_ie K_redirect_information),
     (PFCP_IE_REPORT_TYPE, simple_ie K_u8_ie),
     (PFCP_IE_OFFENDING_IE, simple_ie K_u16_ie),
     (PFCP_IE_FORWARDING_POLICY, simple_ie K_forwarding_policy),
     (PFCP_IE_DESTINATION_INTERFACE, simple_ie K_destination_interface),
     (PFCP_IE_UP_FUNCTION_FEATURES, simple_ie K_up_function_features),
     (PFCP_IE_APPLY_ACTION, simple_ie K_u8_ie),
     (PFCP_IE_DOWNLINK_DATA_SERVICE_INFORMATION, simple_ie K_downlink_data_service_information),
     (PFCP_IE_DOWNLINK_DATA_NOTIFICATION_DELAY, simple_ie K_u8_ie),
     (PFCP_IE_DL_BUFFERING_DURATION, simple_ie K_timer_ie),
     (PFCP_IE_DL_BUFFERING_SUGGESTED_PACKET_COUNT, simple_ie K_dl_buffering_suggested_packet_count),
     (PFCP_IE_PFCPSMREQ_FLAGS, simple_ie K_u8_ie),
     (PFCP_IE_PFCPSRRSP_FLAGS, simple_ie K_u8_ie),
     (PFCP_IE_LOAD_CONTROL_INFORMATION, grouped_ie (BITS [LOAD_CONTROL_INFORMATION_SEQUENCE_NUMBER, LOAD_CONTROL_INFORMATION_METRIC]) pfcp_load_control_information_group),
     (PFCP_IE_SEQUENCE_NUMBER, simple_ie K_u32_ie),
     (PFCP_IE_METRIC, simple_ie K_u8_ie),
     (PFCP_IE_OVERLOAD_CONTROL_INFORMATION, grouped_ie (BITS [OVERLOAD_CONTROL_INFORMATION_SEQUENCE_NUMBER, OVERLOAD_CONTROL_INFORMATION_METRIC, OVERLOAD_CONTROL_INFORMATION_TIMER]) pfcp_overload_control_information_group),
     (PFCP_IE_TIMER, simple_ie K_timer_ie),
     (PFCP_IE_PDR_ID, simple_ie K_u16_ie),
     (PFCP_IE_F_SEID, simple_ie K_f_seid),
     (PFCP_IE_APPLICATION_ID_PFDS, grouped_ie (BITS [APPLICATION_ID_PFDS_APPLICATION_ID]) pfcp_application_id_pfds_group),
     (PFCP_IE_PFD, grouped_ie (BITS [PFD_PFD_CONTENTS]) pfcp_pfd_group),
     (PFCP_IE_NODE_ID, simple_ie K_node_id),
     (PFCP_IE_PFD_CONTENTS, simple_ie K_pfd_contents),
     (PFCP_IE_MEASUREMENT_METHOD, simple_ie K_u8_ie),
     (PFCP_IE_USAGE_REPORT_TRIGGER, simple_ie K_usage_report_trigger),
     (PFCP_IE_MEASUREMENT_PERIOD, simple_ie K_u32_ie),
     (PFCP_IE_FQ_CSID, simple_ie K_fq_csid),
     (PFCP_IE_VOLUME_MEASUREMENT, simple_ie K_volume_measurement),
     (PFCP_IE_DURATION_MEASUREMENT, simple_ie K_u32_ie),
     (PFCP_IE_APPLICATION_DETECTION_INFORMATION, grouped_ie (BITS [APPLICATION_DETECTION_INFORMATION_APPLICATION_ID]) pfcp_application_detection_information_group),
     (PFCP_IE_TIME_OF_FIRST_PACKET, simple_ie K_time_stamp_ie),
     (PFCP_IE_TIME_OF_LAST_PACKET, simple_ie K_time_stamp_ie),
     (PFCP_IE_QUOTA_HOLDING_TIME, simple_ie K_u32_ie),
     (PFCP_IE_DROPPED_DL_TRAFFIC_THRESHOLD, simple_ie K_dropped_dl_traffic_threshold),
     (PFCP_IE_VOLUME_QUOTA, simple_ie K_volume_ie),
     (PFCP_IE_TIME_QUOTA, simple_ie K_u32_ie),
     (PFCP_IE_START_TIME, simple_ie K_time_stamp_ie),
     (PFCP_IE_END_TIME, simple_ie K_time_stamp_ie),
     (PFCP_IE_QUERY_URR, grouped_ie (BITS [QUERY_URR_URR_ID]) pfcp_query_urr_group)]"

definition tgpp_specs_3 :: "(nat \<times> pfcp_ie_def) list" where [pfcp_tables]:
  "tgpp_specs_3 = [
     (PFCP_IE_USAGE_REPORT_SMR, grouped_ie (BITS [USAGE_REPORT_URR_ID, USAGE_REPORT_UR_SEQN, USAGE_REPORT_USAGE_REPORT_TRIGGER]) pfcp_usage_report_smr_group),
     (PFCP_IE_USAGE_REPORT_SDR, grouped_ie (BITS [USAGE_REPORT_URR_ID, USAGE_REPORT_UR_SEQN, USAGE_REPORT_USAGE_REPORT_TRIGGER]) pfcp_usage_report_sdr_group),
     (PFCP_IE_USAGE_REPORT_SRR, grouped_ie (BITS [USAGE_REPORT_URR_ID, USAGE_REPORT_UR_SEQN, USAGE_REPORT_USAGE_REPORT_TRIGGER]) pfcp_usage_report_srr_group),
     (PFCP_IE_URR_ID, simple_ie K_u32_ie),
     (PFCP_IE_LINKED_URR_ID, simple_ie K_u32_ie),
     (PFCP_IE_DOWNLINK_DATA_REPORT, grouped_ie (BITS [DOWNLINK_DATA_REPORT_PDR_ID]) pfcp_downlink_data_report_group),
     (PFCP_IE_OUTER_HEADER_CREATION, simple_ie K_outer_header_creation),
     (PFCP_IE_CREATE_BAR, grouped_ie (BITS [CREATE_BAR_BAR_ID]) pfcp_create_bar_group),
     (PFCP_IE_UPDATE_BAR_REQUEST, grouped_ie (BITS [UPDATE_BAR_REQUEST_BAR_ID]) pfcp_update_bar_request_group),
     (PFCP_IE_REMOVE_BAR, grouped_ie (BITS [REMOVE_BAR_BAR_ID]) pfcp_remove_bar_group),
     (PFCP_IE_BAR_ID, simple_ie K_u8_ie),
     (PFCP_IE_CP_FUNCTION_FEATURES, simple_ie K_u8_ie),
     (PFCP_IE_USAGE_INFORMATION, simple_ie K_u8_ie),
     (PFCP_IE_APPLICATION_INSTANCE_ID, simple_ie K_simple_vec_ie),
     (PFCP_IE_FLOW_INFORMATION, simple_ie K_flow_information),
     (PFCP_IE_UE_IP_ADDRESS, simple_ie K_ue_ip_address),
     (PFCP_IE_PACKET_RATE, simple_ie K_packet_rate),
     (PFCP_IE_OUTER_HEADER_REMOVAL, simple_ie K_u8_ie),
     (PFCP_IE_RECOVERY_TIME_STAMP, simple_ie K_time_stamp_ie),
     (PFCP_IE_DL_FLOW_LEVEL_MARKING, simple_ie K_dl_flow_level_marking),
     (PFCP_IE_HEADER_ENRICHMENT, simple_ie K_header_enrichment),
     (PFCP_IE_ERROR_INDICATION_REPORT, grouped_ie (BITS [ERROR_INDICATION_REPORT_F_TEID]) pfcp_error_indication_report_group),
     (PFCP_IE_MEASUREMENT_INFORMATION, simple_ie K_measurement_information),
     (PFCP_IE_NODE_REPORT_TYPE, simple_ie K_node_report_type),
     (PFCP_IE_USER_PLANE_PATH_FAILURE_REPORT, grouped_ie (BITS [USER_PLANE_PATH_FAILURE_REPORT_REMOTE_GTP_U_PEER]) pfcp_user_plane_path_failure_report_group),
     (PFCP_IE_REMOTE_GTP_U_PEER, simple_ie K_remote_gtp_u_peer),
     (PFCP_IE_UR_SEQN, simple_ie K_u32_ie),
     (PFCP_IE_UPDATE_DUPLICATING_PARAMETERS, grouped_ie 0 pfcp_update_duplicating_parameters_group),
     (PFCP_IE_ACTIVATE_PREDEFINED_RULES, simple_ie K_simple_vec_ie),
     (PFCP_IE_DEACTIVATE_PREDEFINED_RULES, simple_ie K_simple_vec_ie),
     (PFCP_IE_FAR_ID, simple_ie K_u32_ie),
     (PFCP_IE_QER_ID, simple_ie K_u32_ie),
     (PFCP_IE_OCI_FLAGS, simple_ie K_oci_flags),
     (PFCP_IE_PFCP_ASSOCIATION_RELEASE_REQUEST, simple_ie K_pfcp_association_release_request),
     (PFCP_IE_GRACEFUL_RELEASE_PERIOD, simple_ie K_timer_ie),
     (PFCP_IE_PDN_TYPE, simple_ie K_pdn_type),
     (PFCP_IE_FAILED_RULE_ID, simple_ie K_failed_rule_id),
     (PFCP_IE_TIME_QUOTA_MECHANISM, simple_ie K_time_quota_mechanism),
     (PFCP_IE_USER_PLANE_IP_RESOURCE_INFORMATION, simple_ie K_user_plane_ip_resource_information),
     (PFCP_IE_USER_PLANE_INACTIVITY_TIMER, simple_ie K_u32_ie),
     (PFCP_IE_AGGREGATED_URRS, grouped_ie (BITS [AGGREGATED_URRS_AGGREGATED_URR_ID, AGGREGATED_URRS_MULTIPLIER]) pfcp_aggregated_urrs_group)]"

definition tgpp_specs_4 :: "(nat \<times> pfcp_ie_def) list" where [pfcp_tables]:
  "tgpp_specs_4 = [
     (PFCP_IE_MULTIPLIER, simple_ie K_multiplier),
     (PFCP_IE_AGGREGATED_URR_ID, simple_ie K_u32_ie),
     (PFCP_IE_SUBSEQUENT_VOLUME_QUOTA, simple_ie K_volume_ie),
     (PFCP_IE_SUBSEQUENT_TIME_QUOTA, simple_ie K_u32_ie),
     (PFCP_IE_RQI, simple_ie K_rqi),
     (PFCP_IE_QFI, simple_ie K_u8_ie),
     (PFCP_IE_QUERY_URR_REFERENCE, simple_ie K_u32_ie),
     (PFCP_IE_ADDITIONAL_USAGE_REPORTS_INFORMATION, simple_ie K_u16_ie),
     (PFCP_IE_CREATE_TRAFFIC_ENDPOINT, grouped_ie (BITS [CREATE_TRAFFIC_ENDPOINT_TRAFFIC_ENDPOINT_ID]) pfcp_create_traffic_endpoint_group),
     (PFCP_IE_CREATED_TRAFFIC_ENDPOINT, grouped_ie (BITS [CREATED_TRAFFIC_ENDPOINT_TRAFFIC_ENDPOINT_ID]) pfcp_created_traffic_endpoint_group),
     (PFCP_IE_UPDATE_TRAFFIC_ENDPOINT, grouped_ie (BITS [UPDATE_TRAFFIC_ENDPOINT_TRAFFIC_ENDPOINT_ID]) pfcp_update_traffic_endpoint_group),
     (PFCP_IE_REMOVE_TRAFFIC_ENDPOINT, grouped_ie (BITS [REMOVE_TRAFFIC_ENDPOINT_TRAFFIC_ENDPOINT_ID]) pfcp_remove_traffic_endpoint_group),
     (PFCP_IE_TRAFFIC_ENDPOINT_ID, simple_ie K_u8_ie),
     (PFCP_IE_ETHERNET_PACKET_FILTER, grouped_ie 0 pfcp_ethernet_packet_filter_group),
     (PFCP_IE_MAC_ADDRESS, simple_ie K_pfcp_mac_address),
     (PFCP_IE_C_TAG, simple_ie K_vlan_tag),
     (PFCP_IE_S_TAG, simple_ie K_vlan_tag),
     (PFCP_IE_ETHERTYPE, simple_ie K_u16_ie),
     (PFCP_IE_PROXYING, simple_ie K_proxying),
     (PFCP_IE_ETHERNET_FILTER_ID, simple_ie K_u32_ie),
     (PFCP_IE_ETHERNET_FILTER_PROPERTIES, simple_ie K_ethernet_filter_properties),
     (PFCP_IE_SUGGESTED_BUFFERING_PACKETS_COUNT, simple_ie K_u8_ie),
     (PFCP_IE_USER_ID, simple_ie K_user_id),
     (PFCP_IE_ETHERNET_PDU_SESSION_INFORMATION, simple_ie K_ethernet_pdu_session_information),
     (PFCP_IE_ETHERNET_TRAFFIC_INFORMATION, grouped_ie 0 pfcp_ethernet_traffic_information_group),
     (PFCP_IE_MAC_ADDRESSES_DETECTED, simple_ie K_mac_addresses_vec),
     (PFCP_IE_MAC_ADDRESSES_REMOVED, simple_ie K_mac_addresses_vec),
     (PFCP_IE_ETHERNET_INACTIVITY_TIMER, simple_ie K_u32_ie),
     (PFCP_IE_ADDITIONAL_MONITORING_TIME, grouped_ie 0 pfcp_additional_monitoring_time_group),
     (PFCP_IE_EVENT_QUOTA, simple_ie K_u32_ie),
     (PFCP_IE_EVENT_THRESHOLD, simple_ie K_u32_ie),
     (PFCP_IE_SUBSEQUENT_EVENT_QUOTA, simple_ie K_u32_ie),
     (PFCP_IE_SUBSEQUENT_EVENT_THRESHOLD, simple_ie K_u32_ie),
     (PFCP_IE_TRACE_INFORMATION, simple_ie K_trace_information),
     (PFCP_IE_FRAMED_ROUTE, simple_ie K_simple_vec_ie),
     (PFCP_IE_FRAMED_ROUTING, simple_ie K_u8_ie),
     (PFCP_IE_FRAMED_IPV6_ROUTE, simple_ie K_simple_vec_ie),
     (PFCP_IE_EVENT_TIME_STAMP, simple_ie K_time_stamp_ie),
     (PFCP_IE_AVERAGING_WINDOW, simple_ie K_u32_ie),
     (PFCP_IE_PAGING_POLICY_INDICATOR, simple_ie K_u8_ie),
     (PFCP_IE_APN_DNN, simple_ie K_simple_vec_ie),
     (PFCP_IE_TGPP_INTERFACE_TYPE, simple_ie K_u8_ie),
     (PFCP_IE_PFCPSRREQ_FLAGS, simple_ie K_u8_ie),
     (PFCP_IE_PFCPAUREQ_FLAGS, simple_ie K_u8_ie),
     (PFCP_IE_ACTIVATION_TIME, simple_ie K_time_stamp_ie),
     (PFCP_IE_DEACTIVATION_TIME, simple_ie K_time_stamp_ie),
     (PFCP_IE_CREATE_MAR, grouped_ie 0 pfcp_create_mar_group),
     (PFCP_IE_ACCESS_FORWARDING_ACTION_INFORMATION_1, grouped_ie 0 pfcp_access_forwarding_action_information_group),
     (PFCP_IE_ACCESS_FORWARDING_ACTION_INFORMATION_2, grouped_ie 0 pfcp_access_forwarding_action_information_group),
     (PFCP_IE_REMOVE_MAR, grouped_ie 0 pfcp_remove_mar_group)]"

definition tgpp_specs_5 :: "(nat \<times> pfcp_ie_def) list" where [pfcp_tables]:
  "tgpp_specs_5 = [
     (PFCP_IE_UPDATE_MAR, grouped_ie 0 pfcp_update_mar_group),
     (PFCP_IE_MAR_ID, simple_ie K_u16_ie),
     (PFCP_IE_STEERING_FUNCTIONALITY, simple_ie K_u8_ie),
     (PFCP_IE_STEERING_MODE, simple_ie K_u8_ie),
     (PFCP_IE_WEIGHT, simple_ie K_u8_ie),
     (PFCP_IE_PRIORITY, simple_ie K_u8_ie),
     (PFCP_IE_UPDATE_ACCESS_FORWARDING_ACTION_INFORMATION_1, grouped_ie 0 pfcp_update_access_forwarding_action_information_group),
     (PFCP_IE_UPDATE_ACCESS_FORWARDING_ACTION_INFORMATION_2, grouped_ie 0 pfcp_update_access_forwarding_action_information_group),
     (PFCP_IE_UE_IP_ADDRESS_POOL_IDENTITY, simple_ie K_ue_ip_address_pool_identity),
     (PFCP_IE_ALTERNATIVE_SMF_IP_ADDRESS, simple_ie K_alternative_smf_ip_address),
     (PFCP_IE_QUOTA_VALIDITY_TIME, simple_ie K_u32_ie),
     (PFCP_IE_UE_IP_ADDRESS_POOL_INFORMATION, grouped_ie 0 pfcp_ue_ip_address_pool_group),
     (PFCP_IE_IP_VERSION, simple_ie K_ip_version),
     (PFCP_IE_PACKET_REPORT, grouped_ie (BITS [TRAFFIC_REPORT_PACKET_TYPE]) pfcp_packet_report_group),
     (PFCP_IE_TRAFFIC_REPORT_PACKET_TYPE, simple_ie K_u8_ie),
     (PFCP_IE_TRAFFIC_REPORT_PACKET_HEADER, simple_ie K_fatemeh_packet_header),
     (PFCP_IE_TRAFFIC_REPORT_PACKET_DATA, simple_ie K_fatemeh_packet_data)]"

definition tgpp_specs :: "nat \<Rightarrow> pfcp_ie_def option" where
  "tgpp_specs = table_at no_def
     (tgpp_specs_1 @ tgpp_specs_2 @ tgpp_specs_3 @ tgpp_specs_4 @ tgpp_specs_5)"

definition vendor_tp_specs_init :: "(nat \<times> pfcp_ie_def) list" where [pfcp_tables]:
  "vendor_tp_specs_init = [
     (PFCP_IE_TP_PACKET_MEASUREMENT, simple_ie K_volume_ie),
     (PFCP_IE_TP_BUILD_ID, simple_ie K_simple_vec_ie),
     (PFCP_IE_TP_NOW, simple_ie K_sntp_time_stamp_ie),
     (PFCP_IE_TP_START_TIME, simple_ie K_sntp_time_stamp_ie),
     (PFCP_IE_TP_END_TIME, simple_ie K_sntp_time_stamp_ie),
     (PFCP_IE_TP_ERROR_REPORT, grouped_ie (BITS [TP_ERROR_REPORT_TP_ERROR_MESSAGE]) pfcp_tp_error_report_group),
     (PFCP_IE_TP_CREATED_NAT_BINDING, grouped_ie 0 pfcp_tp_created_binding_group),
     (PFCP_IE_TP_ERROR_MESSAGE, simple_ie K_simple_vec_ie),
     (PFCP_IE_TP_FILE_NAME, simple_ie K_simple_vec_ie),
     (PFCP_IE_TP_LINE_NUMBER, simple_ie K_u32_ie)]"

definition vendor_tp_specs :: "nat \<Rightarrow> pfcp_ie_def option" where
  "vendor_tp_specs = table_at no_def vendor_tp_specs_init"

definition vendor_bbf_specs_init :: "(nat \<times> pfcp_ie_def) list" where [pfcp_tables]:
  "vendor_bbf_specs_init = [
     (PFCP_IE_BBF_UP_FUNCTION_FEATURES, simple_ie K_bbf_up_function_features),
     (PFCP_IE_BBF_NAT_OUTSIDE_ADDRESS, simple_ie K_bbf_nat_outside_address),
     (PFCP_IE_BBF_APPLY_ACTION, simple_ie K_u8_ie),
     (PFCP_IE_BBF_NAT_PORT_BLOCK, simple_ie K_simple_vec_ie),
     (PFCP_IE_BBF_NAT_EXTERNAL_PORT_RANGE, simple_ie K_bbf_nat_external_port_range)]"

definition vendor_bbf_specs :: "nat \<Rightarrow> pfcp_ie_def option" where
  "vendor_bbf_specs = table_at no_def vendor_bbf_specs_init"

section \<open>Messages\<close>

definition msg_specs_node :: "(nat \<times> pfcp_ie_def) list" where [pfcp_tables]:
  "msg_specs_node = [
     (PFCP_HEARTBEAT_REQUEST, grouped_ie (BITS [HEARTBEAT_REQUEST_RECOVERY_TIME_STAMP]) pfcp_heartbeat_request_group),
     (PFCP_HEARTBEAT_RESPONSE, grouped_ie (BITS [PFCP_RESPONSE_RECOVERY_TIME_STAMP]) pfcp_simple_response_group),
     (PFCP_PFD_MANAGEMENT_REQUEST, grouped_ie 0 pfcp_pfd_management_request_group),
     (PFCP_ASSOCIATION_SETUP_REQUEST, grouped_ie (BITS [ASSOCIATION_SETUP_REQUEST_NODE_ID, ASSOCIATION_SETUP_REQUEST_RECOVERY_TIME_STAMP]) pfcp_association_setup_request_group),
     (PFCP_ASSOCIATION_SETUP_RESPONSE, grouped_ie (BITS [ASSOCIATION_PROCEDURE_RESPONSE_NODE_ID, ASSOCIATION_PROCEDURE_RESPONSE_CAUSE, ASSOCIATION_PROCEDURE_RESPONSE_RECOVERY_TIME_STAMP]) pfcp_association_setup_response_group),
     (PFCP_ASSOCIATION_UPDATE_REQUEST, grouped_ie (BITS [ASSOCIATION_UPDATE_REQUEST_NODE_ID]) pfcp_association_update_request_group),
     (PFCP_ASSOCIATION_UPDATE_RESPONSE, grouped_ie (BITS [ASSOCIATION_PROCEDURE_RESPONSE_NODE_ID, ASSOCIATION_PROCEDURE_RESPONSE_CAUSE]) pfcp_association_update_response_group),
     (PFCP_ASSOCIATION_RELEASE_REQUEST, grouped_ie (BITS [ASSOCIATION_RELEASE_REQUEST_NODE_ID]) pfcp_association_release_request_group),
     (PFCP_ASSOCIATION_RELEASE_RESPONSE, grouped_ie (BITS [PFCP_RESPONSE_NODE_ID, PFCP_RESPONSE_CAUSE]) pfcp_simple_response_group),
     (PFCP_NODE_REPORT_REQUEST, grouped_ie (BITS [NODE_REPORT_REQUEST_NODE_ID, NODE_REPORT_REQUEST_NODE_REPORT_TYPE]) pfcp_node_report_request_group),
     (PFCP_NODE_REPORT_RESPONSE, grouped_ie (BITS [PFCP_RESPONSE_NODE_ID, PFCP_RESPONSE_CAUSE]) pfcp_simple_response_group),
     (PFCP_SESSION_SET_DELETION_REQUEST, grouped_ie (BITS [SESSION_SET_DELETION_REQUEST_NODE_ID]) pfcp_session_set_deletion_request_group)]"

definition msg_specs_session :: "(nat \<times> pfcp_ie_def) list" where [pfcp_tables]:
  "msg_specs_session = [
     (PFCP_SESSION_SET_DELETION_RESPONSE, grouped_ie (BITS [PFCP_RESPONSE_NODE_ID, PFCP_RESPONSE_CAUSE]) pfcp_simple_response_group),
     (PFCP_SESSION_ESTABLISHMENT_REQUEST, grouped_ie (BITS [SESSION_ESTABLISHMENT_REQUEST_NODE_ID, SESSION_ESTABLISHMENT_REQUEST_F_SEID, SESSION_ESTABLISHMENT_REQUEST_CREATE_PDR, SESSION_ESTABLISHMENT_REQUEST_CREATE_FAR]) pfcp_session_establishment_request_group),
     (PFCP_SESSION_ESTABLISHMENT_RESPONSE, grouped_ie (BITS [SESSION_PROCEDURE_RESPONSE_NODE_ID, SESSION_PROCEDURE_RESPONSE_CAUSE, SESSION_PROCEDURE_RESPONSE_UP_F_SEID]) pfcp_session_establishment_response_group),
     (PFCP_SESSION_MODIFICATION_REQUEST, grouped_ie 0 pfcp_session_modification_request_group),
     (PFCP_SESSION_MODIFICATION_RESPONSE, grouped_ie (BITS [SESSION_PROCEDURE_RESPONSE_CAUSE]) pfcp_session_modification_response_group),
     (PFCP_SESSION_DELETION_REQUEST, no_def),
     (PFCP_SESSION_DELETION_RESPONSE, grouped_ie (BITS [SESSION_PROCEDURE_RESPONSE_CAUSE]) pfcp_session_deletion_response_group),
     (PFCP_SESSION_REPORT_REQUEST, grouped_ie (BITS [SESSION_REPORT_REQUEST_REPORT_TYPE]) pfcp_session_report_request_group),
     (PFCP_SESSION_REPORT_RESPONSE, grouped_ie (BITS [SESSION_REPORT_RESPONSE_CAUSE]) pfcp_session_report_response_group)]"

definition msg_specs :: "nat \<Rightarrow> pfcp_ie_def option" where
  "msg_specs = table_at no_def (msg_specs_node @ msg_specs_session)"

section \<open>Well-formedness of the tables\<close>

text \<open>Types fit into 15 bits, vendors are known, no group lists a type twice, a group fits into the
  32 bits of \<^verbatim>\<open>fields\<close>, and what is mandatory in a group is a position of the group.\<close>

definition wf_item :: "pfcp_group_ie_def \<Rightarrow> bool" where
  "wf_item item \<longleftrightarrow> item_type item < 2 ^ 15
     \<and> (item_vendor item = 0 \<or> item_vendor item = VENDOR_BBF \<or> item_vendor item = VENDOR_TRAVELPING)"

definition within :: "nat \<Rightarrow> u32 \<Rightarrow> bool" where
  "within n w \<longleftrightarrow> take_bit n w = w"

definition wf_def :: "pfcp_ie_def \<Rightarrow> bool" where
  "wf_def def \<longleftrightarrow> length (group def) \<le> 32 \<and> list_all wf_item (group def)
     \<and> distinct (filter (\<lambda>t. t \<noteq> 0) (map item_type (group def)))
     \<and> within (length (group def)) (mandatory def)"

lemma within_iff: "within n w \<longleftrightarrow> (\<forall>i. bit w i \<longrightarrow> i < n)"
  by (metis bit_take_bit_iff bit_word_eqI within_def)

lemma within_0 [simp]: "within n 0"
  by (simp add: within_def)

lemma within_BITS [simp]: "list_all (\<lambda>i. i < n) ns \<Longrightarrow> within n (BITS ns)"
  by (induction ns) (auto simp: within_iff BITS_def bit_or_iff)

lemma wf_tgpp_specs_1: "list_all (\<lambda>(t, d). wf_def d) tgpp_specs_1"
  by (simp add: pfcp_tables wf_def_def table_simps wf_item_def upt_rec)
lemma wf_tgpp_specs_2: "list_all (\<lambda>(t, d). wf_def d) tgpp_specs_2"
  by (simp add: pfcp_tables wf_def_def table_simps wf_item_def upt_rec)
lemma wf_tgpp_specs_3: "list_all (\<lambda>(t, d). wf_def d) tgpp_specs_3"
  by (simp add: pfcp_tables wf_def_def table_simps wf_item_def upt_rec)
lemma wf_tgpp_specs_4: "list_all (\<lambda>(t, d). wf_def d) tgpp_specs_4"
  by (simp add: pfcp_tables wf_def_def table_simps wf_item_def upt_rec)
lemma wf_tgpp_specs_5: "list_all (\<lambda>(t, d). wf_def d) tgpp_specs_5"
  by (simp add: pfcp_tables wf_def_def table_simps wf_item_def upt_rec)
lemma wf_vendor_specs: "list_all (\<lambda>(t, d). wf_def d) (vendor_tp_specs_init @ vendor_bbf_specs_init)"
  by (simp add: pfcp_tables wf_def_def table_simps wf_item_def upt_rec)
lemma wf_msg_specs_node: "list_all (\<lambda>(t, d). wf_def d) msg_specs_node"
  by (simp add: pfcp_tables wf_def_def table_simps wf_item_def upt_rec)
lemma wf_msg_specs_session: "list_all (\<lambda>(t, d). wf_def d) msg_specs_session"
  by (simp add: pfcp_tables wf_def_def table_simps wf_item_def upt_rec)

lemma wf_no_def [simp]: "wf_def no_def"
  by (simp add: wf_def_def)

lemma init_at_in: "init_at z inits i \<in> insert z (snd ` set inits)"
proof -
  have "fold (\<lambda>(k, x) y. if k = i then x else y) inits z \<in> insert z (snd ` set inits)"
    by (induction inits arbitrary: z) (force split: if_splits)+
  then show ?thesis by (simp add: init_at_def)
qed

lemma wf_table_at:
  assumes "list_all (\<lambda>(t, d). wf_def d) inits" "table_at no_def inits i = Some d"
  shows "wf_def d"
proof -
  from assms(2) have "d = init_at no_def inits i" by (simp add: table_at_def split: if_splits)
  with init_at_in [of no_def inits i] assms(1) show ?thesis by (auto simp: list_all_iff)
qed

lemma wf_specs:
  "tgpp_specs t = Some d \<Longrightarrow> wf_def d"
  "vendor_tp_specs t = Some d \<Longrightarrow> wf_def d"
  "vendor_bbf_specs t = Some d \<Longrightarrow> wf_def d"
  "msg_specs t = Some d \<Longrightarrow> wf_def d"
  using wf_tgpp_specs_1 wf_tgpp_specs_2 wf_tgpp_specs_3 wf_tgpp_specs_4 wf_tgpp_specs_5
    wf_vendor_specs wf_msg_specs_node wf_msg_specs_session
  by (auto simp: tgpp_specs_def vendor_tp_specs_def vendor_bbf_specs_def msg_specs_def elim!: wf_table_at [rotated])

end
