(* ===== verification/Pfcp_Codec.thy ===== *)
theory Pfcp_Codec
  imports Pfcp_Tables
begin

text \<open>
  The table-driven decoder and encoder of \<^verbatim>\<open>src/upf/pfcp.c\<close>: groups of information elements and
  whole PFCP messages.

  A decoded group is the structure that starts with \<^verbatim>\<open>struct pfcp_group\<close>: the set of fields that are
  present, the elements that were not understood, as pointers into the message, and a slot for every
  entry of the table of the group in place of the member at the offset of the entry. A slot of an array
  element is a vector.
\<close>

section \<open>Decoded groups\<close>

datatype pfcp_val = Leaf ie_leaf | Grp pfcp_group
and pfcp_group = Group (grp_fields: u32) (grp_ies: "bytes list") (grp_slots: "pfcp_slot list")
and pfcp_slot = Unset | Single pfcp_val | Array "pfcp_val list"

definition empty_group :: "pfcp_ie_def \<Rightarrow> pfcp_group" where
  "empty_group def = Group 0 [] (replicate (length (group def)) Unset)"

text \<open>\<^verbatim>\<open>vec_add1 (grp->ies, ie)\<close>\<close>

fun add_ie :: "pfcp_group \<Rightarrow> bytes \<Rightarrow> pfcp_group" where
  "add_ie (Group f is ss) p = Group f (is @ [p]) ss"

text \<open>Storing a member and \<^verbatim>\<open>SET_BIT (grp->fields, id)\<close>\<close>

fun set_slot :: "pfcp_group \<Rightarrow> nat \<Rightarrow> pfcp_slot \<Rightarrow> pfcp_group" where
  "set_slot (Group f is ss) i s = Group (SET_BIT f i) is (ss[i := s])"

section \<open>Table lookup\<close>

fun find_item :: "nat \<Rightarrow> pfcp_group_ie_def list \<Rightarrow> nat \<Rightarrow> (nat \<times> pfcp_group_ie_def) option" where
  "find_item i [] type = None"
| "find_item i (item # items) type =
     (if item_type item \<noteq> 0 \<and> item_type item = type then Some (i, item)
      else find_item (Suc i) items type)"

definition get_ie_spec :: "pfcp_ie_def \<Rightarrow> nat \<Rightarrow> (nat \<times> pfcp_group_ie_def) option" where
  "get_ie_spec def type = find_item 0 (group def) type"

text \<open>The outer \<open>None\<close> is the pointer \<^verbatim>\<open>NULL\<close>, the inner one a pointer outside of the table.\<close>

definition get_ie_def :: "pfcp_group_ie_def \<Rightarrow> pfcp_ie_def option option" where
  "get_ie_def item =
     (if item_vendor item = 0 then Some (tgpp_specs (item_type item))
      else if item_vendor item = VENDOR_BBF then Some (vendor_bbf_specs (item_type item))
      else if item_vendor item = VENDOR_TRAVELPING then Some (vendor_tp_specs (item_type item))
      else None)"

section \<open>Decoding\<close>

text \<open>The header of an element: type and length, and behind them the vendor if the top bit of the
  type is set; the stated length covers the vendor.\<close>

definition ie_hdr :: "bytes \<Rightarrow> (u16 \<times> nat) option" where
  "ie_hdr p = (if length p < 4 then None
     else Some (word_of_be (take 2 p), unat (word_of_be (take 2 (drop 2 p)) :: u16)))"

definition ie_vendor_hdr :: "u16 \<Rightarrow> nat \<Rightarrow> bytes \<Rightarrow> (nat \<times> nat option \<times> nat \<times> nat) option" where
  "ie_vendor_hdr type n p =
     (if ISSET_BIT type 15 then
        (if length p < 6 then None
         else Some (6, Some (unat (word_of_be (take 2 (drop 4 p)) :: u16)),
                    unat (type AND 0x7fff), sub16 n 2))
      else Some (4, None, unat type, n))"

text \<open>The definition an element is decoded with depends on the vendor in the message; \<open>None\<close> is an
  unknown vendor.\<close>

definition wire_ie_def :: "nat option \<Rightarrow> nat \<Rightarrow> pfcp_ie_def option option" where
  "wire_ie_def vendor type = (case vendor of
     None \<Rightarrow> Some (tgpp_specs type)
   | Some v \<Rightarrow> if v = VENDOR_BBF then Some (vendor_bbf_specs type)
               else if v = VENDOR_TRAVELPING then Some (vendor_tp_specs type) else None)"

text \<open>
  The outcome of a decoder that has a group and a list of offending elements: the function returns a
  code and leaves both behind (\<open>GRet\<close>), or memory outside of the message or the tables is accessed
  (\<open>GFault\<close>). The loop of \<^verbatim>\<open>decode_group\<close> can also be left before its end by a \<^verbatim>\<open>return\<close>.
\<close>

datatype group_res = GFault | GRet int pfcp_group "nat list"
datatype loop_res = LFault | LReturn int pfcp_group "nat list" | LExit int pfcp_group "nat list"

definition missing_ies :: "pfcp_ie_def \<Rightarrow> u32 \<Rightarrow> nat list" where
  "missing_ies def fs = map (\<lambda>i. item_type (group def ! i))
     (filter (bit (NOT fs AND mandatory def)) [0..<32])"

definition check_mandatory :: "pfcp_ie_def \<Rightarrow> loop_res \<Rightarrow> group_res" where
  "check_mandatory def res = (case res of
     LFault \<Rightarrow> GFault
   | LReturn r grp err \<Rightarrow> GRet r grp err
   | LExit r grp err \<Rightarrow>
       if grp_fields grp AND mandatory def \<noteq> mandatory def
       then GRet PFCP_CAUSE_MANDATORY_IE_MISSING grp (err @ missing_ies def (grp_fields grp))
       else GRet r grp err)"

function decode_ie :: "vlib \<Rightarrow> pfcp_ie_def option \<Rightarrow> bytes \<Rightarrow> nat \<Rightarrow> nat list \<Rightarrow> pfcp_val dec \<times> nat list"
  and decode_vector_ie ::
    "vlib \<Rightarrow> pfcp_ie_def option \<Rightarrow> bytes \<Rightarrow> nat \<Rightarrow> pfcp_slot \<Rightarrow> nat list \<Rightarrow> pfcp_slot dec \<times> nat list"
  and decode_group :: "vlib \<Rightarrow> pfcp_ie_def \<Rightarrow> bytes \<Rightarrow> int \<Rightarrow> pfcp_group \<Rightarrow> nat list \<Rightarrow> group_res"
  and decode_group_loop :: "vlib \<Rightarrow> pfcp_ie_def \<Rightarrow> bytes \<Rightarrow> int \<Rightarrow> pfcp_group \<Rightarrow> nat list \<Rightarrow> loop_res"
where
  "decode_ie lib def p n err = (case def of
     None \<Rightarrow> (Fault, err)
   | Some def \<Rightarrow>
       if group def \<noteq> [] then
         (case decode_group lib def p (int n) (empty_group def) err of
            GFault \<Rightarrow> (Fault, err)
          | GRet r grp err \<Rightarrow> (if r = 0 then Done (Grp grp) else Reject r, err))
       else (case codec def of
               None \<Rightarrow> (Fault, err)
             | Some k \<Rightarrow> (map_dec Leaf (decode_leaf lib k p n), err)))"
| "decode_vector_ie lib def p n s err = (case decode_ie lib def p n err of
     (r, err) \<Rightarrow> (map_dec (\<lambda>v. Array ((case s of Array vs \<Rightarrow> vs | _ \<Rightarrow> []) @ [v])) r, err))"
| "decode_group lib def p len grp err =
     check_mandatory def (decode_group_loop lib def p len grp err)"
| "decode_group_loop lib def p len grp err =
     (if len \<le> 0 then LExit 0 grp err
      else (case ie_hdr p of
        None \<Rightarrow> LFault
      | Some (type, n) \<Rightarrow>
          if 4 + int n > len then LReturn PFCP_CAUSE_INVALID_LENGTH grp err
          else (case ie_vendor_hdr type n p of
            None \<Rightarrow> LFault
          | Some (hdr, vendor, type, n) \<Rightarrow>
              (case (wire_ie_def vendor type, get_ie_spec def type) of
                 (Some ie_def, Some (i, item)) \<Rightarrow>
                   if item_is_array item then
                     (case decode_vector_ie lib ie_def (drop hdr p) n (grp_slots grp ! i) err of
                        (Done s, err) \<Rightarrow>
                          decode_group_loop lib def (drop (hdr + n) p)
                            (len - int (hdr + n)) (set_slot grp i s) err
                      | (Reject r, err) \<Rightarrow> LExit r grp err
                      | (Fault, err) \<Rightarrow> LFault)
                   else if ISSET_BIT (grp_fields grp) i then
                     decode_group_loop lib def (drop (hdr + n) p)
                       (len - int (hdr + n)) (add_ie grp p) err
                   else
                     (case decode_ie lib ie_def (drop hdr p) n err of
                        (Done v, err) \<Rightarrow>
                          decode_group_loop lib def (drop (hdr + n) p)
                            (len - int (hdr + n)) (set_slot grp i (Single v)) err
                      | (Reject r, err) \<Rightarrow> LExit r grp err
                      | (Fault, err) \<Rightarrow> LFault)
               | _ \<Rightarrow> decode_group_loop lib def (drop (hdr + n) p)
                        (len - int (hdr + n)) (add_ie grp p) err))))"
  by pat_completeness auto

termination
  by (relation "measure (\<lambda>x. case x of
        Inl (Inl (lib, def, p, _)) \<Rightarrow> 4 * length p + 2
      | Inl (Inr (lib, def, p, _)) \<Rightarrow> 4 * length p + 3
      | Inr (Inl (lib, def, p, _)) \<Rightarrow> 4 * length p + 1
      | Inr (Inr (lib, def, p, _)) \<Rightarrow> 4 * length p)")
     (auto simp: ie_hdr_def ie_vendor_hdr_def split: if_splits)

declare decode_ie.simps [simp del] decode_vector_ie.simps [simp del]
  decode_group.simps [simp del] decode_group_loop.simps [simp del]

section \<open>Encoding\<close>

text \<open>The header of an element of \<open>n\<close> octets, as \<^verbatim>\<open>encode_ie\<close> writes it and \<^verbatim>\<open>finalize_ie\<close> completes it.\<close>

definition put_ie_hdr :: "pfcp_group_ie_def \<Rightarrow> nat \<Rightarrow> bytes" where
  "put_ie_hdr item n =
     (if item_vendor item = 0 then put_u16 (of_nat (item_type item)) @ put_u16 (of_nat n)
      else put_u16 (0x8000 OR of_nat (item_type item)) @ put_u16 (of_nat (n + 2))
           @ put_u16 (of_nat (item_vendor item)))"

fun append_dec :: "bytes dec \<Rightarrow> bytes dec \<Rightarrow> bytes dec" where
  "append_dec (Done xs) r = map_dec ((@) xs) r"
| "append_dec r _ = r"

text \<open>
  The octets appended to the vector, or the error. A value that does not have the type of the
  definition it is encoded with, and a field that is marked as present and has no value, are
  outside of what the encoder is called with; the model shows them as \<open>Fault\<close>.
\<close>

fun encode_ie :: "vlib \<Rightarrow> pfcp_group_ie_def \<Rightarrow> pfcp_ie_def option \<Rightarrow> pfcp_val \<Rightarrow> bytes dec"
  and encode_vector_ie ::
    "vlib \<Rightarrow> pfcp_group_ie_def \<Rightarrow> pfcp_ie_def option \<Rightarrow> pfcp_val list \<Rightarrow> bytes dec"
  and encode_slot :: "vlib \<Rightarrow> pfcp_group_ie_def \<Rightarrow> pfcp_ie_def option \<Rightarrow> pfcp_slot \<Rightarrow> bytes dec"
  and encode_items ::
    "vlib \<Rightarrow> u32 \<Rightarrow> nat \<Rightarrow> pfcp_group_ie_def list \<Rightarrow> pfcp_slot list \<Rightarrow> bytes dec"
  and encode_group :: "vlib \<Rightarrow> pfcp_ie_def \<Rightarrow> pfcp_group \<Rightarrow> bytes dec"
where
  "encode_ie lib item None v = Fault"
| "encode_ie lib item (Some def) (Grp grp) =
     (if group def \<noteq> [] then map_dec (\<lambda>bs. put_ie_hdr item (length bs) @ bs) (encode_group lib def grp)
      else Fault)"
| "encode_ie lib item (Some def) (Leaf v) =
     (if group def = [] \<and> codec def = Some (leaf_codec v)
      then map_dec (\<lambda>bs. put_ie_hdr item (length bs) @ bs) (encode_leaf lib v) else Fault)"
| "encode_vector_ie lib item def [] = Done []"
| "encode_vector_ie lib item def (v # vs) =
     append_dec (encode_ie lib item def v) (encode_vector_ie lib item def vs)"
| "encode_slot lib item def Unset = (if item_is_array item then Done [] else Fault)"
| "encode_slot lib item def (Single v) = (if item_is_array item then Fault else encode_ie lib item def v)"
| "encode_slot lib item def (Array vs) =
     (if item_is_array item then encode_vector_ie lib item def vs else Fault)"
| "encode_items lib fs i [] ss = Done []"
| "encode_items lib fs i (item # items) [] = Fault"
| "encode_items lib fs i (item # items) (s # ss) =
     (if item_type item = 0 \<and> item_vendor item = 0 \<or> \<not> ISSET_BIT fs i
      then encode_items lib fs (Suc i) items ss
      else (case get_ie_def item of
              None \<Rightarrow> encode_items lib fs (Suc i) items ss
            | Some ie_def \<Rightarrow> append_dec (encode_slot lib item ie_def s)
                               (encode_items lib fs (Suc i) items ss)))"
| "encode_group lib def (Group fs is ss) = encode_items lib fs 0 (group def) ss"

section \<open>Messages\<close>

abbreviation (input) "NODE_MSG_HDR_LEN \<equiv> 8 :: nat"
abbreviation (input) "SESSION_MSG_HDR_LEN \<equiv> 16 :: nat"

record pfcp_decoded_msg =
  dmsg_type :: nat
  dmsg_seq_no :: u32
  dmsg_seid :: u64
  dmsg_grp :: pfcp_group

definition pfcp_is_session_msg :: "nat \<Rightarrow> bool" where
  "pfcp_is_session_msg type \<longleftrightarrow> type \<ge> 50 \<and> type \<le> 99"

text \<open>The accessors of \<^verbatim>\<open>pfcp.h\<close>; they are applied to a buffer that holds the header.\<close>

definition pfcp_msg_s_flag :: "bytes \<Rightarrow> bool" where
  "pfcp_msg_s_flag p = bit (p ! 0) 0"

definition pfcp_msg_version :: "bytes \<Rightarrow> nat" where
  "pfcp_msg_version p = unat (drop_bit 5 (p ! 0))"

definition pfcp_msg_type :: "bytes \<Rightarrow> nat" where
  "pfcp_msg_type p = unat (p ! 1)"

definition pfcp_msg_length :: "bytes \<Rightarrow> nat" where
  "pfcp_msg_length p = unat (word_of_be (take 2 (drop 2 p)) :: u16)"

definition pfcp_node_msg_seq :: "bytes \<Rightarrow> u32" where
  "pfcp_node_msg_seq p = word_of_be (take 3 (drop 4 p))"

definition pfcp_session_msg_seid :: "bytes \<Rightarrow> u64" where
  "pfcp_session_msg_seid p = word_of_be (take 8 (drop 4 p))"

definition pfcp_session_msg_seq :: "bytes \<Rightarrow> u32" where
  "pfcp_session_msg_seq p = word_of_be (take 3 (drop 12 p))"

text \<open>\<open>None\<close> is an access outside of the message. The group of a message that is refused before its
  elements are looked at is the zeroed one.\<close>

definition pfcp_decode_msg ::
    "vlib \<Rightarrow> bytes \<Rightarrow> nat list \<Rightarrow> (int \<times> pfcp_decoded_msg \<times> nat list) option" where
  "pfcp_decode_msg lib p err =
     (let zero = \<lparr>dmsg_type = 0, dmsg_seq_no = 0, dmsg_seid = 0, dmsg_grp = Group 0 [] []\<rparr> in
      if length p = 0 then Some (-1, zero, err)
      else if length p < 2 then None
      else
        let type = pfcp_msg_type p;
            session = pfcp_is_session_msg type;
            hdr_len = (if session then SESSION_MSG_HDR_LEN else NODE_MSG_HDR_LEN) in
        if length p < hdr_len then Some (-1, zero, err)
        else (case msg_specs type of
          None \<Rightarrow> Some (-1, zero, err)
        | Some def \<Rightarrow>
            let dmsg = \<lparr>dmsg_type = type,
                  dmsg_seq_no = (if session then pfcp_session_msg_seq p else pfcp_node_msg_seq p),
                  dmsg_seid = (if session then pfcp_session_msg_seid p else 0),
                  dmsg_grp = empty_group def\<rparr>;
                msg_len = pfcp_msg_length p in
            if msg_len + 4 > length p then Some (PFCP_CAUSE_INVALID_LENGTH, dmsg, err)
            else if session \<noteq> pfcp_msg_s_flag p then Some (PFCP_CAUSE_REQUEST_REJECTED, dmsg, err)
            else (case decode_group lib def (drop hdr_len p) (int msg_len - int hdr_len + 4)
                        (empty_group def) err of
              GFault \<Rightarrow> None
            | GRet r g err \<Rightarrow> Some (r, dmsg\<lparr>dmsg_grp := g\<rparr>, err))))"

definition pfcp_encode_msg :: "vlib \<Rightarrow> pfcp_decoded_msg \<Rightarrow> bytes dec" where
  "pfcp_encode_msg lib dmsg =
     (let session = pfcp_is_session_msg (dmsg_type dmsg) in
      case msg_specs (dmsg_type dmsg) of
        None \<Rightarrow> Fault
      | Some def \<Rightarrow>
          map_dec (\<lambda>bs.
            let body = (if session then put_u64 (dmsg_seid dmsg) else []) @ put_u24 (dmsg_seq_no dmsg) @ put_u8 0 @ bs in
            put_u8 (push_bit 5 1 OR (if session then 1 else 0)) @ put_u8 (of_nat (dmsg_type dmsg))
            @ put_u16 (of_nat (length body)) @ body)
            (encode_group lib def (dmsg_grp dmsg)))"

definition pfcp_encode_version_not_supported_response :: bytes where
  "pfcp_encode_version_not_supported_response =
     put_u8 (push_bit 5 1) @ put_u8 (of_nat PFCP_VERSION_NOT_SUPPORTED_RESPONSE)
     @ put_u16 (of_nat (NODE_MSG_HDR_LEN - 4)) @ replicate (NODE_MSG_HDR_LEN - 4) 0"

section \<open>Values that survive the wire\<close>

fun ok_val :: "vlib \<Rightarrow> pfcp_ie_def option \<Rightarrow> pfcp_val \<Rightarrow> bool"
  and ok_slot :: "vlib \<Rightarrow> pfcp_group_ie_def \<Rightarrow> pfcp_ie_def option \<Rightarrow> pfcp_slot \<Rightarrow> bool"
  and ok_items :: "vlib \<Rightarrow> u32 \<Rightarrow> nat \<Rightarrow> pfcp_group_ie_def list \<Rightarrow> pfcp_slot list \<Rightarrow> bool"
  and ok_group :: "vlib \<Rightarrow> pfcp_ie_def \<Rightarrow> pfcp_group \<Rightarrow> bool"
where
  "ok_val lib None v \<longleftrightarrow> False"
| "ok_val lib (Some def) (Leaf v) \<longleftrightarrow>
     group def = [] \<and> codec def = Some (leaf_codec v) \<and> ok_leaf lib v"
| "ok_val lib (Some def) (Grp g) \<longleftrightarrow> group def \<noteq> [] \<and> ok_group lib def g"
| "ok_slot lib item def Unset \<longleftrightarrow> False"
| "ok_slot lib item def (Single v) \<longleftrightarrow> \<not> item_is_array item \<and> ok_val lib def v"
| "ok_slot lib item def (Array vs) \<longleftrightarrow>
     item_is_array item \<and> vs \<noteq> [] \<and> list_all (ok_val lib def) vs"
| "ok_items lib fs i (item # items) (s # ss) \<longleftrightarrow>
     (if bit fs i then item_type item \<noteq> 0 \<and>
        (case get_ie_def item of None \<Rightarrow> False | Some def \<Rightarrow> ok_slot lib item def s)
      else s = Unset) \<and> ok_items lib fs (Suc i) items ss"
| "ok_items lib fs i items ss \<longleftrightarrow> items = [] \<and> ss = []"
| "ok_group lib def (Group fs is ss) \<longleftrightarrow>
     is = [] \<and> within (length ss) fs \<and> fs AND mandatory def = mandatory def
     \<and> ok_items lib fs 0 (group def) ss"

lemma wf_get_ie_def: "get_ie_def item = Some (Some d) \<Longrightarrow> wf_def d"
  by (auto simp: get_ie_def_def wf_specs split: if_splits)

lemma find_item_distinct:
  assumes "distinct (filter (\<lambda>t. t \<noteq> 0) (map item_type items))" "k < length items"
    "item_type (items ! k) \<noteq> 0"
  shows "find_item i items (item_type (items ! k)) = Some (i + k, items ! k)"
  using assms
proof (induction items arbitrary: i k)
  case (Cons item items)
  show ?case
  proof (cases k)
    case 0
    with Cons.prems show ?thesis by simp
  next
    case (Suc k')
    with Cons.prems have "item_type (items ! k') \<in> set (filter (\<lambda>t. t \<noteq> 0) (map item_type items))"
      by (auto intro!: image_eqI [of _ _ "items ! k'"])
    with Cons.prems Suc have "\<not> (item_type item \<noteq> 0 \<and> item_type item = item_type (items ! k'))"
      by (auto split: if_splits)
    with Suc Cons show ?thesis by (auto split: if_splits)
  qed
qed simp

lemma get_ie_spec_item:
  assumes "wf_def def" "group def = pre @ item # post" "item_type item \<noteq> 0"
  shows "get_ie_spec def (item_type item) = Some (length pre, item)"
  using find_item_distinct [of "group def" "length pre" 0] assms
  by (simp add: wf_def_def get_ie_spec_def)

section \<open>One element\<close>

lemma take_put_u16 [simp]: "take 2 (put_u16 w @ rest) = put_u16 w" "drop 2 (put_u16 w @ rest) = rest"
  by (simp_all add: put_u16_octets)

lemma word_of_be_put_u16 [simp]: "word_of_be (put_u16 w) = w"
  by (simp add: put_u16_def)

lemma type_15:
  assumes "t < 2 ^ 15"
  shows "\<not> bit (of_nat t :: u16) 15" "unat (of_nat t :: u16) = t"
    "bit (0x8000 OR of_nat t :: u16) 15" "(0x8000 OR of_nat t) AND 0x7fff = (of_nat t :: u16)"
proof -
  have "\<not> bit t 15" using assms by (simp add: bit_iff_odd)
  then show nb: "\<not> bit (of_nat t :: u16) 15" by (simp add: bit_of_nat_iff)
  show "unat (of_nat t :: u16) = t" using assms by (simp add: unat_of_nat)
  show "bit (0x8000 OR of_nat t :: u16) 15" by (simp add: bit_simps)
  show "(0x8000 OR of_nat t) AND 0x7fff = (of_nat t :: u16)"
    by (rule u16_eqI, unfold less_16 less_8, elim disjE) (use nb in \<open>simp_all add: bit_or_iff bit_and_iff\<close>)
qed

text \<open>What the decoder makes of the header that the encoder has written.\<close>

lemma put_ie_hdr_parse:
  assumes "wf_item item" "n + 2 < 2 ^ 16"
  obtains type m hdr vendor where
    "ie_hdr (put_ie_hdr item n @ rest) = Some (type, m)"
    "length (put_ie_hdr item n) = hdr" "4 + m = hdr + n"
    "ie_vendor_hdr type m (put_ie_hdr item n @ rest) = Some (hdr, vendor, item_type item, n)"
    "wire_ie_def vendor (item_type item) = get_ie_def item"
proof (cases "item_vendor item = 0")
  case True
  with assms show thesis
    by (intro that [of "of_nat (item_type item)" n 4 None])
       (simp_all add: put_ie_hdr_def ie_hdr_def ie_vendor_hdr_def wf_item_def type_15 unat_of_nat
         wire_ie_def_def get_ie_def_def)
next
  case False
  have "unat (of_nat (item_vendor item) :: u16) = item_vendor item"
    using assms(1) by (auto simp: wf_item_def)
  moreover have "unat (of_nat (n + 2) :: u16) = n + 2"
    by (simp only: unat_of_nat) (use assms(2) in simp)
  then have "unat (2 + of_nat n :: u16) = Suc (Suc n)"
    by (metis add.commute add_2_eq_Suc of_nat_add of_nat_numeral)
  ultimately show thesis using assms False
    by (intro that [of "0x8000 OR of_nat (item_type item)" "n + 2" 6 "Some (item_vendor item)"])
       (auto simp: put_ie_hdr_def ie_hdr_def ie_vendor_hdr_def wf_item_def type_15 unat_of_nat
         wire_ie_def_def get_ie_def_def)
qed


text \<open>Decoding what \<open>encode_ie\<close> has written for one element of a group.\<close>

lemma loop_single:
  assumes "wf_item item" "length bs + 2 < 2 ^ 16" "0 \<le> m"
    and spec: "get_ie_spec def (item_type item) = Some (i, item)" "get_ie_def item = Some d"
    and item: "\<not> item_is_array item" "\<not> bit (grp_fields g) i"
    and dec: "decode_ie lib d (bs @ rest) (length bs) err = (Done v, err)"
  shows "decode_group_loop lib def (put_ie_hdr item (length bs) @ bs @ rest)
      (int (length (put_ie_hdr item (length bs) @ bs)) + m) g err =
    decode_group_loop lib def rest m (set_slot g i (Single v)) err"
proof -
  obtain type n hdr vendor where h:
    "ie_hdr (put_ie_hdr item (length bs) @ bs @ rest) = Some (type, n)"
    "length (put_ie_hdr item (length bs)) = hdr" "4 + n = hdr + length bs"
    "ie_vendor_hdr type n (put_ie_hdr item (length bs) @ bs @ rest) =
       Some (hdr, vendor, item_type item, length bs)"
    "wire_ie_def vendor (item_type item) = get_ie_def item"
    by (rule put_ie_hdr_parse [OF assms(1,2)])
  show ?thesis
    by (subst decode_group_loop.simps) (use h assms in \<open>simp add: algebra_simps\<close>)
qed

lemma loop_array:
  assumes "wf_item item" "length bs + 2 < 2 ^ 16" "0 \<le> m"
    and spec: "get_ie_spec def (item_type item) = Some (i, item)" "get_ie_def item = Some d"
    and item: "item_is_array item"
    and dec: "decode_ie lib d (bs @ rest) (length bs) err = (Done v, err)"
  shows "decode_group_loop lib def (put_ie_hdr item (length bs) @ bs @ rest)
      (int (length (put_ie_hdr item (length bs) @ bs)) + m) g err =
    decode_group_loop lib def rest m
      (set_slot g i (Array ((case grp_slots g ! i of Array vs \<Rightarrow> vs | _ \<Rightarrow> []) @ [v]))) err"
proof -
  obtain type n hdr vendor where h:
    "ie_hdr (put_ie_hdr item (length bs) @ bs @ rest) = Some (type, n)"
    "length (put_ie_hdr item (length bs)) = hdr" "4 + n = hdr + length bs"
    "ie_vendor_hdr type n (put_ie_hdr item (length bs) @ bs @ rest) =
       Some (hdr, vendor, item_type item, length bs)"
    "wire_ie_def vendor (item_type item) = get_ie_def item"
    by (rule put_ie_hdr_parse [OF assms(1,2)])
  show ?thesis
    by (subst decode_group_loop.simps) (use h assms in \<open>simp add: decode_vector_ie.simps algebra_simps\<close>)
qed

section \<open>Round trip\<close>

definition rt_val :: "vlib \<Rightarrow> pfcp_val \<Rightarrow> bool" where
  "rt_val lib v \<longleftrightarrow> (\<forall>item d bs. ok_val lib d v \<longrightarrow> (\<forall>def. d = Some def \<longrightarrow> wf_def def) \<longrightarrow>
     encode_ie lib item d v = Done bs \<longrightarrow> length bs < 2 ^ 16 \<longrightarrow>
     (\<exists>body. bs = put_ie_hdr item (length body) @ body \<and>
        (\<forall>rest err. decode_ie lib d (body @ rest) (length body) err = (Done v, err))))"

definition rt_group :: "vlib \<Rightarrow> pfcp_group \<Rightarrow> bool" where
  "rt_group lib g \<longleftrightarrow> (\<forall>def bs rest err. wf_def def \<longrightarrow> ok_group lib def g \<longrightarrow>
     encode_group lib def g = Done bs \<longrightarrow> length bs < 2 ^ 16 \<longrightarrow>
     decode_group lib def (bs @ rest) (int (length bs)) (empty_group def) err = GRet 0 g err)"

fun rt_slot :: "vlib \<Rightarrow> pfcp_slot \<Rightarrow> bool" where
  "rt_slot lib Unset \<longleftrightarrow> True"
| "rt_slot lib (Single v) \<longleftrightarrow> rt_val lib v"
| "rt_slot lib (Array vs) \<longleftrightarrow> list_all (rt_val lib) vs"

lemma map_dec_id: "map_dec f r = Done x \<longleftrightarrow> (\<exists>v. r = Done v \<and> x = f v)"
  by (cases r) auto

lemma append_dec_Done: "append_dec r s = Done zs \<longleftrightarrow> (\<exists>xs ys. r = Done xs \<and> s = Done ys \<and> zs = xs @ ys)"
  by (cases r) (auto simp: map_dec_id)

lemma length_put_ie_hdr: "4 \<le> length (put_ie_hdr item n)"
  "item_vendor item \<noteq> 0 \<Longrightarrow> 6 \<le> length (put_ie_hdr item n)"
  by (simp_all add: put_ie_hdr_def)

lemma rt_valD:
  assumes "rt_val lib v" "ok_val lib d v" "get_ie_def item = Some d" "encode_ie lib item d v = Done bs"
    "length bs < 2 ^ 16"
  obtains body where "bs = put_ie_hdr item (length body) @ body" "length body + 2 < 2 ^ 16"
    "\<And>rest err. decode_ie lib d (body @ rest) (length body) err = (Done v, err)"
proof -
  have "\<forall>def. d = Some def \<longrightarrow> wf_def def" using assms(3) wf_get_ie_def by auto
  with assms obtain body where b: "bs = put_ie_hdr item (length body) @ body"
    "\<And>rest err. decode_ie lib d (body @ rest) (length body) err = (Done v, err)"
    unfolding rt_val_def by blast
  moreover from b(1) assms(5) length_put_ie_hdr(1) [of item "length body"]
  have "length body + 2 < 2 ^ 16" by simp
  ultimately show thesis using that by blast
qed

lemma rt_leaf: "rt_val lib (Leaf v)"
  unfolding rt_val_def
proof (intro allI impI)
  fix item d bs assume *: "ok_val lib d (Leaf v)" "encode_ie lib item d (Leaf v) = Done bs" "length bs < 2 ^ 16"
  from *(1) obtain def where d: "d = Some def" "group def = []" "codec def = Some (leaf_codec v)" "ok_leaf lib v"
    by (cases d) auto
  with *(2) obtain body where b: "encode_leaf lib v = Done body" "bs = put_ie_hdr item (length body) @ body"
    by (auto simp: map_dec_id)
  with *(3) d show "\<exists>body. bs = put_ie_hdr item (length body) @ body \<and>
      (\<forall>rest err. decode_ie lib d (body @ rest) (length body) err = (Done (Leaf v), err))"
    by (intro exI [of _ body]) (simp add: decode_ie.simps decode_encode_leaf)
qed

lemma rt_grp:
  assumes "rt_group lib g" shows "rt_val lib (Grp g)"
  unfolding rt_val_def
proof (intro allI impI)
  fix item d bs assume *: "ok_val lib d (Grp g)" "encode_ie lib item d (Grp g) = Done bs" "length bs < 2 ^ 16"
    "\<forall>def. d = Some def \<longrightarrow> wf_def def"
  from *(1,4) obtain def where d: "d = Some def" "group def \<noteq> []" "ok_group lib def g" "wf_def def"
    by (cases d) auto
  with *(2) obtain body where b: "encode_group lib def g = Done body" "bs = put_ie_hdr item (length body) @ body"
    by (auto simp: map_dec_id)
  with *(3) d assms show "\<exists>body. bs = put_ie_hdr item (length body) @ body \<and>
      (\<forall>rest err. decode_ie lib d (body @ rest) (length body) err = (Done (Grp g), err))"
    by (intro exI [of _ body]) (simp add: decode_ie.simps rt_group_def)
qed

lemma set_slot_simps [simp]:
  "grp_fields (set_slot g i s) = SET_BIT (grp_fields g) i"
  "grp_ies (set_slot g i s) = grp_ies g"
  "grp_slots (set_slot g i s) = (grp_slots g)[i := s]"
  by (cases g; simp)+

lemma set_slot_twice: "set_slot (set_slot g i s) i t = set_slot g i t"
  by (cases g) (simp add: SET_BIT_def or.assoc)

lemma loop_vector:
  assumes "wf_item item" and spec: "get_ie_spec def (item_type item) = Some (i, item)" "get_ie_def item = Some d"
    and item: "item_is_array item" and "0 \<le> m" "i < length (grp_slots g)"
    and "vs \<noteq> []" "list_all (rt_val lib) vs" "list_all (ok_val lib d) vs"
    "encode_vector_ie lib item d vs = Done bs" "length bs < 2 ^ 16"
    "us = (case grp_slots g ! i of Array vs \<Rightarrow> vs | _ \<Rightarrow> [])"
  shows "decode_group_loop lib def (bs @ rest) (int (length bs) + m) g err =
    decode_group_loop lib def rest m (set_slot g i (Array (us @ vs))) err"
  using assms(5-)
proof (induction vs arbitrary: g bs us)
  case (Cons v vs)
  from Cons.prems obtain bs1 bs2 where bs: "encode_ie lib item d v = Done bs1"
    "encode_vector_ie lib item d vs = Done bs2" "bs = bs1 @ bs2"
    by (auto simp: append_dec_Done)
  obtain body where body: "bs1 = put_ie_hdr item (length body) @ body" "length body + 2 < 2 ^ 16"
    "\<And>rest err. decode_ie lib d (body @ rest) (length body) err = (Done v, err)"
    using Cons.prems bs by (auto intro: rt_valD [OF _ _ spec(2) bs(1)])
  have "decode_group_loop lib def (bs @ rest) (int (length bs) + m) g err =
      decode_group_loop lib def (bs2 @ rest) (int (length bs2) + m) (set_slot g i (Array (us @ [v]))) err"
    using loop_array [OF assms(1) body(2) _ spec item body(3), where m = "int (length bs2) + m" and rest = "bs2 @ rest"]
      Cons.prems by (simp add: bs(3) body(1) algebra_simps)
  also have "\<dots> = decode_group_loop lib def rest m (set_slot g i (Array (us @ v # vs))) err"
  proof (cases "vs = []")
    case True
    with bs show ?thesis by simp
  next
    case False
    with Cons.prems bs show ?thesis
      by (subst Cons.IH [of "set_slot g i (Array (us @ [v]))" bs2 "us @ [v]"])
         (auto simp: set_slot_twice)
  qed
  finally show ?case .
qed simp


lemma take_bit_Suc_set: "bit (fs :: u32) i \<Longrightarrow> SET_BIT (take_bit i fs) i = take_bit (Suc i) fs"
  by (rule bit_word_eqI) (auto simp: bit_SET_BIT bit_take_bit_iff less_Suc_eq dest: bit_imp_le_length)

lemma take_bit_Suc_unset: "\<not> bit (fs :: u32) i \<Longrightarrow> take_bit (Suc i) fs = take_bit i fs"
  by (rule bit_word_eqI) (auto simp: bit_take_bit_iff less_Suc_eq)

lemma loop_slot:
  assumes "wf_item item" "get_ie_spec def (item_type item) = Some (i, item)" "get_ie_def item = Some d"
    "0 \<le> m" "i < length (grp_slots g)" "\<not> bit (grp_fields g) i" "grp_slots g ! i = Unset"
    "rt_slot lib s" "ok_slot lib item d s" "encode_slot lib item d s = Done bs" "length bs < 2 ^ 16"
  shows "decode_group_loop lib def (bs @ rest) (int (length bs) + m) g err =
    decode_group_loop lib def rest m (set_slot g i s) err"
proof (cases s)
  case Unset
  with assms show ?thesis by simp
next
  case (Single v)
  with assms obtain body where body: "bs = put_ie_hdr item (length body) @ body" "length body + 2 < 2 ^ 16"
    "\<And>rest err. decode_ie lib d (body @ rest) (length body) err = (Done v, err)"
    by (auto intro: rt_valD [where lib = lib and v = v and d = d and item = item])
  with assms Single show ?thesis
    using loop_single [OF assms(1) body(2) assms(4,2,3) _ assms(6) body(3), of rest] by simp
next
  case (Array vs)
  with assms show ?thesis
    using loop_vector [OF assms(1,2,3) _ assms(4,5), where vs = vs and us = "[]"] by simp
qed

lemma loop_items:
  assumes "wf_def def" "0 \<le> m"
    and "group def = pre @ items" "length pre = i" "length pre_ss = i"
    and "ok_items lib fs i items ss" "list_all (rt_slot lib) ss"
    and "encode_items lib fs i items ss = Done bs" "length bs < 2 ^ 16"
  shows "decode_group_loop lib def (bs @ rest) (int (length bs) + m)
      (Group (take_bit i fs) [] (pre_ss @ replicate (length items) Unset)) err =
    decode_group_loop lib def rest m (Group (take_bit (i + length items) fs) [] (pre_ss @ ss)) err"
  using assms(3-)
proof (induction items arbitrary: i pre pre_ss ss bs)
  case Nil
  then show ?case by (cases ss) simp_all
next
  case (Cons item items)
  from Cons.prems(4) obtain s ss' where ss: "ss = s # ss'" by (cases ss) auto
  have wf: "wf_item item" using assms(1) Cons.prems(1) by (auto simp: wf_def_def)
  note IH = Cons.IH [where i = "Suc i" and pre = "pre @ [item]" and ss = ss' and pre_ss = "pre_ss @ [s]"]
  show ?case
  proof (cases "bit fs i")
    case False
    with Cons.prems ss have "s = Unset" "ok_items lib fs (Suc i) items ss'"
      "encode_items lib fs (Suc i) items ss' = Done bs" by auto
    with IH [of bs] Cons.prems False ss show ?thesis by (simp add: take_bit_Suc_unset)
  next
    case True
    with Cons.prems ss obtain d where d: "item_type item \<noteq> 0" "get_ie_def item = Some d"
      "ok_slot lib item d s" "ok_items lib fs (Suc i) items ss'"
      by (auto split: option.splits)
    with Cons.prems ss True obtain bs1 bs2 where bs: "encode_slot lib item d s = Done bs1"
      "encode_items lib fs (Suc i) items ss' = Done bs2" "bs = bs1 @ bs2"
      by (auto simp: append_dec_Done)
    have spec: "get_ie_spec def (item_type item) = Some (i, item)"
      using get_ie_spec_item [OF assms(1) Cons.prems(1) d(1)] Cons.prems(2) by simp
    let ?g = "Group (take_bit i fs) [] (pre_ss @ replicate (length (item # items)) Unset)"
    have "decode_group_loop lib def (bs @ rest) (int (length bs) + m) ?g err =
        decode_group_loop lib def (bs2 @ rest) (int (length bs2) + m) (set_slot ?g i s) err"
      using loop_slot [OF wf spec d(2), where m = "int (length bs2) + m" and g = ?g and s = s and bs = bs1 and rest = "bs2 @ rest"]
        Cons.prems ss bs d assms(2) by (simp add: bit_take_bit_iff nth_append algebra_simps)
    also have "set_slot ?g i s = Group (take_bit (Suc i) fs) [] ((pre_ss @ [s]) @ replicate (length items) Unset)"
      using Cons.prems(3) True by (simp add: take_bit_Suc_set list_update_append)
    also have "decode_group_loop lib def (bs2 @ rest) (int (length bs2) + m) \<dots> err =
        decode_group_loop lib def rest m (Group (take_bit (i + length (item # items)) fs) [] (pre_ss @ ss)) err"
      using IH [of bs2] Cons.prems ss bs d by simp
    finally show ?thesis .
  qed
qed

lemma ok_items_length: "ok_items lib fs i items ss \<Longrightarrow> length ss = length items"
  by (induction items arbitrary: i ss) (case_tac ss; force)+

lemma rt_group_slots:
  assumes "list_all (rt_slot lib) ss" shows "rt_group lib (Group fs is ss)"
  unfolding rt_group_def
proof (intro allI impI)
  fix def bs rest err
  assume *: "wf_def def" "ok_group lib def (Group fs is ss)" "encode_group lib def (Group fs is ss) = Done bs"
    "length bs < 2 ^ 16"
  then have l: "length ss = length (group def)" by (auto dest: ok_items_length)
  have "decode_group_loop lib def (bs @ rest) (int (length bs)) (empty_group def) err =
      decode_group_loop lib def rest 0 (Group (take_bit (length (group def)) fs) [] ss) err"
    using loop_items [OF *(1), where m = 0 and pre = "[]" and i = 0 and pre_ss = "[]" and bs = bs and fs = fs] * assms
    by (simp add: empty_group_def)
  also have "\<dots> = LExit 0 (Group fs is ss) err"
    using * l by (simp add: decode_group_loop.simps within_def)
  finally show "decode_group lib def (bs @ rest) (int (length bs)) (empty_group def) err = GRet 0 (Group fs is ss) err"
    using *(2) by (simp add: decode_group.simps check_mandatory_def)
qed

lemma rt_all: "rt_val lib v" "rt_group lib g" "rt_slot lib s"
  by (induction v and g and s)
     (auto simp: rt_leaf rt_grp list_all_iff intro: rt_group_slots)

theorem decode_encode_group:
  assumes "wf_def def" "ok_group lib def g" "encode_group lib def g = Done bs" "length bs < 2 ^ 16"
  shows "decode_group lib def (bs @ rest) (int (length bs)) (empty_group def) err = GRet 0 g err"
  using rt_all(2) assms by (simp add: rt_group_def)

lemma ok_encode_vector:
  assumes "\<And>v. v \<in> set vs \<Longrightarrow> \<exists>bs. encode_ie lib item d v = Done bs"
  shows "\<exists>bs. encode_vector_ie lib item d vs = Done bs"
  using assms by (induction vs) (fastforce simp: append_dec_Done)+

lemma ok_encode_items:
  assumes "\<And>s item d. s \<in> set ss \<Longrightarrow> ok_slot lib item d s \<Longrightarrow> \<exists>bs. encode_slot lib item d s = Done bs"
    and "ok_items lib fs i items ss"
  shows "\<exists>bs. encode_items lib fs i items ss = Done bs"
  using assms
proof (induction items arbitrary: i ss)
  case (Cons item items)
  from Cons.prems(2) obtain s ss' where ss: "ss = s # ss'" by (cases ss) auto
  then have "\<exists>bs. encode_items lib fs (Suc i) items ss' = Done bs"
    using Cons.prems by (intro Cons.IH) auto
  moreover have "\<exists>bs. encode_slot lib item d s = Done bs" if "ok_slot lib item d s" for d
    using Cons.prems(1) [of s item d] that ss by simp
  ultimately show ?case
    using Cons.prems(2) ss by (auto simp: append_dec_Done split: option.splits if_splits)
qed simp

lemma ok_encode:
  "ok_val lib d v \<Longrightarrow> \<exists>bs. encode_ie lib item d v = Done bs"
  "ok_group lib def g \<Longrightarrow> \<exists>bs. encode_group lib def g = Done bs"
  "ok_slot lib item d s \<Longrightarrow> \<exists>bs. encode_slot lib item d s = Done bs"
proof (induction v and g and s arbitrary: item d and def and item d)
  case (Leaf v)
  then show ?case by (cases d) (auto simp: map_dec_id dest: ok_leaf_encode)
next
  case (Grp g)
  then show ?case by (cases d) (auto simp: map_dec_id)
next
  case (Group fs "is" ss)
  then show ?case using ok_encode_items [of ss lib fs 0 "group def"] by auto
next
  case (Array vs)
  then show ?case using ok_encode_vector [of vs lib item d] by (auto simp: list_all_iff)
qed auto

definition ok_msg :: "vlib \<Rightarrow> pfcp_decoded_msg \<Rightarrow> bool" where
  "ok_msg lib d \<longleftrightarrow> take_bit 24 (dmsg_seq_no d) = dmsg_seq_no d
     \<and> (\<not> pfcp_is_session_msg (dmsg_type d) \<longrightarrow> dmsg_seid d = 0)
     \<and> (case msg_specs (dmsg_type d) of None \<Rightarrow> False | Some def \<Rightarrow> ok_group lib def (dmsg_grp d))"

lemma msg_specs_le: "msg_specs t = Some def \<Longrightarrow> t \<le> 57"
  by (simp add: msg_specs_def table_simps msg_specs_node_def msg_specs_session_def split: if_splits)

lemma put_reads [simp]:
  "take 3 (put_u24 w @ rest) = put_u24 w" "word_of_be (put_u24 w) = take_bit 24 w"
  "take 8 (put_u64 v @ rest) = put_u64 v" "word_of_be (put_u64 v) = v"
  by (simp_all add: put_u24_def put_u64_def)

text \<open>What the accessors of the header read in an encoded message.\<close>

lemma node_header:
  fixes t :: u8 and n :: u16 and q :: u32 and body :: bytes
  defines "bs \<equiv> put_u8 (push_bit 5 1) @ put_u8 t @ put_u16 n @ put_u24 q @ put_u8 0 @ body"
  shows "drop 8 bs = body" "length bs = 8 + length body" "pfcp_msg_version bs = 1"
    "pfcp_msg_type bs = unat t" "\<not> pfcp_msg_s_flag bs" "pfcp_msg_length bs = unat n"
    "pfcp_node_msg_seq bs = take_bit 24 q"
  by (simp_all add: bs_def pfcp_msg_version_def pfcp_msg_type_def pfcp_msg_s_flag_def
      pfcp_msg_length_def pfcp_node_msg_seq_def put_u8_def)

lemma session_header:
  fixes t :: u8 and n :: u16 and s :: u64 and q :: u32 and body :: bytes
  defines "bs \<equiv> put_u8 (push_bit 5 1 OR 1) @ put_u8 t @ put_u16 n @ put_u64 s @ put_u24 q @ put_u8 0 @ body"
  shows "drop 16 bs = body" "length bs = 16 + length body" "pfcp_msg_version bs = 1"
    "pfcp_msg_type bs = unat t" "pfcp_msg_s_flag bs" "pfcp_msg_length bs = unat n"
    "pfcp_session_msg_seid bs = s" "pfcp_session_msg_seq bs = take_bit 24 q"
  by (simp_all add: bs_def pfcp_msg_version_def pfcp_msg_type_def pfcp_msg_s_flag_def
      pfcp_msg_length_def pfcp_session_msg_seid_def pfcp_session_msg_seq_def put_u8_def)

lemma pfcp_encode_msg_cases:
  assumes "pfcp_encode_msg lib d = Done bs" "length bs < 2 ^ 16 + 4"
  obtains def body n where "msg_specs (dmsg_type d) = Some def"
    "encode_group lib def (dmsg_grp d) = Done body" "length body < 2 ^ 16"
    "unat n + 4 = length bs" "unat (of_nat (dmsg_type d) :: u8) = dmsg_type d"
    "bs = (if pfcp_is_session_msg (dmsg_type d)
       then put_u8 (push_bit 5 1 OR 1) @ put_u8 (of_nat (dmsg_type d)) @ put_u16 n
         @ put_u64 (dmsg_seid d) @ put_u24 (dmsg_seq_no d) @ put_u8 0 @ body
       else put_u8 (push_bit 5 1) @ put_u8 (of_nat (dmsg_type d)) @ put_u16 n
         @ put_u24 (dmsg_seq_no d) @ put_u8 0 @ body)"
proof -
  let ?l = "if pfcp_is_session_msg (dmsg_type d) then 12 else 4"
  from assms(1) obtain def body where def: "msg_specs (dmsg_type d) = Some def"
    and body: "encode_group lib def (dmsg_grp d) = Done body"
    and bs: "bs = (if pfcp_is_session_msg (dmsg_type d)
       then put_u8 (push_bit 5 1 OR 1) @ put_u8 (of_nat (dmsg_type d)) @ put_u16 (of_nat (?l + length body))
         @ put_u64 (dmsg_seid d) @ put_u24 (dmsg_seq_no d) @ put_u8 0 @ body
       else put_u8 (push_bit 5 1) @ put_u8 (of_nat (dmsg_type d)) @ put_u16 (of_nat (?l + length body))
         @ put_u24 (dmsg_seq_no d) @ put_u8 0 @ body)"
    by (auto simp: pfcp_encode_msg_def Let_def map_dec_id split: option.splits if_splits)
  have l: "length bs = 4 + (?l + length body)" by (simp add: bs)
  have "unat (of_nat (?l + length body) :: u16) = ?l + length body"
    by (simp only: unat_of_nat) (use l assms(2) in \<open>simp split: if_splits\<close>)
  with l bs assms(2) msg_specs_le [OF def] show thesis
    by (intro that [OF def body]) (simp_all add: unat_of_nat split: if_splits)
qed

theorem pfcp_msg_roundtrip:
  assumes "ok_msg lib d" "pfcp_encode_msg lib d = Done bs" "length bs < 2 ^ 16 + 4"
  shows "pfcp_decode_msg lib bs err = Some (0, d, err)"
  using assms(2,3)
proof (rule pfcp_encode_msg_cases)
  fix def body and n :: u16
  assume def: "msg_specs (dmsg_type d) = Some def" and body: "encode_group lib def (dmsg_grp d) = Done body"
    and n: "length body < 2 ^ 16" "unat n + 4 = length bs" "unat (of_nat (dmsg_type d) :: u8) = dmsg_type d"
    and bs: "bs = (if pfcp_is_session_msg (dmsg_type d)
       then put_u8 (push_bit 5 1 OR 1) @ put_u8 (of_nat (dmsg_type d)) @ put_u16 n
         @ put_u64 (dmsg_seid d) @ put_u24 (dmsg_seq_no d) @ put_u8 0 @ body
       else put_u8 (push_bit 5 1) @ put_u8 (of_nat (dmsg_type d)) @ put_u16 n
         @ put_u24 (dmsg_seq_no d) @ put_u8 0 @ body)"
  have dec: "decode_group lib def body (int (length body)) (empty_group def) err = GRet 0 (dmsg_grp d) err"
    using decode_encode_group [OF wf_specs(4) [OF def] _ body n(1), of "[]"] assms(1) def by (simp add: ok_msg_def)
  show ?thesis
  proof (cases "pfcp_is_session_msg (dmsg_type d)")
    case True
    note h = session_header [of "of_nat (dmsg_type d)" n "dmsg_seid d" "dmsg_seq_no d" body]
    from True bs have b: "bs = put_u8 (push_bit 5 1 OR 1) @ put_u8 (of_nat (dmsg_type d)) @ put_u16 n
         @ put_u64 (dmsg_seid d) @ put_u24 (dmsg_seq_no d) @ put_u8 0 @ body" by simp
    note h = h [folded b]
    have "int (unat n) - 16 + 4 = int (length body)" "16 \<le> length bs" "bs \<noteq> []" using n(2) h(2) by auto
    with True h n dec def assms(1) show ?thesis
      by (simp add: pfcp_decode_msg_def Let_def ok_msg_def)
  next
    case False
    note h = node_header [of "of_nat (dmsg_type d)" n "dmsg_seq_no d" body]
    from False bs have b: "bs = put_u8 (push_bit 5 1) @ put_u8 (of_nat (dmsg_type d)) @ put_u16 n
         @ put_u24 (dmsg_seq_no d) @ put_u8 0 @ body" by simp
    note h = h [folded b]
    have "int (unat n) - 8 + 4 = int (length body)" "8 \<le> length bs" "bs \<noteq> []" using n(2) h(2) by auto
    with False h n dec def assms(1) show ?thesis
      by (simp add: pfcp_decode_msg_def Let_def ok_msg_def)
  qed
qed

section \<open>The group codec as an instance of the codec interface\<close>

text \<open>A group is an element like any other: the engine implements the interface of the simple codecs,
  for every table.\<close>

definition decode_group_ie :: "vlib \<Rightarrow> pfcp_ie_def \<Rightarrow> bytes \<Rightarrow> nat \<Rightarrow> pfcp_group dec" where
  "decode_group_ie lib def data n =
     (case decode_group lib def data (int n) (empty_group def) [] of
        GFault \<Rightarrow> Fault
      | GRet r g err \<Rightarrow> if r = 0 then Done g else Reject r)"

definition encode_group_ie :: "vlib \<Rightarrow> pfcp_ie_def \<Rightarrow> pfcp_group \<Rightarrow> bytes" where
  "encode_group_ie lib def g = (case encode_group lib def g of Done bs \<Rightarrow> bs | _ \<Rightarrow> [])"

interpretation group_ie: ie_codec "decode_group_ie lib def" "encode_group_ie lib def"
  "\<lambda>g. wf_def def \<and> ok_group lib def g" for lib def
proof unfold_locales
  fix v rest
  assume *: "wf_def def \<and> ok_group lib def v" "length (encode_group_ie lib def v) < 2 ^ 16"
  then obtain bs where "encode_group lib def v = Done bs" using ok_encode(2) by blast
  with * show "decode_group_ie lib def (encode_group_ie lib def v @ rest)
      (length (encode_group_ie lib def v)) = Done v"
    using decode_encode_group [of def lib v bs rest "[]"]
    by (simp add: decode_group_ie_def encode_group_ie_def)
qed

end
