(* ===== verification/Pfcp_Decode.thy ===== *)
theory Pfcp_Decode
  imports Pfcp_Codec
begin

text \<open>
  What the decoder of \<^verbatim>\<open>src/upf/pfcp.c\<close> does with arbitrary input: the invariant of a decoded group, the
  fate of every element of a message, the list of offending elements, and when the decoder stays
  inside the message.
\<close>

lemma map_dec_Reject: "map_dec f r = Reject e \<longleftrightarrow> r = Reject e"
  by (cases r) auto

section \<open>What the decoder keeps\<close>

fun loop_group :: "loop_res \<Rightarrow> pfcp_group option" where
  "loop_group LFault = None"
| "loop_group (LReturn r g err) = Some g"
| "loop_group (LExit r g err) = Some g"

lemma ie_hdrD: "ie_hdr p = Some x \<Longrightarrow> 4 \<le> length p"
  by (auto simp: ie_hdr_def split: if_splits)

lemma ie_vendor_hdrD: "ie_vendor_hdr type n p = Some (hdr, vendor, t, m) \<Longrightarrow> 4 \<le> hdr"
  by (auto simp: ie_vendor_hdr_def split: if_splits)

text \<open>A property of the group holds at the end of the loop if it holds at its begin, is kept when an
  element is put aside and is kept when a value is stored.\<close>

lemma loop_invariant:
  assumes "loop_group (decode_group_loop lib def p len g err) = Some g'" "Q g"
    and add: "\<And>g p. Q g \<Longrightarrow> Q (add_ie g p)"
    and arr: "\<And>g i item t v. Q g \<Longrightarrow> get_ie_spec def t = Some (i, item) \<Longrightarrow> item_is_array item \<Longrightarrow>
      Q (set_slot g i (Array ((case grp_slots g ! i of Array vs \<Rightarrow> vs | _ \<Rightarrow> []) @ [v])))"
    and sing: "\<And>g i item t v. Q g \<Longrightarrow> get_ie_spec def t = Some (i, item) \<Longrightarrow> \<not> item_is_array item \<Longrightarrow>
      \<not> bit (grp_fields g) i \<Longrightarrow> Q (set_slot g i (Single v))"
  shows "Q g'"
  using assms(1,2)
proof (induction p arbitrary: len g err rule: measure_induct_rule [of length])
  case (less p)
  note IH = less.IH
  show ?case
    using less.prems
    by (subst (asm) decode_group_loop.simps)
       (auto simp: decode_vector_ie.simps map_dec_Done 
         split: if_splits option.splits prod.splits dec.splits
         dest!: ie_hdrD ie_vendor_hdrD intro: add arr sing elim!: IH [rotated])
qed


lemma find_itemD:
  "find_item i items t = Some (j, item) \<Longrightarrow>
     i \<le> j \<and> j - i < length items \<and> items ! (j - i) = item \<and> item_type item \<noteq> 0 \<and> item_type item = t"
proof (induction items arbitrary: i)
  case (Cons x items)
  show ?case
  proof (cases "item_type x \<noteq> 0 \<and> item_type x = t")
    case True
    with Cons.prems show ?thesis by simp
  next
    case False
    with Cons.prems have "find_item (Suc i) items t = Some (j, item)" by auto
    from Cons.IH [OF this] show ?thesis by (auto simp: nth_Cons' Suc_le_eq)
  qed
qed simp

lemma get_ie_specD:
  "get_ie_spec def t = Some (i, item) \<Longrightarrow>
     i < length (group def) \<and> group def ! i = item \<and> item_type item \<noteq> 0 \<and> item_type item = t"
  using find_itemD [of 0 "group def" t i item] by (simp add: get_ie_spec_def)

text \<open>Exactly the fields that are marked as present have a value, of the shape the table asks for, and
  no field is marked that the table does not have.\<close>

definition slot_wf :: "pfcp_group_ie_def \<Rightarrow> pfcp_slot \<Rightarrow> bool" where
  "slot_wf item s \<longleftrightarrow> (case s of Unset \<Rightarrow> False | Single v \<Rightarrow> \<not> item_is_array item
     | Array vs \<Rightarrow> item_is_array item \<and> vs \<noteq> [])"

definition group_inv :: "pfcp_ie_def \<Rightarrow> pfcp_group \<Rightarrow> bool" where
  "group_inv def g \<longleftrightarrow> length (grp_slots g) = length (group def) \<and> within (length (group def)) (grp_fields g)
     \<and> list_all (\<lambda>i. if bit (grp_fields g) i
          then item_type (group def ! i) \<noteq> 0 \<and> slot_wf (group def ! i) (grp_slots g ! i)
          else grp_slots g ! i = Unset) [0..<length (group def)]"

lemma group_invI_set:
  assumes "wf_def def" "group_inv def g" "get_ie_spec def t = Some (i, item)" "slot_wf item s"
  shows "group_inv def (set_slot g i s)"
proof -
  note i = get_ie_specD [OF assms(3)]
  with assms(1) have "i < 32" by (simp add: wf_def_def)
  with assms i show ?thesis
    by (auto simp: group_inv_def within_iff bit_SET_BIT list_all_iff nth_list_update)
qed

lemma add_ie_simps [simp]:
  "grp_fields (add_ie g p) = grp_fields g" "grp_slots (add_ie g p) = grp_slots g"
  "grp_ies (add_ie g p) = grp_ies g @ [p]"
  by (cases g; simp)+

lemma group_inv_empty: "group_inv def (empty_group def)"
  by (simp add: group_inv_def empty_group_def list_all_iff)

lemma group_inv_add: "group_inv def g \<Longrightarrow> group_inv def (add_ie g p)"
  by (auto simp: group_inv_def list_all_iff)

lemma group_inv_loop:
  assumes "wf_def def" "group_inv def g" "loop_group (decode_group_loop lib def p len g err) = Some g'"
  shows "group_inv def g'"
proof (rule loop_invariant [where Q = "group_inv def", OF assms(3,2)])
  fix g p assume "group_inv def g" then show "group_inv def (add_ie g p)"
    by (rule group_inv_add)
next
  fix g i item t v assume "group_inv def g" "get_ie_spec def t = Some (i, item)" "item_is_array item"
  then show "group_inv def (set_slot g i (Array ((case grp_slots g ! i of Array vs \<Rightarrow> vs | _ \<Rightarrow> []) @ [v])))"
    using assms(1) by (auto intro!: group_invI_set simp: slot_wf_def)
next
  fix g i item t v assume "group_inv def g" "get_ie_spec def t = Some (i, item)" "\<not> item_is_array item"
  then show "group_inv def (set_slot g i (Single v))"
    using assms(1) by (auto intro!: group_invI_set simp: slot_wf_def)
qed

lemma check_mandatory_GRet: "check_mandatory def res = GRet r g err \<Longrightarrow> loop_group res = Some g"
  by (cases res) (auto simp: check_mandatory_def split: if_splits)

lemma group_inv_decode:
  assumes "wf_def def" "decode_group lib def p len (empty_group def) err = GRet r g err'"
  shows "group_inv def g"
  using group_inv_loop [OF assms(1) group_inv_empty] check_mandatory_GRet assms(2)
  by (metis decode_group.simps)

lemma loop_LReturn: "decode_group_loop lib def p len g err = LReturn r g' err' \<Longrightarrow> r = PFCP_CAUSE_INVALID_LENGTH"
proof (induction p arbitrary: len g err rule: measure_induct_rule [of length])
  case (less p)
  show ?case
    using less.prems
    by (subst (asm) decode_group_loop.simps)
       (auto split: if_splits option.splits prod.splits dec.splits
         dest!: ie_hdrD ie_vendor_hdrD less.IH [rotated])
qed

lemma decode_group_loop_ok:
  assumes "decode_group lib def p len g err = GRet 0 g' err'"
  shows "decode_group_loop lib def p len g err = LExit 0 g' err'"
  using assms
  by (auto simp: decode_group.simps check_mandatory_def split: loop_res.splits if_splits dest: loop_LReturn)

lemma decode_group_mandatory:
  assumes "decode_group lib def p len g err = GRet 0 g' err'"
  shows "grp_fields g' AND mandatory def = mandatory def"
  using assms
  by (auto simp: decode_group.simps check_mandatory_def split: loop_res.splits if_splits dest: loop_LReturn)

text \<open>The first occurrence of an element that is not an array wins.\<close>

lemma loop_first_wins:
  assumes "wf_def def" "loop_group (decode_group_loop lib def p len g err) = Some g'"
    "i < length (group def)" "\<not> item_is_array (group def ! i)" "bit (grp_fields g) i"
  shows "bit (grp_fields g') i \<and> grp_slots g' ! i = grp_slots g ! i"
proof (rule loop_invariant [where Q = "\<lambda>h. bit (grp_fields h) i \<and> grp_slots h ! i = grp_slots g ! i",
      OF assms(2)])
  fix h j item t v
  assume *: "bit (grp_fields h) i \<and> grp_slots h ! i = grp_slots g ! i" "get_ie_spec def t = Some (j, item)"
  {
    assume "item_is_array item"
    with assms(4) get_ie_specD [OF *(2)] have "j \<noteq> i" by auto
    with * show "bit (grp_fields (set_slot h j (Array ((case grp_slots h ! j of Array vs \<Rightarrow> vs | _ \<Rightarrow> []) @ [v])))) i
      \<and> grp_slots (set_slot h j (Array ((case grp_slots h ! j of Array vs \<Rightarrow> vs | _ \<Rightarrow> []) @ [v]))) ! i = grp_slots g ! i"
      by (simp add: bit_SET_BIT)
  next
    assume "\<not> bit (grp_fields h) j"
    with * have "j \<noteq> i" by auto
    with * show "bit (grp_fields (set_slot h j (Single v))) i
      \<and> grp_slots (set_slot h j (Single v)) ! i = grp_slots g ! i"
      by (simp add: bit_SET_BIT)
  }
qed (use assms(5) in simp_all)

section \<open>Offending elements\<close>

lemma decode_ie_refuses: "decode_ie lib d p n err \<noteq> (Reject 0, err')"
  using decode_leaf_refuses [of lib _ p n]
  by (auto simp: decode_ie.simps map_dec_Reject split: option.splits group_res.splits if_splits)

lemma decode_ok_err:
  "decode_group_loop lib def p len g err = LExit 0 g' err' \<Longrightarrow> err' = err"
proof (induction p arbitrary: lib def len g err g' err' rule: measure_induct_rule [of length])
  case (less p)
  have ie: "err' = err" if "decode_ie lib d (drop hdr p) n err = (Done v, err')" "4 \<le> hdr" "4 \<le> length p"
    for lib d hdr n err v err'
  proof -
    from that(2,3) have "length (drop hdr p) < length p" by simp
    with that(1) show ?thesis
      by (auto simp: decode_ie.simps decode_group.simps check_mandatory_def
          split: option.splits if_splits group_res.splits loop_res.splits
          dest!: less.IH [rotated] dest: loop_LReturn)
  qed
  show ?case
    using less.prems
    by (subst (asm) decode_group_loop.simps)
       (auto simp: decode_vector_ie.simps map_dec_Done map_dec_Reject decode_ie_refuses
         split: if_splits option.splits prod.splits dec.splits
         dest!: ie_hdrD ie_vendor_hdrD ie less.IH [rotated])
qed

section \<open>No element is lost\<close>

text \<open>The elements of a group, as pointers to their headers, read by their stated lengths alone; \<open>None\<close>
  if the lengths do not fit, or if a vendor element is too short for its vendor.\<close>

function ie_list :: "bytes \<Rightarrow> int \<Rightarrow> bytes list option" where
  "ie_list p len =
     (if len \<le> 0 then Some []
      else case ie_hdr p of
        None \<Rightarrow> None
      | Some (type, n) \<Rightarrow>
          if 4 + int n > len \<or> ISSET_BIT type 15 \<and> n < 2 then None
          else map_option ((#) p) (ie_list (drop (4 + n) p) (len - 4 - int n)))"
  by pat_completeness auto

termination
  by (relation "measure (\<lambda>(p, _). length p)") (auto simp: ie_hdr_def split: if_splits)

declare ie_list.simps [simp del]

text \<open>The field of a group an element belongs to: the one whose table entry has its number, unless its
  vendor is unknown. The vendor is otherwise not compared with the one of the entry. The value of an
  element is what its own definition decodes it to.\<close>

definition element_field :: "pfcp_ie_def \<Rightarrow> bytes \<Rightarrow> nat option" where
  "element_field def p = (case ie_hdr p of None \<Rightarrow> None | Some (type, n) \<Rightarrow>
     (case ie_vendor_hdr type n p of None \<Rightarrow> None | Some (hdr, vendor, t, m) \<Rightarrow>
       (case (wire_ie_def vendor t, get_ie_spec def t) of
          (Some d, Some (i, item)) \<Rightarrow> Some i | _ \<Rightarrow> None)))"

definition element_value :: "vlib \<Rightarrow> nat list \<Rightarrow> bytes \<Rightarrow> pfcp_val option" where
  "element_value lib err p = (case ie_hdr p of None \<Rightarrow> None | Some (type, n) \<Rightarrow>
     (case ie_vendor_hdr type n p of None \<Rightarrow> None | Some (hdr, vendor, t, m) \<Rightarrow>
       (case wire_ie_def vendor t of None \<Rightarrow> None | Some d \<Rightarrow>
         (case fst (decode_ie lib d (drop hdr p) m err) of Done v \<Rightarrow> Some v | _ \<Rightarrow> None))))"

text \<open>What a slot holds of the elements of its field: the values of all of them, in order, for an array,
  the value of the first one otherwise, and nothing if there are none.\<close>

definition slot_holds :: "vlib \<Rightarrow> nat list \<Rightarrow> pfcp_group_ie_def \<Rightarrow> bytes list \<Rightarrow> pfcp_slot \<Rightarrow> bool" where
  "slot_holds lib err item es s \<longleftrightarrow> (case s of
     Unset \<Rightarrow> es = []
   | Single v \<Rightarrow> \<not> item_is_array item \<and> es \<noteq> [] \<and> element_value lib err (hd es) = Some v
   | Array vs \<Rightarrow> item_is_array item \<and> es \<noteq> [] \<and> map (element_value lib err) es = map Some vs)"

text \<open>The elements that are put aside: those that belong to no field, and repetitions of an element
  that may occur once.\<close>

definition put_aside :: "pfcp_ie_def \<Rightarrow> bytes list \<Rightarrow> bytes \<Rightarrow> bool" where
  "put_aside def before e \<longleftrightarrow> (case element_field def e of
     None \<Rightarrow> True
   | Some i \<Rightarrow> \<not> item_is_array (group def ! i) \<and> list_ex (\<lambda>d. element_field def d = Some i) before)"

definition ies_aside :: "pfcp_ie_def \<Rightarrow> bytes list \<Rightarrow> bytes list" where
  "ies_aside def es = map ((!) es) (filter (\<lambda>k. put_aside def (take k es) (es ! k)) [0..<length es])"

definition group_holds :: "vlib \<Rightarrow> nat list \<Rightarrow> pfcp_ie_def \<Rightarrow> bytes list \<Rightarrow> pfcp_group \<Rightarrow> bool" where
  "group_holds lib err def es g \<longleftrightarrow>
     (\<forall>i<length (group def). slot_holds lib err (group def ! i)
        (filter (\<lambda>e. element_field def e = Some i) es) (grp_slots g ! i))
     \<and> grp_ies g = ies_aside def es"

lemma ies_aside_snoc: "ies_aside def (es @ [e]) = ies_aside def es @ (if put_aside def es e then [e] else [])"
proof -
  have "filter (\<lambda>k. put_aside def (take k (es @ [e])) ((es @ [e]) ! k)) [0..<length es] =
      filter (\<lambda>k. put_aside def (take k es) (es ! k)) [0..<length es]"
    by (rule filter_cong) (auto simp: nth_append)
  moreover have "map ((!) (es @ [e])) (filter P [0..<length es]) = map ((!) es) (filter P [0..<length es])" for P
    by (auto simp: nth_append)
  ultimately show ?thesis by (simp add: ies_aside_def)
qed

lemma group_holds_empty: "group_holds lib err def [] (empty_group def)"
  by (simp add: group_holds_def slot_holds_def ies_aside_def empty_group_def)

lemma element_fieldD: "element_field def e = Some i \<Longrightarrow> i < length (group def) \<and> item_type (group def ! i) \<noteq> 0"
  by (auto simp: element_field_def split: option.splits prod.splits dest: get_ie_specD)

lemma ie_list_step:
  assumes "ie_list p len = Some es" "0 < len" "ie_hdr p = Some (type, n)"
    "ie_vendor_hdr type n p = Some (hdr, vendor, t, m)"
  obtains es' where "es = p # es'" "ie_list (drop (hdr + m) p) (len - int (hdr + m)) = Some es'"
proof -
  from assms(1-3) obtain es' where es: "es = p # es'" "ie_list (drop (4 + n) p) (len - 4 - int n) = Some es'"
    and n: "\<not> (ISSET_BIT type 15 \<and> n < 2)"
    by (auto simp: ie_list.simps [of p] split: if_splits)
  from assms(4) n have "hdr + m = 4 + n" by (auto simp: ie_vendor_hdr_def split: if_splits)
  with es show thesis by (intro that) (simp_all add: algebra_simps)
qed

text \<open>One turn of the loop that does not fail.\<close>

definition loop_store :: "vlib \<Rightarrow> nat list \<Rightarrow> pfcp_ie_def \<Rightarrow> pfcp_group \<Rightarrow> bytes \<Rightarrow> pfcp_group \<Rightarrow> bool" where
  "loop_store lib err def g p h \<longleftrightarrow> (case element_field def p of
     None \<Rightarrow> h = add_ie g p
   | Some i \<Rightarrow>
       if item_is_array (group def ! i)
       then \<exists>v. element_value lib err p = Some v
         \<and> h = set_slot g i (Array ((case grp_slots g ! i of Array vs \<Rightarrow> vs | _ \<Rightarrow> []) @ [v]))
       else if bit (grp_fields g) i then h = add_ie g p
       else \<exists>v. element_value lib err p = Some v \<and> h = set_slot g i (Single v))"

lemma loop_LExit_step:
  assumes "decode_group_loop lib def p len g err = LExit 0 g' err'" "0 < len"
  shows "\<exists>type n hdr vendor t m h err''. ie_hdr p = Some (type, n)
    \<and> ie_vendor_hdr type n p = Some (hdr, vendor, t, m)
    \<and> decode_group_loop lib def (drop (hdr + m) p) (len - int (hdr + m)) h err'' = LExit 0 g' err'
    \<and> loop_store lib err def g p h"
proof -
  note assms(1) [unfolded decode_group_loop.simps [of lib def p]]
  with assms(2) show ?thesis
    by (simp add: decode_vector_ie.simps map_dec_Done map_dec_Reject decode_ie_refuses
        split: if_split_asm option.split_asm prod.split_asm dec.split_asm)
       (auto simp: loop_store_def element_field_def element_value_def dest: get_ie_specD)
qed

lemma loop_store_inv:
  assumes "wf_def def" "group_inv def g" "loop_store lib err def g p h"
  shows "group_inv def h"
proof (cases "element_field def p")
  case None
  with assms show ?thesis by (simp add: loop_store_def group_inv_add)
next
  case (Some i)
  then obtain item t where "get_ie_spec def t = Some (i, item)" "group def ! i = item"
    by (auto simp: element_field_def split: option.splits prod.splits dest: get_ie_specD)
  with Some assms show ?thesis
    by (auto simp: loop_store_def slot_wf_def group_inv_add intro!: group_invI_set split: if_splits)
qed

lemma group_inv_Unset:
  assumes "group_inv def g" "i < length (group def)"
  shows "i < length (grp_slots g)" "bit (grp_fields g) i \<longleftrightarrow> grp_slots g ! i \<noteq> Unset"
    "\<And>v. grp_slots g ! i = Single v \<Longrightarrow> \<not> item_is_array (group def ! i)"
proof -
  from assms have l: "length (grp_slots g) = length (group def)"
    and *: "if bit (grp_fields g) i
          then item_type (group def ! i) \<noteq> 0 \<and> slot_wf (group def ! i) (grp_slots g ! i)
          else grp_slots g ! i = Unset"
    by (simp_all add: group_inv_def list_all_iff)
  from l assms(2) show "i < length (grp_slots g)" by simp
  from * show "bit (grp_fields g) i \<longleftrightarrow> grp_slots g ! i \<noteq> Unset"
    "\<And>v. grp_slots g ! i = Single v \<Longrightarrow> \<not> item_is_array (group def ! i)"
    by (auto simp: slot_wf_def split: if_splits)
qed

lemma slot_holds_Unset: "slot_holds lib err item es s \<Longrightarrow> s = Unset \<longleftrightarrow> es = []"
  by (auto simp: slot_holds_def split: pfcp_slot.splits)

lemma group_holds_step:
  assumes "group_inv def g" "group_holds lib err def es g" "loop_store lib err def g p h"
  shows "group_holds lib err def (es @ [p]) h"
proof (cases "element_field def p")
  case None
  with assms(2,3) show ?thesis
    by (auto simp: group_holds_def loop_store_def ies_aside_snoc put_aside_def)
next
  case (Some i)
  let ?es = "filter (\<lambda>e. element_field def e = Some i) es"
  have i: "i < length (group def)" using element_fieldD [OF Some] by simp
  have slot: "slot_holds lib err (group def ! i) ?es (grp_slots g ! i)"
    using assms(2) i by (simp add: group_holds_def)
  note inv = group_inv_Unset [OF assms(1) i]
  have ex: "list_ex (\<lambda>d. element_field def d = Some i) es \<longleftrightarrow> bit (grp_fields g) i"
    using slot_holds_Unset [OF slot] inv(2) by (auto simp: list_ex_iff filter_empty_conv)
  show ?thesis
  proof (cases "\<not> item_is_array (group def ! i) \<and> bit (grp_fields g) i")
    case True
    with Some assms(3) have h: "h = add_ie g p" by (simp add: loop_store_def)
    have aside: "put_aside def es p" using True Some ex by (simp add: put_aside_def)
    have "slot_holds lib err (group def ! j) (filter (\<lambda>e. element_field def e = Some j) (es @ [p])) (grp_slots h ! j)"
      if "j < length (group def)" for j
      using that True Some h assms(2) slot inv(2)
      by (cases "j = i") (auto simp: group_holds_def slot_holds_def split: pfcp_slot.splits)
    with h aside assms(2) show ?thesis by (simp add: group_holds_def ies_aside_snoc)
  next
    case False
    with Some assms(3) obtain v where v: "element_value lib err p = Some v"
      and h: "h = set_slot g i (if item_is_array (group def ! i)
        then Array ((case grp_slots g ! i of Array vs \<Rightarrow> vs | _ \<Rightarrow> []) @ [v]) else Single v)"
      by (auto simp: loop_store_def split: if_splits)
    have aside: "\<not> put_aside def es p" using False Some ex by (simp add: put_aside_def)
    have ies: "grp_ies h = grp_ies g" "grp_slots h ! j = (if j = i then (if item_is_array (group def ! i)
        then Array ((case grp_slots g ! i of Array vs \<Rightarrow> vs | _ \<Rightarrow> []) @ [v]) else Single v) else grp_slots g ! j)" for j
      using h inv(1) by (cases g; auto)+
    have "slot_holds lib err (group def ! j) (filter (\<lambda>e. element_field def e = Some j) (es @ [p])) (grp_slots h ! j)"
      if "j < length (group def)" for j
      using that False Some ies(2) [of j] v assms(2) slot inv(2,3)
      by (cases "j = i") (auto simp: group_holds_def slot_holds_def split: pfcp_slot.splits)
    with ies(1) aside assms(2) show ?thesis by (simp add: group_holds_def ies_aside_snoc)
  qed
qed

lemma loop_holds:
  assumes "wf_def def" "group_inv def g" "group_holds lib err def ds g"
    "decode_group_loop lib def p len g err = LExit 0 g' err'" "ie_list p len = Some es"
  shows "group_holds lib err def (ds @ es) g'"
  using assms(2-)
proof (induction p arbitrary: len g ds es rule: measure_induct_rule [of length])
  case (less p)
  show ?case
  proof (cases "len \<le> 0")
    case True
    with less.prems show ?thesis by (auto simp: decode_group_loop.simps ie_list.simps)
  next
    case False
    with less.prems(3) obtain type n hdr vendor t m h err'' where
      h: "ie_hdr p = Some (type, n)" "ie_vendor_hdr type n p = Some (hdr, vendor, t, m)"
      "decode_group_loop lib def (drop (hdr + m) p) (len - int (hdr + m)) h err'' = LExit 0 g' err'"
      and store: "loop_store lib err def g p h"
      using loop_LExit_step [of lib def p len g err g' err'] by auto
    have "err'' = err" using decode_ok_err [OF h(3)] decode_ok_err [OF less.prems(3)] by simp
    with h(3) have h3: "decode_group_loop lib def (drop (hdr + m) p) (len - int (hdr + m)) h err = LExit 0 g' err'"
      by simp
    obtain es' where es: "es = p # es'" "ie_list (drop (hdr + m) p) (len - int (hdr + m)) = Some es'"
      using ie_list_step [OF less.prems(4) _ h(1,2)] False by auto
    have "length (drop (hdr + m) p) < length p" using ie_hdrD [OF h(1)] ie_vendor_hdrD [OF h(2)] by simp
    from less.IH [OF this loop_store_inv [OF assms(1) less.prems(1) store]
        group_holds_step [OF less.prems(1,2) store] h3 es(2)]
    show ?thesis using es(1) by simp
  qed
qed

section \<open>Staying inside the message\<close>

text \<open>A group whose elements are all simple ones with a decoder that stays in bounds.\<close>

definition flat_item :: "pfcp_group_ie_def \<Rightarrow> bool" where
  "flat_item item \<longleftrightarrow> (case tgpp_specs (item_type item) of
     None \<Rightarrow> False
   | Some d \<Rightarrow> group d = [] \<and> (case codec d of None \<Rightarrow> False | Some k \<Rightarrow> bounded_codec k))"

definition flat_def :: "pfcp_ie_def \<Rightarrow> bool" where
  "flat_def def \<longleftrightarrow> list_all (\<lambda>item. item_type item = 0 \<or> flat_item item) (group def)"

definition is_vendor_ie :: "bytes \<Rightarrow> bool" where
  "is_vendor_ie p \<longleftrightarrow> (case ie_hdr p of None \<Rightarrow> False | Some (type, n) \<Rightarrow> ISSET_BIT type 15)"

lemma flat_decode_ie:
  assumes "flat_def def" "get_ie_spec def t = Some (i, item)" "n \<le> length p"
  shows "decode_ie lib (tgpp_specs t) p n err \<noteq> (Fault, err')"
proof -
  note i = get_ie_specD [OF assms(2)]
  then have "item \<in> set (group def)" by auto
  with assms(1) i have "flat_item item" by (auto simp: flat_def_def list_all_iff)
  with i obtain d k where "tgpp_specs t = Some d" "group d = []" "codec d = Some k" "bounded_codec k"
    by (auto simp: flat_item_def split: option.splits)
  with assms(3) decode_leaf_bounded [of k n p lib] show ?thesis by (auto simp: decode_ie.simps)
qed

lemma flat_loop_no_fault:
  assumes "flat_def def" "ie_list p len = Some es" "\<not> list_ex is_vendor_ie es" "len \<le> int (length p)"
  shows "decode_group_loop lib def p len g err \<noteq> LFault"
  using assms(2-)
proof (induction p arbitrary: len g err es rule: measure_induct_rule [of length])
  case (less p)
  show ?case
  proof (cases "len \<le> 0")
    case True
    then show ?thesis by (simp add: decode_group_loop.simps)
  next
    case False
    with less.prems(1) obtain type n es' where h: "ie_hdr p = Some (type, n)" "4 + int n \<le> len"
      and es: "es = p # es'" "ie_list (drop (4 + n) p) (len - int (4 + n)) = Some es'"
      by (auto simp: ie_list.simps [of p] algebra_simps split: if_splits option.splits)
    from less.prems(2) es(1) h(1) have v: "ie_vendor_hdr type n p = Some (4, None, unat type, n)"
      by (simp add: is_vendor_ie_def ie_vendor_hdr_def)
    have IH: "decode_group_loop lib def (drop (4 + n) p) (len - int (4 + n)) h err \<noteq> LFault" for h err
      using less.IH [OF _ es(2)] less.prems(2,3) es(1) ie_hdrD [OF h(1)] h(2) by auto
    have n: "n \<le> length (drop 4 p)" using h(2) less.prems(3) by simp
    show ?thesis
      using False h v IH flat_decode_ie [OF assms(1) _ n]
      by (subst decode_group_loop.simps)
         (auto simp: wire_ie_def_def decode_vector_ie.simps 
           split: option.splits prod.splits dec.splits dest: flat_decode_ie [OF assms(1) _ n])
  qed
qed

lemma flat_group_no_fault:
  assumes "flat_def def" "ie_list p len = Some es" "\<not> list_ex is_vendor_ie es" "len \<le> int (length p)"
  shows "decode_group lib def p len g err \<noteq> GFault"
  using flat_loop_no_fault [OF assms]
  by (auto simp: decode_group.simps check_mandatory_def split: loop_res.splits)


text \<open>A group without fields keeps all its elements aside.\<close>

lemma loop_no_items:
  assumes "group def = []" "ie_list p len = Some es" "len \<le> int (length p)"
  shows "decode_group_loop lib def p len (Group f is ss) err = LExit 0 (Group f (is @ es) ss) err"
  using assms(2-)
proof (induction p arbitrary: len "is" es rule: measure_induct_rule [of length])
  case (less p)
  show ?case
  proof (cases "len \<le> 0")
    case True
    with less.prems show ?thesis by (auto simp: decode_group_loop.simps ie_list.simps)
  next
    case False
    with less.prems(1) obtain type n es' where h: "ie_hdr p = Some (type, n)" "4 + int n \<le> len"
      "\<not> (ISSET_BIT type 15 \<and> n < 2)"
      and es: "es = p # es'" "ie_list (drop (4 + n) p) (len - int (4 + n)) = Some es'"
      by (auto simp: ie_list.simps [of p] algebra_simps split: if_splits option.splits)
    from h(3) less.prems(2) h(2) obtain hdr vendor t m where
      v: "ie_vendor_hdr type n p = Some (hdr, vendor, t, m)" "hdr + m = 4 + n"
      by (cases "ISSET_BIT type 15") (auto simp: ie_vendor_hdr_def sub16_def)
    have "decode_group_loop lib def (drop (4 + n) p) (len - int (4 + n)) (Group f (is @ [p]) ss) err =
        LExit 0 (Group f ((is @ [p]) @ es') ss) err"
      using less.IH [OF _ es(2)] less.prems(2) ie_hdrD [OF h(1)] by auto
    moreover have "get_ie_spec def t = None" using assms(1) by (simp add: get_ie_spec_def)
    ultimately show ?thesis
      using False h v es(1) by (subst decode_group_loop.simps) (auto split: option.splits)
  qed
qed

section \<open>Messages\<close>

lemmas spec_tables = tgpp_specs_1_def tgpp_specs_2_def tgpp_specs_3_def tgpp_specs_4_def
  tgpp_specs_5_def vendor_tp_specs_init_def vendor_bbf_specs_init_def msg_specs_node_def
  msg_specs_session_def

lemmas spec_defs = tgpp_specs_def vendor_tp_specs_def vendor_bbf_specs_def msg_specs_def table_simps

lemma msg_decode_cases:
  assumes "pfcp_decode_msg lib p err = Some (r, d, err')" "r = 0"
  obtains def hdr len where "msg_specs (pfcp_msg_type p) = Some def"
    "hdr = (if pfcp_is_session_msg (pfcp_msg_type p) then 16 else 8)"
    "len = int (pfcp_msg_length p) - int hdr + 4"
    "decode_group lib def (drop hdr p) len (empty_group def) err = GRet 0 (dmsg_grp d) err'"
    "dmsg_type d = pfcp_msg_type p" "hdr \<le> length p" "pfcp_msg_length p + 4 \<le> length p"
  using assms
  by (auto simp: pfcp_decode_msg_def Let_def split: if_splits option.splits group_res.splits)

lemma group_inv_bit:
  assumes "group_inv def g" "bit (grp_fields g) i"
  shows "i < length (group def)" "item_type (group def ! i) \<noteq> 0" "slot_wf (group def ! i) (grp_slots g ! i)"
  using assms by (auto simp: group_inv_def within_iff list_all_iff split: if_splits)

lemma bit_mandatory:
  assumes "decode_group lib def p len g err = GRet 0 g' err'" "bit (mandatory def) i"
  shows "bit (grp_fields g') i"
  using decode_group_mandatory [OF assms(1)] assms(2) by (metis bit_and_iff)

lemma bit_BITS: "bit (BITS ns) i \<longleftrightarrow> i \<in> set ns \<and> i < 32"
  by (induction ns) (auto simp: BITS_def bit_or_iff)

text \<open>A mandatory position that the table leaves empty cannot be satisfied.\<close>

lemma mandatory_hole:
  assumes "wf_def def" "bit (mandatory def) i" "item_type (group def ! i) = 0"
  shows "decode_group lib def p len (empty_group def) err \<noteq> GRet 0 g err'"
proof
  assume *: "decode_group lib def p len (empty_group def) err = GRet 0 g err'"
  from group_inv_bit(2) [OF group_inv_decode [OF assms(1) *] bit_mandatory [OF * assms(2)]] assms(3)
  show False by simp
qed

lemma simple_response_hole: "item_type (pfcp_simple_response_group ! 0) = 0"
  by (simp add: pfcp_simple_response_group_def table_simps)

end
