(* ===== verification/Pfcp_Server.thy ===== *)
theory Pfcp_Server
  imports Pfcp_Decode "HOL-Library.Monad_Syntax"
begin

text \<open>
  The PFCP transaction layer: \<^verbatim>\<open>src/upf/upf_pfcp_server.c\<close> and \<^verbatim>\<open>upf_pfcp_server.h\<close>, the receive
  callback of \<^verbatim>\<open>upf_pfcp_session_server.c\<close>, the dispatcher and the handlers of node messages of
  \<^verbatim>\<open>upf_pfcp_api.c\<close> and the table of associations of \<^verbatim>\<open>upf_pfcp.c\<close>. It sends requests until they are
  answered or given up, and keeps every response for a while to answer a repeated request with it.

  A pool is a map from indices to elements together with the length of its vector, a hash table a map,
  a vector a list. The timer wheel of \<^verbatim>\<open>vppinfra\<close> is the list of the running timers with handle, user
  id and the tick they expire at; it delivers all expired timers of one run in a vector whose order is
  not modelled, since the vector is sorted before it is used. Times are counted in ticks of 10 ms, the
  resolution of the wheel. What VPP decides is in \<open>server_lib\<close>: indices and handles of new pool
  elements, whether a session handle of the UDP layer is valid, the build identifier.

  The operations are functions on the state that return \<open>None\<close> if memory is accessed that is not
  allocated: outside of a message, or an element of a pool that was given back. The assertions of the
  source are those of a release build, that is none. Datagrams are appended to \<open>sent\<close> in the order in
  which they leave. The handlers of session messages are the fields of \<open>upper\<close>.
\<close>

section \<open>Messages\<close>

abbreviation (input) "INVALID \<equiv> 0xffffffff :: nat"

abbreviation (input) "PFCP_SERVER_HB_TIMER \<equiv> 0 :: nat"
abbreviation (input) "PFCP_SERVER_T1 \<equiv> 1 :: nat"
abbreviation (input) "PFCP_SERVER_RESPONSE \<equiv> 2 :: nat"
abbreviation (input) "PFCP_HB_INTERVAL \<equiv> 10 :: nat"
abbreviation (input) "RESPONSE_TIMEOUT \<equiv> 30 :: nat"
abbreviation (input) "TW_CLOCKS_PER_SECOND \<equiv> 100 :: nat"
abbreviation (input) "UDP_DST_PORT_PFCP \<equiv> 8805 :: u16"

record pfcp_msg =
  m_rmt_address :: ip46_address
  m_rmt_port :: u16
  m_seq_no :: u32
  m_session_handle :: u64
  m_lcl_address :: ip46_address
  m_lcl_port :: u16
  m_node :: nat
  m_session_index :: nat
  m_expires_at :: nat
  m_timer :: nat
  m_n1 :: u32
  m_t1 :: nat
  m_is_valid_pool_item :: bool
  m_data :: bytes

text \<open>\<^verbatim>\<open>request_key\<close> overlays the first four members.\<close>

type_synonym request_key = "ip46_address \<times> u16 \<times> u32 \<times> u64"

definition m_request_key :: "pfcp_msg \<Rightarrow> request_key" where
  "m_request_key m = (m_rmt_address m, m_rmt_port m, m_seq_no m, m_session_handle m)"

definition zero_msg :: pfcp_msg where
  "zero_msg = \<lparr>m_rmt_address = 0, m_rmt_port = 0, m_seq_no = 0, m_session_handle = 0,
     m_lcl_address = 0, m_lcl_port = 0, m_node = 0, m_session_index = 0, m_expires_at = 0,
     m_timer = 0, m_n1 = 0, m_t1 = 0, m_is_valid_pool_item = False, m_data = []\<rparr>"

definition init_pfcp_msg :: "pfcp_msg \<Rightarrow> pfcp_msg" where
  "init_pfcp_msg m = zero_msg\<lparr>m_is_valid_pool_item := m_is_valid_pool_item m, m_node := INVALID\<rparr>"

record dgram =
  dg_session_handle :: u64
  dg_lcl_ip :: ip46_address
  dg_lcl_port :: u16
  dg_rmt_ip :: ip46_address
  dg_rmt_port :: u16
  dg_data :: bytes

section \<open>The state\<close>

record upf_node_assoc =
  na_node_id :: pfcp_node_id
  na_recovery_time_stamp :: u32
  na_session_handle :: u64
  na_rmt_addr :: ip46_address
  na_lcl_addr :: ip46_address
  na_sessions :: nat
  na_heartbeat_handle :: nat

text \<open>The part of a session that the transaction layer reads.\<close>

record upf_session =
  sx_assoc_node :: nat
  sx_cp_seid :: u64
  sx_up_address :: ip46_address
  sx_cp_address :: ip46_address

record upf_upip_res =
  res_ip4 :: ip4_address
  res_ip6 :: ip6_address
  res_nwi_index :: nat
  res_intf :: u8
  res_teid :: u32
  res_mask :: u32

record upf_ue_ip_pool_info =
  uep_identity :: bytes
  uep_nwi_name :: bytes

record upf_nat_pool =
  np_name :: bytes
  np_network_instance :: bytes

text \<open>\<^verbatim>\<open>pfcp_server_main_t\<close>, the members of \<^verbatim>\<open>upf_main_t\<close> that this layer uses, and behind them what
  belongs to the session layer (\<open>'u\<close>).\<close>

record 'u pfcp_server =
  psm_seq_no :: u32
  psm_start_time :: u32
  psm_now :: nat
  psm_timer :: "(nat \<times> nat \<times> nat) list"
  psm_msg_pool :: "nat \<rightharpoonup> pfcp_msg"
  psm_msg_pool_len :: nat
  psm_msg_pool_cache :: "nat list"
  psm_msg_pool_free :: "nat list"
  psm_request_q :: "u32 \<rightharpoonup> nat"
  psm_response_q :: "request_key \<rightharpoonup> nat"
  psm_free_msgs_by_node :: "nat list"
  psm_expired :: "nat list"
  sent :: "dgram list"
  gtm_nodes :: "nat \<rightharpoonup> upf_node_assoc"
  gtm_node_index_by_ip :: "ip46_address \<rightharpoonup> nat"
  gtm_node_index_by_fqdn :: "bytes \<rightharpoonup> nat"
  gtm_node_id :: pfcp_node_id
  gtm_pfcp_spec_version :: nat
  gtm_ueip_pools :: "upf_ue_ip_pool_info list"
  gtm_nat_pools :: "upf_nat_pool list"
  gtm_upip_res :: "upf_upip_res list"
  gtm_nwi_name :: "nat \<rightharpoonup> bytes"
  gtm_sessions :: "nat \<rightharpoonup> upf_session"
  gtm_user :: 'u

record server_lib =
  svr_vlib :: vlib
  svr_pool_index :: "nat set \<Rightarrow> nat"
  svr_session_valid :: "u64 \<Rightarrow> bool"
  vpe_version_string :: bytes

text \<open>The session layer: the handlers of session messages, the release of the sessions of an
  association, the reports that URR timers and events of the data path cause. The release is the loop of
  \<^verbatim>\<open>pfcp_release_association\<close> over the sessions, which \<open>Upf_Server\<close> puts in for \<open>up_release_sessions\<close> with the
  model of the sessions.\<close>

record 'u upper =
  up_handle_msg :: "pfcp_msg \<Rightarrow> pfcp_decoded_msg \<Rightarrow> 'u pfcp_server \<Rightarrow> (int \<times> 'u pfcp_server) option"
  up_release_sessions :: "nat \<Rightarrow> 'u pfcp_server \<Rightarrow> 'u pfcp_server option"
  up_session_urr_timer :: "nat \<Rightarrow> 'u pfcp_server \<Rightarrow> 'u pfcp_server option"
  up_session_usage_report :: "nat \<Rightarrow> ip46_address \<Rightarrow> (u32 \<times> u32) list \<Rightarrow> 'u pfcp_server \<Rightarrow> 'u pfcp_server option"
  up_session_drop :: "nat \<Rightarrow> 'u pfcp_server \<Rightarrow> 'u pfcp_server option"

section \<open>The pool of messages\<close>

text \<open>\<^verbatim>\<open>vec_pop\<close> takes the last element of a vector.\<close>

definition pfcp_msg_pool_init :: "'u pfcp_server \<Rightarrow> 'u pfcp_server" where
  "pfcp_msg_pool_init s = s\<lparr>psm_msg_pool_cache := [], psm_msg_pool_free := []\<rparr>"

fun pool_refill :: "nat list \<Rightarrow> nat list \<Rightarrow> nat list \<times> nat list" where
  "pool_refill cache free =
     (if length cache < 128 \<and> free \<noteq> [] then pool_refill (cache @ [last free]) (butlast free)
      else (cache, free))"

declare pool_refill.simps [simp del]

definition pfcp_msg_pool_loop_start :: "'u pfcp_server \<Rightarrow> 'u pfcp_server" where
  "pfcp_msg_pool_loop_start s =
     (case pool_refill (psm_msg_pool_cache s) (psm_msg_pool_free s) of (cache, free) \<Rightarrow>
        s\<lparr>psm_msg_pool_cache := cache, psm_msg_pool_free := [],
          psm_msg_pool := (\<lambda>i. if i \<in> set free then None else psm_msg_pool s i)\<rparr>)"

definition put_msg :: "nat \<Rightarrow> pfcp_msg \<Rightarrow> 'u pfcp_server \<Rightarrow> 'u pfcp_server" where
  "put_msg i m s = s\<lparr>psm_msg_pool := (psm_msg_pool s)(i \<mapsto> m)\<rparr>"

definition pfcp_msg_pool_get :: "server_lib \<Rightarrow> 'u pfcp_server \<Rightarrow> (nat \<times> 'u pfcp_server) option" where
  "pfcp_msg_pool_get lib s =
     (if psm_msg_pool_cache s \<noteq> [] then
        let i = last (psm_msg_pool_cache s) in
        do {
          m \<leftarrow> psm_msg_pool s i;
          Some (i, put_msg i ((init_pfcp_msg m)\<lparr>m_is_valid_pool_item := True\<rparr>)
                     (s\<lparr>psm_msg_pool_cache := butlast (psm_msg_pool_cache s)\<rparr>))
        }
      else
        let i = svr_pool_index lib (dom (psm_msg_pool s)) in
        Some (i, put_msg i (zero_msg\<lparr>m_is_valid_pool_item := True\<rparr>)
                   (s\<lparr>psm_msg_pool_len := max (psm_msg_pool_len s) (Suc i)\<rparr>)))"

definition pfcp_msg_pool_add :: "server_lib \<Rightarrow> pfcp_msg \<Rightarrow> 'u pfcp_server \<Rightarrow> (nat \<times> 'u pfcp_server) option" where
  "pfcp_msg_pool_add lib m s = do {
     (i, s) \<leftarrow> pfcp_msg_pool_get lib s;
     Some (i, put_msg i (m\<lparr>m_is_valid_pool_item := True\<rparr>) s)
   }"

definition pfcp_msg_pool_put :: "nat \<Rightarrow> 'u pfcp_server \<Rightarrow> 'u pfcp_server option" where
  "pfcp_msg_pool_put i s = do {
     m \<leftarrow> psm_msg_pool s i;
     Some (put_msg i (m\<lparr>m_data := [], m_is_valid_pool_item := False\<rparr>)
             (s\<lparr>psm_msg_pool_free := psm_msg_pool_free s @ [i]\<rparr>))
   }"

section \<open>Timers\<close>

definition timer_id :: "nat \<Rightarrow> nat \<Rightarrow> nat" where
  "timer_id type n = push_bit 24 (0x80 OR type) OR n"

definition tw_timer_start :: "server_lib \<Rightarrow> nat \<Rightarrow> nat \<Rightarrow> 'u pfcp_server \<Rightarrow> nat \<times> 'u pfcp_server" where
  "tw_timer_start lib n interval s =
     (let h = svr_pool_index lib (fst ` set (psm_timer s)) in
      (h, s\<lparr>psm_timer := psm_timer s @ [(h, n, psm_now s + interval)]\<rparr>))"

definition tw_timer_stop :: "nat \<Rightarrow> 'u pfcp_server \<Rightarrow> 'u pfcp_server" where
  "tw_timer_stop h s = s\<lparr>psm_timer := filter (\<lambda>t. fst t \<noteq> h) (psm_timer s)\<rparr>"

definition tw_timer_expire_timers_vec :: "'u pfcp_server \<Rightarrow> 'u pfcp_server" where
  "tw_timer_expire_timers_vec s =
     s\<lparr>psm_expired := psm_expired s @ map (fst \<circ> snd) (filter (\<lambda>(h, n, at). at \<le> psm_now s) (psm_timer s)),
       psm_timer := filter (\<lambda>(h, n, at). psm_now s < at) (psm_timer s)\<rparr>"

definition upf_pfcp_server_start_timer ::
    "server_lib \<Rightarrow> nat \<Rightarrow> nat \<Rightarrow> nat \<Rightarrow> 'u pfcp_server \<Rightarrow> nat \<times> 'u pfcp_server" where
  "upf_pfcp_server_start_timer lib type n seconds s =
     tw_timer_start lib (timer_id type n) (seconds * TW_CLOCKS_PER_SECOND) s"

definition upf_pfcp_server_stop_msg_timer :: "nat \<Rightarrow> 'u pfcp_server \<Rightarrow> 'u pfcp_server option" where
  "upf_pfcp_server_stop_msg_timer i s = do {
     m \<leftarrow> psm_msg_pool s i;
     if m_timer m = INVALID then Some s
     else
       let id_t1 = timer_id PFCP_SERVER_T1 (unat (m_seq_no m));
           id_resp = timer_id PFCP_SERVER_RESPONSE i;
           hit = (\<lambda>e. e = id_t1 \<or> e = id_resp);
           s' = s\<lparr>psm_expired := map (\<lambda>e. if hit e then INVALID else e) (psm_expired s)\<rparr>;
           s' = (if list_ex hit (psm_expired s) then s' else tw_timer_stop (m_timer m) s')
       in Some (put_msg i (m\<lparr>m_timer := INVALID\<rparr>) s')
   }"

definition upf_pfcp_server_deferred_free_msgs_by_node :: "nat \<Rightarrow> 'u pfcp_server \<Rightarrow> 'u pfcp_server" where
  "upf_pfcp_server_deferred_free_msgs_by_node n s =
     s\<lparr>psm_free_msgs_by_node := List.insert n (psm_free_msgs_by_node s)\<rparr>"

section \<open>Sending\<close>

definition upf_pfcp_send_data :: "server_lib \<Rightarrow> pfcp_msg \<Rightarrow> 'u pfcp_server \<Rightarrow> 'u pfcp_server" where
  "upf_pfcp_send_data lib m s =
     (if svr_session_valid lib (m_session_handle m) then
        s\<lparr>sent := sent s @ [\<lparr>dg_session_handle = m_session_handle m,
            dg_lcl_ip = m_lcl_address m, dg_lcl_port = m_lcl_port m,
            dg_rmt_ip = m_rmt_address m, dg_rmt_port = m_rmt_port m, dg_data = m_data m\<rparr>]\<rparr>
      else s)"

text \<open>\<^verbatim>\<open>clib_atomic_add_fetch (&psm->seq_no, 1) % 0x1000000\<close>\<close>

definition next_seq_no :: "'u pfcp_server \<Rightarrow> u32 \<times> 'u pfcp_server" where
  "next_seq_no s = ((psm_seq_no s + 1) mod 0x1000000, s\<lparr>psm_seq_no := psm_seq_no s + 1\<rparr>)"

text \<open>The result of the encoder: 0 and the octets, or an error.\<close>

definition encoded :: "bytes dec \<Rightarrow> (int \<times> bytes) option" where
  "encoded r = (case r of Done bs \<Rightarrow> Some (0, bs) | Reject e \<Rightarrow> Some (e, []) | Fault \<Rightarrow> None)"

text \<open>Both functions are given the message, of which they keep whether it is an element of the pool, and
  yield a code, the message and the state.\<close>

definition encode_pfcp_session_msg ::
    "server_lib \<Rightarrow> nat \<Rightarrow> upf_session \<Rightarrow> pfcp_decoded_msg \<Rightarrow> pfcp_msg \<Rightarrow> 'u pfcp_server
     \<Rightarrow> (int \<times> pfcp_msg \<times> 'u pfcp_server) option" where
  "encode_pfcp_session_msg lib si sx dmsg m s =
     (let (seq, s) = next_seq_no s;
          m = (init_pfcp_msg m)\<lparr>m_seq_no := seq, m_node := sx_assoc_node sx, m_session_index := si\<rparr> in
      do {
        n \<leftarrow> gtm_nodes s (sx_assoc_node sx);
        (r, bs) \<leftarrow> encoded (pfcp_encode_msg (svr_vlib lib) (dmsg\<lparr>dmsg_seq_no := seq, dmsg_seid := sx_cp_seid sx\<rparr>));
        if r \<noteq> 0 then Some (r, m, s)
        else Some (0, m\<lparr>m_data := bs, m_session_handle := na_session_handle n,
                        m_lcl_address := sx_up_address sx, m_rmt_address := sx_cp_address sx,
                        m_lcl_port := UDP_DST_PORT_PFCP, m_rmt_port := UDP_DST_PORT_PFCP\<rparr>, s)
      })"

definition encode_pfcp_node_msg ::
    "server_lib \<Rightarrow> nat \<Rightarrow> upf_node_assoc \<Rightarrow> pfcp_decoded_msg \<Rightarrow> pfcp_msg \<Rightarrow> 'u pfcp_server
     \<Rightarrow> (int \<times> pfcp_msg \<times> 'u pfcp_server) option" where
  "encode_pfcp_node_msg lib ni n dmsg m s =
     (let (seq, s) = next_seq_no s;
          m = (init_pfcp_msg m)\<lparr>m_seq_no := seq, m_node := ni\<rparr> in
      do {
        (r, bs) \<leftarrow> encoded (pfcp_encode_msg (svr_vlib lib) (dmsg\<lparr>dmsg_seq_no := seq\<rparr>));
        if r \<noteq> 0 then Some (r, m, s)
        else Some (0, m\<lparr>m_data := bs, m_session_handle := na_session_handle n,
                        m_lcl_address := na_lcl_addr n, m_rmt_address := na_rmt_addr n,
                        m_lcl_port := UDP_DST_PORT_PFCP, m_rmt_port := UDP_DST_PORT_PFCP\<rparr>, s)
      })"

text \<open>\<open>Some (None, s)\<close> is the result \<^verbatim>\<open>NULL\<close>.\<close>

definition build_pfcp_session_msg ::
    "server_lib \<Rightarrow> nat \<Rightarrow> upf_session \<Rightarrow> pfcp_decoded_msg \<Rightarrow> 'u pfcp_server \<Rightarrow> (nat option \<times> 'u pfcp_server) option" where
  "build_pfcp_session_msg lib si sx dmsg s = do {
     (i, s) \<leftarrow> pfcp_msg_pool_get lib s;
     m \<leftarrow> psm_msg_pool s i;
     (r, m, s) \<leftarrow> encode_pfcp_session_msg lib si sx dmsg m s;
     if r \<noteq> 0 then do { s \<leftarrow> pfcp_msg_pool_put i (put_msg i m s); Some (None, s) }
     else Some (Some i, put_msg i m s)
   }"

definition build_pfcp_node_msg ::
    "server_lib \<Rightarrow> nat \<Rightarrow> upf_node_assoc \<Rightarrow> pfcp_decoded_msg \<Rightarrow> 'u pfcp_server \<Rightarrow> (nat option \<times> 'u pfcp_server) option" where
  "build_pfcp_node_msg lib ni n dmsg s = do {
     (i, s) \<leftarrow> pfcp_msg_pool_get lib s;
     m \<leftarrow> psm_msg_pool s i;
     (r, m, s) \<leftarrow> encode_pfcp_node_msg lib ni n dmsg m s;
     if r \<noteq> 0 then do { s \<leftarrow> pfcp_msg_pool_put i (put_msg i m s); Some (None, s) }
     else Some (Some i, put_msg i m s)
   }"

section \<open>Requests\<close>

definition enqueue_request :: "server_lib \<Rightarrow> nat \<Rightarrow> u32 \<Rightarrow> nat \<Rightarrow> 'u pfcp_server \<Rightarrow> 'u pfcp_server option" where
  "enqueue_request lib i n1 t1 s = do {
     m \<leftarrow> psm_msg_pool s i;
     let s = s\<lparr>psm_request_q := (psm_request_q s)(m_seq_no m \<mapsto> i)\<rparr>;
         (h, s) = upf_pfcp_server_start_timer lib PFCP_SERVER_T1 (unat (m_seq_no m)) t1 s
     in Some (put_msg i (m\<lparr>m_n1 := n1, m_t1 := t1, m_timer := h,
                           m_expires_at := psm_now s + t1 * TW_CLOCKS_PER_SECOND\<rparr>) s)
   }"

definition upf_pfcp_server_send_request :: "server_lib \<Rightarrow> nat \<Rightarrow> 'u pfcp_server \<Rightarrow> 'u pfcp_server option" where
  "upf_pfcp_server_send_request lib i s = do {
     s \<leftarrow> enqueue_request lib i 3 10 s;
     m \<leftarrow> psm_msg_pool s i;
     Some (upf_pfcp_send_data lib m s)
   }"

definition upf_pfcp_server_send_session_request ::
    "server_lib \<Rightarrow> nat \<Rightarrow> upf_session \<Rightarrow> pfcp_decoded_msg \<Rightarrow> 'u pfcp_server \<Rightarrow> 'u pfcp_server option" where
  "upf_pfcp_server_send_session_request lib si sx dmsg s = do {
     (msg, s) \<leftarrow> build_pfcp_session_msg lib si sx dmsg s;
     case msg of Some i \<Rightarrow> upf_pfcp_server_send_request lib i s | None \<Rightarrow> Some s
   }"

definition upf_pfcp_server_send_node_request ::
    "server_lib \<Rightarrow> nat \<Rightarrow> upf_node_assoc \<Rightarrow> pfcp_decoded_msg \<Rightarrow> 'u pfcp_server \<Rightarrow> 'u pfcp_server option" where
  "upf_pfcp_server_send_node_request lib ni n dmsg s = do {
     (msg, s) \<leftarrow> build_pfcp_node_msg lib ni n dmsg s;
     case msg of Some i \<Rightarrow> upf_pfcp_server_send_request lib i s | None \<Rightarrow> Some s
   }"

text \<open>A request of the data path: the message is encoded at once and queued for the process as the
  event \<^verbatim>\<open>EVENT_TX\<close>, which is the third result.\<close>

definition upf_pfcp_send_request ::
    "server_lib \<Rightarrow> nat \<Rightarrow> upf_session \<Rightarrow> pfcp_decoded_msg \<Rightarrow> 'u pfcp_server
     \<Rightarrow> (int \<times> 'u pfcp_server \<times> pfcp_msg option) option" where
  "upf_pfcp_send_request lib si sx dmsg s = do {
     (r, m, s) \<leftarrow> encode_pfcp_session_msg lib si sx dmsg zero_msg s;
     Some (r, s, if r \<noteq> 0 then None else Some m)
   }"

definition request_message :: "nat \<Rightarrow> pfcp_group \<Rightarrow> pfcp_decoded_msg" where
  "request_message type g = \<lparr>dmsg_type = type, dmsg_seq_no = 0, dmsg_seid = 0, dmsg_grp = g\<rparr>"

definition zero_group :: "nat \<Rightarrow> pfcp_group" where
  "zero_group type = (case msg_specs type of Some def \<Rightarrow> empty_group def | None \<Rightarrow> Group 0 [] [])"

definition upf_server_send_heartbeat :: "server_lib \<Rightarrow> nat \<Rightarrow> 'u pfcp_server \<Rightarrow> 'u pfcp_server option" where
  "upf_server_send_heartbeat lib ni s = do {
     n \<leftarrow> gtm_nodes s ni;
     upf_pfcp_server_send_node_request lib ni n
       (request_message PFCP_HEARTBEAT_REQUEST
          (set_slot (zero_group PFCP_HEARTBEAT_REQUEST) HEARTBEAT_REQUEST_RECOVERY_TIME_STAMP
             (Single (Leaf (V_time_stamp_ie (psm_start_time s)))))) s
   }"

section \<open>Associations\<close>

abbreviation (input) "NID_IPv4 \<equiv> 0 :: u8"
abbreviation (input) "NID_IPv6 \<equiv> 1 :: u8"
abbreviation (input) "NID_FQDN \<equiv> 2 :: u8"

text \<open>The index of the association, if there is one.\<close>

definition pfcp_get_association :: "pfcp_node_id \<Rightarrow> 'u pfcp_server \<Rightarrow> nat option" where
  "pfcp_get_association nid s =
     (if nid_type nid = NID_IPv4 \<or> nid_type nid = NID_IPv6 then gtm_node_index_by_ip s (nid_ip nid)
      else if nid_type nid = NID_FQDN then gtm_node_index_by_fqdn s (nid_fqdn nid)
      else None)"

definition pfcp_new_association ::
    "server_lib \<Rightarrow> u64 \<Rightarrow> ip46_address \<Rightarrow> ip46_address \<Rightarrow> pfcp_node_id \<Rightarrow> 'u pfcp_server \<Rightarrow> nat \<times> 'u pfcp_server" where
  "pfcp_new_association lib handle lcl rmt nid s =
     (let ni = svr_pool_index lib (dom (gtm_nodes s));
          s = s\<lparr>gtm_nodes := (gtm_nodes s)(ni \<mapsto> \<lparr>na_node_id = nid, na_recovery_time_stamp = 0,
                  na_session_handle = handle, na_rmt_addr = rmt, na_lcl_addr = lcl,
                  na_sessions = INVALID, na_heartbeat_handle = 0\<rparr>)\<rparr> in
      (ni, if nid_type nid = NID_IPv4 \<or> nid_type nid = NID_IPv6
           then s\<lparr>gtm_node_index_by_ip := (gtm_node_index_by_ip s)(nid_ip nid \<mapsto> ni)\<rparr>
           else if nid_type nid = NID_FQDN
           then s\<lparr>gtm_node_index_by_fqdn := (gtm_node_index_by_fqdn s)(nid_fqdn nid \<mapsto> ni)\<rparr>
           else s))"

definition pfcp_release_association :: "'u upper \<Rightarrow> nat \<Rightarrow> 'u pfcp_server \<Rightarrow> 'u pfcp_server option" where
  "pfcp_release_association up ni s = do {
     n \<leftarrow> gtm_nodes s ni;
     let nid = na_node_id n;
         s = (if nid_type nid = NID_IPv4 \<or> nid_type nid = NID_IPv6
              then s\<lparr>gtm_node_index_by_ip := (gtm_node_index_by_ip s)(nid_ip nid := None)\<rparr>
              else if nid_type nid = NID_FQDN
              then s\<lparr>gtm_node_index_by_fqdn := (gtm_node_index_by_fqdn s)(nid_fqdn nid := None)\<rparr>
              else s)
     in do {
       s \<leftarrow> up_release_sessions up ni s;
       let s = upf_pfcp_server_deferred_free_msgs_by_node ni s
       in Some (s\<lparr>gtm_nodes := (gtm_nodes s)(ni := None)\<rparr>)
     }
   }"

definition update_node :: "nat \<Rightarrow> (upf_node_assoc \<Rightarrow> upf_node_assoc) \<Rightarrow> 'u pfcp_server \<Rightarrow> 'u pfcp_server" where
  "update_node ni f s = s\<lparr>gtm_nodes := (gtm_nodes s)(ni := map_option f (gtm_nodes s ni))\<rparr>"

text \<open>A request that was given up: an association whose peer does not answer heartbeats is released. The
  message is read after it was given back; the element keeps its contents except for the data.\<close>

definition request_t1_expired :: "server_lib \<Rightarrow> 'u upper \<Rightarrow> u32 \<Rightarrow> 'u pfcp_server \<Rightarrow> 'u pfcp_server option" where
  "request_t1_expired lib up seq s = (case psm_request_q s seq of
     None \<Rightarrow> Some s
   | Some i \<Rightarrow> do {
       m \<leftarrow> psm_msg_pool s i;
       if m_n1 m - 1 \<noteq> 0 then
         let (h, s) = upf_pfcp_server_start_timer lib PFCP_SERVER_T1 (unat (m_seq_no m)) (m_t1 m) s;
             m = m\<lparr>m_n1 := m_n1 m - 1, m_timer := h,
                   m_expires_at := psm_now s + m_t1 m * TW_CLOCKS_PER_SECOND\<rparr>
         in Some (upf_pfcp_send_data lib m (put_msg i m s))
       else
         let s = put_msg i (m\<lparr>m_n1 := 0\<rparr>)
                   (s\<lparr>psm_request_q := (psm_request_q s)(m_seq_no m := None)\<rparr>) in
         do {
           s \<leftarrow> pfcp_msg_pool_put i s;
           if 2 \<le> length (m_data m) then
             (if pfcp_msg_type (m_data m) = PFCP_HEARTBEAT_REQUEST \<and> gtm_nodes s (m_node m) \<noteq> None
              then pfcp_release_association up (m_node m) s else Some s)
           else None
         }
     })"

section \<open>Responses\<close>

definition response_expired :: "nat \<Rightarrow> 'u pfcp_server \<Rightarrow> 'u pfcp_server option" where
  "response_expired i s = do {
     m \<leftarrow> psm_msg_pool s i;
     pfcp_msg_pool_put i (s\<lparr>psm_response_q := (psm_response_q s)(m_request_key m := None)\<rparr>)
   }"

definition start_response_timer :: "server_lib \<Rightarrow> nat \<Rightarrow> 'u pfcp_server \<Rightarrow> 'u pfcp_server option" where
  "start_response_timer lib i s =
     (let (h, s) = upf_pfcp_server_start_timer lib PFCP_SERVER_RESPONSE i RESPONSE_TIMEOUT s in
      do {
        m \<leftarrow> psm_msg_pool s i;
        Some (put_msg i (m\<lparr>m_timer := h, m_expires_at := psm_now s + RESPONSE_TIMEOUT * TW_CLOCKS_PER_SECOND\<rparr>) s)
      })"

definition restart_response_timer :: "server_lib \<Rightarrow> nat \<Rightarrow> 'u pfcp_server \<Rightarrow> 'u pfcp_server option" where
  "restart_response_timer lib i s = do {
     s \<leftarrow> upf_pfcp_server_stop_msg_timer i s;
     start_response_timer lib i s
   }"

definition enqueue_response :: "server_lib \<Rightarrow> nat \<Rightarrow> 'u pfcp_server \<Rightarrow> 'u pfcp_server option" where
  "enqueue_response lib i s = do {
     m \<leftarrow> psm_msg_pool s i;
     start_response_timer lib i (s\<lparr>psm_response_q := (psm_response_q s)(m_request_key m \<mapsto> i)\<rparr>)
   }"

definition upf_pfcp_make_response :: "pfcp_msg \<Rightarrow> pfcp_msg \<Rightarrow> pfcp_msg" where
  "upf_pfcp_make_response resp req = resp\<lparr>m_timer := INVALID, m_seq_no := m_seq_no req,
     m_session_handle := m_session_handle req, m_lcl_address := m_lcl_address req,
     m_lcl_port := m_lcl_port req, m_rmt_address := m_rmt_address req, m_rmt_port := m_rmt_port req,
     m_data := []\<rparr>"

text \<open>\<^verbatim>\<open>pfcp_msg_seq\<close>, \<^verbatim>\<open>pfcp_msg_version_valid\<close> and \<^verbatim>\<open>pfcp_msg_enough_len\<close> of \<^verbatim>\<open>pfcp.h\<close>\<close>

definition pfcp_msg_seq :: "bytes \<Rightarrow> u32" where
  "pfcp_msg_seq p = (if pfcp_msg_s_flag p then pfcp_session_msg_seq p else pfcp_node_msg_seq p)"

definition pfcp_msg_version_valid :: "bytes \<Rightarrow> bool" where
  "pfcp_msg_version_valid p \<longleftrightarrow> pfcp_msg_version p = 1"

definition pfcp_msg_enough_len :: "bytes \<Rightarrow> nat \<Rightarrow> bool" where
  "pfcp_msg_enough_len p len \<longleftrightarrow> len \<ge> pfcp_msg_length p + 4
     \<and> len \<ge> (if pfcp_msg_s_flag p then SESSION_MSG_HDR_LEN else NODE_MSG_HDR_LEN)"

definition upf_pfcp_send_response ::
    "server_lib \<Rightarrow> pfcp_msg \<Rightarrow> pfcp_decoded_msg \<Rightarrow> 'u pfcp_server \<Rightarrow> (int \<times> 'u pfcp_server) option" where
  "upf_pfcp_send_response lib req dmsg s = do {
     (i, s) \<leftarrow> pfcp_msg_pool_get lib s;
     resp \<leftarrow> psm_msg_pool s i;
     (r, bs) \<leftarrow> encoded (pfcp_encode_msg (svr_vlib lib) (dmsg\<lparr>dmsg_seq_no := pfcp_msg_seq (m_data req)\<rparr>));
     let resp = (upf_pfcp_make_response resp req)\<lparr>m_data := bs\<rparr>; s = put_msg i resp s
     in if r \<noteq> 0 then do { s \<leftarrow> pfcp_msg_pool_put i s; Some (r, s) }
        else do { s \<leftarrow> enqueue_response lib i (upf_pfcp_send_data lib resp s); Some (0, s) }
   }"

section \<open>Handlers of node messages\<close>

text \<open>Copying \<^verbatim>\<open>gtm->node_id\<close> duplicates the name it may point to.\<close>

definition init_response_node_id :: "'u pfcp_server \<Rightarrow> pfcp_node_id" where
  "init_response_node_id s = gtm_node_id s"

text \<open>A member is stored and its bit set; the groups of vectors are set only if they are not empty.\<close>

definition set_leaf :: "nat \<Rightarrow> ie_leaf \<Rightarrow> pfcp_group \<Rightarrow> pfcp_group" where
  "set_leaf i v g = set_slot g i (Single (Leaf v))"

definition set_vec :: "nat \<Rightarrow> pfcp_val list \<Rightarrow> pfcp_group \<Rightarrow> pfcp_group" where
  "set_vec i vs g = (if vs \<noteq> [] then set_slot g i (Array vs) else g)"

definition build_ue_ip_address_information :: "'u pfcp_server \<Rightarrow> pfcp_val list" where
  "build_ue_ip_address_information s = map (\<lambda>ue_p.
     let blocks = map np_name (filter (\<lambda>np. np_network_instance np = uep_nwi_name ue_p) (gtm_nat_pools s))
     in Grp (set_vec UE_IP_ADDRESS_POOL_INFORMATION_BBF_NAT_PORT_BLOCK (map (Leaf \<circ> V_simple_vec_ie) blocks)
          (set_leaf UE_IP_ADDRESS_POOL_INFORMATION_NETWORK_INSTANCE (V_simple_vec_ie (uep_nwi_name ue_p))
            (set_leaf UE_IP_ADDRESS_POOL_INFORMATION_POOL_IDENTIFY (V_ue_ip_address_pool_identity (uep_identity ue_p))
              (Group 0 [] (replicate (length pfcp_ue_ip_address_pool_group) Unset))))))
     (gtm_ueip_pools s)"

definition popcount :: "u32 \<Rightarrow> nat" where
  "popcount w = length (filter (bit w) [0..<32])"

definition upip_resource :: "'u pfcp_server \<Rightarrow> upf_upip_res \<Rightarrow> pfcp_user_plane_ip_resource_information option" where
  "upip_resource s res =
     (let flag = (\<lambda>c b. if c then BIT b else 0 :: u8);
          has_nwi = res_nwi_index res \<noteq> INVALID;
          has_intf = res_intf res \<noteq> 0xff;
          mask = res_mask res \<noteq> 0;
          v4 = res_ip4 res \<noteq> 0; v6 = res_ip6 res \<noteq> 0 in
      do {
        name \<leftarrow> if has_nwi then gtm_nwi_name s (res_nwi_index res) else Some [];
        Some \<lparr>upir_flags = flag has_nwi 5 OR flag has_intf 6 OR flag v4 0 OR flag v6 1,
              upir_teid_range_indication = (if mask then of_nat (popcount (res_mask res)) else 0),
              upir_teid_range = (if mask then ucast (drop_bit 24 (res_teid res)) else 0),
              upir_source_intf = (if has_intf then res_intf res else 0),
              upir_network_instance = name, upir_ip4 = res_ip4 res, upir_ip6 = res_ip6 res\<rparr>
      })"

definition build_user_plane_ip_resource_information :: "'u pfcp_server \<Rightarrow> pfcp_val list option" where
  "build_user_plane_ip_resource_information s = map_option
     (map (Leaf \<circ> V_user_plane_ip_resource_information)) (those (map (upip_resource s) (gtm_upip_res s)))"

definition handle_heartbeat_request ::
    "server_lib \<Rightarrow> pfcp_msg \<Rightarrow> pfcp_decoded_msg \<Rightarrow> 'u pfcp_server \<Rightarrow> (int \<times> 'u pfcp_server) option" where
  "handle_heartbeat_request lib msg dmsg s = do {
     (r, s) \<leftarrow> upf_pfcp_send_response lib msg (request_message PFCP_HEARTBEAT_RESPONSE
       (set_leaf PFCP_RESPONSE_RECOVERY_TIME_STAMP (V_time_stamp_ie (psm_start_time s))
          (zero_group PFCP_HEARTBEAT_RESPONSE))) s;
     Some (0, s)
   }"

text \<open>The value of a field of a decoded message; a field that is absent is zero.\<close>

definition time_stamp_field :: "nat \<Rightarrow> pfcp_decoded_msg \<Rightarrow> u32" where
  "time_stamp_field i dmsg = (case grp_slots (dmsg_grp dmsg) ! i of
     Single (Leaf (V_time_stamp_ie t)) \<Rightarrow> t | _ \<Rightarrow> 0)"

definition node_id_field :: "nat \<Rightarrow> pfcp_decoded_msg \<Rightarrow> pfcp_node_id" where
  "node_id_field i dmsg = (case grp_slots (dmsg_grp dmsg) ! i of
     Single (Leaf (V_node_id n)) \<Rightarrow> n | _ \<Rightarrow> \<lparr>nid_type = 0, nid_ip = 0, nid_fqdn = []\<rparr>)"

definition handle_heartbeat_response ::
    "server_lib \<Rightarrow> 'u upper \<Rightarrow> pfcp_msg \<Rightarrow> pfcp_decoded_msg \<Rightarrow> 'u pfcp_server \<Rightarrow> (int \<times> 'u pfcp_server) option" where
  "handle_heartbeat_response lib up msg dmsg s =
     (let ts = time_stamp_field PFCP_RESPONSE_RECOVERY_TIME_STAMP dmsg in
      if m_node msg = INVALID then Some (-1, s)
      else (case gtm_nodes s (m_node msg) of
        None \<Rightarrow> Some (-1, s)
      | Some n \<Rightarrow>
          if ts > na_recovery_time_stamp n then do {
            s \<leftarrow> pfcp_release_association up (m_node msg) s;
            Some (0, s)
          }
          else if ts < na_recovery_time_stamp n then Some (-1, s)
          else
            let (h, s) = upf_pfcp_server_start_timer lib PFCP_SERVER_HB_TIMER (m_node msg) PFCP_HB_INTERVAL s
            in Some (0, update_node (m_node msg) (\<lambda>n. n\<lparr>na_heartbeat_handle := h\<rparr>) s)))"

definition association_setup_response :: "server_lib \<Rightarrow> 'u pfcp_server \<Rightarrow> pfcp_group option" where
  "association_setup_response lib s =
     (let g = set_leaf ASSOCIATION_PROCEDURE_RESPONSE_CAUSE (V_u8_ie (of_int PFCP_CAUSE_REQUEST_ACCEPTED))
          (set_leaf ASSOCIATION_PROCEDURE_RESPONSE_TP_BUILD_ID (V_simple_vec_ie (vpe_version_string lib))
          (set_leaf ASSOCIATION_PROCEDURE_RESPONSE_RECOVERY_TIME_STAMP (V_time_stamp_ie (psm_start_time s))
          (set_leaf ASSOCIATION_PROCEDURE_RESPONSE_NODE_ID (V_node_id (init_response_node_id s))
             (zero_group PFCP_ASSOCIATION_SETUP_RESPONSE)))) in
      if gtm_pfcp_spec_version s \<ge> 16 then
        Some (set_leaf ASSOCIATION_PROCEDURE_RESPONSE_BBF_UP_FUNCTION_FEATURES (V_bbf_up_function_features (BIT 6))
          (set_vec ASSOCIATION_PROCEDURE_RESPONSE_UE_IP_ADDRESS_POOL_INFORMATION (build_ue_ip_address_information s)
            (set_leaf ASSOCIATION_PROCEDURE_RESPONSE_UP_FUNCTION_FEATURES
               (V_up_function_features (BIT 8 OR BIT 26 OR BIT 4)) g)))
      else do {
        upip \<leftarrow> build_user_plane_ip_resource_information s;
        Some (set_vec ASSOCIATION_PROCEDURE_RESPONSE_USER_PLANE_IP_RESOURCE_INFORMATION upip
          (set_leaf ASSOCIATION_PROCEDURE_RESPONSE_UP_FUNCTION_FEATURES (V_up_function_features (BIT 8)) g))
      })"

definition handle_association_setup_request ::
    "server_lib \<Rightarrow> 'u upper \<Rightarrow> pfcp_msg \<Rightarrow> pfcp_decoded_msg \<Rightarrow> 'u pfcp_server \<Rightarrow> (int \<times> 'u pfcp_server) option" where
  "handle_association_setup_request lib up msg dmsg s =
     (let nid = node_id_field ASSOCIATION_SETUP_REQUEST_NODE_ID dmsg in
      do {
        s \<leftarrow> (case pfcp_get_association nid s of
                Some ni \<Rightarrow> pfcp_release_association up ni s | None \<Rightarrow> Some s);
        let (ni, s) = pfcp_new_association lib (m_session_handle msg) (m_lcl_address msg) (m_rmt_address msg) nid s;
            s = update_node ni (\<lambda>n. n\<lparr>na_recovery_time_stamp :=
                  time_stamp_field ASSOCIATION_SETUP_REQUEST_RECOVERY_TIME_STAMP dmsg\<rparr>) s
        in do {
          g \<leftarrow> association_setup_response lib s;
          let (h, s) = upf_pfcp_server_start_timer lib PFCP_SERVER_HB_TIMER ni PFCP_HB_INTERVAL s;
              s = update_node ni (\<lambda>n. n\<lparr>na_heartbeat_handle := h\<rparr>) s
          in do {
            (r, s) \<leftarrow> upf_pfcp_send_response lib msg (request_message PFCP_ASSOCIATION_SETUP_RESPONSE g) s;
            Some (0, s)
          }
        }
      })"

section \<open>Error responses\<close>

abbreviation (input) "PFCP_PFD_MANAGEMENT_RESPONSE \<equiv> 4 :: nat"

text \<open>
  \<^verbatim>\<open>send_simple_response\<close> fills a \<^verbatim>\<open>pfcp_simple_response_t\<close> with the bits \<^verbatim>\<open>PFCP_RESPONSE_*\<close>, and the
  encoder reads it through the table of the message, whose structure may be another one. Those of
  session procedures agree with it up to the offending element. In
  \<^verbatim>\<open>pfcp_association_procedure_response_t\<close> bit 2 is the recovery time stamp and bit 3 the user plane
  function features, and their members lie where the simple response has the line number of its error
  report and behind its end, all of it zero.
\<close>

definition association_layout :: "nat \<Rightarrow> bool" where
  "association_layout type \<longleftrightarrow> type = PFCP_ASSOCIATION_SETUP_RESPONSE \<or> type = PFCP_ASSOCIATION_UPDATE_RESPONSE"

definition set_offending_ie :: "nat \<Rightarrow> nat list \<Rightarrow> pfcp_group \<Rightarrow> pfcp_group" where
  "set_offending_ie type err g = (case err of [] \<Rightarrow> g
     | e # _ \<Rightarrow> set_leaf PFCP_RESPONSE_OFFENDING_IE
         (if association_layout type then V_time_stamp_ie 0 else V_u16_ie (of_nat e)) g)"

definition set_recovery_time_stamp :: "nat \<Rightarrow> u32 \<Rightarrow> pfcp_group \<Rightarrow> pfcp_group" where
  "set_recovery_time_stamp type ts g =
     (if type = PFCP_HEARTBEAT_RESPONSE \<or> type = PFCP_ASSOCIATION_SETUP_RESPONSE
      then set_leaf PFCP_RESPONSE_RECOVERY_TIME_STAMP
             (if association_layout type then V_up_function_features 0 else V_time_stamp_ie ts) g
      else g)"

definition set_response_node_id :: "nat \<Rightarrow> pfcp_node_id \<Rightarrow> pfcp_group \<Rightarrow> pfcp_group" where
  "set_response_node_id type nid g =
     (if type \<in> {PFCP_HEARTBEAT_RESPONSE, PFCP_PFD_MANAGEMENT_RESPONSE, PFCP_SESSION_MODIFICATION_RESPONSE,
        PFCP_SESSION_DELETION_RESPONSE, PFCP_SESSION_REPORT_RESPONSE} then g
      else set_leaf PFCP_RESPONSE_NODE_ID (V_node_id nid) g)"

definition simple_response :: "'u pfcp_server \<Rightarrow> nat \<Rightarrow> int \<Rightarrow> nat list \<Rightarrow> pfcp_group" where
  "simple_response s type cause err =
     set_offending_ie type err (set_recovery_time_stamp type (psm_start_time s)
       (set_response_node_id type (init_response_node_id s)
         (set_leaf PFCP_RESPONSE_CAUSE (V_u8_ie (of_int cause)) (zero_group type))))"

definition send_simple_response ::
    "server_lib \<Rightarrow> pfcp_msg \<Rightarrow> u64 \<Rightarrow> nat \<Rightarrow> int \<Rightarrow> nat list \<Rightarrow> 'u pfcp_server \<Rightarrow> 'u pfcp_server option" where
  "send_simple_response lib req seid type cause err s = do {
     (r, s) \<leftarrow> upf_pfcp_send_response lib req
       \<lparr>dmsg_type = type, dmsg_seq_no = 0, dmsg_seid = seid, dmsg_grp = simple_response s type cause err\<rparr> s;
     Some s
   }"

section \<open>Dispatch\<close>

text \<open>The table \<^verbatim>\<open>msg_handlers\<close>: the handlers of node messages other than the three above return -1, those
  of session messages are in the session layer, and \<open>None\<close> is an entry that is missing.\<close>

definition not_handled :: "'u pfcp_server \<Rightarrow> (int \<times> 'u pfcp_server) option" where
  "not_handled s = Some (-1, s)"

definition msg_handlers ::
    "server_lib \<Rightarrow> 'u upper \<Rightarrow> nat \<Rightarrow> (pfcp_msg \<Rightarrow> pfcp_decoded_msg \<Rightarrow> 'u pfcp_server \<Rightarrow> (int \<times> 'u pfcp_server) option) option" where
  "msg_handlers lib up type =
     (if type = PFCP_HEARTBEAT_REQUEST then Some (handle_heartbeat_request lib)
      else if type = PFCP_HEARTBEAT_RESPONSE then Some (handle_heartbeat_response lib up)
      else if type = PFCP_ASSOCIATION_SETUP_REQUEST then Some (handle_association_setup_request lib up)
      else if type \<in> {PFCP_PFD_MANAGEMENT_REQUEST, PFCP_PFD_MANAGEMENT_RESPONSE, PFCP_ASSOCIATION_SETUP_RESPONSE,
          PFCP_ASSOCIATION_UPDATE_REQUEST, PFCP_ASSOCIATION_UPDATE_RESPONSE, PFCP_ASSOCIATION_RELEASE_REQUEST,
          PFCP_ASSOCIATION_RELEASE_RESPONSE, PFCP_NODE_REPORT_REQUEST, PFCP_NODE_REPORT_RESPONSE}
      then Some (\<lambda>_ _. not_handled)
      else if PFCP_SESSION_SET_DELETION_REQUEST \<le> type \<and> type \<le> PFCP_SESSION_SET_DELETION_RESPONSE
        \<or> PFCP_SESSION_ESTABLISHMENT_REQUEST \<le> type \<and> type \<le> PFCP_SESSION_REPORT_RESPONSE
      then Some (up_handle_msg up)
      else None)"

definition upf_pfcp_handle_msg ::
    "server_lib \<Rightarrow> 'u upper \<Rightarrow> pfcp_msg \<Rightarrow> 'u pfcp_server \<Rightarrow> (int \<times> 'u pfcp_server) option" where
  "upf_pfcp_handle_msg lib up msg s = (case msg_handlers lib up (pfcp_msg_type (m_data msg)) of
     None \<Rightarrow> Some (-1, s)
   | Some handler \<Rightarrow> do {
       (r, dmsg, err) \<leftarrow> pfcp_decode_msg (svr_vlib lib) (m_data msg) [];
       if r < 0 then Some (-1, s)
       else if r \<noteq> 0 then
         (if dmsg_type dmsg \<in> {PFCP_HEARTBEAT_REQUEST, PFCP_PFD_MANAGEMENT_REQUEST,
              PFCP_ASSOCIATION_SETUP_REQUEST, PFCP_ASSOCIATION_UPDATE_REQUEST, PFCP_ASSOCIATION_RELEASE_REQUEST,
              PFCP_SESSION_SET_DELETION_REQUEST, PFCP_SESSION_ESTABLISHMENT_REQUEST,
              PFCP_SESSION_MODIFICATION_REQUEST, PFCP_SESSION_DELETION_REQUEST, PFCP_SESSION_REPORT_REQUEST}
          then do { s \<leftarrow> send_simple_response lib msg 0 (dmsg_type dmsg + 1) r err s; Some (r, s) }
          else Some (r, s))
       else handler msg dmsg s
     })"

section \<open>Receiving\<close>

text \<open>\<^verbatim>\<open>pfcp_session_server_rx_callback\<close> copies a datagram into a vector that \<^verbatim>\<open>vec_validate (msg->data, len)\<close>
  makes one octet longer than the datagram.\<close>

definition rx_callback :: "dgram \<Rightarrow> pfcp_msg" where
  "rx_callback d = zero_msg\<lparr>m_session_handle := dg_session_handle d, m_lcl_address := dg_lcl_ip d,
     m_rmt_address := dg_rmt_ip d, m_lcl_port := dg_lcl_port d, m_rmt_port := dg_rmt_port d,
     m_data := dg_data d @ [0]\<rparr>"

definition is_request :: "nat \<Rightarrow> bool" where
  "is_request type \<longleftrightarrow> type \<in> {PFCP_HEARTBEAT_REQUEST, PFCP_PFD_MANAGEMENT_REQUEST,
     PFCP_ASSOCIATION_SETUP_REQUEST, PFCP_ASSOCIATION_UPDATE_REQUEST, PFCP_ASSOCIATION_RELEASE_REQUEST,
     PFCP_NODE_REPORT_REQUEST, PFCP_SESSION_SET_DELETION_REQUEST, PFCP_SESSION_ESTABLISHMENT_REQUEST,
     PFCP_SESSION_MODIFICATION_REQUEST, PFCP_SESSION_DELETION_REQUEST, PFCP_SESSION_REPORT_REQUEST}"

definition is_response :: "nat \<Rightarrow> bool" where
  "is_response type \<longleftrightarrow> type \<in> {PFCP_HEARTBEAT_RESPONSE, PFCP_PFD_MANAGEMENT_RESPONSE,
     PFCP_ASSOCIATION_SETUP_RESPONSE, PFCP_ASSOCIATION_UPDATE_RESPONSE, PFCP_ASSOCIATION_RELEASE_RESPONSE,
     PFCP_VERSION_NOT_SUPPORTED_RESPONSE, PFCP_NODE_REPORT_RESPONSE, PFCP_SESSION_SET_DELETION_RESPONSE,
     PFCP_SESSION_ESTABLISHMENT_RESPONSE, PFCP_SESSION_MODIFICATION_RESPONSE,
     PFCP_SESSION_DELETION_RESPONSE, PFCP_SESSION_REPORT_RESPONSE}"

definition rx_request :: "server_lib \<Rightarrow> 'u upper \<Rightarrow> pfcp_msg \<Rightarrow> 'u pfcp_server \<Rightarrow> 'u pfcp_server option" where
  "rx_request lib up msg s = (case psm_response_q s (m_request_key msg) of
     None \<Rightarrow> do { (r, s) \<leftarrow> upf_pfcp_handle_msg lib up msg s; Some s }
   | Some i \<Rightarrow> do {
       resp \<leftarrow> psm_msg_pool s i;
       restart_response_timer lib i (upf_pfcp_send_data lib resp s)
     })"

definition rx_response :: "server_lib \<Rightarrow> 'u upper \<Rightarrow> pfcp_msg \<Rightarrow> 'u pfcp_server \<Rightarrow> 'u pfcp_server option" where
  "rx_response lib up msg s = (case psm_request_q s (m_seq_no msg) of
     None \<Rightarrow> Some s
   | Some i \<Rightarrow> do {
       s \<leftarrow> upf_pfcp_server_stop_msg_timer i (s\<lparr>psm_request_q := (psm_request_q s)(m_seq_no msg := None)\<rparr>);
       req \<leftarrow> psm_msg_pool s i;
       s \<leftarrow> pfcp_msg_pool_put i s;
       (r, s) \<leftarrow> upf_pfcp_handle_msg lib up (msg\<lparr>m_node := m_node req\<rparr>) s;
       Some s
     })"

definition upf_pfcp_server_rx_msg ::
    "server_lib \<Rightarrow> 'u upper \<Rightarrow> pfcp_msg \<Rightarrow> 'u pfcp_server \<Rightarrow> (int \<times> 'u pfcp_server) option" where
  "upf_pfcp_server_rx_msg lib up msg s =
     (let len = length (m_data msg) in
      if len < 4 then Some (-1, s)
      else if \<not> pfcp_msg_version_valid (m_data msg) then
        Some (0, upf_pfcp_send_data lib (upf_pfcp_make_response zero_msg msg) s)
      else if \<not> pfcp_msg_enough_len (m_data msg) len then Some (-1, s)
      else
        let msg = msg\<lparr>m_node := INVALID, m_seq_no := pfcp_msg_seq (m_data msg)\<rparr>;
            type = pfcp_msg_type (m_data msg) in
        if is_request type then do { s \<leftarrow> rx_request lib up msg s; Some (0, s) }
        else if is_response type then do { s \<leftarrow> rx_response lib up msg s; Some (0, s) }
        else Some (0, s))"

section \<open>The process\<close>

text \<open>Events: a report of the data path carries the index and the CP-SEID of its session, and whether the
  session is to be dropped.\<close>

record upf_event_urr =
  ueh_session_idx :: nat
  ueh_cp_seid :: u64
  ueh_ue :: ip46_address
  ueh_drop_session :: bool
  uev_data :: "(u32 \<times> u32) list"

datatype pfcp_event = Event_Timeout | Event_RX "pfcp_msg list" | Event_TX "pfcp_msg list"
  | Event_URR "upf_event_urr list" | Event_PACK "(nat \<times> pfcp_decoded_msg) list"

definition event_rx :: "server_lib \<Rightarrow> 'u upper \<Rightarrow> pfcp_msg \<Rightarrow> 'u pfcp_server \<Rightarrow> 'u pfcp_server option" where
  "event_rx lib up msg s = do { (r, s) \<leftarrow> upf_pfcp_server_rx_msg lib up msg s; Some s }"

definition event_tx :: "server_lib \<Rightarrow> pfcp_msg \<Rightarrow> 'u pfcp_server \<Rightarrow> 'u pfcp_server option" where
  "event_tx lib tx s =
     (if gtm_nodes s (m_node tx) \<noteq> None then do {
        (i, s) \<leftarrow> pfcp_msg_pool_add lib tx s;
        upf_pfcp_server_send_request lib i s
      } else Some s)"

definition event_urr :: "'u upper \<Rightarrow> upf_event_urr \<Rightarrow> 'u pfcp_server \<Rightarrow> 'u pfcp_server option" where
  "event_urr up ev s = (case gtm_sessions s (ueh_session_idx ev) of
     None \<Rightarrow> Some s
   | Some sx \<Rightarrow>
       if sx_cp_seid sx \<noteq> ueh_cp_seid ev then Some s
       else if \<not> ueh_drop_session ev
       then up_session_usage_report up (ueh_session_idx ev) (ueh_ue ev) (uev_data ev) s
       else up_session_drop up (ueh_session_idx ev) s)"

text \<open>A session that is gone is the pointer \<^verbatim>\<open>NULL\<close>, which is not checked.\<close>

definition event_pack :: "server_lib \<Rightarrow> nat \<times> pfcp_decoded_msg \<Rightarrow> 'u pfcp_server \<Rightarrow> 'u pfcp_server option" where
  "event_pack lib ev s = do {
     sx \<leftarrow> gtm_sessions s (fst ev);
     upf_pfcp_server_send_session_request lib (fst ev) sx (snd ev) s
   }"

fun each :: "('a \<Rightarrow> 's \<Rightarrow> 's option) \<Rightarrow> 'a list \<Rightarrow> 's \<Rightarrow> 's option" where
  "each f [] s = Some s"
| "each f (x # xs) s = do { s \<leftarrow> f x s; each f xs s }"

fun handle_event :: "server_lib \<Rightarrow> 'u upper \<Rightarrow> pfcp_event \<Rightarrow> 'u pfcp_server \<Rightarrow> 'u pfcp_server option" where
  "handle_event lib up Event_Timeout s = Some s"
| "handle_event lib up (Event_RX ms) s = each (event_rx lib up) ms s"
| "handle_event lib up (Event_TX ms) s = each (event_tx lib) ms s"
| "handle_event lib up (Event_URR evs) s = each (event_urr up) evs s"
| "handle_event lib up (Event_PACK evs) s = each (event_pack lib) evs s"

text \<open>One expired timer; \<open>prev\<close> is the last session whose timers were looked at.\<close>

definition timer_expired ::
    "server_lib \<Rightarrow> 'u upper \<Rightarrow> nat \<Rightarrow> nat \<times> 'u pfcp_server \<Rightarrow> (nat \<times> 'u pfcp_server) option" where
  "timer_expired lib up e ls = (case ls of (prev, s) \<Rightarrow>
     if e = INVALID then Some (prev, s)
     else
       let t = drop_bit 24 e; n = take_bit 24 e in
       if t \<le> 0x7f then
         (if prev = e then Some (prev, s)
          else if gtm_sessions s (take_bit 31 e) = None then Some (e, s)
          else do { s \<leftarrow> up_session_urr_timer up (take_bit 31 e) s; Some (e, s) })
       else if t = 0x80 OR PFCP_SERVER_HB_TIMER then do { s \<leftarrow> upf_server_send_heartbeat lib n s; Some (prev, s) }
       else if t = 0x80 OR PFCP_SERVER_T1 then do { s \<leftarrow> request_t1_expired lib up (of_nat n) s; Some (prev, s) }
       else if t = 0x80 OR PFCP_SERVER_RESPONSE then do { s \<leftarrow> response_expired n s; Some (prev, s) }
       else Some (prev, s))"

definition nth_expired ::
    "server_lib \<Rightarrow> 'u upper \<Rightarrow> nat \<Rightarrow> nat \<times> 'u pfcp_server \<Rightarrow> (nat \<times> 'u pfcp_server) option" where
  "nth_expired lib up k ls =
     (if k < length (psm_expired (snd ls)) then timer_expired lib up (psm_expired (snd ls) ! k) ls else Some ls)"

definition handle_expired :: "server_lib \<Rightarrow> 'u upper \<Rightarrow> 'u pfcp_server \<Rightarrow> 'u pfcp_server option" where
  "handle_expired lib up s =
     (let s = s\<lparr>psm_expired := sort (psm_expired s)\<rparr> in
      map_option snd (each (nth_expired lib up) [0..<length (psm_expired s)] (INVALID, s)))"

text \<open>Messages of associations that were released, and messages whose timer did not fire.\<close>

definition free_msg :: "nat \<Rightarrow> 'u pfcp_server \<Rightarrow> 'u pfcp_server option" where
  "free_msg i s = do {
     m \<leftarrow> psm_msg_pool s i;
     if \<not> m_is_valid_pool_item m then Some s
     else if m_node m \<notin> set (psm_free_msgs_by_node s)
       \<and> \<not> psm_now s > m_expires_at m + TW_CLOCKS_PER_SECOND then Some s
     else do {
       s \<leftarrow> upf_pfcp_server_stop_msg_timer i (s\<lparr>
              psm_request_q := (psm_request_q s)(m_seq_no m := None),
              psm_response_q := (psm_response_q s)(m_request_key m := None)\<rparr>);
       pfcp_msg_pool_put i s
     }
   }"

definition free_msgs :: "'u pfcp_server \<Rightarrow> 'u pfcp_server option" where
  "free_msgs s = each free_msg (filter (\<lambda>i. psm_msg_pool s i \<noteq> None) [0..<psm_msg_pool_len s]) s"

text \<open>One round of the loop of \<^verbatim>\<open>pfcp_process\<close>, at the time \<open>now\<close> and with the events of one type.\<close>

definition pfcp_process :: "server_lib \<Rightarrow> 'u upper \<Rightarrow> nat \<Rightarrow> pfcp_event \<Rightarrow> 'u pfcp_server \<Rightarrow> 'u pfcp_server option" where
  "pfcp_process lib up now ev s =
     (let s = tw_timer_expire_timers_vec ((pfcp_msg_pool_loop_start s)\<lparr>psm_now := now\<rparr>) in
      do {
        s \<leftarrow> handle_event lib up ev s;
        s \<leftarrow> handle_expired lib up s;
        s \<leftarrow> free_msgs s;
        Some (s\<lparr>psm_expired := [], psm_free_msgs_by_node := []\<rparr>)
      })"

end
