(* ===== verification/Pfcp_Transactions.thy ===== *)
theory Pfcp_Transactions
  imports Pfcp_Server
begin

text \<open>
  Lemmas on the PFCP transaction layer: what sending a response leaves behind, the answer to a repeated
  request, the life of a request, and the table of associations as a map from node ids.
\<close>

named_theorems server_defs \<open>the primitives of the transaction layer\<close>

declare put_msg_def [server_defs] tw_timer_start_def [server_defs] tw_timer_stop_def [server_defs]
  upf_pfcp_server_start_timer_def [server_defs]
  upf_pfcp_server_deferred_free_msgs_by_node_def [server_defs] update_node_def [server_defs]

definition dgram_of :: "pfcp_msg \<Rightarrow> bytes \<Rightarrow> dgram" where
  "dgram_of m bs = \<lparr>dg_session_handle = m_session_handle m, dg_lcl_ip = m_lcl_address m,
     dg_lcl_port = m_lcl_port m, dg_rmt_ip = m_rmt_address m, dg_rmt_port = m_rmt_port m, dg_data = bs\<rparr>"

definition transmit :: "server_lib \<Rightarrow> pfcp_msg \<Rightarrow> bytes \<Rightarrow> dgram list" where
  "transmit lib m bs = (if svr_session_valid lib (m_session_handle m) then [dgram_of m bs] else [])"

text \<open>The parts of the state that a response and its timer do not concern.\<close>

definition same_tables :: "'u pfcp_server \<Rightarrow> 'u pfcp_server \<Rightarrow> bool" where
  "same_tables s s' \<longleftrightarrow> gtm_nodes s' = gtm_nodes s \<and> gtm_node_index_by_ip s' = gtm_node_index_by_ip s
     \<and> gtm_node_index_by_fqdn s' = gtm_node_index_by_fqdn s \<and> gtm_sessions s' = gtm_sessions s
     \<and> gtm_user s' = gtm_user s \<and> psm_request_q s' = psm_request_q s \<and> psm_seq_no s' = psm_seq_no s
     \<and> psm_start_time s' = psm_start_time s \<and> gtm_node_id s' = gtm_node_id s \<and> psm_now s' = psm_now s"

lemma same_tables_refl [simp]: "same_tables s s"
  by (simp add: same_tables_def)

lemma same_tables_trans: "same_tables s t \<Longrightarrow> same_tables t u \<Longrightarrow> same_tables s u"
  by (simp add: same_tables_def)

lemma send_data_eq: "upf_pfcp_send_data lib m s = s\<lparr>sent := sent s @ transmit lib m (m_data m)\<rparr>"
  by (simp add: upf_pfcp_send_data_def transmit_def dgram_of_def)

declare send_data_eq [server_defs]

text \<open>Elements in the cache of free messages are allocated.\<close>

definition cache_ok :: "'u pfcp_server \<Rightarrow> bool" where
  "cache_ok s \<longleftrightarrow> (\<forall>i\<in>set (psm_msg_pool_cache s). psm_msg_pool s i \<noteq> None)"

lemma pool_get:
  assumes "cache_ok s"
  obtains i n c l where "set c \<subseteq> set (psm_msg_pool_cache s)"
    "pfcp_msg_pool_get lib s = Some (i, put_msg i (zero_msg\<lparr>m_is_valid_pool_item := True, m_node := n\<rparr>)
       (s\<lparr>psm_msg_pool_cache := c, psm_msg_pool_len := l\<rparr>))"
proof (cases "psm_msg_pool_cache s = []")
  case True
  then show ?thesis
    by (intro that [of "[]" "svr_pool_index lib (dom (psm_msg_pool s))" 0
          "max (psm_msg_pool_len s) (Suc (svr_pool_index lib (dom (psm_msg_pool s))))"])
      (cases s; simp add: pfcp_msg_pool_get_def Let_def zero_msg_def)+
next
  case False
  with assms have "psm_msg_pool s (last (psm_msg_pool_cache s)) \<noteq> None" unfolding cache_ok_def by simp
  then obtain m where "psm_msg_pool s (last (psm_msg_pool_cache s)) = Some m" by blast
  with False show ?thesis
    by (intro that [of "butlast (psm_msg_pool_cache s)" _ INVALID "psm_msg_pool_len s"])
      (auto simp: pfcp_msg_pool_get_def Let_def zero_msg_def init_pfcp_msg_def dest: in_set_butlastD)
qed

lemma send_response:
  assumes "pfcp_encode_msg (svr_vlib lib) (dmsg\<lparr>dmsg_seq_no := pfcp_msg_seq (m_data req)\<rparr>) = Done bs"
    and "cache_ok s"
  obtains i m s' where "upf_pfcp_send_response lib req dmsg s = Some (0, s')"
    "sent s' = sent s @ transmit lib req bs"
    "psm_response_q s' = (psm_response_q s)(m_request_key req \<mapsto> i)"
    "psm_msg_pool s' i = Some m" "m_data m = bs" "dgram_of m = dgram_of req" "m_is_valid_pool_item m"
    "m_request_key m = m_request_key req" "same_tables s s'" "cache_ok s'" "psm_expired s' = psm_expired s"
proof -
  from assms(2) obtain i n c l where c: "set c \<subseteq> set (psm_msg_pool_cache s)"
    and get: "pfcp_msg_pool_get lib s = Some (i, put_msg i (zero_msg\<lparr>m_is_valid_pool_item := True, m_node := n\<rparr>)
       (s\<lparr>psm_msg_pool_cache := c, psm_msg_pool_len := l\<rparr>))"
    by (rule pool_get)
  define h where "h = svr_pool_index lib (fst ` set (psm_timer s))"
  define m where "m = (upf_pfcp_make_response (zero_msg\<lparr>m_is_valid_pool_item := True, m_node := n\<rparr>) req)
    \<lparr>m_data := bs, m_timer := h, m_expires_at := psm_now s + RESPONSE_TIMEOUT * TW_CLOCKS_PER_SECOND\<rparr>"
  have "upf_pfcp_send_response lib req dmsg s = Some (0, s\<lparr>psm_msg_pool_cache := c, psm_msg_pool_len := l,
      sent := sent s @ transmit lib req bs, psm_response_q := (psm_response_q s)(m_request_key req \<mapsto> i),
      psm_timer := psm_timer s @ [(h, timer_id PFCP_SERVER_RESPONSE i, psm_now s + RESPONSE_TIMEOUT * TW_CLOCKS_PER_SECOND)],
      psm_msg_pool := (psm_msg_pool s)(i \<mapsto> m)\<rparr>)"
    using assms(1) by (simp add: upf_pfcp_send_response_def get encoded_def upf_pfcp_make_response_def
        enqueue_response_def start_response_timer_def server_defs dgram_of_def transmit_def Let_def
        m_request_key_def m_def h_def)
  then show ?thesis
    by (rule that [of _ i m]) (use c assms(2) in \<open>auto simp: m_def upf_pfcp_make_response_def same_tables_def
        dgram_of_def m_request_key_def cache_ok_def fun_eq_iff zero_msg_def\<close>)
qed

section \<open>Repeated requests\<close>

text \<open>What is received is passed on with its sequence number and without a node.\<close>

definition received :: "pfcp_msg \<Rightarrow> pfcp_msg" where
  "received msg = msg\<lparr>m_node := INVALID, m_seq_no := pfcp_msg_seq (m_data msg)\<rparr>"

lemma received_simps [simp]:
  "m_data (received msg) = m_data msg" "dgram_of (received msg) = dgram_of msg"
  "transmit lib (received msg) = transmit lib msg" "m_session_handle (received msg) = m_session_handle msg"
  "m_lcl_address (received msg) = m_lcl_address msg" "m_rmt_address (received msg) = m_rmt_address msg"
  by (simp_all add: received_def dgram_of_def transmit_def fun_eq_iff)

definition accepted_request :: "pfcp_msg \<Rightarrow> bool" where
  "accepted_request msg \<longleftrightarrow> 4 \<le> length (m_data msg) \<and> pfcp_msg_version_valid (m_data msg)
     \<and> pfcp_msg_enough_len (m_data msg) (length (m_data msg)) \<and> is_request (pfcp_msg_type (m_data msg))"

lemma rx_accepted:
  "accepted_request msg \<Longrightarrow> upf_pfcp_server_rx_msg lib up msg s =
     map_option (Pair 0) (rx_request lib up (received msg) s)"
  by (auto simp: upf_pfcp_server_rx_msg_def accepted_request_def received_def Let_def split: Option.bind_split)

lemma stop_msg_timer:
  assumes "psm_msg_pool s i = Some m"
  obtains s' where "upf_pfcp_server_stop_msg_timer i s = Some s'" "psm_msg_pool s' = (psm_msg_pool s)(i \<mapsto> m\<lparr>m_timer := INVALID\<rparr>)"
    "same_tables s s'" "sent s' = sent s" "psm_response_q s' = psm_response_q s"
    "psm_msg_pool_cache s' = psm_msg_pool_cache s" "set (psm_timer s') \<subseteq> set (psm_timer s)"
    "psm_free_msgs_by_node s' = psm_free_msgs_by_node s" "psm_msg_pool_free s' = psm_msg_pool_free s"
    "psm_msg_pool_len s' = psm_msg_pool_len s"
proof (cases "m_timer m = INVALID")
  case True
  with assms have "psm_msg_pool s = (psm_msg_pool s)(i \<mapsto> m\<lparr>m_timer := INVALID\<rparr>)" by (auto simp: fun_eq_iff)
  with True assms show ?thesis by (intro that [of s]) (auto simp: upf_pfcp_server_stop_msg_timer_def)
next
  case False
  then show ?thesis
    by (intro that [of "the (upf_pfcp_server_stop_msg_timer i s)"])
      (use assms in \<open>auto simp: upf_pfcp_server_stop_msg_timer_def Let_def server_defs same_tables_def\<close>)
qed

lemma rx_repeated:
  assumes "psm_response_q s (m_request_key msg) = Some i" "psm_msg_pool s i = Some m"
  obtains s' where "rx_request lib up msg s = Some s'" "sent s' = sent s @ transmit lib m (m_data m)"
    "same_tables s s'" "psm_response_q s' = psm_response_q s"
    "\<exists>t e. psm_msg_pool s' = (psm_msg_pool s)(i \<mapsto> m\<lparr>m_timer := t, m_expires_at := e\<rparr>)"
    "psm_msg_pool_cache s' = psm_msg_pool_cache s"
proof -
  let ?s = "upf_pfcp_send_data lib m s"
  from assms(2) have "psm_msg_pool ?s i = Some m" by (simp add: send_data_eq)
  then obtain t where t: "upf_pfcp_server_stop_msg_timer i ?s = Some t"
    "psm_msg_pool t = (psm_msg_pool ?s)(i \<mapsto> m\<lparr>m_timer := INVALID\<rparr>)"
    "same_tables ?s t" "sent t = sent ?s" "psm_response_q t = psm_response_q ?s"
    "psm_msg_pool_cache t = psm_msg_pool_cache ?s"
    by (rule stop_msg_timer)
  with assms have "rx_request lib up msg s = Some (snd (the (map_option (Pair ()) (start_response_timer lib i t))))"
    by (simp add: rx_request_def restart_response_timer_def start_response_timer_def server_defs Let_def)
  then show ?thesis
    by (rule that) (use t assms in \<open>auto simp: start_response_timer_def server_defs Let_def same_tables_def send_data_eq
        intro!: exI\<close>)
qed

section \<open>The life of a request\<close>

lemma send_request:
  assumes "psm_msg_pool s i = Some m"
  obtains s' m' where "upf_pfcp_server_send_request lib i s = Some s'"
    "psm_timer s' = psm_timer s @ [(m_timer m', timer_id PFCP_SERVER_T1 (unat (m_seq_no m)), psm_now s + 10 * TW_CLOCKS_PER_SECOND)]"
    "m_t1 m' = 10"
    "psm_request_q s' = (psm_request_q s)(m_seq_no m \<mapsto> i)" "psm_msg_pool s' = (psm_msg_pool s)(i \<mapsto> m')"
    "m_n1 m' = 3" "m_data m' = m_data m" "dgram_of m' = dgram_of m" "m_seq_no m' = m_seq_no m" "m_node m' = m_node m"
    "sent s' = sent s @ transmit lib m (m_data m)" "gtm_nodes s' = gtm_nodes s"
proof -
  let ?m = "m\<lparr>m_n1 := 3, m_t1 := 10, m_timer := svr_pool_index lib (fst ` set (psm_timer s)),
    m_expires_at := psm_now s + 10 * TW_CLOCKS_PER_SECOND\<rparr>"
  from assms show ?thesis
    by (intro that [of _ ?m]) (auto simp: upf_pfcp_server_send_request_def enqueue_request_def server_defs
        Let_def dgram_of_def transmit_def fun_eq_iff)
qed

lemma t1_resend:
  assumes "psm_request_q s q = Some i" "psm_msg_pool s i = Some m" "m_n1 m - 1 \<noteq> 0"
  obtains s' m' where "request_t1_expired lib up q s = Some s'"
    "psm_timer s' = psm_timer s @ [(m_timer m', timer_id PFCP_SERVER_T1 (unat (m_seq_no m)), psm_now s + m_t1 m * TW_CLOCKS_PER_SECOND)]"
    "m_t1 m' = m_t1 m" "psm_request_q s' = psm_request_q s"
    "psm_msg_pool s' = (psm_msg_pool s)(i \<mapsto> m')" "m_n1 m' = m_n1 m - 1" "m_data m' = m_data m"
    "dgram_of m' = dgram_of m" "m_seq_no m' = m_seq_no m" "m_node m' = m_node m"
    "sent s' = sent s @ transmit lib m (m_data m)" "gtm_nodes s' = gtm_nodes s"
proof -
  let ?m = "m\<lparr>m_n1 := m_n1 m - 1, m_timer := svr_pool_index lib (fst ` set (psm_timer s)),
    m_expires_at := psm_now s + m_t1 m * TW_CLOCKS_PER_SECOND\<rparr>"
  from assms show ?thesis
    by (intro that [of _ ?m]) (auto simp: request_t1_expired_def server_defs Let_def dgram_of_def
        transmit_def fun_eq_iff)
qed

text \<open>The begin of a round of the process at the time \<open>now\<close>: the vector of expired timers was emptied at the end
  of the last round, and the wheel is run.\<close>

definition next_round :: "nat \<Rightarrow> 'u pfcp_server \<Rightarrow> 'u pfcp_server" where
  "next_round now s = tw_timer_expire_timers_vec (s\<lparr>psm_now := now, psm_expired := []\<rparr>)"

lemma next_round_simps [simp]:
  "psm_request_q (next_round n s) = psm_request_q s" "psm_msg_pool (next_round n s) = psm_msg_pool s"
  "sent (next_round n s) = sent s" "gtm_nodes (next_round n s) = gtm_nodes s" "psm_now (next_round n s) = n"
  "psm_msg_pool_free (next_round n s) = psm_msg_pool_free s"
  by (simp_all add: next_round_def tw_timer_expire_timers_vec_def)

text \<open>The timers with a given user id.\<close>

definition runs :: "nat \<Rightarrow> 'u pfcp_server \<Rightarrow> bool" where
  "runs e s \<longleftrightarrow> e \<in> (fst \<circ> snd) ` set (psm_timer s)"

lemma expires_at:
  assumes "\<not> runs e s" "psm_timer s' = psm_timer s @ [(h, e, at)]"
  shows "e \<in> set (psm_expired (next_round n s')) \<longleftrightarrow> at \<le> n" "at \<le> n \<Longrightarrow> \<not> runs e (next_round n s')"
  using assms by (auto simp: runs_def next_round_def tw_timer_expire_timers_vec_def image_iff)

text \<open>When the last transmission was not answered, the message is given back, and the association of a
  heartbeat is released.\<close>

definition give_up :: "nat \<Rightarrow> pfcp_msg \<Rightarrow> 'u pfcp_server \<Rightarrow> 'u pfcp_server" where
  "give_up i m s = s\<lparr>psm_request_q := (psm_request_q s)(m_seq_no m := None),
     psm_msg_pool_free := psm_msg_pool_free s @ [i],
     psm_msg_pool := (psm_msg_pool s)(i \<mapsto> m\<lparr>m_n1 := 0, m_data := [], m_is_valid_pool_item := False\<rparr>)\<rparr>"

lemma t1_give_up:
  assumes "psm_request_q s q = Some i" "psm_msg_pool s i = Some m" "m_n1 m = 1" "2 \<le> length (m_data m)"
  shows "request_t1_expired lib up q s =
    (if pfcp_msg_type (m_data m) = PFCP_HEARTBEAT_REQUEST \<and> gtm_nodes s (m_node m) \<noteq> None
     then pfcp_release_association up (m_node m) (give_up i m s) else Some (give_up i m s))"
  using assms by (auto simp: request_t1_expired_def pfcp_msg_pool_put_def server_defs give_up_def Let_def)

lemma timer_id_parts:
  assumes "n < 2 ^ 24"
  shows "drop_bit 24 (timer_id t n) = 0x80 OR t" "take_bit 24 (timer_id t n) = n"
proof -
  have "drop_bit 24 n = 0" "take_bit 24 n = n" "drop_bit 24 (push_bit 24 t) = t"
    using assms by (simp_all add: drop_bit_eq_div push_bit_eq_mult take_bit_nat_eq_self)
  then show "drop_bit 24 (timer_id t n) = 0x80 OR t" "take_bit 24 (timer_id t n) = n"
    by (simp_all add: timer_id_def drop_bit_or take_bit_or take_bit_push_bit)
qed

lemma timer_id_valid:
  assumes "n < 2 ^ 24" "t \<in> {PFCP_SERVER_HB_TIMER, PFCP_SERVER_T1, PFCP_SERVER_RESPONSE}"
  shows "timer_id t n \<noteq> INVALID"
proof
  assume "timer_id t n = INVALID"
  from timer_id_parts(1) [OF assms(1), of t] this have "drop_bit 24 (INVALID :: nat) = 0x80 OR t" by simp
  with assms(2) show False by (auto simp: drop_bit_eq_div)
qed

lemma timer_id_eq_iff:
  assumes "n < 2 ^ 24" "k < 2 ^ 24"
  shows "timer_id t n = timer_id u k \<longleftrightarrow> 0x80 OR t = 0x80 OR u \<and> n = k"
  by (metis assms timer_id_def timer_id_parts)

lemma unat_seq: "take_bit 24 (q :: u32) = q \<Longrightarrow> unat q < 2 ^ 24"
  by (metis take_bit_nat_less_exp unsigned_take_bit_eq)

lemma timer_dispatch:
  assumes "n < 2 ^ 24"
  shows "timer_expired lib up (timer_id PFCP_SERVER_HB_TIMER n) (prev, s) =
      map_option (Pair prev) (upf_server_send_heartbeat lib n s)"
    and "timer_expired lib up (timer_id PFCP_SERVER_T1 n) (prev, s) =
      map_option (Pair prev) (request_t1_expired lib up (of_nat n) s)"
    and "timer_expired lib up (timer_id PFCP_SERVER_RESPONSE n) (prev, s) =
      map_option (Pair prev) (response_expired n s)"
  using timer_id_valid [OF assms] timer_id_parts [OF assms]
  by (simp_all add: timer_expired_def Let_def bind_eq_Some_conv map_option_case split: Option.bind_split option.split)

section \<open>Associations\<close>

text \<open>The interface that the association handlers rely on: a table whose entries are found by a key, can be
  removed if their removal is possible, added under a key that is not taken, and modified in place. Replacing an entry, as a second
  association setup does, is then an update of a map.\<close>

locale keyed_table =
  fixes valid :: "'s \<Rightarrow> bool"
    and table :: "'s \<Rightarrow> 'k \<Rightarrow> 'v option"
    and key :: "'v \<Rightarrow> 'k option"
    and find :: "'k \<Rightarrow> 's \<Rightarrow> 'i option"
    and removable :: "'i \<Rightarrow> 's \<Rightarrow> bool"
    and remove :: "'i \<Rightarrow> 's \<Rightarrow> 's option"
    and add :: "'a \<Rightarrow> 's \<Rightarrow> 'i \<times> 's"
    and entry :: "'a \<Rightarrow> 'v"
    and modify :: "'i \<Rightarrow> ('v \<Rightarrow> 'v) \<Rightarrow> 's \<Rightarrow> 's"
  assumes find_None: "valid s \<Longrightarrow> find k s = None \<longleftrightarrow> table s k = None"
    and remove_table: "valid s \<Longrightarrow> find k s = Some i \<Longrightarrow> removable i s \<Longrightarrow>
      \<exists>s'. remove i s = Some s' \<and> valid s' \<and> table s' = (table s)(k := None)"
    and add_table: "valid s \<Longrightarrow> key (entry a) = Some k \<Longrightarrow> table s k = None \<Longrightarrow> add a s = (i, s') \<Longrightarrow>
      valid s' \<and> find k s' = Some i \<and> table s' = (table s)(k \<mapsto> entry a)"
    and modify_table: "valid s \<Longrightarrow> find k s = Some i \<Longrightarrow> (\<And>v. key (f v) = key v) \<Longrightarrow>
      valid (modify i f s) \<and> find k (modify i f s) = Some i
      \<and> table (modify i f s) = (table s)(k := map_option f (table s k))"
begin

lemma replace:
  assumes "valid s" "key (entry a) = Some k" "\<And>i. find k s = Some i \<Longrightarrow> removable i s"
    and "(case find k s of Some i \<Rightarrow> remove i s | None \<Rightarrow> Some s) = Some t" "add a t = (i, u)"
  shows "valid u" "find k u = Some i" "table u = (table s)(k \<mapsto> entry a)"
proof -
  have t: "valid t \<and> table t = (table s)(k := None)"
  proof (cases "find k s")
    case None
    with assms find_None [of s k] show ?thesis by auto
  next
    case (Some j)
    with assms remove_table [of s k j] show ?thesis by auto
  qed
  with add_table [of t a k i u] assms(2,5) show "valid u" "find k u = Some i" "table u = (table s)(k \<mapsto> entry a)"
    by auto
qed

end

datatype node_key = By_ip ip46_address | By_fqdn bytes

definition node_key :: "pfcp_node_id \<Rightarrow> node_key option" where
  "node_key nid = (if nid_type nid = NID_IPv4 \<or> nid_type nid = NID_IPv6 then Some (By_ip (nid_ip nid))
     else if nid_type nid = NID_FQDN then Some (By_fqdn (nid_fqdn nid)) else None)"

fun node_index :: "node_key \<Rightarrow> 'u pfcp_server \<Rightarrow> nat option" where
  "node_index (By_ip a) s = gtm_node_index_by_ip s a"
| "node_index (By_fqdn n) s = gtm_node_index_by_fqdn s n"

definition associations :: "'u pfcp_server \<Rightarrow> node_key \<Rightarrow> upf_node_assoc option" where
  "associations s k = Option.bind (node_index k s) (gtm_nodes s)"

text \<open>The two indices and the pool of associations agree.\<close>

definition assoc_inv :: "'u pfcp_server \<Rightarrow> bool" where
  "assoc_inv s \<longleftrightarrow> finite (dom (gtm_nodes s))
     \<and> (\<forall>k ni. node_index k s = Some ni \<longleftrightarrow> (\<exists>n. gtm_nodes s ni = Some n \<and> node_key (na_node_id n) = Some k))"

definition fresh_index :: "server_lib \<Rightarrow> bool" where
  "fresh_index lib \<longleftrightarrow> (\<forall>A. finite A \<longrightarrow> svr_pool_index lib A \<notin> A)"

definition user_plane_config ::
    "'u pfcp_server \<Rightarrow> nat \<times> upf_upip_res list \<times> (nat \<rightharpoonup> bytes) \<times> upf_ue_ip_pool_info list" where
  "user_plane_config s = (gtm_pfcp_spec_version s, gtm_upip_res s, gtm_nwi_name s, gtm_ueip_pools s)"

text \<open>Releasing the sessions of an association leaves the other associations, the indices and the
  configuration alone.\<close>

definition release_frame :: "nat \<Rightarrow> 'u pfcp_server \<Rightarrow> 'u pfcp_server \<Rightarrow> bool" where
  "release_frame ni s s' \<longleftrightarrow> (\<forall>j. j \<noteq> ni \<longrightarrow> gtm_nodes s' j = gtm_nodes s j)
     \<and> gtm_node_index_by_ip s' = gtm_node_index_by_ip s \<and> gtm_node_index_by_fqdn s' = gtm_node_index_by_fqdn s
     \<and> cache_ok s' = cache_ok s \<and> psm_response_q s' = psm_response_q s
     \<and> user_plane_config s' = user_plane_config s"

definition drop_index :: "pfcp_node_id \<Rightarrow> 'u pfcp_server \<Rightarrow> 'u pfcp_server" where
  "drop_index nid s =
     (if nid_type nid = NID_IPv4 \<or> nid_type nid = NID_IPv6
      then s\<lparr>gtm_node_index_by_ip := (gtm_node_index_by_ip s)(nid_ip nid := None)\<rparr>
      else if nid_type nid = NID_FQDN
      then s\<lparr>gtm_node_index_by_fqdn := (gtm_node_index_by_fqdn s)(nid_fqdn nid := None)\<rparr>
      else s)"

text \<open>The session layer releases the sessions of an association whose node id is no longer indexed.\<close>

definition release_ok :: "'u upper \<Rightarrow> nat \<Rightarrow> 'u pfcp_server \<Rightarrow> bool" where
  "release_ok up ni s \<longleftrightarrow> (\<forall>n. gtm_nodes s ni = Some n \<longrightarrow>
     (\<exists>u. up_release_sessions up ni (drop_index (na_node_id n) s) = Some u
        \<and> release_frame ni (drop_index (na_node_id n) s) u))"

lemma pfcp_get_association_key: "node_key nid = Some k \<Longrightarrow> pfcp_get_association nid s = node_index k s"
  by (auto simp: node_key_def pfcp_get_association_def split: if_splits)

lemma gtm_nodes_update_node [simp]:
  "gtm_nodes (update_node ni f s) = (gtm_nodes s)(ni := map_option f (gtm_nodes s ni))"
  by (simp add: update_node_def)

lemma node_index_update_node [simp]: "node_index k (update_node ni f s) = node_index k s"
  by (cases k) (simp_all add: update_node_def)

lemma assoc_invD:
  "assoc_inv s \<Longrightarrow> node_index k s = Some ni \<Longrightarrow> \<exists>n. gtm_nodes s ni = Some n \<and> node_key (na_node_id n) = Some k"
  by (auto simp: assoc_inv_def)

lemma assoc_inv_iff:
  "assoc_inv s \<Longrightarrow> node_index k s = Some ni \<longleftrightarrow> (\<exists>n. gtm_nodes s ni = Some n \<and> node_key (na_node_id n) = Some k)"
  by (simp add: assoc_inv_def)

lemma assoc_inv_finite: "assoc_inv s \<Longrightarrow> finite (dom (gtm_nodes s))"
  by (simp add: assoc_inv_def)

lemma associations_entry:
  assumes "assoc_inv s" "node_index k s = Some ni"
  shows "associations s k = gtm_nodes s ni"
  using assms by (simp add: associations_def)

lemma update_node_associations:
  assumes "assoc_inv s" "node_index k s = Some ni" "\<And>n. node_key (na_node_id (f n)) = node_key (na_node_id n)"
  shows "assoc_inv (update_node ni f s)"
    "associations (update_node ni f s) = (associations s)(k := map_option f (associations s k))"
proof -
  have dom: "dom (gtm_nodes (update_node ni f s)) = dom (gtm_nodes s)"
    by (auto split: if_splits)
  have "node_index k' (update_node ni f s) = Some ni' \<longleftrightarrow>
      (\<exists>n. gtm_nodes (update_node ni f s) ni' = Some n \<and> node_key (na_node_id n) = Some k')" for k' ni'
    using assoc_inv_iff [OF assms(1), of k' ni'] by (auto simp: assms(3))
  with dom show "assoc_inv (update_node ni f s)"
    using assoc_inv_finite [OF assms(1)] by (simp add: assoc_inv_def)
  have k: "k' = k" if "node_index k' s = Some ni" for k'
    using assoc_invD [OF assms(1) that] assoc_invD [OF assms(1,2)] by auto
  have "associations (update_node ni f s) k' = ((associations s)(k := map_option f (associations s k))) k'" for k'
    using assms(2) k [of k'] by (cases "node_index k' s") (auto simp: associations_def)
  then show "associations (update_node ni f s) = (associations s)(k := map_option f (associations s k))" by blast
qed

lemma drop_index:
  "node_index k (drop_index nid s) = (if node_key nid = Some k then None else node_index k s)"
  "gtm_nodes (drop_index nid s) = gtm_nodes s" "cache_ok (drop_index nid s) = cache_ok s"
  "psm_response_q (drop_index nid s) = psm_response_q s"
  "user_plane_config (drop_index nid s) = user_plane_config s"
  by (cases k; auto simp: drop_index_def node_key_def cache_ok_def user_plane_config_def)+

lemma release_cases:
  assumes "release_ok up ni s" "gtm_nodes s ni = Some n"
  obtains u s' where "up_release_sessions up ni (drop_index (na_node_id n) s) = Some u"
    "pfcp_release_association up ni s = Some s'" "gtm_user s' = gtm_user u"
    "gtm_nodes s' = (gtm_nodes s)(ni := None)"
    "\<And>k. node_index k s' = (if node_key (na_node_id n) = Some k then None else node_index k s)"
    "cache_ok s' = cache_ok s" "psm_response_q s' = psm_response_q s"
    "user_plane_config s' = user_plane_config s"
proof -
  let ?s = "drop_index (na_node_id n) s"
  from assms obtain u where u: "up_release_sessions up ni ?s = Some u" and frame: "release_frame ni ?s u"
    by (auto simp: release_ok_def)
  define s' where "s' = (upf_pfcp_server_deferred_free_msgs_by_node ni u)\<lparr>gtm_nodes := (gtm_nodes u)(ni := None)\<rparr>"
  have rel: "pfcp_release_association up ni s = Some s'"
    using u assms(2) by (auto simp: pfcp_release_association_def drop_index_def Let_def server_defs s'_def)
  have i: "node_index k u = node_index k ?s" for k using frame by (cases k) (simp_all add: release_frame_def)
  have r: "\<forall>j. j \<noteq> ni \<longrightarrow> gtm_nodes u j = gtm_nodes s j" "cache_ok u = cache_ok s" "psm_response_q u = psm_response_q s"
    "user_plane_config u = user_plane_config s"
    using frame by (simp_all add: release_frame_def drop_index)
  have "gtm_nodes s' = (gtm_nodes s)(ni := None)" "cache_ok s' = cache_ok s" "psm_response_q s' = psm_response_q s"
    "user_plane_config s' = user_plane_config s" "gtm_user s' = gtm_user u"
    using r by (auto simp: s'_def fun_eq_iff cache_ok_def server_defs user_plane_config_def)
  moreover have "node_index k s' = node_index k u" for k by (cases k) (simp_all add: s'_def server_defs)
  then have "node_index k s' = (if node_key (na_node_id n) = Some k then None else node_index k s)" for k
    by (simp add: i drop_index)
  ultimately show thesis using that u rel by blast
qed

lemma release_associations:
  assumes "assoc_inv s" "release_ok up ni s" "node_index k s = Some ni"
  obtains s' where "pfcp_release_association up ni s = Some s'"
    "assoc_inv s'" "associations s' = (associations s)(k := None)"
proof -
  from assms(1,3) obtain n where n: "gtm_nodes s ni = Some n" "node_key (na_node_id n) = Some k"
    using assoc_invD by blast
  from assms(2) n(1) obtain s' where s': "pfcp_release_association up ni s = Some s'"
    and nodes: "gtm_nodes s' = (gtm_nodes s)(ni := None)"
    and key: "\<And>k'. node_index k' s' = (if node_key (na_node_id n) = Some k' then None else node_index k' s)"
    by (rule release_cases) blast
  have idx: "node_index k' s' = (if k' = k then None else node_index k' s)" for k'
    using key n(2) by auto
  have other: "k' = k" if "node_index k' s = Some ni" for k'
    using assoc_invD [OF assms(1) that] n by auto
  have "node_index k' s' = Some ni' \<longleftrightarrow>
      (\<exists>n. gtm_nodes s' ni' = Some n \<and> node_key (na_node_id n) = Some k')" for k' ni'
  proof (cases "k' = k")
    case True
    with assms(3) show ?thesis by (auto simp: idx nodes dest: assoc_inv_iff [OF assms(1), THEN iffD2, OF exI, OF conjI])
  next
    case False
    then show ?thesis using other [of k'] assoc_inv_iff [OF assms(1), of k' ni'] n by (auto simp: idx nodes)
  qed
  then have "assoc_inv s'"
    using assoc_inv_finite [OF assms(1)] by (simp add: assoc_inv_def nodes)
  moreover have "associations s' k' = ((associations s)(k := None)) k'" for k'
    using other [of k'] by (cases "node_index k' s") (auto simp: associations_def idx nodes)
  then have "associations s' = (associations s)(k := None)" by blast
  ultimately show thesis using that s' by blast
qed

lemma new_association:
  assumes "assoc_inv s" "fresh_index lib" "node_key nid = Some k" "associations s k = None"
    and "pfcp_new_association lib h l r nid s = (ni, s')"
  shows "assoc_inv s'" "node_index k s' = Some ni"
    "associations s' = (associations s)(k \<mapsto> \<lparr>na_node_id = nid, na_recovery_time_stamp = 0,
       na_session_handle = h, na_rmt_addr = r, na_lcl_addr = l, na_sessions = INVALID, na_heartbeat_handle = 0\<rparr>)"
proof -
  let ?n = "\<lparr>na_node_id = nid, na_recovery_time_stamp = 0,
       na_session_handle = h, na_rmt_addr = r, na_lcl_addr = l, na_sessions = INVALID, na_heartbeat_handle = 0\<rparr>"
  have ni: "gtm_nodes s ni = None"
    using assms(1,2,5) by (auto simp: assoc_inv_def fresh_index_def pfcp_new_association_def Let_def)
  have k: "node_index k s = None"
    using assms(1,4) by (auto simp: associations_def dest: assoc_invD split: Option.bind_splits)
  have idx: "node_index k' s' = (if k' = k then Some ni else node_index k' s)" for k'
    using assms(3,5) by (cases k') (auto simp: pfcp_new_association_def node_key_def Let_def split: if_splits)
  have nodes: "gtm_nodes s' = (gtm_nodes s)(ni \<mapsto> ?n)"
    using assms(5) by (auto simp: pfcp_new_association_def Let_def split: if_splits)
  have "node_index k' s' = Some ni' \<longleftrightarrow>
      (\<exists>n. gtm_nodes s' ni' = Some n \<and> node_key (na_node_id n) = Some k')" for k' ni'
    using assoc_inv_iff [OF assms(1), of k' ni'] assoc_inv_iff [OF assms(1), of k' ni] assms(3) ni k
    by (auto simp: idx nodes)
  then show "assoc_inv s'"
    using assoc_inv_finite [OF assms(1)] by (simp add: assoc_inv_def nodes)
  show "node_index k s' = Some ni" by (simp add: idx)
  have "associations s' k' = ((associations s)(k \<mapsto> ?n)) k'" for k'
    using assoc_invD [OF assms(1), of k' ni] ni by (cases "node_index k' s") (auto simp: associations_def idx nodes)
  then show "associations s' = (associations s)(k \<mapsto> ?n)" by blast
qed

text \<open>The entry that \<^const>\<open>pfcp_new_association\<close> makes of its arguments.\<close>

fun assoc_entry :: "u64 \<times> ip46_address \<times> ip46_address \<times> pfcp_node_id \<Rightarrow> upf_node_assoc" where
  "assoc_entry (h, l, r, nid) = \<lparr>na_node_id = nid, na_recovery_time_stamp = 0, na_session_handle = h,
     na_rmt_addr = r, na_lcl_addr = l, na_sessions = INVALID, na_heartbeat_handle = 0\<rparr>"

interpretation assocs: keyed_table "\<lambda>s. fresh_index lib \<and> assoc_inv s" associations
  "\<lambda>n. node_key (na_node_id n)" node_index "release_ok up" "pfcp_release_association up"
  "\<lambda>(h, l, r, nid). pfcp_new_association lib h l r nid" assoc_entry update_node for lib up
proof (unfold_locales, goal_cases)
  case (1 s k)
  then show ?case by (cases "node_index k s") (auto simp: associations_def dest: assoc_invD)
next
  case (2 s k i)
  then show ?case using release_associations [of s up i k] by metis
next
  case (3 s a k i s')
  obtain h l r nid where "a = (h, l, r, nid)" by (cases a)
  with 3 show ?case using new_association [of s lib nid k h l r i s'] by simp
next
  case (4 s k i f)
  then show ?case using update_node_associations [of s k i f] by simp
qed

lemma send_response_frame:
  assumes "upf_pfcp_send_response lib req dmsg s = Some (r, s')"
  shows "same_tables s s'"
  using assms
  by (auto simp: upf_pfcp_send_response_def pfcp_msg_pool_get_def encoded_def enqueue_response_def
      start_response_timer_def pfcp_msg_pool_put_def server_defs Let_def same_tables_def
      split: Option.bind_splits if_splits dec.splits prod.splits)

lemma start_timer_frame: "upf_pfcp_server_start_timer lib ty n secs s = (h, s') \<Longrightarrow> same_tables s s'"
  by (auto simp: server_defs Let_def same_tables_def)

lemma same_tables_associations:
  assumes "same_tables s s'"
  shows "assoc_inv s' = assoc_inv s" "associations s' = associations s" "node_index k s' = node_index k s"
proof -
  have n: "gtm_nodes s' = gtm_nodes s" using assms by (simp add: same_tables_def)
  have i: "node_index k s' = node_index k s" for k using assms by (cases k) (simp_all add: same_tables_def)
  show "associations s' = associations s" by (rule ext) (simp add: associations_def n i)
  show "assoc_inv s' = assoc_inv s" by (simp add: assoc_inv_def n i)
  show "node_index k s' = node_index k s" by (rule i)
qed

lemma setup_request:
  assumes "handle_association_setup_request lib up msg dmsg s = Some (r, s')"
    and "assoc_inv s" "fresh_index lib" "\<And>ni. node_index k s = Some ni \<Longrightarrow> release_ok up ni s"
    and "nid = node_id_field ASSOCIATION_SETUP_REQUEST_NODE_ID dmsg" "node_key nid = Some k"
  shows "assoc_inv s' \<and> (\<exists>h. associations s' = (associations s)(k \<mapsto> \<lparr>na_node_id = nid,
    na_recovery_time_stamp = time_stamp_field ASSOCIATION_SETUP_REQUEST_RECOVERY_TIME_STAMP dmsg,
    na_session_handle = m_session_handle msg, na_rmt_addr = m_rmt_address msg, na_lcl_addr = m_lcl_address msg,
    na_sessions = INVALID, na_heartbeat_handle = h\<rparr>))"
proof -
  let ?args = "(m_session_handle msg, m_lcl_address msg, m_rmt_address msg, nid)"
  let ?ts = "\<lambda>n. n\<lparr>na_recovery_time_stamp := time_stamp_field ASSOCIATION_SETUP_REQUEST_RECOVERY_TIME_STAMP dmsg\<rparr>"
  from assms(1,5,6) obtain t ni u h v g r' where
    t: "(case node_index k s of Some ni \<Rightarrow> pfcp_release_association up ni s | None \<Rightarrow> Some s) = Some t"
    and u: "(\<lambda>(h, l, r, nid). pfcp_new_association lib h l r nid) ?args t = (ni, u)"
    and v: "upf_pfcp_server_start_timer lib PFCP_SERVER_HB_TIMER ni PFCP_HB_INTERVAL (update_node ni ?ts u) = (h, v)"
    and s': "upf_pfcp_send_response lib msg (request_message PFCP_ASSOCIATION_SETUP_RESPONSE g)
        (update_node ni (\<lambda>n. n\<lparr>na_heartbeat_handle := h\<rparr>) v) = Some (r', s')"
    unfolding handle_association_setup_request_def Let_def bind_eq_Some_conv case_prod_unfold
    by (force simp: pfcp_get_association_key intro: that [OF _ prod.collapse [symmetric] prod.collapse [symmetric]])
  let ?valid = "\<lambda>s. fresh_index lib \<and> assoc_inv s"
  have u': "?valid u" "node_index k u = Some ni" "associations u = (associations s)(k \<mapsto> assoc_entry ?args)"
    using assocs.replace [of lib s ?args k up t ni u] assms(2-4,6) t u by simp_all
  have ts: "?valid (update_node ni ?ts u) \<and> node_index k (update_node ni ?ts u) = Some ni
      \<and> associations (update_node ni ?ts u) = (associations u)(k := map_option ?ts (associations u k))"
    by (rule assocs.modify_table) (use u' in simp_all)
  note v' = same_tables_associations [OF start_timer_frame [OF v]]
  have "?valid (update_node ni (\<lambda>n. n\<lparr>na_heartbeat_handle := h\<rparr>) v)
      \<and> node_index k (update_node ni (\<lambda>n. n\<lparr>na_heartbeat_handle := h\<rparr>) v) = Some ni
      \<and> associations (update_node ni (\<lambda>n. n\<lparr>na_heartbeat_handle := h\<rparr>) v) =
        (associations v)(k := map_option (\<lambda>n. n\<lparr>na_heartbeat_handle := h\<rparr>) (associations v k))"
    by (rule assocs.modify_table) (use ts v' in simp_all)
  with ts u'(3) v' same_tables_associations [OF send_response_frame [OF s']] show ?thesis
    by auto
qed

section \<open>Encoded responses\<close>

lemma word_of_be_bound:
  "length bs \<le> n \<Longrightarrow> take_bit (8 * n) (word_of_be bs :: 'a::len word) = word_of_be bs"
proof (induction bs arbitrary: n rule: rev_induct)
  case (snoc b bs)
  then obtain k where n: "n = Suc k" by (cases n) auto
  let ?w = "word_of_be bs :: 'a word"
  have "take_bit (8 * k) ?w = ?w" using snoc n by simp
  then have w: "bit ?w (i - 8) \<Longrightarrow> i < 8 + 8 * k" for i
    by (cases "8 \<le> i") (metis bit_take_bit_iff less_diff_conv2 add.commute, simp)
  have b: "bit b i \<Longrightarrow> i < 8 + 8 * k" for i by (drule bit_imp_le_length) simp
  have "word_of_be (bs @ [b]) = push_bit 8 ?w OR ucast b" by (simp add: word_of_be_def)
  then show ?case using w b by (auto intro!: bit_word_eqI simp: n bit_simps)
qed (simp add: word_of_be_def)

lemma seq_24 [simp]: "take_bit 24 (pfcp_msg_seq p) = pfcp_msg_seq p"
  using word_of_be_bound [of "take 3 (drop 12 p)" 3, where 'a = 32]
    word_of_be_bound [of "take 3 (drop 4 p)" 3, where 'a = 32]
  by (simp add: pfcp_msg_seq_def pfcp_session_msg_seq_def pfcp_node_msg_seq_def)

lemma response_lookups:
  "msg_specs PFCP_HEARTBEAT_RESPONSE =
     Some (grouped_ie (BITS [PFCP_RESPONSE_RECOVERY_TIME_STAMP]) pfcp_simple_response_group)"
  "msg_specs PFCP_SESSION_MODIFICATION_RESPONSE =
     Some (grouped_ie (BITS [SESSION_PROCEDURE_RESPONSE_CAUSE]) pfcp_session_modification_response_group)"
  "msg_specs PFCP_SESSION_DELETION_RESPONSE =
     Some (grouped_ie (BITS [SESSION_PROCEDURE_RESPONSE_CAUSE]) pfcp_session_deletion_response_group)"
  "msg_specs PFCP_SESSION_REPORT_RESPONSE =
     Some (grouped_ie (BITS [SESSION_REPORT_RESPONSE_CAUSE]) pfcp_session_report_response_group)"
  "tgpp_specs PFCP_IE_CAUSE = Some (simple_ie K_u8_ie)"
  "tgpp_specs PFCP_IE_OFFENDING_IE = Some (simple_ie K_u16_ie)"
  "tgpp_specs PFCP_IE_RECOVERY_TIME_STAMP = Some (simple_ie K_time_stamp_ie)"
  by (simp_all add: spec_defs spec_tables)

lemmas response_tables = response_lookups [simplified] pfcp_simple_response_group_def
  pfcp_session_modification_response_group_def pfcp_session_deletion_response_group_def
  pfcp_session_report_response_group_def table_simps get_ie_def_def zero_group_def upt_rec

lemma and_BITS: "list_all (bit w) ns \<Longrightarrow> w AND BITS ns = BITS ns"
  by (rule bit_word_eqI) (auto simp: bit_and_iff bit_BITS list_all_iff)

lemma empty_group_map: "empty_group def = Group 0 [] (map (\<lambda>_. Unset) (group def))"
  by (simp add: empty_group_def map_replicate_const)

lemma heartbeat_response_ok:
  "ok_msg lib \<lparr>dmsg_type = PFCP_HEARTBEAT_RESPONSE, dmsg_seq_no = pfcp_msg_seq p, dmsg_seid = 0,
     dmsg_grp = set_leaf PFCP_RESPONSE_RECOVERY_TIME_STAMP (V_time_stamp_ie t) (zero_group PFCP_HEARTBEAT_RESPONSE)\<rparr>"
  by (simp add: ok_msg_def response_tables empty_group_map set_leaf_def pfcp_is_session_msg_def and_BITS within_iff bit_SET_BIT)

lemma heartbeat_response_encode:
  "\<exists>bs. pfcp_encode_msg lib \<lparr>dmsg_type = PFCP_HEARTBEAT_RESPONSE, dmsg_seq_no = q, dmsg_seid = 0,
     dmsg_grp = set_leaf PFCP_RESPONSE_RECOVERY_TIME_STAMP (V_time_stamp_ie t) (zero_group PFCP_HEARTBEAT_RESPONSE)\<rparr>
     = Done bs \<and> length bs = 16"
  by (simp add: pfcp_encode_msg_def response_tables empty_group_map set_leaf_def pfcp_is_session_msg_def Let_def bit_SET_BIT
      put_ie_hdr_def encode_time_stamp_ie_def)

definition plain_response :: "nat \<Rightarrow> bool" where
  "plain_response type \<longleftrightarrow> type \<in> {PFCP_HEARTBEAT_RESPONSE, PFCP_SESSION_MODIFICATION_RESPONSE,
     PFCP_SESSION_DELETION_RESPONSE, PFCP_SESSION_REPORT_RESPONSE}"

lemmas simple_response_defs = simple_response_def set_offending_ie_def set_recovery_time_stamp_def
  set_response_node_id_def set_leaf_def association_layout_def

lemma simple_response_ok:
  assumes "plain_response type"
  shows "ok_msg lib \<lparr>dmsg_type = type, dmsg_seq_no = pfcp_msg_seq p, dmsg_seid = 0,
     dmsg_grp = simple_response s type r err\<rparr>"
  using assms
  by (auto simp: plain_response_def ok_msg_def response_tables empty_group_map simple_response_defs pfcp_is_session_msg_def
      and_BITS within_iff bit_SET_BIT split: list.split)

lemma simple_response_encode:
  assumes "plain_response type"
  shows "\<exists>bs. pfcp_encode_msg lib \<lparr>dmsg_type = type, dmsg_seq_no = q, dmsg_seid = 0,
     dmsg_grp = simple_response s type r err\<rparr> = Done bs \<and> length bs < 2 ^ 16 + 4"
  using assms
  by (auto simp: plain_response_def pfcp_encode_msg_def response_tables empty_group_map simple_response_defs pfcp_is_session_msg_def
      Let_def bit_SET_BIT put_ie_hdr_def encode_u8_ie_def encode_u16_ie_def encode_time_stamp_ie_def split: list.split)

lemma simple_response_slots:
  assumes "plain_response type"
  shows "grp_slots (simple_response s type r err) ! PFCP_RESPONSE_CAUSE = Single (Leaf (V_u8_ie (of_int r)))"
    "grp_slots (simple_response s type r err) ! PFCP_RESPONSE_OFFENDING_IE =
       (case err of [] \<Rightarrow> Unset | e # _ \<Rightarrow> Single (Leaf (V_u16_ie (of_nat e))))"
  using assms
  by (auto simp: plain_response_def simple_response_defs response_tables empty_group_map split: list.split)

section \<open>Association setup\<close>

text \<open>There is room behind the vectors for what the encoder of the identity of a pool copies too much.\<close>

definition pools_ok :: "vlib \<Rightarrow> 'u pfcp_server \<Rightarrow> bool" where
  "pools_ok lib s \<longleftrightarrow> (\<forall>p\<in>set (gtm_ueip_pools s). uep_identity p = [] \<or> vec_slack lib (7 * length (uep_identity p)))"

lemma ue_pool_encodes:
  assumes "pools_ok lib s" "v \<in> set (build_ue_ip_address_information s)"
  shows "\<exists>bs. encode_ie lib item (tgpp_specs PFCP_IE_UE_IP_ADDRESS_POOL_INFORMATION) v = Done bs"
proof -
  have specs: "tgpp_specs PFCP_IE_UE_IP_ADDRESS_POOL_INFORMATION = Some (grouped_ie 0 pfcp_ue_ip_address_pool_group)"
    "tgpp_specs PFCP_IE_UE_IP_ADDRESS_POOL_IDENTITY = Some (simple_ie K_ue_ip_address_pool_identity)"
    "tgpp_specs PFCP_IE_NETWORK_INSTANCE = Some (simple_ie K_simple_vec_ie)"
    "vendor_bbf_specs PFCP_IE_BBF_NAT_PORT_BLOCK = Some (simple_ie K_simple_vec_ie)"
    by (simp_all add: spec_defs spec_tables)
  have vec: "\<exists>bs. encode_vector_ie lib item (Some (simple_ie K_simple_vec_ie)) (map (Leaf \<circ> V_simple_vec_ie \<circ> f) xs) = Done bs"
    for item xs and f :: "upf_nat_pool \<Rightarrow> bytes" by (rule ok_encode_vector) auto
  have slack: "encode_ue_ip_address_pool_identity lib (uep_identity p) =
      Done (put_u16 (of_nat (length (uep_identity p))) @ uep_identity p)" if "p \<in> set (gtm_ueip_pools s)" for p
    using assms(1) that by (auto simp: pools_ok_def encode_ue_ip_address_pool_identity_def)
  from assms(2) show ?thesis
    by (auto simp: slack build_ue_ip_address_information_def set_vec_def set_leaf_def Let_def specs [simplified]
        pfcp_ue_ip_address_pool_group_def table_simps get_ie_def_def bit_SET_BIT upt_rec append_dec_Done map_dec_id
        split: if_splits intro: vec)
qed

lemma setup_response_encodes:
  assumes "association_setup_response lib s = Some g" "pools_ok vl s"
  shows "\<exists>bs. pfcp_encode_msg vl ((request_message PFCP_ASSOCIATION_SETUP_RESPONSE g)\<lparr>dmsg_seq_no := q\<rparr>) = Done bs"
proof -
  have specs: "msg_specs PFCP_ASSOCIATION_SETUP_RESPONSE = Some (grouped_ie (BITS
        [ASSOCIATION_PROCEDURE_RESPONSE_NODE_ID, ASSOCIATION_PROCEDURE_RESPONSE_CAUSE,
         ASSOCIATION_PROCEDURE_RESPONSE_RECOVERY_TIME_STAMP]) pfcp_association_setup_response_group)"
    "tgpp_specs PFCP_IE_NODE_ID = Some (simple_ie K_node_id)"
    "tgpp_specs PFCP_IE_UP_FUNCTION_FEATURES = Some (simple_ie K_up_function_features)"
    "vendor_bbf_specs PFCP_IE_BBF_UP_FUNCTION_FEATURES = Some (simple_ie K_bbf_up_function_features)"
    "vendor_tp_specs PFCP_IE_TP_BUILD_ID = Some (simple_ie K_simple_vec_ie)"
    "tgpp_specs PFCP_IE_USER_PLANE_IP_RESOURCE_INFORMATION = Some (simple_ie K_user_plane_ip_resource_information)"
    by (simp_all add: spec_defs spec_tables)
  have ue: "\<exists>bs. encode_vector_ie vl item (tgpp_specs PFCP_IE_UE_IP_ADDRESS_POOL_INFORMATION)
      (build_ue_ip_address_information s) = Done bs" for item
    using ok_encode_vector [OF ue_pool_encodes [OF assms(2)]] .
  have upip: "\<exists>bs. encode_vector_ie vl item (Some (simple_ie K_user_plane_ip_resource_information))
      (map (Leaf \<circ> V_user_plane_ip_resource_information) xs) = Done bs" for item xs
    by (rule ok_encode_vector) auto
  from assms(1) show ?thesis
    by (auto simp: association_setup_response_def build_user_plane_ip_resource_information_def request_message_def
        pfcp_encode_msg_def set_vec_def set_leaf_def Let_def specs [simplified] response_lookups [simplified]
        zero_group_def empty_group_map pfcp_association_setup_response_group_def table_simps get_ie_def_def
        bit_SET_BIT upt_rec append_dec_Done map_dec_id bind_eq_Some_conv
        split: if_splits intro: ue [simplified]) (use upip in blast)
qed

text \<open>The network instances that the configured resources name exist.\<close>

definition resources_ok :: "'u pfcp_server \<Rightarrow> bool" where
  "resources_ok s \<longleftrightarrow> (\<forall>res\<in>set (gtm_upip_res s). res_nwi_index res = INVALID \<or> gtm_nwi_name s (res_nwi_index res) \<noteq> None)"

lemma those_Some: "list_all (\<lambda>x. x \<noteq> None) xs \<Longrightarrow> \<exists>ys. those xs = Some ys"
  by (induction xs) auto

lemma setup_response_exists:
  assumes "resources_ok s"
  shows "\<exists>g. association_setup_response lib s = Some g"
proof -
  have "upip_resource s res \<noteq> None" if "res \<in> set (gtm_upip_res s)" for res
    using that assms by (cases "res_nwi_index res = INVALID") (auto simp: resources_ok_def upip_resource_def Let_def)
  then have "\<exists>rs. those (map (upip_resource s) (gtm_upip_res s)) = Some rs"
    by (intro those_Some) (simp add: list_all_iff)
  then show ?thesis
    by (auto simp: association_setup_response_def build_user_plane_ip_resource_information_def Let_def)
qed

lemma user_plane_configD:
  assumes "user_plane_config s' = user_plane_config s"
  shows "resources_ok s' = resources_ok s" "pools_ok lib s' = pools_ok lib s"
  using assms by (simp_all add: resources_ok_def pools_ok_def user_plane_config_def)

lemma setup_request_returns:
  assumes "cache_ok s" "resources_ok s" "pools_ok (svr_vlib lib) s" "assoc_inv s"
    and "\<And>ni. node_index k s = Some ni \<Longrightarrow> release_ok up ni s"
    and "nid = node_id_field ASSOCIATION_SETUP_REQUEST_NODE_ID dmsg" "node_key nid = Some k"
  obtains t s' g bs i m where "handle_association_setup_request lib up msg dmsg s = Some (0, s')"
    "(case node_index k s of Some ni \<Rightarrow> pfcp_release_association up ni s | None \<Rightarrow> Some s) = Some t" "gtm_user s' = gtm_user t"
    "\<exists>n. na_sessions n = INVALID \<and> gtm_nodes s' = (gtm_nodes t)(svr_pool_index lib (dom (gtm_nodes t)) \<mapsto> n)"
    "pfcp_encode_msg (svr_vlib lib) ((request_message PFCP_ASSOCIATION_SETUP_RESPONSE g)\<lparr>dmsg_seq_no := pfcp_msg_seq (m_data msg)\<rparr>) = Done bs"
    "psm_response_q s' = (psm_response_q s)(m_request_key msg \<mapsto> i)" "psm_msg_pool s' i = Some m"
    "m_data m = bs" "dgram_of m = dgram_of msg"
proof -
  obtain t where t: "(case node_index k s of Some ni \<Rightarrow> pfcp_release_association up ni s | None \<Rightarrow> Some s) = Some t"
    and ok: "cache_ok t" "resources_ok t" "pools_ok (svr_vlib lib) t" "psm_response_q t = psm_response_q s"
  proof (cases "node_index k s")
    case None
    with assms that show ?thesis by auto
  next
    case (Some ni)
    then obtain n where n: "gtm_nodes s ni = Some n" using assms(4) assoc_invD by blast
    from assms(5) [OF Some] n obtain t where t: "pfcp_release_association up ni s = Some t"
      "cache_ok t = cache_ok s" "psm_response_q t = psm_response_q s" "user_plane_config t = user_plane_config s"
      by (rule release_cases) blast
    with Some assms that [of t] user_plane_configD [OF t(4)] show ?thesis by auto
  qed
  obtain ni u where u: "pfcp_new_association lib (m_session_handle msg) (m_lcl_address msg) (m_rmt_address msg) nid t = (ni, u)"
    by fastforce
  let ?u = "update_node ni (\<lambda>n. n\<lparr>na_recovery_time_stamp :=
    time_stamp_field ASSOCIATION_SETUP_REQUEST_RECOVERY_TIME_STAMP dmsg\<rparr>) u"
  obtain h v where v: "upf_pfcp_server_start_timer lib PFCP_SERVER_HB_TIMER ni PFCP_HB_INTERVAL ?u = (h, v)"
    by fastforce
  let ?v = "update_node ni (\<lambda>n. n\<lparr>na_heartbeat_handle := h\<rparr>) v"
  have u': "cache_ok u = cache_ok t" "resources_ok u = resources_ok t" "psm_response_q u = psm_response_q t"
    "pools_ok (svr_vlib lib) u = pools_ok (svr_vlib lib) t" "gtm_user u = gtm_user t"
    using u by (auto simp: pfcp_new_association_def Let_def cache_ok_def resources_ok_def pools_ok_def split: if_splits)
  then have "resources_ok ?u" "pools_ok (svr_vlib lib) ?u"
    using ok by (simp_all add: update_node_def resources_ok_def pools_ok_def)
  then obtain g where g: "association_setup_response lib ?u = Some g" using setup_response_exists by blast
  then obtain bs where bs: "pfcp_encode_msg (svr_vlib lib)
      ((request_message PFCP_ASSOCIATION_SETUP_RESPONSE g)\<lparr>dmsg_seq_no := pfcp_msg_seq (m_data msg)\<rparr>) = Done bs"
    using setup_response_encodes \<open>pools_ok (svr_vlib lib) ?u\<close> by blast
  have v': "cache_ok ?v" "psm_response_q ?v = psm_response_q s" "gtm_user ?v = gtm_user t"
    using v u' ok by (auto simp: server_defs Let_def cache_ok_def)
  from send_response [OF bs v'(1)] obtain i m s' where
    "upf_pfcp_send_response lib msg (request_message PFCP_ASSOCIATION_SETUP_RESPONSE g) ?v = Some (0, s')"
    "psm_response_q s' = (psm_response_q ?v)(m_request_key msg \<mapsto> i)" "psm_msg_pool s' i = Some m"
    "m_data m = bs" "dgram_of m = dgram_of msg"
    "same_tables ?v s'" by metis
  moreover from \<open>same_tables ?v s'\<close> v'(3) have "gtm_user s' = gtm_user t" by (simp add: same_tables_def)
  moreover have "\<exists>n. na_sessions n = INVALID \<and> gtm_nodes s' = (gtm_nodes t)(svr_pool_index lib (dom (gtm_nodes t)) \<mapsto> n)"
    using \<open>same_tables ?v s'\<close> u v
    by (intro exI [of _ "the (gtm_nodes s' ni)"])
      (auto simp: same_tables_def server_defs pfcp_new_association_def Let_def split: if_splits)
  ultimately show ?thesis
    using t u v g bs v' assms(6,7) that
    by (simp add: handle_association_setup_request_def pfcp_get_association_key Let_def)
qed

end
