(* ===== verification/Upf_Server.thy ===== *)
theory Upf_Server
  imports Pfcp_Transactions Upf_List
begin

text \<open>
  The transaction layer on top of the sessions: the state of the server holds the sessions of
  \<^verbatim>\<open>src/upf/upf_pfcp.c\<close> as what belongs to the session layer, and the loop of
  \<^verbatim>\<open>pfcp_release_association\<close> over the sessions of the association is the one of \<open>Upf_Session\<close>.

  Both layers of the program share the members of \<^verbatim>\<open>upf_main\<close>. The head of the list of sessions of an
  association is a member of the association, and the transaction layer reads four members of a
  session; the functions below hand them from one model to the other. The timers of the sessions are
  kept apart from those of the transaction layer.
\<close>

section \<open>One state for both layers\<close>

definition session_view :: "upf_main_t pfcp_server \<Rightarrow> upf_main_t" where
  "session_view s = (gtm_user s)\<lparr>g_node_sessions := (\<lambda>n. map_option na_sessions (gtm_nodes s n))\<rparr>"

definition session_part :: "upf_session_t \<Rightarrow> upf_session" where
  "session_part sx = \<lparr>sx_assoc_node = s_assoc_node sx, sx_cp_seid = s_cp_seid sx,
     sx_up_address = s_up_address sx, sx_cp_address = s_cp_address sx\<rparr>"

definition store_sessions :: "upf_main_t \<Rightarrow> upf_main_t pfcp_server \<Rightarrow> upf_main_t pfcp_server" where
  "store_sessions g s = s\<lparr>gtm_user := g, gtm_sessions := (\<lambda>i. map_option session_part (g_sessions g i)),
     gtm_nodes := (\<lambda>n. map_option (\<lambda>a. a\<lparr>na_sessions :=
         (case g_node_sessions g n of Some h \<Rightarrow> h | None \<Rightarrow> na_sessions a)\<rparr>)
       (gtm_nodes s n))\<rparr>"

definition release_association_sessions ::
    "'v session_lib_scheme \<Rightarrow> nat \<Rightarrow> upf_main_t pfcp_server \<Rightarrow> upf_main_t pfcp_server option" where
  "release_association_sessions lib ni s =
     map_option (\<lambda>g. store_sessions g s) (release_sessions lib ni (session_view s))"

text \<open>A session layer whose release of sessions is the modelled one.\<close>

definition session_upper :: "'v session_lib_scheme \<Rightarrow> upf_main_t upper \<Rightarrow> upf_main_t upper" where
  "session_upper lib up = up\<lparr>up_release_sessions := release_association_sessions lib\<rparr>"

lemma session_view_simps [simp]:
  "g_sessions (session_view s) = g_sessions (gtm_user s)"
  "g_node_sessions (session_view s) n = map_option na_sessions (gtm_nodes s n)"
  "session_view (drop_index nid s) = session_view s"
  by (simp_all add: session_view_def drop_index_def)

section \<open>Releasing an association\<close>

lemma release_association_sessions:
  assumes "session_lists (session_view s) L" "gtm_nodes s ni = Some n" "releasable (session_view s) (L ni)"
    and "\<And>x. x \<in> set (L ni) \<Longrightarrow> entries_known (session_view s) x"
  obtains u where "release_association_sessions lib ni s = Some u" "release_frame ni s u"
    "g_sessions (gtm_user u) = (\<lambda>x. if x \<in> set (L ni) then None else g_sessions (gtm_user s) x)"
    "\<And>x. x \<in> set (L ni) \<Longrightarrow> no_entries (gtm_user u) x"
    "session_lists (gtm_user u) (L(ni := []))"
    "\<And>m. m \<noteq> ni \<Longrightarrow> g_node_sessions (gtm_user u) m = map_option na_sessions (gtm_nodes s m)"
proof -
  have "ni \<in> dom (g_node_sessions (session_view s))" using assms(2) by (auto simp: dom_def)
  then obtain g where g: "release_sessions lib ni (session_view s) = Some g" "session_lists g (L(ni := []))"
    "g_sessions g = (\<lambda>x. if x \<in> set (L ni) then None else g_sessions (gtm_user s) x)"
    "\<And>m. m \<noteq> ni \<Longrightarrow> g_node_sessions g m = map_option na_sessions (gtm_nodes s m)"
    "\<And>x. x \<in> set (L ni) \<Longrightarrow> no_entries g x"
    by (rule release_sessions_list [OF assms(1) _ assms(3,4), of lib]) (simp_all cong: if_cong)
  have "gtm_nodes (store_sessions g s) j = gtm_nodes s j" if "j \<noteq> ni" for j
    using g(4) [OF that] by (cases "gtm_nodes s j") (simp_all add: store_sessions_def)
  then have "release_frame ni s (store_sessions g s)"
    by (simp add: release_frame_def store_sessions_def cache_ok_def user_plane_config_def)
  with g show thesis
    by (intro that [of "store_sessions g s"]) (simp_all add: release_association_sessions_def store_sessions_def)
qed

lemma session_upper_release_ok:
  assumes "session_lists (session_view s) L" "releasable (session_view s) (L ni)"
    and "\<And>x. x \<in> set (L ni) \<Longrightarrow> entries_known (session_view s) x"
  shows "release_ok (session_upper lib up) ni s"
  unfolding release_ok_def
proof (intro allI impI)
  fix n
  assume "gtm_nodes s ni = Some n"
  with assms show "\<exists>u. up_release_sessions (session_upper lib up) ni (drop_index (na_node_id n) s) = Some u
      \<and> release_frame ni (drop_index (na_node_id n) s) u"
    by (auto simp: session_upper_def drop_index
        intro: release_association_sessions [of "drop_index (na_node_id n) s" L ni n lib])
qed

text \<open>The lists of sessions after an association was taken out, and after one was added.\<close>

lemma session_lists_removed:
  assumes "session_lists g (L(ni := []))" "gtm_user t = g" "gtm_nodes t = (gtm_nodes s)(ni := None)"
    and "\<And>m. m \<noteq> ni \<Longrightarrow> g_node_sessions g m = map_option na_sessions (gtm_nodes s m)"
  shows "session_lists (session_view t) (L(ni := []))"
  unfolding session_lists_def
proof
  fix m
  show "case g_node_sessions (session_view t) m of None \<Rightarrow> (L(ni := [])) m = []
      | Some _ \<Rightarrow> node_list (session_view t) m ((L(ni := [])) m)"
    using assms(1) [unfolded session_lists_def, rule_format, of m] assms(2-)
    by (cases "m = ni") (auto simp: node_list_def split: option.splits)
qed

lemma session_lists_added:
  assumes "session_lists (session_view t) L" "gtm_user s = gtm_user t" "gtm_nodes s = (gtm_nodes t)(ni \<mapsto> n)"
    and "gtm_nodes t ni = None" "na_sessions n = INVALID"
  shows "session_lists (session_view s) L"
  unfolding session_lists_def
proof
  fix m
  show "case g_node_sessions (session_view s) m of None \<Rightarrow> L m = [] | Some _ \<Rightarrow> node_list (session_view s) m (L m)"
    using assms(1) [unfolded session_lists_def, rule_format, of m] assms(2-)
    by (cases "m = ni") (auto simp: node_list_def head_index_def split: option.splits)
qed

lemma replaced_sessions:
  assumes "assoc_inv s" "session_lists (session_view s) L"
    and "old = (case node_index k s of Some ni \<Rightarrow> L ni | None \<Rightarrow> [])" "releasable (session_view s) old"
    and "\<forall>x \<in> set old. entries_known (session_view s) x"
    and "(case node_index k s of Some ni \<Rightarrow> pfcp_release_association (session_upper lib up) ni s | None \<Rightarrow> Some s) = Some t"
  shows "g_sessions (gtm_user t) = (\<lambda>x. if x \<in> set old then None else g_sessions (gtm_user s) x)
    \<and> (\<forall>x \<in> set old. no_entries (gtm_user t) x) \<and> finite (dom (gtm_nodes t))
    \<and> session_lists (session_view t) (\<lambda>n. if node_index k s = Some n then [] else L n)"
proof (cases "node_index k s")
  case None
  with assms show ?thesis by (simp add: assoc_inv_finite)
next
  case (Some ni)
  then obtain n where n: "gtm_nodes s ni = Some n" using assms(1) assoc_invD by blast
  let ?s = "drop_index (na_node_id n) s"
  have old: "old = L ni" using Some assms(3) by simp
  from release_association_sessions [of ?s L ni n lib] n assms(2,4,5) old obtain u where
    u: "release_association_sessions lib ni ?s = Some u" "release_frame ni ?s u"
    "g_sessions (gtm_user u) = (\<lambda>x. if x \<in> set (L ni) then None else g_sessions (gtm_user ?s) x)"
    "\<And>x. x \<in> set (L ni) \<Longrightarrow> no_entries (gtm_user u) x" "session_lists (gtm_user u) (L(ni := []))"
    "\<And>m. m \<noteq> ni \<Longrightarrow> g_node_sessions (gtm_user u) m = map_option na_sessions (gtm_nodes ?s m)"
    by (auto simp: drop_index)
  have "release_ok (session_upper lib up) ni s"
    by (rule session_upper_release_ok [OF assms(2)]) (use assms(4,5) old in auto)
  from this n obtain u' t' where "up_release_sessions (session_upper lib up) ni ?s = Some u'"
    "pfcp_release_association (session_upper lib up) ni s = Some t'" "gtm_user t' = gtm_user u'"
    "gtm_nodes t' = (gtm_nodes s)(ni := None)"
    by (rule release_cases) blast
  then have t: "gtm_user t = gtm_user u" "gtm_nodes t = (gtm_nodes s)(ni := None)"
    using assms(6) Some u(1) by (simp_all add: session_upper_def)
  have eq: "(\<lambda>m. if Some ni = Some m then [] else L m) = L(ni := [])" by (auto simp: fun_eq_iff)
  have "session_lists (session_view t) (L(ni := []))"
    by (rule session_lists_removed [OF u(5) t]) (use u(6) in \<open>simp add: drop_index\<close>)
  moreover have "gtm_user ?s = gtm_user s" by (simp add: drop_index_def)
  ultimately show ?thesis
    using u(3,4) t Some old assoc_inv_finite [OF assms(1)] by (simp add: eq del: option.inject cong: if_cong)
qed

end
