(* ===== verification/Flow_Inv.thy ===== *)
theory Flow_Inv
  imports Flow_Table
begin

text \<open>
  The invariant of the flow table: every entry of the pool is either in the cache of one thread or in
  the hash table of one thread under its own key, every entry in a hash table has one timer, every
  timer is linked into one slot of the wheel, and the counters count. Each operation of a thread keeps
  it and leaves the entries of the other threads alone (\<open>evolves\<close>).
\<close>

section \<open>The parts of the invariant\<close>

text \<open>What the pool of VPP promises.\<close>

definition pool_fresh :: "'v pool_lib_scheme \<Rightarrow> bool" where
  "pool_fresh lib \<longleftrightarrow> (\<forall>S. finite S \<longrightarrow> pool_index lib S \<notin> S)"

definition wheel_ok :: "nat \<Rightarrow> (nat \<Rightarrow> nat list) \<Rightarrow> nat set \<Rightarrow> bool" where
  "wheel_ok m w E \<longleftrightarrow> (\<forall>s. distinct (w s)) \<and> (\<forall>s. m \<le> s \<longrightarrow> w s = [])
     \<and> (\<forall>s t. s \<noteq> t \<longrightarrow> set (w s) \<inter> set (w t) = {}) \<and> (\<Union>s. set (w s)) = E"

definition link_ok :: "(nat \<rightharpoonup> flow_entry) \<Rightarrow> (flow_key \<rightharpoonup> nat) \<Rightarrow> (nat \<rightharpoonup> nat) \<Rightarrow> bool" where
  "link_ok fl ht tv \<longleftrightarrow>
     (\<forall>k i. ht k = Some i \<longrightarrow> (\<exists>f. fl i = Some f \<and> fe_key f = k \<and> tv (fe_timer_index f) = Some i))
   \<and> (\<forall>e i. tv e = Some i \<longrightarrow> (\<exists>f. fl i = Some f \<and> fe_timer_index f = e \<and> ht (fe_key f) = Some i))"

definition shared_inv :: "flowtable_main \<Rightarrow> bool" where
  "shared_inv fm \<longleftrightarrow> finite (dom (flows fm)) \<and> flows_cpt fm = card (dom (flows fm))
     \<and> flows_cpt fm \<le> 2 ^ 33 \<and> flows_max fm < 2 ^ 32
     \<and> 0 < timer_max_lifetime fm \<and> timer_max_lifetime fm \<le> TIMER_MAX_LIFETIME"

definition owned :: "flowtable_main_per_cpu \<Rightarrow> nat set" where
  "owned fmt = set (flow_cache fmt) \<union> ran (flows_ht fmt)"

definition cpu_inv :: "flowtable_main \<Rightarrow> flowtable_main_per_cpu \<Rightarrow> bool" where
  "cpu_inv fm fmt \<longleftrightarrow>
     distinct (flow_cache fmt) \<and> set (flow_cache fmt) \<subseteq> dom (flows fm)
   \<and> length (flow_cache fmt) \<le> 2 * FLOW_CACHE_SZ
   \<and> set (flow_cache fmt) \<inter> ran (flows_ht fmt) = {}
   \<and> link_ok (flows fm) (flows_ht fmt) (timer_value fmt)
   \<and> wheel_ok (timer_max_lifetime fm) (slots fmt) (dom (timer_value fmt))
   \<and> dom (timer_value fmt) \<inter> {..<TIMER_MAX_LIFETIME} = {}
   \<and> finite (dom (flows_ht fmt)) \<and> flow_counter fmt = int (card (dom (flows_ht fmt)))"

definition thread_inv :: "flowtable_main \<times> flowtable_main_per_cpu \<Rightarrow> bool" where
  "thread_inv st \<longleftrightarrow> shared_inv (fst st) \<and> cpu_inv (fst st) (snd st)"

definition evolves ::
    "flowtable_main \<times> flowtable_main_per_cpu \<Rightarrow> flowtable_main \<times> flowtable_main_per_cpu \<Rightarrow> bool" where
  "evolves st st' \<longleftrightarrow>
     (\<forall>i \<in> dom (flows (fst st)) - owned (snd st). flows (fst st') i = flows (fst st) i)
   \<and> dom (flows (fst st')) = (dom (flows (fst st)) - owned (snd st)) \<union> owned (snd st')
   \<and> owned (snd st') \<inter> (dom (flows (fst st)) - owned (snd st)) = {}
   \<and> flows_max (fst st') = flows_max (fst st) \<and> timer_lifetime (fst st') = timer_lifetime (fst st)
   \<and> timer_max_lifetime (fst st') = timer_max_lifetime (fst st)"

section \<open>Wheel, links and caches\<close>

lemma wheel_ok_addtail:
  "wheel_ok m w E \<Longrightarrow> e \<notin> E \<Longrightarrow> h < m \<Longrightarrow> wheel_ok m (dlist_addtail h e w) (insert e E)"
  unfolding wheel_ok_def dlist_addtail_def by (auto split: if_splits)

lemma wheel_ok_remove: "wheel_ok m w E \<Longrightarrow> wheel_ok m (dlist_remove e w) (E - {e})"
  unfolding wheel_ok_def dlist_remove_def by (simp add: distinct_removeAll) blast

lemma wheel_ok_move:
  assumes "wheel_ok m w E" "e \<in> E" "h < m"
  shows "wheel_ok m (dlist_addtail h e (dlist_remove e w)) E"
  using wheel_ok_addtail [OF wheel_ok_remove [OF assms(1)], of e e h] assms(2,3)
  by (simp add: insert_absorb)

lemma wheel_ok_slot: "wheel_ok m w E \<Longrightarrow> e \<in> set (w s) \<Longrightarrow> e \<in> E \<and> s < m"
  unfolding wheel_ok_def by (metis UN_I UNIV_I empty_iff empty_set not_le)

lemma wheel_ok_unique: "wheel_ok m w E \<Longrightarrow> e \<in> set (w s) \<Longrightarrow> e \<in> set (w t) \<Longrightarrow> s = t"
  unfolding wheel_ok_def by blast

lemma link_okD1:
  "link_ok fl ht tv \<Longrightarrow> ht k = Some i \<Longrightarrow> \<exists>f. fl i = Some f \<and> fe_key f = k \<and> tv (fe_timer_index f) = Some i"
  unfolding link_ok_def by blast

lemma link_okD2:
  "link_ok fl ht tv \<Longrightarrow> tv e = Some i \<Longrightarrow> \<exists>f. fl i = Some f \<and> fe_timer_index f = e \<and> ht (fe_key f) = Some i"
  unfolding link_ok_def by blast

lemma link_ok_ran: "link_ok fl ht tv \<Longrightarrow> ran tv = ran ht"
  unfolding link_ok_def ran_def by blast

lemma link_ok_inj: "link_ok fl ht tv \<Longrightarrow> ht k = Some i \<Longrightarrow> ht k' = Some i \<Longrightarrow> k = k'"
  unfolding link_ok_def by (metis option.sel)

lemma link_ok_timer_inj: "link_ok fl ht tv \<Longrightarrow> tv d = Some i \<Longrightarrow> tv e = Some i \<Longrightarrow> d = e"
  unfolding link_ok_def by (metis option.sel)

lemma link_ok_cong:
  assumes "link_ok fl ht tv" "\<And>i. i \<in> ran ht \<Longrightarrow> fl' i = fl i"
  shows "link_ok fl' ht tv"
proof -
  have "ran tv = ran ht" using assms(1) by (rule link_ok_ran)
  then show ?thesis
    using assms unfolding link_ok_def by (metis ranI)
qed

lemma link_ok_update:
  assumes "link_ok fl ht tv" "fl i = Some f" "fe_key f' = fe_key f" "fe_timer_index f' = fe_timer_index f"
  shows "link_ok (fl(i \<mapsto> f')) ht tv"
proof -
  show ?thesis
    unfolding link_ok_def
  proof (intro conjI allI impI)
    fix k j assume "ht k = Some j"
    then obtain g where "fl j = Some g" "fe_key g = k" "tv (fe_timer_index g) = Some j"
      using link_okD1 [OF assms(1)] by blast
    with assms(2-4) show "\<exists>f. (fl(i \<mapsto> f')) j = Some f \<and> fe_key f = k \<and> tv (fe_timer_index f) = Some j" by auto
  next
    fix e j assume "tv e = Some j"
    then obtain g where "fl j = Some g" "fe_timer_index g = e" "ht (fe_key g) = Some j"
      using link_okD2 [OF assms(1)] by blast
    with assms(2-4) show "\<exists>f. (fl(i \<mapsto> f')) j = Some f \<and> fe_timer_index f = e \<and> ht (fe_key f) = Some j" by auto
  qed
qed

lemma link_ok_insert:
  assumes "link_ok fl ht tv" "i \<notin> ran ht" "ht (fe_key f) = None" "tv (fe_timer_index f) = None"
  shows "link_ok (fl(i \<mapsto> f)) (ht(fe_key f \<mapsto> i)) (tv(fe_timer_index f \<mapsto> i))"
proof -
  have "ran tv = ran ht" using assms(1) by (rule link_ok_ran)
  then have "\<And>e. tv e \<noteq> Some i" "\<And>k. ht k \<noteq> Some i" using assms(2) by (auto simp: ran_def)
  then show ?thesis
    using assms(1,3,4) unfolding link_ok_def by (auto split: if_splits) (metis option.distinct(1))+
qed

lemma link_ok_delete:
  assumes "link_ok fl ht tv" "tv e = Some i" "fl i = Some f"
  shows "link_ok fl (ht(fe_key f := None)) (tv(e := None))"
proof -
  have f: "fe_timer_index f = e" "ht (fe_key f) = Some i" using link_okD2 [OF assms(1,2)] assms(3) by auto
  show ?thesis
    unfolding link_ok_def
  proof (intro conjI allI impI)
    fix k j assume "(ht(fe_key f := None)) k = Some j"
    then have k: "k \<noteq> fe_key f" "ht k = Some j" by (auto split: if_splits)
    then obtain g where g: "fl j = Some g" "fe_key g = k" "tv (fe_timer_index g) = Some j"
      using link_okD1 [OF assms(1)] by blast
    with k assms(2,3) f show "\<exists>f'. fl j = Some f' \<and> fe_key f' = k \<and> (tv(e := None)) (fe_timer_index f') = Some j"
      by auto
  next
    fix d j assume "(tv(e := None)) d = Some j"
    then have d: "d \<noteq> e" "tv d = Some j" by (auto split: if_splits)
    then obtain g where g: "fl j = Some g" "fe_timer_index g = d" "ht (fe_key g) = Some j"
      using link_okD2 [OF assms(1)] by blast
    with d assms(2,3) f show "\<exists>f'. fl j = Some f' \<and> fe_timer_index f' = d \<and> (ht(fe_key f := None)) (fe_key f') = Some j"
      by auto
  qed
qed

lemma ran_delete: "link_ok fl ht tv \<Longrightarrow> ht k = Some i \<Longrightarrow> ran (ht(k := None)) = ran ht - {i}"
  by (auto simp: ran_def dest: link_ok_inj)

lemma cache_fill_loop_spec:
  assumes "pool_fresh lib"
  shows "finite (dom fl) \<Longrightarrow> \<exists>new fl'. cache_fill_loop lib n fl cache = (fl', cache @ new) \<and> length new = n
    \<and> distinct new \<and> set new \<inter> dom fl = {} \<and> dom fl' = dom fl \<union> set new \<and> (\<forall>i. i \<notin> set new \<longrightarrow> fl' i = fl i)"
proof (induction n arbitrary: fl cache)
  case (Suc n)
  define i where "i = pool_index lib (dom fl)"
  have i: "i \<notin> dom fl" using assms Suc.prems unfolding pool_fresh_def i_def by blast
  have "finite (dom (fl(i \<mapsto> stale_flow lib)))" using Suc.prems by simp
  from Suc.IH [OF this, of "cache @ [i]"] obtain new fl' where
    "cache_fill_loop lib n (fl(i \<mapsto> stale_flow lib)) (cache @ [i]) = (fl', (cache @ [i]) @ new)"
    "length new = n" "distinct new" "set new \<inter> dom (fl(i \<mapsto> stale_flow lib)) = {}"
    "dom fl' = dom (fl(i \<mapsto> stale_flow lib)) \<union> set new"
    "\<forall>j. j \<notin> set new \<longrightarrow> fl' j = (fl(i \<mapsto> stale_flow lib)) j" by blast
  with i show ?case
    by (intro exI [of _ "i # new"] exI [of _ fl']) (auto simp: Let_def simp flip: i_def)
qed simp

lemma cache_empty_loop_spec:
  "length cache = Suc i \<Longrightarrow> cache_empty_loop i fl cache =
     (fl |` (- set (drop 257 cache)), take 257 cache)"
proof (induction i fl cache rule: cache_empty_loop.induct)
  case (1 i fl cache)
  show ?case
  proof (cases "i > FLOW_CACHE_SZ")
    case True
    have "cache \<noteq> []" using "1.prems" by auto
    then have c: "cache = butlast cache @ [last cache]" by simp
    have l: "length (butlast cache) = i" using "1.prems" by simp
    have "drop 257 cache = drop 257 (butlast cache) @ [last cache]" "take 257 cache = take 257 (butlast cache)"
      using True l by (subst c, simp)+
    moreover have "cache_empty_loop (i - 1) (fl(last cache := None)) (butlast cache) =
      ((fl(last cache := None)) |` (- set (drop 257 (butlast cache))), take 257 (butlast cache))"
      by (rule "1.IH" [OF True]) (use True l in simp)
    moreover have "(fl(last cache := None)) |` (- A) = fl |` (- insert (last cache) A)" for A
      by (auto simp: restrict_map_def)
    moreover have "cache_empty_loop i fl cache = cache_empty_loop (i - 1) (fl(last cache := None)) (butlast cache)"
      using True by (simp add: cache_empty_loop.simps [of i])
    ultimately show ?thesis by simp
  next
    case False
    with "1.prems" show ?thesis by (auto simp: cache_empty_loop.simps [of i])
  qed
qed

section \<open>Operations of a thread\<close>

lemma thread_invD:
  assumes "thread_inv (fm, fmt)"
  shows "finite (dom (flows fm))" "flows_cpt fm = card (dom (flows fm))" "flows_cpt fm \<le> 2 ^ 33"
    "flows_max fm < 2 ^ 32" "0 < timer_max_lifetime fm" "timer_max_lifetime fm \<le> TIMER_MAX_LIFETIME"
    "distinct (flow_cache fmt)" "set (flow_cache fmt) \<subseteq> dom (flows fm)"
    "length (flow_cache fmt) \<le> 2 * FLOW_CACHE_SZ" "set (flow_cache fmt) \<inter> ran (flows_ht fmt) = {}"
    "link_ok (flows fm) (flows_ht fmt) (timer_value fmt)"
    "wheel_ok (timer_max_lifetime fm) (slots fmt) (dom (timer_value fmt))"
    "dom (timer_value fmt) \<inter> {..<TIMER_MAX_LIFETIME} = {}"
    "finite (dom (flows_ht fmt))" "flow_counter fmt = int (card (dom (flows_ht fmt)))"
  using assms unfolding thread_inv_def shared_inv_def cpu_inv_def by auto

lemma thread_invI:
  assumes "shared_inv fm" "cpu_inv fm fmt" shows "thread_inv (fm, fmt)"
  using assms unfolding thread_inv_def by simp

lemma owned_dom: "thread_inv (fm, fmt) \<Longrightarrow> owned fmt \<subseteq> dom (flows fm)"
  using thread_invD(8,11) [of fm fmt] link_okD1 unfolding owned_def ran_def by blast

lemma evolves_refl [simp]: "thread_inv st \<Longrightarrow> evolves st st"
  using owned_dom [of "fst st" "snd st"] unfolding evolves_def by auto

lemma evolves_trans [trans]:
  assumes 1: "evolves st st'" and 2: "evolves st' st''" shows "evolves st st''"
proof -
  have d: "dom (flows (fst st')) - owned (snd st') = dom (flows (fst st)) - owned (snd st)"
    using 1 unfolding evolves_def by blast
  show ?thesis using 1 2 unfolding evolves_def d by metis
qed

text \<open>A change of entries the thread owns.\<close>

lemma evolves_own:
  assumes "thread_inv (fm, fmt)" "owned fmt' = owned fmt"
    "\<And>i. i \<notin> owned fmt \<Longrightarrow> flows fm' i = flows fm i" "dom (flows fm') = dom (flows fm)"
    "flows_max fm' = flows_max fm" "timer_lifetime fm' = timer_lifetime fm"
    "timer_max_lifetime fm' = timer_max_lifetime fm"
  shows "evolves (fm, fmt) (fm', fmt')"
  using owned_dom [OF assms(1)] assms(2-) unfolding evolves_def by auto

lemma update_flow_inv:
  assumes inv: "thread_inv (fm, fmt)" and f: "flows fm i = Some f" "i \<in> ran (flows_ht fmt)"
    "fe_key f' = fe_key f" "fe_timer_index f' = fe_timer_index f"
    and w: "wheel_ok (timer_max_lifetime fm) w (dom (timer_value fmt))"
  shows "thread_inv (fm\<lparr>flows := (flows fm)(i \<mapsto> f')\<rparr>, fmt\<lparr>slots := w\<rparr>)"
    "evolves (fm, fmt) (fm\<lparr>flows := (flows fm)(i \<mapsto> f')\<rparr>, fmt\<lparr>slots := w\<rparr>)"
proof -
  have d: "dom ((flows fm)(i \<mapsto> f')) = dom (flows fm)" using f(1) by auto
  show "thread_inv (fm\<lparr>flows := (flows fm)(i \<mapsto> f')\<rparr>, fmt\<lparr>slots := w\<rparr>)"
    using thread_invD [OF inv] w d link_ok_update [OF thread_invD(11) [OF inv] f(1,3,4)]
    unfolding thread_inv_def shared_inv_def cpu_inv_def by simp
  show "evolves (fm, fmt) (fm\<lparr>flows := (flows fm)(i \<mapsto> f')\<rparr>, fmt\<lparr>slots := w\<rparr>)"
    by (rule evolves_own [OF inv]) (use f d in \<open>auto simp: owned_def\<close>)
qed

lemma upd_flow_inv:
  assumes "thread_inv st" "flows_ht (snd st) k = Some i"
    "\<And>f. fe_key (g f) = fe_key f" "\<And>f. fe_timer_index (g f) = fe_timer_index f"
  shows "thread_inv (upd_flow i g st)" "evolves st (upd_flow i g st)"
proof -
  obtain fm fmt where st: "st = (fm, fmt)" by (cases st)
  note inv = assms(1) [unfolded st]
  obtain f where f: "flows fm i = Some f"
    using link_okD1 [OF thread_invD(11) [OF inv]] assms(2) by (auto simp: st)
  have *: "fmt\<lparr>slots := slots fmt\<rparr> = fmt" by simp
  show "thread_inv (upd_flow i g st)" "evolves st (upd_flow i g st)"
    using update_flow_inv [OF inv f _ _ _ thread_invD(12) [OF inv], of "g f"] assms(2-4)
    by (simp_all add: st f ranI)
qed

lemma tcp_update_inv:
  assumes "thread_inv st" "flows_ht (snd st) k = Some i"
  shows "thread_inv (flow_update_lifetime i h st)" "evolves st (flow_update_lifetime i h st)"
    "flows_ht (snd (flow_update_lifetime i h st)) = flows_ht (snd st)"
proof -
  obtain fm fmt where st: "st = (fm, fmt)" by (cases st)
  note inv = assms(1) [unfolded st]
  obtain f where f: "flows fm i = Some f" "timer_value fmt (fe_timer_index f) = Some i"
    using link_okD1 [OF thread_invD(11) [OF inv]] assms(2) by (auto simp: st)
  have r: "i \<in> ran (flows_ht fmt)" using assms(2) by (simp add: st ranI)
  have w: "wheel_ok (timer_max_lifetime fm) (dlist_addtail (n mod timer_max_lifetime fm) (fe_timer_index f)
      (dlist_remove (fe_timer_index f) (slots fmt))) (dom (timer_value fmt))" for n
    by (rule wheel_ok_move [OF thread_invD(12) [OF inv]]) (use f thread_invD(5) [OF inv] in auto)
  note u = update_flow_inv [OF inv f(1) r _ _ w]
  show "thread_inv (flow_update_lifetime i h st)" "evolves st (flow_update_lifetime i h st)"
    "flows_ht (snd (flow_update_lifetime i h st)) = flows_ht (snd st)"
    using inv u by (simp_all add: st flow_update_lifetime_def flow_tcp_update_lifetime_def f Let_def)
qed

lemma cache_fill_inv:
  assumes "pool_fresh lib" "thread_inv (fm, fmt)" "flow_cache fmt = []"
  shows "thread_inv (flow_entry_cache_fill lib (fm, fmt))" (is ?A)
    "evolves (fm, fmt) (flow_entry_cache_fill lib (fm, fmt))" (is ?B)
    "\<exists>fm' c. flow_entry_cache_fill lib (fm, fmt) = (fm', fmt\<lparr>flow_cache := c\<rparr>)
       \<and> (\<forall>j \<in> dom (flows fm). flows fm' j = flows fm j) \<and> flows_cpt fm' \<le> flows_cpt fm + FLOW_CACHE_SZ
       \<and> (flows_cpt fm \<le> flows_max fm \<longrightarrow> c \<noteq> [])" (is ?C)
proof -
  note inv = thread_invD [OF assms(2)]
  obtain new fl' where new: "cache_fill_loop lib FLOW_CACHE_SZ (flows fm) [] = (fl', new)"
    "length new = FLOW_CACHE_SZ" "distinct new" "set new \<inter> dom (flows fm) = {}"
    "dom fl' = dom (flows fm) \<union> set new" "\<forall>i. i \<notin> set new \<longrightarrow> fl' i = flows fm i"
    using cache_fill_loop_spec [OF assms(1) inv(1), of FLOW_CACHE_SZ "[]"] by auto
  have fill: "flow_entry_cache_fill lib (fm, fmt) = (if flows_cpt fm > flows_max fm then (fm, fmt)
      else (fm\<lparr>flows := fl', flows_cpt := flows_cpt fm + FLOW_CACHE_SZ\<rparr>, fmt\<lparr>flow_cache := new\<rparr>))"
    using new(1) assms(3) by (simp add: flow_entry_cache_fill_def)
  have ran: "ran (flows_ht fmt) \<subseteq> dom (flows fm)" using owned_dom [OF assms(2)] by (auto simp: owned_def)
  have link: "link_ok fl' (flows_ht fmt) (timer_value fmt)"
    by (rule link_ok_cong [OF inv(11)]) (use ran new(4,6) in auto)
  have card: "card (dom fl') = card (dom (flows fm)) + FLOW_CACHE_SZ"
    using new inv(1) by (simp add: card_Un_disjoint distinct_card inf_commute)
  show ?C
  proof (cases "flows_cpt fm > flows_max fm")
    case True
    then show ?thesis using fill by (intro exI [of _ fm] exI [of _ "flow_cache fmt"]) simp
  next
    case False
    have "new \<noteq> []" "\<forall>j \<in> dom (flows fm). fl' j = flows fm j" using new by (auto dest: IntI)
    with False fill show ?thesis by (intro exI [of _ "fm\<lparr>flows := fl', flows_cpt := flows_cpt fm + FLOW_CACHE_SZ\<rparr>"] exI [of _ new]) simp
  qed
  show ?A
  proof (cases "flows_cpt fm > flows_max fm")
    case False
    then show ?thesis
      using inv new ran link card by (auto simp: fill thread_inv_def shared_inv_def cpu_inv_def)
  qed (use fill assms(2) in simp)
  show ?B
  proof (cases "flows_cpt fm > flows_max fm")
    case False
    then show ?thesis
      using new ran by (auto simp: fill evolves_def owned_def assms(3))
  qed (use fill assms(2) in simp)
qed

text \<open>A successful allocation takes the last index of the cache of a state that satisfies the invariant.\<close>

lemma flow_entry_alloc_inv:
  assumes "pool_fresh lib" "thread_inv (fm, fmt)" "flow_entry_alloc lib (fm, fmt) = (r, fm', fmt')"
  shows "\<exists>c. thread_inv (fm', fmt\<lparr>flow_cache := c\<rparr>) \<and> evolves (fm, fmt) (fm', fmt\<lparr>flow_cache := c\<rparr>)
    \<and> (\<forall>j \<in> dom (flows fm). flows fm' j = flows fm j) \<and> flows_cpt fm' \<le> flows_cpt fm + FLOW_CACHE_SZ
    \<and> (flows_cpt fm \<le> flows_max fm \<longrightarrow> r \<noteq> None)
    \<and> (case r of None \<Rightarrow> fmt' = fmt\<lparr>flow_cache := c\<rparr>
              | Some i \<Rightarrow> c = flow_cache fmt' @ [i] \<and> fmt' = fmt\<lparr>flow_cache := butlast c\<rparr>)"
proof -
  obtain c where c: "thread_inv (fm', fmt\<lparr>flow_cache := c\<rparr>)" "evolves (fm, fmt) (fm', fmt\<lparr>flow_cache := c\<rparr>)"
    "(if c = [] then (None, fm', fmt\<lparr>flow_cache := c\<rparr>)
      else (Some (last c), fm', fmt\<lparr>flow_cache := butlast c\<rparr>)) = (r, fm', fmt')"
    "\<forall>j \<in> dom (flows fm). flows fm' j = flows fm j" "flows_cpt fm' \<le> flows_cpt fm + FLOW_CACHE_SZ"
    "flows_cpt fm \<le> flows_max fm \<longrightarrow> c \<noteq> []"
  proof (cases "flow_cache fmt = []")
    case True
    note fill = cache_fill_inv [OF assms(1,2) True]
    obtain fm'' c where c: "flow_entry_cache_fill lib (fm, fmt) = (fm'', fmt\<lparr>flow_cache := c\<rparr>)"
      "\<forall>j \<in> dom (flows fm). flows fm'' j = flows fm j" "flows_cpt fm'' \<le> flows_cpt fm + FLOW_CACHE_SZ"
      "flows_cpt fm \<le> flows_max fm \<longrightarrow> c \<noteq> []" using fill(3) by blast
    have "fm'' = fm'" using assms(3) True c by (auto simp: flow_entry_alloc_def split: if_splits)
    then show thesis
      using that [of c] fill(1,2) c assms(3) True by (simp add: flow_entry_alloc_def split: if_splits)
  next
    case False
    then have "fm' = fm" using assms(3) by (simp add: flow_entry_alloc_def)
    moreover have "fmt\<lparr>flow_cache := flow_cache fmt\<rparr> = fmt" by simp
    ultimately show thesis
      using that [of "flow_cache fmt"] assms(2,3) False by (simp add: flow_entry_alloc_def)
  qed
  then show ?thesis
    by (intro exI [of _ c]) (auto split: if_splits)
qed

lemma create_flow_inv:
  fixes now :: nat and dir :: bool and gen :: u16
  assumes lib: "pool_fresh lib" and inv: "thread_inv (fm, fmt\<lparr>flow_cache := c @ [i]\<rparr>)"
    and fresh: "flows_ht fmt key = None" and c: "flow_cache fmt = c"
  defines "st' \<equiv> create_flow lib key now dir gen i (fm, fmt)"
  shows "thread_inv st'" "evolves (fm, fmt\<lparr>flow_cache := c @ [i]\<rparr>) st'"
    "\<exists>tm. tm \<notin> dom (timer_value fmt) \<and> st' =
       (fm\<lparr>flows := (flows fm)(i \<mapsto> new_flow key (flowtable_lifetime_calculate lib fm key) now dir gen tm)\<rparr>,
        fmt\<lparr>slots := dlist_addtail (add32 (time_index fmt) (flowtable_lifetime_calculate lib fm key) mod timer_max_lifetime fm)
               tm (slots fmt),
             timer_value := (timer_value fmt)(tm \<mapsto> i), flow_counter := flow_counter fmt + 1,
             flows_ht := (flows_ht fmt)(key \<mapsto> i)\<rparr>)"
proof -
  note inv' = thread_invD [OF inv, simplified]
  define tm where "tm = pool_index lib (timer_pool fmt)"
  define f where "f = new_flow key (flowtable_lifetime_calculate lib fm key) now dir gen tm"
  define h where "h = add32 (time_index fmt) (fe_lifetime f) mod timer_max_lifetime fm"
  have "dom (timer_value fmt) \<subseteq> fe_timer_index ` ran (flows fm)"
    using link_okD2 [OF inv'(11)] by (force simp: ran_def)
  moreover have "finite (ran (flows fm))" using inv'(1) by (rule finite_ran)
  ultimately have "finite (timer_pool fmt)" unfolding timer_pool_def by (simp add: finite_surj)
  then have "tm \<notin> timer_pool fmt" using lib unfolding pool_fresh_def tm_def by blast
  then have tm: "tm \<notin> dom (timer_value fmt)" "\<not> tm < TIMER_MAX_LIFETIME" unfolding timer_pool_def by auto
  have f: "fe_key f = key" "fe_timer_index f = tm" by (simp_all add: f_def new_flow_def)
  have st': "st' = (fm\<lparr>flows := (flows fm)(i \<mapsto> f)\<rparr>, fmt\<lparr>slots := dlist_addtail h tm (slots fmt),
      timer_value := (timer_value fmt)(tm \<mapsto> i), flow_counter := flow_counter fmt + 1,
      flows_ht := (flows_ht fmt)(key \<mapsto> i)\<rparr>)"
    by (simp add: st'_def create_flow_def timer_wheel_insert_flow_def Let_def h_def f f_def [symmetric] tm_def [symmetric])
  have i: "i \<notin> ran (flows_ht fmt)" "i \<in> dom (flows fm)" "i \<notin> set c" using inv'(7,8,10) by auto
  have ran: "ran ((flows_ht fmt)(key \<mapsto> i)) = insert i (ran (flows_ht fmt))" using fresh by simp
  have dm: "dom ((flows fm)(i \<mapsto> f)) = dom (flows fm)" using i by auto
  have link: "link_ok ((flows fm)(i \<mapsto> f)) ((flows_ht fmt)(key \<mapsto> i)) ((timer_value fmt)(tm \<mapsto> i))"
    using link_ok_insert [OF inv'(11) i(1), of f] fresh tm(1) by (simp add: f domIff)
  have wheel: "wheel_ok (timer_max_lifetime fm) (dlist_addtail h tm (slots fmt)) (insert tm (dom (timer_value fmt)))"
    by (rule wheel_ok_addtail [OF inv'(12) tm(1)]) (use inv'(5) in \<open>simp add: h_def\<close>)
  have card: "card (insert key (dom (flows_ht fmt))) = Suc (card (dom (flows_ht fmt)))"
    using inv'(14) fresh by (simp add: domIff)
  have "shared_inv (fst st')"
    using inv' dm by (simp add: st' shared_inv_def)
  moreover have "cpu_inv (fst st') (snd st')"
    using inv' dm ran link wheel card tm i c by (auto simp: st' cpu_inv_def)
  ultimately show "thread_inv st'" unfolding thread_inv_def by simp
  show "evolves (fm, fmt\<lparr>flow_cache := c @ [i]\<rparr>) st'"
    by (subst st', rule evolves_own [OF inv]) (use dm ran c in \<open>auto simp: owned_def\<close>)
  have "fe_lifetime f = flowtable_lifetime_calculate lib fm key" by (simp add: f_def new_flow_def)
  with tm(1) show "\<exists>tm. tm \<notin> dom (timer_value fmt) \<and> st' =
       (fm\<lparr>flows := (flows fm)(i \<mapsto> new_flow key (flowtable_lifetime_calculate lib fm key) now dir gen tm)\<rparr>,
        fmt\<lparr>slots := dlist_addtail (add32 (time_index fmt) (flowtable_lifetime_calculate lib fm key) mod timer_max_lifetime fm)
               tm (slots fmt),
             timer_value := (timer_value fmt)(tm \<mapsto> i), flow_counter := flow_counter fmt + 1,
             flows_ht := (flows_ht fmt)(key \<mapsto> i)\<rparr>)"
    by (intro exI [of _ tm]) (simp add: st' f_def h_def)
qed

lemma flow_entry_free_inv:
  assumes inv: "thread_inv (fm, fmt)" and i: "i \<in> dom (flows fm)" "i \<notin> owned fmt"
  shows "\<exists>fm' c. flow_entry_free i (fm, fmt) = (fm', fmt\<lparr>flow_cache := c\<rparr>) \<and> thread_inv (fm', fmt\<lparr>flow_cache := c\<rparr>)
    \<and> set c \<subseteq> insert i (set (flow_cache fmt))
    \<and> dom (flows fm') = dom (flows fm) - insert i (owned fmt) \<union> owned (fmt\<lparr>flow_cache := c\<rparr>)
    \<and> (\<forall>j. j \<notin> insert i (set (flow_cache fmt)) \<longrightarrow> flows fm' j = flows fm j)
    \<and> flows_max fm' = flows_max fm \<and> timer_lifetime fm' = timer_lifetime fm
    \<and> timer_max_lifetime fm' = timer_max_lifetime fm"
proof -
  note inv' = thread_invD [OF inv]
  have ran: "ran (flows_ht fmt) \<subseteq> dom (flows fm)" using owned_dom [OF inv] by (auto simp: owned_def)
  define c where "c = flow_cache fmt @ [i]"
  define fl where "fl = (flows fm)(i := map_option (\<lambda>f. f\<lparr>fe_app_uri := []\<rparr>) (flows fm i))"
  have fl: "dom fl = dom (flows fm)" "\<And>j. j \<noteq> i \<Longrightarrow> fl j = flows fm j" by (auto simp: fl_def)
  have c: "distinct c" "set c \<inter> ran (flows_ht fmt) = {}" "set c \<subseteq> dom (flows fm)" "length c \<le> 513"
    "set c = insert i (set (flow_cache fmt))"
    using inv'(7-10) i by (auto simp: c_def owned_def)
  show ?thesis
  proof (cases "length c > 512")
    case False
    have link: "link_ok fl (flows_ht fmt) (timer_value fmt)"
      by (rule link_ok_cong [OF inv'(11)]) (use i in \<open>auto simp: fl_def owned_def\<close>)
    have "flow_entry_free i (fm, fmt) = (fm\<lparr>flows := fl\<rparr>, fmt\<lparr>flow_cache := c\<rparr>)"
      using False by (simp add: flow_entry_free_def c_def fl_def)
    moreover have "thread_inv (fm\<lparr>flows := fl\<rparr>, fmt\<lparr>flow_cache := c\<rparr>)"
      using inv' c fl link False by (simp add: thread_inv_def shared_inv_def cpu_inv_def)
    ultimately show ?thesis
      using c fl ran by (intro exI [of _ "fm\<lparr>flows := fl\<rparr>"] exI [of _ c]) (auto simp: owned_def)
  next
    case True
    with c(4) have len: "length c = 513" by simp
    then have lenc: "length (flow_cache fmt) = 512" by (simp add: c_def)
    define d where "d = drop 257 c"
    have split: "c = take 257 c @ d" by (simp add: d_def)
    have d5: "set c = set (take 257 c) \<union> set d" by (subst split) (simp only: set_append)
    have d6: "set (take 257 c) \<inter> set d = {}" "distinct d"
      using c(1) by (subst (asm) split, simp only: distinct_append)+
    have d: "distinct d" "length d = 256" "set d \<subseteq> dom (flows fm)" "set d \<inter> ran (flows_ht fmt) = {}"
      "set c = set (take 257 c) \<union> set d" "set (take 257 c) \<inter> set d = {}"
      using d5 d6 len c(2,3) by (simp_all add: d_def) blast+
    let ?fl = "fl |` (- set d)" and ?c = "take 257 c"
    have dm: "dom ?fl = dom (flows fm) - set d" using fl(1) by auto
    have "card (set d) = 256" using d(1,2) by (simp add: distinct_card)
    then have card: "card (dom ?fl) + 256 = card (dom (flows fm))"
      unfolding dm using d(3) inv'(1) by (metis card_Diff_subset card_mono finite_subset le_add_diff_inverse2)
    have link: "link_ok ?fl (flows_ht fmt) (timer_value fmt)"
    proof (rule link_ok_cong [OF inv'(11)])
      fix j assume "j \<in> ran (flows_ht fmt)"
      then have "j \<noteq> i" "j \<notin> set d" using i d(4) by (auto simp: owned_def)
      then show "?fl j = flows fm j" using fl(2) by simp
    qed
    let ?fm = "fm\<lparr>flows := ?fl, flows_cpt := flows_cpt fm - 256\<rparr>"
    have "(flows_cpt fm + 2 ^ 64 - 256) mod 2 ^ 64 = flows_cpt fm - 256"
      using inv'(2,3) card by (simp add: mod_if)
    then have free: "flow_entry_free i (fm, fmt) = (?fm, fmt\<lparr>flow_cache := ?c\<rparr>)"
      using len lenc cache_empty_loop_spec [of c 512 fl]
      by (simp add: flow_entry_free_def flow_entry_cache_empty_def Let_def d_def fl_def [symmetric] c_def [symmetric])
    moreover have "thread_inv (?fm, fmt\<lparr>flow_cache := ?c\<rparr>)"
      using inv' c d dm card link by (auto simp: thread_inv_def shared_inv_def cpu_inv_def dest: in_set_takeD)
    moreover have "dom ?fl = dom (flows fm) - insert i (owned fmt) \<union> owned (fmt\<lparr>flow_cache := ?c\<rparr>)"
      using dm d c ran by (auto simp: owned_def)
    moreover have "\<forall>j. j \<notin> set c \<longrightarrow> ?fl j = flows fm j"
      using d(5) c(5) fl(2) by (auto simp: restrict_map_def)
    ultimately show ?thesis
      using c(5) d(5) by (intro exI [of _ ?fm] exI [of _ ?c]) auto
  qed
qed

text \<open>The three ways a timer is handled: the flow was active, it is blocked by the hook, or it goes.\<close>

definition blocks :: "(flow_entry \<Rightarrow> int) option \<Rightarrow> flow_entry \<Rightarrow> bool" where
  "blocks hook f \<longleftrightarrow> (case hook of None \<Rightarrow> False | Some h \<Rightarrow> h f \<noteq> 0)"

definition deadline :: "flow_entry \<Rightarrow> nat" where
  "deadline f = add32 (fe_active f) (fe_lifetime f)"

definition reschedule :: "flowtable_main \<Rightarrow> flow_entry \<Rightarrow> flowtable_main_per_cpu \<Rightarrow> flowtable_main_per_cpu" where
  "reschedule fm f fmt = fmt\<lparr>slots := dlist_addtail (deadline f mod timer_max_lifetime fm) (fe_timer_index f)
     (dlist_remove (fe_timer_index f) (slots fmt))\<rparr>"

definition unlink_flow :: "nat \<Rightarrow> flow_entry \<Rightarrow> flowtable_main_per_cpu \<Rightarrow> flowtable_main_per_cpu" where
  "unlink_flow e f fmt = fmt\<lparr>slots := dlist_remove e (slots fmt), timer_value := (timer_value fmt)(e := None),
     flows_ht := (flows_ht fmt)(fe_key f := None), flow_counter := flow_counter fmt - 1,
     stitched_counter := stitched_counter fmt - (if fe_is_spliced f then 1 else 0),
     dirty_counter := dirty_counter fmt - (if fe_spliced_dirty f then 1 else 0)\<rparr>"

lemma expire_single_flow_cases:
  assumes inv: "thread_inv (fm, fmt)" and e: "timer_value fmt e = Some i" and f: "flows fm i = Some f"
  defines "f' \<equiv> f\<lparr>fe_active := deadline f\<rparr>"
  shows "expire_single_flow hook i e now (fm, fmt) =
    (True, if deadline f > now then (fm, reschedule fm f fmt)
           else if blocks hook f then (fm\<lparr>flows := (flows fm)(i \<mapsto> f')\<rparr>, reschedule fm f' fmt)
           else flow_entry_free i (fm, unlink_flow e f fmt))"
proof -
  have e_f: "fe_timer_index f = e" using link_okD2 [OF thread_invD(11) [OF inv] e] f by auto
  have "\<not> e < TIMER_MAX_LIFETIME" using thread_invD(13) [OF inv] e by auto
  moreover have "n mod timer_max_lifetime fm < TIMER_MAX_LIFETIME" for n
    using thread_invD(5,6) [OF inv] by (meson less_le_trans mod_less_divisor)
  ultimately have ne: "n mod timer_max_lifetime fm \<noteq> e" for n by metis
  have same: "fm\<lparr>flows := (flows fm)(i \<mapsto> f)\<rparr> = fm" using f by (simp add: map_upd_triv)
  show ?thesis
    using same ne e_f by (auto simp: expire_single_flow_def f Let_def blocks_def deadline_def f'_def reschedule_def
        unlink_flow_def flowtable_entry_remove_def split: option.split)
qed

lemma unlink_flow_inv:
  assumes inv: "thread_inv (fm, fmt)" and e: "timer_value fmt e = Some i" and f: "flows fm i = Some f"
  shows "thread_inv (fm, unlink_flow e f fmt)" "owned fmt = insert i (owned (unlink_flow e f fmt))"
    "i \<notin> owned (unlink_flow e f fmt)" "i \<in> dom (flows fm)"
proof -
  note inv' = thread_invD [OF inv]
  have ht: "flows_ht fmt (fe_key f) = Some i" using link_okD2 [OF inv'(11) e] f by auto
  then have r: "i \<in> ran (flows_ht fmt)" by (rule ranI)
  define fmt1 where "fmt1 = unlink_flow e f fmt"
  have fmt1: "flow_cache fmt1 = flow_cache fmt" "flows_ht fmt1 = (flows_ht fmt)(fe_key f := None)"
    "timer_value fmt1 = (timer_value fmt)(e := None)" "slots fmt1 = dlist_remove e (slots fmt)"
    "flow_counter fmt1 = flow_counter fmt - 1"
    by (simp_all add: fmt1_def unlink_flow_def)
  have ran: "ran (flows_ht fmt1) = ran (flows_ht fmt) - {i}"
    using ran_delete [OF inv'(11) ht] by (simp add: fmt1)
  have i: "i \<notin> set (flow_cache fmt)" using r inv'(10) by auto
  have link: "link_ok (flows fm) (flows_ht fmt1) (timer_value fmt1)"
    using link_ok_delete [OF inv'(11) e f] by (simp add: fmt1)
  have wheel: "wheel_ok (timer_max_lifetime fm) (slots fmt1) (dom (timer_value fmt) - {e})"
    using wheel_ok_remove [OF inv'(12)] by (simp add: fmt1)
  have card: "card (dom (flows_ht fmt)) = Suc (card (dom (flows_ht fmt) - {fe_key f}))"
    using ht inv'(14) by (metis card.remove domI)
  show "thread_inv (fm, unlink_flow e f fmt)"
    using inv' ran link wheel card unfolding fmt1_def [symmetric]
    by (auto simp: thread_inv_def shared_inv_def cpu_inv_def fmt1)
  show "owned fmt = insert i (owned (unlink_flow e f fmt))" "i \<notin> owned (unlink_flow e f fmt)" "i \<in> dom (flows fm)"
    using ran r i f unfolding fmt1_def [symmetric] by (auto simp: owned_def fmt1)
qed

lemma expire_single_flow_inv:
  assumes inv: "thread_inv (fm, fmt)" and e: "timer_value fmt e = Some i"
  shows "thread_inv (snd (expire_single_flow hook i e now (fm, fmt)))" (is "thread_inv ?st")
    "evolves (fm, fmt) (snd (expire_single_flow hook i e now (fm, fmt)))"
proof -
  note inv' = thread_invD [OF inv]
  obtain f where f: "flows fm i = Some f" "fe_timer_index f = e" "flows_ht fmt (fe_key f) = Some i"
    using link_okD2 [OF inv'(11) e] by blast
  have r: "i \<in> ran (flows_ht fmt)" using f(3) by (rule ranI)
  have w: "wheel_ok (timer_max_lifetime fm) (dlist_addtail (n mod timer_max_lifetime fm) e (dlist_remove e (slots fmt)))
      (dom (timer_value fmt))" for n
    by (rule wheel_ok_move [OF inv'(12)]) (use e inv'(5) in auto)
  have same: "fm\<lparr>flows := (flows fm)(i \<mapsto> f)\<rparr> = fm" using f by (simp add: map_upd_triv)
  note move = update_flow_inv [OF inv f(1) r _ _ w, of f] update_flow_inv [OF inv f(1) r _ _ w, of "f\<lparr>fe_active := deadline f\<rparr>"]
  let ?fmt1 = "unlink_flow e f fmt"
  note un = unlink_flow_inv [OF inv e f(1)]
  obtain fm' c where free: "flow_entry_free i (fm, ?fmt1) = (fm', ?fmt1\<lparr>flow_cache := c\<rparr>)"
    "thread_inv (fm', ?fmt1\<lparr>flow_cache := c\<rparr>)" "set c \<subseteq> insert i (set (flow_cache ?fmt1))"
    "dom (flows fm') = dom (flows fm) - insert i (owned ?fmt1) \<union> owned (?fmt1\<lparr>flow_cache := c\<rparr>)"
    "\<forall>j. j \<notin> insert i (set (flow_cache ?fmt1)) \<longrightarrow> flows fm' j = flows fm j"
    "flows_max fm' = flows_max fm" "timer_lifetime fm' = timer_lifetime fm"
    "timer_max_lifetime fm' = timer_max_lifetime fm"
    using flow_entry_free_inv [OF un(1,4,3)] by blast
  have own: "set (flow_cache ?fmt1) \<subseteq> owned ?fmt1" "owned (?fmt1\<lparr>flow_cache := c\<rparr>) \<subseteq> insert i (owned ?fmt1)"
    using free(3) by (auto simp: owned_def)
  then have "evolves (fm, fmt) (fm', ?fmt1\<lparr>flow_cache := c\<rparr>)"
    using free(4-8) un(2,3) by (auto simp: evolves_def)
  then show "thread_inv ?st" "evolves (fm, fmt) ?st"
    using move f(2) free(1,2) same by (simp_all add: expire_single_flow_cases [OF inv e f(1)] reschedule_def)
qed

end
