(* ===== verification/Flow_Expire.thy ===== *)
theory Flow_Expire
  imports Flow_Inv
begin

text \<open>
  The loops of the flow table: the removal of expired flows returns, keeps the invariant, handles at
  most 256 timers, and unless it stops at that limit leaves no flow behind whose lifetime is over;
  \<^verbatim>\<open>recycle_flow\<close> does not return once the time has passed the number of slots.
\<close>

section \<open>What a scan of the timers does to the flows\<close>

definition timer_flow :: "flowtable_main \<times> flowtable_main_per_cpu \<Rightarrow> nat \<Rightarrow> flow_entry option" where
  "timer_flow st e = Option.bind (timer_value (snd st) e) (flows (fst st))"

definition placed :: "(flow_entry \<Rightarrow> int) option \<Rightarrow> nat \<Rightarrow> flowtable_main \<times> flowtable_main_per_cpu \<Rightarrow> nat \<Rightarrow> flow_entry \<Rightarrow> bool" where
  "placed hook now st e f \<longleftrightarrow> blocks hook f
     \<or> now < deadline f \<and> e \<in> set (slots (snd st) (deadline f mod timer_max_lifetime (fst st)))"

definition settles :: "(flow_entry \<Rightarrow> int) option \<Rightarrow> nat \<Rightarrow> flowtable_main \<times> flowtable_main_per_cpu
    \<Rightarrow> flowtable_main \<times> flowtable_main_per_cpu \<Rightarrow> bool" where
  "settles hook now st st' \<longleftrightarrow>
     (\<forall>e f. timer_flow st' e = Some f \<longrightarrow>
        placed hook now st' e f
      \<or> timer_flow st e = Some f \<and> (\<forall>s. e \<in> set (slots (snd st') s) \<longleftrightarrow> e \<in> set (slots (snd st) s)))
   \<and> next_check (snd st') = next_check (snd st) \<and> time_index (snd st') = time_index (snd st)
   \<and> timer_max_lifetime (fst st') = timer_max_lifetime (fst st) \<and> flows_ht (snd st') \<subseteq>\<^sub>m flows_ht (snd st)"

definition times_ok :: "nat \<Rightarrow> flowtable_main \<times> flowtable_main_per_cpu \<Rightarrow> bool" where
  "times_ok now st \<longleftrightarrow> (\<forall>e f. timer_flow st e = Some f \<longrightarrow> fe_active f \<le> now \<and> fe_lifetime f < 2 ^ 16)"

text \<open>A hook that looks at the proxy session of the flow only, like the one of the proxy.\<close>

definition stable_hook :: "(flow_entry \<Rightarrow> int) option \<Rightarrow> bool" where
  "stable_hook hook \<longleftrightarrow> (\<forall>f g. fe_ps_index f = fe_ps_index g \<longrightarrow> blocks hook f = blocks hook g)"

lemma stable_hookD: "stable_hook hook \<Longrightarrow> fe_ps_index f = fe_ps_index g \<Longrightarrow> blocks hook f \<Longrightarrow> blocks hook g"
  unfolding stable_hook_def by blast

lemma proxy_hook_stable: "stable_hook None" "stable_hook (Some upf_proxy_flow_expiration_hook)"
  by (simp_all add: stable_hook_def blocks_def upf_proxy_flow_expiration_hook_def)

lemma settles_refl [simp]: "settles hook now st st"
  by (simp add: settles_def)

lemma settles_trans [trans]:
  assumes "settles hook now st st'" "settles hook now st' st''" shows "settles hook now st st''"
  unfolding settles_def
proof (intro conjI allI impI)
  fix e f assume f: "timer_flow st'' e = Some f"
  show "placed hook now st'' e f \<or> timer_flow st e = Some f
      \<and> (\<forall>s. e \<in> set (slots (snd st'') s) \<longleftrightarrow> e \<in> set (slots (snd st) s))"
  proof (cases "placed hook now st'' e f")
    case False
    with f assms(2) have same: "timer_flow st' e = Some f"
      "\<And>s. e \<in> set (slots (snd st'') s) \<longleftrightarrow> e \<in> set (slots (snd st') s)"
      "timer_max_lifetime (fst st'') = timer_max_lifetime (fst st')"
      unfolding settles_def by blast+
    with False have "\<not> placed hook now st' e f" by (simp add: placed_def)
    with same assms(1) show ?thesis unfolding settles_def by blast
  qed simp
qed (use assms in \<open>auto simp: settles_def intro: map_le_trans\<close>)

lemma timer_flow_ran:
  assumes "thread_inv (fm, fmt)" "timer_flow (fm, fmt) e = Some f"
  shows "\<exists>i. timer_value fmt e = Some i \<and> flows fm i = Some f \<and> flows_ht fmt (fe_key f) = Some i \<and> fe_timer_index f = e"
  using assms(2) link_okD2 [OF thread_invD(11) [OF assms(1)]] by (fastforce simp: timer_flow_def bind_eq_Some_conv)

lemma timer_flow_unlinked:
  assumes inv: "thread_inv (fm, fmt)" and e: "timer_value fmt e = Some i" and f: "flows fm i = Some f"
    and free: "flow_entry_free i (fm, unlink_flow e f fmt) = (fm', fmt')"
  shows "timer_flow (fm', fmt') d = (if d = e then None else timer_flow (fm, fmt) d)"
    "slots fmt' = dlist_remove e (slots fmt)"
    "next_check fmt' = next_check fmt" "time_index fmt' = time_index fmt" "timer_max_lifetime fm' = timer_max_lifetime fm"
    "flows_ht fmt' = (flows_ht fmt)(fe_key f := None)"
proof -
  note un = unlink_flow_inv [OF inv e f]
  obtain c where free': "fmt' = (unlink_flow e f fmt)\<lparr>flow_cache := c\<rparr>"
    "\<forall>j. j \<notin> insert i (set (flow_cache fmt)) \<longrightarrow> flows fm' j = flows fm j"
    "timer_max_lifetime fm' = timer_max_lifetime fm"
    using flow_entry_free_inv [OF un(1,4,3)] free by (auto simp: unlink_flow_def)
  then show "slots fmt' = dlist_remove e (slots fmt)" "next_check fmt' = next_check fmt" "time_index fmt' = time_index fmt"
    "timer_max_lifetime fm' = timer_max_lifetime fm" "flows_ht fmt' = (flows_ht fmt)(fe_key f := None)"
    by (simp_all add: unlink_flow_def)
  have "flows fm' j = flows fm j" if d: "timer_value fmt d = Some j" "d \<noteq> e" for j
  proof -
    obtain g :: flow_entry where g: "flows_ht fmt (fe_key g) = Some j"
      using link_okD2 [OF thread_invD(11) [OF inv] d(1)] by blast
    have "j \<noteq> i" using link_ok_timer_inj [OF thread_invD(11) [OF inv] e] d by auto
    moreover have "j \<notin> set (flow_cache fmt)" using thread_invD(10) [OF inv] g by (auto simp: ran_def)
    ultimately show ?thesis using free'(2) by simp
  qed
  then show "timer_flow (fm', fmt') d = (if d = e then None else timer_flow (fm, fmt) d)"
    by (auto simp: timer_flow_def free'(1) unlink_flow_def split: bind_split)
qed

lemma expire_single_flow_settles:
  fixes now :: nat
  assumes inv: "thread_inv (fm, fmt)" and e: "timer_value fmt e = Some i" and hook: "stable_hook hook"
  defines "st' \<equiv> snd (expire_single_flow hook i e now (fm, fmt))"
  shows "settles hook now (fm, fmt) st'"
    "timer_flow st' e = Some f \<Longrightarrow> placed hook now st' e f"
    "\<exists>h. slots (snd st') = dlist_remove e (slots fmt) \<or> slots (snd st') = dlist_addtail h e (dlist_remove e (slots fmt))"
    "times_ok now (fm, fmt) \<Longrightarrow> times_ok now st'"
proof -
  obtain g where g: "flows fm i = Some g" "fe_timer_index g = e"
    using link_okD2 [OF thread_invD(11) [OF inv] e] by blast
  let ?g = "g\<lparr>fe_active := deadline g\<rparr>"
  have other: "timer_flow (fm\<lparr>flows := (flows fm)(i \<mapsto> x)\<rparr>, fmt\<lparr>slots := w\<rparr>) d = (if d = e then Some x else timer_flow (fm, fmt) d)"
    for d x w
  proof (cases "timer_value fmt d")
    case (Some j)
    with e link_ok_timer_inj [OF thread_invD(11) [OF inv] e, of d] have "d \<noteq> e \<Longrightarrow> j \<noteq> i" by auto
    with Some e show ?thesis by (cases "d = e") (simp_all add: timer_flow_def)
  qed (use e in \<open>auto simp: timer_flow_def\<close>)
  have moved: "d \<in> set (dlist_addtail h e (dlist_remove e w) s) \<longleftrightarrow> d \<in> set (w s)" if "d \<noteq> e" for d h s and w :: "nat \<Rightarrow> nat list"
    using that by (simp add: dlist_addtail_def dlist_remove_def)
  have there: "e \<in> set (dlist_addtail h e w h)" for h and w :: "nat \<Rightarrow> nat list" by (simp add: dlist_addtail_def)
  have same: "fm\<lparr>flows := (flows fm)(i \<mapsto> g)\<rparr> = fm" using g by (simp add: map_upd_triv)
  consider (active) "now < deadline g" "st' = (fm\<lparr>flows := (flows fm)(i \<mapsto> g)\<rparr>, reschedule fm g fmt)"
    | (blocked) "blocks hook g" "deadline g \<le> now" "st' = (fm\<lparr>flows := (flows fm)(i \<mapsto> ?g)\<rparr>, reschedule fm ?g fmt)"
    | (gone) fm' fmt' where "st' = (fm', fmt')" "flow_entry_free i (fm, unlink_flow e g fmt) = (fm', fmt')"
    using expire_single_flow_cases [OF inv e g(1), of hook now] same
    by (cases "flow_entry_free i (fm, unlink_flow e g fmt)") (auto simp: st'_def split: if_splits)
  note cases = this
  show "settles hook now (fm, fmt) st'"
  proof (cases rule: cases)
    case active
    then show ?thesis using other moved there g(2) by (auto simp: settles_def reschedule_def placed_def)
  next
    case blocked
    then have "blocks hook ?g" using stable_hookD [OF hook, of g ?g] by simp
    then show ?thesis using blocked other moved g(2) by (auto simp: settles_def reschedule_def placed_def)
  next
    case gone
    then show ?thesis
      using timer_flow_unlinked [OF inv e g(1) gone(2)] by (auto simp: settles_def dlist_remove_def map_le_def split: if_splits)
  qed
  show "placed hook now st' e f" if "timer_flow st' e = Some f"
  proof (cases rule: cases)
    case active
    then show ?thesis using that other there g(2) by (auto simp: reschedule_def placed_def)
  next
    case blocked
    then have "blocks hook ?g" using stable_hookD [OF hook, of g ?g] by simp
    then show ?thesis using blocked that other g(2) by (auto simp: reschedule_def placed_def)
  next
    case gone
    then show ?thesis using that timer_flow_unlinked(1) [OF inv e g(1) gone(2)] by simp
  qed
  show "\<exists>h. slots (snd st') = dlist_remove e (slots fmt) \<or> slots (snd st') = dlist_addtail h e (dlist_remove e (slots fmt))"
    by (cases rule: cases) (use timer_flow_unlinked(2) [OF inv e g(1)] g(2) in \<open>auto simp: reschedule_def\<close>)
  show "times_ok now st'" if t: "times_ok now (fm, fmt)"
  proof (cases rule: cases)
    case active
    moreover have "timer_flow (fm, fmt) e = Some g" using e g(1) by (simp add: timer_flow_def)
    ultimately show ?thesis using other t by (auto simp: reschedule_def times_ok_def)
  next
    case blocked
    moreover have "timer_flow (fm, fmt) e = Some g" using e g(1) by (simp add: timer_flow_def)
    ultimately show ?thesis using other t by (auto simp: reschedule_def times_ok_def)
  next
    case gone
    then show ?thesis using t timer_flow_unlinked(1) [OF inv e g(1) gone(2)] by (simp add: times_ok_def)
  qed
qed

section \<open>The loops\<close>

lemma dlist_next_Cons: "dlist_next e (e # xs) = dlist_first xs"
  by (cases xs) (simp_all add: dlist_first_def)

lemma dlist_first_append: "dlist_first (xs @ ys) = (if xs = [] then dlist_first ys else dlist_first xs)"
  by (cases xs) (simp_all add: dlist_first_def)

text \<open>The loop over a slot looks at the first element of the list, unless it has come round.\<close>

lemma expire_slot_returns:
  assumes "thread_inv st" "stable_hook hook" "cpt \<le> TIMER_MAX_EXPIRE"
    "idx = dlist_first (slots (snd st) slot) \<or>
     idx = None \<and> (\<forall>e f. e \<in> set (slots (snd st) slot) \<longrightarrow> timer_flow st e = Some f \<longrightarrow> placed hook now st e f)"
  shows "\<exists>cpt' st'. expire_slot hook slot now idx cpt st = Some (cpt', st') \<and> cpt \<le> cpt' \<and> cpt' \<le> TIMER_MAX_EXPIRE
    \<and> thread_inv st' \<and> evolves st st' \<and> settles hook now st st'
    \<and> (times_ok now st \<longrightarrow> times_ok now st')
    \<and> (cpt' < TIMER_MAX_EXPIRE \<longrightarrow>
        (\<forall>e f. e \<in> set (slots (snd st') slot) \<longrightarrow> timer_flow st' e = Some f \<longrightarrow> placed hook now st' e f))"
  using assms
proof (induction "TIMER_MAX_EXPIRE - cpt" arbitrary: cpt idx st)
  case 0
  then have "cpt = TIMER_MAX_EXPIRE" by simp
  then have "expire_slot hook slot now idx cpt st = Some (cpt, st)"
    by (subst expire_slot.simps) (simp split: option.split)
  with 0 \<open>cpt = _\<close> show ?case by simp
next
  case (Suc n)
  obtain fm fmt where st: "st = (fm, fmt)" by (cases st)
  show ?case
  proof (cases idx)
    case None
    moreover from None Suc.prems(4) have
      "\<forall>e f. e \<in> set (slots (snd st) slot) \<longrightarrow> timer_flow st e = Some f \<longrightarrow> placed hook now st e f"
      by (auto simp: dlist_first_def split: list.splits)
    ultimately show ?thesis using Suc.prems by (subst expire_slot.simps) simp
  next
    case (Some e)
    with Suc.prems(4) obtain xs where xs: "slots fmt slot = e # xs"
      by (auto simp: st dlist_first_def split: list.splits)
    note inv = Suc.prems(1) [unfolded st]
    obtain i where i: "timer_value fmt e = Some i"
      using wheel_ok_slot [OF thread_invD(12) [OF inv], of e slot] xs by auto
    then obtain f where f: "flows fm i = Some f" using link_okD2 [OF thread_invD(11) [OF inv]] by blast
    define st1 where "st1 = snd (expire_single_flow hook i e now st)"
    have fst1: "fst (expire_single_flow hook i e now st)"
      by (simp add: st expire_single_flow_cases [OF inv i f])
    note single = expire_single_flow_inv [OF inv i, of hook now, folded st, folded st1_def]
      expire_single_flow_settles [OF inv i Suc.prems(2), of now, folded st, folded st1_def]
    have "distinct (e # xs)" using thread_invD(12) [OF inv] xs unfolding wheel_ok_def by metis
    then have rem: "removeAll e (e # xs) = xs" by simp
    have slot1: "slots (snd st1) slot = xs \<or> slots (snd st1) slot = xs @ [e]"
      using single(5) xs rem by (auto simp: dlist_addtail_def dlist_remove_def st)
    have idx1: "dlist_first xs = dlist_first (slots (snd st1) slot) \<or> dlist_first xs = None \<and>
        (\<forall>d f. d \<in> set (slots (snd st1) slot) \<longrightarrow> timer_flow st1 d = Some f \<longrightarrow> placed hook now st1 d f)"
      using slot1 single(4) by (cases "xs = []") (auto simp: dlist_first_append dlist_first_def [of "[]"])
    have "cpt + 1 \<le> TIMER_MAX_EXPIRE" "n = TIMER_MAX_EXPIRE - (cpt + 1)" using Suc.hyps(2) by simp_all
    from Suc.hyps(1) [OF this(2) single(1) Suc.prems(2) this(1) idx1] obtain cpt' st' where
      IH: "expire_slot hook slot now (dlist_first xs) (cpt + 1) st1 = Some (cpt', st')" "cpt + 1 \<le> cpt'"
        "cpt' \<le> TIMER_MAX_EXPIRE" "thread_inv st'" "evolves st1 st'" "settles hook now st1 st'"
        "times_ok now st1 \<longrightarrow> times_ok now st'" "cpt' < TIMER_MAX_EXPIRE \<longrightarrow>
        (\<forall>e f. e \<in> set (slots (snd st') slot) \<longrightarrow> timer_flow st' e = Some f \<longrightarrow> placed hook now st' e f)"
      by blast
    have "expire_slot hook slot now idx cpt st = Some (cpt', st')"
      using IH(1) IH(2,3) fst1
      by (subst expire_slot.simps) (simp add: Some st i xs dlist_next_Cons Let_def st1_def)
    with IH single show ?thesis
      by (intro exI [of _ cpt'] exI [of _ st']) (auto intro: evolves_trans settles_trans)
  qed
qed

text \<open>
  A timer that has not been looked at yet sits in the slot of a second \<open>d\<close> that is still to come and
  not later than the end of the lifetime of its flow. Three kinds of flow are exempt: those the proxy
  holds now; those it has held, whose keys are in \<open>K\<close> and whose timers may be in a slot of the
  past; and those with lifetime zero, which may be inserted into the slot the scan of this second
  has passed.
\<close>

definition exempt :: "flow_key set \<Rightarrow> (flow_entry \<Rightarrow> int) option \<Rightarrow> flow_entry \<Rightarrow> bool" where
  "exempt K hook f \<longleftrightarrow> blocks hook f \<or> fe_lifetime f = 0 \<or> fe_key f \<in> K"

definition scheduled :: "flow_key set \<Rightarrow> (flow_entry \<Rightarrow> int) option \<Rightarrow> nat \<Rightarrow> flowtable_main \<times> flowtable_main_per_cpu \<Rightarrow> bool" where
  "scheduled K hook t st \<longleftrightarrow> (\<forall>e f. timer_flow st e = Some f \<longrightarrow>
     exempt K hook f \<or> (\<exists>d. t \<le> d \<and> d \<le> deadline f \<and> e \<in> set (slots (snd st) (d mod timer_max_lifetime (fst st)))))"

lemma scheduledD:
  "scheduled K hook t st \<Longrightarrow> timer_flow st e = Some f \<Longrightarrow> \<not> exempt K hook f \<Longrightarrow>
     \<exists>d. t \<le> d \<and> d \<le> deadline f \<and> e \<in> set (slots (snd st) (d mod timer_max_lifetime (fst st)))"
  unfolding scheduled_def by blast

lemma scheduledI:
  "(\<And>e f. timer_flow st e = Some f \<Longrightarrow> \<not> exempt K hook f \<Longrightarrow>
     \<exists>d. t \<le> d \<and> d \<le> deadline f \<and> e \<in> set (slots (snd st) (d mod timer_max_lifetime (fst st))))
   \<Longrightarrow> scheduled K hook t st"
  unfolding scheduled_def by blast

lemma placed_scheduled:
  "placed hook now st e f \<Longrightarrow> \<not> blocks hook f \<Longrightarrow> t \<le> now + 1 \<Longrightarrow>
     \<exists>d. t \<le> d \<and> d \<le> deadline f \<and> e \<in> set (slots (snd st) (d mod timer_max_lifetime (fst st)))"
  unfolding placed_def by (intro exI [of _ "deadline f"]) auto

lemma settles_scheduled:
  assumes "settles hook now st st'" "scheduled K hook t st" "t \<le> now + 1"
  shows "scheduled K hook t st'"
proof (rule scheduledI)
  fix e f assume f: "timer_flow st' e = Some f" and b: "\<not> exempt K hook f"
  show "\<exists>d. t \<le> d \<and> d \<le> deadline f \<and> e \<in> set (slots (snd st') (d mod timer_max_lifetime (fst st')))"
  proof (cases "placed hook now st' e f")
    case True
    then show ?thesis using b assms(3) placed_scheduled [of hook now st' e f t] by (simp add: exempt_def)
  next
    case False
    with f assms(1) have "timer_flow st e = Some f" "\<forall>s. e \<in> set (slots (snd st') s) \<longleftrightarrow> e \<in> set (slots (snd st) s)"
      "timer_max_lifetime (fst st') = timer_max_lifetime (fst st)"
      unfolding settles_def by blast+
    with b scheduledD [OF assms(2)] show ?thesis by metis
  qed
qed

lemma scheduled_next:
  assumes "scheduled K hook t st" "t \<le> now"
    "\<forall>e f. e \<in> set (slots (snd st) (t mod timer_max_lifetime (fst st))) \<longrightarrow> timer_flow st e = Some f \<longrightarrow> placed hook now st e f"
  shows "scheduled K hook (t + 1) st"
proof (rule scheduledI)
  fix e f assume f: "timer_flow st e = Some f" and b: "\<not> exempt K hook f"
  obtain d where d: "t \<le> d" "d \<le> deadline f" "e \<in> set (slots (snd st) (d mod timer_max_lifetime (fst st)))"
    using scheduledD [OF assms(1) f b] by blast
  show "\<exists>d. t + 1 \<le> d \<and> d \<le> deadline f \<and> e \<in> set (slots (snd st) (d mod timer_max_lifetime (fst st)))"
  proof (cases "d = t")
    case True
    with d assms(3) f have "placed hook now st e f" by blast
    with b assms(2) show ?thesis by (intro placed_scheduled) (auto simp: exempt_def)
  qed (use d in \<open>auto intro!: exI [of _ d]\<close>)
qed

lemma expire_loop_returns:
  assumes "thread_inv st" "stable_hook hook" "cpt < TIMER_MAX_EXPIRE" "t \<le> now + 1" "now + 1 < 2 ^ 32"
  shows "\<exists>t' cpt' st'. expire_loop hook now t cpt st = Some (t', cpt', st') \<and> t \<le> t' \<and> t' \<le> now + 1
    \<and> cpt' \<le> TIMER_MAX_EXPIRE \<and> thread_inv st' \<and> evolves st st' \<and> settles hook now st st'
    \<and> (times_ok now st \<longrightarrow> times_ok now st')
    \<and> (scheduled K hook t st \<longrightarrow> scheduled K hook t' st') \<and> (cpt' < TIMER_MAX_EXPIRE \<longrightarrow> t' = now + 1)"
  using assms
proof (induction "now + 1 - t" arbitrary: t cpt st)
  case 0
  then show ?case by (subst expire_loop.simps) auto
next
  case (Suc n)
  have t_now: "t \<le> now" using Suc.hyps(2) by simp
  define slot where "slot = t mod timer_max_lifetime (fst st)"
  obtain cpt1 st1 where s: "expire_slot hook slot now (dlist_first (slots (snd st) slot)) cpt st = Some (cpt1, st1)"
    "cpt1 \<le> TIMER_MAX_EXPIRE" "thread_inv st1" "evolves st st1" "settles hook now st st1"
    "times_ok now st \<longrightarrow> times_ok now st1" "cpt1 < TIMER_MAX_EXPIRE \<longrightarrow>
        (\<forall>e f. e \<in> set (slots (snd st1) slot) \<longrightarrow> timer_flow st1 e = Some f \<longrightarrow> placed hook now st1 e f)"
    using expire_slot_returns [OF Suc.prems(1,2), of cpt "dlist_first (slots (snd st) slot)" slot now] Suc.prems(3) by auto
  have loop: "expire_loop hook now t cpt st =
      (if cpt1 = TIMER_MAX_EXPIRE then Some (t, cpt1, st1) else expire_loop hook now (t + 1) cpt1 st1)"
    using t_now Suc.prems(5) s(1) by (subst expire_loop.simps) (simp add: slot_def add32_def Let_def)
  have sch: "scheduled K hook t st \<longrightarrow> scheduled K hook t st1"
    using settles_scheduled [OF s(5)] Suc.prems(4) by blast
  show ?case
  proof (cases "cpt1 = TIMER_MAX_EXPIRE")
    case True
    then show ?thesis using loop s sch Suc.prems(4) by auto
  next
    case False
    with s(2) have c: "cpt1 < TIMER_MAX_EXPIRE" by simp
    have slot1: "slot = t mod timer_max_lifetime (fst st1)" using s(5) by (simp add: slot_def settles_def)
    have "t + 1 \<le> now + 1" "n = now + 1 - (t + 1)" using Suc.hyps(2) by simp_all
    from Suc.hyps(1) [OF this(2) s(3) Suc.prems(2) c this(1) Suc.prems(5)] obtain t' cpt' st' where
      IH: "expire_loop hook now (t + 1) cpt1 st1 = Some (t', cpt', st')" "t + 1 \<le> t'" "t' \<le> now + 1"
      "cpt' \<le> TIMER_MAX_EXPIRE" "thread_inv st'" "evolves st1 st'" "settles hook now st1 st'"
      "times_ok now st1 \<longrightarrow> times_ok now st'" "scheduled K hook (t + 1) st1 \<longrightarrow> scheduled K hook t' st'"
      "cpt' < TIMER_MAX_EXPIRE \<longrightarrow> t' = now + 1" by blast
    have "scheduled K hook t st \<longrightarrow> scheduled K hook (t + 1) st1"
      using sch scheduled_next [of K hook t st1 now] s(7) c slot1 \<open>t + 1 \<le> now + 1\<close> by auto
    with IH loop False s(4-6) show ?thesis
      by (intro exI [of _ t'] exI [of _ cpt'] exI [of _ st']) (auto intro: evolves_trans settles_trans)
  qed
qed

definition scan_start :: "nat \<Rightarrow> flowtable_main_per_cpu \<Rightarrow> nat" where
  "scan_start now fmt = (if next_check fmt \<noteq> NO_INDEX then next_check fmt else now)"

lemma flowtable_timer_expire_returns:
  assumes "thread_inv st" "stable_hook hook" "now + 1 < 2 ^ 32 - 1"
    "next_check (snd st) = NO_INDEX \<or> next_check (snd st) \<le> now + 1"
  shows "\<exists>cpt st'. flowtable_timer_expire hook now st = Some (cpt, st') \<and> cpt \<le> TIMER_MAX_EXPIRE
    \<and> thread_inv st' \<and> evolves st st' \<and> (times_ok now st \<longrightarrow> times_ok now st')
    \<and> next_check (snd st') \<noteq> NO_INDEX \<and> next_check (snd st') \<le> now + 1
    \<and> (scheduled K hook (scan_start now (snd st)) st \<longrightarrow> scheduled K hook (next_check (snd st')) st'
       \<and> (cpt < TIMER_MAX_EXPIRE \<longrightarrow> next_check (snd st') = now + 1))"
proof (cases "next_check (snd st) \<noteq> NO_INDEX \<and> now < next_check (snd st)")
  case True
  then show ?thesis
    using assms by (auto simp: flowtable_timer_expire_def scan_start_def)
next
  case False
  then have "scan_start now (snd st) \<le> now + 1" using assms(4) by (auto simp: scan_start_def)
  with expire_loop_returns [OF assms(1,2), of 0 "scan_start now (snd st)" now K] assms(3)
  obtain t' cpt' fm' fmt' where l: "expire_loop hook now (scan_start now (snd st)) 0 st = Some (t', cpt', fm', fmt')"
    "t' \<le> now + 1" "cpt' \<le> TIMER_MAX_EXPIRE" "thread_inv (fm', fmt')" "evolves st (fm', fmt')"
    "times_ok now st \<longrightarrow> times_ok now (fm', fmt')"
    "scheduled K hook (scan_start now (snd st)) st \<longrightarrow> scheduled K hook t' (fm', fmt')" "cpt' < TIMER_MAX_EXPIRE \<longrightarrow> t' = now + 1"
    by auto
  let ?st = "(fm', fmt'\<lparr>next_check := t'\<rparr>)"
  have "flowtable_timer_expire hook now st = Some (cpt', ?st)"
    using False l(1) by (auto simp: flowtable_timer_expire_def scan_start_def Let_def)
  moreover have "thread_inv ?st" using l(4) by (simp add: thread_inv_def cpu_inv_def)
  moreover have "evolves st ?st" using l(5) by (simp add: evolves_def owned_def)
  moreover have tf: "timer_flow ?st = timer_flow (fm', fmt')" by (simp add: timer_flow_def fun_eq_iff)
  moreover have "scheduled K hook t' ?st = scheduled K hook t' (fm', fmt')" "times_ok now ?st = times_ok now (fm', fmt')"
    by (simp_all add: scheduled_def times_ok_def tf)
  ultimately show ?thesis using l assms(3) by (intro exI [of _ cpt'] exI [of _ ?st]) auto
qed

text \<open>After a scan to its end, a scheduled flow still has time left.\<close>

lemma scheduled_deadline: "scheduled K hook (now + 1) st \<Longrightarrow> timer_flow st e = Some f \<Longrightarrow> exempt K hook f \<or> now < deadline f"
  unfolding scheduled_def by fastforce

section \<open>Recycling\<close>

lemma recycle_loop_inv:
  assumes ret: "recycle_loop hook now nxt st = Some st'" and hook: "stable_hook hook"
  shows "thread_inv st \<longrightarrow> thread_inv st' \<and> evolves st st' \<and> settles hook now st st' \<and> (times_ok now st \<longrightarrow> times_ok now st')"
proof (rule recycle_loop.raw_induct [where P = "\<lambda>h n nxt st st'. h = hook \<and> n = now \<longrightarrow> thread_inv st \<longrightarrow>
    thread_inv st' \<and> evolves st st' \<and> settles hook now st st' \<and> (times_ok now st \<longrightarrow> times_ok now st')",
    OF _ ret, THEN mp, OF _ conjI [OF refl refl]])
  fix rec h n nxt st st'
  assume IH: "\<And>h n nxt st st'. rec h n nxt st = Some st' \<Longrightarrow> h = hook \<and> n = now \<longrightarrow> thread_inv st \<longrightarrow>
      thread_inv st' \<and> evolves st st' \<and> settles hook now st st' \<and> (times_ok now st \<longrightarrow> times_ok now st')"
    and eq: "(if nxt \<noteq> n then
        (case slots (snd st) nxt of
           [] \<Rightarrow> rec h n (add32 nxt 1 mod timer_max_lifetime (fst st)) st
         | e # _ \<Rightarrow> rec h n nxt (snd (expire_single_flow h (the (timer_value (snd st) e)) e n st)))
      else Some st) = Some st'"
  show "h = hook \<and> n = now \<longrightarrow> thread_inv st \<longrightarrow>
      thread_inv st' \<and> evolves st st' \<and> settles hook now st st' \<and> (times_ok now st \<longrightarrow> times_ok now st')"
  proof (intro impI, elim conjE)
    assume h: "h = hook" "n = now" and inv: "thread_inv st"
    obtain fm fmt where st: "st = (fm, fmt)" by (cases st)
    show "thread_inv st' \<and> evolves st st' \<and> settles hook now st st' \<and> (times_ok now st \<longrightarrow> times_ok now st')"
    proof (cases "slots (snd st) nxt")
      case Nil
      then show ?thesis using eq IH inv h by (cases "nxt = n") auto
    next
      case (Cons e xs)
      obtain i where i: "timer_value fmt e = Some i"
        using wheel_ok_slot [OF thread_invD(12) [OF inv [unfolded st]], of e nxt] Cons by (auto simp: st)
      note single = expire_single_flow_inv [OF inv [unfolded st] i, of hook now, folded st]
        expire_single_flow_settles [OF inv [unfolded st] i hook, of now, folded st]
      show ?thesis
      proof (cases "nxt = n")
        case False
        then have "rec hook now nxt (snd (expire_single_flow hook i e now st)) = Some st'"
          using eq Cons i h by (simp add: st)
        from IH [OF this] single show ?thesis using inv by (auto intro: evolves_trans settles_trans)
      qed (use eq inv in simp)
    qed
  qed
qed

text \<open>The slot number never reaches a time that is not a slot number.\<close>

lemma recycle_flow_stuck:
  assumes "0 < timer_max_lifetime (fst st)" "timer_max_lifetime (fst st) \<le> now"
  shows "recycle_flow hook now st = None"
proof (rule ccontr)
  assume "recycle_flow hook now st \<noteq> None"
  then obtain r where "recycle_loop hook now (add32 now 1 mod timer_max_lifetime (fst st)) st = Some r"
    by (auto simp: recycle_flow_def)
  then have "timer_max_lifetime (fst st) \<le> now \<longrightarrow> add32 now 1 mod timer_max_lifetime (fst st) < timer_max_lifetime (fst st) \<longrightarrow> False"
  proof (rule recycle_loop.raw_induct [where P = "\<lambda>h n nxt st r. timer_max_lifetime (fst st) \<le> n \<longrightarrow>
      nxt < timer_max_lifetime (fst st) \<longrightarrow> False", rotated])
    fix rec h n nxt st r
    assume IH: "\<And>h n nxt st r. rec h n nxt st = Some r \<Longrightarrow> timer_max_lifetime (fst st) \<le> n \<longrightarrow> nxt < timer_max_lifetime (fst st) \<longrightarrow> False"
      and eq: "(if nxt \<noteq> n then
          (case slots (snd st) nxt of
             [] \<Rightarrow> rec h n (add32 nxt 1 mod timer_max_lifetime (fst st)) st
           | e # _ \<Rightarrow> rec h n nxt (snd (expire_single_flow h (the (timer_value (snd st) e)) e n st)))
        else Some st) = Some r"
    have m: "timer_max_lifetime (fst (snd (expire_single_flow h i e n st))) = timer_max_lifetime (fst st)" for i e
      by (cases st) (auto simp: expire_single_flow_def flow_entry_free_def flow_entry_cache_empty_def Let_def split: prod.split)
    show "timer_max_lifetime (fst st) \<le> n \<longrightarrow> nxt < timer_max_lifetime (fst st) \<longrightarrow> False"
    proof (intro impI)
      assume a: "timer_max_lifetime (fst st) \<le> n" "nxt < timer_max_lifetime (fst st)"
      then have "nxt \<noteq> n" by simp
      with eq IH m a show False
        by (cases "slots (snd st) nxt") (fastforce, metis (no_types, lifting) list.simps(5))
    qed
  qed
  with assms show False by simp
qed

end
