(* ===== verification/Flow_System.thy ===== *)
theory Flow_System
  imports Flow_Expire
begin

text \<open>
  Packets and threads: what looking up or creating a flow does to the table seen as a map from keys to
  flows, that a frame of packets is processed to its end, and the states all threads together reach.
\<close>

section \<open>The table as a map\<close>

definition flow_map :: "flowtable_main \<times> flowtable_main_per_cpu \<Rightarrow> flow_key \<rightharpoonup> flow_entry" where
  "flow_map st k = Option.bind (flows_ht (snd st) k) (flows (fst st))"

lemma flow_map_timer_flow:
  assumes "thread_inv st" "flow_map st k = Some f" shows "timer_flow st (fe_timer_index f) = Some f"
  using assms(2) link_okD1 [OF thread_invD(11)] assms(1)
  by (cases st) (fastforce simp: flow_map_def timer_flow_def bind_eq_Some_conv)

lemma flow_linked_once:
  assumes inv: "thread_inv (fm, fmt)" and i: "flows_ht fmt k = Some i"
  shows "\<exists>f slot. flows fm i = Some f \<and> fe_key f = k \<and> timer_value fmt (fe_timer_index f) = Some i
    \<and> slot < timer_max_lifetime fm
    \<and> distinct (slots fmt slot) \<and> (\<forall>t. fe_timer_index f \<in> set (slots fmt t) \<longleftrightarrow> t = slot)"
proof -
  obtain f where f: "flows fm i = Some f" "fe_key f = k" "timer_value fmt (fe_timer_index f) = Some i"
    using link_okD1 [OF thread_invD(11) [OF inv] i] by blast
  have w: "wheel_ok (timer_max_lifetime fm) (slots fmt) (dom (timer_value fmt))" by (rule thread_invD(12) [OF inv])
  with f(3) obtain slot where s: "fe_timer_index f \<in> set (slots fmt slot)" unfolding wheel_ok_def by blast
  then have "distinct (slots fmt slot)" "\<forall>t. fe_timer_index f \<in> set (slots fmt t) \<longleftrightarrow> t = slot"
    using w wheel_ok_unique [OF w] unfolding wheel_ok_def by blast+
  with f s wheel_ok_slot [OF w s] show ?thesis by blast
qed

section \<open>Lookup and creation\<close>

definition lifetimes_ok :: "flowtable_main \<Rightarrow> bool" where
  "lifetimes_ok fm \<longleftrightarrow> (\<forall>ty. timer_lifetime fm ty < 2 ^ 16)"

text \<open>What holds while a thread processes the packets of a frame at the time \<open>now\<close>.\<close>

definition frame_inv :: "flow_key set \<Rightarrow> (flow_entry \<Rightarrow> int) option \<Rightarrow> nat \<Rightarrow> flowtable_main \<times> flowtable_main_per_cpu \<Rightarrow> bool" where
  "frame_inv K hook now st \<longleftrightarrow> thread_inv st \<and> times_ok now st \<and> lifetimes_ok (fst st)
     \<and> scheduled K hook (scan_start now (snd st)) st \<and> time_index (snd st) = now mod timer_max_lifetime (fst st)
     \<and> (next_check (snd st) = NO_INDEX \<or> next_check (snd st) \<le> now + 1)"

lemma scan_start_simps [simp]:
  "scan_start now (fmt\<lparr>flow_cache := c\<rparr>) = scan_start now fmt" "scan_start now (fmt\<lparr>slots := w\<rparr>) = scan_start now fmt"
  "scan_start now (fmt\<lparr>timer_value := v\<rparr>) = scan_start now fmt" "scan_start now (fmt\<lparr>flows_ht := h\<rparr>) = scan_start now fmt"
  "scan_start now (fmt\<lparr>flow_counter := x\<rparr>) = scan_start now fmt"
  by (simp_all add: scan_start_def)

lemma frame_inv_start: "frame_inv K hook now st \<Longrightarrow> scan_start now (snd st) \<le> now + 1"
  by (auto simp: frame_inv_def scan_start_def)

lemma timer_flow_alloc:
  assumes "thread_inv (fm, fmt)" "\<forall>j \<in> dom (flows fm). flows fm' j = flows fm j"
  shows "timer_flow (fm', fmt\<lparr>flow_cache := c\<rparr>) = timer_flow (fm, fmt)" "flow_map (fm', fmt\<lparr>flow_cache := c\<rparr>) = flow_map (fm, fmt)"
proof -
  have "timer_value fmt e = Some j \<Longrightarrow> j \<in> dom (flows fm)" for e j
    using link_okD2 [OF thread_invD(11) [OF assms(1)]] by blast
  with assms(2) show "timer_flow (fm', fmt\<lparr>flow_cache := c\<rparr>) = timer_flow (fm, fmt)"
    by (auto simp: timer_flow_def fun_eq_iff split: bind_split)
  have "flows_ht fmt k = Some j \<Longrightarrow> j \<in> dom (flows fm)" for k j
    using link_okD1 [OF thread_invD(11) [OF assms(1)]] by blast
  with assms(2) show "flow_map (fm', fmt\<lparr>flow_cache := c\<rparr>) = flow_map (fm, fmt)"
    by (auto simp: flow_map_def fun_eq_iff split: bind_split)
qed

lemma alloc_frame:
  assumes lib: "pool_fresh lib" and fr: "frame_inv K hook now (fm, fmt)"
    and al: "flow_entry_alloc lib (fm, fmt) = (r, fm', fmt')"
  obtains c where "frame_inv K hook now (fm', fmt\<lparr>flow_cache := c\<rparr>)" "evolves (fm, fmt) (fm', fmt\<lparr>flow_cache := c\<rparr>)"
    "flow_map (fm', fmt\<lparr>flow_cache := c\<rparr>) = flow_map (fm, fmt)" "flows_cpt fm' \<le> flows_cpt fm + FLOW_CACHE_SZ"
    "flows_cpt fm \<le> flows_max fm \<longrightarrow> r \<noteq> None"
    "case r of None \<Rightarrow> fmt' = fmt\<lparr>flow_cache := c\<rparr>
       | Some i \<Rightarrow> c = flow_cache fmt' @ [i] \<and> fmt' = fmt\<lparr>flow_cache := butlast c\<rparr>"
proof -
  have inv: "thread_inv (fm, fmt)" using fr by (simp add: frame_inv_def)
  from flow_entry_alloc_inv [OF lib inv al] obtain c where c: "thread_inv (fm', fmt\<lparr>flow_cache := c\<rparr>)"
    "evolves (fm, fmt) (fm', fmt\<lparr>flow_cache := c\<rparr>)" "\<forall>j \<in> dom (flows fm). flows fm' j = flows fm j"
    "flows_cpt fm' \<le> flows_cpt fm + FLOW_CACHE_SZ" "flows_cpt fm \<le> flows_max fm \<longrightarrow> r \<noteq> None"
    "case r of None \<Rightarrow> fmt' = fmt\<lparr>flow_cache := c\<rparr>
              | Some i \<Rightarrow> c = flow_cache fmt' @ [i] \<and> fmt' = fmt\<lparr>flow_cache := butlast c\<rparr>" by blast
  note tf = timer_flow_alloc [OF inv c(3)]
  have "frame_inv K hook now (fm', fmt\<lparr>flow_cache := c\<rparr>)"
    using fr c(1,2) tf
    by (simp add: frame_inv_def times_ok_def scheduled_def evolves_def lifetimes_ok_def)
  then show ?thesis by (rule that [OF _ c(2) tf(2) c(4-6)])
qed

lemma deadline_new: "now + 2 ^ 16 < 2 ^ 32 \<Longrightarrow> l < 2 ^ 16 \<Longrightarrow> deadline (new_flow key l now dir gen tm) = now + l"
  by (simp add: deadline_def new_flow_def add32_def)

lemma create_frame:
  fixes dir :: bool and gen :: u16
  assumes lib: "pool_fresh lib" and fr: "frame_inv K hook now (fm, fmt\<lparr>flow_cache := c @ [i]\<rparr>)"
    and fresh: "flows_ht fmt key = None" and c: "flow_cache fmt = c" and now: "now + 2 ^ 16 < 2 ^ 32"
  defines "st' \<equiv> create_flow lib key now dir gen i (fm, fmt)"
  shows "frame_inv K hook now st'" "evolves (fm, fmt\<lparr>flow_cache := c @ [i]\<rparr>) st'"
    "flows_ht (snd st') = (flows_ht fmt)(key \<mapsto> i)" "flows_cpt (fst st') = flows_cpt fm"
    "\<exists>tm. flow_map st' = (flow_map (fm, fmt))(key \<mapsto> new_flow key (flowtable_lifetime_calculate lib fm key) now dir gen tm)"
proof -
  have inv: "thread_inv (fm, fmt\<lparr>flow_cache := c @ [i]\<rparr>)" using fr by (simp add: frame_inv_def)
  note inv' = thread_invD [OF inv, simplified]
  define l where "l = flowtable_lifetime_calculate lib fm key"
  note create = create_flow_inv [OF lib inv fresh c, of now dir gen, folded st'_def, folded l_def]
  obtain tm where tm: "tm \<notin> dom (timer_value fmt)" and st': "st' = (fm\<lparr>flows := (flows fm)(i \<mapsto> new_flow key l now dir gen tm)\<rparr>,
      fmt\<lparr>slots := dlist_addtail (add32 (time_index fmt) l mod timer_max_lifetime fm) tm (slots fmt),
          timer_value := (timer_value fmt)(tm \<mapsto> i), flow_counter := flow_counter fmt + 1,
          flows_ht := (flows_ht fmt)(key \<mapsto> i)\<rparr>)"
    using create(3) by blast
  let ?f = "new_flow key l now dir gen tm"
  have l: "l < 2 ^ 16" using fr by (auto simp: frame_inv_def lifetimes_ok_def l_def flowtable_lifetime_calculate_def)
  note dl = deadline_new [OF now l, of key dir gen tm]
  have "i \<notin> ran (flows_ht fmt)" "ran (timer_value fmt) = ran (flows_ht fmt)" using inv'(10) link_ok_ran [OF inv'(11)] by auto
  then have ni: "timer_value fmt e \<noteq> Some i" "flows_ht fmt k \<noteq> Some i" for e k by (auto simp: ran_def)
  have tf: "timer_flow st' = (timer_flow (fm, fmt))(tm \<mapsto> ?f)"
    using ni by (auto simp: st' timer_flow_def fun_eq_iff split: bind_split)
  have old: "timer_flow (fm, fmt\<lparr>flow_cache := c @ [i]\<rparr>) = timer_flow (fm, fmt)" by (simp add: timer_flow_def fun_eq_iff)
  have ti: "time_index fmt = now mod timer_max_lifetime fm" using fr by (simp add: frame_inv_def)
  have "now mod timer_max_lifetime fm + l < 2 ^ 32"
    using now l mod_less_eq_dividend [of now "timer_max_lifetime fm"] by linarith
  then have slot: "add32 (time_index fmt) l mod timer_max_lifetime fm = (now + l) mod timer_max_lifetime fm"
    by (simp add: ti add32_def mod_simps)
  have start: "scan_start now fmt \<le> now + 1" using frame_inv_start [OF fr] by simp
  have "scheduled K hook (scan_start now (snd st')) st'"
  proof (rule scheduledI)
    fix e f assume f: "timer_flow st' e = Some f" "\<not> exempt K hook f"
    show "\<exists>d. scan_start now (snd st') \<le> d \<and> d \<le> deadline f \<and> e \<in> set (slots (snd st') (d mod timer_max_lifetime (fst st')))"
    proof (cases "e = tm")
      case True
      with f have "f = ?f" by (simp add: tf)
      moreover from this f(2) have "0 < l" by (simp add: exempt_def new_flow_def)
      ultimately show ?thesis
        using start True slot dl by (intro exI [of _ "now + l"]) (simp add: st' dlist_addtail_def)
    next
      case False
      with f have "timer_flow (fm, fmt) e = Some f" by (simp add: tf)
      then show ?thesis
        using fr f(2) old scheduledD [of K hook "scan_start now fmt" "(fm, fmt\<lparr>flow_cache := c @ [i]\<rparr>)" e f]
        by (fastforce simp: frame_inv_def st' dlist_addtail_def)
    qed
  qed
  moreover have "times_ok now st'"
    using fr l old by (auto simp: times_ok_def tf frame_inv_def) (simp_all add: new_flow_def)
  ultimately show "frame_inv K hook now st'"
    using fr create(1) by (simp add: frame_inv_def st' lifetimes_ok_def)
  show "evolves (fm, fmt\<lparr>flow_cache := c @ [i]\<rparr>) st'" by (rule create(2))
  show "flows_ht (snd st') = (flows_ht fmt)(key \<mapsto> i)" "flows_cpt (fst st') = flows_cpt fm" by (simp_all add: st')
  show "\<exists>tm. flow_map st' = (flow_map (fm, fmt))(key \<mapsto> new_flow key (flowtable_lifetime_calculate lib fm key) now dir gen tm)"
    using ni by (intro exI [of _ tm]) (auto simp: st' flow_map_def l_def fun_eq_iff split: bind_split)
qed

text \<open>A frame may run with recycled flows; the invariant survives the scan.\<close>

lemma recycle_frame:
  assumes fr: "frame_inv K hook now st" and hook: "stable_hook hook" and ret: "recycle_flow hook now st = Some st'"
  shows "frame_inv K hook now st'" "evolves st st'" "flows_ht (snd st') \<subseteq>\<^sub>m flows_ht (snd st)"
proof -
  have "thread_inv st" using fr by (simp add: frame_inv_def)
  with recycle_loop_inv [OF _ hook, of now _ st st'] ret have *: "thread_inv st'" "evolves st st'" "settles hook now st st'"
    "times_ok now st \<longrightarrow> times_ok now st'" unfolding recycle_flow_def by blast+
  moreover have "scan_start now (snd st') = scan_start now (snd st)" using *(3) by (simp add: settles_def scan_start_def)
  moreover have "lifetimes_ok (fst st')" using fr *(2) by (simp add: evolves_def lifetimes_ok_def frame_inv_def)
  ultimately show "frame_inv K hook now st'"
    using fr settles_scheduled [OF *(3) _ frame_inv_start [OF fr]] by (simp add: frame_inv_def settles_def)
  show "evolves st st'" "flows_ht (snd st') \<subseteq>\<^sub>m flows_ht (snd st)" using * by (auto simp: settles_def)
qed

lemma lookup_create_frame:
  assumes lib: "pool_fresh lib" and fr: "frame_inv K hook now st" and hook: "stable_hook hook" and now: "now + 2 ^ 16 < 2 ^ 32"
    and ret: "flowtable_entry_lookup_create lib hook key now dir gen st = Some (r, created, st')"
  shows "frame_inv K hook now st'" "evolves st st'" "r = Some i \<Longrightarrow> flows_ht (snd st') key = Some i"
proof -
  have "frame_inv K hook now st' \<and> evolves st st' \<and> (\<forall>i. r = Some i \<longrightarrow> flows_ht (snd st') key = Some i)"
  proof (cases "flows_ht (snd st) key")
    case (Some j)
    with ret fr show ?thesis by (auto simp: flowtable_entry_lookup_create_def frame_inv_def)
  next
    case None
    have created: "frame_inv K hook now st' \<and> evolves st0 st' \<and> flows_ht (snd st') key = Some i"
      if fr0: "frame_inv K hook now st0" and al: "flow_entry_alloc lib st0 = (Some i, st1)" and k: "flows_ht (snd st0) key = None"
        and st': "st' = create_flow lib key now dir gen i st1" for st0 st1 i
    proof -
      obtain fm fmt fm1 fmt1 where st: "st0 = (fm, fmt)" "st1 = (fm1, fmt1)" by (cases st0, cases st1)
      obtain c0 where c0: "frame_inv K hook now (fm1, fmt\<lparr>flow_cache := c0\<rparr>)" "evolves (fm, fmt) (fm1, fmt\<lparr>flow_cache := c0\<rparr>)"
        "flow_map (fm1, fmt\<lparr>flow_cache := c0\<rparr>) = flow_map (fm, fmt)" "flows_cpt fm1 \<le> flows_cpt fm + FLOW_CACHE_SZ"
        "flows_cpt fm \<le> flows_max fm \<longrightarrow> Some i \<noteq> None"
        "case Some i of None \<Rightarrow> fmt1 = fmt\<lparr>flow_cache := c0\<rparr>
           | Some i \<Rightarrow> c0 = flow_cache fmt1 @ [i] \<and> fmt1 = fmt\<lparr>flow_cache := butlast c0\<rparr>"
        by (rule alloc_frame [OF lib fr0 [unfolded st] al [unfolded st]])
      then have c0': "c0 = flow_cache fmt1 @ [i]" and "fmt1 = fmt\<lparr>flow_cache := butlast c0\<rparr>" unfolding option.simps by blast+
      note c = c0(1,2) [unfolded c0'] this(2)
      have same: "fmt1\<lparr>flow_cache := x\<rparr> = fmt\<lparr>flow_cache := x\<rparr>" for x unfolding c(3) by simp
      have ht: "flows_ht fmt1 key = None" using k unfolding c(3) by (simp add: st)
      note cr = create_frame [OF lib c(1) [folded same] ht refl now, of dir gen]
      have "evolves st0 st'" using c(2) cr(2) unfolding st st' same by (rule evolves_trans)
      then show ?thesis using cr(1,3) by (simp add: st st')
    qed
    obtain r1 st1 where al: "flow_entry_alloc lib st = (r1, st1)" by (cases "flow_entry_alloc lib st")
    show ?thesis
    proof (cases r1)
      case (Some i)
      then have "st' = create_flow lib key now dir gen i st1" "r = Some i"
        using ret al None by (simp_all add: flowtable_entry_lookup_create_def)
      then show ?thesis using created [OF fr al [unfolded Some] None] by auto
    next
      case r1: None
      obtain fm fmt fm1 fmt1 where st: "st = (fm, fmt)" "st1 = (fm1, fmt1)" by (cases st, cases st1)
      obtain c where "frame_inv K hook now (fm1, fmt\<lparr>flow_cache := c\<rparr>)" "evolves (fm, fmt) (fm1, fmt\<lparr>flow_cache := c\<rparr>)"
          "fmt1 = fmt\<lparr>flow_cache := c\<rparr>"
        using alloc_frame [OF lib fr [unfolded st] al [unfolded st]] r1 by auto
      then have fr1: "frame_inv K hook now st1" "evolves st st1" "flows_ht (snd st1) key = None" using None by (simp_all add: st)
      obtain st2 r3 st3 where re: "recycle_flow hook now st1 = Some st2" "flow_entry_alloc lib st2 = (r3, st3)"
        "(case r3 of None \<Rightarrow> Some (None, False, st3) | Some i \<Rightarrow> Some (Some i, True, create_flow lib key now dir gen i st3)) = Some (r, created, st')"
        using ret al None r1 by (auto simp: flowtable_entry_lookup_create_def bind_eq_Some_conv)
      note rec = recycle_frame [OF fr1(1) hook re(1)]
      have k: "flows_ht (snd st2) key = None" using rec(3) fr1(3) by (metis domIff map_le_implies_dom_le subsetD)
      show ?thesis
      proof (cases r3)
        case (Some i)
        then have "st' = create_flow lib key now dir gen i st3" "r = Some i" using re(3) by simp_all
        with created [OF rec(1) re(2) [unfolded Some] k] fr1(2) rec(2) show ?thesis by (auto intro: evolves_trans)
      next
        case None
        obtain fm2 fmt2 fm3 fmt3 where s2: "st2 = (fm2, fmt2)" "st3 = (fm3, fmt3)" by (cases st2, cases st3)
        have "frame_inv K hook now st3" "evolves st2 st3"
          using alloc_frame [OF lib rec(1) [unfolded s2] re(2) [unfolded s2]] None by (auto simp: s2)
        with re(3) None fr1(2) rec(2) show ?thesis by (auto intro: evolves_trans)
      qed
    qed
  qed
  then show "frame_inv K hook now st'" "evolves st st'" "r = Some i \<Longrightarrow> flows_ht (snd st') key = Some i" by blast+
qed

text \<open>As long as the pool is not exhausted, a lookup returns, and the table is the map it was with the
  flow added if its key is new.\<close>

lemma lookup_create_refines:
  assumes lib: "pool_fresh lib" and fr: "frame_inv K hook now st" and now: "now + 2 ^ 16 < 2 ^ 32"
    and room: "flows_cpt (fst st) \<le> flows_max (fst st)"
  shows "\<exists>i created st'. flowtable_entry_lookup_create lib hook key now dir gen st = Some (Some i, created, st')
    \<and> flows_cpt (fst st') \<le> flows_cpt (fst st) + FLOW_CACHE_SZ
    \<and> (case flow_map st key of
         Some f \<Rightarrow> \<not> created \<and> st' = st \<and> flows (fst st) i = Some f
       | None \<Rightarrow> created \<and> (\<exists>tm. flow_map st' = (flow_map st)(key \<mapsto>
           new_flow key (flowtable_lifetime_calculate lib (fst st) key) now dir gen tm)))"
proof (cases "flows_ht (snd st) key")
  case (Some i)
  obtain fm fmt where st: "st = (fm, fmt)" by (cases st)
  have "thread_inv (fm, fmt)" using fr by (simp add: frame_inv_def st)
  from link_okD1 [OF thread_invD(11) [OF this]] Some obtain f where "flows fm i = Some f" by (auto simp: st)
  with Some st show ?thesis
    by (intro exI [of _ i] exI [of _ False] exI [of _ st]) (simp add: flowtable_entry_lookup_create_def flow_map_def)
next
  case None
  obtain fm fmt r1 fm1 fmt1 where st: "st = (fm, fmt)" and al: "flow_entry_alloc lib (fm, fmt) = (r1, fm1, fmt1)"
    by (cases st, cases "flow_entry_alloc lib st") auto
  obtain c where c: "frame_inv K hook now (fm1, fmt\<lparr>flow_cache := c\<rparr>)" "evolves (fm, fmt) (fm1, fmt\<lparr>flow_cache := c\<rparr>)"
    "flow_map (fm1, fmt\<lparr>flow_cache := c\<rparr>) = flow_map (fm, fmt)" "flows_cpt fm1 \<le> flows_cpt fm + FLOW_CACHE_SZ"
    "flows_cpt fm \<le> flows_max fm \<longrightarrow> r1 \<noteq> None"
    "case r1 of None \<Rightarrow> fmt1 = fmt\<lparr>flow_cache := c\<rparr>
       | Some i \<Rightarrow> c = flow_cache fmt1 @ [i] \<and> fmt1 = fmt\<lparr>flow_cache := butlast c\<rparr>"
    by (rule alloc_frame [OF lib fr [unfolded st] al])
  obtain i where i: "r1 = Some i" using c(5) room st by auto
  have c': "c = flow_cache fmt1 @ [i]" and fmt1: "fmt1 = fmt\<lparr>flow_cache := butlast c\<rparr>" using c(6) unfolding i option.simps by blast+
  have same: "fmt1\<lparr>flow_cache := x\<rparr> = fmt\<lparr>flow_cache := x\<rparr>" for x unfolding fmt1 by simp
  have ht: "flows_ht fmt1 key = None" using None unfolding fmt1 by (simp add: st)
  note cr = create_frame [OF lib c(1) [unfolded c', folded same] ht refl now, of dir gen]
  have "flow_map (fm1, fmt1) = flow_map st"
    using c(3) unfolding fmt1 st by (simp add: flow_map_def fun_eq_iff)
  moreover have "flowtable_lifetime_calculate lib fm1 key = flowtable_lifetime_calculate lib fm key"
    using c(2) by (simp add: evolves_def flowtable_lifetime_calculate_def)
  moreover have "flow_map st key = None" using None by (simp add: flow_map_def)
  ultimately show ?thesis
    using cr(4,5) c(4) None al i by (auto simp: flowtable_entry_lookup_create_def st)
qed

section \<open>Packets and frames\<close>

lemma upd_flow_frame:
  assumes fr: "frame_inv K hook now st" and hook: "stable_hook hook" and k: "flows_ht (snd st) k = Some i" and now: "now + 2 ^ 16 < 2 ^ 32"
    and g: "\<And>f. fe_key (g f) = fe_key f" "\<And>f. fe_timer_index (g f) = fe_timer_index f" "\<And>f. fe_ps_index (g f) = fe_ps_index f"
      "\<And>f. fe_lifetime (g f) = fe_lifetime f" "\<And>f. fe_active f \<le> now \<Longrightarrow> fe_active f \<le> fe_active (g f) \<and> fe_active (g f) \<le> now"
  shows "frame_inv K hook now (upd_flow i g st)" "evolves st (upd_flow i g st)"
proof -
  have inv: "thread_inv st" using fr by (simp add: frame_inv_def)
  note up = upd_flow_inv [OF inv k g(1,2)]
  obtain f where f: "flows (fst st) i = Some f"
    using link_okD1 [OF thread_invD(11)] inv k by (cases st) fastforce
  have tf: "timer_flow (upd_flow i g st) e = (if timer_value (snd st) e = Some i then Some (g f) else timer_flow st e)" for e
    using f by (simp add: timer_flow_def split: bind_split)
  have old: "timer_value (snd st) e = Some i \<Longrightarrow> timer_flow st e = Some f" for e using f by (simp add: timer_flow_def)
  have t: "fe_active h \<le> now" "fe_lifetime h < 2 ^ 16" if "timer_flow st e = Some h" for e h
    using fr that by (auto simp: frame_inv_def times_ok_def)
  have dl: "deadline h \<le> deadline (g h)" if "timer_flow st e = Some h" for e h
    using t [OF that] g(4,5) [of h] now by (simp add: deadline_def add32_def)
  have "scheduled K hook (scan_start now (snd st)) (upd_flow i g st)"
  proof (rule scheduledI)
    fix e h assume h: "timer_flow (upd_flow i g st) e = Some h" "\<not> exempt K hook h"
    have s: "scheduled K hook (scan_start now (snd st)) st" using fr by (simp add: frame_inv_def)
    show "\<exists>d. scan_start now (snd st) \<le> d \<and> d \<le> deadline h \<and>
        e \<in> set (slots (snd (upd_flow i g st)) (d mod timer_max_lifetime (fst (upd_flow i g st))))"
    proof (cases "timer_value (snd st) e = Some i")
      case True
      then have h': "h = g f" using h tf by simp
      have "\<not> exempt K hook f" using h(2) h' stable_hookD [OF hook, of f "g f"] g(1,3,4) by (auto simp: exempt_def)
      from scheduledD [OF s old [OF True] this] obtain d where "scan_start now (snd st) \<le> d" "d \<le> deadline f"
        "e \<in> set (slots (snd st) (d mod timer_max_lifetime (fst st)))" by blast
      with dl [OF old [OF True]] h' show ?thesis by (intro exI [of _ d]) auto
    qed (use scheduledD [OF s, of e h] h tf in auto)
  qed
  moreover have "times_ok now (upd_flow i g st)"
    using t old g(4,5) by (auto simp: times_ok_def tf) (metis old)+
  ultimately show "frame_inv K hook now (upd_flow i g st)"
    using fr up(1) by (simp add: frame_inv_def lifetimes_ok_def)
  show "evolves st (upd_flow i g st)" by (rule up(2))
qed

lemma tcp_lifetime_bounds: "s \<noteq> TCP_F_STATE_START \<Longrightarrow> 3 \<le> tcp_lifetime s \<and> tcp_lifetime s \<le> 299"
  by (cases s) auto

lemma tcp_update_frame:
  assumes fr: "frame_inv K hook now st" and hook: "stable_hook hook" and k: "flows_ht (snd st) k = Some i" and now: "now + 2 ^ 16 < 2 ^ 32"
    and active: "fe_active (the (flows (fst st) i)) = now"
  shows "frame_inv K hook now (flow_update_lifetime i h st)" "evolves st (flow_update_lifetime i h st)"
    "flows_ht (snd (flow_update_lifetime i h st)) = flows_ht (snd st)"
proof -
  have inv: "thread_inv st" using fr by (simp add: frame_inv_def)
  note up = tcp_update_inv [OF inv k]
  show "evolves st (flow_update_lifetime i h st)" "flows_ht (snd (flow_update_lifetime i h st)) = flows_ht (snd st)"
    by (rule up)+
  obtain fm fmt where st: "st = (fm, fmt)" by (cases st)
  obtain f where f: "flows fm i = Some f" "timer_value fmt (fe_timer_index f) = Some i"
    using link_okD1 [OF thread_invD(11)] inv k unfolding st by fastforce
  show "frame_inv K hook now (flow_update_lifetime i h st)"
  proof (cases "flow_update_lifetime i h st = st")
    case False
    define s where "s = tcp_trans (fe_tcp_state f) (tcp_event (packet_tcp_flags h))"
    define f' where "f' = f\<lparr>fe_tcp_state := s, fe_lifetime := tcp_lifetime s\<rparr>"
    have s: "s \<noteq> TCP_F_STATE_START" and res: "flow_update_lifetime i h st = (fm\<lparr>flows := (flows fm)(i \<mapsto> f')\<rparr>,
        fmt\<lparr>slots := dlist_addtail (add32 now (tcp_lifetime s) mod timer_max_lifetime fm) (fe_timer_index f)
                       (dlist_remove (fe_timer_index f) (slots fmt))\<rparr>)"
      using False active f(1)
      by (auto simp: flow_update_lifetime_def flow_tcp_update_lifetime_def st s_def f'_def Let_def split: if_splits)
    note b = tcp_lifetime_bounds [OF s]
    have dl: "deadline f' = now + tcp_lifetime s" "add32 now (tcp_lifetime s) = now + tcp_lifetime s"
      using b now active f(1) by (simp_all add: deadline_def f'_def add32_def st)
    have tf: "timer_flow (flow_update_lifetime i h st) e = (if e = fe_timer_index f then Some f' else timer_flow st e)" for e
    proof (cases "e = fe_timer_index f")
      case False
      with link_ok_timer_inj [OF thread_invD(11) [OF inv [unfolded st]] f(2), of e] have "timer_value fmt e \<noteq> Some i" by auto
      with False show ?thesis unfolding res by (auto simp: st timer_flow_def split: bind_split)
    qed (use f in \<open>simp add: res timer_flow_def\<close>)
    have "scheduled K hook (scan_start now (snd st)) (flow_update_lifetime i h st)"
    proof (rule scheduledI)
      fix e g assume g: "timer_flow (flow_update_lifetime i h st) e = Some g" "\<not> exempt K hook g"
      show "\<exists>d. scan_start now (snd st) \<le> d \<and> d \<le> deadline g \<and>
          e \<in> set (slots (snd (flow_update_lifetime i h st)) (d mod timer_max_lifetime (fst (flow_update_lifetime i h st))))"
      proof (cases "e = fe_timer_index f")
        case True
        then show ?thesis
          using frame_inv_start [OF fr] b g(1) tf dl
          by (intro exI [of _ "now + tcp_lifetime s"]) (auto simp: res dlist_addtail_def)
      next
        case False
        then show ?thesis
          using scheduledD [of K hook "scan_start now (snd st)" st e g] fr g tf
          unfolding res by (fastforce simp: frame_inv_def dlist_addtail_def dlist_remove_def st)
      qed
    qed
    moreover have "times_ok now (flow_update_lifetime i h st)"
      using fr b active f(1) by (auto simp: times_ok_def tf frame_inv_def) (auto simp: f'_def st)
    ultimately show ?thesis
      using fr up(1) [of h] unfolding res by (simp add: frame_inv_def st lifetimes_ok_def)
  qed (use fr in simp)
qed

lemma load_info_flow:
  "snd (snd (load_gtpu_flow_info pdr d g f)) = f \<or>
   snd (snd (load_gtpu_flow_info pdr d g f)) = f\<lparr>fe_application_id := 0xffffffff, fe_generation := g,
     fe_pdr_id := (0xffffffff, 0xffffffff), fe_next := (FT_NEXT_CLASSIFY, FT_NEXT_CLASSIFY)\<rparr>"
  by (simp add: load_gtpu_flow_info_def Let_def)

lemma process_packet_frame:
  assumes lib: "pool_fresh lib" and fr: "frame_inv K hook now st" and hook: "stable_hook hook" and now: "now + 2 ^ 16 < 2 ^ 32"
    and ret: "flow_process_packet lib hook now p st = Some (r, st')"
  shows "frame_inv K hook now st' \<and> evolves st st'"
proof (cases "pk_session_free p")
  case False
  obtain dir key where key: "flow_mk_key lib (pk_seid p) (pk_header p) = (dir, key)" by (cases "flow_mk_key lib (pk_seid p) (pk_header p)")
  obtain ri created st1 where l: "flowtable_entry_lookup_create lib hook key now dir (pk_generation p) st = Some (ri, created, st1)"
    using ret False key by (auto simp: flow_process_packet_def bind_eq_Some_conv)
  note lc = lookup_create_frame [OF lib fr hook now l]
  show ?thesis
  proof (cases ri)
    case None
    then show ?thesis using ret False key l lc by (simp add: flow_process_packet_def)
  next
    case (Some i)
    define g where "g = (\<lambda>f. flow_update_active now (f\<lparr>fe_session_index := pk_session_index p\<rparr>))"
    define st2 where "st2 = upd_flow i g st1"
    define st3 where "st3 = flow_update_lifetime i (pk_header p) st2"
    define st4 where "st4 = upd_flow i (flow_count dir (pk_length p)) st3"
    define g4 where "g4 = (\<lambda>f. snd (snd (load_gtpu_flow_info (pk_pdr_idx p) dir (pk_generation p) f)))"
    have st': "st' = upd_flow i g4 st4"
      using ret False key l Some
      by (simp add: flow_process_packet_def Let_def st4_def st3_def st2_def g_def g4_def)
    note k1 = lc(3) [OF Some]
    have 2: "frame_inv K hook now st2" "evolves st1 st2" unfolding st2_def
      by (rule upd_flow_frame [OF lc(1) hook k1 now]; simp add: g_def flow_update_active_def)+
    have k2: "flows_ht (snd st2) key = Some i" and a: "fe_active (the (flows (fst st2) i)) = now"
      using k1 by (simp_all add: st2_def g_def flow_update_active_def)
    have 3: "frame_inv K hook now st3" "evolves st2 st3" "flows_ht (snd st3) key = Some i"
      using tcp_update_frame [OF 2(1) hook k2 now a, of "pk_header p"] k2 unfolding st3_def by simp_all
    have 4: "frame_inv K hook now st4" "evolves st3 st4" unfolding st4_def
      by (rule upd_flow_frame [OF 3(1) hook 3(3) now]; simp add: flow_count_def Let_def)+
    have k4: "flows_ht (snd st4) key = Some i" using 3(3) by (simp add: st4_def)
    have "frame_inv K hook now st'" "evolves st4 st'" unfolding st'
      by (rule upd_flow_frame [OF 4(1) hook k4 now]; use load_info_flow in \<open>simp add: g4_def load_gtpu_flow_info_def Let_def\<close>)+
    with lc(2) 2 3 4 show ?thesis by (blast intro: evolves_trans)
  qed
qed (use ret fr in \<open>auto simp: flow_process_packet_def frame_inv_def\<close>)

lemma process_packets_frame:
  assumes lib: "pool_fresh lib" and hook: "stable_hook hook" and now: "now + 2 ^ 16 < 2 ^ 32"
  shows "frame_inv K hook now st \<Longrightarrow> flow_process_packets lib hook now ps st = Some (rs, st') \<Longrightarrow>
    frame_inv K hook now st' \<and> evolves st st'"
proof (induction ps arbitrary: st rs)
  case Nil
  then show ?case by (auto simp: frame_inv_def)
next
  case (Cons p ps)
  then obtain r st1 rs1 where 1: "flow_process_packet lib hook now p st = Some (r, st1)"
    "flow_process_packets lib hook now ps st1 = Some (rs1, st')" by (auto simp: bind_eq_Some_conv)
  note p = process_packet_frame [OF lib Cons.prems(1) hook now 1(1)]
  with Cons.IH [OF _ 1(2)] show ?case by (blast intro: evolves_trans)
qed

lemma process_packet_returns:
  assumes "pool_fresh lib" "frame_inv K hook now st" "now + 2 ^ 16 < 2 ^ 32" "flows_cpt (fst st) \<le> flows_max (fst st)"
  shows "\<exists>r st'. flow_process_packet lib hook now p st = Some (r, st') \<and> flows_cpt (fst st') \<le> flows_cpt (fst st) + FLOW_CACHE_SZ"
proof (cases "pk_session_free p")
  case False
  obtain dir key where key: "flow_mk_key lib (pk_seid p) (pk_header p) = (dir, key)" by (cases "flow_mk_key lib (pk_seid p) (pk_header p)")
  obtain i created st1 where l: "flowtable_entry_lookup_create lib hook key now dir (pk_generation p) st = Some (Some i, created, st1)"
    "flows_cpt (fst st1) \<le> flows_cpt (fst st) + FLOW_CACHE_SZ"
    using lookup_create_refines [OF assms, of key dir "pk_generation p"] by blast
  have "flows_cpt (fst (flow_update_lifetime i h s)) = flows_cpt (fst s)" for h s
    by (cases s) (simp add: flow_update_lifetime_def flow_tcp_update_lifetime_def Let_def)
  with l False key show ?thesis by (simp add: flow_process_packet_def Let_def)
qed (simp add: flow_process_packet_def)

lemma process_packets_returns:
  assumes lib: "pool_fresh lib" and hook: "stable_hook hook" and now: "now + 2 ^ 16 < 2 ^ 32"
  shows "frame_inv K hook now st \<Longrightarrow> flows_cpt (fst st) + length ps * FLOW_CACHE_SZ \<le> flows_max (fst st) \<Longrightarrow>
    \<exists>rs st'. flow_process_packets lib hook now ps st = Some (rs, st') \<and> length rs = length ps"
proof (induction ps arbitrary: st)
  case (Cons p ps)
  have "flows_cpt (fst st) \<le> flows_max (fst st)" using Cons.prems(2) by simp
  from process_packet_returns [OF lib Cons.prems(1) now this] obtain r st1
    where 1: "flow_process_packet lib hook now p st = Some (r, st1)" "flows_cpt (fst st1) \<le> flows_cpt (fst st) + FLOW_CACHE_SZ"
    by blast
  note p = process_packet_frame [OF lib Cons.prems(1) hook now 1(1)]
  have "flows_max (fst st1) = flows_max (fst st)" using p by (simp add: evolves_def)
  with 1(2) Cons.prems(2) have "flows_cpt (fst st1) + length ps * FLOW_CACHE_SZ \<le> flows_max (fst st1)" by simp
  with Cons.IH p 1(1) show ?case by fastforce
qed simp

text \<open>What holds between two frames, after one that was processed at the time \<open>now\<close>.\<close>

definition thread_ok :: "flow_key set \<Rightarrow> (flow_entry \<Rightarrow> int) option \<Rightarrow> nat \<Rightarrow> flowtable_main \<times> flowtable_main_per_cpu \<Rightarrow> bool" where
  "thread_ok K hook now st \<longleftrightarrow> thread_inv st \<and> times_ok now st \<and> lifetimes_ok (fst st)
     \<and> (if next_check (snd st) = NO_INDEX then dom (timer_value (snd st)) = {}
        else next_check (snd st) \<le> now + 1 \<and> scheduled K hook (next_check (snd st)) st)"

lemma frame_begin:
  assumes "thread_ok K hook now0 (fm, fmt)" "now0 \<le> now"
  shows "frame_inv K hook now (fm, timer_wheel_index_update fm now fmt)" "evolves (fm, fmt) (fm, timer_wheel_index_update fm now fmt)"
proof -
  let ?st = "(fm, timer_wheel_index_update fm now fmt)"
  have tf: "timer_flow ?st = timer_flow (fm, fmt)" by (simp add: timer_flow_def timer_wheel_index_update_def fun_eq_iff)
  have sc: "scheduled K hook t ?st = scheduled K hook t (fm, fmt)" for t
    unfolding scheduled_def tf by (simp add: timer_wheel_index_update_def)
  have "dom (timer_value fmt) = {} \<Longrightarrow> scheduled K hook t (fm, fmt)" for t
    by (rule scheduledI) (simp add: timer_flow_def)
  then have "scheduled K hook (scan_start now (snd ?st)) ?st"
    using assms unfolding sc by (auto simp: thread_ok_def scan_start_def timer_wheel_index_update_def split: if_splits)
  moreover have "times_ok now ?st" using assms unfolding times_ok_def tf by (fastforce simp: thread_ok_def times_ok_def)
  moreover have "thread_inv ?st"
    using assms by (simp add: thread_ok_def thread_inv_def cpu_inv_def timer_wheel_index_update_def)
  ultimately show "frame_inv K hook now ?st"
    using assms by (auto simp: frame_inv_def thread_ok_def timer_wheel_index_update_def split: if_splits)
  show "evolves (fm, fmt) ?st"
    using evolves_refl [of "(fm, fmt)"] assms(1)
    by (simp add: evolves_def owned_def timer_wheel_index_update_def thread_ok_def)
qed

lemma flow_process_ok:
  assumes lib: "pool_fresh lib" and hook: "stable_hook hook" and ok: "thread_ok K hook now0 st" and now: "now0 \<le> now" "now + 2 ^ 17 < 2 ^ 32"
    and ret: "upf_flow_process lib hook now ps st = Some (rs, cpt, st')"
  shows "thread_ok K hook now st'" "evolves st st'" "cpt \<le> TIMER_MAX_EXPIRE"
    "cpt < TIMER_MAX_EXPIRE \<Longrightarrow> timer_flow st' e = Some f \<Longrightarrow> exempt K hook f \<or> now < deadline f"
proof -
  obtain fm fmt where st: "st = (fm, fmt)" by (cases st)
  note b = frame_begin [OF ok [unfolded st] now(1)]
  obtain st1 where 1: "flow_process_packets lib hook now ps (fm, timer_wheel_index_update fm now fmt) = Some (rs, st1)"
    "flowtable_timer_expire hook now st1 = Some (cpt, st')"
    using ret by (auto simp: upf_flow_process_def st bind_eq_Some_conv)
  have f: "frame_inv K hook now st1" "evolves (fm, timer_wheel_index_update fm now fmt) st1"
    using process_packets_frame [OF lib hook _ b(1) 1(1)] now by auto
  have inv: "thread_inv st1" and nc: "next_check (snd st1) = NO_INDEX \<or> next_check (snd st1) \<le> now + 1"
    and s: "scheduled K hook (scan_start now (snd st1)) st1" "times_ok now st1" "lifetimes_ok (fst st1)"
    using f(1) by (auto simp: frame_inv_def)
  have now': "now + 1 < 2 ^ 32 - 1" using now by simp
  have e: "cpt \<le> TIMER_MAX_EXPIRE" "thread_inv st'" "evolves st1 st'" "times_ok now st'" "next_check (snd st') \<noteq> NO_INDEX"
    "next_check (snd st') \<le> now + 1" "scheduled K hook (next_check (snd st')) st'"
    "cpt < TIMER_MAX_EXPIRE \<longrightarrow> next_check (snd st') = now + 1"
    using flowtable_timer_expire_returns [OF inv hook now' nc, of K] 1(2) s by auto
  show "evolves st st'" using b(2) f(2) e(3) unfolding st by (blast intro: evolves_trans)
  show "thread_ok K hook now st'" "cpt \<le> TIMER_MAX_EXPIRE"
    using e s(3) by (auto simp: thread_ok_def evolves_def lifetimes_ok_def)
  show "cpt < TIMER_MAX_EXPIRE \<Longrightarrow> timer_flow st' e = Some f \<Longrightarrow> exempt K hook f \<or> now < deadline f"
    using e(7,8) scheduled_deadline by auto
qed

lemma flow_process_returns:
  assumes lib: "pool_fresh lib" and hook: "stable_hook hook" and ok: "thread_ok K hook now0 st" and now: "now0 \<le> now" "now + 2 ^ 17 < 2 ^ 32"
    and room: "flows_cpt (fst st) + length ps * FLOW_CACHE_SZ \<le> flows_max (fst st)"
  shows "\<exists>rs cpt st'. upf_flow_process lib hook now ps st = Some (rs, cpt, st') \<and> length rs = length ps"
proof -
  obtain fm fmt where st: "st = (fm, fmt)" by (cases st)
  note b = frame_begin [OF ok [unfolded st] now(1)]
  have now': "now + 2 ^ 16 < 2 ^ 32" "now + 1 < 2 ^ 32 - 1" using now by simp_all
  obtain rs st1 where 1: "flow_process_packets lib hook now ps (fm, timer_wheel_index_update fm now fmt) = Some (rs, st1)" "length rs = length ps"
    using process_packets_returns [OF lib hook now'(1) b(1), of ps] room by (auto simp: st)
  have f: "frame_inv K hook now st1" using process_packets_frame [OF lib hook now'(1) b(1) 1(1)] by blast
  then obtain cpt st' where "flowtable_timer_expire hook now st1 = Some (cpt, st')"
    using flowtable_timer_expire_returns [OF _ hook now'(2), of st1 K] by (auto simp: frame_inv_def)
  with 1 show ?thesis by (simp add: upf_flow_process_def st)
qed

section \<open>All threads\<close>

text \<open>
  The threads share the pool of entries; each has its own hash table, timers and cache, and the time of
  the last frame it processed. A step is a frame of packets on one thread, a change of a timeout, or a
  change of a flow by another part of the program. The nodes behind this one and the proxy write to
  the flows they are given; they leave the members alone that the table works with, except for the
  index of the proxy session, which the proxy sets and resets. \<open>proxied\<close> is no part of the program: it
  records the keys for which the proxy has done so since they were last seen in no table at the end of a
  frame.
\<close>

record flow_system =
  shared :: flowtable_main
  cpus :: "flowtable_main_per_cpu list"
  clocks :: "nat list"
  proxied :: "flow_key set"

fun flowtable_init_cpus :: "'v pool_lib_scheme \<Rightarrow> nat \<Rightarrow> flow_system" where
  "flowtable_init_cpus lib 0 = \<lparr>shared = flowtable_init, cpus = [], clocks = [], proxied = {}\<rparr>"
| "flowtable_init_cpus lib (Suc n) =
     (let s = flowtable_init_cpus lib n; (fm, fmt) = flowtable_init_cpu lib (shared s) in
      \<lparr>shared = fm, cpus = cpus s @ [fmt], clocks = clocks s @ [0], proxied = {}\<rparr>)"

definition same_timing :: "flow_entry \<Rightarrow> flow_entry \<Rightarrow> bool" where
  "same_timing f g \<longleftrightarrow> fe_key g = fe_key f \<and> fe_timer_index g = fe_timer_index f
     \<and> fe_active g = fe_active f \<and> fe_lifetime g = fe_lifetime f"

inductive flow_step :: "'v pool_lib_scheme \<Rightarrow> (flow_entry \<Rightarrow> int) option \<Rightarrow> flow_system \<Rightarrow> flow_system \<Rightarrow> bool"
  for lib :: "'v pool_lib_scheme" and hook :: "(flow_entry \<Rightarrow> int) option" where
  frame: "c < length (cpus s) \<Longrightarrow> clocks s ! c \<le> now \<Longrightarrow> now + 2 ^ 17 < 2 ^ 32 \<Longrightarrow>
     upf_flow_process lib hook now ps (shared s, cpus s ! c) = Some (rs, cpt, fm, fmt) \<Longrightarrow>
     flow_step lib hook s \<lparr>shared = fm, cpus = (cpus s)[c := fmt], clocks = (clocks s)[c := now],
       proxied = {k \<in> proxied s. \<exists>fmt' \<in> set ((cpus s)[c := fmt]). flows_ht fmt' k \<noteq> None}\<rparr>"
| timeout: "flowtable_lifetime_update type value (shared s) = Some fm \<Longrightarrow>
     flow_step lib hook s (s\<lparr>shared := fm\<rparr>)"
| changed: "c < length (cpus s) \<Longrightarrow> flows_ht (cpus s ! c) k = Some i \<Longrightarrow> flows (shared s) i = Some f \<Longrightarrow>
     same_timing f g \<Longrightarrow>
     flow_step lib hook s (s\<lparr>shared := (shared s)\<lparr>flows := (flows (shared s))(i \<mapsto> g)\<rparr>,
       proxied := (if fe_ps_index g = fe_ps_index f then proxied s else insert k (proxied s))\<rparr>)"

inductive flow_reachable :: "'v pool_lib_scheme \<Rightarrow> (flow_entry \<Rightarrow> int) option \<Rightarrow> nat \<Rightarrow> flow_system \<Rightarrow> bool"
  for lib :: "'v pool_lib_scheme" and hook :: "(flow_entry \<Rightarrow> int) option" and n :: nat where
  init: "flow_reachable lib hook n (flowtable_init_cpus lib n)"
| step: "flow_reachable lib hook n s \<Longrightarrow> flow_step lib hook s s' \<Longrightarrow> flow_reachable lib hook n s'"

definition system_inv :: "(flow_entry \<Rightarrow> int) option \<Rightarrow> flow_system \<Rightarrow> bool" where
  "system_inv hook s \<longleftrightarrow> length (clocks s) = length (cpus s) \<and> shared_inv (shared s)
     \<and> (\<forall>c < length (cpus s). thread_ok (proxied s) hook (clocks s ! c) (shared s, cpus s ! c))
     \<and> (\<forall>c < length (cpus s). \<forall>d < length (cpus s). c \<noteq> d \<longrightarrow> owned (cpus s ! c) \<inter> owned (cpus s ! d) = {})
     \<and> dom (flows (shared s)) = (\<Union>c < length (cpus s). owned (cpus s ! c))"

text \<open>A thread whose entries are not touched keeps its invariant.\<close>

lemma thread_ok_cong:
  assumes ok: "thread_ok K hook now (fm, fmt)" and sh: "shared_inv fm'" and "lifetimes_ok fm'"
    and same: "\<And>i. i \<in> owned fmt \<Longrightarrow> flows fm' i = flows fm i" "timer_max_lifetime fm' = timer_max_lifetime fm"
  shows "thread_ok K hook now (fm', fmt)"
proof -
  have inv: "thread_inv (fm, fmt)" using ok by (simp add: thread_ok_def)
  note inv' = thread_invD [OF inv]
  have link: "link_ok (flows fm') (flows_ht fmt) (timer_value fmt)"
    by (rule link_ok_cong [OF inv'(11)]) (use same(1) in \<open>auto simp: owned_def\<close>)
  have cache: "set (flow_cache fmt) \<subseteq> dom (flows fm')"
    using same(1) inv'(8) unfolding owned_def by (metis UnI1 domIff subset_eq)
  have "thread_inv (fm', fmt)"
    using inv' link cache same(2) sh by (simp add: thread_inv_def cpu_inv_def)
  moreover have "timer_flow (fm', fmt) = timer_flow (fm, fmt)"
  proof
    fix e show "timer_flow (fm', fmt) e = timer_flow (fm, fmt) e"
    proof (cases "timer_value fmt e")
      case (Some i)
      then have "i \<in> owned fmt" using link_ok_ran [OF inv'(11)] by (auto simp: owned_def ran_def)
      with Some same(1) show ?thesis by (simp add: timer_flow_def)
    qed (simp add: timer_flow_def)
  qed
  ultimately show ?thesis
    using ok assms(3) same(2) by (cases "next_check fmt = NO_INDEX") (simp_all add: thread_ok_def times_ok_def scheduled_def)
qed

text \<open>Only the keys in the table of the thread matter.\<close>

lemma thread_ok_proxied:
  assumes ok: "thread_ok K hook now (fm, fmt)" and sub: "K \<inter> dom (flows_ht fmt) \<subseteq> K'"
  shows "thread_ok K' hook now (fm, fmt)"
proof -
  have inv: "thread_inv (fm, fmt)" using ok by (simp add: thread_ok_def)
  have "fe_key f \<in> dom (flows_ht fmt)" if "timer_flow (fm, fmt) e = Some f" for e f
    using that link_okD2 [OF thread_invD(11) [OF inv]] by (fastforce simp: timer_flow_def bind_eq_Some_conv)
  with sub have "exempt K' hook f" if "timer_flow (fm, fmt) e = Some f" "exempt K hook f" for e f
    using that unfolding exempt_def by blast
  then have "scheduled K' hook t (fm, fmt)" if "scheduled K hook t (fm, fmt)" for t
    using that by (intro scheduledI) (metis scheduledD)
  with ok show ?thesis by (cases "next_check fmt = NO_INDEX") (simp_all add: thread_ok_def)
qed

text \<open>A flow that is changed in place: the timers stay as they are.\<close>

lemma changed_ok:
  assumes ok: "thread_ok K hook now (fm, fmt)" and hook: "stable_hook hook" and i: "flows_ht fmt k = Some i"
    and f: "flows fm i = Some f" and g: "same_timing f g"
    and K': "K' = (if fe_ps_index g = fe_ps_index f then K else insert k K)"
  shows "thread_ok K' hook now (fm\<lparr>flows := (flows fm)(i \<mapsto> g)\<rparr>, fmt)"
proof -
  have inv: "thread_inv (fm, fmt)" using ok by (simp add: thread_ok_def)
  let ?st = "(fm\<lparr>flows := (flows fm)(i \<mapsto> g)\<rparr>, fmt)"
  have k: "fe_key f = k" using link_okD1 [OF thread_invD(11) [OF inv] i] f by auto
  have upd: "?st = upd_flow i (\<lambda>x. if x = f then g else x) (fm, fmt)"
    using f by simp
  have "thread_inv ?st"
    unfolding upd by (rule upd_flow_inv(1) [OF inv, of k]) (use i g in \<open>auto simp: same_timing_def\<close>)
  moreover have tf: "timer_flow ?st e = (if timer_value fmt e = Some i then Some g else timer_flow (fm, fmt) e)" for e
    using f by (simp add: timer_flow_def split: bind_split)
  have old: "timer_value fmt e = Some i \<Longrightarrow> timer_flow (fm, fmt) e = Some f" for e using f by (simp add: timer_flow_def)
  have dl: "deadline g = deadline f" using g by (simp add: deadline_def same_timing_def)
  have ex: "\<not> exempt K' hook g \<Longrightarrow> \<not> exempt K hook f" "\<not> exempt K' hook h \<Longrightarrow> \<not> exempt K hook h" for h
    using g k K' stable_hookD [OF hook, of f g] by (auto simp: exempt_def same_timing_def split: if_splits)
  have "scheduled K' hook t ?st" if s: "scheduled K hook t (fm, fmt)" for t
  proof (rule scheduledI)
    fix e h assume h: "timer_flow ?st e = Some h" "\<not> exempt K' hook h"
    show "\<exists>d. t \<le> d \<and> d \<le> deadline h \<and> e \<in> set (slots (snd ?st) (d mod timer_max_lifetime (fst ?st)))"
    proof (cases "timer_value fmt e = Some i")
      case True
      then have "h = g" using h(1) tf by simp
      with scheduledD [OF s old [OF True]] ex(1) h(2) dl show ?thesis by simp
    qed (use scheduledD [OF s, of e h] ex(2) h tf in auto)
  qed
  moreover have "times_ok now ?st"
    using ok old g by (auto simp: times_ok_def tf thread_ok_def same_timing_def split: if_splits)
  ultimately show ?thesis
    using ok by (cases "next_check fmt = NO_INDEX") (simp_all add: thread_ok_def lifetimes_ok_def)
qed

lemma init_cpu_ok:
  assumes lib: "pool_fresh lib" and sh: "shared_inv fm" "lifetimes_ok fm" and room: "flows_cpt fm + FLOW_CACHE_SZ \<le> 2 ^ 33"
    and eq: "flowtable_init_cpu lib fm = (fm', fmt)"
  shows "thread_ok K hook 0 (fm', fmt)" "owned fmt \<inter> dom (flows fm) = {}" "dom (flows fm') = dom (flows fm) \<union> owned fmt"
    "\<And>i. i \<in> dom (flows fm) \<Longrightarrow> flows fm' i = flows fm i" "timer_max_lifetime fm' = timer_max_lifetime fm"
    "timer_lifetime fm' = timer_lifetime fm" "flows_cpt fm' = flows_cpt fm + FLOW_CACHE_SZ" "shared_inv fm'"
proof -
  have fin: "finite (dom (flows fm))" "flows_cpt fm = card (dom (flows fm))" using sh(1) by (simp_all add: shared_inv_def)
  obtain new fl' where new: "cache_fill_loop lib FLOW_CACHE_SZ (flows fm) [] = (fl', new)"
    "length new = FLOW_CACHE_SZ" "distinct new" "set new \<inter> dom (flows fm) = {}"
    "dom fl' = dom (flows fm) \<union> set new" "\<forall>i. i \<notin> set new \<longrightarrow> fl' i = flows fm i"
    using cache_fill_loop_spec [OF lib fin(1), of FLOW_CACHE_SZ "[]"] by auto
  have fm': "fm' = fm\<lparr>flows := fl', flows_cpt := flows_cpt fm + FLOW_CACHE_SZ\<rparr>" and fmt: "owned fmt = set new"
    "flow_cache fmt = new" "flows_ht fmt = Map.empty" "timer_value fmt = Map.empty" "slots fmt = (\<lambda>_. [])"
    "next_check fmt = NO_INDEX" "flow_counter fmt = 0"
    using eq new(1) by (auto simp: flowtable_init_cpu_def owned_def)
  have "card (dom fl') = card (dom (flows fm)) + FLOW_CACHE_SZ"
    using new fin(1) by (simp add: card_Un_disjoint distinct_card inf_commute)
  then show sh': "shared_inv fm'" using sh(1) room new(5) fin by (simp add: shared_inv_def fm')
  have "cpu_inv fm' fmt"
    using new by (simp add: cpu_inv_def fmt fm' link_ok_def wheel_ok_def)
  with sh' sh(2) show "thread_ok K hook 0 (fm', fmt)"
    by (simp add: thread_ok_def thread_inv_def times_ok_def timer_flow_def fmt lifetimes_ok_def fm')
  show "owned fmt \<inter> dom (flows fm) = {}" "dom (flows fm') = dom (flows fm) \<union> owned fmt"
    "timer_max_lifetime fm' = timer_max_lifetime fm" "timer_lifetime fm' = timer_lifetime fm" "flows_cpt fm' = flows_cpt fm + FLOW_CACHE_SZ"
    using new fmt by (simp_all add: fm')
  show "flows fm' i = flows fm i" if "i \<in> dom (flows fm)" for i using new(4,6) that by (auto simp: fm')
qed

lemma init_system_inv:
  assumes lib: "pool_fresh lib"
  shows "n * FLOW_CACHE_SZ \<le> FM_POOL_COUNT \<Longrightarrow> system_inv hook (flowtable_init_cpus lib n)
     \<and> proxied (flowtable_init_cpus lib n) = {} \<and> length (cpus (flowtable_init_cpus lib n)) = n \<and> flows_cpt (shared (flowtable_init_cpus lib n)) = n * FLOW_CACHE_SZ
     \<and> lifetimes_ok (shared (flowtable_init_cpus lib n))"
proof (induction n)
  case 0
  then show ?case by (simp add: system_inv_def shared_inv_def flowtable_init_def lifetimes_ok_def)
next
  case (Suc n)
  define s where "s = flowtable_init_cpus lib n"
  obtain fm' fmt where c: "flowtable_init_cpu lib (shared s) = (fm', fmt)" by (cases "flowtable_init_cpu lib (shared s)")
  have IH: "proxied s = {}" "system_inv hook s" "length (cpus s) = n" "flows_cpt (shared s) = n * FLOW_CACHE_SZ" "lifetimes_ok (shared s)"
    using Suc by (simp_all add: s_def)
  have s: "length (clocks s) = n" "shared_inv (shared s)" "\<And>c. c < n \<Longrightarrow> thread_ok (proxied s) hook (clocks s ! c) (shared s, cpus s ! c)"
    "\<And>c d. c < n \<Longrightarrow> d < n \<Longrightarrow> c \<noteq> d \<Longrightarrow> owned (cpus s ! c) \<inter> owned (cpus s ! d) = {}"
    "dom (flows (shared s)) = (\<Union>c < n. owned (cpus s ! c))"
    using IH(2,3) by (auto simp: system_inv_def)
  have room: "flows_cpt (shared s) + FLOW_CACHE_SZ \<le> 2 ^ 33" using IH(4) Suc.prems by simp
  note i = init_cpu_ok [OF lib s(2) IH(5) room c]
  have lt: "lifetimes_ok fm'" using IH(5) i(6) by (simp add: lifetimes_ok_def)
  have old: "thread_ok (proxied s) hook (clocks s ! c) (fm', cpus s ! c)" if "c < n" for c
    by (rule thread_ok_cong [OF s(3) [OF that] i(8) lt]) (use that s(5) i(4,5) in auto)
  have own: "owned (cpus s ! c) \<inter> owned fmt = {}" if "c < n" for c using s(5) i(2) that by blast
  have new: "flowtable_init_cpus lib (Suc n) = \<lparr>shared = fm', cpus = cpus s @ [fmt], clocks = clocks s @ [0], proxied = {}\<rparr>"
    using c by (simp add: s_def Let_def)
  have "system_inv hook (flowtable_init_cpus lib (Suc n))"
    unfolding new system_inv_def
    using s IH(1,3) i old own by (auto simp: nth_append less_Suc_eq lessThan_Suc)
  with new i IH lt show ?case by simp
qed

lemma flow_step_inv:
  assumes "flow_step lib hook s s'" and lib: "pool_fresh lib" and hook: "stable_hook hook" and inv: "system_inv hook s"
  shows "system_inv hook s'"
  using assms(1)
proof cases
  case (frame c now ps rs cpt fm fmt)
  let ?N = "length (cpus s)"
  have s: "length (clocks s) = ?N" "\<And>c. c < ?N \<Longrightarrow> thread_ok (proxied s) hook (clocks s ! c) (shared s, cpus s ! c)"
    "\<And>c d. c < ?N \<Longrightarrow> d < ?N \<Longrightarrow> c \<noteq> d \<Longrightarrow> owned (cpus s ! c) \<inter> owned (cpus s ! d) = {}"
    "dom (flows (shared s)) = (\<Union>c < ?N. owned (cpus s ! c))"
    using inv by (auto simp: system_inv_def)
  note p = flow_process_ok [OF lib hook s(2) [OF frame(2)] frame(3-5)]
  have ev: "\<And>i. i \<in> dom (flows (shared s)) - owned (cpus s ! c) \<Longrightarrow> flows fm i = flows (shared s) i"
    "dom (flows fm) = dom (flows (shared s)) - owned (cpus s ! c) \<union> owned fmt"
    "owned fmt \<inter> (dom (flows (shared s)) - owned (cpus s ! c)) = {}" "timer_max_lifetime fm = timer_max_lifetime (shared s)"
    using p(2) by (auto simp: evolves_def)
  have sh: "shared_inv fm" "lifetimes_ok fm" using p(1) by (simp_all add: thread_ok_def thread_inv_def)
  have sub: "owned (cpus s ! d) \<subseteq> dom (flows (shared s)) - owned (cpus s ! c)" if "d < ?N" "d \<noteq> c" for d
    using s(3) [OF frame(2), of d] s(4) that by blast
  let ?K = "{k \<in> proxied s. \<exists>fmt' \<in> set ((cpus s)[c := fmt]). flows_ht fmt' k \<noteq> None}"
  have "fmt \<in> set ((cpus s)[c := fmt])" using frame(2) by (rule set_update_memI)
  then have own: "thread_ok ?K hook now (fm, fmt)"
    by (intro thread_ok_proxied [OF p(1)]) auto
  have other: "thread_ok ?K hook (clocks s ! d) (fm, cpus s ! d)" if "d < ?N" "d \<noteq> c" for d
  proof (rule thread_ok_proxied)
    show "thread_ok (proxied s) hook (clocks s ! d) (fm, cpus s ! d)"
      by (rule thread_ok_cong [OF s(2) [OF that(1)] sh _ ev(4)]) (use ev(1) sub [OF that] in blast)
    have "cpus s ! d \<in> set ((cpus s)[c := fmt])" using that by (metis length_list_update nth_list_update_neq nth_mem)
    then show "proxied s \<inter> dom (flows_ht (cpus s ! d)) \<subseteq> ?K" by auto
  qed
  have disj: "owned fmt \<inter> owned (cpus s ! d) = {}" if "d < ?N" "d \<noteq> c" for d using ev(3) sub [OF that] by blast
  have rest: "dom (flows (shared s)) - owned (cpus s ! c) = (\<Union>d \<in> {..<?N} - {c}. owned (cpus s ! d))"
    using s(3) [OF frame(2)] s(4) frame(2) by blast
  have union: "(\<Union>d < ?N. owned ((cpus s)[c := fmt] ! d)) = (\<Union>d \<in> {..<?N} - {c}. owned (cpus s ! d)) \<union> owned fmt"
    using frame(2) by (auto simp: nth_list_update split: if_splits)
  show ?thesis
    unfolding frame(1) system_inv_def
    using s(1,3) sh own other disj frame(2) ev(2) rest union
    by (auto simp: nth_list_update Int_commute)
next
  case (timeout ty v fm)
  then have fm: "fm = (shared s)\<lparr>timer_lifetime := (timer_lifetime (shared s))(ty := v)\<rparr>" "v \<le> timer_max_lifetime (shared s)"
    by (auto simp: flowtable_lifetime_update_def split: if_splits)
  have sh: "shared_inv (shared s)" using inv by (simp add: system_inv_def)
  then have sh': "shared_inv fm" by (simp add: shared_inv_def fm(1))
  have v: "v < 2 ^ 16" using fm(2) sh by (simp add: shared_inv_def)
  have ok: "thread_ok (proxied s) hook (clocks s ! c) (fm, cpus s ! c)" if "c < length (cpus s)" for c
  proof -
    have c: "thread_ok (proxied s) hook (clocks s ! c) (shared s, cpus s ! c)" using inv that by (simp add: system_inv_def)
    then have "lifetimes_ok fm" using v by (simp add: thread_ok_def lifetimes_ok_def fm(1))
    then show ?thesis by (rule thread_ok_cong [OF c sh']) (simp_all add: fm(1))
  qed
  show ?thesis
    using inv ok sh' unfolding timeout(1) by (simp add: system_inv_def fm(1))
next
  case (changed c k i f g)
  let ?N = "length (cpus s)" and ?fm = "(shared s)\<lparr>flows := (flows (shared s))(i \<mapsto> g)\<rparr>"
  have s: "\<And>c. c < ?N \<Longrightarrow> thread_ok (proxied s) hook (clocks s ! c) (shared s, cpus s ! c)"
    "\<And>c d. c < ?N \<Longrightarrow> d < ?N \<Longrightarrow> c \<noteq> d \<Longrightarrow> owned (cpus s ! c) \<inter> owned (cpus s ! d) = {}"
    "shared_inv (shared s)"
    using inv by (auto simp: system_inv_def)
  have dom: "dom (flows ?fm) = dom (flows (shared s))" using changed(4) by auto
  have sh: "shared_inv ?fm" using s(3) dom by (simp add: shared_inv_def)
  have i: "i \<in> owned (cpus s ! c)" using changed(3) by (auto simp: owned_def ran_def)
  have "thread_ok (proxied s') hook (clocks s ! d) (?fm, cpus s ! d)" if "d < ?N" for d
  proof (cases "d = c")
    case True
    then show ?thesis
      using changed_ok [OF s(1) [OF changed(2)] hook changed(3,4,5) refl] by (simp add: changed(1))
  next
    case False
    have "thread_ok (proxied s) hook (clocks s ! d) (?fm, cpus s ! d)"
      by (rule thread_ok_cong [OF s(1) [OF that] sh])
        (use s(1) [OF that] s(2) [OF changed(2) that] i False in \<open>auto simp: thread_ok_def lifetimes_ok_def\<close>)
    then show ?thesis by (rule thread_ok_proxied) (auto simp: changed(1))
  qed
  then show ?thesis
    using inv sh dom unfolding changed(1) by (simp add: system_inv_def)
qed

lemma flow_reachable_inv:
  assumes "flow_reachable lib hook n s" "pool_fresh lib" "stable_hook hook" "n * FLOW_CACHE_SZ \<le> FM_POOL_COUNT"
  shows "system_inv hook s"
  using assms
  by (induction rule: flow_reachable.induct) (auto simp: init_system_inv intro: flow_step_inv)

end
