(* ===== verification/Spec2Isabelle.thy ===== *)
theory Spec2Isabelle
  imports Upf_Delete Upf_Server Flow_System
begin

text \<open>
  The User Plane Gateway plugin for VPP (\<^verbatim>\<open>src/upf\<close>): the user plane function of a mobile network. A control
  plane function sets up sessions over PFCP (3GPP TS 29.244); packets of the sessions are classified by the
  rules of the session, measured and forwarded between GTP-U tunnels and IP interfaces.

  \<^bold>\<open>Parts of the program and how they interact.\<close> Datagrams of the control plane arrive in the transaction layer
  (\<^verbatim>\<open>upf_pfcp_server.c\<close>), which answers repeated requests from its cache, retransmits its own requests and hands
  new messages to the dispatcher (\<^verbatim>\<open>upf_pfcp_api.c\<close>). Messages are decoded and encoded by the table-driven engine of
  \<^verbatim>\<open>pfcp.c\<close>. Handlers change associations, sessions and their pending rules (\<^verbatim>\<open>upf_pfcp.c\<close>); an update compiles
  the pending rules, swaps them with the active ones and moves tunnels, routes, peers, policers and timers. In the
  data path a packet gets a flow (\<^verbatim>\<open>flowtable.c\<close>, \<^verbatim>\<open>upf_flow_node.c\<close>), the first packets of a flow are classified
  (\<^verbatim>\<open>upf_classify.c\<close>) against the compiled rules, and every packet is measured by the usage rules.

  \<^bold>\<open>Theories.\<close>
  \<^item> \<open>Prelude\<close>: machine integers, the outcome type of decoders (\<open>Fault\<close> is a read outside of the buffer), the
    read and write macros of \<^verbatim>\<open>pfcp.c\<close>, and the locale of a codec that survives a round trip, interpreted for
    each element.
  \<^item> \<open>Pfcp_IE_Basic\<close>, \<open>Pfcp_IE_More\<close>, \<open>Pfcp_IE_Rest\<close>: one decoder and one encoder per information element, named as in
    \<^verbatim>\<open>pfcp.c\<close>. \<open>Pfcp_Ids\<close>, \<open>Pfcp_Leaf\<close>, \<open>Pfcp_Tables\<close>: numbers, codecs as data and the tables. \<open>Pfcp_Codec\<close>: groups and
    messages (\<^verbatim>\<open>decode_group\<close> ... \<^verbatim>\<open>pfcp_encode_msg\<close>). \<open>Pfcp_Decode\<close>: what the decoder does with arbitrary input.
  \<^item> \<open>Pfcp_Server\<close>: the transaction layer with message pool, timers, retransmission queue and response cache, the
    dispatcher, the node handlers and the table of associations. \<open>Pfcp_Transactions\<close>: its lemmas.
  \<^item> \<open>Flow_Table\<close>: keys, TCP states, pool with per-thread caches, hash table, timer wheel and packet processing.
    \<open>Flow_Inv\<close>, \<open>Flow_Expire\<close>, \<open>Flow_System\<close>: the invariant, the loops over timers, and the states that several
    threads reach (an inductive step relation).
  \<^item> \<open>Upf_Rules\<close>: rules of a session and their compilation (\<^verbatim>\<open>build_pfcp_rules\<close>). \<open>Upf_Classify\<close>: classification of a
    packet. \<open>Upf_Session\<close>: sessions, timers, tunnels, routes, peers, policers. \<open>Upf_Update\<close>: \<^verbatim>\<open>pfcp_update_apply\<close>.
    \<open>Upf_Usage\<close>: usage and QoS rules in the data path. \<open>Upf_Match\<close>: a compiled filter matches what the filter says.
    \<open>Upf_Diff\<close>: comparisons as the locale \<open>comparison\<close> (extended by \<open>keyed_comparison\<close>), interpreted for the four
    comparisons of the code, and \<^verbatim>\<open>vec_diff\<close>. \<open>Upf_Apply\<close>: what an update leaves behind. \<open>Upf_List\<close>: the linked lists of
    sessions. \<open>Upf_Correct\<close>: the properties of these parts. \<open>Upf_Server\<close>: the transaction layer over these sessions, with
    the release of the sessions of an association.
  \<^item> \<open>Upf_Quota\<close>: quotas over sequences of packets. \<open>Upf_Report\<close>: usage reports (\<^verbatim>\<open>report_usage_ev\<close>), the events and timers that
    cause them. \<open>Upf_Account\<close>, \<open>Upf_Billing\<close>: what is measured is reported. \<open>Upf_Request\<close>, \<open>Upf_Procedures\<close>, \<open>Upf_Handlers\<close>:
    F-TEIDs, conflicts of addresses, creating, updating and removing rules, NAT bindings, and the handlers of session
    establishment, modification and deletion requests of \<^verbatim>\<open>upf_pfcp_api.c\<close>; their argument is the request as a structure.
    \<open>Upf_Establish\<close>, \<open>Upf_Delete\<close>: properties of the choice of TEIDs and of deletion.
  \<^bold>\<open>State and results.\<close> Pools and hash tables are maps, vectors are lists, an index that may be \<^verbatim>\<open>~0\<close> is a number
  with \<open>NO_INDEX\<close> for that value, unions and pointers are the values they hold. Integers keep their width where they may
  wrap. An operation that could read outside of a pool, a vector or a buffer, or that may not end, returns an
  option (or \<open>dec\<close>), so that theorems say when it returns. Addresses and ports are modelled by their value in network
  order; times of the data path are counted in ticks of 10 ms.

  \<^bold>\<open>What is not under src.\<close> The functions of VPP and of the C library that the code relies on are fields of records
  that the definitions take as arguments: \<open>vlib\<close>, \<open>flow_lib\<close> (address functions), \<open>pool_lib\<close> and \<open>ses_pool_index\<close> (which free
  index a pool hands out), \<open>rules_lib\<close> (masks, FIB indices), \<open>session_lib\<close> (sorting, routes), \<open>server_lib\<close> (clock and timers)
  \<open>api_lib\<close> (random numbers, FIB lookups, NAT) and \<open>upper\<close> (the session layer above the transactions). Named hypotheses state what is used of them: \<open>fresh_index\<close> and
  \<open>pool_fresh\<close> (a new index is free), \<open>ip_functions\<close> (the address functions), \<open>sorts\<close> (a sort permutes and orders),
  and \<open>app_match_by_key\<close> (applications are matched by the key of the flow); each has an instance that the witnesses use. What
  the encoder of pool identities copies too much is read from the memory behind a vector, \<open>vec_slack\<close> of \<open>vlib\<close>. The text of
  IP filters (\<^verbatim>\<open>upf_ipfilter.c\<close>) and the rules of applications are arguments of the same kind. The release of the
  sessions in \<open>upper\<close> is the modelled one wherever a theorem depends on it.

  \<^bold>\<open>Bounds.\<close> The flow table theorems need times below \<open>2 ^ 32 - 2 ^ 17\<close> seconds and at most \<open>2 ^ 22\<close> flows, the size of
  the pool; timer ids have 24 bits; the theorem on classification is for precedences below 256, the values for which the
  order of the code agrees with the order of numbers. Loops that need not end are \<open>partial_function (option)\<close>; the
  others are total functions.

  \<^bold>\<open>Properties.\<close> C1 to C16 concern codec and tables: round trips, where decoding stores the elements, bounds of
  reads, error outcomes. C17 to C24 concern the flow table: keys, invariant, refinement of a map, termination and
  expiry, TCP states. C25 to C31 concern transactions and node procedures. C32 to C39 concern sessions: classification
  against a reference matcher, tunnels, lists of sessions, release, quotas, accounting of usage, choice of TEIDs, deletion.
  \<^bold>\<open>Not modelled.\<close> Printing, traces, statistics, the command line and the binary API have no part in the behaviour proved here. GTP-U encapsulation,
  the forwarding nodes, the TCP proxy, application detection and event exposure work on VPP buffers, VPP sessions or
  third-party libraries; the packet reports for event exposure are left out of the reports. The step from decoded groups to the
  structures the session handlers read is not modelled, nor is the second packet of the dual loop of \<^verbatim>\<open>upf_flow_process\<close>.
\<close>

section \<open>Example inputs\<close>

text \<open>A VPP library for the examples: an \<^verbatim>\<open>ip46_address_t\<close> is an IPv4 address if its first 12 octets are
  zero, which is how VPP stores one; printing and parsing of addresses are not used.\<close>

definition demo_lib :: vlib where
  "demo_lib = \<lparr>unformat_ip46_address = (\<lambda>_ _. None), format_ip46_address = (\<lambda>_. []),
     ip46_address_is_ip4 = (\<lambda>a. drop_bit 32 a = 0), ip46_address_set_ip4 = ucast,
     vec_slack = (\<lambda>n. n \<le> 64)\<rparr>"

definition sample_report :: pfcp_decoded_msg where
  "sample_report = \<lparr>dmsg_type = PFCP_NODE_REPORT_REQUEST, dmsg_seq_no = 0x010203, dmsg_seid = 0,
     dmsg_grp = Group (BITS [0, 1, 2]) []
       [Single (Leaf (V_node_id \<lparr>nid_type = 0, nid_ip = 0x0a000001, nid_fqdn = []\<rparr>)),
        Single (Leaf (V_node_report_type 1)),
        Single (Grp (Group (BITS [0]) [] [Array [Leaf (V_remote_gtp_u_peer
          \<lparr>rgp_ip = 0x0a000002, rgp_destination_interface = 1, rgp_network_instance = []\<rparr>)]]))]\<rparr>"

definition sample_heartbeat :: bytes where
  "sample_heartbeat = [0x20, 1, 0, 12, 0, 0, 7, 0, 0, 96, 0, 4, 0xe0, 0, 0, 1]"

definition sample_heartbeat_msg :: pfcp_decoded_msg where
  "sample_heartbeat_msg = \<lparr>dmsg_type = PFCP_HEARTBEAT_REQUEST, dmsg_seq_no = 7, dmsg_seid = 0,
     dmsg_grp = Group 1 [] [Single (Leaf (V_time_stamp_ie 1549107585))]\<rparr>"

lemmas decode_eval = pfcp_decode_msg_def pfcp_msg_type_def pfcp_is_session_msg_def
  pfcp_msg_length_def pfcp_msg_s_flag_def pfcp_node_msg_seq_def word_of_be_def empty_group_def
  Let_def decode_group.simps decode_group_loop.simps decode_ie.simps decode_vector_ie.simps
  ie_hdr_def ie_vendor_hdr_def wire_ie_def_def get_ie_spec_def check_mandatory_def SET_BIT_def get_defs

lemma message_lookups:
  "msg_specs PFCP_HEARTBEAT_REQUEST =
     Some (grouped_ie (BITS [HEARTBEAT_REQUEST_RECOVERY_TIME_STAMP]) pfcp_heartbeat_request_group)"
  "msg_specs PFCP_HEARTBEAT_RESPONSE =
     Some (grouped_ie (BITS [PFCP_RESPONSE_RECOVERY_TIME_STAMP]) pfcp_simple_response_group)"
  "msg_specs PFCP_NODE_REPORT_REQUEST =
     Some (grouped_ie (BITS [NODE_REPORT_REQUEST_NODE_ID, NODE_REPORT_REQUEST_NODE_REPORT_TYPE])
       pfcp_node_report_request_group)"
  by (simp_all add: spec_defs spec_tables)

lemma element_lookups:
  "tgpp_specs PFCP_IE_RECOVERY_TIME_STAMP = Some (simple_ie K_time_stamp_ie)"
  "tgpp_specs PFCP_IE_NODE_ID = Some (simple_ie K_node_id)"
  "tgpp_specs PFCP_IE_NODE_REPORT_TYPE = Some (simple_ie K_node_report_type)"
  "tgpp_specs PFCP_IE_USER_PLANE_PATH_FAILURE_REPORT =
     Some (grouped_ie (BITS [USER_PLANE_PATH_FAILURE_REPORT_REMOTE_GTP_U_PEER])
       pfcp_user_plane_path_failure_report_group)"
  "tgpp_specs PFCP_IE_REMOTE_GTP_U_PEER = Some (simple_ie K_remote_gtp_u_peer)"
  "tgpp_specs PFCP_IE_CREATE_URR = Some (grouped_ie (BITS [CREATE_URR_URR_ID,
       CREATE_URR_MEASUREMENT_METHOD, CREATE_URR_REPORTING_TRIGGERS]) pfcp_create_urr_group)"
  "tgpp_specs PFCP_IE_URR_ID = Some (simple_ie K_u32_ie)"
  "tgpp_specs PFCP_IE_MEASUREMENT_METHOD = Some (simple_ie K_u8_ie)"
  "tgpp_specs PFCP_IE_REPORTING_TRIGGERS = Some (simple_ie K_u16_little_ie)"
  "vendor_tp_specs PFCP_IE_TP_ERROR_REPORT =
     Some (grouped_ie (BITS [TP_ERROR_REPORT_TP_ERROR_MESSAGE]) pfcp_tp_error_report_group)"
  by (simp_all add: spec_defs spec_tables)

lemmas lookups = message_lookups [simplified] element_lookups [simplified]

lemma BITS_and: "set ms \<subseteq> set ns \<Longrightarrow> BITS ns AND BITS ms = BITS ms"
  by (rule bit_word_eqI) (auto simp: bit_and_iff bit_BITS)

lemma sample_report_ok: "ok_msg demo_lib sample_report"
  by (simp add: sample_report_def ok_msg_def lookups pfcp_node_report_request_group_def
      pfcp_user_plane_path_failure_report_group_def table_simps get_ie_def_def BITS_and bit_BITS
      ok_node_id_def ok_flags_octet_def ok_remote_gtp_u_peer_def demo_lib_def
      pfcp_is_session_msg_def)

lemma sample_report_encode:
  "\<exists>bs. pfcp_encode_msg demo_lib sample_report = Done bs \<and> length bs < 2 ^ 16 + 4"
  by (simp add: sample_report_def pfcp_encode_msg_def lookups pfcp_node_report_request_group_def
      pfcp_user_plane_path_failure_report_group_def table_simps get_ie_def_def put_ie_hdr_def
      encode_node_id_def encode_node_report_type_def encode_remote_gtp_u_peer_def demo_lib_def
      pfcp_is_session_msg_def Let_def bit_BITS)

lemma sample_heartbeat_decode:
  "pfcp_decode_msg lib sample_heartbeat err = Some (0, sample_heartbeat_msg, err)"
  by (simp add: sample_heartbeat_def sample_heartbeat_msg_def decode_eval lookups
      pfcp_heartbeat_request_group_def table_simps codec_defs BITS_def BIT_def)

lemma sample_heartbeat_ies: "ie_list (drop 8 sample_heartbeat) 8 = Some [drop 8 sample_heartbeat]"
  by (simp add: sample_heartbeat_def ie_list.simps ie_hdr_def word_of_be_def)

lemma sample_heartbeat_header:
  "pfcp_msg_type sample_heartbeat = 1" "pfcp_msg_length sample_heartbeat = 12"
  "length sample_heartbeat = 16"
  by (simp_all add: sample_heartbeat_def pfcp_msg_type_def pfcp_msg_length_def word_of_be_def)

lemma sample_heartbeat_plain: "\<not> is_vendor_ie (drop 8 sample_heartbeat)"
  by (simp add: is_vendor_ie_def ie_hdr_def sample_heartbeat_def word_of_be_def)

lemma msg_specs_assigned: "msg_specs t = None \<longleftrightarrow> 57 < t"
  by (simp add: msg_specs_def table_simps msg_specs_node_def msg_specs_session_def)

lemma flat_messages:
  assumes "t = PFCP_HEARTBEAT_REQUEST \<or> t = PFCP_ASSOCIATION_RELEASE_REQUEST
    \<or> t = PFCP_SESSION_SET_DELETION_REQUEST \<or> t = PFCP_SESSION_DELETION_REQUEST"
    and "msg_specs t = Some def"
  shows "flat_def def"
proof -
  have f: "flat_item (elem PFCP_IE_RECOVERY_TIME_STAMP)" "flat_item (elem PFCP_IE_NODE_ID)"
    "flat_item (elem PFCP_IE_FQ_CSID)" "flat_item (elem_array PFCP_IE_FQ_CSID)"
    by (simp_all add: flat_item_def spec_defs spec_tables bounded_codec_def)
  have "group def \<in> {pfcp_heartbeat_request_group, pfcp_association_release_request_group,
      pfcp_session_set_deletion_request_group, []}"
    using assms by (auto simp: spec_defs spec_tables)
  then show ?thesis
    by (auto simp: flat_def_def f pfcp_heartbeat_request_group_def
        pfcp_association_release_request_group_def pfcp_session_set_deletion_request_group_def
        table_simps)
qed

section \<open>The PFCP codec\<close>

text \<open>C1: a message whose fields have the values the codecs carry is encoded without error, and decoding
  the octets gives the same message back, returns 0 and reports no offending element, provided
  the message fits into the 16-bit length of its header.\<close>

theorem msg_roundtrip:
  assumes "ok_msg lib d"
  shows "\<exists>bs. pfcp_encode_msg lib d = Done bs
    \<and> (length bs < 2 ^ 16 + 4 \<longrightarrow> pfcp_decode_msg lib bs err = Some (0, d, err))"
proof -
  from assms obtain def where "msg_specs (dmsg_type d) = Some def" "ok_group lib def (dmsg_grp d)"
    by (auto simp: ok_msg_def split: option.splits)
  then obtain bs where "pfcp_encode_msg lib d = Done bs"
    using ok_encode(2) by (fastforce simp: pfcp_encode_msg_def Let_def)
  with pfcp_msg_roundtrip [OF assms] show ?thesis by auto
qed

theorem msg_roundtrip_witness:
  "ok_msg demo_lib sample_report
   \<and> (\<exists>bs. pfcp_encode_msg demo_lib sample_report = Done bs
      \<and> pfcp_decode_msg demo_lib bs [] = Some (0, sample_report, []))"
  using msg_roundtrip [OF sample_report_ok, of "[]"] sample_report_encode sample_report_ok by auto

text \<open>C2: when decoding succeeds, the group of the message has exactly the fields that are marked as
  present, each of the shape its table asks for; all mandatory elements are among them; and
  the list of offending elements is untouched.\<close>

theorem decoded_msg_sound:
  assumes "pfcp_decode_msg lib p err = Some (0, d, err')"
  shows "\<exists>def. msg_specs (dmsg_type d) = Some def \<and> group_inv def (dmsg_grp d)
    \<and> grp_fields (dmsg_grp d) AND mandatory def = mandatory def \<and> err' = err"
proof -
  from assms obtain def hdr len where
    def: "msg_specs (pfcp_msg_type p) = Some def" "dmsg_type d = pfcp_msg_type p"
    and dec: "decode_group lib def (drop hdr p) len (empty_group def) err = GRet 0 (dmsg_grp d) err'"
    by (rule msg_decode_cases) auto
  from group_inv_decode [OF wf_specs(4) [OF def(1)] dec] decode_group_mandatory [OF dec]
    decode_ok_err [OF decode_group_loop_ok [OF dec]] def
  show ?thesis by auto
qed

theorem decoded_msg_sound_witness:
  "\<exists>def. msg_specs (dmsg_type sample_heartbeat_msg) = Some def
    \<and> group_inv def (dmsg_grp sample_heartbeat_msg)
    \<and> grp_fields (dmsg_grp sample_heartbeat_msg) AND mandatory def = mandatory def"
  using decoded_msg_sound [OF sample_heartbeat_decode [of demo_lib "[]"]] by auto

text \<open>C3: where the elements of an accepted message are. If the elements are framed by their stated lengths,
  the slot of every field holds exactly the values of the elements whose number is the one of the
  field: all of them, in the order of the message, for an array, the first one otherwise, each
  decoded by the definition of its own type; and all other elements are kept, in order, in the list
  of elements that were not understood. The number alone decides: the vendor of a field is not
  compared with the vendor of the element.\<close>

theorem no_ie_lost:
  assumes "pfcp_decode_msg lib p err = Some (0, d, err')"
    and "hdr = (if pfcp_is_session_msg (pfcp_msg_type p) then SESSION_MSG_HDR_LEN else NODE_MSG_HDR_LEN)"
    and "ie_list (drop hdr p) (int (pfcp_msg_length p) - int hdr + 4) = Some es"
  shows "\<exists>def. msg_specs (dmsg_type d) = Some def
    \<and> (\<forall>i<length (group def). slot_holds lib err (group def ! i)
          (filter (\<lambda>e. element_field def e = Some i) es) (grp_slots (dmsg_grp d) ! i))
    \<and> grp_ies (dmsg_grp d) = ies_aside def es"
proof -
  from assms(1,2) obtain def where def: "msg_specs (pfcp_msg_type p) = Some def" "dmsg_type d = pfcp_msg_type p"
    and dec: "decode_group lib def (drop hdr p) (int (pfcp_msg_length p) - int hdr + 4)
      (empty_group def) err = GRet 0 (dmsg_grp d) err'"
    by (auto elim!: msg_decode_cases)
  from loop_holds [OF wf_specs(4) [OF def(1)] group_inv_empty group_holds_empty decode_group_loop_ok [OF dec] assms(3)]
    def show ?thesis by (auto simp: group_holds_def)
qed

theorem no_ie_lost_witness:
  "\<exists>def. msg_specs (dmsg_type sample_heartbeat_msg) = Some def
    \<and> slot_holds demo_lib [] (group def ! 0)
        (filter (\<lambda>e. element_field def e = Some 0) [drop 8 sample_heartbeat])
        (grp_slots (dmsg_grp sample_heartbeat_msg) ! 0)
    \<and> grp_ies (dmsg_grp sample_heartbeat_msg) = ies_aside def [drop 8 sample_heartbeat]"
proof -
  have "ie_list (drop 8 sample_heartbeat) (int (pfcp_msg_length sample_heartbeat) - int 8 + 4) =
      Some [drop 8 sample_heartbeat]"
    using sample_heartbeat_ies by (simp add: sample_heartbeat_header)
  with no_ie_lost [OF sample_heartbeat_decode [of demo_lib "[]"], of 8 "[drop 8 sample_heartbeat]"]
  obtain def where def: "msg_specs (dmsg_type sample_heartbeat_msg) = Some def"
    "\<forall>i<length (group def). slot_holds demo_lib [] (group def ! i)
       (filter (\<lambda>e. element_field def e = Some i) [drop 8 sample_heartbeat])
       (grp_slots (dmsg_grp sample_heartbeat_msg) ! i)"
    "grp_ies (dmsg_grp sample_heartbeat_msg) = ies_aside def [drop 8 sample_heartbeat]"
    by (auto simp: sample_heartbeat_header pfcp_is_session_msg_def)
  moreover have "0 < length (group def)"
    using def(1) by (auto simp: sample_heartbeat_msg_def lookups pfcp_heartbeat_request_group_def table_simps)
  ultimately show ?thesis by blast
qed

text \<open>C4: the first occurrence of an element that may occur once wins. Whatever follows in the group, a
  field that is present keeps its value, and whatever the decoder returns.\<close>

theorem first_occurrence_wins:
  assumes "wf_def def" "decode_group lib def p len g err = GRet r g' err'"
    and "i < length (group def)" "\<not> item_is_array (group def ! i)" "bit (grp_fields g) i"
  shows "bit (grp_fields g') i \<and> grp_slots g' ! i = grp_slots g ! i"
proof -
  have "loop_group (decode_group_loop lib def p len g err) = Some g'"
    using assms(2) check_mandatory_GRet by (metis decode_group.simps)
  from loop_first_wins [OF assms(1) this assms(3-5)] show ?thesis .
qed

theorem first_occurrence_wins_witness:
  "bit (grp_fields (Group 1 [] [Single (Leaf (V_time_stamp_ie 3))])) 0
   \<and> (\<exists>g. decode_group demo_lib (grouped_ie (BITS [0]) pfcp_heartbeat_request_group)
        [0, 96, 0, 4, 0xe0, 0, 0, 1] 8 (Group 1 [] [Single (Leaf (V_time_stamp_ie 3))]) [] = GRet 0 g []
      \<and> grp_slots g ! 0 = Single (Leaf (V_time_stamp_ie 3)))"
proof -
  let ?def = "grouped_ie (BITS [0]) pfcp_heartbeat_request_group"
  let ?g = "Group 1 [] [Single (Leaf (V_time_stamp_ie 3))]"
  have "decode_group demo_lib ?def [0, 96, 0, 4, 0xe0, 0, 0, 1] 8 ?g [] =
      GRet 0 (add_ie ?g [0, 96, 0, 4, 0xe0, 0, 0, 1]) []"
    by (simp add: decode_eval lookups pfcp_heartbeat_request_group_def table_simps BITS_def BIT_def)
  moreover have "wf_def ?def" using wf_specs(4) [OF message_lookups(1)] .
  moreover have "0 < length (group ?def)" "\<not> item_is_array (group ?def ! 0)"
    by (simp_all add: pfcp_heartbeat_request_group_def table_simps)
  ultimately show ?thesis
    using first_occurrence_wins [of ?def demo_lib "[0, 96, 0, 4, 0xe0, 0, 0, 1]" 8 ?g "[]" 0
      "add_ie ?g [0, 96, 0, 4, 0xe0, 0, 0, 1]" "[]" 0] by auto
qed

text \<open>C5: the codecs of the simple elements recover the values they have encoded, whatever follows the
  element in the message, for the values of \<open>ok_leaf\<close>. It says of each of the sixty codecs which
  values those are. It has none for PFD contents and trace information, which are never recovered,
  and only the trivial ones for the identity of an address pool and the vector of MAC addresses (the
  empty vector) and for the NAT port range of the Broadband Forum (the range from 0 to 0).\<close>

theorem leaf_roundtrip:
  assumes "ok_leaf lib v" "encode_leaf lib v = Done bs" "length bs < 2 ^ 16"
  shows "decode_leaf lib (leaf_codec v) (bs @ rest) (length bs) = Done v"
  using assms by (rule decode_encode_leaf)

theorem leaf_roundtrip_witness:
  "decode_leaf demo_lib K_volume_ie
     (put_u8 5 @ put_u64 1000 @ put_u64 600 @ [0xff]) 17 =
   Done (V_volume_ie \<lparr>vol_fields = 5, vol_total = 1000, vol_ul = 0, vol_dl = 600\<rparr>)"
  using leaf_roundtrip [of demo_lib "V_volume_ie \<lparr>vol_fields = 5, vol_total = 1000, vol_ul = 0, vol_dl = 600\<rparr>"
      "put_u8 5 @ put_u64 1000 @ put_u64 600" "[0xff]"]
  by (simp add: ok_volume_ie_def encode_volume_ie_def)

text \<open>C6: the decoders of the simple elements, apart from the twelve that \<open>bounded_codec\<close> lists, never read behind the stated
  length of the element.\<close>

theorem leaf_in_bounds:
  assumes "bounded_codec k" "len \<le> length data"
  shows "decode_leaf lib k data len \<noteq> Fault"
  using assms by (rule decode_leaf_bounded)

theorem leaf_in_bounds_witness:
  "bounded_codec K_sdf_filter \<and> decode_leaf demo_lib K_sdf_filter [1, 0, 0, 9] 4 \<noteq> Fault"
  using leaf_in_bounds [of K_sdf_filter 4 "[1, 0, 0, 9]" demo_lib] by (simp add: bounded_codec_def)

text \<open>C7: what the checks of the message header refuse, and with which code: an incomplete header or a
  type beyond the table with -1 (no response is possible), a length beyond the datagram with
  Invalid Length, an S flag that does not go with the type with Request Rejected. In the last
  two cases the type of the message is known and no element has been looked at.\<close>

theorem header_errors:
  assumes "2 \<le> length p" "session = pfcp_is_session_msg (pfcp_msg_type p)"
    and "hdr = (if session then SESSION_MSG_HDR_LEN else NODE_MSG_HDR_LEN)"
  shows "(length p < hdr \<or> 57 < pfcp_msg_type p \<longrightarrow>
        (\<exists>d. pfcp_decode_msg lib p err = Some (-1, d, err)))
    \<and> (hdr \<le> length p \<and> pfcp_msg_type p \<le> 57 \<and> length p < pfcp_msg_length p + 4 \<longrightarrow>
        (\<exists>d. pfcp_decode_msg lib p err = Some (PFCP_CAUSE_INVALID_LENGTH, d, err)
           \<and> dmsg_type d = pfcp_msg_type p \<and> grp_fields (dmsg_grp d) = 0))
    \<and> (hdr \<le> length p \<and> pfcp_msg_type p \<le> 57 \<and> pfcp_msg_length p + 4 \<le> length p
        \<and> session \<noteq> pfcp_msg_s_flag p \<longrightarrow>
        (\<exists>d. pfcp_decode_msg lib p err = Some (PFCP_CAUSE_REQUEST_REJECTED, d, err)
           \<and> dmsg_type d = pfcp_msg_type p \<and> grp_fields (dmsg_grp d) = 0))"
  using assms msg_specs_assigned [of "pfcp_msg_type p"]
  by (auto simp: pfcp_decode_msg_def Let_def empty_group_def split: option.splits)

theorem header_errors_witness:
  "\<exists>d. pfcp_decode_msg demo_lib [0x21, 1, 0, 4, 0, 0, 1, 0] [] = Some (PFCP_CAUSE_REQUEST_REJECTED, d, [])"
  using header_errors [of "[0x21, 1, 0, 4, 0, 0, 1, 0]" False 8 demo_lib "[]"]
  by (auto simp: pfcp_msg_type_def pfcp_is_session_msg_def pfcp_msg_length_def pfcp_msg_s_flag_def
      word_of_be_def)

text \<open>C8: the header of an encoded message: version 1, the type, the length of what follows the first four
  octets, the S flag exactly for session messages, and the SEID and the 24 bits of the sequence
  number where the accessors look for them.\<close>

theorem encoded_header:
  assumes "pfcp_encode_msg lib d = Done bs" "length bs < 2 ^ 16 + 4"
  shows "pfcp_msg_version bs = 1 \<and> pfcp_msg_type bs = dmsg_type d \<and> pfcp_msg_length bs + 4 = length bs
    \<and> pfcp_msg_s_flag bs = pfcp_is_session_msg (dmsg_type d)
    \<and> (if pfcp_is_session_msg (dmsg_type d)
       then pfcp_session_msg_seid bs = dmsg_seid d
         \<and> pfcp_session_msg_seq bs = take_bit 24 (dmsg_seq_no d)
       else pfcp_node_msg_seq bs = take_bit 24 (dmsg_seq_no d))"
  using assms
proof (rule pfcp_encode_msg_cases)
  fix def body and n :: u16
  assume n: "unat n + 4 = length bs" "unat (of_nat (dmsg_type d) :: u8) = dmsg_type d"
    and bs: "bs = (if pfcp_is_session_msg (dmsg_type d)
       then put_u8 (push_bit 5 1 OR 1) @ put_u8 (of_nat (dmsg_type d)) @ put_u16 n
         @ put_u64 (dmsg_seid d) @ put_u24 (dmsg_seq_no d) @ put_u8 0 @ body
       else put_u8 (push_bit 5 1) @ put_u8 (of_nat (dmsg_type d)) @ put_u16 n
         @ put_u24 (dmsg_seq_no d) @ put_u8 0 @ body)"
  from bs n session_header [of "of_nat (dmsg_type d)" n "dmsg_seid d" "dmsg_seq_no d" body]
    node_header [of "of_nat (dmsg_type d)" n "dmsg_seq_no d" body]
  show ?thesis by (simp only: if_split) (cases "pfcp_is_session_msg (dmsg_type d)"; simp)
qed

theorem encoded_header_witness:
  "\<exists>bs. pfcp_encode_msg demo_lib sample_report = Done bs \<and> pfcp_msg_length bs + 4 = length bs
    \<and> pfcp_msg_type bs = PFCP_NODE_REPORT_REQUEST"
proof -
  obtain bs where bs: "pfcp_encode_msg demo_lib sample_report = Done bs" "length bs < 2 ^ 16 + 4"
    using sample_report_encode by blast
  from encoded_header [OF this] bs(1) show ?thesis by (auto simp: sample_report_def)
qed

text \<open>C9: a message that has no elements is refused with Mandatory IE Missing exactly if its type has
  mandatory elements, and then the types of all of them are reported, in the order of the table.\<close>

theorem empty_message:
  assumes "msg_specs (pfcp_msg_type p) = Some def" "session = pfcp_is_session_msg (pfcp_msg_type p)"
    and "session = pfcp_msg_s_flag p" "pfcp_msg_length p + 4 = length p"
    and "length p = (if session then SESSION_MSG_HDR_LEN else NODE_MSG_HDR_LEN)"
  shows "\<exists>d. pfcp_decode_msg lib p err =
     Some (if mandatory def = 0 then 0 else PFCP_CAUSE_MANDATORY_IE_MISSING, d,
           err @ map (\<lambda>i. item_type (group def ! i)) (filter (bit (mandatory def)) [0..<32]))"
proof -
  have "length p \<noteq> 0" "\<not> length p < 2" using assms(5) by auto
  moreover have "filter (bit (0 :: u32)) [0..<32] = []" by (simp add: filter_empty_conv)
  ultimately show ?thesis
    using assms by (auto simp: pfcp_decode_msg_def Let_def decode_group.simps decode_group_loop.simps
        check_mandatory_def empty_group_def missing_ies_def)
qed

theorem empty_message_witness:
  "\<exists>d. pfcp_decode_msg demo_lib [0x20, 1, 0, 4, 0, 0, 1, 0] [] =
     Some (PFCP_CAUSE_MANDATORY_IE_MISSING, d, [PFCP_IE_RECOVERY_TIME_STAMP])"
proof -
  have "filter (bit (BITS [0])) [0..<32] = [0]"
    by (simp add: bit_BITS upt_rec)
  with empty_message [of "[0x20, 1, 0, 4, 0, 0, 1, 0]" _ False demo_lib "[]"] show ?thesis
    by (auto simp: pfcp_msg_type_def pfcp_is_session_msg_def pfcp_msg_length_def pfcp_msg_s_flag_def
        word_of_be_def lookups pfcp_heartbeat_request_group_def table_simps BITS_def BIT_def)
qed

text \<open>C10: Heartbeat Requests, Association Release Requests, Session Set Deletion Requests and Session
  Deletion Requests whose elements are framed correctly and that have no vendor elements are
  decoded without reading outside of the message.\<close>

theorem simple_requests_in_bounds:
  assumes "pfcp_msg_type p = PFCP_HEARTBEAT_REQUEST \<or> pfcp_msg_type p = PFCP_ASSOCIATION_RELEASE_REQUEST
    \<or> pfcp_msg_type p = PFCP_SESSION_SET_DELETION_REQUEST \<or> pfcp_msg_type p = PFCP_SESSION_DELETION_REQUEST"
    and "2 \<le> length p"
    and hdr: "hdr = (if pfcp_is_session_msg (pfcp_msg_type p) then SESSION_MSG_HDR_LEN else NODE_MSG_HDR_LEN)"
    and es: "ie_list (drop hdr p) (int (pfcp_msg_length p) - int hdr + 4) = Some es"
      "\<not> list_ex is_vendor_ie es"
  shows "pfcp_decode_msg lib p err \<noteq> None"
proof -
  have "decode_group lib def (drop hdr p) (int (pfcp_msg_length p) - int hdr + 4) (empty_group def) err \<noteq> GFault"
    if "msg_specs (pfcp_msg_type p) = Some def" "hdr \<le> length p" "pfcp_msg_length p + 4 \<le> length p" for def
    using flat_group_no_fault [OF flat_messages [OF assms(1) that(1)] es] that by simp
  with assms(2) hdr show ?thesis
    by (auto simp: pfcp_decode_msg_def Let_def split: option.splits group_res.splits)
qed

theorem simple_requests_in_bounds_witness: "pfcp_decode_msg demo_lib sample_heartbeat [] \<noteq> None"
  by (rule simple_requests_in_bounds [of _ 8 "[drop 8 sample_heartbeat]"])
     (simp_all add: sample_heartbeat_ies sample_heartbeat_plain sample_heartbeat_header
        pfcp_is_session_msg_def)

text \<open>C11: Node Report Responses, Association Release Responses and Session Set Deletion Responses are never
  accepted: their table asks for a Node ID and has no entry for it.\<close>

theorem unsatisfiable_responses:
  assumes "pfcp_msg_type p = PFCP_NODE_REPORT_RESPONSE \<or> pfcp_msg_type p = PFCP_ASSOCIATION_RELEASE_RESPONSE
    \<or> pfcp_msg_type p = PFCP_SESSION_SET_DELETION_RESPONSE"
  shows "pfcp_decode_msg lib p err \<noteq> Some (0, d, err')"
proof
  assume "pfcp_decode_msg lib p err = Some (0, d, err')"
  then obtain def hdr len where def: "msg_specs (pfcp_msg_type p) = Some def"
    and *: "decode_group lib def (drop hdr p) len (empty_group def) err = GRet 0 (dmsg_grp d) err'"
    by (rule msg_decode_cases) auto
  from assms def have "bit (mandatory def) 0" "item_type (group def ! 0) = 0"
    by (auto simp: spec_defs spec_tables bit_BITS pfcp_simple_response_group_def table_simps)
  from mandatory_hole [OF wf_specs(4) [OF def] this] * show False by simp
qed

theorem unsatisfiable_responses_witness:
  "pfcp_decode_msg demo_lib
     [0x20, 13, 0, 18, 0, 0, 1, 0, 0, 60, 0, 5, 0, 10, 0, 0, 1, 0, 19, 0, 1, 1] [] \<noteq> Some (0, sample_report, [])"
  by (rule unsatisfiable_responses) (simp add: pfcp_msg_type_def)

text \<open>An element is decoded by the definition of its own type and stored in the field of a vendor element
  that has the same number: a Heartbeat Response with a Create URR element is accepted, and the
  member for the Travelping Error Report holds a Create URR group.\<close>

lemma element_in_foreign_slot:
  "\<exists>d urr. pfcp_decode_msg lib [0x20, 2, 0, 35, 0, 0, 1, 0, 0, 96, 0, 4, 0xe0, 0, 0, 1,
      0, 6, 0, 19, 0, 81, 0, 4, 0, 0, 0, 1, 0, 62, 0, 1, 2, 0, 37, 0, 2, 0, 0] err = Some (0, d, err)
    \<and> grp_slots (dmsg_grp d) ! PFCP_RESPONSE_TP_ERROR_REPORT = Single (Grp urr)
    \<and> \<not> ok_val lib (vendor_tp_specs PFCP_IE_TP_ERROR_REPORT) (Grp urr)"
  by (simp add: decode_eval lookups pfcp_simple_response_group_def table_simps
      pfcp_create_urr_group_def pfcp_tp_error_report_group_def codec_defs BITS_def BIT_def)

text \<open>A vendor element that is too short for its vendor makes the length wrap around, and the decoder
  reads up to 65534 octets behind the message.\<close>

lemma vendor_length_underflow:
  "pfcp_decode_msg lib [0x20, 2, 0, 10, 0, 0, 1, 0, 0x80, 6, 0, 0, 0x48, 0xf9] err = None"
  by (simp add: decode_eval lookups pfcp_simple_response_group_def pfcp_tp_error_report_group_def
      table_simps sub16_def)

text \<open>A vendor element whose number is the one of a 3GPP element of the message is looked up behind the
  end of the vendor's table.\<close>

lemma vendor_type_outside_table:
  "pfcp_decode_msg lib [0x20, 1, 0, 10, 0, 0, 1, 0, 0x80, 96, 0, 2, 0x48, 0xf9] err = None"
proof -
  have "vendor_tp_specs 96 = None" by (simp add: spec_defs spec_tables)
  then show ?thesis
    by (simp add: decode_eval lookups pfcp_heartbeat_request_group_def table_simps)
qed

text \<open>C12: Quota Validity Time shares its number with an element of the traffic reports, whose table entry
  comes later: of the four octets of the time, the decoder stores the first.\<close>

theorem quota_validity_time_confused:
  "decode_ie lib (tgpp_specs PFCP_IE_QUOTA_VALIDITY_TIME) (put_u32 q @ rest) 4 err =
     (Done (Leaf (V_u8_ie (ucast (drop_bit 24 q)))), err)"
proof -
  have "tgpp_specs PFCP_IE_QUOTA_VALIDITY_TIME = Some (simple_ie K_u8_ie)"
    by (simp add: spec_defs spec_tables)
  then show ?thesis by (simp add: decode_ie.simps decode_u8_ie_def put_u32_octets)
qed



text \<open>C14: time stamps are converted between the two epochs without loss, in both directions and over the
  whole range of 32 bits.\<close>

theorem time_stamp_bijection:
  "decode_time_stamp_ie (encode_time_stamp_ie t @ rest) 4 = Done t
   \<and> (\<exists>t. decode_time_stamp_ie (put_u32 w @ rest) 4 = Done t \<and> encode_time_stamp_ie t = put_u32 w)"
proof -
  have "length (encode_time_stamp_ie t) = 4" by (simp add: encode_time_stamp_ie_def)
  with time_stamp_ie.rt [of t rest]
  have "decode_time_stamp_ie (encode_time_stamp_ie t @ rest) 4 = Done t" by simp
  moreover have "(2085978496 :: u32) = - 2208988800" by simp
  then have "encode_time_stamp_ie t = put_u32 (t + 2208988800)"
    "decode_time_stamp_ie (put_u32 w @ rest) 4 = Done (w - 2208988800)" for t
    by (simp_all only: codec_defs get_u32_put) (simp_all add: if_distrib)
  ultimately show ?thesis by simp
qed

text \<open>C15: the decoders of F-SEID and F-TEID on an element that ends the message: which lengths make them
  read behind it, for every flags octet \<open>b\<close>. The F-SEID decoder does not count the nine octets before
  the addresses when it compares the length with their size; the F-TEID decoder does not count the
  flags octet, so an element that is one octet too short for what its flags announce is read behind
  its end.\<close>

theorem f_seid_f_teid_overread:
  "(decode_f_seid (b # ds) (Suc (length ds)) = Fault \<longleftrightarrow>
      8 \<le> length ds \<and> (bit b 1 \<and> length ds < 12
        \<or> bit b 0 \<and> 16 + (if bit b 1 then 4 else 0) \<le> Suc (length ds)
          \<and> length ds < 24 + (if bit b 1 then 4 else 0)))
   \<and> (decode_f_teid (b # ds) (Suc (length ds)) = Fault \<longleftrightarrow>
      (if bit b 2 then ds = [] \<and> (bit b 0 \<or> bit b 1)
       else length ds = 3 \<or> \<not> bit b 3 \<and>
         (bit b 0 \<and> length ds = 7 \<or> bit b 1 \<and> length ds = 19 + (if bit b 0 then 4 else 0))))"
proof -
  have bits: "bit (b AND 3) 0 = bit b 0" "bit (b AND 3) 1 = bit b 1" "bit (b AND 15) 0 = bit b 0"
    "bit (b AND 15) 1 = bit b 1" "bit (b AND 15) 2 = bit b 2" "bit (b AND 15) 3 = bit b 3"
    by (simp_all add: bit_simps bit_numeral_rec)
  have "(3 :: u8) = BIT 0 OR BIT 1" by (simp add: BIT_def)
  then have "b AND 3 = 0 \<longleftrightarrow> \<not> bit b 0 \<and> \<not> bit b 1"
    by (simp only: and_or_eq_0 and_BIT_eq_0)
  with bits have "decode_f_seid (b # ds) (Suc (length ds)) = Fault \<longleftrightarrow>
      8 \<le> length ds \<and> (bit b 1 \<and> length ds < 12
        \<or> bit b 0 \<and> 16 + (if bit b 1 then 4 else 0) \<le> Suc (length ds)
          \<and> length ds < 24 + (if bit b 1 then 4 else 0))"
    by (auto simp: decode_f_seid_def Let_def Fault_simps)
  moreover have "decode_f_teid (b # ds) (Suc (length ds)) = Fault \<longleftrightarrow>
      (if bit b 2 then ds = [] \<and> (bit b 0 \<or> bit b 1)
       else length ds = 3 \<or> \<not> bit b 3 \<and>
         (bit b 0 \<and> length ds = 7 \<or> bit b 1 \<and> length ds = 19 + (if bit b 0 then 4 else 0)))"
    using bits by (auto simp: decode_f_teid_def Let_def Fault_simps)
  ultimately show ?thesis by simp
qed

text \<open>C16: PFD contents and trace information never survive encoding and decoding, and the identity of an
  address pool does so only if it is empty.\<close>

theorem codecs_not_inverse:
  "decode_pfd_contents (encode_pfd_contents v @ rest) (length (encode_pfd_contents v)) \<noteq> Done v
   \<and> decode_trace_information lib (encode_trace_information lib w @ rest)
       (length (encode_trace_information lib w)) \<noteq> Done w
   \<and> (encode_ue_ip_address_pool_identity lib x = Done bs \<longrightarrow>
        (decode_ue_ip_address_pool_identity (bs @ rest) (length bs) = Done x \<longleftrightarrow> x = []))"
  using pfd_contents_lost trace_information_lost ue_ip_address_pool_identity_rt ue_ip_address_pool_identity_Done
  by auto

theorem codecs_not_inverse_witness:
  "encode_ue_ip_address_pool_identity demo_lib [1] = Done [0, 1, 1]
   \<and> decode_ue_ip_address_pool_identity [0, 1, 1] 3 \<noteq> Done [1]"
proof -
  have enc: "encode_ue_ip_address_pool_identity demo_lib [1] = Done [0, 1, 1]"
    by (simp add: codec_defs demo_lib_def put_u16_octets)
  with codecs_not_inverse [of undefined "[]" demo_lib undefined "[1]" "[0, 1, 1]"] show ?thesis
    by (simp add: eval_nat_numeral)
qed

section \<open>The flow table\<close>

text \<open>A pool that hands out the first index behind all that are in use, and the comparisons of addresses of VPP:
  IPv4 addresses by the sign of their 32-bit difference, IPv6 addresses by their first octet that differs.\<close>

definition demo_pool :: pool_lib where
  "demo_pool = \<lparr>unformat_ip46_address = (\<lambda>_ _. None), format_ip46_address = (\<lambda>_. []),
     ip46_address_is_ip4 = (\<lambda>a. drop_bit 32 a = 0), ip46_address_set_ip4 = ucast, vec_slack = (\<lambda>n. n \<le> 64),
     ip4_address_compare = (\<lambda>a b. sint (a - b)), ip6_address_compare = (\<lambda>a b. uint a - uint b),
     pool_index = (\<lambda>S. if S = {} then 0 else Suc (Max S)),
     stale_flow = new_flow \<lparr>fk_seid = 0, fk_ip = (0, 0), fk_port = (0, 0), fk_proto = 0\<rparr> 0 0 False 0 0\<rparr>"

lemma demo_pool_fresh: "pool_fresh demo_pool"
proof -
  have "Suc (Max S) \<notin> S" if "finite S" for S :: "nat set" using Max_ge [OF that] by fastforce
  then show ?thesis by (simp add: pool_fresh_def demo_pool_def)
qed

definition demo_header :: packet_header where
  "demo_header = IP4 \<lparr>protocol = 6, src_address = 0x0a000001, dst_address = 0x0a000002, src_port = 1000,
     dst_port = 80, tcp_flags = 2\<rparr>"

definition demo_packet :: flow_packet where
  "demo_packet = \<lparr>pk_session_index = 0, pk_session_free = False, pk_seid = 7, pk_generation = 1,
     pk_pdr_idx = (\<lambda>_. 0), pk_header = demo_header, pk_length = 60\<rparr>"

definition demo_start :: flow_system where
  "demo_start = flowtable_init_cpus demo_pool 1"

lemma demo_system:
  "system_inv hook demo_start" "length (cpus demo_start) = 1" "flows_cpt (shared demo_start) = 256"
  "flows_max (shared demo_start) = 4194304" "clocks demo_start = [0]" "timer_lifetime (shared demo_start) ty = 60"
  "flows_ht (cpus demo_start ! 0) = Map.empty" "proxied demo_start = {}"
  using init_system_inv [OF demo_pool_fresh, of 1 hook]
  by (auto simp: demo_start_def flowtable_init_def flowtable_init_cpu_def Let_def split: prod.splits)

lemma demo_reachable: "flow_reachable demo_pool None 1 demo_start"
  unfolding demo_start_def by (rule flow_reachable.init)

text \<open>The packets of the other direction have addresses and ports exchanged.\<close>

definition swap_ends :: "'ip ip_header \<Rightarrow> 'ip ip_header" where
  "swap_ends h = h\<lparr>src_address := dst_address h, dst_address := src_address h, src_port := dst_port h, dst_port := src_port h\<rparr>"

fun swap_header :: "packet_header \<Rightarrow> packet_header" where
  "swap_header (IP4 h) = IP4 (swap_ends h)"
| "swap_header (IP6 h) = IP6 (swap_ends h)"

fun distinct_ends :: "packet_header \<Rightarrow> bool" where
  "distinct_ends (IP4 h) \<longleftrightarrow> src_address h \<noteq> dst_address h"
| "distinct_ends (IP6 h) \<longleftrightarrow> src_address h \<noteq> dst_address h"

lemmas key_defs = flow_mk_key_def parse_ip4_packet_def parse_ip6_packet_def parse_packet_protocol_def
  swap_ends_def Let_def

text \<open>The two addresses of a packet and the same addresses exchanged compare with different signs.\<close>

fun told_apart :: "'v flow_lib_scheme \<Rightarrow> packet_header \<Rightarrow> bool" where
  "told_apart lib (IP4 h) \<longleftrightarrow> (ip4_address_compare lib (src_address h) (dst_address h) < 0)
     \<noteq> (ip4_address_compare lib (dst_address h) (src_address h) < 0)"
| "told_apart lib (IP6 h) \<longleftrightarrow> (ip6_address_compare lib (src_address h) (dst_address h) < 0)
     \<noteq> (ip6_address_compare lib (dst_address h) (src_address h) < 0)"

lemma sint_neg_iff: "sint (w :: u32) < 0 \<longleftrightarrow> 2 ^ 31 \<le> uint w"
proof -
  have u: "0 \<le> uint w" "uint w < 4294967296" using uint_lt2p [of w] by simp_all
  then have "uint w div 2147483648 = (if 2147483648 \<le> uint w then 1 else 0)"
    by (cases "2147483648 \<le> uint w") (auto simp: div_pos_pos_trivial intro!: int_div_pos_eq [of _ _ _ "uint w - 2147483648"])
  then show ?thesis
    by (auto simp: sint_uint bit_iff_odd)
qed

lemma sint_difference:
  assumes "a \<noteq> (b :: u32)"
  shows "(sint (a - b) < 0) \<noteq> (sint (b - a) < 0) \<longleftrightarrow> a - b \<noteq> 2 ^ 31"
proof -
  have u: "0 < uint (a - b)" "uint (a - b) < 4294967296"
    using assms uint_lt2p [of "a - b"] uint_ge_0 [of "a - b"] uint_0_iff [of "a - b"] by (auto simp: order_le_less)
  have "b - a = - (a - b)" by simp
  then have "uint (b - a) = (- uint (a - b)) mod 4294967296" by (simp only: uint_word_ariths) simp
  also have "\<dots> = 4294967296 - uint (a - b)" using u by (simp add: zmod_zminus1_eq_if)
  finally have "uint (b - a) = 4294967296 - uint (a - b)" .
  moreover have "a - b = 2 ^ 31 \<longleftrightarrow> uint (a - b) = 2147483648" by (simp add: word_uint_eq_iff)
  ultimately show ?thesis unfolding sint_neg_iff by auto
qed

text \<open>C17: The packets of both directions of a connection between two different addresses get the same flow
  key exactly if the comparison of the addresses tells the two directions apart, and then they have opposite directions
  relative to the key, for every protocol and both versions of IP. IPv4 addresses are compared by the sign of their 32-bit
  difference in VPP; with it, the directions are told apart for all addresses but those that are \<open>2 ^ 31\<close>
  apart, whose connections are split into two flows.\<close>

theorem both_directions_one_flow:
  assumes "inj (ip46_address_set_ip4 lib)" "distinct_ends header"
  shows "(snd (flow_mk_key lib seid (swap_header header)) = snd (flow_mk_key lib seid header) \<longleftrightarrow> told_apart lib header)
    \<and> (told_apart lib header \<longrightarrow>
        fst (flow_mk_key lib seid (swap_header header)) = (\<not> fst (flow_mk_key lib seid header)))
    \<and> ((\<forall>a b. ip4_address_compare lib a b = sint (a - b)) \<and> header = IP4 h \<longrightarrow>
        (told_apart lib header \<longleftrightarrow> src_address h - dst_address h \<noteq> 2 ^ 31))"
proof (cases header)
  case (IP4 h)
  then have "ip46_address_set_ip4 lib (src_address h) \<noteq> ip46_address_set_ip4 lib (dst_address h)"
    using assms by (simp add: inj_eq)
  with IP4 show ?thesis using assms(2) sint_difference by (auto simp: key_defs)
next
  case (IP6 h)
  then show ?thesis using assms(2) by (auto simp: key_defs)
qed

theorem both_directions_one_flow_witness:
  "snd (flow_mk_key demo_pool 7 (swap_header demo_header)) = snd (flow_mk_key demo_pool 7 demo_header)
   \<and> fst (flow_mk_key demo_pool 7 (swap_header demo_header)) = (\<not> fst (flow_mk_key demo_pool 7 demo_header))
   \<and> snd (flow_mk_key demo_pool 7 (swap_header (IP4 \<lparr>protocol = 6, src_address = 0x8a000001, dst_address = 0x0a000001,
       src_port = 1000, dst_port = 80, tcp_flags = 2\<rparr>)))
     \<noteq> snd (flow_mk_key demo_pool 7 (IP4 \<lparr>protocol = 6, src_address = 0x8a000001, dst_address = 0x0a000001,
       src_port = 1000, dst_port = 80, tcp_flags = 2\<rparr>))"
proof -
  have inj: "inj (ip46_address_set_ip4 demo_pool)"
    unfolding demo_pool_def by (rule inj_onI) (auto simp: bit_eq_iff bit_simps)
  have cmp: "\<forall>a b. ip4_address_compare demo_pool a b = sint (a - b)" by (simp add: demo_pool_def)
  let ?h = "\<lparr>protocol = 6, src_address = 0x0a000001, dst_address = 0x0a000002, src_port = 1000,
     dst_port = 80, tcp_flags = 2\<rparr> :: ip4_address ip_header"
  let ?g = "\<lparr>protocol = 6, src_address = 0x8a000001, dst_address = 0x0a000001,
       src_port = 1000, dst_port = 80, tcp_flags = 2\<rparr> :: ip4_address ip_header"
  show ?thesis
    using both_directions_one_flow [OF inj, of "IP4 ?h" 7 ?h] both_directions_one_flow [OF inj, of "IP4 ?g" 7 ?g] cmp
    by (simp add: demo_header_def)
qed

text \<open>C18: A TCP or UDP connection of an address with itself is split into two flows: the packet from port
  \<open>p\<close> to port \<open>q\<close> and the reply have different keys, unless the ports are equal. The comment in
  \<^verbatim>\<open>flow_mk_key\<close> says that both half connections get into the same flow.\<close>

theorem same_address_two_flows:
  assumes "\<not> ip4_address_compare lib (src_address h) (src_address h) < 0" and "dst_address h = src_address h"
    and "protocol h = IP_PROTOCOL_TCP \<or> protocol h = IP_PROTOCOL_UDP" and "src_port h \<noteq> dst_port h"
  shows "snd (flow_mk_key lib seid (swap_header (IP4 h))) \<noteq> snd (flow_mk_key lib seid (IP4 h))"
  using assms by (auto simp: key_defs)

theorem same_address_two_flows_witness:
  "snd (flow_mk_key demo_pool 7 (swap_header (IP4 \<lparr>protocol = 6, src_address = 9, dst_address = 9, src_port = 1,
      dst_port = 2, tcp_flags = 0\<rparr>)))
   \<noteq> snd (flow_mk_key demo_pool 7 (IP4 \<lparr>protocol = 6, src_address = 9, dst_address = 9, src_port = 1, dst_port = 2,
      tcp_flags = 0\<rparr>))"
  by (rule same_address_two_flows) (simp_all add: demo_pool_def)

text \<open>C19: In every state the threads reach, in whatever order they process their frames, an entry in the
  hash table of a thread is allocated, has the key it is found under, and has exactly one timer, which
  is linked into exactly one slot of the wheel, once. It is in no cache of free entries and in no table of another
  thread. Every allocated entry is in a table or a cache, and the counter counts the allocated entries.\<close>

theorem flow_table_consistent:
  assumes "flow_reachable lib hook n s" "pool_fresh lib" "stable_hook hook" "n * FLOW_CACHE_SZ \<le> FM_POOL_COUNT"
  shows "(\<forall>c < length (cpus s). \<forall>k i. flows_ht (cpus s ! c) k = Some i \<longrightarrow>
      (\<exists>f slot. flows (shared s) i = Some f \<and> fe_key f = k \<and> flowtable_main_per_cpu.timer_value (cpus s ! c) (fe_timer_index f) = Some i
        \<and> slot < timer_max_lifetime (shared s) \<and> distinct (slots (cpus s ! c) slot)
        \<and> (\<forall>t. fe_timer_index f \<in> set (slots (cpus s ! c) t) \<longleftrightarrow> t = slot))
      \<and> (\<forall>d < length (cpus s). i \<notin> set (flow_cache (cpus s ! d)) \<and> (d \<noteq> c \<longrightarrow> i \<notin> ran (flows_ht (cpus s ! d)))))
    \<and> dom (flows (shared s)) = (\<Union>c < length (cpus s). set (flow_cache (cpus s ! c)) \<union> ran (flows_ht (cpus s ! c)))
    \<and> flows_cpt (shared s) = card (dom (flows (shared s)))"
proof -
  have inv: "system_inv hook s" by (rule flow_reachable_inv [OF assms])
  have "(\<exists>f slot. flows (shared s) i = Some f \<and> fe_key f = k \<and> flowtable_main_per_cpu.timer_value (cpus s ! c) (fe_timer_index f) = Some i
        \<and> slot < timer_max_lifetime (shared s) \<and> distinct (slots (cpus s ! c) slot)
        \<and> (\<forall>t. fe_timer_index f \<in> set (slots (cpus s ! c) t) \<longleftrightarrow> t = slot))
      \<and> (\<forall>d < length (cpus s). i \<notin> set (flow_cache (cpus s ! d)) \<and> (d \<noteq> c \<longrightarrow> i \<notin> ran (flows_ht (cpus s ! d))))"
    if c: "c < length (cpus s)" and i: "flows_ht (cpus s ! c) k = Some i" for c k i
  proof -
    have t: "thread_inv (shared s, cpus s ! c)" using inv c by (simp add: system_inv_def thread_ok_def)
    have own: "i \<in> ran (flows_ht (cpus s ! c))" using i by (rule ranI)
    have "i \<notin> set (flow_cache (cpus s ! d)) \<and> (d \<noteq> c \<longrightarrow> i \<notin> ran (flows_ht (cpus s ! d)))"
      if "d < length (cpus s)" for d
    proof (cases "d = c")
      case True
      then show ?thesis using own thread_invD(10) [OF t] by blast
    next
      case False
      then have "owned (cpus s ! c) \<inter> owned (cpus s ! d) = {}" using inv c that by (simp add: system_inv_def)
      then show ?thesis using own by (auto simp: owned_def)
    qed
    with flow_linked_once [OF t i] show ?thesis by blast
  qed
  then show ?thesis using inv by (simp add: system_inv_def shared_inv_def owned_def)
qed

theorem flow_table_consistent_witness:
  "flow_reachable demo_pool None 1 demo_start
   \<and> flows_cpt (shared demo_start) = card (dom (flows (shared demo_start)))"
  using flow_table_consistent [OF demo_reachable demo_pool_fresh proxy_hook_stable(1)] demo_reachable by simp

text \<open>C20: Looking up a flow refines a map from keys to flows. When a thread of a reachable state processes a frame
  and the pool is not exhausted, \<^verbatim>\<open>flowtable_entry_lookup_create\<close> returns an entry. If the key is
  known, it is the entry of the known flow and nothing changes; otherwise the map afterwards is the map
  before with a new flow under that key, with the lifetime configured for its protocol, and no other
  flow is lost or altered.\<close>

theorem lookup_refines_map:
  assumes "flow_reachable lib hook n s" "pool_fresh lib" "stable_hook hook" "n * FLOW_CACHE_SZ \<le> FM_POOL_COUNT"
    and "c < length (cpus s)" "clocks s ! c \<le> now" "now + 2 ^ 17 < 2 ^ 32"
    and "flows_cpt (shared s) \<le> flows_max (shared s)"
    and "st = (shared s, timer_wheel_index_update (shared s) now (cpus s ! c))"
  shows "\<exists>i created st'. flowtable_entry_lookup_create lib hook key now dir gen st = Some (Some i, created, st')
    \<and> (case flow_map st key of
         Some f \<Rightarrow> \<not> created \<and> st' = st \<and> flows (fst st) i = Some f
       | None \<Rightarrow> created \<and> (\<exists>tm. flow_map st' = (flow_map st)(key \<mapsto>
           new_flow key (flowtable_lifetime_calculate lib (shared s) key) now dir gen tm)))"
proof -
  have inv: "system_inv hook s" by (rule flow_reachable_inv [OF assms(1-4)])
  then have "thread_ok (proxied s) hook (clocks s ! c) (shared s, cpus s ! c)" using assms(5) by (simp add: system_inv_def)
  then have "frame_inv (proxied s) hook now st" using frame_begin(1) assms(6,9) by simp
  moreover have "now + 2 ^ 16 < 2 ^ 32" using assms(7) by simp
  moreover have "flows_cpt (fst st) \<le> flows_max (fst st)" and st: "fst st = shared s" using assms(8,9) by simp_all
  ultimately show ?thesis using lookup_create_refines [OF assms(2), of "proxied s" hook now st key dir gen] unfolding st by blast
qed

theorem lookup_refines_map_witness:
  "\<exists>st i st'. flow_map st (snd (flow_mk_key demo_pool 7 demo_header)) = None
     \<and> flowtable_entry_lookup_create demo_pool None (snd (flow_mk_key demo_pool 7 demo_header)) 1000 True 1 st = Some (Some i, True, st')
     \<and> (\<exists>f. flow_map st' = [snd (flow_mk_key demo_pool 7 demo_header) \<mapsto> f] \<and> fe_lifetime f = 60)"
proof -
  define key where "key = snd (flow_mk_key demo_pool 7 demo_header)"
  define st where "st = (shared demo_start, timer_wheel_index_update (shared demo_start) 1000 (cpus demo_start ! 0))"
  have empty: "flow_map st = Map.empty"
    by (simp add: st_def flow_map_def fun_eq_iff timer_wheel_index_update_def demo_system)
  have "\<exists>i created st'. flowtable_entry_lookup_create demo_pool None key 1000 True 1 st = Some (Some i, created, st')
    \<and> (case flow_map st key of
         Some f \<Rightarrow> \<not> created \<and> st' = st \<and> flows (fst st) i = Some f
       | None \<Rightarrow> created \<and> (\<exists>tm. flow_map st' = (flow_map st)(key \<mapsto>
           new_flow key (flowtable_lifetime_calculate demo_pool (shared demo_start) key) 1000 True 1 tm)))"
    by (rule lookup_refines_map [OF demo_reachable demo_pool_fresh proxy_hook_stable(1), of 0])
      (simp_all add: demo_system st_def)
  then obtain i st' tm where "flowtable_entry_lookup_create demo_pool None key 1000 True 1 st = Some (Some i, True, st')"
    "flow_map st' = [key \<mapsto> new_flow key (flowtable_lifetime_calculate demo_pool (shared demo_start) key) 1000 True 1 tm]"
    by (auto simp: empty)
  moreover have "fe_lifetime (new_flow key (flowtable_lifetime_calculate demo_pool (shared demo_start) key) 1000 True 1 tm) = 60"
    by (simp add: new_flow_def flowtable_lifetime_calculate_def demo_system)
  ultimately show ?thesis
    unfolding key_def [symmetric] using empty by (intro exI [of _ st] exI [of _ i] exI [of _ st']) auto
qed

text \<open>C21: Processing a frame of packets returns. From every reachable state, at any later time, as long as
  the pool has room for a full cache per packet, all packets of the frame are handled and the scan
  for expired flows comes to its end.\<close>

theorem frame_returns:
  assumes "flow_reachable lib hook n s" "pool_fresh lib" "stable_hook hook" "n * FLOW_CACHE_SZ \<le> FM_POOL_COUNT"
    and "c < length (cpus s)" "clocks s ! c \<le> now" "now + 2 ^ 17 < 2 ^ 32"
    and "flows_cpt (shared s) + length ps * FLOW_CACHE_SZ \<le> flows_max (shared s)"
  shows "\<exists>rs cpt st'. upf_flow_process lib hook now ps (shared s, cpus s ! c) = Some (rs, cpt, st')
    \<and> length rs = length ps \<and> cpt \<le> TIMER_MAX_EXPIRE"
proof -
  have "system_inv hook s" by (rule flow_reachable_inv [OF assms(1-4)])
  then have ok: "thread_ok (proxied s) hook (clocks s ! c) (shared s, cpus s ! c)" using assms(5) by (simp add: system_inv_def)
  with flow_process_returns [OF assms(2,3) ok assms(6,7), of ps] assms(8)
  obtain rs cpt st' where "upf_flow_process lib hook now ps (shared s, cpus s ! c) = Some (rs, cpt, st')" "length rs = length ps"
    by auto
  with flow_process_ok(3) [OF assms(2,3) ok assms(6,7)] show ?thesis by blast
qed

theorem frame_returns_witness:
  "\<exists>rs cpt st'. upf_flow_process demo_pool None 1000 [demo_packet, demo_packet]
      (shared demo_start, cpus demo_start ! 0) = Some (rs, cpt, st')
    \<and> length rs = length [demo_packet, demo_packet] \<and> cpt \<le> 256"
  using frame_returns [OF demo_reachable demo_pool_fresh proxy_hook_stable(1), of 0 1000 "[demo_packet, demo_packet]"]
  by (simp add: demo_system)

text \<open>C22: Idle flows go away. When a thread has processed a frame at the time \<open>now\<close> and the scan did not stop
  at its limit of 256 timers, every flow that is left in its table had a packet within its lifetime, or is or was
  held by the proxy, or has lifetime zero. This holds after any history of frames on all threads, changes of the
  timeouts, and changes of flows by the proxy and the other nodes. The last two exceptions are real: a
  timeout may be set to zero, and the timer of such a flow, like the one of a flow that the proxy
  has given up, may stay in a slot the scan has passed until the wheel has turned round.\<close>

theorem idle_flows_removed:
  assumes "flow_reachable lib hook n s" "pool_fresh lib" "stable_hook hook" "n * FLOW_CACHE_SZ \<le> FM_POOL_COUNT"
    and "c < length (cpus s)" "clocks s ! c \<le> now" "now + 2 ^ 17 < 2 ^ 32"
    and "upf_flow_process lib hook now ps (shared s, cpus s ! c) = Some (rs, cpt, st')" "cpt < TIMER_MAX_EXPIRE"
    and "flow_map st' key = Some f"
  shows "now < fe_active f + fe_lifetime f \<or> blocks hook f \<or> key \<in> proxied s \<or> fe_lifetime f = 0"
proof -
  have "system_inv hook s" by (rule flow_reachable_inv [OF assms(1-4)])
  then have ok: "thread_ok (proxied s) hook (clocks s ! c) (shared s, cpus s ! c)" using assms(5) by (simp add: system_inv_def)
  note p = flow_process_ok [OF assms(2,3) ok assms(6,7,8)]
  have tf: "timer_flow st' (fe_timer_index f) = Some f"
    using flow_map_timer_flow assms(10) p(1) by (simp add: thread_ok_def)
  have "fe_key f = key"
    using assms(10) p(1) link_okD1 [OF thread_invD(11)] by (cases st') (fastforce simp: thread_ok_def flow_map_def bind_eq_Some_conv)
  with p(4) [OF assms(9) tf] show ?thesis
    by (auto simp: exempt_def deadline_def add32_def intro: less_le_trans mod_less_eq_dividend)
qed

theorem idle_flows_removed_witness:
  "\<exists>rs cpt st'. upf_flow_process demo_pool None 1000 [demo_packet]
      (shared demo_start, cpus demo_start ! 0) = Some (rs, cpt, st')
    \<and> (cpt < 256 \<longrightarrow> (\<forall>key f. flow_map st' key = Some f \<and> 0 < fe_lifetime f \<longrightarrow>
        1000 < fe_active f + fe_lifetime f))"
proof -
  have ok: "thread_ok (proxied demo_start) None (clocks demo_start ! 0) (shared demo_start, cpus demo_start ! 0)" using demo_system by (simp add: system_inv_def)
  obtain rs cpt st' where r: "upf_flow_process demo_pool None 1000 [demo_packet] (shared demo_start, cpus demo_start ! 0) = Some (rs, cpt, st')"
    using flow_process_returns [OF demo_pool_fresh proxy_hook_stable(1) ok, of 1000 "[demo_packet]"] demo_system by auto
  have "1000 < fe_active f + fe_lifetime f" if "0 < fe_lifetime f" "cpt < 256" "flow_map st' key = Some f" for key f
    using idle_flows_removed [OF demo_reachable demo_pool_fresh proxy_hook_stable(1) _ _ _ _ r that(2,3)] that(1) demo_system
    by (simp add: blocks_def)
  with r show ?thesis by blast
qed

text \<open>C23: Once the pool of flows is exhausted, the first packet of a new flow after the first ten minutes stops the
  thread: \<^verbatim>\<open>recycle_flow\<close> compares a slot number below \<^verbatim>\<open>timer_max_lifetime\<close> with the time and
  has no other way out of its loop, so \<^verbatim>\<open>flowtable_entry_lookup_create\<close> does not return.\<close>

theorem recycle_does_not_return:
  assumes "flows_ht fmt key = None" "flow_cache fmt = []" "flows_cpt fm > flows_max fm"
    and "0 < timer_max_lifetime fm" "timer_max_lifetime fm \<le> now"
  shows "flowtable_entry_lookup_create lib hook key now dir gen (fm, fmt) = None"
proof -
  have "flow_entry_alloc lib (fm, fmt) = (None, fm, fmt)"
    using assms(2,3) by (simp add: flow_entry_alloc_def flow_entry_cache_fill_def)
  moreover have "recycle_flow hook now (fm, fmt) = None" using assms(4,5) by (intro recycle_flow_stuck) simp_all
  ultimately show ?thesis using assms(1) by (simp add: flowtable_entry_lookup_create_def)
qed

definition full_table :: flowtable_main where
  "full_table = \<lparr>flows = Map.empty, flows_max = 4194304, flows_cpt = 4194560, timer_lifetime = (\<lambda>_. 60), timer_max_lifetime = 600\<rparr>"

definition idle_cpu :: flowtable_main_per_cpu where
  "idle_cpu = \<lparr>flows_ht = Map.empty, slots = (\<lambda>_. []), flowtable_main_per_cpu.timer_value = Map.empty, time_index = 0, next_check = 0, flow_cache = [],
     flow_counter = 0, stitched_counter = 0, dirty_counter = 0\<rparr>"

theorem recycle_does_not_return_witness:
  "flowtable_entry_lookup_create demo_pool None (snd (flow_mk_key demo_pool 7 demo_header)) 600 True 1 (full_table, idle_cpu) = None"
  by (rule recycle_does_not_return) (simp_all add: full_table_def idle_cpu_def)

fun tcp_rank :: "tcp_f_state \<Rightarrow> nat" where
  "tcp_rank TCP_F_STATE_START = 0"
| "tcp_rank TCP_F_STATE_SYN = 1"
| "tcp_rank TCP_F_STATE_SYNACK = 2"
| "tcp_rank TCP_F_STATE_ESTABLISHED = 3"
| "tcp_rank TCP_F_STATE_FIN = 4"
| "tcp_rank TCP_F_STATE_FINACK = 5"
| "tcp_rank TCP_F_STATE_RST = 6"

lemma tcp_event_not_none: "tcp_event flags \<noteq> TCP_EV_NONE"
  by (simp add: tcp_event_def)

lemma tcp_trans_forward:
  "tcp_trans s ev \<noteq> TCP_F_STATE_START \<Longrightarrow> tcp_trans s ev \<noteq> s \<Longrightarrow> tcp_rank s < tcp_rank (tcp_trans s ev)"
  "tcp_trans TCP_F_STATE_RST ev = TCP_F_STATE_START"
  "ev \<noteq> TCP_EV_NONE \<Longrightarrow> tcp_trans TCP_F_STATE_START ev \<noteq> TCP_F_STATE_ESTABLISHED"
  by (cases s; cases ev; simp) (cases ev; simp)+

text \<open>C24: The TCP state of a flow only moves forward. A packet either leaves flow and timers alone, or moves
  the flow to a later state, sets the lifetime of that state and reschedules the timer; a flow that
  has seen a reset does not change any more, and no packet takes a flow that was first seen in the middle of a
  connection to the established state, although the transition table has an entry for that.\<close>

theorem tcp_state_forward:
  assumes "flows fm i = Some f" and "flow_tcp_update_lifetime i flags (fm, fmt) = (fm', fmt')"
  shows "(fm' = fm \<and> fmt' = fmt) \<or>
    (\<exists>s. fe_tcp_state f \<noteq> TCP_F_STATE_RST \<and> tcp_rank (fe_tcp_state f) < tcp_rank s
       \<and> (fe_tcp_state f = TCP_F_STATE_START \<longrightarrow> s \<noteq> TCP_F_STATE_ESTABLISHED)
       \<and> flows fm' = (flows fm)(i \<mapsto> f\<lparr>fe_tcp_state := s, fe_lifetime := tcp_lifetime s\<rparr>)
       \<and> fe_timer_index f \<in> set (slots fmt' (add32 (fe_active f) (tcp_lifetime s) mod timer_max_lifetime fm)))"
proof (cases "(fm', fmt') = (fm, fmt)")
  case False
  define s where "s = tcp_trans (fe_tcp_state f) (tcp_event flags)"
  have *: "s \<noteq> TCP_F_STATE_START" "fe_tcp_state f \<noteq> s" "flows fm' = (flows fm)(i \<mapsto> f\<lparr>fe_tcp_state := s, fe_lifetime := tcp_lifetime s\<rparr>)"
    "slots fmt' = dlist_addtail (add32 (fe_active f) (tcp_lifetime s) mod timer_max_lifetime fm) (fe_timer_index f)
       (dlist_remove (fe_timer_index f) (slots fmt))"
    using assms False by (auto simp: flow_tcp_update_lifetime_def Let_def s_def split: if_splits)
  have "tcp_rank (fe_tcp_state f) < tcp_rank s" using tcp_trans_forward(1) * by (simp add: s_def)
  moreover have "fe_tcp_state f \<noteq> TCP_F_STATE_RST" using * tcp_trans_forward(2) by (auto simp: s_def)
  moreover have "fe_tcp_state f = TCP_F_STATE_START \<longrightarrow> s \<noteq> TCP_F_STATE_ESTABLISHED"
    using tcp_trans_forward(3) [OF tcp_event_not_none] by (auto simp: s_def)
  ultimately show ?thesis using *(3,4) by (intro disjI2 exI [of _ s]) (simp add: dlist_addtail_def)
qed simp

definition syn_flow :: flow_entry where
  "syn_flow = (new_flow (snd (flow_mk_key demo_pool 7 demo_header)) 60 1000 True 1 600)\<lparr>fe_tcp_state := TCP_F_STATE_SYN\<rparr>"

theorem tcp_state_forward_witness:
  "\<exists>fm' fmt'. flow_tcp_update_lifetime 0 0x12 (full_table\<lparr>flows := [0 \<mapsto> syn_flow]\<rparr>, idle_cpu) = (fm', fmt')
     \<and> fmt' \<noteq> idle_cpu
     \<and> (\<exists>s. tcp_rank TCP_F_STATE_SYN < tcp_rank s \<and> flows fm' = [0 \<mapsto> syn_flow\<lparr>fe_tcp_state := s, fe_lifetime := tcp_lifetime s\<rparr>])"
proof -
  obtain fm' fmt' where r: "flow_tcp_update_lifetime 0 0x12 (full_table\<lparr>flows := [0 \<mapsto> syn_flow]\<rparr>, idle_cpu) = (fm', fmt')"
    by (cases "flow_tcp_update_lifetime 0 0x12 (full_table\<lparr>flows := [0 \<mapsto> syn_flow]\<rparr>, idle_cpu)")
  then have "slots fmt' 460 = [600]"
    by (auto simp: flow_tcp_update_lifetime_def syn_flow_def new_flow_def tcp_event_def add32_def full_table_def idle_cpu_def
        dlist_addtail_def dlist_remove_def BIT_def)
  then have ne: "fmt' \<noteq> idle_cpu" by (auto simp: idle_cpu_def)
  moreover have "fe_tcp_state syn_flow = TCP_F_STATE_SYN" by (simp add: syn_flow_def)
  ultimately show ?thesis using tcp_state_forward [OF _ r, of syn_flow] r by auto
qed

text \<open>The second packet of the dual loop of \<^verbatim>\<open>upf_flow_process\<close> is looked up with the generation of the session of the first. A
  flow that is created that way is corrected before it is used.\<close>

lemma generation_repaired:
  "load_gtpu_flow_info pdr dir gen (new_flow key l now dir gen' tm) = load_gtpu_flow_info pdr dir gen (new_flow key l now dir gen tm)"
  by (simp add: load_gtpu_flow_info_def new_flow_def flow_next_def flow_pdr_id_def flow_dir_def)

section \<open>The PFCP transaction layer\<close>

text \<open>A server without a session layer, for the examples: VPP takes the smallest free index.\<close>

definition demo_server_lib :: server_lib where
  "demo_server_lib = \<lparr>svr_vlib = demo_lib, svr_pool_index = (\<lambda>A. LEAST i. i \<notin> A),
     svr_session_valid = (\<lambda>h. h = 1), vpe_version_string = []\<rparr>"

definition demo_upper :: "'u upper" where
  "demo_upper = \<lparr>up_handle_msg = (\<lambda>_ _ s. Some (-1, s)), up_release_sessions = (\<lambda>_. Some),
     up_session_urr_timer = (\<lambda>_. Some), up_session_usage_report = (\<lambda>_ _ _. Some), up_session_drop = (\<lambda>_. Some)\<rparr>"

definition server_with :: "'u \<Rightarrow> 'u pfcp_server" where
  "server_with u = \<lparr>psm_seq_no = 0, psm_start_time = 1700000000, psm_now = 0, psm_timer = [],
     psm_msg_pool = Map.empty, psm_msg_pool_len = 0, psm_msg_pool_cache = [], psm_msg_pool_free = [],
     psm_request_q = Map.empty, psm_response_q = Map.empty, psm_free_msgs_by_node = [], psm_expired = [], sent = [],
     gtm_nodes = Map.empty, gtm_node_index_by_ip = Map.empty, gtm_node_index_by_fqdn = Map.empty,
     gtm_node_id = \<lparr>nid_type = 0, nid_ip = 0x0a000001, nid_fqdn = []\<rparr>, gtm_pfcp_spec_version = 16,
     gtm_ueip_pools = [], gtm_nat_pools = [], gtm_upip_res = [], gtm_nwi_name = Map.empty,
     gtm_sessions = Map.empty, gtm_user = u\<rparr>"

definition demo_server :: "unit pfcp_server" where
  "demo_server = server_with ()"

definition demo_dgram :: "bytes \<Rightarrow> dgram" where
  "demo_dgram bs = \<lparr>dg_session_handle = 1, dg_lcl_ip = 0x0a000001, dg_lcl_port = 8805,
     dg_rmt_ip = 0x0a000002, dg_rmt_port = 8805, dg_data = bs\<rparr>"

definition demo_request :: pfcp_msg where
  "demo_request = rx_callback (demo_dgram sample_heartbeat)"

text \<open>A heartbeat request without its recovery time stamp, and an association setup request.\<close>

definition demo_refused :: pfcp_msg where
  "demo_refused = rx_callback (demo_dgram [0x20, 1, 0, 4, 0, 0, 8, 0])"

definition demo_setup :: pfcp_msg where
  "demo_setup = rx_callback (demo_dgram [0x20, 5, 0, 21, 0, 0, 9, 0,
     0, 60, 0, 5, 0, 10, 0, 0, 2, 0, 96, 0, 4, 0xe0, 0, 0, 1])"

text \<open>A server that keeps the response to \<^const>\<open>demo_request\<close>, and the same server in a round in which a
  request of its own with the sequence number 7 has expired.\<close>

definition demo_response :: pfcp_msg where
  "demo_response = (upf_pfcp_make_response zero_msg (received demo_request))
     \<lparr>m_data := [0x20, 2], m_timer := 2, m_is_valid_pool_item := True\<rparr>"

definition demo_answered :: "unit pfcp_server" where
  "demo_answered = demo_server\<lparr>psm_msg_pool := [5 \<mapsto> demo_response],
     psm_response_q := [m_request_key (received demo_request) \<mapsto> 5], psm_timer := [(2, timer_id PFCP_SERVER_RESPONSE 5, 100)]\<rparr>"

definition demo_confused :: "unit pfcp_server" where
  "demo_confused = demo_answered\<lparr>psm_expired := [timer_id PFCP_SERVER_T1 7]\<rparr>"

text \<open>A server with one association, to which a heartbeat is about to be sent, and a server with the
  association that \<^const>\<open>demo_setup\<close> asks for, which has two sessions.\<close>

definition demo_node :: "nat \<Rightarrow> upf_node_assoc" where
  "demo_node sessions = \<lparr>na_node_id = \<lparr>nid_type = 0, nid_ip = 0x0a000002, nid_fqdn = []\<rparr>, na_recovery_time_stamp = 3,
     na_session_handle = 1, na_rmt_addr = 0x0a000002, na_lcl_addr = 0x0a000001, na_sessions = sessions, na_heartbeat_handle = 4\<rparr>"

definition demo_heartbeat :: pfcp_msg where
  "demo_heartbeat = zero_msg\<lparr>m_seq_no := 7, m_session_handle := 1, m_node := 0, m_data := sample_heartbeat,
     m_is_valid_pool_item := True\<rparr>"

definition demo_sending :: "unit pfcp_server" where
  "demo_sending = demo_server\<lparr>psm_msg_pool := [5 \<mapsto> demo_heartbeat], gtm_nodes := [0 \<mapsto> demo_node INVALID],
     gtm_node_index_by_ip := [0x0a000002 \<mapsto> 0]\<rparr>"

definition demo_associated :: "upf_main_t pfcp_server" where
  "demo_associated = (server_with two_sessions)\<lparr>gtm_nodes := [0 \<mapsto> demo_node 1],
     gtm_node_index_by_ip := [0x0a000002 \<mapsto> 0]\<rparr>"

lemmas demo_msg_defs = demo_request_def demo_refused_def demo_setup_def rx_callback_def demo_dgram_def
  accepted_request_def pfcp_msg_version_valid_def pfcp_msg_version_def pfcp_msg_enough_len_def is_request_def
  pfcp_msg_type_def pfcp_msg_length_def pfcp_msg_s_flag_def word_of_be_def plain_response_def

lemma demo_request_header: "pfcp_msg_seq (m_data demo_request) = 7" "m_seq_no demo_response = 7"
  by (simp_all add: pfcp_msg_seq_def pfcp_node_msg_seq_def demo_msg_defs sample_heartbeat_def demo_response_def
      upf_pfcp_make_response_def received_def)

lemma demo_request_accepted: "accepted_request demo_request" "pfcp_msg_type (m_data demo_request) = PFCP_HEARTBEAT_REQUEST"
  by (simp_all add: demo_msg_defs sample_heartbeat_def)

lemma demo_refused_accepted: "accepted_request demo_refused" "plain_response (pfcp_msg_type (m_data demo_refused) + 1)"
  by (simp_all add: demo_msg_defs)

lemma demo_setup_accepted: "accepted_request demo_setup" "pfcp_msg_type (m_data demo_setup) = PFCP_ASSOCIATION_SETUP_REQUEST"
  by (simp_all add: demo_msg_defs)

lemma demo_request_decode:
  "pfcp_decode_msg (svr_vlib demo_server_lib) (m_data demo_request) [] = Some (0, \<lparr>dmsg_type = PFCP_HEARTBEAT_REQUEST,
     dmsg_seq_no = 7, dmsg_seid = 0, dmsg_grp = Group 1 [] [Single (Leaf (V_time_stamp_ie 1549107585))]\<rparr>, [])"
  by (simp add: demo_request_def rx_callback_def demo_dgram_def sample_heartbeat_def decode_eval lookups
      pfcp_heartbeat_request_group_def table_simps codec_defs BITS_def BIT_def)

lemma demo_refused_decode:
  "pfcp_decode_msg (svr_vlib demo_server_lib) (m_data demo_refused) [] = Some (66, \<lparr>dmsg_type = PFCP_HEARTBEAT_REQUEST,
     dmsg_seq_no = 8, dmsg_seid = 0, dmsg_grp = Group 0 [] [Unset]\<rparr>, [96])" "0 < (66 :: int)"
  by (simp_all add: demo_refused_def rx_callback_def demo_dgram_def decode_eval lookups missing_ies_def upt_rec
      pfcp_heartbeat_request_group_def table_simps codec_defs BITS_def BIT_def)

lemma demo_setup_decode:
  "pfcp_decode_msg (svr_vlib demo_server_lib) (m_data demo_setup) [] = Some (0, \<lparr>dmsg_type = PFCP_ASSOCIATION_SETUP_REQUEST,
     dmsg_seq_no = 9, dmsg_seid = 0, dmsg_grp = Group 3 [] (Single (Leaf (V_node_id
       \<lparr>nid_type = 0, nid_ip = 0x0a000002, nid_fqdn = []\<rparr>)) # Single (Leaf (V_time_stamp_ie 1549107585)) #
       [Unset, Unset, Unset, Unset, Unset, Unset])\<rparr>, [])"
proof -
  have specs: "msg_specs PFCP_ASSOCIATION_SETUP_REQUEST = Some (grouped_ie (BITS [ASSOCIATION_SETUP_REQUEST_NODE_ID,
      ASSOCIATION_SETUP_REQUEST_RECOVERY_TIME_STAMP]) pfcp_association_setup_request_group)"
    by (simp add: spec_defs spec_tables)
  show ?thesis
    by (simp add: demo_setup_def rx_callback_def demo_dgram_def decode_eval lookups specs [simplified] upt_rec
      pfcp_association_setup_request_group_def table_simps codec_defs BITS_def BIT_def demo_server_lib_def demo_lib_def)
qed

lemma demo_answered:
  "psm_msg_pool demo_answered 5 = Some demo_response"
  "psm_response_q demo_answered (m_request_key (received demo_request)) = Some 5"
  "psm_timer demo_answered = [(2, timer_id PFCP_SERVER_RESPONSE 5, 100)]"
  "sent demo_answered = []" "psm_msg_pool_free demo_answered = []"
  "m_data demo_response = [0x20, 2]" "m_session_handle demo_response = 1" "m_timer demo_response = 2"
  by (simp_all add: demo_answered_def demo_response_def demo_server_def server_with_def upf_pfcp_make_response_def demo_request_def
      rx_callback_def demo_dgram_def)

lemma demo_server_simps:
  "psm_response_q demo_server k = None" "sent demo_server = []" "psm_start_time demo_server = 1700000000"
  "svr_vlib demo_server_lib = demo_lib"
  by (simp_all add: demo_server_def server_with_def demo_server_lib_def)

lemma demo_transmit: "m_session_handle m = 1 \<Longrightarrow> transmit demo_server_lib m bs = [dgram_of m bs]"
  "m_session_handle demo_request = 1" "m_session_handle demo_refused = 1"
  by (simp_all add: transmit_def demo_server_lib_def demo_msg_defs)

lemma demo_fresh_index: "fresh_index demo_server_lib"
  unfolding fresh_index_def
proof (intro allI impI)
  fix A :: "nat set"
  assume "finite A"
  then obtain a where "a \<notin> A" using ex_new_if_finite [OF infinite_UNIV_nat] by blast
  then show "svr_pool_index demo_server_lib A \<notin> A"
    using LeastI [of "\<lambda>i. i \<notin> A" a] by (simp add: demo_server_lib_def)
qed

lemma demo_server_ok: "cache_ok demo_server"
  by (simp add: cache_ok_def demo_server_def server_with_def)

lemma demo_associated_ok:
  "cache_ok demo_associated" "resources_ok demo_associated" "pools_ok lib demo_associated" "assoc_inv demo_associated"
  "session_view demo_associated = two_sessions" "node_index k demo_associated = (if k = By_ip 0x0a000002 then Some 0 else None)"
proof -
  show index: "node_index k demo_associated = (if k = By_ip 0x0a000002 then Some 0 else None)" for k
    by (cases k) (simp_all add: demo_associated_def server_with_def)
  show "assoc_inv demo_associated"
    by (simp add: assoc_inv_def index) (auto simp: demo_associated_def demo_node_def node_key_def)
  show "session_view demo_associated = two_sessions"
    by (auto simp: session_view_def demo_associated_def server_with_def demo_node_def two_sessions_def no_sessions_def fun_eq_iff)
qed (simp_all add: demo_associated_def server_with_def cache_ok_def resources_ok_def pools_ok_def)

lemma decoded_header:
  assumes "pfcp_decode_msg lib p err = Some (r, d, err')" "0 \<le> r" "p \<noteq> []"
  shows "dmsg_type d = pfcp_msg_type p"
  using assms by (auto simp: pfcp_decode_msg_def Let_def split: if_splits option.splits group_res.splits)

text \<open>C25: a heartbeat request that is well formed and has not been answered yet is answered at once. One
  datagram goes back to the address and port it came from; decoded, it is a heartbeat response with
  the sequence number of the request and the start time of this function as recovery time stamp.
  Associations, sessions and pending requests are left alone.\<close>

theorem heartbeat_answered:
  assumes "accepted_request msg" "pfcp_msg_type (m_data msg) = PFCP_HEARTBEAT_REQUEST"
    and "pfcp_decode_msg (svr_vlib lib) (m_data msg) [] = Some (0, dmsg, err)"
    and "psm_response_q s (m_request_key (received msg)) = None" "cache_ok s"
  shows "\<exists>s' bs resp. upf_pfcp_server_rx_msg lib up msg s = Some (0, s')
    \<and> sent s' = sent s @ transmit lib msg bs
    \<and> pfcp_decode_msg (svr_vlib lib) bs [] = Some (0, resp, [])
    \<and> dmsg_type resp = PFCP_HEARTBEAT_RESPONSE \<and> dmsg_seq_no resp = pfcp_msg_seq (m_data msg)
    \<and> time_stamp_field PFCP_RESPONSE_RECOVERY_TIME_STAMP resp = psm_start_time s
    \<and> same_tables s s'"
proof -
  let ?g = "set_leaf PFCP_RESPONSE_RECOVERY_TIME_STAMP (V_time_stamp_ie (psm_start_time s)) (zero_group PFCP_HEARTBEAT_RESPONSE)"
  let ?resp = "\<lparr>dmsg_type = PFCP_HEARTBEAT_RESPONSE, dmsg_seq_no = pfcp_msg_seq (m_data msg), dmsg_seid = 0, dmsg_grp = ?g\<rparr>"
  obtain bs where bs: "pfcp_encode_msg (svr_vlib lib) ?resp = Done bs" "length bs = 16"
    using heartbeat_response_encode by blast
  have dec: "pfcp_decode_msg (svr_vlib lib) bs [] = Some (0, ?resp, [])"
    by (rule pfcp_msg_roundtrip [OF heartbeat_response_ok bs(1)]) (simp add: bs)
  have ts: "time_stamp_field PFCP_RESPONSE_RECOVERY_TIME_STAMP ?resp = psm_start_time s"
    by (simp add: time_stamp_field_def response_tables empty_group_map set_leaf_def)
  from bs(1) have "pfcp_encode_msg (svr_vlib lib)
      ((request_message PFCP_HEARTBEAT_RESPONSE ?g)\<lparr>dmsg_seq_no := pfcp_msg_seq (m_data (received msg))\<rparr>) = Done bs"
    by (simp add: request_message_def)
  from send_response [OF this assms(5)] obtain s' where
    "upf_pfcp_send_response lib (received msg) (request_message PFCP_HEARTBEAT_RESPONSE ?g) s = Some (0, s')"
    "sent s' = sent s @ transmit lib (received msg) bs" "same_tables s s'" by metis
  with assms dec ts show ?thesis
    by (intro exI [of _ s'] exI [of _ bs] exI [of _ ?resp])
      (simp add: rx_accepted rx_request_def upf_pfcp_handle_msg_def msg_handlers_def handle_heartbeat_request_def)
qed

theorem heartbeat_answered_witness:
  "\<exists>s' bs resp. upf_pfcp_server_rx_msg demo_server_lib demo_upper demo_request demo_server = Some (0, s')
    \<and> sent s' = [dgram_of demo_request bs] \<and> pfcp_decode_msg demo_lib bs [] = Some (0, resp, [])
    \<and> dmsg_type resp = PFCP_HEARTBEAT_RESPONSE \<and> dmsg_seq_no resp = 7
    \<and> time_stamp_field PFCP_RESPONSE_RECOVERY_TIME_STAMP resp = 1700000000"
  using heartbeat_answered [OF demo_request_accepted(1,2) demo_request_decode, of demo_server demo_upper] demo_server_ok(1)
  by (auto simp: demo_request_header demo_transmit demo_server_simps)

text \<open>C26: a request whose response is still kept is answered with the same octets every time it is repeated,
  and no handler sees it again: associations, sessions, pending requests, sequence numbers and the kept
  responses stay as they are, however often the request is repeated.\<close>

theorem repeated_request_answered:
  assumes "accepted_request msg" "psm_response_q s (m_request_key (received msg)) = Some i"
    and "psm_msg_pool s i = Some m"
  shows "\<exists>s'. handle_event lib up (Event_RX (replicate n msg)) s = Some s'
    \<and> sent s' = sent s @ concat (replicate n (transmit lib m (m_data m)))
    \<and> same_tables s s' \<and> psm_response_q s' = psm_response_q s"
  using assms(2,3)
proof (induction n arbitrary: s m)
  case (Suc n)
  from Suc.prems obtain t where t: "rx_request lib up (received msg) s = Some t"
    "sent t = sent s @ transmit lib m (m_data m)" "same_tables s t" "psm_response_q t = psm_response_q s"
    "\<exists>h e. psm_msg_pool t = (psm_msg_pool s)(i \<mapsto> m\<lparr>m_timer := h, m_expires_at := e\<rparr>)"
    by (rule rx_repeated)
  from t(5) obtain h e where m: "psm_msg_pool t i = Some (m\<lparr>m_timer := h, m_expires_at := e\<rparr>)" by auto
  have same: "transmit lib (m\<lparr>m_timer := h, m_expires_at := e\<rparr>) = transmit lib m"
    by (simp add: transmit_def dgram_of_def fun_eq_iff)
  from Suc.IH [OF _ m] Suc.prems t obtain s' where
    "handle_event lib up (Event_RX (replicate n msg)) t = Some s'"
    "sent s' = sent t @ concat (replicate n (transmit lib m (m_data m)))" "same_tables t s'"
    "psm_response_q s' = psm_response_q t" by (auto simp: same)
  with t assms(1) show ?case by (auto simp: event_rx_def rx_accepted intro: same_tables_trans)
qed simp

theorem repeated_request_answered_witness:
  "\<exists>s'. handle_event demo_server_lib demo_upper (Event_RX (replicate 2 demo_request)) demo_answered = Some s'
    \<and> sent s' = [dgram_of demo_response [0x20, 2], dgram_of demo_response [0x20, 2]]"
  using repeated_request_answered [OF demo_request_accepted(1), of demo_answered 5 demo_response demo_server_lib demo_upper 2]
  by (auto simp: demo_answered demo_transmit numeral_2_eq_2)

text \<open>C27: a request is transmitted three times, with the same octets, ten seconds apart. Sending it puts it in the
  queue of pending requests and starts its timer T1: a round of the process finds the timer expired exactly if it begins
  ten seconds after the transmission or later. Each of the first two times the timer expires unanswered,
  the request is transmitted again and the timer is started again, for another ten seconds from then. When it
  expires for the third time the request is taken out of the queue, its message is given back and no timer is left
  running for it; if it was a heartbeat and the association it was sent for still exists, the association is released,
  and nothing else happens otherwise.\<close>

theorem request_sent_three_times:
  assumes "psm_msg_pool s i = Some m" "take_bit 24 (m_seq_no m) = m_seq_no m" "2 \<le> length (m_data m)"
  defines "t1 \<equiv> timer_id PFCP_SERVER_T1 (unat (m_seq_no m))" and "wait \<equiv> 10 * TW_CLOCKS_PER_SECOND"
  assumes "\<not> runs t1 s" "psm_now s + wait \<le> n1" "n1 + wait \<le> n2" "n2 + wait \<le> n3"
  shows "\<exists>s1 s2 s3 m3. upf_pfcp_server_send_request lib i s = Some s1
    \<and> (\<forall>n. t1 \<in> set (psm_expired (next_round n s1)) \<longleftrightarrow> psm_now s + wait \<le> n)
    \<and> timer_expired lib up t1 (p, next_round n1 s1) = Some (p, s2)
    \<and> (\<forall>n. t1 \<in> set (psm_expired (next_round n s2)) \<longleftrightarrow> n1 + wait \<le> n)
    \<and> timer_expired lib up t1 (p, next_round n2 s2) = Some (p, s3)
    \<and> (\<forall>n. t1 \<in> set (psm_expired (next_round n s3)) \<longleftrightarrow> n2 + wait \<le> n)
    \<and> sent s3 = sent s @ transmit lib m (m_data m) @ transmit lib m (m_data m) @ transmit lib m (m_data m)
    \<and> psm_request_q s3 (m_seq_no m) = Some i \<and> psm_msg_pool s3 i = Some m3 \<and> m_node m3 = m_node m
    \<and> gtm_nodes s3 = gtm_nodes s
    \<and> timer_expired lib up t1 (p, next_round n3 s3) = map_option (Pair p)
        (if pfcp_msg_type (m_data m) = PFCP_HEARTBEAT_REQUEST \<and> gtm_nodes s (m_node m) \<noteq> None
         then pfcp_release_association up (m_node m) (give_up i m3 (next_round n3 s3))
         else Some (give_up i m3 (next_round n3 s3)))
    \<and> psm_request_q (give_up i m3 (next_round n3 s3)) (m_seq_no m) = None
    \<and> i \<in> set (psm_msg_pool_free (give_up i m3 (next_round n3 s3)))
    \<and> \<not> runs t1 (give_up i m3 (next_round n3 s3))"
proof -
  let ?q = "m_seq_no m"
  have dispatch: "timer_expired lib up t1 (p, t) = map_option (Pair p) (request_t1_expired lib up ?q t)" for t
    using timer_dispatch(2) [OF unat_seq [OF assms(2)]] by (simp add: t1_def)
  from assms(1) obtain s1 m1 where s1: "upf_pfcp_server_send_request lib i s = Some s1"
    "psm_timer s1 = psm_timer s @ [(m_timer m1, t1, psm_now s + wait)]" "m_t1 m1 = 10"
    "psm_request_q s1 = (psm_request_q s)(?q \<mapsto> i)" "psm_msg_pool s1 = (psm_msg_pool s)(i \<mapsto> m1)"
    "m_n1 m1 = 3" "m_data m1 = m_data m" "dgram_of m1 = dgram_of m" "m_seq_no m1 = ?q" "m_node m1 = m_node m"
    "sent s1 = sent s @ transmit lib m (m_data m)" "gtm_nodes s1 = gtm_nodes s"
    unfolding t1_def wait_def by (rule send_request)
  note e1 = expires_at [OF assms(6) s1(2)]
  have q1: "psm_request_q (next_round n1 s1) ?q = Some i" "psm_msg_pool (next_round n1 s1) i = Some m1" "m_n1 m1 - 1 \<noteq> 0"
    using s1 by simp_all
  from q1 obtain s2 m2 where s2: "request_t1_expired lib up ?q (next_round n1 s1) = Some s2"
    "psm_timer s2 = psm_timer (next_round n1 s1) @ [(m_timer m2, timer_id PFCP_SERVER_T1 (unat (m_seq_no m1)),
       psm_now (next_round n1 s1) + m_t1 m1 * TW_CLOCKS_PER_SECOND)]" "m_t1 m2 = m_t1 m1"
    "psm_request_q s2 = psm_request_q (next_round n1 s1)"
    "psm_msg_pool s2 = (psm_msg_pool (next_round n1 s1))(i \<mapsto> m2)" "m_n1 m2 = m_n1 m1 - 1" "m_data m2 = m_data m1"
    "dgram_of m2 = dgram_of m1" "m_seq_no m2 = m_seq_no m1" "m_node m2 = m_node m1"
    "sent s2 = sent (next_round n1 s1) @ transmit lib m1 (m_data m1)" "gtm_nodes s2 = gtm_nodes (next_round n1 s1)"
    by (rule t1_resend)
  have "psm_timer s2 = psm_timer (next_round n1 s1) @ [(m_timer m2, t1, n1 + wait)]"
    using s2(2) s1(3,9) by (simp add: t1_def wait_def)
  note e2 = expires_at [OF e1(2) [OF assms(7)] this]
  have q2: "psm_request_q (next_round n2 s2) ?q = Some i" "psm_msg_pool (next_round n2 s2) i = Some m2" "m_n1 m2 - 1 \<noteq> 0"
    using s2 q1 s1 by simp_all
  from q2 obtain s3 m3 where s3: "request_t1_expired lib up ?q (next_round n2 s2) = Some s3"
    "psm_timer s3 = psm_timer (next_round n2 s2) @ [(m_timer m3, timer_id PFCP_SERVER_T1 (unat (m_seq_no m2)),
       psm_now (next_round n2 s2) + m_t1 m2 * TW_CLOCKS_PER_SECOND)]" "m_t1 m3 = m_t1 m2"
    "psm_request_q s3 = psm_request_q (next_round n2 s2)"
    "psm_msg_pool s3 = (psm_msg_pool (next_round n2 s2))(i \<mapsto> m3)" "m_n1 m3 = m_n1 m2 - 1" "m_data m3 = m_data m2"
    "dgram_of m3 = dgram_of m2" "m_seq_no m3 = m_seq_no m2" "m_node m3 = m_node m2"
    "sent s3 = sent (next_round n2 s2) @ transmit lib m2 (m_data m2)" "gtm_nodes s3 = gtm_nodes (next_round n2 s2)"
    by (rule t1_resend)
  have "psm_timer s3 = psm_timer (next_round n2 s2) @ [(m_timer m3, t1, n2 + wait)]"
    using s3(2) s2(3,9) s1(3,9) by (simp add: t1_def wait_def)
  note e3 = expires_at [OF e2(2) [OF assms(8)] this]
  let ?s = "next_round n3 s3"
  have q3: "psm_request_q ?s ?q = Some i" "psm_msg_pool ?s i = Some m3" "m_n1 m3 = 1" "2 \<le> length (m_data m3)"
    using s3 q2 s2 s1 assms(3) by simp_all
  have same: "transmit lib m1 = transmit lib m" "transmit lib m2 = transmit lib m"
    using s1 s2 by (auto simp: transmit_def dgram_of_def fun_eq_iff)
  have m3: "m_node m3 = m_node m" "m_data m3 = m_data m" "m_seq_no m3 = ?q" "gtm_nodes s3 = gtm_nodes s"
    "sent s3 = sent s @ transmit lib m (m_data m) @ transmit lib m (m_data m) @ transmit lib m (m_data m)"
    using s1 s2 s3 same by simp_all
  have up3: "psm_request_q (give_up i m3 ?s) ?q = None" "i \<in> set (psm_msg_pool_free (give_up i m3 ?s))"
    "\<not> runs t1 (give_up i m3 ?s)"
    using e3(2) [OF assms(9)] m3(3) by (simp_all add: runs_def give_up_def)
  have d3: "timer_expired lib up t1 (p, ?s) = map_option (Pair p)
        (if pfcp_msg_type (m_data m) = PFCP_HEARTBEAT_REQUEST \<and> gtm_nodes s (m_node m) \<noteq> None
         then pfcp_release_association up (m_node m) (give_up i m3 ?s) else Some (give_up i m3 ?s))"
    using t1_give_up [OF q3, of lib up] by (simp only: dispatch m3 next_round_simps)
  have d12: "timer_expired lib up t1 (p, next_round n1 s1) = Some (p, s2)"
    "timer_expired lib up t1 (p, next_round n2 s2) = Some (p, s3)"
    using s2(1) s3(1) by (simp_all add: dispatch)
  show ?thesis
    by (rule exI [of _ s1], rule exI [of _ s2], rule exI [of _ s3], rule exI [of _ m3], intro conjI allI)
      (rule s1(1) d12 d3 e1(1) e2(1) e3(1) m3(5,1,4) up3 q3(1,2) [unfolded next_round_simps])+
qed

theorem request_sent_three_times_witness:
  "\<exists>s1 s2 s3 s4. upf_pfcp_server_send_request demo_server_lib 5 demo_sending = Some s1
    \<and> timer_expired demo_server_lib demo_upper (timer_id PFCP_SERVER_T1 7) (0, next_round 1000 s1) = Some (0, s2)
    \<and> timer_expired demo_server_lib demo_upper (timer_id PFCP_SERVER_T1 7) (0, next_round 2005 s2) = Some (0, s3)
    \<and> sent s3 = replicate 3 (dgram_of demo_heartbeat sample_heartbeat) \<and> gtm_nodes demo_sending 0 \<noteq> None
    \<and> timer_expired demo_server_lib demo_upper (timer_id PFCP_SERVER_T1 7) (0, next_round 3100 s3) = Some (0, s4)
    \<and> gtm_nodes s4 0 = None"
proof -
  have m: "psm_msg_pool demo_sending 5 = Some demo_heartbeat" "m_seq_no demo_heartbeat = 7" "m_data demo_heartbeat = sample_heartbeat"
    "\<not> runs (timer_id PFCP_SERVER_T1 7) demo_sending" "psm_now demo_sending = 0" "sent demo_sending = []"
    "m_node demo_heartbeat = 0" "gtm_nodes demo_sending 0 \<noteq> None" "m_session_handle demo_heartbeat = 1"
    by (simp_all add: demo_sending_def demo_heartbeat_def demo_server_def server_with_def zero_msg_def runs_def)
  obtain s1 s2 s3 m3 where s: "upf_pfcp_server_send_request demo_server_lib 5 demo_sending = Some s1"
    "timer_expired demo_server_lib demo_upper (timer_id PFCP_SERVER_T1 7) (0, next_round 1000 s1) = Some (0, s2)"
    "timer_expired demo_server_lib demo_upper (timer_id PFCP_SERVER_T1 7) (0, next_round 2005 s2) = Some (0, s3)"
    "sent s3 = replicate 3 (dgram_of demo_heartbeat sample_heartbeat)"
    "timer_expired demo_server_lib demo_upper (timer_id PFCP_SERVER_T1 7) (0, next_round 3100 s3) = map_option (Pair 0)
        (pfcp_release_association demo_upper 0 (give_up 5 m3 (next_round 3100 s3)))" "gtm_nodes s3 = gtm_nodes demo_sending"
    using request_sent_three_times [of demo_sending 5 demo_heartbeat 1000 2005 3100 demo_server_lib demo_upper 0] m
    by (auto simp: sample_heartbeat_header demo_transmit numeral_3_eq_3)
  have "gtm_nodes (give_up 5 m3 (next_round 3100 s3)) 0 \<noteq> None"
    using s(6) m(8) by (simp add: give_up_def)
  then obtain s4 where "pfcp_release_association demo_upper 0 (give_up 5 m3 (next_round 3100 s3)) = Some s4"
    "gtm_nodes s4 0 = None"
    by (auto simp: pfcp_release_association_def demo_upper_def Let_def)
  with s m(8) show ?thesis by auto
qed

text \<open>C28: the table of associations implements a map from node ids to associations. An association setup
  request that is well formed and not yet answered returns, keeps the table and its two indices consistent, and
  is an update of the map: the association of the node id in the request is replaced by one with the recovery
  time stamp of the request and the addresses it came with, and every other association is unchanged. The
  sessions of the association that is replaced, and no others, are freed, no entry of the tables of SEIDs and tunnels
  leads to one of them any more, and the lists of sessions of all associations stay well formed. The
  answer is kept for repetitions of the request. Assumed are the consistency of the tables before, that the new
  index of an association is unused, and that the memory behind the vectors has room for what the encoder of the
  identities of address pools copies too much.\<close>

theorem association_setup_refines_map:
  assumes "accepted_request msg" "pfcp_msg_type (m_data msg) = PFCP_ASSOCIATION_SETUP_REQUEST"
    and "pfcp_decode_msg (svr_vlib lib) (m_data msg) [] = Some (0, dmsg, err)"
    and "psm_response_q s (m_request_key (received msg)) = None"
    and "cache_ok s" "resources_ok s" "pools_ok (svr_vlib lib) s" "assoc_inv s" "fresh_index lib"
    and "nid = node_id_field ASSOCIATION_SETUP_REQUEST_NODE_ID dmsg" "node_key nid = Some k"
    and "old = (case node_index k s of Some ni \<Rightarrow> L ni | None \<Rightarrow> [])"
    and "session_lists (session_view s) L" "releasable (session_view s) old"
    and "\<forall>x \<in> set old. entries_known (session_view s) x"
  shows "\<exists>s' h. upf_pfcp_server_rx_msg lib (session_upper slib up) msg s = Some (0, s') \<and> assoc_inv s'
    \<and> associations s' = (associations s)(k \<mapsto> \<lparr>na_node_id = nid,
        na_recovery_time_stamp = time_stamp_field ASSOCIATION_SETUP_REQUEST_RECOVERY_TIME_STAMP dmsg,
        na_session_handle = m_session_handle msg, na_rmt_addr = m_rmt_address msg, na_lcl_addr = m_lcl_address msg,
        na_sessions = INVALID, na_heartbeat_handle = h\<rparr>)
    \<and> g_sessions (gtm_user s') = (\<lambda>x. if x \<in> set old then None else g_sessions (gtm_user s) x)
    \<and> (\<forall>x \<in> set old. no_entries (gtm_user s') x)
    \<and> session_lists (session_view s') (\<lambda>n. if node_index k s = Some n then [] else L n)
    \<and> psm_response_q s' (m_request_key (received msg)) \<noteq> None"
proof -
  let ?up = "session_upper slib up"
  have rel: "release_ok ?up ni s" if "node_index k s = Some ni" for ni
    using session_upper_release_ok [OF assms(13), of ni] assms(12,14,15) that by simp
  obtain t s' i n where s': "handle_association_setup_request lib ?up (received msg) dmsg s = Some (0, s')"
    "psm_response_q s' = (psm_response_q s)(m_request_key (received msg) \<mapsto> i)"
    and t: "(case node_index k s of Some ni \<Rightarrow> pfcp_release_association ?up ni s | None \<Rightarrow> Some s) = Some t"
    and user: "gtm_user s' = gtm_user t"
    and n: "na_sessions n = INVALID" "gtm_nodes s' = (gtm_nodes t)(svr_pool_index lib (dom (gtm_nodes t)) \<mapsto> n)"
    using setup_request_returns [OF assms(5-8) rel assms(10,11)] by metis
  have lists: "g_sessions (gtm_user t) = (\<lambda>x. if x \<in> set old then None else g_sessions (gtm_user s) x)
      \<and> (\<forall>x \<in> set old. no_entries (gtm_user t) x) \<and> finite (dom (gtm_nodes t))
      \<and> session_lists (session_view t) (\<lambda>n. if node_index k s = Some n then [] else L n)"
    using replaced_sessions [OF assms(8,13,12,14,15) t] .
  then have "session_lists (session_view s') (\<lambda>n. if node_index k s = Some n then [] else L n)"
    using session_lists_added [OF _ user n(2) _ n(1)] assms(9) by (auto simp: fresh_index_def)
  with setup_request [OF s'(1) assms(8,9) rel assms(10,11)] lists user assms(1-4) s' show ?thesis
    by (simp add: rx_accepted rx_request_def upf_pfcp_handle_msg_def msg_handlers_def)
qed

theorem association_setup_refines_map_witness:
  "\<exists>s' h. upf_pfcp_server_rx_msg demo_server_lib (session_upper vpp_lib demo_upper) demo_setup demo_associated = Some (0, s')
    \<and> assoc_inv s' \<and> associations s' = (associations demo_associated)(By_ip 0x0a000002 \<mapsto>
        \<lparr>na_node_id = \<lparr>nid_type = 0, nid_ip = 0x0a000002, nid_fqdn = []\<rparr>, na_recovery_time_stamp = 1549107585,
         na_session_handle = 1, na_rmt_addr = 0x0a000002, na_lcl_addr = 0x0a000001,
         na_sessions = INVALID, na_heartbeat_handle = h\<rparr>)
    \<and> g_sessions two_sessions 1 \<noteq> None \<and> g_sessions (gtm_user s') 1 = None \<and> no_entries (gtm_user s') 1"
proof -
  have known: "\<forall>x \<in> set [1, 0]. entries_known two_sessions x"
    by (auto simp: entries_known_def two_sessions_def no_sessions_def new_session_def pfcp_get_rules_def zero_rules_def
        Let_def split: if_splits)
  have key: "node_key (node_id_field ASSOCIATION_SETUP_REQUEST_NODE_ID \<lparr>dmsg_type = PFCP_ASSOCIATION_SETUP_REQUEST,
     dmsg_seq_no = 9, dmsg_seid = 0, dmsg_grp = Group 3 [] (Single (Leaf (V_node_id
       \<lparr>nid_type = 0, nid_ip = 0x0a000002, nid_fqdn = []\<rparr>)) # Single (Leaf (V_time_stamp_ie 1549107585)) #
       [Unset, Unset, Unset, Unset, Unset, Unset])\<rparr>) = Some (By_ip 0x0a000002)"
    by (simp add: node_id_field_def node_key_def)
  have q: "psm_response_q demo_associated x = None" for x by (simp add: demo_associated_def server_with_def)
  have sess: "g_sessions two_sessions 1 \<noteq> None" by (simp add: two_sessions_def)
  from association_setup_refines_map [OF demo_setup_accepted demo_setup_decode q demo_associated_ok(1-4) demo_fresh_index refl key,
      of "[1, 0]" "\<lambda>n. if n = 0 then [1, 0] else []" vpp_lib demo_upper]
    two_sessions_lists known sess show ?thesis
    by (auto simp: demo_associated_ok node_id_field_def time_stamp_field_def demo_setup_def rx_callback_def demo_dgram_def)
qed

text \<open>C29: a heartbeat request, or a request that modifies, deletes or reports on a session, that the decoder refuses
  with a cause is answered. The response decodes without error, has the type and the sequence number that
  belong to the request, and states the cause and, if the decoder named any, the first offending element.\<close>

theorem refused_request_answered:
  assumes "accepted_request msg" "plain_response (pfcp_msg_type (m_data msg) + 1)"
    and "pfcp_decode_msg (svr_vlib lib) (m_data msg) [] = Some (r, dmsg, err)" "0 < r"
    and "psm_response_q s (m_request_key (received msg)) = None" "cache_ok s"
  shows "\<exists>s' bs resp. upf_pfcp_server_rx_msg lib up msg s = Some (0, s')
    \<and> sent s' = sent s @ transmit lib msg bs
    \<and> pfcp_decode_msg (svr_vlib lib) bs [] = Some (0, resp, [])
    \<and> dmsg_type resp = pfcp_msg_type (m_data msg) + 1 \<and> dmsg_seq_no resp = pfcp_msg_seq (m_data msg)
    \<and> grp_slots (dmsg_grp resp) ! PFCP_RESPONSE_CAUSE = Single (Leaf (V_u8_ie (of_int r)))
    \<and> grp_slots (dmsg_grp resp) ! PFCP_RESPONSE_OFFENDING_IE =
        (case err of [] \<Rightarrow> Unset | e # _ \<Rightarrow> Single (Leaf (V_u16_ie (of_nat e))))
    \<and> same_tables s s'"
proof -
  let ?type = "pfcp_msg_type (m_data msg)"
  let ?g = "simple_response s (?type + 1) r err"
  let ?resp = "\<lparr>dmsg_type = ?type + 1, dmsg_seq_no = pfcp_msg_seq (m_data msg), dmsg_seid = 0, dmsg_grp = ?g\<rparr>"
  obtain bs where bs: "pfcp_encode_msg (svr_vlib lib) ?resp = Done bs" "length bs < 2 ^ 16 + 4"
    using simple_response_encode [OF assms(2)] by blast
  note dec = pfcp_msg_roundtrip [OF simple_response_ok [OF assms(2)] bs, of "[]"]
  note slots = simple_response_slots [OF assms(2), of s r err]
  have type: "dmsg_type dmsg = ?type"
    by (rule decoded_header [OF assms(3)]) (use assms(1,4) in \<open>auto simp: accepted_request_def\<close>)
  from bs(1) have "pfcp_encode_msg (svr_vlib lib) (\<lparr>dmsg_type = ?type + 1, dmsg_seq_no = 0, dmsg_seid = 0, dmsg_grp = ?g\<rparr>
      \<lparr>dmsg_seq_no := pfcp_msg_seq (m_data (received msg))\<rparr>) = Done bs" by simp
  from send_response [OF this assms(6)] obtain s' where
    "upf_pfcp_send_response lib (received msg)
       \<lparr>dmsg_type = ?type + 1, dmsg_seq_no = 0, dmsg_seid = 0, dmsg_grp = ?g\<rparr> s = Some (0, s')"
    "sent s' = sent s @ transmit lib (received msg) bs" "same_tables s s'" by metis
  moreover have "msg_handlers lib up ?type \<noteq> None" "?type \<in> {PFCP_HEARTBEAT_REQUEST, PFCP_SESSION_MODIFICATION_REQUEST,
      PFCP_SESSION_DELETION_REQUEST, PFCP_SESSION_REPORT_REQUEST}"
    using assms(2) by (auto simp: plain_response_def msg_handlers_def)
  ultimately have "upf_pfcp_server_rx_msg lib up msg s = Some (0, s')"
    using assms type by (auto simp: rx_accepted rx_request_def upf_pfcp_handle_msg_def send_simple_response_def)
  with \<open>sent s' = sent s @ transmit lib (received msg) bs\<close> \<open>same_tables s s'\<close> dec slots show ?thesis
    by (intro exI [of _ s'] exI [of _ bs] exI [of _ ?resp]) simp
qed

theorem refused_request_answered_witness:
  "\<exists>s' bs resp. upf_pfcp_server_rx_msg demo_server_lib demo_upper demo_refused demo_server = Some (0, s')
    \<and> sent s' = [dgram_of demo_refused bs] \<and> pfcp_decode_msg demo_lib bs [] = Some (0, resp, [])
    \<and> grp_slots (dmsg_grp resp) ! PFCP_RESPONSE_CAUSE = Single (Leaf (V_u8_ie 66))
    \<and> grp_slots (dmsg_grp resp) ! PFCP_RESPONSE_OFFENDING_IE = Single (Leaf (V_u16_ie 96))"
  using refused_request_answered [OF demo_refused_accepted demo_refused_decode, of demo_server demo_upper] demo_server_ok(1)
  by (auto simp: demo_transmit demo_server_simps)

text \<open>C30: the timer of a kept response and the timer T1 of a request of this function are told apart by nothing but
  a number, and the sequence number of a response was chosen by the peer. If a request is repeated in
  the round in which T1 of the pending request with the same sequence number expires, that expiry is dropped,
  so that the request is not transmitted again, and the old timer of the response keeps running beside
  the new one; when both expire, the message is given back twice.\<close>

theorem response_timer_confused:
  assumes "psm_msg_pool s i = Some m" "m_timer m \<noteq> INVALID" "i < 2 ^ 24" "take_bit 24 (m_seq_no m) = m_seq_no m"
    and "timer_id PFCP_SERVER_T1 (unat (m_seq_no m)) \<in> set (psm_expired s)"
    and "(m_timer m, timer_id PFCP_SERVER_RESPONSE i, at) \<in> set (psm_timer s)"
  shows "\<exists>s' s1 s2. restart_response_timer lib i s = Some s'
    \<and> timer_id PFCP_SERVER_T1 (unat (m_seq_no m)) \<notin> set (psm_expired s')
    \<and> (m_timer m, timer_id PFCP_SERVER_RESPONSE i, at) \<in> set (psm_timer s')
    \<and> (\<exists>h. (h, timer_id PFCP_SERVER_RESPONSE i, psm_now s + RESPONSE_TIMEOUT * TW_CLOCKS_PER_SECOND) \<in> set (psm_timer s'))
    \<and> timer_expired lib up (timer_id PFCP_SERVER_RESPONSE i) (p, s') = Some (p, s1)
    \<and> timer_expired lib up (timer_id PFCP_SERVER_RESPONSE i) (p, s1) = Some (p, s2)
    \<and> psm_msg_pool_free s2 = psm_msg_pool_free s @ [i, i]"
proof -
  have valid: "timer_id PFCP_SERVER_T1 (unat (m_seq_no m)) \<noteq> INVALID"
    using timer_id_valid [OF unat_seq [OF assms(4)]] by simp
  show ?thesis
    using assms(1,2,5,6) valid
    by (simp add: restart_response_timer_def upf_pfcp_server_stop_msg_timer_def start_response_timer_def
        timer_dispatch [OF assms(3)] response_expired_def pfcp_msg_pool_put_def server_defs Let_def list_ex_iff)
      blast
qed

theorem response_timer_confused_witness:
  "\<exists>s' s1 s2. restart_response_timer demo_server_lib 5 demo_confused = Some s'
    \<and> timer_id PFCP_SERVER_T1 7 \<notin> set (psm_expired s')
    \<and> (2, timer_id PFCP_SERVER_RESPONSE 5, 100) \<in> set (psm_timer s')
    \<and> timer_expired demo_server_lib demo_upper (timer_id PFCP_SERVER_RESPONSE 5) (0, s') = Some (0, s1)
    \<and> timer_expired demo_server_lib demo_upper (timer_id PFCP_SERVER_RESPONSE 5) (0, s1) = Some (0, s2)
    \<and> psm_msg_pool_free s2 = [5, 5]"
  using response_timer_confused [of demo_confused 5 demo_response 100 demo_server_lib demo_upper 0]
  by (auto simp: demo_confused_def demo_answered demo_request_header)

text \<open>C31: the receive buffer is one octet longer than the datagram it was filled from, and that octet is zero. Of the
  datagrams that are shorter than their header announces, those that lack more than one octet are
  dropped, and those that lack exactly one octet pass all length checks of the server; a request
  among them is processed as if its last octet had been zero.\<close>

theorem truncated_datagram_accepted:
  assumes "8 \<le> length (dg_data d)" "\<not> pfcp_msg_s_flag (dg_data d)" "pfcp_msg_version_valid (dg_data d)"
    and "length (dg_data d) < pfcp_msg_length (dg_data d) + 4"
  shows "if length (dg_data d) + 1 = pfcp_msg_length (dg_data d) + 4
    then is_request (pfcp_msg_type (dg_data d)) \<longrightarrow> accepted_request (rx_callback d) \<and> m_data (rx_callback d) = dg_data d @ [0]
    else upf_pfcp_server_rx_msg lib up (rx_callback d) s = Some (-1, s)"
proof -
  have header: "pfcp_msg_s_flag (dg_data d @ [0]) = pfcp_msg_s_flag (dg_data d)"
    "pfcp_msg_version (dg_data d @ [0]) = pfcp_msg_version (dg_data d)"
    "pfcp_msg_length (dg_data d @ [0]) = pfcp_msg_length (dg_data d)"
    "pfcp_msg_type (dg_data d @ [0]) = pfcp_msg_type (dg_data d)"
    using assms(1) by (auto simp: pfcp_msg_s_flag_def pfcp_msg_version_def pfcp_msg_length_def pfcp_msg_type_def nth_append)
  then show ?thesis
    using assms by (auto simp: accepted_request_def rx_callback_def upf_pfcp_server_rx_msg_def
        pfcp_msg_version_valid_def pfcp_msg_enough_len_def Let_def)
qed

theorem truncated_datagram_accepted_witness:
  "accepted_request (rx_callback (demo_dgram (butlast sample_heartbeat)))
   \<and> upf_pfcp_server_rx_msg demo_server_lib demo_upper (rx_callback (demo_dgram (take 14 sample_heartbeat))) demo_server
       = Some (-1, demo_server)"
  using truncated_datagram_accepted [of "demo_dgram (butlast sample_heartbeat)" demo_server_lib demo_upper demo_server]
    truncated_datagram_accepted [of "demo_dgram (take 14 sample_heartbeat)" demo_server_lib demo_upper demo_server]
  by (simp add: demo_dgram_def sample_heartbeat_def pfcp_msg_s_flag_def pfcp_msg_version_valid_def pfcp_msg_version_def
      pfcp_msg_length_def pfcp_msg_type_def word_of_be_def is_request_def)

end
